(* ===== verification/Prelude.thy ===== *)
theory Prelude
  imports Main "HOL-Library.Word" "HOL-Library.Char_ord" "HOL-Library.Code_Target_Nat"
    "HOL-Library.Code_Target_Int"
begin

text \<open>
  The vocabulary every component of the model shares: Python results as sums (an exception is
  the left value, which rolls the transaction back), Python strings as lists of Unicode code
  points, UUIDs as 128-bit words, and the lemmas on lists and options the component proofs use.
\<close>

section \<open>Fact collections\<close>

named_theorems result_simps \<open>inversion of successful results\<close>
named_theorems table_simps \<open>queries and updates of tables\<close>
named_theorems frame_simps \<open>fields an operation leaves alone\<close>

section \<open>Results: an exception or a value\<close>

type_synonym ('e, 'a) result = "'e + 'a"

definition bindE :: "('e, 'a) result \<Rightarrow> ('a \<Rightarrow> ('e, 'b) result) \<Rightarrow> ('e, 'b) result" where
  "bindE r f = (case r of Inl e \<Rightarrow> Inl e | Inr x \<Rightarrow> f x)"

definition require :: "bool \<Rightarrow> 'e \<Rightarrow> ('e, unit) result" where
  "require c e = (if c then Inr () else Inl e)"

definition the_or :: "'a option \<Rightarrow> 'e \<Rightarrow> ('e, 'a) result" where
  "the_or x e = (case x of None \<Rightarrow> Inl e | Some v \<Rightarrow> Inr v)"

primrec mapE :: "('a \<Rightarrow> ('e, 'b) result) \<Rightarrow> 'a list \<Rightarrow> ('e, 'b list) result" where
  "mapE f [] = Inr []"
| "mapE f (x # xs) = bindE (f x) (\<lambda>y. bindE (mapE f xs) (\<lambda>ys. Inr (y # ys)))"

primrec foldE :: "('s \<Rightarrow> 'a \<Rightarrow> ('e, 's) result) \<Rightarrow> 's \<Rightarrow> 'a list \<Rightarrow> ('e, 's) result" where
  "foldE f s [] = Inr s"
| "foldE f s (x # xs) = bindE (f s x) (\<lambda>s'. foldE f s' xs)"

lemma bindE_Inr [simp]: "bindE (Inr x) f = f x"
  by (simp add: bindE_def)

lemma bindE_Inl [simp]: "bindE (Inl e) f = Inl e"
  by (simp add: bindE_def)

lemma bindE_eq_Inr [result_simps]: "bindE r f = Inr y \<longleftrightarrow> (\<exists>x. r = Inr x \<and> f x = Inr y)"
  by (cases r) simp_all

lemma bindE_eq_Inl: "bindE r f = Inl e \<longleftrightarrow> r = Inl e \<or> (\<exists>x. r = Inr x \<and> f x = Inl e)"
  by (cases r) simp_all

lemma require_eq_Inr [result_simps]: "require c e = Inr u \<longleftrightarrow> c"
  by (simp add: require_def)

lemma require_eq_Inl [simp]: "require c e = Inl e' \<longleftrightarrow> \<not> c \<and> e' = e"
  by (auto simp: require_def)

lemma require_True [simp]: "c \<Longrightarrow> require c e = Inr ()"
  by (simp add: require_def)

lemma require_False [simp]: "\<not> c \<Longrightarrow> require c e = Inl e"
  by (simp add: require_def)

lemma the_or_eq_Inr [result_simps]: "the_or x e = Inr v \<longleftrightarrow> x = Some v"
  by (cases x) (simp_all add: the_or_def)

lemma the_or_simps [simp]: "the_or None e = Inl e" "the_or (Some v) e = Inr v"
  by (simp_all add: the_or_def)

lemma if_eq_Inr [result_simps]:
  "(if c then Inl e else r) = Inr y \<longleftrightarrow> \<not> c \<and> r = Inr y"
  "(if c then r else Inl e) = Inr y \<longleftrightarrow> c \<and> r = Inr y"
  by simp_all

lemma mapE_Inr_iff: "mapE f xs = Inr ys \<longleftrightarrow> list_all2 (\<lambda>x y. f x = Inr y) xs ys"
proof (induction xs arbitrary: ys)
  case Nil
  show ?case by auto
next
  case (Cons x xs)
  then show ?case by (cases ys) (auto simp: bindE_eq_Inr)
qed

lemma mapE_total:
  assumes "\<And>x. x \<in> set xs \<Longrightarrow> f x = Inr (g x)"
  shows "mapE f xs = Inr (map g xs)"
  using assms by (induction xs) simp_all

lemma foldE_inv:
  assumes step: "\<And>s x s'. x \<in> set xs \<Longrightarrow> P s \<Longrightarrow> f s x = Inr s' \<Longrightarrow> P s'"
    and run: "foldE f s xs = Inr s'" and start: "P s"
  shows "P s'"
  using assms
proof (induction xs arbitrary: s)
  case (Cons x xs)
  then obtain s1 where "f s x = Inr s1" "foldE f s1 xs = Inr s'" by (auto simp: bindE_eq_Inr)
  moreover have "P s1" using Cons.prems(1) [of x s s1] Cons.prems(3) calculation(1) by simp
  moreover have "\<And>s z t. z \<in> set xs \<Longrightarrow> P s \<Longrightarrow> f s z = Inr t \<Longrightarrow> P t"
    by (rule Cons.prems(1)) simp_all
  ultimately show ?case using Cons.IH by blast
qed simp

lemma foldE_append:
  "foldE f s (xs @ ys) = bindE (foldE f s xs) (\<lambda>s'. foldE f s' ys)"
  by (induction xs arbitrary: s) (auto simp: bindE_def split: sum.splits)

lemma foldl_inv:
  assumes "\<And>s x. x \<in> set xs \<Longrightarrow> P s \<Longrightarrow> P (f s x)" and "P s"
  shows "P (foldl f s xs)"
  using assms by (induction xs arbitrary: s) auto

section \<open>Python strings\<close>

text \<open>
  A Python \<open>str\<close> is a list of code points (surrogates included); \<open>lit\<close> embeds an ASCII
  literal.  \<open>py_strip\<close> is \<open>str.strip()\<close>, over the code points \<open>str.isspace\<close> accepts.
\<close>

type_synonym pystr = "nat list"

definition lit :: "string \<Rightarrow> pystr" where
  "lit cs = map of_char cs"

lemma lit_eq_iff [simp]: "lit a = lit b \<longleftrightarrow> a = b"
proof
  assume "lit a = lit b"
  then have "map (of_char :: char \<Rightarrow> nat) a = map of_char b" by (simp add: lit_def)
  then show "a = b"
    using inj_map_eq_map [of "of_char :: char \<Rightarrow> nat"] by (simp add: inj_def)
qed simp

lemma lit_Nil_iff [simp]: "lit a = [] \<longleftrightarrow> a = []"
  by (simp add: lit_def)

lemma length_lit [simp]: "length (lit a) = length a"
  by (simp add: lit_def)

definition py_space :: "nat \<Rightarrow> bool" where
  "py_space c \<longleftrightarrow> (9 \<le> c \<and> c \<le> 13) \<or> (28 \<le> c \<and> c \<le> 32) \<or> c = 133 \<or> c = 160 \<or> c = 5760
     \<or> (8192 \<le> c \<and> c \<le> 8202) \<or> c = 8232 \<or> c = 8233 \<or> c = 8239 \<or> c = 8287 \<or> c = 12288"

definition py_strip :: "pystr \<Rightarrow> pystr" where
  "py_strip cs = rev (dropWhile py_space (rev (dropWhile py_space cs)))"

lemma hd_dropWhile_not: "dropWhile P xs \<noteq> [] \<Longrightarrow> \<not> P (hd (dropWhile P xs))"
  by (induction xs) auto

lemma dropWhile_idem_rev:
  "dropWhile P (rev (dropWhile P (rev (dropWhile P xs)))) = rev (dropWhile P (rev (dropWhile P xs)))"
proof (cases "rev (dropWhile P (rev (dropWhile P xs)))")
  case (Cons y ys)
  let ?d = "dropWhile P xs"
  have d: "?d \<noteq> []"
  proof
    assume "?d = []"
    then show False using Cons by (simp only: rev.simps dropWhile.simps) simp
  qed
  have "y = hd ?d"
  proof -
    have "dropWhile P (rev ?d) \<noteq> []" using Cons by auto
    moreover obtain zs where "rev ?d = zs @ dropWhile P (rev ?d)"
      by (metis takeWhile_dropWhile_id)
    ultimately have "last (dropWhile P (rev ?d)) = last (rev ?d)"
      by (metis last_appendR)
    then show ?thesis using Cons d \<open>dropWhile P (rev ?d) \<noteq> []\<close>
      by (metis hd_rev last_rev list.sel(1))
  qed
  then have "\<not> P y" using hd_dropWhile_not [OF d] by simp
  then show ?thesis using Cons by simp
next
  case Nil
  show ?thesis by (simp only: Nil dropWhile.simps)
qed

lemma py_strip_idem [simp]: "py_strip (py_strip cs) = py_strip cs"
  by (simp add: py_strip_def dropWhile_idem_rev)

lemma py_strip_Nil [simp]: "py_strip [] = []"
  by (simp add: py_strip_def)

lemma length_py_strip: "length (py_strip cs) \<le> length cs"
  unfolding py_strip_def
  by (metis length_dropWhile_le length_rev order_trans)

lemma py_strip_hd: "py_strip cs \<noteq> [] \<Longrightarrow> \<not> py_space (hd (py_strip cs))"
  by (metis hd_dropWhile_not py_strip_idem py_strip_def rev.simps(1) dropWhile_idem_rev)

lemma py_strip_last: "py_strip cs \<noteq> [] \<Longrightarrow> \<not> py_space (last (py_strip cs))"
  unfolding py_strip_def using hd_dropWhile_not [of py_space] by (simp add: last_rev)

section \<open>Identifiers and time\<close>

text \<open>
  \<open>uuid.UUID\<close> is a 128-bit integer (its order and its text order agree); a timezone-aware
  \<open>datetime\<close> is the number of microseconds since 1970-01-01T00:00:00Z.
\<close>

type_synonym uuid = "128 word"
type_synonym time = int

section \<open>Lists\<close>

lemma filter_map_upd:
  "(\<And>x. x \<in> set xs \<Longrightarrow> P (f x) = P x) \<Longrightarrow> filter P (map f xs) = map f (filter P xs)"
  by (induction xs) auto

definition opt_list :: "'a option \<Rightarrow> 'a list" where
  "opt_list x = (case x of None \<Rightarrow> [] | Some v \<Rightarrow> [v])"

definition maximum :: "int list \<Rightarrow> int option" where
  "maximum xs = (if xs = [] then None else Some (Max (set xs)))"

lemma maximum_ge: "maximum xs = Some m \<Longrightarrow> x \<in> set xs \<Longrightarrow> x \<le> m"
  by (auto simp: maximum_def split: if_splits)

lemma maximum_in: "maximum xs = Some m \<Longrightarrow> m \<in> set xs"
  by (auto simp: maximum_def split: if_splits)

lemma maximum_None [simp]: "maximum xs = None \<longleftrightarrow> xs = []"
  by (simp add: maximum_def)

lemma maximum_code [code]:
  "maximum [] = None"
  "maximum (x # xs) = Some (fold max xs x)"
  by (simp_all add: maximum_def Max.set_eq_fold [symmetric])

text \<open>\<open>ORDER BY key DESC LIMIT 1\<close>: the first row of the largest key.\<close>

fun latest_by :: "('a \<Rightarrow> int) \<Rightarrow> 'a list \<Rightarrow> 'a option" where
  "latest_by k [] = None"
| "latest_by k (x # xs) =
     (case latest_by k xs of None \<Rightarrow> Some x | Some y \<Rightarrow> if k y \<le> k x then Some x else Some y)"

lemma latest_by_None [simp]: "latest_by k xs = None \<longleftrightarrow> xs = []"
  by (cases xs) (auto split: option.splits)

lemma latest_by_in: "latest_by k xs = Some x \<Longrightarrow> x \<in> set xs"
  by (induction xs arbitrary: x) (auto split: option.splits if_splits)

lemma latest_by_ge: "latest_by k xs = Some x \<Longrightarrow> y \<in> set xs \<Longrightarrow> k y \<le> k x"
proof (induction xs arbitrary: x y)
  case (Cons z zs)
  show ?case
  proof (cases "latest_by k zs")
    case None
    then show ?thesis using Cons.prems by simp
  next
    case (Some w)
    have "\<forall>y\<in>set zs. k y \<le> k w" using Cons.IH [OF Some] by blast
    then show ?thesis using Cons.prems Some by (auto split: if_splits)
  qed
qed simp

end
