(* ===== verification/Sha256.thy ===== *)
theory Sha256
  imports Prelude
begin

unbundle bit_operations_syntax

text \<open>
  \<open>hashlib.sha256(data).hexdigest()\<close> of the standard library: FIPS 180-4 on 32-bit words.  The
  digests of the model are these digests; no property assumes that the function is injective.
\<close>

section \<open>The compression function\<close>

type_synonym w32 = "32 word"

definition sha_k :: "w32 list" where
  "sha_k =
    [1116352408, 1899447441, 3049323471, 3921009573, 961987163, 1508970993, 2453635748, 2870763221,
     3624381080, 310598401, 607225278, 1426881987, 1925078388, 2162078206, 2614888103, 3248222580,
     3835390401, 4022224774, 264347078, 604807628, 770255983, 1249150122, 1555081692, 1996064986,
     2554220882, 2821834349, 2952996808, 3210313671, 3336571891, 3584528711, 113926993, 338241895,
     666307205, 773529912, 1294757372, 1396182291, 1695183700, 1986661051, 2177026350, 2456956037,
     2730485921, 2820302411, 3259730800, 3345764771, 3516065817, 3600352804, 4094571909, 275423344,
     430227734, 506948616, 659060556, 883997877, 958139571, 1322822218, 1537002063, 1747873779,
     1955562222, 2024104815, 2227730452, 2361852424, 2428436474, 2756734187, 3204031479, 3329325298]"

type_synonym sha_state = "w32 list"

definition sha_init :: sha_state where
  "sha_init =
    [1779033703, 3144134277, 1013904242, 2773480762,
     1359893119, 2600822924, 528734635, 1541459225]"

definition small_sigma0 :: "w32 \<Rightarrow> w32" where
  "small_sigma0 x = word_rotr 7 x XOR word_rotr 18 x XOR drop_bit 3 x"

definition small_sigma1 :: "w32 \<Rightarrow> w32" where
  "small_sigma1 x = word_rotr 17 x XOR word_rotr 19 x XOR drop_bit 10 x"

definition big_sigma0 :: "w32 \<Rightarrow> w32" where
  "big_sigma0 x = word_rotr 2 x XOR word_rotr 13 x XOR word_rotr 22 x"

definition big_sigma1 :: "w32 \<Rightarrow> w32" where
  "big_sigma1 x = word_rotr 6 x XOR word_rotr 11 x XOR word_rotr 25 x"

text \<open>The message schedule, newest word first.\<close>

primrec sha_extend :: "nat \<Rightarrow> w32 list \<Rightarrow> w32 list" where
  "sha_extend 0 ws = ws"
| "sha_extend (Suc n) ws =
     sha_extend n ((small_sigma1 (ws ! 1) + ws ! 6 + small_sigma0 (ws ! 14) + ws ! 15) # ws)"

fun sha_round :: "sha_state \<Rightarrow> w32 \<times> w32 \<Rightarrow> sha_state" where
  "sha_round [a, b, c, d, e, f, g, h] (k, w) =
     (let t1 = h + big_sigma1 e + ((e AND f) XOR (NOT e AND g)) + k + w;
          t2 = big_sigma0 a + ((a AND b) XOR (a AND c) XOR (b AND c))
      in [t1 + t2, a, b, c, d + t1, e, f, g])"
| "sha_round st _ = st"

definition sha_block :: "sha_state \<Rightarrow> w32 list \<Rightarrow> sha_state" where
  "sha_block st ws = map2 (+) st (foldl sha_round st (zip sha_k (rev (sha_extend 48 (rev ws)))))"

section \<open>Padding and the digest\<close>

text \<open>A byte is a \<open>nat\<close> below 256.\<close>

fun be_words :: "nat list \<Rightarrow> w32 list" where
  "be_words (a # b # c # d # bs) = word_of_nat (((a * 256 + b) * 256 + c) * 256 + d) # be_words bs"
| "be_words _ = []"

primrec be_bytes :: "nat \<Rightarrow> nat \<Rightarrow> nat list" where
  "be_bytes 0 n = []"
| "be_bytes (Suc k) n = be_bytes k (n div 256) @ [n mod 256]"

definition sha_pad :: "nat list \<Rightarrow> nat list" where
  "sha_pad bs = bs @ [128] @ replicate ((119 - length bs mod 64) mod 64) 0
                @ be_bytes 8 (8 * length bs)"

fun sha_blocks :: "nat \<Rightarrow> sha_state \<Rightarrow> w32 list \<Rightarrow> sha_state" where
  "sha_blocks 0 st ws = st"
| "sha_blocks (Suc n) st ws = sha_blocks n (sha_block st (take 16 ws)) (drop 16 ws)"

definition hex_digit :: "nat \<Rightarrow> nat" where
  "hex_digit n = (if n < 10 then 48 + n else 87 + n)"

primrec hex_pad :: "nat \<Rightarrow> nat \<Rightarrow> pystr" where
  "hex_pad 0 n = []"
| "hex_pad (Suc k) n = hex_pad k (n div 16) @ [hex_digit (n mod 16)]"

definition sha256_hex :: "nat list \<Rightarrow> pystr" where
  "sha256_hex bs =
     concat (map (\<lambda>w. hex_pad 8 (unat w))
       (sha_blocks (length (sha_pad bs) div 64) sha_init (be_words (sha_pad bs))))"

section \<open>Shape of a digest\<close>

definition hex_char :: "nat \<Rightarrow> bool" where
  "hex_char c \<longleftrightarrow> (48 \<le> c \<and> c \<le> 57) \<or> (97 \<le> c \<and> c \<le> 102)"

lemma hex_digit_char: "n < 16 \<Longrightarrow> hex_char (hex_digit n)"
  by (auto simp: hex_digit_def hex_char_def)

lemma length_hex_pad [simp]: "length (hex_pad k n) = k"
  by (induction k arbitrary: n) auto

lemma hex_pad_chars: "\<forall>c \<in> set (hex_pad k n). hex_char c"
  by (induction k arbitrary: n) (auto simp: hex_digit_char)

lemma length_sha_extend [simp]: "length (sha_extend n ws) = length ws + n"
  by (induction n arbitrary: ws) auto

lemma length_sha_round [simp]: "length (sha_round st p) = length st"
  by (induction st p rule: sha_round.induct) (auto simp: Let_def)

lemma length_foldl_sha_round [simp]: "length (foldl sha_round st ps) = length st"
  by (induction ps arbitrary: st) auto

lemma length_sha_block [simp]: "length (sha_block st ws) = length st"
  by (simp add: sha_block_def)

lemma length_sha_blocks [simp]: "length (sha_blocks n st ws) = length st"
  by (induction n st ws rule: sha_blocks.induct) auto

lemma length_be_bytes [simp]: "length (be_bytes k n) = k"
  by (induction k arbitrary: n) auto

lemma length_sha_pad: "length (sha_pad bs) mod 64 = 0"
proof -
  define m where "m = length bs mod 64"
  define q where "q = length bs div 64"
  have m: "m < 64" and n: "length bs = 64 * q + m" by (simp_all add: m_def q_def)
  have len: "length (sha_pad bs) = 64 * q + (m + 9 + (119 - m) mod 64)"
    using n m by (simp add: sha_pad_def)
  show ?thesis
  proof (cases "m \<le> 55")
    case True
    then have "(119 - m) mod 64 = (64 + (55 - m)) mod 64" by simp
    also have "\<dots> = 55 - m" using True by (simp only: mod_add_self1) simp
    finally show ?thesis using True len by simp
  next
    case False
    then have "(119 - m) mod 64 = 119 - m" by simp
    then show ?thesis using False m len by simp
  qed
qed

lemma length_sha256_hex [simp]: "length (sha256_hex bs) = 64"
proof -
  have "\<And>ws :: w32 list. length (concat (map (\<lambda>w. hex_pad 8 (unat w)) ws)) = 8 * length ws"
  proof -
    fix ws :: "w32 list"
    show "length (concat (map (\<lambda>w. hex_pad 8 (unat w)) ws)) = 8 * length ws"
      by (induction ws) auto
  qed
  then show ?thesis by (simp add: sha256_hex_def sha_init_def)
qed

lemma sha256_hex_chars: "\<forall>c \<in> set (sha256_hex bs). hex_char c"
  using hex_pad_chars by (fastforce simp: sha256_hex_def)

end
