(* ===== verification/PyText.thy ===== *)
theory PyText
  imports Prelude Sha256 "HOL-Library.List_Lexorder"
begin

text \<open>
  The text conversions of the standard library the services use: decimal rendering, UUID text and
  the \<open>UUID(...)\<close> constructor, RFC 3339 timestamps, \<open>split\<close> and UTF-8 encoding.
\<close>

section \<open>Decimal integers\<close>

fun dec_nat :: "nat \<Rightarrow> pystr" where
  "dec_nat n = (if n < 10 then [48 + n] else dec_nat (n div 10) @ [48 + n mod 10])"

declare dec_nat.simps [simp del]

definition dec_int :: "int \<Rightarrow> pystr" where
  "dec_int i = (if i < 0 then 45 # dec_nat (nat (- i)) else dec_nat (nat i))"

definition digit_char :: "nat \<Rightarrow> bool" where
  "digit_char c \<longleftrightarrow> 48 \<le> c \<and> c \<le> 57"

primrec undec :: "nat \<Rightarrow> pystr \<Rightarrow> nat" where
  "undec a [] = a"
| "undec a (c # cs) = undec (10 * a + (c - 48)) cs"

lemma undec_append: "undec a (xs @ ys) = undec (undec a xs) ys"
  by (induction xs arbitrary: a) auto

lemma undec_dec_nat [simp]: "undec 0 (dec_nat n) = n"
proof (induction n rule: dec_nat.induct)
  case (1 n)
  then show ?case by (subst dec_nat.simps) (auto simp: undec_append)
qed

lemma dec_nat_digits: "c \<in> set (dec_nat n) \<Longrightarrow> digit_char c"
proof (induction n rule: dec_nat.induct)
  case (1 n)
  show ?case
  proof (cases "n < 10")
    case True
    then show ?thesis using "1.prems" by (subst (asm) dec_nat.simps) (auto simp: digit_char_def)
  next
    case False
    have "n mod 10 < 10" by simp
    then show ?thesis using False "1.prems" "1.IH"
      by (subst (asm) dec_nat.simps) (auto simp: digit_char_def)
  qed
qed

lemma dec_nat_nonempty [simp]: "dec_nat n \<noteq> []"
  by (subst dec_nat.simps) simp

lemma dec_nat_inj: "dec_nat m = dec_nat n \<longleftrightarrow> m = n"
  by (metis undec_dec_nat)

section \<open>UUID text\<close>

definition uuid_hex :: "uuid \<Rightarrow> pystr" where
  "uuid_hex u = hex_pad 32 (unat u)"

definition uuid_str :: "uuid \<Rightarrow> pystr" where
  "uuid_str u = (let h = uuid_hex u in
     take 8 h @ [45] @ take 4 (drop 8 h) @ [45] @ take 4 (drop 12 h) @ [45] @
     take 4 (drop 16 h) @ [45] @ drop 20 h)"

text \<open>\<open>s.replace(p, "")\<close> for a nonempty pattern, left to right.\<close>

function remove_all :: "pystr \<Rightarrow> pystr \<Rightarrow> pystr" where
  "remove_all p s = (case s of [] \<Rightarrow> []
     | c # cs \<Rightarrow> if p \<noteq> [] \<and> take (length p) s = p then remove_all p (drop (length p) s)
                else c # remove_all p cs)"
  by pat_completeness auto
termination by (relation "measure (\<lambda>(p, s). length s)") auto

declare remove_all.simps [simp del]

definition strip_chars :: "nat set \<Rightarrow> pystr \<Rightarrow> pystr" where
  "strip_chars A s = rev (dropWhile (\<lambda>c. c \<in> A) (rev (dropWhile (\<lambda>c. c \<in> A) s)))"

definition hex_value :: "nat \<Rightarrow> nat option" where
  "hex_value c = (if 48 \<le> c \<and> c \<le> 57 then Some (c - 48)
                  else if 97 \<le> c \<and> c \<le> 102 then Some (c - 87)
                  else if 65 \<le> c \<and> c \<le> 70 then Some (c - 55) else None)"

text \<open>
  The digits of \<open>int(s, base)\<close>: single underscores may separate digits.  Non-ASCII decimal digits,
  which Python also accepts, are not digits here.
\<close>

fun int_digits :: "(nat \<Rightarrow> nat option) \<Rightarrow> nat \<Rightarrow> nat \<Rightarrow> pystr \<Rightarrow> nat option" where
  "int_digits dv b acc [] = Some acc"
| "int_digits dv b acc [c] = (case dv c of None \<Rightarrow> None | Some d \<Rightarrow> Some (b * acc + d))"
| "int_digits dv b acc (c # c' # cs) =
     (case dv c of None \<Rightarrow> None
      | Some d \<Rightarrow> if c' = 95 then (if cs = [] then None else int_digits dv b (b * acc + d) cs)
                 else int_digits dv b (b * acc + d) (c' # cs))"

definition int_sign :: "pystr \<Rightarrow> int \<times> pystr" where
  "int_sign s = (case s of [] \<Rightarrow> (1, []) | c # cs \<Rightarrow>
     if c = 45 then (-1, cs) else if c = 43 then (1, cs) else (1, s))"

definition hex_prefix :: "pystr \<Rightarrow> pystr" where
  "hex_prefix s = (case s of c # x # cs \<Rightarrow>
       if c = 48 \<and> (x = 120 \<or> x = 88) then (case cs of u # us \<Rightarrow> if u = 95 then us else cs | [] \<Rightarrow> [])
       else s
     | _ \<Rightarrow> s)"

definition py_int16 :: "pystr \<Rightarrow> int option" where
  "py_int16 s = (let (sg, body) = int_sign (py_strip s); ds = hex_prefix body
     in if ds = [] then None else map_option (\<lambda>n. sg * int n) (int_digits hex_value 16 0 ds))"

definition dec_value :: "nat \<Rightarrow> nat option" where
  "dec_value c = (if digit_char c then Some (c - 48) else None)"

definition py_int10 :: "pystr \<Rightarrow> int option" where
  "py_int10 s = (let (sg, ds) = int_sign (py_strip s)
     in if ds = [] then None else map_option (\<lambda>n. sg * int n) (int_digits dec_value 10 0 ds))"

text \<open>\<open>UUID(hex)\<close>; \<open>None\<close> is its \<open>ValueError\<close>.\<close>

definition parse_uuid :: "pystr \<Rightarrow> uuid option" where
  "parse_uuid s =
     (let h = remove_all (lit ''-'') (strip_chars {123, 125}
                (remove_all (lit ''uuid:'') (remove_all (lit ''urn:'') s)))
      in if length h \<noteq> 32 then None
         else case py_int16 h of None \<Rightarrow> None
            | Some i \<Rightarrow> if 0 \<le> i \<and> i < 2 ^ 128 then Some (word_of_int i) else None)"

subsection \<open>The text of a UUID reads back\<close>

lemma remove_all_Nil [simp]: "remove_all p [] = []"
  by (simp add: remove_all.simps)

lemma remove_all_absent:
  assumes "c \<in> set p" and "c \<notin> set s"
  shows "remove_all p s = s"
  using assms(2)
proof (induction s)
  case (Cons x xs)
  have "take (length p) (x # xs) \<noteq> p"
    using assms(1) Cons.prems by (metis in_set_takeD)
  then show ?case using Cons by (simp add: remove_all.simps [of p "x # xs"])
qed simp

lemma remove_all_single: "remove_all [c] s = filter (\<lambda>x. x \<noteq> c) s"
proof (induction s)
  case (Cons x xs)
  then show ?case by (simp add: remove_all.simps [of "[c]" "x # xs"])
qed simp

lemma strip_chars_absent: "A \<inter> set s = {} \<Longrightarrow> strip_chars A s = s"
proof -
  assume a: "A \<inter> set s = {}"
  have *: "\<And>t. set t \<subseteq> set s \<Longrightarrow> dropWhile (\<lambda>c. c \<in> A) t = t"
  proof -
    fix t :: pystr assume "set t \<subseteq> set s"
    then show "dropWhile (\<lambda>c. c \<in> A) t = t" using a by (cases t) auto
  qed
  show ?thesis by (simp add: strip_chars_def *)
qed

lemma hex_value_digit [simp]: "n < 16 \<Longrightarrow> hex_value (hex_digit n) = Some n"
  by (auto simp: hex_value_def hex_digit_def)

lemma hex_digit_not_us: "n < 16 \<Longrightarrow> hex_digit n \<noteq> 95"
  by (auto simp: hex_digit_def)

lemma int_digits_snoc:
  assumes "\<forall>c \<in> set s. hex_char c" and "n < 16" and "int_digits hex_value 16 a s = Some v"
  shows "int_digits hex_value 16 a (s @ [hex_digit n]) = Some (16 * v + n)"
  using assms
proof (induction hex_value "16::nat" a s rule: int_digits.induct)
  case (1 acc)
  then show ?case by simp
next
  case (2 acc c)
  then show ?case using hex_digit_not_us by (auto split: option.splits)
next
  case (3 acc c c' cs)
  have "c' \<noteq> 95" using "3.prems"(1) by (auto simp: hex_char_def)
  then show ?case using 3 by (auto split: option.splits)
qed

lemma int_digits_hex_pad:
  "n < 16 ^ k \<Longrightarrow> int_digits hex_value 16 0 (hex_pad k n) = Some n"
proof (induction k arbitrary: n)
  case (Suc k)
  have "int_digits hex_value 16 0 (hex_pad k (n div 16)) = Some (n div 16)"
    using Suc by (simp add: less_mult_imp_div_less mult.commute)
  then have "int_digits hex_value 16 0 (hex_pad k (n div 16) @ [hex_digit (n mod 16)])
      = Some (16 * (n div 16) + n mod 16)"
    by (intro int_digits_snoc) (auto simp: hex_pad_chars)
  then show ?case by simp
qed simp

lemma uuid_hex_chars: "c \<in> set (uuid_hex u) \<Longrightarrow> hex_char c"
  using hex_pad_chars by (auto simp: uuid_hex_def)

lemma length_uuid_hex [simp]: "length (uuid_hex u) = 32"
  by (simp add: uuid_hex_def)

lemma uuid_str_chars: "c \<in> set (uuid_str u) \<Longrightarrow> hex_char c \<or> c = 45"
  by (auto simp: uuid_str_def Let_def dest!: in_set_takeD in_set_dropD uuid_hex_chars)

lemma uuid_str_undash: "filter (\<lambda>x. x \<noteq> 45) (uuid_str u) = uuid_hex u"
proof -
  let ?h = "uuid_hex u"
  have no: "\<And>xs. set xs \<subseteq> set ?h \<Longrightarrow> filter (\<lambda>x. x \<noteq> 45) xs = xs"
    by (rule filter_True) (use uuid_hex_chars in \<open>fastforce simp: hex_char_def\<close>)
  have sub: "\<And>a b. set (take a (drop b ?h)) \<subseteq> set ?h" "set (drop 20 ?h) \<subseteq> set ?h"
      "set (take 8 ?h) \<subseteq> set ?h"
    by (meson in_set_takeD in_set_dropD subsetI)+
  have "filter (\<lambda>x. x \<noteq> 45) (uuid_str u)
      = take 8 ?h @ take 4 (drop 8 ?h) @ take 4 (drop 12 ?h) @ take 4 (drop 16 ?h) @ drop 20 ?h"
    by (simp add: uuid_str_def Let_def no sub)
  also have "\<dots> = ?h"
  proof -
    have "\<And>a b xs. take a (drop b xs) @ drop (b + a) xs = drop b (xs :: pystr)"
      by (metis append_take_drop_id drop_drop add.commute)
    from this [of 4 16 ?h] this [of 4 12 ?h] this [of 4 8 ?h]
    show ?thesis by (simp del: append_take_drop_id) (metis append_take_drop_id)
  qed
  finally show ?thesis .
qed

lemma py_strip_no_space: "(\<And>c. c \<in> set s \<Longrightarrow> \<not> py_space c) \<Longrightarrow> py_strip s = s"
proof -
  assume a: "\<And>c. c \<in> set s \<Longrightarrow> \<not> py_space c"
  have *: "\<And>t. set t \<subseteq> set s \<Longrightarrow> dropWhile py_space t = t"
  proof -
    fix t :: pystr assume "set t \<subseteq> set s"
    then show "dropWhile py_space t = t" using a by (cases t) auto
  qed
  show ?thesis by (simp add: py_strip_def *)
qed

lemma hex_char_not_space: "hex_char c \<Longrightarrow> \<not> py_space c"
  by (auto simp: hex_char_def py_space_def)

lemma py_int16_hex_pad: "n < 16 ^ 32 \<Longrightarrow> py_int16 (hex_pad 32 n) = Some (int n)"
proof -
  assume n: "n < 16 ^ 32"
  let ?h = "hex_pad 32 n"
  have ch: "\<And>c. c \<in> set ?h \<Longrightarrow> hex_char c" using hex_pad_chars by blast
  have "\<And>xs :: pystr. length xs = 32 \<Longrightarrow> \<exists>a b cs. xs = a # b # cs"
  proof -
    fix xs :: pystr assume "length xs = 32"
    then show "\<exists>a b cs. xs = a # b # cs" by (cases xs; cases "tl xs") auto
  qed
  then obtain a b cs where h: "?h = a # b # cs" using length_hex_pad by blast
  have "hex_char a" "hex_char b" using ch h by simp_all
  then have "int_sign ?h = (1, ?h)" "hex_prefix ?h = ?h"
    by (auto simp: h int_sign_def hex_prefix_def hex_char_def)
  moreover have "py_strip ?h = ?h"
    using ch hex_char_not_space by (blast intro: py_strip_no_space)
  moreover have "?h \<noteq> []" using h by simp
  ultimately show ?thesis
    using int_digits_hex_pad [OF n] by (simp add: py_int16_def Let_def)
qed

theorem parse_uuid_str [simp]: "parse_uuid (uuid_str u) = Some u"
proof -
  have u: "117 \<in> set (lit ''urn:'')" "117 \<in> set (lit ''uuid:'')" by (simp_all add: lit_def)
  have nu: "117 \<notin> set (uuid_str u)" using uuid_str_chars by (fastforce simp: hex_char_def)
  have nb: "{123, 125} \<inter> set (uuid_str u) = {}"
    using uuid_str_chars by (fastforce simp: hex_char_def)
  have dash: "lit ''-'' = [45]" by (simp add: lit_def)
  have lt: "unat u < 16 ^ 32" using unsigned_less [of u, where 'a = nat] by simp
  have "remove_all (lit ''-'') (strip_chars {123, 125} (remove_all (lit ''uuid:'')
      (remove_all (lit ''urn:'') (uuid_str u)))) = uuid_hex u"
    by (simp add: remove_all_absent [OF u(1) nu] remove_all_absent [OF u(2) nu]
        strip_chars_absent [OF nb] dash remove_all_single uuid_str_undash)
  then show ?thesis
    using py_int16_hex_pad [OF lt] unsigned_less [of u, where 'a = int]
    by (simp add: parse_uuid_def uuid_hex_def)
qed

lemma uuid_str_inj: "uuid_str u = uuid_str v \<longleftrightarrow> u = v"
  by (metis option.inject parse_uuid_str)

section \<open>Splitting\<close>

text \<open>\<open>s.rsplit(c, 1)[-1]\<close>, \<open>s.split(c, 1)[0]\<close> and \<open>s.split(c)\<close>.\<close>

definition after_last :: "nat \<Rightarrow> pystr \<Rightarrow> pystr" where
  "after_last c s = rev (takeWhile (\<lambda>x. x \<noteq> c) (rev s))"

definition before_first :: "nat \<Rightarrow> pystr \<Rightarrow> pystr" where
  "before_first c s = takeWhile (\<lambda>x. x \<noteq> c) s"

text \<open>\<open>sep.join(texts)\<close>\<close>

fun join_with :: "pystr \<Rightarrow> pystr list \<Rightarrow> pystr" where
  "join_with sep [] = []"
| "join_with sep [t] = t"
| "join_with sep (t # t' # ts) = t @ sep @ join_with sep (t' # ts)"

fun split_on :: "nat \<Rightarrow> pystr \<Rightarrow> pystr list" where
  "split_on c [] = [[]]"
| "split_on c (x # xs) =
     (if x = c then [] # split_on c xs
      else case split_on c xs of [] \<Rightarrow> [[x]] | w # ws \<Rightarrow> (x # w) # ws)"

lemma split_on_nonempty [simp]: "split_on c s \<noteq> []"
  by (induction s) (auto split: list.splits)

lemma split_on_absent: "c \<notin> set s \<Longrightarrow> split_on c s = [s]"
  by (induction s) auto

lemma split_on_append: "c \<notin> set s \<Longrightarrow> split_on c (s @ c # t) = s # split_on c t"
  by (induction s) auto

lemma after_last_append: "c \<notin> set t \<Longrightarrow> after_last c (s @ c # t) = t"
proof -
  assume "c \<notin> set t"
  then have "takeWhile (\<lambda>x. x \<noteq> c) (rev t) = rev t" by (auto simp: takeWhile_eq_all_conv)
  then show ?thesis by (simp add: after_last_def takeWhile_append)
qed

lemma after_last_absent: "c \<notin> set t \<Longrightarrow> after_last c t = t"
proof -
  assume "c \<notin> set t"
  then have "takeWhile (\<lambda>x. x \<noteq> c) (rev t) = rev t" by (auto simp: takeWhile_eq_all_conv)
  then show ?thesis by (simp only: after_last_def rev_rev_ident)
qed

lemma before_first_append: "c \<notin> set s \<Longrightarrow> before_first c (s @ c # t) = s"
  by (simp add: before_first_def takeWhile_append)

section \<open>Timestamps\<close>

text \<open>
  \<open>value.astimezone(UTC).isoformat().replace("+00:00", "Z")\<close> for a timezone-aware datetime: the
  proleptic Gregorian date of the day number, the time of day, and the microseconds when they are
  not zero.
\<close>

definition civil_of_days :: "int \<Rightarrow> int \<times> int \<times> int" where
  "civil_of_days z0 =
     (let z = z0 + 719468;
          era = z div 146097;
          doe = z - era * 146097;
          yoe = (doe - doe div 1460 + doe div 36524 - doe div 146096) div 365;
          doy = doe - (365 * yoe + yoe div 4 - yoe div 100);
          mp = (5 * doy + 2) div 153;
          d = doy - (153 * mp + 2) div 5 + 1;
          m = if mp < 10 then mp + 3 else mp - 9;
          y = yoe + era * 400 + (if m \<le> 2 then 1 else 0)
      in (y, m, d))"

definition pad_dec :: "nat \<Rightarrow> int \<Rightarrow> pystr" where
  "pad_dec k i = (let ds = dec_nat (nat i) in replicate (k - length ds) 48 @ ds)"

definition rfc3339_z :: "time \<Rightarrow> pystr" where
  "rfc3339_z t =
     (let us = t mod 1000000; secs = t div 1000000;
          sod = secs mod 86400; (y, m, d) = civil_of_days (secs div 86400)
      in pad_dec 4 y @ lit ''-'' @ pad_dec 2 m @ lit ''-'' @ pad_dec 2 d @ lit ''T'' @
         pad_dec 2 (sod div 3600) @ lit '':'' @ pad_dec 2 (sod div 60 mod 60) @ lit '':'' @
         pad_dec 2 (sod mod 60) @
         (if us = 0 then [] else lit ''.'' @ pad_dec 6 us) @ lit ''Z'')"

section \<open>UTF-8\<close>

definition surrogate :: "nat \<Rightarrow> bool" where
  "surrogate c \<longleftrightarrow> 0xD800 \<le> c \<and> c \<le> 0xDFFF"

definition utf8_char :: "nat \<Rightarrow> nat list" where
  "utf8_char c =
     (if c < 0x80 then [c]
      else if c < 0x800 then [192 + c div 64, 128 + c mod 64]
      else if c < 0x10000 then [224 + c div 4096, 128 + c div 64 mod 64, 128 + c mod 64]
      else [240 + c div 262144, 128 + c div 4096 mod 64, 128 + c div 64 mod 64, 128 + c mod 64])"

definition utf8 :: "pystr \<Rightarrow> nat list" where
  "utf8 s = concat (map utf8_char s)"

definition code_point :: "nat \<Rightarrow> bool" where
  "code_point c \<longleftrightarrow> c < 0x110000"

lemma utf8_simps [simp]: "utf8 [] = []" "utf8 (c # cs) = utf8_char c @ utf8 cs"
  by (simp_all add: utf8_def)

lemma utf8_append: "utf8 (a @ b) = utf8 a @ utf8 b"
  by (simp add: utf8_def)

lemma nat_split_64: "(c::nat) div 64 = d div 64 \<Longrightarrow> c mod 64 = d mod 64 \<Longrightarrow> c = d"
  by (metis div_mult_mod_eq)

lemma nat_split_4096:
  "(c::nat) div 4096 = d div 4096 \<Longrightarrow> c div 64 mod 64 = d div 64 mod 64 \<Longrightarrow> c mod 64 = d mod 64
    \<Longrightarrow> c = d"
proof -
  assume a: "c div 4096 = d div 4096" "c div 64 mod 64 = d div 64 mod 64" "c mod 64 = d mod 64"
  have "c div 64 div 64 = d div 64 div 64" using a(1) by (simp flip: div_mult2_eq)
  then have "c div 64 = d div 64" using a(2) by (rule nat_split_64)
  then show ?thesis using a(3) by (rule nat_split_64)
qed

lemma nat_split_262144:
  "(c::nat) div 262144 = d div 262144 \<Longrightarrow> c div 4096 mod 64 = d div 4096 mod 64 \<Longrightarrow>
    c div 64 mod 64 = d div 64 mod 64 \<Longrightarrow> c mod 64 = d mod 64 \<Longrightarrow> c = d"
proof -
  assume a: "c div 262144 = d div 262144" "c div 4096 mod 64 = d div 4096 mod 64"
    and b: "c div 64 mod 64 = d div 64 mod 64" "c mod 64 = d mod 64"
  have "c div 4096 div 64 = d div 4096 div 64" using a(1) by (simp flip: div_mult2_eq)
  then have "c div 4096 = d div 4096" using a(2) by (rule nat_split_64)
  then show ?thesis using b by (rule nat_split_4096)
qed

text \<open>UTF-8 is a prefix code, so encoding is injective.\<close>

lemma utf8_char_prefix:
  assumes "utf8_char c @ r = utf8_char d @ r'" and "code_point c" and "code_point d"
  shows "c = d \<and> r = r'"
proof -
  have dv: "\<And>x k :: nat. x < 64 * k \<Longrightarrow> x div 64 < k" by (simp add: less_mult_imp_div_less mult.commute)
  have bound: "\<And>x::nat. x < 0x800 \<Longrightarrow> x div 64 < 32"
      "\<And>x::nat. x < 0x10000 \<Longrightarrow> x div 4096 < 16"
      "\<And>x::nat. x < 0x110000 \<Longrightarrow> x div 262144 < 8"
    by (simp_all add: less_mult_imp_div_less)
  show ?thesis
    using assms bound [of c] bound [of d]
    by (auto simp: utf8_char_def code_point_def split: if_splits
        intro: nat_split_64 nat_split_4096 nat_split_262144)
qed

lemma utf8_inj:
  assumes "utf8 a = utf8 b" and "\<forall>c \<in> set a. code_point c" and "\<forall>c \<in> set b. code_point c"
  shows "a = b"
  using assms
proof (induction a arbitrary: b)
  case Nil
  then show ?case by (cases b) (auto simp: utf8_char_def split: if_splits)
next
  case (Cons x xs)
  then obtain y ys where b: "b = y # ys"
    by (cases b) (auto simp: utf8_char_def split: if_splits)
  have "x = y \<and> utf8 xs = utf8 ys"
    using utf8_char_prefix [of x "utf8 xs" y "utf8 ys"] Cons.prems b by simp
  then show ?case using Cons.IH [of ys] Cons.prems b by simp
qed

end
