(* ===== verification/Canonical.thy ===== *)
theory Canonical
  imports PyText Sha256 "HOL-Library.Multiset"
begin

text \<open>
  \<open>modules/factory_engineer/canonical.py\<close>: the constrained canonical JSON of the deployment
  packages.  A Python value is a \<open>json\<close>; a dict is the list of its items in insertion order, with
  arbitrary values as keys (\<open>JOther\<close> is a value of any other Python type).
\<close>

section \<open>Values\<close>

datatype json =
    JNull
  | JBool bool
  | JInt int
  | JFloat pystr
  | JStr pystr
  | JList "json list"
  | JObj "(json \<times> json) list"
  | JOther

definition obj :: "(string \<times> json) list \<Rightarrow> json" where
  "obj kvs = JObj (map (\<lambda>(k, v). (JStr (lit k), v)) kvs)"

definition jopt :: "('a \<Rightarrow> json) \<Rightarrow> 'a option \<Rightarrow> json" where
  "jopt f x = (case x of None \<Rightarrow> JNull | Some v \<Rightarrow> f v)"

section \<open>Validation\<close>

datatype canon_error =
    LoneSurrogate pystr
  | IntegerRange pystr
  | FloatValue pystr
  | KeyNotString pystr
  | KeyNotAscii pystr
  | Unsupported pystr
  | NotCanonicalizable

definition max_safe_json_integer :: int where
  "max_safe_json_integer = 9007199254740991"

fun key_text :: "json \<Rightarrow> pystr" where
  "key_text (JStr k) = k"
| "key_text _ = []"

definition is_str :: "json \<Rightarrow> bool" where
  "is_str v = (case v of JStr _ \<Rightarrow> True | _ \<Rightarrow> False)"

function (sequential) validate :: "pystr \<Rightarrow> json \<Rightarrow> (canon_error, unit) result"
  and validate_list :: "pystr \<Rightarrow> nat \<Rightarrow> json list \<Rightarrow> (canon_error, unit) result"
  and validate_items :: "pystr \<Rightarrow> (json \<times> json) list \<Rightarrow> (canon_error, unit) result" where
  "validate path JNull = Inr ()"
| "validate path (JBool b) = Inr ()"
| "validate path (JStr s) = require (\<not> list_ex surrogate s) (LoneSurrogate path)"
| "validate path (JInt i) = require (\<bar>i\<bar> \<le> max_safe_json_integer) (IntegerRange path)"
| "validate path (JFloat r) = Inl (FloatValue path)"
| "validate path (JList xs) = validate_list path 0 xs"
| "validate path (JObj kvs) = validate_items path kvs"
| "validate path JOther = Inl (Unsupported path)"
| "validate_list path n [] = Inr ()"
| "validate_list path n (x # xs) =
     bindE (validate (path @ lit ''['' @ dec_nat n @ lit '']'') x) (\<lambda>_. validate_list path (Suc n) xs)"
| "validate_items path [] = Inr ()"
| "validate_items path ((k, v) # kvs) =
     bindE (require (is_str k) (KeyNotString path)) (\<lambda>_.
     bindE (require (list_all (\<lambda>c. c < 128) (key_text k)) (KeyNotAscii path)) (\<lambda>_.
     bindE (validate (path @ lit ''.<key>'') k) (\<lambda>_.
     bindE (validate (path @ lit ''.'' @ key_text k) v) (\<lambda>_. validate_items path kvs))))"
  by pat_completeness auto
termination
  by (relation "measure (\<lambda>x. case x of Inl (_, v) \<Rightarrow> size v
      | Inr (Inl (_, _, vs)) \<Rightarrow> size_list size vs
      | Inr (Inr (_, kvs)) \<Rightarrow> size_list (size_prod size size) kvs)") auto

section \<open>Serialisation\<close>

definition u_escape :: "nat \<Rightarrow> pystr" where
  "u_escape c = [92, 117] @ hex_pad 4 c"

definition escape_char :: "nat \<Rightarrow> pystr" where
  "escape_char c =
     (if c = 34 then [92, 34] else if c = 92 then [92, 92]
      else if c = 10 then [92, 110] else if c = 13 then [92, 114] else if c = 9 then [92, 116]
      else if c = 12 then [92, 102] else if c = 8 then [92, 98]
      else if c < 32 then u_escape c else [c])"

definition quote_str :: "pystr \<Rightarrow> pystr" where
  "quote_str s = [34] @ concat (map escape_char s) @ [34]"

fun joined :: "pystr list \<Rightarrow> pystr" where
  "joined [] = []"
| "joined [x] = x"
| "joined (x # y # zs) = x @ 44 # joined (y # zs)"

text \<open>\<open>json.dumps(value, separators=(",", ":"), ensure_ascii=False)\<close>.\<close>

primrec json_text :: "json \<Rightarrow> pystr" where
  "json_text JNull = lit ''null''"
| "json_text (JBool b) = (if b then lit ''true'' else lit ''false'')"
| "json_text (JInt i) = dec_int i"
| "json_text (JFloat r) = r"
| "json_text (JStr s) = quote_str s"
| "json_text (JList xs) = 91 # joined (map json_text xs) @ [93]"
| "json_text (JObj kvs) =
     123 # joined (map (\<lambda>p. fst p @ 58 # snd p) (map (map_prod json_text json_text) kvs)) @ [125]"
| "json_text JOther = []"

text \<open>\<open>sort_keys=True\<close>, at every level.\<close>

primrec sort_json :: "json \<Rightarrow> json" where
  "sort_json JNull = JNull"
| "sort_json (JBool b) = JBool b"
| "sort_json (JInt i) = JInt i"
| "sort_json (JFloat r) = JFloat r"
| "sort_json (JStr s) = JStr s"
| "sort_json (JList xs) = JList (map sort_json xs)"
| "sort_json (JObj kvs) = JObj (sort_key (key_text \<circ> fst) (map (map_prod id sort_json) kvs))"
| "sort_json JOther = JOther"

definition canonical_json_bytes :: "json \<Rightarrow> (canon_error, nat list) result" where
  "canonical_json_bytes v =
     bindE (validate (lit ''$'') v) (\<lambda>_.
     let serialized = json_text (sort_json v)
     in if list_ex surrogate serialized then Inl NotCanonicalizable else Inr (utf8 serialized))"

definition sha_ref :: "nat list \<Rightarrow> pystr" where
  "sha_ref bs = lit ''sha256:'' @ sha256_hex bs"

definition canonical_sha256 :: "json \<Rightarrow> (canon_error, pystr) result" where
  "canonical_sha256 v = bindE (canonical_json_bytes v) (\<lambda>bs. Inr (sha_ref bs))"

section \<open>What validation accepts\<close>

fun plain :: "json \<Rightarrow> bool" where
  "plain (JFloat r) = False"
| "plain JOther = False"
| "plain (JList xs) = list_all plain xs"
| "plain (JObj kvs) = list_all (\<lambda>p. is_str (fst p) \<and> plain (snd p)) kvs"
| "plain _ = True"

lemma is_strE: "is_str k \<Longrightarrow> (\<And>s. k = JStr s \<Longrightarrow> P) \<Longrightarrow> P"
  by (cases k) (auto simp: is_str_def)

lemma is_str_JStr [simp]: "is_str (JStr s)"
  by (simp add: is_str_def)

text \<open>Every code point of a value: strings and keys.\<close>

primrec json_chars :: "json \<Rightarrow> nat set" where
  "json_chars JNull = {}"
| "json_chars (JBool b) = {}"
| "json_chars (JInt i) = {}"
| "json_chars (JFloat r) = {}"
| "json_chars (JStr s) = set s"
| "json_chars (JList xs) = \<Union> (set (map json_chars xs))"
| "json_chars (JObj kvs) = \<Union> (set (map (\<lambda>p. fst p \<union> snd p) (map (map_prod json_chars json_chars) kvs)))"
| "json_chars JOther = {}"

lemma validate_ok:
  "validate path v = Inr () \<Longrightarrow> plain v \<and> (\<forall>c \<in> json_chars v. \<not> surrogate c)"
  "validate_list path n vs = Inr () \<Longrightarrow>
     \<forall>v \<in> set vs. plain v \<and> (\<forall>c \<in> json_chars v. \<not> surrogate c)"
  "validate_items path kvs = Inr () \<Longrightarrow>
     \<forall>p \<in> set kvs. is_str (fst p) \<and> plain (snd p) \<and>
       (\<forall>c \<in> json_chars (fst p) \<union> json_chars (snd p). \<not> surrogate c)"
proof (induction path v and path n vs and path kvs rule: validate_validate_list_validate_items.induct)
  case (3 path s)
  then show ?case by (auto simp: list_ex_iff result_simps)
qed (auto simp: result_simps list_all_iff)

text \<open>Structural induction with the pairs of an object opened.\<close>

lemma json_pair_induct [case_names Null Bool Int Float Str List Obj Other]:
  assumes "P JNull" and "\<And>b. P (JBool b)" and "\<And>i. P (JInt i)" and "\<And>r. P (JFloat r)"
    and "\<And>s. P (JStr s)" and "\<And>xs. (\<And>x. x \<in> set xs \<Longrightarrow> P x) \<Longrightarrow> P (JList xs)"
    and "\<And>kvs. (\<And>k v. (k, v) \<in> set kvs \<Longrightarrow> P k \<and> P v) \<Longrightarrow> P (JObj kvs)" and "P JOther"
  shows "P v"
proof (induction v)
  case (JObj kvs)
  show ?case by (rule assms(7)) (use JObj in \<open>auto intro: fsts.intros snds.intros\<close>)
qed (use assms in auto)

lemma json_chars_JObj:
  "json_chars (JObj kvs) = (\<Union>(k, v) \<in> set kvs. json_chars k \<union> json_chars v)"
  by (auto simp: split_beta)

lemma json_chars_sort [simp]: "json_chars (sort_json v) = json_chars v"
proof (induction v rule: json_pair_induct)
  case (Obj kvs)
  have "(\<Union>(k, v) \<in> map_prod id sort_json ` set kvs. json_chars k \<union> json_chars v)
      = (\<Union>(k, v) \<in> set kvs. json_chars k \<union> json_chars v)"
    using Obj by (fastforce simp: image_iff split_beta)
  then show ?case by (simp only: sort_json.simps json_chars_JObj set_sort set_map)
qed auto

lemma plain_sort [simp]: "plain (sort_json v) = plain v"
  by (induction v rule: json_pair_induct) (auto simp: list_all_iff split_beta)

section \<open>The text determines the value\<close>

text \<open>
  A serialised value is read back without looking past the character that ends it: a comma, a
  closing bracket or the end of the text.
\<close>

definition stop :: "pystr \<Rightarrow> bool" where
  "stop r \<longleftrightarrow> r = [] \<or> hd r \<in> {44, 93, 125}"

definition unescape :: "pystr \<Rightarrow> nat \<times> pystr" where
  "unescape s =
     (if hd s \<noteq> 92 then (hd s, tl s)
      else let e = hd (tl s); es = tl (tl s)
           in if e = 34 then (34, es) else if e = 92 then (92, es) else if e = 110 then (10, es)
              else if e = 114 then (13, es) else if e = 116 then (9, es) else if e = 102 then (12, es)
              else if e = 98 then (8, es)
              else (the (int_digits hex_value 16 0 (take 4 es)), drop 4 es))"

lemma unescape_escape: "unescape (escape_char c @ r) = (c, r)"
proof (cases "c \<in> {34, 92, 10, 13, 9, 12, 8}")
  case True
  then show ?thesis by (auto simp: escape_char_def unescape_def)
next
  case False
  show ?thesis
  proof (cases "c < 32")
    case True
    have "int_digits hex_value 16 0 (hex_pad 4 c) = Some c"
      using True by (intro int_digits_hex_pad) simp
    then show ?thesis using False True by (simp add: escape_char_def u_escape_def unescape_def)
  next
    case False2: False
    then show ?thesis using False by (simp add: escape_char_def unescape_def)
  qed
qed

lemma escape_char_prefix:
  "escape_char c @ r = escape_char d @ r' \<Longrightarrow> c = d \<and> r = r'"
  by (metis prod.inject unescape_escape)

lemma escape_char_not_quote: "escape_char c @ r \<noteq> 34 # r'"
  by (auto simp: escape_char_def u_escape_def)

lemma quote_prefix:
  "concat (map escape_char a) @ 34 # r = concat (map escape_char b) @ 34 # r' \<Longrightarrow> a = b \<and> r = r'"
proof (induction a arbitrary: b)
  case Nil
  then show ?case using escape_char_not_quote by (cases b) (auto, metis)
next
  case (Cons c cs)
  then obtain d ds where b: "b = d # ds"
    using escape_char_not_quote by (cases b) auto
  have "c = d \<and> concat (map escape_char cs) @ 34 # r = concat (map escape_char ds) @ 34 # r'"
    using Cons.prems b by (intro escape_char_prefix) simp
  then show ?case using Cons.IH b by simp
qed

lemma digits_prefix:
  assumes "dec_nat m @ r = dec_nat n @ r'" and "stop r" and "stop r'"
  shows "m = n \<and> r = r'"
proof -
  have tw: "\<And>k r. stop r \<Longrightarrow> takeWhile digit_char (dec_nat k @ r) = dec_nat k"
  proof -
    fix k r assume "stop r"
    then have "takeWhile digit_char r = []" by (cases r) (auto simp: stop_def digit_char_def)
    moreover have "\<forall>c \<in> set (dec_nat k). digit_char c" using dec_nat_digits by blast
    ultimately show "takeWhile digit_char (dec_nat k @ r) = dec_nat k" by simp
  qed
  have "dec_nat m = dec_nat n" using tw [OF assms(2)] tw [OF assms(3)] assms(1) by metis
  then show ?thesis using assms(1) by (simp add: dec_nat_inj)
qed

lemma dec_int_hd: "dec_int i @ r = c # r' \<Longrightarrow> c = 45 \<or> digit_char c"
proof -
  have "\<And>n c r r'. dec_nat n @ r = c # r' \<Longrightarrow> digit_char c"
    by (metis append_eq_Cons_conv dec_nat_digits dec_nat_nonempty list.set_intros(1))
  then show "dec_int i @ r = c # r' \<Longrightarrow> c = 45 \<or> digit_char c"
    by (auto simp: dec_int_def split: if_splits)
qed

lemma dec_int_prefix:
  assumes "dec_int i @ r = dec_int j @ r'" and "stop r" and "stop r'"
  shows "i = j \<and> r = r'"
proof -
  have neg: "\<And>n r s. 45 # s \<noteq> dec_nat n @ r"
  proof
    fix n r s assume "45 # s = dec_nat n @ r"
    then have "digit_char 45"
      by (metis append_eq_Cons_conv dec_nat_digits dec_nat_nonempty list.set_intros(1))
    then show False by (simp add: digit_char_def)
  qed
  consider "i < 0" "j < 0" | "0 \<le> i" "0 \<le> j" | "i < 0" "0 \<le> j" | "0 \<le> i" "j < 0" by linarith
  then show ?thesis
  proof cases
    case 1
    then have "dec_nat (nat (- i)) @ r = dec_nat (nat (- j)) @ r'"
      using assms(1) by (simp add: dec_int_def)
    from digits_prefix [OF this assms(2,3)] 1 show ?thesis by (simp add: eq_nat_nat_iff)
  next
    case 2
    then have "dec_nat (nat i) @ r = dec_nat (nat j) @ r'"
      using assms(1) by (simp add: dec_int_def)
    from digits_prefix [OF this assms(2,3)] 2 show ?thesis by (simp add: eq_nat_nat_iff)
  next
    case 3
    then have "45 # dec_nat (nat (- i)) @ r = dec_nat (nat j) @ r'"
      using assms(1) by (simp add: dec_int_def)
    with neg show ?thesis by blast
  next
    case 4
    then have "45 # dec_nat (nat (- j)) @ r' = dec_nat (nat i) @ r"
      using assms(1) by (simp add: dec_int_def)
    with neg show ?thesis by blast
  qed
qed

text \<open>Comma-separated sequences of printed elements.\<close>

lemma joined_prefix:
  assumes elem: "\<And>x y r r'. x \<in> set xs \<Longrightarrow> y \<in> set ys \<Longrightarrow> f x @ r = f y @ r' \<Longrightarrow> stop r \<Longrightarrow> stop r'
      \<Longrightarrow> x = y \<and> r = r'"
    and open_x: "\<And>x. x \<in> set xs \<Longrightarrow> \<not> stop (f x)" and open_y: "\<And>y. y \<in> set ys \<Longrightarrow> \<not> stop (f y)"
    and close: "c \<in> {93, 125}"
    and eq: "joined (map f xs) @ c # r = joined (map f ys) @ c # r'"
  shows "xs = ys \<and> r = r'"
  using elem open_x open_y eq
proof (induction xs arbitrary: ys)
  case Nil
  show ?case
  proof (cases ys)
    case (Cons y zs)
    have "f y \<noteq> []" "hd (f y) \<noteq> c" using Nil.prems(3) [of y] Cons close by (auto simp: stop_def)
    then show ?thesis using Nil.prems(4) Cons by (cases zs; cases "f y") auto
  qed (use Nil.prems in simp)
next
  case (Cons x xs)
  have x: "f x \<noteq> []" "hd (f x) \<noteq> c" using Cons.prems(2) [of x] close by (auto simp: stop_def)
  then obtain y zs where ys: "ys = y # zs"
    using Cons.prems(4) by (cases ys; cases xs; cases "f x") auto
  have stops: "\<And>t. stop (c # t)" "\<And>t. stop (44 # t)" using close by (auto simp: stop_def)
  define tx where "tx = (if xs = [] then c # r else 44 # joined (map f xs) @ c # r)"
  define ty where "ty = (if zs = [] then c # r' else 44 # joined (map f zs) @ c # r')"
  have "f x @ tx = f y @ ty"
    using Cons.prems(4) ys by (cases xs; cases zs) (auto simp: tx_def ty_def)
  then have xy: "x = y" "tx = ty"
    using Cons.prems(1) [of x y tx ty] ys stops by (auto simp: tx_def ty_def)
  have c44: "c \<noteq> 44" using close by auto
  show ?case
  proof (cases "xs = []")
    case True
    then show ?thesis using xy ys c44 by (auto simp: tx_def ty_def split: if_splits)
  next
    case False
    then have "zs \<noteq> []" "joined (map f xs) @ c # r = joined (map f zs) @ c # r'"
      using xy(2) c44 by (auto simp: tx_def ty_def split: if_splits)
    moreover have "xs = zs \<and> r = r'"
    proof (rule Cons.IH)
      show "joined (map f xs) @ c # r = joined (map f zs) @ c # r'" by fact
    next
      fix u w s s'
      assume "u \<in> set xs" "w \<in> set zs" "f u @ s = f w @ s'" "stop s" "stop s'"
      then show "u = w \<and> s = s'" using Cons.prems(1) [of u w s s'] ys by simp
    next
      fix u assume "u \<in> set xs"
      then show "\<not> stop (f u)" using Cons.prems(2) by simp
    next
      fix u assume "u \<in> set zs"
      then show "\<not> stop (f u)" using Cons.prems(3) ys by simp
    qed
    ultimately show ?thesis using xy ys by simp
  qed
qed

definition item_text :: "json \<times> json \<Rightarrow> pystr" where
  "item_text p = json_text (fst p) @ 58 # json_text (snd p)"

lemma json_text_JObj:
  "json_text (JObj kvs) = 123 # joined (map item_text kvs) @ [125]"
  by (simp add: item_text_def [abs_def] comp_def)

declare json_text.simps(7) [simp del]

lemma json_text_open: "plain v \<Longrightarrow> \<not> stop (json_text v)"
proof (cases v)
  case (JInt i)
  have "json_text v \<noteq> []" by (simp add: JInt dec_int_def)
  moreover have "hd (json_text v) = 45 \<or> digit_char (hd (json_text v))"
    using dec_int_hd [of i "[]"] calculation by (cases "json_text v") (auto simp: JInt)
  ultimately show ?thesis by (auto simp: stop_def digit_char_def)
qed (auto simp: stop_def lit_def quote_str_def json_text_JObj)

lemma item_text_open: "is_str (fst p) \<Longrightarrow> \<not> stop (item_text p)"
  by (cases p) (auto elim!: is_strE simp: item_text_def stop_def quote_str_def)

text \<open>The first character of a text tells which kind of value it is.\<close>

definition char_kind :: "nat \<Rightarrow> nat" where
  "char_kind c = (if digit_char c \<or> c = 45 then 0 else c)"

fun json_kind :: "json \<Rightarrow> nat" where
  "json_kind JNull = 110"
| "json_kind (JBool b) = (if b then 116 else 102)"
| "json_kind (JInt i) = 0"
| "json_kind (JStr s) = 34"
| "json_kind (JList xs) = 91"
| "json_kind (JObj kvs) = 123"
| "json_kind _ = 1"

lemma json_text_head: "plain v \<Longrightarrow> \<exists>c s. json_text v = c # s \<and> char_kind c = json_kind v"
proof (cases v)
  case (JInt i)
  obtain c s where cs: "dec_int i = c # s" by (cases "dec_int i") (auto simp: dec_int_def split: if_splits)
  then have "c = 45 \<or> digit_char c" using dec_int_hd [of i "[]"] by simp
  then show ?thesis using JInt cs by (auto simp: char_kind_def)
qed (auto simp: lit_def quote_str_def json_text_JObj char_kind_def digit_char_def)

lemma json_text_same_kind:
  assumes "plain v" and "plain w" and "json_text v @ r = json_text w @ r'"
  shows "json_kind v = json_kind w"
  using json_text_head [OF assms(1)] json_text_head [OF assms(2)] assms(3) by auto

lemma json_text_prefix:
  "plain v \<Longrightarrow> plain w \<Longrightarrow> json_text v @ r = json_text w @ r' \<Longrightarrow> stop r \<Longrightarrow> stop r' \<Longrightarrow> v = w \<and> r = r'"
proof (induction v arbitrary: w r r' rule: json_pair_induct)
  case (Int i)
  then obtain j where w: "w = JInt j"
    using json_text_same_kind [OF Int.prems(1-3)] by (cases w) (auto split: if_splits)
  then show ?case using dec_int_prefix [of i r j r'] Int by simp
next
  case (Str s)
  then obtain t where w: "w = JStr t"
    using json_text_same_kind [OF Str.prems(1-3)] by (cases w) (auto split: if_splits)
  then show ?case using quote_prefix [of s r t r'] Str by (simp add: quote_str_def)
next
  case (List xs)
  then obtain ys where w: "w = JList ys"
    using json_text_same_kind [OF List.prems(1-3)] by (cases w) (auto split: if_splits)
  have "xs = ys \<and> r = r'"
  proof (rule joined_prefix)
    show "joined (map json_text xs) @ 93 # r = joined (map json_text ys) @ 93 # r'"
      using List.prems(3) w by simp
  next
    fix x y r r'
    assume x: "x \<in> set xs" and y: "y \<in> set ys"
      and eq: "json_text x @ r = json_text y @ r'" "stop r" "stop r'"
    have "plain x" "plain y" using x y List.prems(1,2) w by (auto simp: list_all_iff)
    then show "x = y \<and> r = r'" using List.IH [OF x _ _ eq] by blast
  qed (use List.prems(1,2) w json_text_open in \<open>auto simp: list_all_iff\<close>)
  then show ?case using w by simp
next
  case (Obj kvs)
  then obtain lvs where w: "w = JObj lvs"
    using json_text_same_kind [OF Obj.prems(1-3)] by (cases w) (auto split: if_splits)
  have elem: "p = q \<and> r = r'"
    if p: "p \<in> set kvs" and q: "q \<in> set lvs" and eq: "item_text p @ r = item_text q @ r'"
      and "stop r" "stop r'" for p q r r'
  proof -
    obtain a v b u where pq: "p = (JStr a, v)" "q = (JStr b, u)"
    proof -
      have "is_str (fst p)" "is_str (fst q)" using p q Obj.prems(1,2) w by (simp_all add: list_all_iff)
      then show thesis using that by (metis is_strE prod.collapse)
    qed
    have "concat (map escape_char a) @ 34 # (58 # json_text v @ r)
        = concat (map escape_char b) @ 34 # (58 # json_text u @ r')"
      using eq pq by (simp add: item_text_def quote_str_def)
    then have ab: "a = b" "json_text v @ r = json_text u @ r'" using quote_prefix by blast+
    moreover have "plain v" "plain u" using p q pq Obj.prems(1,2) w by (auto simp: list_all_iff)
    ultimately show ?thesis using Obj.IH [of "JStr a" v] p pq that(4,5) by blast
  qed
  have "kvs = lvs \<and> r = r'"
  proof (rule joined_prefix)
    show "joined (map item_text kvs) @ 125 # r = joined (map item_text lvs) @ 125 # r'"
      using Obj.prems(3) w by (simp add: json_text_JObj)
  qed (use Obj.prems(1,2) w elem item_text_open in \<open>auto simp: list_all_iff\<close>)
  then show ?case using w by simp
next
  case Null
  then have "w = JNull" using json_text_same_kind [OF Null.prems(1-3)] by (cases w) (auto split: if_splits)
  then show ?case using Null by simp
next
  case (Bool b)
  then have "w = JBool b" using json_text_same_kind [OF Bool.prems(1-3)] by (cases w) (auto split: if_splits)
  then show ?case using Bool by simp
qed auto

lemma json_text_inj: "plain v \<Longrightarrow> plain w \<Longrightarrow> json_text v = json_text w \<Longrightarrow> v = w"
  using json_text_prefix [of v w "[]" "[]"] by (simp add: stop_def)

section \<open>Code points of a serialised value\<close>

lemma set_joined: "set (joined ss) \<subseteq> insert 44 (\<Union> (set ` set ss))"
  by (induction ss rule: joined.induct) auto

lemma hex_char_code: "hex_char c \<Longrightarrow> c < 128"
  by (auto simp: hex_char_def)

lemma escape_chars: "c \<in> set (escape_char d) \<Longrightarrow> c < 128 \<or> c = d"
  using hex_pad_chars [of 4 d] hex_char_code
  by (auto simp: escape_char_def u_escape_def split: if_splits)

lemma dec_int_chars: "c \<in> set (dec_int i) \<Longrightarrow> c < 128"
  using dec_nat_digits by (fastforce simp: dec_int_def digit_char_def split: if_splits)

lemma json_text_chars: "plain v \<Longrightarrow> c \<in> set (json_text v) \<Longrightarrow> c < 128 \<or> c \<in> json_chars v"
proof (induction v rule: json_pair_induct)
  case (Str s)
  then show ?case using escape_chars by (fastforce simp: quote_str_def)
next
  case (List xs)
  then consider "c < 128" | x where "x \<in> set xs" "c \<in> set (json_text x)"
    using set_joined [of "map json_text xs"] by fastforce
  then show ?case
  proof cases
    case (2 x)
    moreover have "plain x" using 2(1) List.prems(1) by (auto simp: list_all_iff)
    ultimately show ?thesis using List.IH [of x] by auto
  qed simp
next
  case (Obj kvs)
  have "c = 123 \<or> c = 125 \<or> c \<in> set (joined (map item_text kvs))"
    using Obj.prems(2) by (auto simp: json_text_JObj)
  then have "c < 128 \<or> (\<exists>p \<in> set kvs. c \<in> set (item_text p))"
    using set_joined [of "map item_text kvs"] by auto
  then show ?case
  proof
    assume "\<exists>p \<in> set kvs. c \<in> set (item_text p)"
    then obtain a u where p: "(a, u) \<in> set kvs" "c \<in> set (item_text (a, u))" by auto
    have "is_str a" "plain u" using p(1) Obj.prems(1) by (auto simp: list_all_iff)
    then have "c = 58 \<or> c < 128 \<or> c \<in> json_chars a \<or> c \<in> json_chars u"
      using Obj.IH [OF p(1)] p(2) by (auto simp: item_text_def elim!: is_strE)
    then show ?thesis using p(1) by (simp only: json_chars_JObj) fastforce
  qed simp
qed (auto simp: lit_def dec_int_chars split: if_splits)

text \<open>The handler around \<open>json.dumps(...).encode\<close> never fires on a validated value.\<close>

lemma canonical_json_bytes_eq:
  "canonical_json_bytes v = bindE (validate (lit ''$'') v) (\<lambda>_. Inr (utf8 (json_text (sort_json v))))"
proof (cases "validate (lit ''$'') v")
  case (Inr u)
  then have "plain v \<and> (\<forall>c \<in> json_chars v. \<not> surrogate c)"
    using validate_ok(1) [of "lit ''$''" v] by (cases u) simp
  then have "\<not> list_ex surrogate (json_text (sort_json v))"
    using json_text_chars [of "sort_json v"] by (force simp: list_ex_iff surrogate_def)
  then show ?thesis using Inr by (simp add: canonical_json_bytes_def)
qed (simp add: canonical_json_bytes_def)

lemma length_sha_ref [simp]: "length (sha_ref bs) = 71"
  by (simp add: sha_ref_def)

lemma canonical_sha256_Inr:
  "canonical_sha256 v = Inr d \<longleftrightarrow> (\<exists>bs. canonical_json_bytes v = Inr bs \<and> d = sha_ref bs)"
  by (auto simp: canonical_sha256_def result_simps)

section \<open>Properties\<close>

lemma sort_items_perm:
  assumes "mset kvs = mset kvs'" and "distinct (map (key_text \<circ> fst) kvs)"
  shows "sort_json (JObj kvs) = sort_json (JObj kvs')"
proof -
  let ?k = "key_text \<circ> fst" and ?m = "map (map_prod id sort_json)"
  have keys: "\<And>xs. map ?k (?m xs) = map ?k xs" by (simp add: comp_def)
  have "mset (?m kvs) = mset (?m kvs')" using assms(1) by (metis mset_map)
  moreover have "inj_on ?k (set (?m kvs))"
    using assms(2) by (metis distinct_map keys)
  ultimately have "sort_key ?k (?m kvs) = sort_key ?k (?m kvs')"
    by (metis properties_for_sort_key mset_sort sort_key_inj_key_eq set_sort sorted_sort_key)
  then show ?thesis by simp
qed

lemma validate_items_iff:
  "validate_items path kvs = Inr () \<longleftrightarrow> (\<forall>(k, v) \<in> set kvs. validate_items path [(k, v)] = Inr ())"
  by (induction kvs) (auto simp: result_simps)

text \<open>
  The canonical bytes do not depend on the order in which a dict was built: reordering the
  items of a document with distinct keys leaves its canonical form unchanged.
\<close>

theorem canonical_order_independent:
  assumes "canonical_json_bytes (JObj kvs) = Inr bs"
    and "mset kvs' = mset kvs" and "distinct (map (key_text \<circ> fst) kvs)"
  shows "canonical_json_bytes (JObj kvs') = Inr bs"
proof -
  have "set kvs' = set kvs" using assms(2) by (metis set_mset_mset)
  moreover have "validate_items (lit ''$'') kvs = Inr ()"
    using assms(1) by (auto simp: canonical_json_bytes_eq result_simps)
  ultimately have "validate_items (lit ''$'') kvs' = Inr ()"
    using validate_items_iff by metis
  moreover have "sort_json (JObj kvs') = sort_json (JObj kvs)"
    using sort_items_perm assms(2,3) by metis
  ultimately show ?thesis using assms(1) by (auto simp: canonical_json_bytes_eq result_simps)
qed

theorem canonical_order_independent_witness:
  "canonical_json_bytes (JObj [(JStr [98], JInt 2), (JStr [97], JNull)])
     = canonical_json_bytes (JObj [(JStr [97], JNull), (JStr [98], JInt 2)])"
proof -
  let ?kvs = "[(JStr [97], JNull), (JStr [98], JInt 2)]"
  have ok: "validate (lit ''$'') (JObj ?kvs) = Inr ()"
    by (simp add: max_safe_json_integer_def list_ex_iff surrogate_def)
  obtain bs where bs: "canonical_json_bytes (JObj ?kvs) = Inr bs"
    by (simp only: canonical_json_bytes_eq ok bindE_Inr)
  have "canonical_json_bytes (JObj [(JStr [98], JInt 2), (JStr [97], JNull)]) = Inr bs"
    by (rule canonical_order_independent [OF bs]) (simp_all add: add_mset_commute)
  with bs show ?thesis by (simp only:)
qed

text \<open>
  C28: the canonical form is faithful to the content: two documents with the same canonical bytes
  are the same document up to the order of their keys, so a digest commits to the content as far as
  SHA-256 is collision-free.
\<close>

theorem canonical_commits:
  assumes "canonical_json_bytes v = Inr bs" and "canonical_json_bytes w = Inr bs"
    and "\<forall>c \<in> json_chars v \<union> json_chars w. code_point c"
  shows "sort_json v = sort_json w"
proof -
  have ok: "\<And>u. canonical_json_bytes u = Inr bs \<Longrightarrow> plain u \<and> utf8 (json_text (sort_json u)) = bs"
    using validate_ok(1) by (fastforce simp: canonical_json_bytes_eq result_simps)
  have pv: "plain v" "utf8 (json_text (sort_json v)) = bs"
    and pw: "plain w" "utf8 (json_text (sort_json w)) = bs"
    using ok assms(1,2) by blast+
  have cp: "\<forall>c \<in> set (json_text (sort_json u)). code_point c"
    if u: "plain u" "\<forall>c \<in> json_chars u. code_point c" for u
  proof
    fix c assume "c \<in> set (json_text (sort_json u))"
    then have "c < 128 \<or> c \<in> json_chars u" using json_text_chars [of "sort_json u" c] u(1) by simp
    then show "code_point c" using u(2) by (auto simp: code_point_def)
  qed
  have "json_text (sort_json v) = json_text (sort_json w)"
  proof (rule utf8_inj)
    show "utf8 (json_text (sort_json v)) = utf8 (json_text (sort_json w))" using pv(2) pw(2) by simp
    show "\<forall>c \<in> set (json_text (sort_json v)). code_point c" using cp [OF pv(1)] assms(3) by blast
    show "\<forall>c \<in> set (json_text (sort_json w)). code_point c" using cp [OF pw(1)] assms(3) by blast
  qed
  then show ?thesis using pv(1) pw(1) by (intro json_text_inj) auto
qed

theorem canonical_commits_witness:
  "sort_json (JList [JInt 7]) = sort_json (JList [JInt 7])
    \<and> (\<exists>bs. canonical_json_bytes (JList [JInt 7]) = Inr bs)"
proof -
  have ok: "canonical_json_bytes (JList [JInt 7]) = Inr (utf8 (json_text (sort_json (JList [JInt 7]))))"
    by (simp add: canonical_json_bytes_eq max_safe_json_integer_def)
  show ?thesis using canonical_commits [OF ok ok] ok by auto
qed

end
