(* ===== verification/Schemas.thy ===== *)
theory Schemas
  imports Canonical
begin

text \<open>
  \<open>modules/factory_engineer/schemas.py\<close>, first part: the statuses, references and inputs of the
  factory aggregates.  A Pydantic class is a record; its field constraints and validators are the
  predicate \<open>valid_...\<close>; \<open>model_dump(mode="json")\<close> is the function \<open>..._json\<close>.
\<close>

section \<open>Statuses\<close>

datatype model_status = MDraft | MApproved | MStale
datatype assessment_status = ADraft | AApproved | AStale
datatype readiness_status =
  NotStarted | InProgress | Blocked | Ready | ConditionallyReady | NotReady | RStale
datatype fdlc_stage = Discover | Design | Assemble | Validate | Deploy | Operate | Improve
datatype opportunity_status = OCandidate | OAssessed | ORecommended | OSelected | ORejected | OStale
datatype package_status =
  PDraft | PReadyForReview | PApproved | PPublished | PSuperseded | PRejected | PRevoked | PStale
datatype provenance_kind = Evidence | VerifiedClaim | ApprovedInput | Assumption

fun readiness_status_text :: "readiness_status \<Rightarrow> pystr" where
  "readiness_status_text NotStarted = lit ''NOT_STARTED''"
| "readiness_status_text InProgress = lit ''IN_PROGRESS''"
| "readiness_status_text Blocked = lit ''BLOCKED''"
| "readiness_status_text Ready = lit ''READY''"
| "readiness_status_text ConditionallyReady = lit ''CONDITIONALLY_READY''"
| "readiness_status_text NotReady = lit ''NOT_READY''"
| "readiness_status_text RStale = lit ''STALE''"

fun fdlc_stage_text :: "fdlc_stage \<Rightarrow> pystr" where
  "fdlc_stage_text Discover = lit ''DISCOVER''"
| "fdlc_stage_text Design = lit ''DESIGN''"
| "fdlc_stage_text Assemble = lit ''ASSEMBLE''"
| "fdlc_stage_text Validate = lit ''VALIDATE''"
| "fdlc_stage_text Deploy = lit ''DEPLOY''"
| "fdlc_stage_text Operate = lit ''OPERATE''"
| "fdlc_stage_text Improve = lit ''IMPROVE''"

fun provenance_kind_text :: "provenance_kind \<Rightarrow> pystr" where
  "provenance_kind_text Evidence = lit ''EVIDENCE''"
| "provenance_kind_text VerifiedClaim = lit ''VERIFIED_CLAIM''"
| "provenance_kind_text ApprovedInput = lit ''APPROVED_INPUT''"
| "provenance_kind_text Assumption = lit ''ASSUMPTION''"

definition parse_provenance_kind :: "pystr \<Rightarrow> provenance_kind option" where
  "parse_provenance_kind s =
     (if s = lit ''EVIDENCE'' then Some Evidence
      else if s = lit ''VERIFIED_CLAIM'' then Some VerifiedClaim
      else if s = lit ''APPROVED_INPUT'' then Some ApprovedInput
      else if s = lit ''ASSUMPTION'' then Some Assumption else None)"

lemma parse_provenance_kind_text [simp]: "parse_provenance_kind (provenance_kind_text k) = Some k"
  by (cases k) (simp_all add: parse_provenance_kind_def)

definition max_contract_array_items :: nat where
  "max_contract_array_items = 200"

definition bounded_text :: "nat \<Rightarrow> pystr \<Rightarrow> bool" where
  "bounded_text n s \<longleftrightarrow> 1 \<le> length s \<and> length s \<le> n"

definition bounded_list :: "nat \<Rightarrow> ('a \<Rightarrow> bool) \<Rightarrow> 'a list \<Rightarrow> bool" where
  "bounded_list m P xs \<longleftrightarrow> m \<le> length xs \<and> length xs \<le> max_contract_array_items \<and> list_all P xs"

section \<open>References\<close>

text \<open>\<open>pattern=r"^sha256:[0-9a-f]{64}$"\<close>\<close>

definition sha_pattern :: "pystr \<Rightarrow> bool" where
  "sha_pattern s \<longleftrightarrow> take 7 s = lit ''sha256:'' \<and> length s = 71 \<and> list_all hex_char (drop 7 s)"

lemma sha_pattern_sha_ref [simp]: "sha_pattern (sha_ref bs)"
  using sha256_hex_chars by (auto simp: sha_pattern_def sha_ref_def list_all_iff)

record source_ref =
  sr_kind :: provenance_kind
  sr_ref :: pystr
  sr_version :: "int option"
  sr_sha256 :: pystr

definition valid_source_ref :: "source_ref \<Rightarrow> bool" where
  "valid_source_ref r \<longleftrightarrow> bounded_text 1024 (sr_ref r)
     \<and> (case sr_version r of None \<Rightarrow> True | Some v \<Rightarrow> 1 \<le> v)
     \<and> sha_pattern (sr_sha256 r)
     \<and> \<not> (sr_kind r \<in> {VerifiedClaim, ApprovedInput} \<and> sr_version r = None)"

definition source_ref_json :: "source_ref \<Rightarrow> json" where
  "source_ref_json r = obj
     [(''kind'', JStr (provenance_kind_text (sr_kind r))), (''ref'', JStr (sr_ref r)),
      (''version'', jopt JInt (sr_version r)), (''sha256'', JStr (sr_sha256 r))]"

record version_ref =
  vr_id :: uuid
  vr_version :: int
  vr_digest :: pystr

definition valid_version_ref :: "version_ref \<Rightarrow> bool" where
  "valid_version_ref r \<longleftrightarrow> 1 \<le> vr_version r \<and> sha_pattern (vr_digest r)"

definition version_ref_json :: "version_ref \<Rightarrow> json" where
  "version_ref_json r = obj
     [(''id'', JStr (uuid_str (vr_id r))), (''version'', JInt (vr_version r)),
      (''digest'', JStr (vr_digest r))]"

text \<open>
  \<open>SourceReference.model_validate\<close> of a JSON object found inside a payload; \<open>None\<close> is a
  \<open>ValidationError\<close>.  Pydantic's lax integers are accepted: integers, booleans, decimal text.
\<close>

definition jget :: "string \<Rightarrow> json \<Rightarrow> json option" where
  "jget k v = (case v of JObj kvs \<Rightarrow> map_of kvs (JStr (lit k)) | _ \<Rightarrow> None)"

definition lax_version :: "json option \<Rightarrow> int option option" where
  "lax_version v = (case v of
       None \<Rightarrow> Some None
     | Some JNull \<Rightarrow> Some None
     | Some (JInt i) \<Rightarrow> Some (Some i)
     | Some (JBool b) \<Rightarrow> Some (Some (if b then 1 else 0))
     | Some (JStr s) \<Rightarrow> map_option Some (py_int10 s)
     | _ \<Rightarrow> None)"

definition parse_source_ref :: "json \<Rightarrow> source_ref option" where
  "parse_source_ref v =
     (case (jget ''kind'' v, jget ''ref'' v, lax_version (jget ''version'' v), jget ''sha256'' v) of
        (Some (JStr k), Some (JStr rf), Some ver, Some (JStr sha)) \<Rightarrow>
          (case parse_provenance_kind k of
             None \<Rightarrow> None
           | Some kind \<Rightarrow>
               let r = \<lparr>sr_kind = kind, sr_ref = rf, sr_version = ver, sr_sha256 = sha\<rparr>
               in if valid_source_ref r then Some r else None)
      | _ \<Rightarrow> None)"

lemma parse_source_ref_json: "valid_source_ref r \<Longrightarrow> parse_source_ref (source_ref_json r) = Some r"
  by (cases r; cases "sr_version r")
     (simp_all add: parse_source_ref_def source_ref_json_def jget_def obj_def jopt_def lax_version_def
        Let_def)

lemma parse_source_ref_valid: "parse_source_ref v = Some r \<Longrightarrow> valid_source_ref r"
  by (auto simp: parse_source_ref_def Let_def split: option.splits json.splits if_splits)

section \<open>Customer factory models\<close>

record traceable_fact =
  tf_key :: pystr
  tf_label :: pystr
  tf_description :: pystr
  tf_provenance :: "source_ref list"
  tf_attributes :: "(json \<times> json) list"

definition valid_fact :: "traceable_fact \<Rightarrow> bool" where
  "valid_fact f \<longleftrightarrow> bounded_text 160 (tf_key f) \<and> bounded_text 512 (tf_label f)
     \<and> bounded_text 4000 (tf_description f) \<and> bounded_list 1 valid_source_ref (tf_provenance f)"

definition fact_json :: "traceable_fact \<Rightarrow> json" where
  "fact_json f = obj
     [(''key'', JStr (tf_key f)), (''label'', JStr (tf_label f)),
      (''description'', JStr (tf_description f)),
      (''provenance_refs'', JList (map source_ref_json (tf_provenance f))),
      (''attributes'', JObj (tf_attributes f))]"

record customer_model_input =
  cmi_organization :: traceable_fact
  cmi_systems :: "traceable_fact list"
  cmi_repositories :: "traceable_fact list"
  cmi_environments :: "traceable_fact list"
  cmi_workflows :: "traceable_fact list"
  cmi_policies :: "traceable_fact list"
  cmi_authority_boundaries :: "traceable_fact list"
  cmi_constraints :: "traceable_fact list"
  cmi_risks :: "traceable_fact list"
  cmi_baselines :: "traceable_fact list"
  cmi_evidence_refs :: "source_ref list"
  cmi_verified_claim_refs :: "source_ref list"
  cmi_assumption_refs :: "source_ref list"
  cmi_factory_opportunity_refs :: "source_ref list"

definition valid_customer_model_input :: "customer_model_input \<Rightarrow> bool" where
  "valid_customer_model_input i \<longleftrightarrow>
     valid_fact (cmi_organization i)
     \<and> bounded_list 0 valid_fact (cmi_systems i) \<and> bounded_list 0 valid_fact (cmi_repositories i)
     \<and> bounded_list 0 valid_fact (cmi_environments i) \<and> bounded_list 1 valid_fact (cmi_workflows i)
     \<and> bounded_list 0 valid_fact (cmi_policies i)
     \<and> bounded_list 0 valid_fact (cmi_authority_boundaries i)
     \<and> bounded_list 0 valid_fact (cmi_constraints i) \<and> bounded_list 0 valid_fact (cmi_risks i)
     \<and> bounded_list 0 valid_fact (cmi_baselines i)
     \<and> bounded_list 0 valid_source_ref (cmi_evidence_refs i)
     \<and> bounded_list 0 valid_source_ref (cmi_verified_claim_refs i)
     \<and> bounded_list 0 valid_source_ref (cmi_assumption_refs i)
     \<and> bounded_list 0 valid_source_ref (cmi_factory_opportunity_refs i)
     \<and> cmi_evidence_refs i \<noteq> [] \<and> cmi_verified_claim_refs i \<noteq> []"

text \<open>The fourteen JSON columns of a customer factory model, in the order of the dump.\<close>

record model_columns =
  mc_organization :: json
  mc_systems :: json
  mc_repositories :: json
  mc_environments :: json
  mc_workflows :: json
  mc_policies :: json
  mc_authority_boundaries :: json
  mc_constraints :: json
  mc_risks :: json
  mc_baselines :: json
  mc_evidence_refs :: json
  mc_verified_claim_refs :: json
  mc_assumption_refs :: json
  mc_factory_opportunity_refs :: json

definition model_columns_of :: "customer_model_input \<Rightarrow> model_columns" where
  "model_columns_of i =
     (let facts = \<lambda>fs. JList (map fact_json fs); refs = \<lambda>rs. JList (map source_ref_json rs) in
      \<lparr>mc_organization = fact_json (cmi_organization i),
       mc_systems = facts (cmi_systems i),
       mc_repositories = facts (cmi_repositories i),
       mc_environments = facts (cmi_environments i),
       mc_workflows = facts (cmi_workflows i),
       mc_policies = facts (cmi_policies i),
       mc_authority_boundaries = facts (cmi_authority_boundaries i),
       mc_constraints = facts (cmi_constraints i),
       mc_risks = facts (cmi_risks i),
       mc_baselines = facts (cmi_baselines i),
       mc_evidence_refs = refs (cmi_evidence_refs i),
       mc_verified_claim_refs = refs (cmi_verified_claim_refs i),
       mc_assumption_refs = refs (cmi_assumption_refs i),
       mc_factory_opportunity_refs = refs (cmi_factory_opportunity_refs i)\<rparr>)"

definition model_columns_json :: "model_columns \<Rightarrow> json" where
  "model_columns_json c = obj
     [(''organization'', mc_organization c), (''systems'', mc_systems c),
      (''repositories'', mc_repositories c), (''environments'', mc_environments c),
      (''workflows'', mc_workflows c), (''policies'', mc_policies c),
      (''authority_boundaries'', mc_authority_boundaries c), (''constraints'', mc_constraints c),
      (''risks'', mc_risks c), (''baselines'', mc_baselines c),
      (''evidence_refs'', mc_evidence_refs c), (''verified_claim_refs'', mc_verified_claim_refs c),
      (''assumption_refs'', mc_assumption_refs c),
      (''factory_opportunity_refs'', mc_factory_opportunity_refs c)]"

definition customer_model_input_json :: "customer_model_input \<Rightarrow> json" where
  "customer_model_input_json i = model_columns_json (model_columns_of i)"

section \<open>Readiness inputs\<close>

record criterion =
  cr_key :: pystr
  cr_label :: pystr
  cr_satisfied :: bool
  cr_blocking :: bool
  cr_explanation :: pystr
  cr_basis_refs :: "source_ref list"
  cr_next_action :: "pystr option"

definition valid_criterion :: "criterion \<Rightarrow> bool" where
  "valid_criterion c \<longleftrightarrow> bounded_text 160 (cr_key c) \<and> bounded_text 512 (cr_label c)
     \<and> bounded_text 4000 (cr_explanation c) \<and> bounded_list 0 valid_source_ref (cr_basis_refs c)
     \<and> (case cr_next_action c of None \<Rightarrow> True | Some a \<Rightarrow> length a \<le> 1000)
     \<and> \<not> (cr_satisfied c \<and> cr_basis_refs c = [])
     \<and> \<not> (\<not> cr_satisfied c \<and> (cr_next_action c = None \<or> cr_next_action c = Some []))"

definition criterion_json :: "criterion \<Rightarrow> json" where
  "criterion_json c = obj
     [(''key'', JStr (cr_key c)), (''label'', JStr (cr_label c)),
      (''satisfied'', JBool (cr_satisfied c)), (''blocking'', JBool (cr_blocking c)),
      (''explanation'', JStr (cr_explanation c)),
      (''basis_refs'', JList (map source_ref_json (cr_basis_refs c))),
      (''next_action'', jopt JStr (cr_next_action c))]"

record stage_input =
  si_stage :: fdlc_stage
  si_criteria :: "criterion list"
  si_risks :: "pystr list"
  si_decisions :: "source_ref list"
  si_required_artifacts :: "pystr list"
  si_owner :: "pystr option"

definition valid_stage_input :: "stage_input \<Rightarrow> bool" where
  "valid_stage_input s \<longleftrightarrow> bounded_list 1 valid_criterion (si_criteria s)
     \<and> bounded_list 0 (bounded_text 4000) (si_risks s)
     \<and> bounded_list 0 valid_source_ref (si_decisions s)
     \<and> bounded_list 0 (bounded_text 4000) (si_required_artifacts s)
     \<and> (case si_owner s of None \<Rightarrow> True | Some a \<Rightarrow> length a \<le> 512)"

definition stage_input_json :: "stage_input \<Rightarrow> json" where
  "stage_input_json s = obj
     [(''stage'', JStr (fdlc_stage_text (si_stage s))),
      (''criteria'', JList (map criterion_json (si_criteria s))),
      (''risks'', JList (map JStr (si_risks s))),
      (''decisions'', JList (map source_ref_json (si_decisions s))),
      (''required_artifacts'', JList (map JStr (si_required_artifacts s))),
      (''owner'', jopt JStr (si_owner s))]"

definition all_stages :: "fdlc_stage list" where
  "all_stages = [Discover, Design, Assemble, Validate, Deploy, Operate, Improve]"

definition valid_assessment_input :: "stage_input list \<Rightarrow> bool" where
  "valid_assessment_input ss \<longleftrightarrow> length ss = 7 \<and> list_all valid_stage_input ss
     \<and> distinct (map si_stage ss) \<and> set (map si_stage ss) = set all_stages"

definition assessment_input_json :: "stage_input list \<Rightarrow> json" where
  "assessment_input_json ss = obj [(''stages'', JList (map stage_input_json ss))]"

record stage_snapshot =
  ss_stage :: fdlc_stage
  ss_status :: readiness_status
  ss_score :: int
  ss_evidence_refs :: "source_ref list"
  ss_blockers :: "pystr list"
  ss_risks :: "pystr list"
  ss_decisions :: "source_ref list"
  ss_required_artifacts :: "pystr list"
  ss_owner :: "pystr option"
  ss_next_actions :: "pystr list"
  ss_criteria :: "criterion list"
  ss_explanation :: pystr
  ss_updated_at :: time

text \<open>\<open>score: int = Field(ge=0, le=100)\<close>, checked when the snapshot is built.\<close>

definition valid_snapshot_score :: "int \<Rightarrow> bool" where
  "valid_snapshot_score n \<longleftrightarrow> 0 \<le> n \<and> n \<le> 100"

definition stage_snapshot_json :: "stage_snapshot \<Rightarrow> json" where
  "stage_snapshot_json s = obj
     [(''stage'', JStr (fdlc_stage_text (ss_stage s))),
      (''status'', JStr (readiness_status_text (ss_status s))),
      (''score'', JInt (ss_score s)),
      (''evidence_refs'', JList (map source_ref_json (ss_evidence_refs s))),
      (''blockers'', JList (map JStr (ss_blockers s))),
      (''risks'', JList (map JStr (ss_risks s))),
      (''decisions'', JList (map source_ref_json (ss_decisions s))),
      (''required_artifacts'', JList (map JStr (ss_required_artifacts s))),
      (''owner'', jopt JStr (ss_owner s)),
      (''next_actions'', JList (map JStr (ss_next_actions s))),
      (''criteria'', JList (map criterion_json (ss_criteria s))),
      (''explanation'', JStr (ss_explanation s)),
      (''updated_at'', JStr (rfc3339_z (ss_updated_at s)))]"

section \<open>Opportunities\<close>

record factors =
  f_workflow_frequency :: int
  f_human_effort :: int
  f_cycle_time :: int
  f_repeatability :: int
  f_standardization :: int
  f_evidence_quality :: int
  f_deterministic_verifiability :: int
  f_blast_radius :: int
  f_system_accessibility :: int
  f_data_sensitivity :: int
  f_implementation_complexity :: int
  f_expected_economic_value :: int
  f_autonomy_potential :: int

definition factor_list :: "factors \<Rightarrow> (string \<times> int) list" where
  "factor_list f =
     [(''workflow_frequency'', f_workflow_frequency f), (''human_effort'', f_human_effort f),
      (''cycle_time'', f_cycle_time f), (''repeatability'', f_repeatability f),
      (''standardization'', f_standardization f), (''evidence_quality'', f_evidence_quality f),
      (''deterministic_verifiability'', f_deterministic_verifiability f),
      (''blast_radius'', f_blast_radius f), (''system_accessibility'', f_system_accessibility f),
      (''data_sensitivity'', f_data_sensitivity f),
      (''implementation_complexity'', f_implementation_complexity f),
      (''expected_economic_value'', f_expected_economic_value f),
      (''autonomy_potential'', f_autonomy_potential f)]"

definition valid_factors :: "factors \<Rightarrow> bool" where
  "valid_factors f \<longleftrightarrow> (\<forall>(k, v) \<in> set (factor_list f). 0 \<le> v \<and> v \<le> 5)"

definition factors_json :: "factors \<Rightarrow> json" where
  "factors_json f = obj (map (\<lambda>(k, v). (k, JInt v)) (factor_list f))"

record opportunity_input =
  oi_key :: pystr
  oi_name :: pystr
  oi_description :: pystr
  oi_source_workflow_ref :: version_ref
  oi_factors :: factors
  oi_economics_ref :: source_ref
  oi_evidence_refs :: "source_ref list"
  oi_blockers :: "pystr list"

definition valid_opportunity_input :: "opportunity_input \<Rightarrow> bool" where
  "valid_opportunity_input i \<longleftrightarrow> bounded_text 160 (oi_key i) \<and> bounded_text 512 (oi_name i)
     \<and> bounded_text 4000 (oi_description i) \<and> valid_version_ref (oi_source_workflow_ref i)
     \<and> valid_factors (oi_factors i) \<and> valid_source_ref (oi_economics_ref i)
     \<and> bounded_list 1 valid_source_ref (oi_evidence_refs i)
     \<and> bounded_list 0 (bounded_text 4000) (oi_blockers i)"

definition opportunity_input_json :: "opportunity_input \<Rightarrow> json" where
  "opportunity_input_json i = obj
     [(''opportunity_key'', JStr (oi_key i)), (''name'', JStr (oi_name i)),
      (''description'', JStr (oi_description i)),
      (''source_workflow_ref'', version_ref_json (oi_source_workflow_ref i)),
      (''factors'', factors_json (oi_factors i)),
      (''economics_ref'', source_ref_json (oi_economics_ref i)),
      (''evidence_refs'', JList (map source_ref_json (oi_evidence_refs i))),
      (''blockers'', JList (map JStr (oi_blockers i)))]"

record opportunity_score =
  os_value :: int
  os_verifiability :: int
  os_readiness :: int
  os_risk :: int
  os_autonomy :: int
  os_priority :: int
  os_rationale :: "pystr list"
  os_recommendation :: pystr
  os_rubric_version :: pystr
  os_rubric :: json

text \<open>The six scores are declared \<open>Field(ge=0, le=100)\<close>.\<close>

definition valid_score :: "opportunity_score \<Rightarrow> bool" where
  "valid_score s \<longleftrightarrow> (\<forall>v \<in> {os_value s, os_verifiability s, os_readiness s, os_risk s, os_autonomy s,
     os_priority s}. 0 \<le> v \<and> v \<le> 100)"

definition score_json :: "opportunity_score \<Rightarrow> json" where
  "score_json s = obj
     [(''value_score'', JInt (os_value s)), (''verifiability_score'', JInt (os_verifiability s)),
      (''readiness_score'', JInt (os_readiness s)), (''risk_score'', JInt (os_risk s)),
      (''autonomy_potential'', JInt (os_autonomy s)), (''priority_score'', JInt (os_priority s)),
      (''rationale'', JList (map JStr (os_rationale s))),
      (''recommendation'', JStr (os_recommendation s)),
      (''rubric_version'', JStr (os_rubric_version s)), (''rubric'', os_rubric s)]"

end
