(* ===== verification/Scoring.thy ===== *)
theory Scoring
  imports Schemas
begin

text \<open>
  \<open>modules/factory_engineer/scoring.py\<close>: the published opportunity rubric.  The dict of expanded
  factor values is an association list by name, as are the rubric's weights.
\<close>

section \<open>The rubric\<close>

definition rubric_version :: pystr where
  "rubric_version = lit ''factory-opportunity-rubric/v1''"

definition rubric :: "(string \<times> (string \<times> int) list) list" where
  "rubric =
     [(''value'', [(''workflow_frequency'', 25), (''human_effort'', 25), (''cycle_time'', 20),
                   (''expected_economic_value'', 30)]),
      (''verifiability'', [(''repeatability'', 25), (''standardization'', 20),
                   (''evidence_quality'', 25), (''deterministic_verifiability'', 30)]),
      (''readiness'', [(''system_accessibility'', 30), (''evidence_quality'', 25),
                   (''standardization'', 20), (''inverse_implementation_complexity'', 25)]),
      (''risk'', [(''blast_radius'', 40), (''data_sensitivity'', 35),
                   (''implementation_complexity'', 25)]),
      (''autonomy'', [(''autonomy_potential'', 35), (''repeatability'', 20),
                   (''deterministic_verifiability'', 25), (''inverse_blast_radius'', 20)]),
      (''priority'', [(''value'', 30), (''verifiability'', 25), (''readiness'', 20),
                   (''autonomy'', 15), (''inverse_risk'', 10)])]"

definition rubric_of :: "string \<Rightarrow> (string \<times> int) list" where
  "rubric_of name = (case map_of rubric name of None \<Rightarrow> [] | Some ws \<Rightarrow> ws)"

definition value_of :: "(string \<times> int) list \<Rightarrow> string \<Rightarrow> int" where
  "value_of values k = (case map_of values k of None \<Rightarrow> 0 | Some v \<Rightarrow> v)"

definition weighted_sum :: "(string \<times> int) list \<Rightarrow> (string \<times> int) list \<Rightarrow> int" where
  "weighted_sum values weights = sum_list (map (\<lambda>(k, w). value_of values k * w) weights)"

definition factor_score :: "(string \<times> int) list \<Rightarrow> (string \<times> int) list \<Rightarrow> int" where
  "factor_score values weights =
     (let weighted = weighted_sum values weights; denominator = 5 * sum_list (map snd weights)
      in (weighted * 100 + denominator div 2) div denominator)"

definition percentage_score :: "(string \<times> int) list \<Rightarrow> (string \<times> int) list \<Rightarrow> int" where
  "percentage_score values weights =
     (let weighted = weighted_sum values weights; denominator = sum_list (map snd weights)
      in (weighted + denominator div 2) div denominator)"

section \<open>Scoring an opportunity\<close>

definition expanded :: "factors \<Rightarrow> (string \<times> int) list" where
  "expanded f = factor_list f @
     [(''inverse_implementation_complexity'', 5 - f_implementation_complexity f),
      (''inverse_blast_radius'', 5 - f_blast_radius f)]"

datatype verdict = Hold | Recommend | Assess | Defer

fun verdict_text :: "verdict \<Rightarrow> pystr" where
  "verdict_text Hold = lit ''HOLD '' @ [0x2014] @ lit '' resolve explicit blockers before selection.''"
| "verdict_text Recommend = lit ''RECOMMEND '' @ [0x2014] @ lit '' strong value, verification, and readiness fit.''"
| "verdict_text Assess = lit ''ASSESS '' @ [0x2014] @ lit '' viable candidate with material tradeoffs to resolve.''"
| "verdict_text Defer = lit ''DEFER '' @ [0x2014] @ lit '' evidence does not yet support near-term selection.''"

definition verdict_of :: "pystr list \<Rightarrow> int \<Rightarrow> int \<Rightarrow> verdict" where
  "verdict_of blockers priority risk =
     (if blockers \<noteq> [] then Hold
      else if priority \<ge> 75 \<and> risk \<le> 60 then Recommend
      else if priority \<ge> 60 then Assess
      else Defer)"

definition rubric_json :: json where
  "rubric_json = obj (map (\<lambda>(k, ws). (k, obj (map (\<lambda>(f, w). (f, JInt w)) ws))) rubric)"

definition score_rationale :: "int \<Rightarrow> int \<Rightarrow> int \<Rightarrow> int \<Rightarrow> int \<Rightarrow> pystr list" where
  "score_rationale value verif ready risk priority =
     [lit ''Value '' @ dec_int value @ lit ''/100 from frequency, effort, cycle time, and expected economics.'',
      lit ''Verifiability '' @ dec_int verif
        @ lit ''/100 from repeatability, standards, evidence, and deterministic checks.'',
      lit ''Readiness '' @ dec_int ready @ lit ''/100 after system access and implementation complexity.'',
      lit ''Risk '' @ dec_int risk
        @ lit ''/100 from blast radius, data sensitivity, and implementation complexity.'',
      lit ''Priority '' @ dec_int priority @ lit ''/100 using the published '' @ rubric_version
        @ lit '' component weights.'']"

definition score_factory_opportunity :: "factors \<Rightarrow> pystr list \<Rightarrow> opportunity_score" where
  "score_factory_opportunity f blockers =
     (let ex = expanded f;
          value = factor_score ex (rubric_of ''value'');
          verif = factor_score ex (rubric_of ''verifiability'');
          ready = factor_score ex (rubric_of ''readiness'');
          risk = factor_score ex (rubric_of ''risk'');
          autonomy = factor_score ex (rubric_of ''autonomy'');
          priority = percentage_score
            [(''value'', value), (''verifiability'', verif), (''readiness'', ready),
             (''autonomy'', autonomy), (''inverse_risk'', 100 - risk)] (rubric_of ''priority'')
      in \<lparr>os_value = value, os_verifiability = verif, os_readiness = ready, os_risk = risk,
          os_autonomy = autonomy, os_priority = priority,
          os_rationale = score_rationale value verif ready risk priority,
          os_recommendation = verdict_text (verdict_of blockers priority risk),
          os_rubric_version = rubric_version, os_rubric = rubric_json\<rparr>)"

section \<open>Bounds and monotonicity of a weighted mean\<close>

lemma weighted_sum_simps [simp]:
  "weighted_sum v [] = 0"
  "weighted_sum v ((k, w) # ws) = value_of v k * w + weighted_sum v ws"
  by (simp_all add: weighted_sum_def)

lemma weighted_sum_mono:
  "\<forall>(k, w) \<in> set ws. 0 \<le> w \<and> value_of v k \<le> value_of v' k \<Longrightarrow> weighted_sum v ws \<le> weighted_sum v' ws"
  by (induction ws) (auto intro!: add_mono mult_right_mono)

lemma weighted_sum_bounds:
  "\<forall>(k, w) \<in> set ws. 0 \<le> w \<and> 0 \<le> value_of v k \<and> value_of v k \<le> n
    \<Longrightarrow> 0 \<le> weighted_sum v ws \<and> weighted_sum v ws \<le> n * sum_list (map snd ws)"
proof (induction ws)
  case (Cons kw ws)
  obtain k w where kw: "kw = (k, w)" by (cases kw)
  have w: "0 \<le> w" and k: "0 \<le> value_of v k" "value_of v k \<le> n" using Cons.prems kw by auto
  have "0 \<le> weighted_sum v ws \<and> weighted_sum v ws \<le> n * sum_list (map snd ws)"
    using Cons by simp
  moreover have "0 \<le> value_of v k * w" using w k by simp
  moreover have "value_of v k * w \<le> n * w" using w k by (intro mult_right_mono)
  ultimately show ?case by (simp add: kw distrib_left)
qed simp

lemma rounded_ratio_bounds:
  assumes "(0::int) < d" and "0 \<le> a" and "a \<le> n * d" and "0 \<le> n"
  shows "0 \<le> (a + d div 2) div d \<and> (a + d div 2) div d \<le> n"
proof
  show "0 \<le> (a + d div 2) div d" using assms by (simp add: pos_imp_zdiv_nonneg_iff)
  have "(a + d div 2) div d \<le> (d div 2 + n * d) div d"
    using assms by (intro zdiv_mono1) auto
  also have "\<dots> = n + d div 2 div d" using assms(1) by simp
  also have "d div 2 div d = 0" using assms(1) by (intro div_pos_pos_trivial) auto
  finally show "(a + d div 2) div d \<le> n" by simp
qed

lemma rounded_ratio_nearest:
  assumes "(0::int) < d"
  shows "2 * \<bar>d * ((a + d div 2) div d) - a\<bar> \<le> d"
proof -
  define q where "q = (a + d div 2) div d"
  define r where "r = (a + d div 2) mod d"
  have q: "d * q = a + d div 2 - r" by (simp add: q_def r_def minus_mod_eq_mult_div [symmetric])
  have "0 \<le> r" "r < d" using assms by (simp_all add: r_def)
  moreover have "2 * (d div 2) \<le> d" "d - 1 \<le> 2 * (d div 2)" by presburger+
  ultimately have "2 * \<bar>d * q - a\<bar> \<le> d" unfolding q abs_le_iff by (simp add: abs_if)
  then show ?thesis by (simp add: q_def)
qed

lemma factor_score_bounds:
  assumes "\<forall>(k, w) \<in> set ws. 0 \<le> w \<and> 0 \<le> value_of v k \<and> value_of v k \<le> 5"
    and "0 < sum_list (map snd ws)"
  shows "0 \<le> factor_score v ws \<and> factor_score v ws \<le> 100"
proof -
  have "0 \<le> weighted_sum v ws" "weighted_sum v ws \<le> 5 * sum_list (map snd ws)"
    using weighted_sum_bounds [OF assms(1)] by auto
  then show ?thesis
    using rounded_ratio_bounds [of "5 * sum_list (map snd ws)" "weighted_sum v ws * 100" 100] assms(2)
    by (simp add: factor_score_def Let_def)
qed

lemma percentage_score_bounds:
  assumes "\<forall>(k, w) \<in> set ws. 0 \<le> w \<and> 0 \<le> value_of v k \<and> value_of v k \<le> 100"
    and "0 < sum_list (map snd ws)"
  shows "0 \<le> percentage_score v ws \<and> percentage_score v ws \<le> 100"
proof -
  have "0 \<le> weighted_sum v ws" "weighted_sum v ws \<le> 100 * sum_list (map snd ws)"
    using weighted_sum_bounds [OF assms(1)] by auto
  then show ?thesis
    using rounded_ratio_bounds [of "sum_list (map snd ws)" "weighted_sum v ws" 100] assms(2)
    by (simp add: percentage_score_def Let_def)
qed

lemma factor_score_mono:
  assumes "\<forall>(k, w) \<in> set ws. 0 \<le> w \<and> value_of v k \<le> value_of v' k" and "0 < sum_list (map snd ws)"
  shows "factor_score v ws \<le> factor_score v' ws"
  using weighted_sum_mono [OF assms(1)] assms(2)
  by (simp add: factor_score_def Let_def zdiv_mono1)

lemma percentage_score_mono:
  assumes "\<forall>(k, w) \<in> set ws. 0 \<le> w \<and> value_of v k \<le> value_of v' k" and "0 < sum_list (map snd ws)"
  shows "percentage_score v ws \<le> percentage_score v' ws"
  using weighted_sum_mono [OF assms(1)] assms(2)
  by (simp add: percentage_score_def Let_def zdiv_mono1)

lemma rubric_of_simps [simp]:
  "rubric_of ''value'' = [(''workflow_frequency'', 25), (''human_effort'', 25), (''cycle_time'', 20),
                   (''expected_economic_value'', 30)]"
  "rubric_of ''verifiability'' = [(''repeatability'', 25), (''standardization'', 20),
                   (''evidence_quality'', 25), (''deterministic_verifiability'', 30)]"
  "rubric_of ''readiness'' = [(''system_accessibility'', 30), (''evidence_quality'', 25),
                   (''standardization'', 20), (''inverse_implementation_complexity'', 25)]"
  "rubric_of ''risk'' = [(''blast_radius'', 40), (''data_sensitivity'', 35),
                   (''implementation_complexity'', 25)]"
  "rubric_of ''autonomy'' = [(''autonomy_potential'', 35), (''repeatability'', 20),
                   (''deterministic_verifiability'', 25), (''inverse_blast_radius'', 20)]"
  "rubric_of ''priority'' = [(''value'', 30), (''verifiability'', 25), (''readiness'', 20),
                   (''autonomy'', 15), (''inverse_risk'', 10)]"
  by (simp_all add: rubric_of_def rubric_def)

lemmas factor_value_simps = value_of_def expanded_def factor_list_def valid_factors_def

section \<open>Properties\<close>

text \<open>
  Every score of an opportunity whose thirteen ratings lie between 0 and 5 lies between 0 and
  100, so building the declared FactoryOpportunityScore (and storing the row) never fails.
\<close>

theorem scores_in_range:
  assumes "valid_factors f"
  shows "valid_score (score_factory_opportunity f blockers)"
proof -
  note b = factor_score_bounds [of "rubric_of _" "expanded f"]
  have fs: "0 \<le> factor_score (expanded f) (rubric_of n) \<and> factor_score (expanded f) (rubric_of n) \<le> 100"
    if "n \<in> {''value'', ''verifiability'', ''readiness'', ''risk'', ''autonomy''}" for n
    using that assms by (intro factor_score_bounds) (auto simp: factor_value_simps)
  show ?thesis
    using fs [of "''value''"] fs [of "''verifiability''"] fs [of "''readiness''"] fs [of "''risk''"]
      fs [of "''autonomy''"]
    by (auto simp: valid_score_def score_factory_opportunity_def Let_def value_of_def
        intro!: percentage_score_bounds [THEN conjunct1] percentage_score_bounds [THEN conjunct2]
        simp del: rubric_of_simps(1-5))
qed

definition sample_factors :: factors where
  "sample_factors = \<lparr>f_workflow_frequency = 5, f_human_effort = 4, f_cycle_time = 3, f_repeatability = 5,
     f_standardization = 4, f_evidence_quality = 4, f_deterministic_verifiability = 5,
     f_blast_radius = 1, f_system_accessibility = 4, f_data_sensitivity = 2,
     f_implementation_complexity = 2, f_expected_economic_value = 4, f_autonomy_potential = 4\<rparr>"

theorem scores_in_range_witness:
  "valid_factors sample_factors \<and> valid_score (score_factory_opportunity sample_factors [])"
proof -
  have v: "valid_factors sample_factors"
    by (simp add: valid_factors_def factor_list_def sample_factors_def)
  show ?thesis using scores_in_range [OF v] v by blast
qed

text \<open>One set of ratings is at least as favourable as another.\<close>

definition at_least_as_good :: "factors \<Rightarrow> factors \<Rightarrow> bool" where
  "at_least_as_good g f \<longleftrightarrow>
     (let bad = {''blast_radius'', ''data_sensitivity'', ''implementation_complexity''} in
      \<forall>k \<in> set (map fst (factor_list f)).
        if k \<in> bad then value_of (factor_list g) k \<le> value_of (factor_list f) k
        else value_of (factor_list f) k \<le> value_of (factor_list g) k)"

text \<open>
  C36: the rubric is monotone: better ratings (higher on every favourable factor, lower on blast
  radius, data sensitivity and implementation complexity) never raise the risk score and never lower
  the value, verifiability, readiness, autonomy or priority score.
\<close>

theorem scoring_monotone:
  assumes "at_least_as_good g f"
  shows "os_risk (score_factory_opportunity g bs) \<le> os_risk (score_factory_opportunity f bs')
    \<and> os_priority (score_factory_opportunity f bs') \<le> os_priority (score_factory_opportunity g bs)"
proof
  note assm = assms [unfolded at_least_as_good_def Let_def factor_list_def value_of_def]
  have up: "factor_score (expanded f) (rubric_of n) \<le> factor_score (expanded g) (rubric_of n)"
    if "n \<in> {''value'', ''verifiability'', ''readiness'', ''autonomy''}" for n
    using that assm by (intro factor_score_mono) (auto simp: factor_value_simps)
  have down: "factor_score (expanded g) (rubric_of ''risk'') \<le> factor_score (expanded f) (rubric_of ''risk'')"
    using assm by (intro factor_score_mono) (auto simp: factor_value_simps)
  show "os_risk (score_factory_opportunity g bs) \<le> os_risk (score_factory_opportunity f bs')"
    using down by (simp add: score_factory_opportunity_def Let_def del: rubric_of_simps)
  show "os_priority (score_factory_opportunity f bs') \<le> os_priority (score_factory_opportunity g bs)"
    using down up [of "''value''"] up [of "''verifiability''"] up [of "''readiness''"] up [of "''autonomy''"]
    by (auto simp: score_factory_opportunity_def Let_def value_of_def
        intro!: percentage_score_mono simp del: rubric_of_simps(1-5))
qed

theorem scoring_monotone_witness:
  "os_priority (score_factory_opportunity (sample_factors\<lparr>f_blast_radius := 4\<rparr>) [])
     \<le> os_priority (score_factory_opportunity sample_factors [])"
  by (rule scoring_monotone [THEN conjunct2])
     (simp add: at_least_as_good_def factor_list_def value_of_def sample_factors_def)

text \<open>
  An opportunity is recommended exactly when it carries no blocker, its priority is at least 75
  and its risk at most 60; the recommendation's text starts with RECOMMEND in no other case.
\<close>

theorem recommended_iff:
  "take 9 (os_recommendation (score_factory_opportunity f blockers)) = lit ''RECOMMEND''
   \<longleftrightarrow> blockers = [] \<and> os_priority (score_factory_opportunity f blockers) \<ge> 75
       \<and> os_risk (score_factory_opportunity f blockers) \<le> 60"
  by (auto simp: score_factory_opportunity_def Let_def verdict_of_def lit_def simp del: rubric_of_simps)

text \<open>
  Each component score is the weighted mean of the ratings on a 0-100 scale, rounded to the
  nearest integer: it is off by at most half a point.
\<close>

theorem factor_score_rounds_to_nearest:
  assumes "n \<in> {''value'', ''verifiability'', ''readiness'', ''risk'', ''autonomy''}"
  shows "2 * \<bar>5 * sum_list (map snd (rubric_of n)) * factor_score v (rubric_of n)
             - 100 * weighted_sum v (rubric_of n)\<bar> \<le> 5 * sum_list (map snd (rubric_of n))"
proof -
  have "0 < 5 * sum_list (map snd (rubric_of n))" using assms by auto
  from rounded_ratio_nearest [OF this, of "weighted_sum v (rubric_of n) * 100"]
  show ?thesis by (simp add: factor_score_def Let_def mult.commute del: rubric_of_simps)
qed

theorem factor_score_rounds_to_nearest_witness:
  "2 * \<bar>500 * factor_score (expanded sample_factors) (rubric_of ''risk'')
       - 100 * weighted_sum (expanded sample_factors) (rubric_of ''risk'')\<bar> \<le> 500"
  using factor_score_rounds_to_nearest [of "''risk''" "expanded sample_factors"]
  by (simp add: rubric_of_def rubric_def del: rubric_of_simps)

end
