(* ===== verification/Fdlc.thy ===== *)
theory Fdlc
  imports Scoring
begin

text \<open>
  \<open>modules/factory_engineer/readiness.py\<close>: the required criteria of each FDLC stage, the
  evaluation of one stage, and the overall readiness status.
\<close>

section \<open>The required criteria\<close>

fun readiness_criteria :: "fdlc_stage \<Rightarrow> pystr list" where
  "readiness_criteria Discover = map lit
     [''desired_outcome'', ''owner'', ''workflow_scope'', ''baseline_evidence'',
      ''evidence_sufficiency'', ''material_unknowns'']"
| "readiness_criteria Design = map lit
     [''current_state_approved'', ''target_state_defined'', ''acceptance_criteria'',
      ''work_allocation'', ''autonomy_boundary'', ''authority_boundary'']"
| "readiness_criteria Assemble = map lit
     [''agents'', ''skills'', ''tools'', ''models'', ''context_sources'', ''environment'']"
| "readiness_criteria Validate = map lit
     [''verification_strategy'', ''evaluation_requirements'', ''security_requirements'',
      ''failure_handling'', ''rollback'', ''permission_model'', ''unresolved_blockers'']"
| "readiness_criteria Deploy = map lit
     [''deployment_scope'', ''rollout_plan'', ''approval_requirements'', ''deployment_package'',
      ''production_target'']"
| "readiness_criteria Operate = map lit
     [''ownership'', ''observability'', ''incident_response'', ''cost_monitoring'',
      ''human_escalation'']"
| "readiness_criteria Improve = map lit
     [''outcome_metrics'', ''baseline'', ''learning_signals'', ''failure_taxonomy'',
      ''improvement_owner'']"

text \<open>\<open>ReadinessCriteriaError\<close>: the stage, the missing keys and the unknown keys, both sorted.\<close>

datatype criteria_error = CriteriaMismatch fdlc_stage "pystr list" "pystr list"

section \<open>One stage\<close>

text \<open>
  \<open>_unique_refs\<close>: the identity of a reference is all four of its fields, so two references have
  the same identity exactly when they are equal.
\<close>

fun unique_refs_from :: "source_ref set \<Rightarrow> source_ref list \<Rightarrow> source_ref list" where
  "unique_refs_from seen [] = []"
| "unique_refs_from seen (r # rs) =
     (if r \<in> seen then unique_refs_from seen rs else r # unique_refs_from (insert r seen) rs)"

definition unique_refs :: "source_ref list \<Rightarrow> source_ref list" where
  "unique_refs rs = unique_refs_from {} rs"

definition stage_blockers :: "criterion list \<Rightarrow> pystr list" where
  "stage_blockers cs = map (\<lambda>c. cr_label c @ lit '': '' @ cr_explanation c)
     (filter (\<lambda>c. \<not> cr_satisfied c \<and> cr_blocking c) cs)"

definition stage_next_actions :: "criterion list \<Rightarrow> pystr list" where
  "stage_next_actions cs = concat (map (\<lambda>c. opt_list (cr_next_action c))
     (filter (\<lambda>c. \<not> cr_satisfied c) cs))"

definition stage_status :: "criterion list \<Rightarrow> int \<Rightarrow> int \<Rightarrow> readiness_status \<times> pystr" where
  "stage_status cs satisfied score =
     (let blockers = stage_blockers cs in
      if blockers \<noteq> [] then
        (Blocked, dec_int (int (length blockers)) @ lit '' blocking criterion/criteria remain unresolved.'')
      else if satisfied = 0 then
        (NotStarted, lit ''No readiness criterion has a verified basis yet.'')
      else if satisfied = int (length cs) then
        (Ready, lit ''Every required criterion is satisfied with a recorded basis.'')
      else if score \<ge> 70 then
        (ConditionallyReady, lit ''No blocking criterion remains, but non-blocking conditions are open.'')
      else if score < 50 then
        (NotReady, lit ''Fewer than half of the required criteria are currently satisfied.'')
      else (InProgress, lit ''Readiness work is underway and no blocking criterion is marked.''))"

definition satisfied_count :: "criterion list \<Rightarrow> int" where
  "satisfied_count cs = int (length (filter cr_satisfied cs))"

definition stage_score :: "criterion list \<Rightarrow> int" where
  "stage_score cs = (satisfied_count cs * 100 + int (length cs) div 2) div int (length cs)"

definition stage_snapshot :: "time \<Rightarrow> stage_input \<Rightarrow> stage_snapshot" where
  "stage_snapshot now s =
     (let cs = si_criteria s; verdict = stage_status cs (satisfied_count cs) (stage_score cs) in
      \<lparr>ss_stage = si_stage s, ss_status = fst verdict, ss_score = stage_score cs,
       ss_evidence_refs = unique_refs (concat (map cr_basis_refs (filter cr_satisfied cs))),
       ss_blockers = stage_blockers cs, ss_risks = si_risks s,
       ss_decisions = si_decisions s, ss_required_artifacts = si_required_artifacts s,
       ss_owner = si_owner s, ss_next_actions = stage_next_actions cs,
       ss_criteria = cs, ss_explanation = snd verdict, ss_updated_at = now\<rparr>)"

definition evaluate_stage :: "time \<Rightarrow> stage_input \<Rightarrow> (criteria_error, stage_snapshot) result" where
  "evaluate_stage now s =
     (let expected = readiness_criteria (si_stage s); actual = map cr_key (si_criteria s) in
      if card (set actual) \<noteq> length (si_criteria s) \<or> set actual \<noteq> set expected then
        Inl (CriteriaMismatch (si_stage s)
               (sort (filter (\<lambda>k. k \<notin> set actual) expected))
               (sort (remdups (filter (\<lambda>k. k \<notin> set expected) actual))))
      else Inr (stage_snapshot now s))"

section \<open>The assessment\<close>

definition overall_status :: "readiness_status set \<Rightarrow> readiness_status" where
  "overall_status statuses =
     (if RStale \<in> statuses then RStale
      else if Blocked \<in> statuses then Blocked
      else if statuses = {Ready} then Ready
      else if NotReady \<in> statuses then NotReady
      else if statuses \<subseteq> {Ready, ConditionallyReady} then ConditionallyReady
      else if statuses = {NotStarted} then NotStarted
      else InProgress)"

definition evaluate_readiness ::
  "time \<Rightarrow> stage_input list \<Rightarrow> (criteria_error, readiness_status \<times> stage_snapshot list) result" where
  "evaluate_readiness now stages =
     bindE (mapE (evaluate_stage now) stages)
       (\<lambda>snaps. Inr (overall_status (set (map ss_status snaps)), snaps))"

section \<open>Lemmas\<close>

lemma unique_refs_from_set: "set (unique_refs_from seen rs) = set rs - seen"
  by (induction rs arbitrary: seen) auto

lemma unique_refs_from_distinct: "distinct (unique_refs_from seen rs)"
  by (induction rs arbitrary: seen) (auto simp: unique_refs_from_set)

lemma set_unique_refs [simp]: "set (unique_refs rs) = set rs"
  by (simp add: unique_refs_def unique_refs_from_set)

lemma distinct_unique_refs [simp]: "distinct (unique_refs rs)"
  by (simp add: unique_refs_def unique_refs_from_distinct)

lemma stage_blockers_Nil_iff [simp]:
  "stage_blockers cs = [] \<longleftrightarrow> (\<forall>c \<in> set cs. cr_satisfied c \<or> \<not> cr_blocking c)"
  by (auto simp: stage_blockers_def filter_empty_conv)

definition criteria_match :: "stage_input \<Rightarrow> bool" where
  "criteria_match s \<longleftrightarrow> distinct (map cr_key (si_criteria s))
     \<and> set (map cr_key (si_criteria s)) = set (readiness_criteria (si_stage s))"

lemma evaluate_stage_ok:
  "evaluate_stage now s = Inr sn \<longleftrightarrow> criteria_match s \<and> sn = stage_snapshot now s"
proof -
  have "card (set (map cr_key (si_criteria s))) = length (si_criteria s)
      \<longleftrightarrow> distinct (map cr_key (si_criteria s))"
    by (metis card_distinct distinct_card length_map)
  then show ?thesis
    by (auto simp: evaluate_stage_def criteria_match_def Let_def split: if_splits)
qed

lemma readiness_criteria_nonempty [simp]: "readiness_criteria st \<noteq> []"
  by (cases st) simp_all

lemma criteria_match_nonempty: "criteria_match s \<Longrightarrow> si_criteria s \<noteq> []"
  using readiness_criteria_nonempty [of "si_stage s"] unfolding criteria_match_def by fastforce

lemma satisfied_count_bounds: "0 \<le> satisfied_count cs \<and> satisfied_count cs \<le> int (length cs)"
  by (simp add: satisfied_count_def)

lemma satisfied_count_all:
  "satisfied_count cs = int (length cs) \<longleftrightarrow> (\<forall>c \<in> set cs. cr_satisfied c)"
  unfolding satisfied_count_def
  by (metis filter_True length_filter_less nat_less_le of_nat_eq_iff)

lemma stage_status_cases:
  assumes "cs \<noteq> []"
  shows "fst (stage_status cs (satisfied_count cs) sc) = Ready \<longleftrightarrow> (\<forall>c \<in> set cs. cr_satisfied c)"
    and "fst (stage_status cs n sc) = Blocked \<longleftrightarrow> (\<exists>c \<in> set cs. \<not> cr_satisfied c \<and> cr_blocking c)"
    and "fst (stage_status cs n sc) \<noteq> RStale"
proof -
  have "length cs \<noteq> 0" using assms(1) by simp
  then show "fst (stage_status cs (satisfied_count cs) sc) = Ready
      \<longleftrightarrow> (\<forall>c \<in> set cs. cr_satisfied c)"
    unfolding satisfied_count_all [symmetric]
    by (auto simp: stage_status_def Let_def) (auto simp: satisfied_count_all)
  show "fst (stage_status cs n sc) = Blocked \<longleftrightarrow> (\<exists>c \<in> set cs. \<not> cr_satisfied c \<and> cr_blocking c)"
    by (auto simp: stage_status_def Let_def)
  show "fst (stage_status cs n sc) \<noteq> RStale" by (simp add: stage_status_def Let_def)
qed

lemma evaluate_stage_status:
  assumes "evaluate_stage now s = Inr sn"
  shows "ss_status sn = Ready \<longleftrightarrow> (\<forall>c \<in> set (si_criteria s). cr_satisfied c)"
    and "ss_status sn = Blocked \<longleftrightarrow> (\<exists>c \<in> set (si_criteria s). \<not> cr_satisfied c \<and> cr_blocking c)"
    and "ss_status sn \<noteq> RStale"
  using assms stage_status_cases criteria_match_nonempty
  by (auto simp: evaluate_stage_ok stage_snapshot_def Let_def)

lemma stage_score_bounds: "cs \<noteq> [] \<Longrightarrow> 0 \<le> stage_score cs \<and> stage_score cs \<le> 100"
  using rounded_ratio_bounds [of "int (length cs)" "satisfied_count cs * 100" 100]
    satisfied_count_bounds [of cs]
  by (simp add: stage_score_def)

lemma overall_status_Ready [simp]: "overall_status S = Ready \<longleftrightarrow> S = {Ready}"
  by (auto simp: overall_status_def)

lemma overall_status_Blocked: "RStale \<notin> S \<Longrightarrow> overall_status S = Blocked \<longleftrightarrow> Blocked \<in> S"
  by (auto simp: overall_status_def)

lemma evaluate_readiness_ok:
  assumes "evaluate_readiness now ss = Inr (ov, snaps)"
  shows "list_all2 (\<lambda>s sn. evaluate_stage now s = Inr sn) ss snaps"
    and "ov = overall_status (set (map ss_status snaps))"
  using assms by (auto simp: evaluate_readiness_def result_simps mapE_Inr_iff)

lemma list_all2_status:
  assumes "list_all2 (\<lambda>s sn. evaluate_stage now s = Inr sn) ss snaps"
  shows "(\<forall>sn \<in> set snaps. ss_status sn = Ready) \<longleftrightarrow> (\<forall>s \<in> set ss. \<forall>c \<in> set (si_criteria s). cr_satisfied c)"
    and "(\<exists>sn \<in> set snaps. ss_status sn = Blocked)
      \<longleftrightarrow> (\<exists>s \<in> set ss. \<exists>c \<in> set (si_criteria s). \<not> cr_satisfied c \<and> cr_blocking c)"
    and "\<forall>sn \<in> set snaps. ss_status sn \<noteq> RStale"
  using assms by (induction rule: list_all2_induct) (auto simp: evaluate_stage_status)

section \<open>Properties\<close>

text \<open>
  An assessment that evaluates is READY exactly when every criterion of every stage is
  satisfied, and BLOCKED exactly when some unsatisfied criterion is blocking; a fresh evaluation is
  never STALE.
\<close>

theorem readiness_verdict:
  assumes "evaluate_readiness now ss = Inr (ov, snaps)" and "ss \<noteq> []"
  shows "(ov = Ready \<longleftrightarrow> (\<forall>s \<in> set ss. \<forall>c \<in> set (si_criteria s). cr_satisfied c))
    \<and> (ov = Blocked \<longleftrightarrow> (\<exists>s \<in> set ss. \<exists>c \<in> set (si_criteria s). \<not> cr_satisfied c \<and> cr_blocking c))
    \<and> ov \<noteq> RStale"
proof -
  note e = evaluate_readiness_ok [OF assms(1)]
  note l = list_all2_status [OF e(1)]
  have ns: "RStale \<notin> set (map ss_status snaps)" using l(3) by auto
  have ne: "snaps \<noteq> []" using e(1) assms(2) by auto
  have "ov = Ready \<longleftrightarrow> (\<forall>sn \<in> set snaps. ss_status sn = Ready)" using e(2) ne by (cases snaps) auto
  moreover have "ov = Blocked \<longleftrightarrow> (\<exists>sn \<in> set snaps. ss_status sn = Blocked)"
    using e(2) overall_status_Blocked [OF ns] by (force simp: image_iff)
  moreover have "ov \<noteq> RStale" using e(2) ns by (simp add: overall_status_def)
  ultimately show ?thesis using l(1,2) by blast
qed

definition sample_ref :: source_ref where
  "sample_ref = \<lparr>sr_kind = Evidence, sr_ref = lit ''e'', sr_version = None,
     sr_sha256 = lit ''sha256:'' @ replicate 64 97\<rparr>"

definition sample_criterion :: "bool \<Rightarrow> pystr \<Rightarrow> criterion" where
  "sample_criterion ok k = \<lparr>cr_key = k, cr_label = lit ''L'', cr_satisfied = ok, cr_blocking = \<not> ok,
     cr_explanation = lit ''x'', cr_basis_refs = [sample_ref], cr_next_action = Some (lit ''n'')\<rparr>"

definition sample_stage :: "bool \<Rightarrow> fdlc_stage \<Rightarrow> stage_input" where
  "sample_stage ok st = \<lparr>si_stage = st,
     si_criteria = map (sample_criterion True) (butlast (readiness_criteria st))
       @ [sample_criterion ok (last (readiness_criteria st))],
     si_risks = [], si_decisions = [], si_required_artifacts = [], si_owner = None\<rparr>"

lemma sample_stage_matches: "criteria_match (sample_stage ok st)"
  by (cases st)
     (simp_all add: criteria_match_def sample_stage_def sample_criterion_def insert_commute)

lemma sample_stages_evaluate:
  "\<exists>ov snaps. evaluate_readiness now (map (sample_stage ok) sts) = Inr (ov, snaps)"
proof -
  have "\<exists>snaps. mapE (evaluate_stage now) (map (sample_stage ok) sts) = Inr snaps"
  proof (induction sts)
    case (Cons st sts)
    moreover have "evaluate_stage now (sample_stage ok st) = Inr (stage_snapshot now (sample_stage ok st))"
      by (simp add: evaluate_stage_ok sample_stage_matches)
    ultimately show ?case by auto
  qed simp
  then show ?thesis by (auto simp: evaluate_readiness_def)
qed

theorem readiness_verdict_witness:
  "\<exists>snaps. evaluate_readiness 7 (map (sample_stage True) all_stages) = Inr (Ready, snaps)"
proof -
  obtain ov snaps where e: "evaluate_readiness 7 (map (sample_stage True) all_stages) = Inr (ov, snaps)"
    using sample_stages_evaluate by blast
  have "map (sample_stage True) all_stages \<noteq> []" by (simp add: all_stages_def)
  from readiness_verdict [OF e this] have "ov = Ready"
    by (auto simp: sample_stage_def sample_criterion_def)
  then show ?thesis using e by blast
qed

text \<open>
  Evaluation succeeds exactly when each stage lists each of its required criteria once and no
  other; then the snapshots keep the stages and criteria in order, every score is an integer between
  0 and 100 (so the declared field bounds hold), and the evidence references are the distinct basis
  references of the satisfied criteria.
\<close>

theorem readiness_snapshots:
  "(\<exists>ov snaps. evaluate_readiness now ss = Inr (ov, snaps)
     \<and> map ss_stage snaps = map si_stage ss \<and> map ss_criteria snaps = map si_criteria ss
     \<and> list_all (\<lambda>sn. valid_snapshot_score (ss_score sn) \<and> distinct (ss_evidence_refs sn)
          \<and> set (ss_evidence_refs sn)
              = (\<Union>c \<in> {c \<in> set (ss_criteria sn). cr_satisfied c}. set (cr_basis_refs c))) snaps)
   \<longleftrightarrow> list_all criteria_match ss" (is "?L \<longleftrightarrow> ?R")
proof
  assume ?L
  then obtain ov snaps where "evaluate_readiness now ss = Inr (ov, snaps)" by blast
  from evaluate_readiness_ok(1) [OF this] show ?R
    by (induction rule: list_all2_induct) (auto simp: evaluate_stage_ok)
next
  assume r: ?R
  then have m: "mapE (evaluate_stage now) ss = Inr (map (stage_snapshot now) ss)"
    by (intro mapE_total) (auto simp: evaluate_stage_ok list_all_iff)
  show ?L
    using r by (auto simp: evaluate_readiness_def m list_all_iff stage_snapshot_def Let_def
        valid_snapshot_score_def stage_score_bounds criteria_match_nonempty)
qed

end
