(* ===== verification/PackageSchema.thy ===== *)
theory PackageSchema
  imports Fdlc
begin

text \<open>
  \<open>modules/factory_engineer/schemas.py\<close>, second part: the contract of a deployment package, the
  validator of its plan reference graph, its target, and the immutable document and attestation a
  published package is retrieved as.
\<close>

section \<open>The items of the contract\<close>

record requirement =
  rq_key :: pystr
  rq_statement :: pystr

record acceptance_criterion = requirement +
  ac_verification_method :: pystr

record verification_requirement = requirement +
  vq_evidence_required :: "pystr list"
  vq_independent :: bool

record authority_boundary =
  ab_key :: pystr
  ab_subject :: pystr
  ab_maximum_authority :: pystr
  ab_prohibited_actions :: "pystr list"

datatype verification_method = MCommand | MTest | MBrowser | MManual | MChecklist

fun verification_method_text :: "verification_method \<Rightarrow> pystr" where
  "verification_method_text MCommand = lit ''COMMAND''"
| "verification_method_text MTest = lit ''TEST''"
| "verification_method_text MBrowser = lit ''BROWSER''"
| "verification_method_text MManual = lit ''MANUAL''"
| "verification_method_text MChecklist = lit ''CHECKLIST''"

record plan_assertion =
  pa_assertion_id :: pystr
  pa_title :: pystr
  pa_outcome :: pystr
  pa_verification_method :: verification_method
  pa_pass_condition :: pystr
  pa_required_evidence :: pystr
  pa_requires_independent_validation :: bool
  pa_waiver_allowed :: bool

datatype execution_role = Worker | Validator

fun execution_role_text :: "execution_role \<Rightarrow> pystr" where
  "execution_role_text Worker = lit ''WORKER''"
| "execution_role_text Validator = lit ''VALIDATOR''"

record blueprint =
  bp_key :: pystr
  bp_title :: pystr
  bp_outcome :: pystr
  bp_requirements :: "pystr list"
  bp_acceptance_criterion_refs :: "pystr list"
  bp_constraints :: "pystr list"
  bp_requested_code_scopes :: "pystr list"
  bp_capability_requirement_refs :: "pystr list"
  bp_verification_requirement_refs :: "pystr list"
  bp_authority_boundary_refs :: "pystr list"
  bp_sequence :: int
  bp_execution_role :: execution_role
  bp_is_mutating :: bool
  bp_priority :: int
  bp_risk_level :: pystr
  bp_required_approvals :: "pystr list"
  bp_dependencies :: "pystr list"
  bp_assertion_ids :: "pystr list"

definition valid_requirement :: "'a requirement_scheme \<Rightarrow> bool" where
  "valid_requirement r \<longleftrightarrow> bounded_text 160 (rq_key r) \<and> bounded_text 4000 (rq_statement r)"

definition valid_acceptance :: "acceptance_criterion \<Rightarrow> bool" where
  "valid_acceptance r \<longleftrightarrow> valid_requirement r \<and> bounded_text 2000 (ac_verification_method r)"

definition valid_verification :: "verification_requirement \<Rightarrow> bool" where
  "valid_verification r \<longleftrightarrow> valid_requirement r
     \<and> bounded_list 1 (bounded_text 4000) (vq_evidence_required r)"

definition valid_boundary :: "authority_boundary \<Rightarrow> bool" where
  "valid_boundary b \<longleftrightarrow> bounded_text 160 (ab_key b) \<and> bounded_text 512 (ab_subject b)
     \<and> bounded_text 2000 (ab_maximum_authority b)
     \<and> bounded_list 1 (bounded_text 4000) (ab_prohibited_actions b)"

definition valid_assertion_plan :: "plan_assertion \<Rightarrow> bool" where
  "valid_assertion_plan a \<longleftrightarrow> bounded_text 160 (pa_assertion_id a) \<and> bounded_text 512 (pa_title a)
     \<and> bounded_text 4000 (pa_outcome a) \<and> bounded_text 2000 (pa_pass_condition a)
     \<and> bounded_text 2000 (pa_required_evidence a)"

definition max_code_scopes :: nat where
  "max_code_scopes = 50"

definition valid_code_scopes :: "pystr list \<Rightarrow> bool" where
  "valid_code_scopes ss \<longleftrightarrow> 1 \<le> length ss \<and> length ss \<le> max_code_scopes
     \<and> list_all (bounded_text 1024) ss"

definition valid_blueprint :: "blueprint \<Rightarrow> bool" where
  "valid_blueprint b \<longleftrightarrow> bounded_text 160 (bp_key b) \<and> bounded_text 512 (bp_title b)
     \<and> bounded_text 4000 (bp_outcome b)
     \<and> bounded_list 1 (bounded_text 4000) (bp_requirements b)
     \<and> bounded_list 1 (bounded_text 4000) (bp_acceptance_criterion_refs b)
     \<and> bounded_list 0 (bounded_text 4000) (bp_constraints b)
     \<and> valid_code_scopes (bp_requested_code_scopes b)
     \<and> bounded_list 1 (bounded_text 4000) (bp_capability_requirement_refs b)
     \<and> bounded_list 1 (bounded_text 4000) (bp_verification_requirement_refs b)
     \<and> bounded_list 1 (bounded_text 4000) (bp_authority_boundary_refs b)
     \<and> 1 \<le> bp_sequence b \<and> 1 \<le> bp_priority b \<and> bp_priority b \<le> 4
     \<and> bp_risk_level b \<in> set (map lit [''LOW'', ''MEDIUM'', ''HIGH'', ''CRITICAL''])
     \<and> bounded_list 0 (bounded_text 4000) (bp_required_approvals b)
     \<and> bounded_list 0 (bounded_text 4000) (bp_dependencies b)
     \<and> bounded_list 1 (bounded_text 4000) (bp_assertion_ids b)"

abbreviation jtexts :: "pystr list \<Rightarrow> json" where
  "jtexts ts \<equiv> JList (map JStr ts)"

definition requirement_json :: "'a requirement_scheme \<Rightarrow> json" where
  "requirement_json r = obj [(''key'', JStr (rq_key r)), (''statement'', JStr (rq_statement r))]"

definition acceptance_json :: "acceptance_criterion \<Rightarrow> json" where
  "acceptance_json r = obj [(''key'', JStr (rq_key r)), (''statement'', JStr (rq_statement r)),
     (''verification_method'', JStr (ac_verification_method r))]"

definition verification_json :: "verification_requirement \<Rightarrow> json" where
  "verification_json r = obj [(''key'', JStr (rq_key r)), (''statement'', JStr (rq_statement r)),
     (''evidence_required'', jtexts (vq_evidence_required r)),
     (''independent'', JBool (vq_independent r))]"

definition boundary_json :: "authority_boundary \<Rightarrow> json" where
  "boundary_json b = obj [(''key'', JStr (ab_key b)), (''subject'', JStr (ab_subject b)),
     (''maximum_authority'', JStr (ab_maximum_authority b)),
     (''prohibited_actions'', jtexts (ab_prohibited_actions b))]"

definition plan_assertion_json :: "plan_assertion \<Rightarrow> json" where
  "plan_assertion_json a = obj
     [(''assertion_id'', JStr (pa_assertion_id a)), (''title'', JStr (pa_title a)),
      (''outcome'', JStr (pa_outcome a)),
      (''verification_method'', JStr (verification_method_text (pa_verification_method a))),
      (''pass_condition'', JStr (pa_pass_condition a)),
      (''required_evidence'', JStr (pa_required_evidence a)),
      (''requires_independent_validation'', JBool (pa_requires_independent_validation a)),
      (''waiver_allowed'', JBool (pa_waiver_allowed a))]"

definition blueprint_json :: "blueprint \<Rightarrow> json" where
  "blueprint_json b = obj
     [(''key'', JStr (bp_key b)), (''title'', JStr (bp_title b)), (''outcome'', JStr (bp_outcome b)),
      (''requirements'', jtexts (bp_requirements b)),
      (''acceptance_criterion_refs'', jtexts (bp_acceptance_criterion_refs b)),
      (''constraints'', jtexts (bp_constraints b)),
      (''requested_code_scopes'', jtexts (bp_requested_code_scopes b)),
      (''capability_requirement_refs'', jtexts (bp_capability_requirement_refs b)),
      (''verification_requirement_refs'', jtexts (bp_verification_requirement_refs b)),
      (''authority_boundary_refs'', jtexts (bp_authority_boundary_refs b)),
      (''sequence'', JInt (bp_sequence b)),
      (''execution_role'', JStr (execution_role_text (bp_execution_role b))),
      (''is_mutating'', JBool (bp_is_mutating b)), (''priority'', JInt (bp_priority b)),
      (''risk_level'', JStr (bp_risk_level b)),
      (''required_approvals'', jtexts (bp_required_approvals b)),
      (''dependencies'', jtexts (bp_dependencies b)),
      (''assertion_ids'', jtexts (bp_assertion_ids b))]"

section \<open>The deployment package input\<close>

record package_input =
  pi_mission_title :: pystr
  pi_mission_context :: pystr
  pi_stop_condition :: pystr
  pi_plan_summary :: pystr
  pi_rollback_approach :: pystr
  pi_objective :: pystr
  pi_intent :: pystr
  pi_specification :: pystr
  pi_acceptance_criteria :: "acceptance_criterion list"
  pi_constraints :: "requirement list"
  pi_required_capabilities :: "requirement list"
  pi_required_agents :: "requirement list"
  pi_required_skills :: "requirement list"
  pi_required_tools :: "requirement list"
  pi_model_requirements :: "requirement list"
  pi_context_requirements :: "requirement list"
  pi_environment_requirements :: "requirement list"
  pi_authority_boundaries :: "authority_boundary list"
  pi_policy_requirements :: "requirement list"
  pi_approval_requirements :: "requirement list"
  pi_verification_contract :: "verification_requirement list"
  pi_evaluation_requirements :: "requirement list"
  pi_rollback_requirements :: "requirement list"
  pi_observability_requirements :: "requirement list"
  pi_economics_baseline :: "(json \<times> json) list"
  pi_risk_summary :: "requirement list"
  pi_evidence_refs :: "source_ref list"
  pi_decision_refs :: "source_ref list"
  pi_provenance :: "source_ref list"
  pi_plan_assertions :: "plan_assertion list"
  pi_work_order_blueprints :: "blueprint list"

definition valid_package_fields :: "package_input \<Rightarrow> bool" where
  "valid_package_fields p \<longleftrightarrow>
     bounded_text 512 (pi_mission_title p) \<and> bounded_text 8000 (pi_mission_context p)
     \<and> bounded_text 4000 (pi_stop_condition p) \<and> bounded_text 8000 (pi_plan_summary p)
     \<and> bounded_text 4000 (pi_rollback_approach p) \<and> bounded_text 4000 (pi_objective p)
     \<and> bounded_text 4000 (pi_intent p) \<and> bounded_text 20000 (pi_specification p)
     \<and> bounded_list 1 valid_acceptance (pi_acceptance_criteria p)
     \<and> bounded_list 1 valid_requirement (pi_constraints p)
     \<and> bounded_list 1 valid_requirement (pi_required_capabilities p)
     \<and> bounded_list 0 valid_requirement (pi_required_agents p)
     \<and> bounded_list 0 valid_requirement (pi_required_skills p)
     \<and> bounded_list 0 valid_requirement (pi_required_tools p)
     \<and> bounded_list 0 valid_requirement (pi_model_requirements p)
     \<and> bounded_list 1 valid_requirement (pi_context_requirements p)
     \<and> bounded_list 1 valid_requirement (pi_environment_requirements p)
     \<and> bounded_list 1 valid_boundary (pi_authority_boundaries p)
     \<and> bounded_list 1 valid_requirement (pi_policy_requirements p)
     \<and> bounded_list 1 valid_requirement (pi_approval_requirements p)
     \<and> bounded_list 1 valid_verification (pi_verification_contract p)
     \<and> bounded_list 1 valid_requirement (pi_evaluation_requirements p)
     \<and> bounded_list 1 valid_requirement (pi_rollback_requirements p)
     \<and> bounded_list 1 valid_requirement (pi_observability_requirements p)
     \<and> length (pi_economics_baseline p) \<le> 128
     \<and> bounded_list 1 valid_requirement (pi_risk_summary p)
     \<and> bounded_list 1 valid_source_ref (pi_evidence_refs p)
     \<and> bounded_list 1 valid_source_ref (pi_decision_refs p)
     \<and> bounded_list 1 valid_source_ref (pi_provenance p)
     \<and> bounded_list 1 valid_assertion_plan (pi_plan_assertions p)
     \<and> bounded_list 1 valid_blueprint (pi_work_order_blueprints p)"

definition package_input_json :: "package_input \<Rightarrow> json" where
  "package_input_json p =
     (let reqs = \<lambda>rs. JList (map requirement_json rs); refs = \<lambda>rs. JList (map source_ref_json rs) in
      obj
     [(''mission_title'', JStr (pi_mission_title p)),
      (''mission_context'', JStr (pi_mission_context p)),
      (''stop_condition'', JStr (pi_stop_condition p)),
      (''plan_summary'', JStr (pi_plan_summary p)),
      (''rollback_approach'', JStr (pi_rollback_approach p)),
      (''objective'', JStr (pi_objective p)), (''intent'', JStr (pi_intent p)),
      (''specification'', JStr (pi_specification p)),
      (''acceptance_criteria'', JList (map acceptance_json (pi_acceptance_criteria p))),
      (''constraints'', reqs (pi_constraints p)),
      (''required_capabilities'', reqs (pi_required_capabilities p)),
      (''required_agents'', reqs (pi_required_agents p)),
      (''required_skills'', reqs (pi_required_skills p)),
      (''required_tools'', reqs (pi_required_tools p)),
      (''model_requirements'', reqs (pi_model_requirements p)),
      (''context_requirements'', reqs (pi_context_requirements p)),
      (''environment_requirements'', reqs (pi_environment_requirements p)),
      (''authority_boundaries'', JList (map boundary_json (pi_authority_boundaries p))),
      (''policy_requirements'', reqs (pi_policy_requirements p)),
      (''approval_requirements'', reqs (pi_approval_requirements p)),
      (''verification_contract'', JList (map verification_json (pi_verification_contract p))),
      (''evaluation_requirements'', reqs (pi_evaluation_requirements p)),
      (''rollback_requirements'', reqs (pi_rollback_requirements p)),
      (''observability_requirements'', reqs (pi_observability_requirements p)),
      (''economics_baseline'', JObj (pi_economics_baseline p)),
      (''risk_summary'', reqs (pi_risk_summary p)),
      (''evidence_refs'', refs (pi_evidence_refs p)),
      (''decision_refs'', refs (pi_decision_refs p)),
      (''provenance'', refs (pi_provenance p)),
      (''plan_assertions'', JList (map plan_assertion_json (pi_plan_assertions p))),
      (''work_order_blueprints'', JList (map blueprint_json (pi_work_order_blueprints p)))])"

section \<open>Targets, issuers and approvals\<close>

record deployment_target =
  dt_workspace_ref :: pystr
  dt_repository_ref :: pystr
  dt_requested_code_scopes :: "pystr list"
  dt_semantic_execution_workflow_ref :: pystr
  dt_environment_class :: pystr

definition valid_target :: "deployment_target \<Rightarrow> bool" where
  "valid_target t \<longleftrightarrow> bounded_text 1024 (dt_workspace_ref t) \<and> bounded_text 1024 (dt_repository_ref t)
     \<and> valid_code_scopes (dt_requested_code_scopes t)
     \<and> bounded_text 1024 (dt_semantic_execution_workflow_ref t)
     \<and> bounded_text 160 (dt_environment_class t)
     \<and> distinct (dt_requested_code_scopes t)"

definition target_json :: "deployment_target \<Rightarrow> json" where
  "target_json t = obj
     [(''workspace_ref'', JStr (dt_workspace_ref t)), (''repository_ref'', JStr (dt_repository_ref t)),
      (''requested_code_scopes'', jtexts (dt_requested_code_scopes t)),
      (''semantic_execution_workflow_ref'', JStr (dt_semantic_execution_workflow_ref t)),
      (''environment_class'', JStr (dt_environment_class t))]"

text \<open>The issuer's type and authority scope are literals of the class.\<close>

record issuer =
  is_issuer_id :: pystr
  is_environment :: pystr

definition issuer_type :: pystr where
  "issuer_type = lit ''FDLC_FACTORY_ENGINEER''"

definition issuer_scope :: pystr where
  "issuer_scope = lit ''DEPLOYMENT_PACKAGE_PUBLISH''"

definition valid_issuer :: "issuer \<Rightarrow> bool" where
  "valid_issuer i \<longleftrightarrow> bounded_text 255 (is_issuer_id i) \<and> bounded_text 120 (is_environment i)"

definition issuer_json :: "issuer \<Rightarrow> json" where
  "issuer_json i = obj
     [(''issuer_id'', JStr (is_issuer_id i)), (''issuer_type'', JStr issuer_type),
      (''environment'', JStr (is_environment i)), (''authority_scope'', JStr issuer_scope)]"

record approval_binding =
  bd_decision_ref :: source_ref
  bd_approved_by :: uuid
  bd_authorized_by_ref :: pystr
  bd_authority_basis_ref :: source_ref
  bd_approved_at :: time

definition valid_binding :: "approval_binding \<Rightarrow> bool" where
  "valid_binding b \<longleftrightarrow> valid_source_ref (bd_decision_ref b)
     \<and> bounded_text 1024 (bd_authorized_by_ref b) \<and> valid_source_ref (bd_authority_basis_ref b)
     \<and> sr_kind (bd_decision_ref b) = ApprovedInput \<and> sr_kind (bd_authority_basis_ref b) = ApprovedInput"

definition binding_json :: "approval_binding \<Rightarrow> json" where
  "binding_json b = obj
     [(''decision_ref'', source_ref_json (bd_decision_ref b)),
      (''approved_by'', JStr (uuid_str (bd_approved_by b))),
      (''authorized_by_ref'', JStr (bd_authorized_by_ref b)),
      (''authority_basis_ref'', source_ref_json (bd_authority_basis_ref b)),
      (''approved_at'', JStr (rfc3339_z (bd_approved_at b)))]"

section \<open>The published document\<close>

record source_lineage =
  ln_engagement :: uuid
  ln_customer_factory_model :: version_ref
  ln_current_workflow :: version_ref
  ln_target_workflow :: version_ref
  ln_readiness_assessment :: version_ref
  ln_factory_opportunity :: version_ref

definition lineage_json :: "source_lineage \<Rightarrow> json" where
  "lineage_json l = obj
     [(''engagement_id'', JStr (uuid_str (ln_engagement l))),
      (''customer_factory_model'', version_ref_json (ln_customer_factory_model l)),
      (''current_workflow'', version_ref_json (ln_current_workflow l)),
      (''target_workflow'', version_ref_json (ln_target_workflow l)),
      (''readiness_assessment'', version_ref_json (ln_readiness_assessment l)),
      (''factory_opportunity'', version_ref_json (ln_factory_opportunity l))]"

text \<open>\<open>dc_digest\<close> is the digest of the document's \<open>PackageIntegrity\<close>; its other two fields are literals.\<close>

record package_document =
  dc_schema_version :: pystr
  dc_package_id :: uuid
  dc_package_version :: int
  dc_issuer :: issuer
  dc_issued_at :: time
  dc_approval :: approval_binding
  dc_digest :: pystr
  dc_source :: source_lineage
  dc_target :: deployment_target
  dc_intent :: package_input

definition valid_lineage :: "source_lineage \<Rightarrow> bool" where
  "valid_lineage l \<longleftrightarrow> valid_version_ref (ln_customer_factory_model l)
     \<and> valid_version_ref (ln_current_workflow l) \<and> valid_version_ref (ln_target_workflow l)
     \<and> valid_version_ref (ln_readiness_assessment l) \<and> valid_version_ref (ln_factory_opportunity l)"

definition valid_document :: "package_document \<Rightarrow> bool" where
  "valid_document d \<longleftrightarrow> valid_lineage (dc_source d) \<and> valid_issuer (dc_issuer d) \<and> valid_binding (dc_approval d)
     \<and> sha_pattern (dc_digest d) \<and> valid_target (dc_target d)
     \<and> valid_package_fields (dc_intent d)
     \<and> bd_approved_at (dc_approval d) \<le> dc_issued_at d"

definition integrity_fields :: "pystr option \<Rightarrow> (string \<times> json) list" where
  "integrity_fields digest =
     [(''canonicalization'', JStr (lit ''fdlc-canonical-json/v1'')), (''algorithm'', JStr (lit ''sha256''))]
     @ (case digest of None \<Rightarrow> [] | Some d \<Rightarrow> [(''digest'', JStr d)])"

text \<open>The projection of a document; without a digest it is the content the digest is computed of.\<close>

definition document_json :: "pystr option \<Rightarrow> package_document \<Rightarrow> json" where
  "document_json digest d = obj
     [(''schema_version'', JStr (dc_schema_version d)),
      (''package_id'', JStr (uuid_str (dc_package_id d))),
      (''package_version'', JInt (dc_package_version d)),
      (''status'', JStr (lit ''PUBLISHED'')),
      (''issuer'', issuer_json (dc_issuer d)),
      (''issued_at'', JStr (rfc3339_z (dc_issued_at d))),
      (''approval'', binding_json (dc_approval d)),
      (''integrity'', obj (integrity_fields digest)),
      (''source'', lineage_json (dc_source d)),
      (''target'', target_json (dc_target d)),
      (''deployment_intent'', package_input_json (dc_intent d))]"

fun package_status_text :: "package_status \<Rightarrow> pystr" where
  "package_status_text PDraft = lit ''DRAFT''"
| "package_status_text PReadyForReview = lit ''READY_FOR_REVIEW''"
| "package_status_text PApproved = lit ''APPROVED''"
| "package_status_text PPublished = lit ''PUBLISHED''"
| "package_status_text PSuperseded = lit ''SUPERSEDED''"
| "package_status_text PRejected = lit ''REJECTED''"
| "package_status_text PRevoked = lit ''REVOKED''"
| "package_status_text PStale = lit ''STALE''"

record attestation =
  at_package_id :: uuid
  at_package_version :: int
  at_digest :: pystr
  at_current_status :: package_status
  at_issuer :: issuer
  at_approval :: approval_binding
  at_published_at :: time
  at_retrieved_at :: time
  at_correlation_id :: uuid

definition attestation_json :: "attestation \<Rightarrow> json" where
  "attestation_json a = obj
     [(''package_id'', JStr (uuid_str (at_package_id a))),
      (''package_version'', JInt (at_package_version a)),
      (''digest'', JStr (at_digest a)),
      (''current_status'', JStr (package_status_text (at_current_status a))),
      (''issuer'', issuer_json (at_issuer a)), (''approval'', binding_json (at_approval a)),
      (''published_at'', JStr (rfc3339_z (at_published_at a))),
      (''retrieved_at'', JStr (rfc3339_z (at_retrieved_at a))),
      (''correlation_id'', JStr (uuid_str (at_correlation_id a)))]"

record envelope =
  en_package :: package_document
  en_attestation :: attestation

definition valid_envelope :: "envelope \<Rightarrow> bool" where
  "valid_envelope e \<longleftrightarrow>
     (let p = en_package e; a = en_attestation e in
      at_package_id a = dc_package_id p \<and> at_package_version a = dc_package_version p
      \<and> at_digest a = dc_digest p \<and> at_issuer a = dc_issuer p \<and> at_approval a = dc_approval p
      \<and> at_current_status a = PPublished
      \<and> bd_approved_at (dc_approval p) \<le> dc_issued_at p \<and> dc_issued_at p \<le> at_published_at a
      \<and> at_published_at a \<le> at_retrieved_at a)"

definition envelope_json :: "envelope \<Rightarrow> json" where
  "envelope_json e = obj
     [(''package'', document_json (Some (dc_digest (en_package e))) (en_package e)),
      (''attestation'', attestation_json (en_attestation e))]"

end
