(* ===== verification/PlanGraph.thy ===== *)
theory PlanGraph
  imports PackageSchema
begin

text \<open>
  \<open>FactoryDeploymentPackageInput.validate_plan_reference_graph\<close>: the referential integrity of a
  deployment plan and its depth-first search for dependency cycles.  Each \<open>ValueError\<close> of the
  validator is a constructor of \<open>plan_error\<close>; \<open>PlanKeyError\<close> is a failing dictionary lookup and
  \<open>RecursionExceeded\<close> is the search running out of fuel.
\<close>

datatype plan_error =
    DuplicateKeys string
  | DuplicateSequences
  | UnknownRefs pystr string "pystr list"
  | SelfDependency pystr
  | DuplicateRefs pystr string
  | UnreferencedCriteria "pystr list"
  | LaterDependency pystr
  | CyclicDependencies
  | PlanKeyError pystr
  | RecursionExceeded

section \<open>The checks\<close>

definition keyed_collections :: "package_input \<Rightarrow> (string \<times> pystr list) list" where
  "keyed_collections p =
     [(''plan assertion'', map pa_assertion_id (pi_plan_assertions p)),
      (''acceptance criterion'', map rq_key (pi_acceptance_criteria p)),
      (''constraint'', map rq_key (pi_constraints p)),
      (''capability requirement'', map rq_key (pi_required_capabilities p)),
      (''agent requirement'', map rq_key (pi_required_agents p)),
      (''skill requirement'', map rq_key (pi_required_skills p)),
      (''tool requirement'', map rq_key (pi_required_tools p)),
      (''model requirement'', map rq_key (pi_model_requirements p)),
      (''context requirement'', map rq_key (pi_context_requirements p)),
      (''environment requirement'', map rq_key (pi_environment_requirements p)),
      (''authority boundary'', map ab_key (pi_authority_boundaries p)),
      (''policy requirement'', map rq_key (pi_policy_requirements p)),
      (''approval requirement'', map rq_key (pi_approval_requirements p)),
      (''verification requirement'', map rq_key (pi_verification_contract p)),
      (''evaluation requirement'', map rq_key (pi_evaluation_requirements p)),
      (''rollback requirement'', map rq_key (pi_rollback_requirements p)),
      (''observability requirement'', map rq_key (pi_observability_requirements p)),
      (''risk'', map rq_key (pi_risk_summary p)),
      (''work-order blueprint'', map bp_key (pi_work_order_blueprints p))]"

primrec all_ok :: "('a \<Rightarrow> ('e, unit) result) \<Rightarrow> 'a list \<Rightarrow> ('e, unit) result" where
  "all_ok f [] = Inr ()"
| "all_ok f (x # xs) = bindE (f x) (\<lambda>_. all_ok f xs)"

definition check_known :: "pystr \<Rightarrow> pystr list \<times> pystr list \<times> string \<Rightarrow> (plan_error, unit) result" where
  "check_known key c = (case c of (referenced, available, label) \<Rightarrow>
     let missing = sort (remdups (filter (\<lambda>r. r \<notin> set available) referenced))
     in require (missing = []) (UnknownRefs key label missing))"

definition check_blueprint :: "package_input \<Rightarrow> blueprint \<Rightarrow> (plan_error, unit) result" where
  "check_blueprint p b =
     bindE (all_ok (check_known (bp_key b))
       [(bp_assertion_ids b, map pa_assertion_id (pi_plan_assertions p), ''assertion''),
        (bp_acceptance_criterion_refs b, map rq_key (pi_acceptance_criteria p), ''acceptance criterion''),
        (bp_capability_requirement_refs b, map rq_key (pi_required_capabilities p),
         ''capability requirement''),
        (bp_verification_requirement_refs b, map rq_key (pi_verification_contract p),
         ''verification requirement''),
        (bp_authority_boundary_refs b, map ab_key (pi_authority_boundaries p), ''authority boundary''),
        (bp_required_approvals b, map rq_key (pi_approval_requirements p), ''approval requirement''),
        (bp_dependencies b, map bp_key (pi_work_order_blueprints p), ''blueprint dependency'')]) (\<lambda>_.
     bindE (require (bp_key b \<notin> set (bp_dependencies b)) (SelfDependency (bp_key b))) (\<lambda>_.
     all_ok (\<lambda>(label, refs). require (distinct refs) (DuplicateRefs (bp_key b) label))
       [(''assertion'', bp_assertion_ids b),
        (''acceptance criterion'', bp_acceptance_criterion_refs b),
        (''capability'', bp_capability_requirement_refs b),
        (''verification'', bp_verification_requirement_refs b),
        (''authority'', bp_authority_boundary_refs b),
        (''required approval'', bp_required_approvals b),
        (''dependency'', bp_dependencies b)]))"

definition dependencies :: "package_input \<Rightarrow> (pystr \<times> pystr list) list" where
  "dependencies p = map (\<lambda>b. (bp_key b, bp_dependencies b)) (pi_work_order_blueprints p)"

definition sequence_by_key :: "package_input \<Rightarrow> (pystr \<times> int) list" where
  "sequence_by_key p = map (\<lambda>b. (bp_key b, bp_sequence b)) (pi_work_order_blueprints p)"

text \<open>\<open>any(...)\<close> stops at the first dependency whose sequence is not earlier.\<close>

fun earlier_dependencies ::
  "(pystr \<times> int) list \<Rightarrow> pystr \<Rightarrow> int \<Rightarrow> pystr list \<Rightarrow> (plan_error, unit) result" where
  "earlier_dependencies seqs key n [] = Inr ()"
| "earlier_dependencies seqs key n (d # ds) =
     bindE (the_or (map_of seqs d) (PlanKeyError d)) (\<lambda>m.
       if n \<le> m then Inl (LaterDependency key) else earlier_dependencies seqs key n ds)"

text \<open>
  \<open>visit\<close>: the nested function of the validator, on the two sets it mutates (\<open>visiting\<close>,
  \<open>visited\<close>).
\<close>

fun visit ::
  "(pystr \<times> pystr list) list \<Rightarrow> nat \<Rightarrow> pystr set \<times> pystr set \<Rightarrow> pystr
    \<Rightarrow> (plan_error, pystr set \<times> pystr set) result" where
  "visit deps 0 st key = Inl RecursionExceeded"
| "visit deps (Suc fuel) (visiting, visited) key =
     (if key \<in> visiting then Inl CyclicDependencies
      else if key \<in> visited then Inr (visiting, visited)
      else bindE (the_or (map_of deps key) (PlanKeyError key)) (\<lambda>ds.
        bindE (foldE (visit deps fuel) (insert key visiting, visited) ds) (\<lambda>(ving, ved).
          Inr (ving - {key}, insert key ved))))"

lemma visit_code [code]:
  "visit deps n st key =
     (if n = 0 then Inl RecursionExceeded
      else let (visiting, visited) = st in
        if key \<in> visiting then Inl CyclicDependencies
        else if key \<in> visited then Inr (visiting, visited)
        else bindE (the_or (map_of deps key) (PlanKeyError key)) (\<lambda>ds.
          bindE (foldE (visit deps (n - 1)) (insert key visiting, visited) ds) (\<lambda>(ving, ved).
            Inr (ving - {key}, insert key ved))))"
  by (cases n; cases st) simp_all

definition validate_plan :: "package_input \<Rightarrow> (plan_error, unit) result" where
  "validate_plan p =
     (let bps = pi_work_order_blueprints p in
      bindE (all_ok (\<lambda>(label, keys). require (distinct keys) (DuplicateKeys label)) (keyed_collections p)) (\<lambda>_.
      bindE (require (distinct (map bp_sequence bps)) DuplicateSequences) (\<lambda>_.
      bindE (all_ok (check_blueprint p) bps) (\<lambda>_.
      let covered = concat (map bp_acceptance_criterion_refs bps);
          open_criteria = sort (filter (\<lambda>k. k \<notin> set covered) (map rq_key (pi_acceptance_criteria p)))
      in bindE (require (open_criteria = []) (UnreferencedCriteria open_criteria)) (\<lambda>_.
      bindE (all_ok (\<lambda>b. earlier_dependencies (sequence_by_key p) (bp_key b) (bp_sequence b)
               (bp_dependencies b)) bps) (\<lambda>_.
      bindE (foldE (visit (dependencies p) (length bps + 1)) ({}, {}) (map fst (dependencies p)))
        (\<lambda>_. Inr ())))))))"

definition valid_package_input :: "package_input \<Rightarrow> bool" where
  "valid_package_input p \<longleftrightarrow> valid_package_fields p \<and> validate_plan p = Inr ()"

section \<open>Lemmas\<close>

lemma all_ok_Inr [result_simps]: "all_ok f xs = Inr u \<longleftrightarrow> (\<forall>x \<in> set xs. f x = Inr ())"
  by (induction xs) (auto simp: bindE_eq_Inr)

lemma all_ok_Inl: "all_ok f xs = Inl e \<Longrightarrow> \<exists>x \<in> set xs. f x = Inl e"
  by (induction xs) (auto simp: bindE_eq_Inl)

lemma sort_Nil_iff [simp]: "sort xs = [] \<longleftrightarrow> xs = []"
  by (metis length_0_conv length_sort)

lemma check_known_Inr [result_simps]:
  "check_known k (rs, av, l) = Inr u \<longleftrightarrow> set rs \<subseteq> set av"
  by (auto simp: check_known_def Let_def require_eq_Inr filter_empty_conv)

text \<open>What a blueprint may reference: declared items of the package, each at most once, never itself.\<close>

definition blueprint_ok :: "package_input \<Rightarrow> blueprint \<Rightarrow> bool" where
  "blueprint_ok p b \<longleftrightarrow>
     set (bp_assertion_ids b) \<subseteq> pa_assertion_id ` set (pi_plan_assertions p)
     \<and> set (bp_acceptance_criterion_refs b) \<subseteq> rq_key ` set (pi_acceptance_criteria p)
     \<and> set (bp_capability_requirement_refs b) \<subseteq> rq_key ` set (pi_required_capabilities p)
     \<and> set (bp_verification_requirement_refs b) \<subseteq> rq_key ` set (pi_verification_contract p)
     \<and> set (bp_authority_boundary_refs b) \<subseteq> ab_key ` set (pi_authority_boundaries p)
     \<and> set (bp_required_approvals b) \<subseteq> rq_key ` set (pi_approval_requirements p)
     \<and> set (bp_dependencies b) \<subseteq> bp_key ` set (pi_work_order_blueprints p) - {bp_key b}
     \<and> distinct (bp_assertion_ids b) \<and> distinct (bp_acceptance_criterion_refs b)
     \<and> distinct (bp_capability_requirement_refs b) \<and> distinct (bp_verification_requirement_refs b)
     \<and> distinct (bp_authority_boundary_refs b) \<and> distinct (bp_required_approvals b)
     \<and> distinct (bp_dependencies b)"

lemma check_blueprint_Inr: "check_blueprint p b = Inr () \<longleftrightarrow> blueprint_ok p b"
  by (simp add: check_blueprint_def blueprint_ok_def result_simps subset_Diff_insert conj_ac)

lemma blueprint_ok_dependencies:
  "blueprint_ok p b \<Longrightarrow> set (bp_dependencies b) \<subseteq> bp_key ` set (pi_work_order_blueprints p)"
  by (auto simp: blueprint_ok_def)

lemma earlier_dependencies_Inr [result_simps]:
  "earlier_dependencies seqs key n ds = Inr u \<longleftrightarrow> (\<forall>d \<in> set ds. \<exists>m. map_of seqs d = Some m \<and> m < n)"
proof (induction ds)
  case (Cons d ds)
  then show ?case by (cases "map_of seqs d") auto
qed simp

lemma earlier_dependencies_Inl:
  "earlier_dependencies seqs key n ds = Inl e \<Longrightarrow> set ds \<subseteq> fst ` set seqs \<Longrightarrow> e = LaterDependency key"
proof (induction ds)
  case (Cons d ds)
  then have "map_of seqs d \<noteq> None" by (auto simp: map_of_eq_None_iff)
  then obtain m where "map_of seqs d = Some m" by blast
  then show ?case using Cons by (auto split: if_splits)
qed simp

text \<open>
  The search on a graph whose edges go to smaller ranks: it never meets a vertex it is visiting,
  fuel above the number of vertices of smaller rank is enough, and it ends with \<open>visiting\<close> restored.
\<close>

definition closed_ranked :: "(pystr \<times> pystr list) list \<Rightarrow> (pystr \<Rightarrow> int) \<Rightarrow> bool" where
  "closed_ranked deps rk \<longleftrightarrow> (\<forall>(k, ds) \<in> set deps. \<forall>d \<in> set ds. d \<in> fst ` set deps \<and> rk d < rk k)"

definition below :: "(pystr \<times> pystr list) list \<Rightarrow> (pystr \<Rightarrow> int) \<Rightarrow> pystr \<Rightarrow> pystr set" where
  "below deps rk k = {k' \<in> fst ` set deps. rk k' < rk k}"

lemma card_below_less:
  assumes "d \<in> fst ` set deps" and "rk d < rk k"
  shows "card (below deps rk d) < card (below deps rk k)"
proof (rule psubset_card_mono)
  show "finite (below deps rk k)" by (simp add: below_def)
  show "below deps rk d \<subset> below deps rk k" using assms by (auto simp: below_def)
qed

lemma foldE_keeps:
  assumes "\<And>s x. x \<in> set xs \<Longrightarrow> P s \<Longrightarrow> \<exists>s'. f s x = Inr s' \<and> P s'" and "P s"
  shows "\<exists>s'. foldE f s xs = Inr s' \<and> P s'"
  using assms
proof (induction xs arbitrary: s)
  case (Cons x xs)
  then obtain s1 where "f s x = Inr s1" "P s1" by (metis list.set_intros(1))
  then show ?case using Cons.IH [of s1] Cons.prems(1) by auto
qed simp

lemma visit_ranked:
  assumes "closed_ranked deps rk" and "key \<in> fst ` set deps"
    and "card (below deps rk key) < fuel" and "\<forall>v \<in> visiting. rk key < rk v"
  shows "\<exists>ved. visit deps fuel (visiting, visited) key = Inr (visiting, ved) \<and> key \<in> ved \<and> visited \<subseteq> ved"
  using assms
proof (induction fuel arbitrary: key visiting visited)
  case (Suc fuel)
  have nv: "key \<notin> visiting" using Suc.prems(4) by auto
  show ?case
  proof (cases "key \<in> visited")
    case True
    then show ?thesis using nv by simp
  next
    case False
    obtain ds where ds: "map_of deps key = Some ds" using Suc.prems(2)
      by (metis map_of_eq_None_iff not_None_eq)
    have down: "d \<in> fst ` set deps \<and> rk d < rk key" if "d \<in> set ds" for d
      using Suc.prems(1) map_of_SomeD [OF ds] that by (auto simp: closed_ranked_def)
    let ?P = "\<lambda>st. fst st = insert key visiting \<and> visited \<subseteq> snd st"
    have "\<exists>st. foldE (visit deps fuel) (insert key visiting, visited) ds = Inr st \<and> ?P st"
    proof (rule foldE_keeps)
      fix st d assume d: "d \<in> set ds" and P: "?P st"
      have "card (below deps rk d) < fuel" using card_below_less down [OF d] Suc.prems(3)
        by (metis less_SucE less_trans less_Suc_eq)
      moreover have "\<forall>v \<in> insert key visiting. rk d < rk v" using Suc.prems(4) down [OF d] by fastforce
      ultimately have "\<exists>ved. visit deps fuel (insert key visiting, snd st) d = Inr (insert key visiting, ved)
          \<and> d \<in> ved \<and> snd st \<subseteq> ved"
        using Suc.IH [OF Suc.prems(1)] down [OF d] by blast
      then show "\<exists>st'. visit deps fuel st d = Inr st' \<and> ?P st'" using P by (cases st) auto
    qed simp
    then show ?thesis using ds nv False by auto
  qed
qed simp

lemma visit_all_ranked:
  assumes "closed_ranked deps rk" and "length deps < fuel"
  shows "\<exists>ved. foldE (visit deps fuel) ({}, {}) (map fst deps) = Inr ({}, ved)"
proof -
  let ?P = "\<lambda>st :: pystr set \<times> pystr set. fst st = {}"
  have "\<exists>st. foldE (visit deps fuel) ({}, {}) (map fst deps) = Inr st \<and> ?P st"
  proof (rule foldE_keeps)
    fix st k assume k: "k \<in> set (map fst deps)" and P: "?P st"
    have "card (below deps rk k) \<le> card (fst ` set deps)" by (rule card_mono) (auto simp: below_def)
    also have "\<dots> \<le> length deps" using card_length [of "map fst deps"] by simp
    finally have "card (below deps rk k) < fuel" using assms(2) by simp
    from visit_ranked [OF assms(1) _ this, of "{}" "snd st"] k
    obtain ved where "visit deps fuel ({}, snd st) k = Inr ({}, ved)" by auto
    then show "\<exists>st'. visit deps fuel st k = Inr st' \<and> ?P st'" using P by (cases st) auto
  qed simp
  then show ?thesis by auto
qed

lemma blueprint_maps:
  assumes "distinct (map bp_key bs)" and "b \<in> set bs"
  shows "map_of (map (\<lambda>b. (bp_key b, f b)) bs) (bp_key b) = Some (f b)"
  using assms by (induction bs) (auto simp: rev_image_eqI)

lemma plan_ranked:
  assumes "distinct (map bp_key (pi_work_order_blueprints p))"
    and "\<forall>b \<in> set (pi_work_order_blueprints p). set (bp_dependencies b) \<subseteq> bp_key ` set (pi_work_order_blueprints p)"
    and "\<forall>b \<in> set (pi_work_order_blueprints p).
      \<forall>d \<in> set (bp_dependencies b). \<exists>m. map_of (sequence_by_key p) d = Some m \<and> m < bp_sequence b"
  shows "closed_ranked (dependencies p) (\<lambda>k. the (map_of (sequence_by_key p) k))"
  using assms blueprint_maps [OF assms(1), of _ bp_sequence]
  by (fastforce simp: closed_ranked_def dependencies_def image_image sequence_by_key_def)

section \<open>Properties\<close>

text \<open>What an accepted plan promises, without the order of the checks or the search.\<close>

definition plan_ok :: "package_input \<Rightarrow> bool" where
  "plan_ok p \<longleftrightarrow> list_all (\<lambda>(_, keys). distinct keys) (keyed_collections p)
     \<and> distinct (map bp_sequence (pi_work_order_blueprints p))
     \<and> (\<forall>b \<in> set (pi_work_order_blueprints p). blueprint_ok p b)
     \<and> (\<forall>c \<in> set (pi_acceptance_criteria p). \<exists>b \<in> set (pi_work_order_blueprints p).
          rq_key c \<in> set (bp_acceptance_criterion_refs b))
     \<and> (\<forall>b \<in> set (pi_work_order_blueprints p). \<forall>b' \<in> set (pi_work_order_blueprints p).
          bp_key b' \<in> set (bp_dependencies b) \<longrightarrow> bp_sequence b' < bp_sequence b)"

lemma keyed_blueprints:
  "list_all (\<lambda>(_, keys). distinct keys) (keyed_collections p) \<Longrightarrow>
     distinct (map bp_key (pi_work_order_blueprints p))"
  by (simp add: keyed_collections_def)

lemma sequence_lookup:
  assumes "distinct (map bp_key (pi_work_order_blueprints p))"
    and "\<forall>b \<in> set (pi_work_order_blueprints p). set (bp_dependencies b) \<subseteq> bp_key ` set (pi_work_order_blueprints p)"
    and "b \<in> set (pi_work_order_blueprints p)"
  shows "(\<forall>d \<in> set (bp_dependencies b). \<exists>m. map_of (sequence_by_key p) d = Some m \<and> m < bp_sequence b)
    \<longleftrightarrow> (\<forall>b' \<in> set (pi_work_order_blueprints p).
          bp_key b' \<in> set (bp_dependencies b) \<longrightarrow> bp_sequence b' < bp_sequence b)"
  using assms(2,3) blueprint_maps [OF assms(1), of _ bp_sequence]
  by (fastforce simp: sequence_by_key_def)

lemma search_succeeds:
  assumes "distinct (map bp_key (pi_work_order_blueprints p))"
    and "\<forall>b \<in> set (pi_work_order_blueprints p). set (bp_dependencies b) \<subseteq> bp_key ` set (pi_work_order_blueprints p)"
    and "\<forall>b \<in> set (pi_work_order_blueprints p). earlier_dependencies (sequence_by_key p) (bp_key b)
      (bp_sequence b) (bp_dependencies b) = Inr ()"
  shows "\<exists>ved. foldE (visit (dependencies p) (length (pi_work_order_blueprints p) + 1)) ({}, {})
     (map fst (dependencies p)) = Inr ({}, ved)"
proof (rule visit_all_ranked)
  show "closed_ranked (dependencies p) (\<lambda>k. the (map_of (sequence_by_key p) k))"
    using assms by (intro plan_ranked) (simp_all add: earlier_dependencies_Inr)
  show "length (dependencies p) < length (pi_work_order_blueprints p) + 1"
    by (simp add: dependencies_def)
qed

lemma validate_plan_spec: "validate_plan p = Inr () \<longleftrightarrow> plan_ok p"
proof -
  let ?bs = "pi_work_order_blueprints p"
  have covered: "(\<forall>k \<in> rq_key ` set (pi_acceptance_criteria p). \<exists>b \<in> set ?bs. k \<in> set (bp_acceptance_criterion_refs b))
      \<longleftrightarrow> filter (\<lambda>k. k \<notin> set (concat (map bp_acceptance_criterion_refs ?bs)))
            (map rq_key (pi_acceptance_criteria p)) = []"
    by (auto simp: filter_empty_conv)
  show ?thesis
  proof (cases "list_all (\<lambda>(_, keys). distinct keys) (keyed_collections p)
      \<and> (\<forall>b \<in> set ?bs. blueprint_ok p b)")
    case True
    note d = keyed_blueprints [OF True [THEN conjunct1]]
    have k: "\<forall>b \<in> set ?bs. set (bp_dependencies b) \<subseteq> bp_key ` set ?bs"
      using True blueprint_ok_dependencies by blast
    have "validate_plan p = Inr () \<longleftrightarrow> distinct (map bp_sequence ?bs)
        \<and> (\<forall>c \<in> set (pi_acceptance_criteria p). \<exists>b \<in> set ?bs. rq_key c \<in> set (bp_acceptance_criterion_refs b))
        \<and> (\<forall>b \<in> set ?bs. earlier_dependencies (sequence_by_key p) (bp_key b) (bp_sequence b) (bp_dependencies b) = Inr ())"
      using search_succeeds [OF d k] True covered
      by (auto simp: validate_plan_def Let_def bindE_eq_Inr require_eq_Inr all_ok_Inr list_all_iff check_blueprint_Inr
          simp del: set_concat)
    then show ?thesis
      using True sequence_lookup [OF d k] by (auto simp: plan_ok_def list_all_iff earlier_dependencies_Inr)
  next
    case False
    then show ?thesis
      by (auto simp: validate_plan_def plan_ok_def Let_def bindE_eq_Inr all_ok_Inr require_eq_Inr list_all_iff
          check_blueprint_Inr)
  qed
qed

text \<open>
  C25: the validator of a plan accepts exactly the plans whose keys and sequence numbers are unique,
  whose blueprints reference only declared items, once each and never themselves, whose every
  acceptance criterion is worked on by a blueprint, and whose dependencies all come earlier in the
  sequence.
\<close>

theorem validate_plan_iff: "validate_plan p = Inr () \<longleftrightarrow> plan_ok p"
  by (rule validate_plan_spec)

text \<open>The dependency edges of a plan.\<close>

definition plan_edges :: "package_input \<Rightarrow> (pystr \<times> pystr) set" where
  "plan_edges p = {(bp_key b, d) | b d. b \<in> set (pi_work_order_blueprints p) \<and> d \<in> set (bp_dependencies b)}"

lemma ranked_acyclic:
  assumes "\<And>a b. (a, b) \<in> E \<Longrightarrow> (rk b :: int) < rk a"
  shows "acyclic E"
proof -
  have "rk b < rk a" if "(a, b) \<in> E\<^sup>+" for a b
    using that by (induction rule: trancl.induct) (use assms in force)+
  then show ?thesis unfolding acyclic_def by blast
qed

text \<open>
  C26: the dependency graph of every accepted plan is acyclic, and every dependency is a blueprint
  of the plan.
\<close>

theorem accepted_plan_acyclic:
  assumes "validate_plan p = Inr ()"
  shows "acyclic (plan_edges p) \<and> Range (plan_edges p) \<subseteq> bp_key ` set (pi_work_order_blueprints p)"
proof
  have ok: "plan_ok p" using assms validate_plan_spec by blast
  then have d: "distinct (map bp_key (pi_work_order_blueprints p))"
    by (simp add: plan_ok_def keyed_blueprints)
  have k: "set (bp_dependencies b) \<subseteq> bp_key ` set (pi_work_order_blueprints p)"
    if "b \<in> set (pi_work_order_blueprints p)" for b
    using ok that blueprint_ok_dependencies by (auto simp: plan_ok_def)
  show "acyclic (plan_edges p)"
  proof (rule ranked_acyclic)
    fix a c assume "(a, c) \<in> plan_edges p"
    then obtain b where b: "b \<in> set (pi_work_order_blueprints p)" "a = bp_key b" "c \<in> set (bp_dependencies b)"
      by (auto simp: plan_edges_def)
    moreover obtain b' where "b' \<in> set (pi_work_order_blueprints p)" "c = bp_key b'" using k b by blast
    ultimately show "the (map_of (sequence_by_key p) c) < the (map_of (sequence_by_key p) a)"
      using ok blueprint_maps [OF d, of _ bp_sequence] by (simp add: plan_ok_def sequence_by_key_def)
  qed
  show "Range (plan_edges p) \<subseteq> bp_key ` set (pi_work_order_blueprints p)"
    using k by (auto simp: plan_edges_def)
qed

definition sample_requirement :: requirement where
  "sample_requirement = \<lparr>rq_key = lit ''r'', rq_statement = lit ''s''\<rparr>"

definition sample_blueprint :: "pystr \<Rightarrow> int \<Rightarrow> pystr list \<Rightarrow> blueprint" where
  "sample_blueprint k n deps = \<lparr>bp_key = k, bp_title = lit ''t'', bp_outcome = lit ''o'',
     bp_requirements = [lit ''q''], bp_acceptance_criterion_refs = [lit ''r''], bp_constraints = [],
     bp_requested_code_scopes = [lit ''src''], bp_capability_requirement_refs = [lit ''r''],
     bp_verification_requirement_refs = [lit ''r''], bp_authority_boundary_refs = [lit ''r''],
     bp_sequence = n, bp_execution_role = Worker, bp_is_mutating = True, bp_priority = 1,
     bp_risk_level = lit ''LOW'', bp_required_approvals = [], bp_dependencies = deps,
     bp_assertion_ids = [lit ''a'']\<rparr>"

definition sample_package_input :: package_input where
  "sample_package_input = \<lparr>pi_mission_title = lit ''m'', pi_mission_context = lit ''m'',
     pi_stop_condition = lit ''m'', pi_plan_summary = lit ''m'', pi_rollback_approach = lit ''m'',
     pi_objective = lit ''m'', pi_intent = lit ''m'', pi_specification = lit ''m'',
     pi_acceptance_criteria = [\<lparr>rq_key = lit ''r'', rq_statement = lit ''s'', ac_verification_method = lit ''v''\<rparr>],
     pi_constraints = [sample_requirement], pi_required_capabilities = [sample_requirement],
     pi_required_agents = [], pi_required_skills = [], pi_required_tools = [],
     pi_model_requirements = [], pi_context_requirements = [sample_requirement],
     pi_environment_requirements = [sample_requirement],
     pi_authority_boundaries = [\<lparr>ab_key = lit ''r'', ab_subject = lit ''s'', ab_maximum_authority = lit ''x'',
        ab_prohibited_actions = [lit ''p'']\<rparr>],
     pi_policy_requirements = [sample_requirement], pi_approval_requirements = [sample_requirement],
     pi_verification_contract = [\<lparr>rq_key = lit ''r'', rq_statement = lit ''s'',
        vq_evidence_required = [lit ''e''], vq_independent = True\<rparr>],
     pi_evaluation_requirements = [sample_requirement], pi_rollback_requirements = [sample_requirement],
     pi_observability_requirements = [sample_requirement], pi_economics_baseline = [],
     pi_risk_summary = [sample_requirement], pi_evidence_refs = [sample_ref],
     pi_decision_refs = [sample_ref], pi_provenance = [sample_ref],
     pi_plan_assertions = [\<lparr>pa_assertion_id = lit ''a'', pa_title = lit ''t'', pa_outcome = lit ''o'',
        pa_verification_method = MTest, pa_pass_condition = lit ''p'', pa_required_evidence = lit ''e'',
        pa_requires_independent_validation = True, pa_waiver_allowed = False\<rparr>],
     pi_work_order_blueprints =
       [sample_blueprint (lit ''b1'') 1 [], sample_blueprint (lit ''b2'') 2 [lit ''b1'']]\<rparr>"

lemmas sample_package_simps =
  sample_package_input_def sample_blueprint_def sample_requirement_def

lemma sample_plan_ok: "plan_ok sample_package_input"
  by (simp add: plan_ok_def keyed_collections_def blueprint_ok_def sample_package_simps)

lemma sample_ref_valid: "valid_source_ref sample_ref"
  by (simp add: valid_source_ref_def sample_ref_def sha_pattern_def hex_char_def lit_def
      list_all_iff bounded_text_def)

lemma sample_package_valid: "valid_package_input sample_package_input"
  using sample_plan_ok [folded validate_plan_spec] sample_ref_valid
  by (simp add: valid_package_input_def valid_package_fields_def sample_package_input_def
      sample_blueprint_def sample_requirement_def
      bounded_list_def bounded_text_def max_contract_array_items_def valid_requirement_def
      valid_acceptance_def valid_boundary_def valid_verification_def valid_assertion_plan_def
      valid_blueprint_def valid_code_scopes_def max_code_scopes_def)

theorem accepted_plan_acyclic_witness:
  "validate_plan sample_package_input = Inr () \<and> (lit ''b2'', lit ''b1'') \<in> plan_edges sample_package_input
    \<and> acyclic (plan_edges sample_package_input)"
proof -
  have v: "validate_plan sample_package_input = Inr ()"
    using sample_package_valid by (simp add: valid_package_input_def)
  have "(lit ''b2'', lit ''b1'') \<in> plan_edges sample_package_input"
    unfolding plan_edges_def
    by (intro CollectI exI [of _ "sample_blueprint (lit ''b2'') 2 [lit ''b1'']"] exI [of _ "lit ''b1''"])
       (simp add: sample_package_simps)
  then show ?thesis using v accepted_plan_acyclic [OF v] by blast
qed

text \<open>
  C37: the last three failures of the validator cannot happen: after the earlier checks no lookup
  misses, the depth-first search finds no cycle, and its recursion is no deeper than the number of
  blueprints.
\<close>

theorem validate_plan_dead_failures:
  "validate_plan p \<noteq> Inl CyclicDependencies \<and> validate_plan p \<noteq> Inl RecursionExceeded
    \<and> validate_plan p \<noteq> Inl (PlanKeyError k)"
proof -
  let ?bs = "pi_work_order_blueprints p"
  have "\<not> validate_plan p = Inl e"
    if bad: "e \<in> {CyclicDependencies, RecursionExceeded, PlanKeyError k}" for e
  proof
    assume run: "validate_plan p = Inl e"
    have early: "e' \<noteq> e" if "all_ok (\<lambda>(label, keys). require (distinct keys) (DuplicateKeys label)) (keyed_collections p) = Inl e'
      \<or> (\<exists>b. check_blueprint p b = Inl e')" for e'
      using that bad
      by (auto simp: check_blueprint_def bindE_eq_Inl check_known_def Let_def dest!: all_ok_Inl
          split: prod.splits)
    have "list_all (\<lambda>(_, keys). distinct keys) (keyed_collections p)"
      using run early bad by (cases "all_ok (\<lambda>(label, keys). require (distinct keys) (DuplicateKeys label)) (keyed_collections p)")
        (auto simp: validate_plan_def all_ok_Inr require_eq_Inr list_all_iff)
    note d = keyed_blueprints [OF this]
    have c: "\<forall>b \<in> set ?bs. check_blueprint p b = Inr ()"
      using run early bad all_ok_Inl [of "check_blueprint p" ?bs]
      by (cases "all_ok (check_blueprint p) ?bs")
         (auto simp: validate_plan_def bindE_eq_Inl all_ok_Inr dest!: all_ok_Inl [of "\<lambda>(label, keys). require (distinct keys) (DuplicateKeys label)"])
    then have k: "\<forall>b \<in> set ?bs. set (bp_dependencies b) \<subseteq> bp_key ` set ?bs"
      using blueprint_ok_dependencies check_blueprint_Inr by metis
    have nk: "earlier_dependencies (sequence_by_key p) (bp_key b) (bp_sequence b) (bp_dependencies b) \<noteq> Inl e"
      if "b \<in> set ?bs" for b
      using earlier_dependencies_Inl [of "sequence_by_key p" _ _ "bp_dependencies b"] k that bad
      by (fastforce simp: sequence_by_key_def image_image)
    show False
      using run early bad nk search_succeeds [OF d k]
      by (auto simp: validate_plan_def Let_def bindE_eq_Inl all_ok_Inr dest!: all_ok_Inl split: prod.splits)
  qed
  then show ?thesis by blast
qed

end
