(* ===== verification/Table.thy ===== *)
theory Table
  imports Prelude
begin

text \<open>
  The unit of work the services run in.  \<open>db.py\<close> builds its sessions with
  \<open>autoflush=False\<close>: a query filters the rows as they were last flushed, and hands out the
  session's own objects, whose attributes may have changed since.  A table is therefore a list of
  entries: the row as flushed (\<open>None\<close> while the object is only pending) and the object now.
  The contract the services rely on is the locale \<open>unit_of_work\<close>.
\<close>

section \<open>Tables\<close>

type_synonym 'r entry = "'r option \<times> 'r"
type_synonym 'r table = "'r entry list"

definition current :: "'r table \<Rightarrow> 'r list" where
  "current t = map snd t"

definition stored :: "'r entry \<Rightarrow> ('r \<Rightarrow> bool) \<Rightarrow> bool" where
  "stored e P = (case fst e of None \<Rightarrow> False | Some r \<Rightarrow> P r)"

definition select :: "('r \<Rightarrow> bool) \<Rightarrow> 'r table \<Rightarrow> 'r list" where
  "select P t = map snd (filter (\<lambda>e. stored e P) t)"

definition add :: "'r \<Rightarrow> 'r table \<Rightarrow> 'r table" where
  "add r t = t @ [(None, r)]"

definition modify :: "('r \<Rightarrow> bool) \<Rightarrow> ('r \<Rightarrow> 'r) \<Rightarrow> 'r table \<Rightarrow> 'r table" where
  "modify P f t = map (\<lambda>e. (fst e, if P (snd e) then f (snd e) else snd e)) t"

definition flush :: "'r table \<Rightarrow> 'r table" where
  "flush t = map (\<lambda>e. (Some (snd e), snd e)) t"

definition clean :: "'r table \<Rightarrow> bool" where
  "clean t \<longleftrightarrow> (\<forall>e \<in> set t. fst e = Some (snd e))"

definition from_rows :: "'r list \<Rightarrow> 'r table" where
  "from_rows rs = map (\<lambda>r. (Some r, r)) rs"

text \<open>
  \<open>session.execute(update(T).where(P).values(...))\<close>: the statement changes the flushed rows that
  satisfy \<open>P\<close>; the session's default synchronisation evaluates \<open>P\<close> on its objects and sets the
  same attributes on those that match, unless the attribute has an unflushed change
  (\<open>same r c\<close> says it has none).
\<close>

definition bulk_update ::
  "('r \<Rightarrow> bool) \<Rightarrow> ('r \<Rightarrow> 'r \<Rightarrow> bool) \<Rightarrow> ('r \<Rightarrow> 'r) \<Rightarrow> 'r table \<Rightarrow> 'r table" where
  "bulk_update P same f t = map (\<lambda>e. case fst e of
       None \<Rightarrow> e
     | Some r \<Rightarrow> (Some (if P r then f r else r),
                  if P (snd e) \<and> same r (snd e) then f (snd e) else snd e)) t"

definition first :: "'r list \<Rightarrow> 'r option" where
  "first xs = (case xs of [] \<Rightarrow> None | x # _ \<Rightarrow> Some x)"

lemma first_simps [simp]: "first [] = None" "first (x # xs) = Some x"
  by (simp_all add: first_def)

lemma first_in: "first xs = Some x \<Longrightarrow> x \<in> set xs"
  by (cases xs) auto

lemma first_None [simp]: "first xs = None \<longleftrightarrow> xs = []"
  by (cases xs) auto

section \<open>Algebra of the operations\<close>

lemma current_add [table_simps]: "current (add r t) = current t @ [r]"
  by (simp add: current_def add_def)

lemma current_modify [table_simps]:
  "current (modify P f t) = map (\<lambda>r. if P r then f r else r) (current t)"
  by (simp add: current_def modify_def)

lemma current_flush [table_simps]: "current (flush t) = current t"
  by (simp add: current_def flush_def)

lemma current_from_rows [table_simps]: "current (from_rows rs) = rs"
  by (simp add: current_def from_rows_def comp_def)

lemma clean_flush [table_simps]: "clean (flush t)"
  by (simp add: clean_def flush_def)

lemma clean_from_rows [table_simps]: "clean (from_rows rs)"
  by (simp add: clean_def from_rows_def)

lemma clean_Nil [table_simps]: "clean []"
  by (simp add: clean_def)

lemma flush_clean [table_simps]: "clean t \<Longrightarrow> flush t = t"
  by (simp add: clean_def flush_def map_idI prod_eq_iff)

lemma flush_flush [table_simps]: "flush (flush t) = flush t"
  by (simp add: flush_def)

lemma select_clean [table_simps]: "clean t \<Longrightarrow> select P t = filter P (current t)"
  by (induction t) (auto simp: clean_def select_def current_def stored_def)

lemma select_flush [table_simps]: "select P (flush t) = filter P (current t)"
  by (simp add: select_clean [OF clean_flush] current_flush)

lemma select_add [table_simps]: "select P (add r t) = select P t"
  by (simp add: select_def add_def stored_def)

lemma select_current: "r \<in> set (select P t) \<Longrightarrow> r \<in> set (current t)"
  by (auto simp: select_def current_def)

lemma current_bulk_update [table_simps]:
  assumes "clean t" and "\<And>r. same r r"
  shows "current (bulk_update P same f t) = map (\<lambda>r. if P r then f r else r) (current t)"
  using assms by (induction t) (auto simp: clean_def current_def bulk_update_def)

lemma clean_bulk_update [table_simps]:
  assumes "clean t" and "\<And>r. same r r"
  shows "clean (bulk_update P same f t)"
  using assms by (auto simp: clean_def bulk_update_def split: option.splits)

lemma modify_True: "modify (\<lambda>_. False) f t = t"
  by (simp add: modify_def)

lemma length_current_modify [simp]: "length (modify P f t) = length t"
  by (simp add: modify_def)

section \<open>The contract\<close>

text \<open>
  What the services use of the object-relational session: a flush makes the objects the rows a
  query filters; between two flushes a query neither sees a pending object nor judges an object by
  an unflushed attribute, but always returns the objects themselves.
\<close>

locale unit_of_work =
  fixes objects :: "'t \<Rightarrow> 'r list"
    and synced :: "'t \<Rightarrow> bool"
    and query :: "('r \<Rightarrow> bool) \<Rightarrow> 't \<Rightarrow> 'r list"
    and insert_object :: "'r \<Rightarrow> 't \<Rightarrow> 't"
    and write_objects :: "('r \<Rightarrow> bool) \<Rightarrow> ('r \<Rightarrow> 'r) \<Rightarrow> 't \<Rightarrow> 't"
    and flush_session :: "'t \<Rightarrow> 't"
  assumes synced_flush: "synced (flush_session t)"
    and objects_flush: "objects (flush_session t) = objects t"
    and query_synced: "synced t \<Longrightarrow> query P t = filter P (objects t)"
    and query_insert: "query P (insert_object r t) = query P t"
    and objects_insert: "objects (insert_object r t) = objects t @ [r]"
    and objects_write:
      "objects (write_objects Q f t) = map (\<lambda>r. if Q r then f r else r) (objects t)"
    and query_write:
      "query P (write_objects Q f t) = map (\<lambda>r. if Q r then f r else r) (query P t)"
begin

lemma read_own_writes: "query P (flush_session t) = filter P (objects t)"
  by (simp add: query_synced synced_flush objects_flush)

lemma pending_invisible:
  "synced t \<Longrightarrow> r \<notin> set (objects t) \<Longrightarrow> r \<notin> set (query P (insert_object r t))"
  by (simp add: query_insert query_synced)

lemma pending_visible_after_flush:
  "P r \<Longrightarrow> r \<in> set (query P (flush_session (insert_object r t)))"
  by (simp add: read_own_writes objects_insert)

lemma unflushed_filter:
  "synced t \<Longrightarrow> query P (write_objects Q f t)
     = map (\<lambda>r. if Q r then f r else r) (filter P (objects t))"
  by (simp add: query_write query_synced)

end

lemma select_modify [table_simps]:
  "select P (modify Q f t) = map (\<lambda>r. if Q r then f r else r) (select P t)"
  by (induction t) (auto simp: select_def modify_def stored_def)

interpretation session: unit_of_work current clean select add modify flush
  by unfold_locales (simp_all add: table_simps)

section \<open>Rows only move forward\<close>

text \<open>
  Between two flushes the services never delete a row; \<open>evolves R t\<close> says that every object of
  the table is in the relation \<open>R\<close> with the row it was flushed as.
\<close>

definition evolves :: "('r \<Rightarrow> 'r \<Rightarrow> bool) \<Rightarrow> 'r table \<Rightarrow> bool" where
  "evolves R t \<longleftrightarrow> (\<forall>e \<in> set t. \<exists>r. fst e = Some r \<and> R r (snd e))"

lemma evolves_clean: "clean t \<Longrightarrow> (\<And>r. R r r) \<Longrightarrow> evolves R t"
  by (auto simp: evolves_def clean_def)

lemma evolves_modify:
  assumes "evolves R t" and "\<And>a b. R a b \<Longrightarrow> Q b \<Longrightarrow> R a (f b)"
  shows "evolves R (modify Q f t)"
  using assms by (fastforce simp: evolves_def modify_def)

lemma evolves_select:
  assumes "evolves R t" and "c \<in> set (current t)" and "\<And>r. R r c \<Longrightarrow> P r"
  shows "c \<in> set (select P t)"
  using assms by (fastforce simp: evolves_def current_def select_def stored_def)

lemma evolves_selectD:
  assumes "evolves R t" and "c \<in> set (select P t)"
  obtains r where "R r c" and "P r" and "c \<in> set (current t)"
  using assms by (fastforce simp: evolves_def current_def select_def stored_def)

section \<open>Identity and marking\<close>

text \<open>
  The object of a primary key, and the update that marks the live rows of a set once and for all.
\<close>

definition find_row :: "('r \<Rightarrow> 'k) \<Rightarrow> 'k \<Rightarrow> 'r table \<Rightarrow> 'r option" where
  "find_row key k t = first (filter (\<lambda>r. key r = k) (current t))"

definition marked :: "('r \<Rightarrow> bool) \<Rightarrow> ('r \<Rightarrow> 'r) \<Rightarrow> ('r \<Rightarrow> bool) \<Rightarrow> 'r table \<Rightarrow> 'r table" where
  "marked live f P t = modify (\<lambda>r. P r \<and> live r) f t"

lemma find_row_Some: "find_row key k t = Some r \<Longrightarrow> r \<in> set (current t) \<and> key r = k"
  by (auto simp: find_row_def dest!: first_in)

lemma find_row_None: "find_row key k t = None \<longleftrightarrow> k \<notin> key ` set (current t)"
  by (auto simp: find_row_def filter_empty_conv)

lemma unique_key:
  "distinct (map key (current t)) \<Longrightarrow> r \<in> set (current t) \<Longrightarrow> r' \<in> set (current t) \<Longrightarrow> key r = key r'
    \<Longrightarrow> r = r'"
  by (metis distinct_map inj_onD)

lemma find_row_unique:
  "distinct (map key (current t)) \<Longrightarrow> r \<in> set (current t) \<Longrightarrow> find_row key (key r) t = Some r"
  by (cases "find_row key (key r) t") (auto simp: find_row_None dest: find_row_Some unique_key)

lemma set_current_modify: "set (current (modify P f t)) = (\<lambda>r. if P r then f r else r) ` set (current t)"
  by (simp add: current_modify)

lemma modify_cong:
  "(\<And>r. r \<in> set (current t) \<Longrightarrow> P r = Q r) \<Longrightarrow> modify P f t = modify Q f t"
  by (auto simp: modify_def current_def)

lemma modify_none: "(\<And>r. r \<in> set (current t) \<Longrightarrow> \<not> P r) \<Longrightarrow> modify P f t = t"
  by (simp add: modify_def current_def map_idI prod_eq_iff)

lemma marked_cong:
  "(\<And>r. r \<in> set (current t) \<Longrightarrow> live r \<Longrightarrow> P r = Q r) \<Longrightarrow> marked live f P t = marked live f Q t"
  unfolding marked_def by (rule modify_cong) auto

lemma marked_none [simp]: "marked live f (\<lambda>_. False) t = t"
  by (simp add: marked_def modify_True)

lemma marked_marked:
  assumes "\<And>r. \<not> live (f r)"
  shows "marked live f Q (marked live f P t) = marked live f (\<lambda>r. P r \<or> Q r) t"
  using assms by (auto simp: marked_def modify_def)

lemma marked_live:
  assumes "\<And>r. \<not> live (f r)"
  shows "r \<in> set (current (marked live f P t)) \<and> live r \<longleftrightarrow> r \<in> set (current t) \<and> live r \<and> \<not> P r"
  using assms by (auto simp: marked_def set_current_modify)

lemma map_key_marked:
  "(\<And>r. key (f r) = key r) \<Longrightarrow> map key (current (marked live f P t)) = map key (current t)"
  by (simp add: marked_def current_modify)

lemma marked_find:
  assumes "distinct (map key (current t))" and "find_row key k t = Some r" and "live r"
  shows "modify (\<lambda>r. key r = k) f t = marked live f (\<lambda>r. key r = k) t"
  unfolding marked_def using assms by (intro modify_cong) (auto dest: find_row_Some unique_key)

lemma marked_find_dead:
  assumes "distinct (map key (current t))" and "\<And>r. find_row key k t = Some r \<Longrightarrow> \<not> live r"
  shows "marked live f (\<lambda>r. key r = k) t = t"
  unfolding marked_def using assms by (intro modify_none) (auto simp: find_row_unique)

text \<open>
  Between two flushes the rows of a table are as flushed, or marked.  Marking the objects a query
  returns is then marking the live objects the query's other conditions hold of.
\<close>

definition only_marked :: "('r \<Rightarrow> bool) \<Rightarrow> ('r \<Rightarrow> 'r \<Rightarrow> bool) \<Rightarrow> 'r table \<Rightarrow> bool" where
  "only_marked live m t \<longleftrightarrow> evolves (\<lambda>a b. b = a \<or> live a \<and> m a b) t"

lemma only_marked_clean: "clean t \<Longrightarrow> only_marked live m t"
  by (simp add: only_marked_def evolves_clean)

lemma only_marked_marked:
  assumes "only_marked live m t" and "\<And>a. m a (f a)" and "\<And>a b. m a b \<Longrightarrow> \<not> live b"
  shows "only_marked live m (marked live f P t)"
  unfolding only_marked_def marked_def
  by (rule evolves_modify) (use assms in \<open>auto simp: only_marked_def\<close>)

lemma selected_iff:
  assumes u: "distinct (map key (current t))" and e: "only_marked live m t"
    and dead: "\<And>a b. m a b \<Longrightarrow> \<not> live b" and same: "\<And>a b. m a b \<Longrightarrow> Q b = Q a"
    and sel: "\<And>a. live a \<Longrightarrow> sel a"
    and r: "r \<in> set (current t)" and lr: "live r"
  shows "key r \<in> set (map key (select (\<lambda>r. Q r \<and> sel r) t)) \<longleftrightarrow> Q r"
proof
  assume "key r \<in> set (map key (select (\<lambda>r. Q r \<and> sel r) t))"
  then obtain r' where r': "r' \<in> set (select (\<lambda>r. Q r \<and> sel r) t)" "key r' = key r" by auto
  obtain a where "(r' = a \<or> live a \<and> m a r')" "Q a \<and> sel a" "r' \<in> set (current t)"
    using evolves_selectD [OF e [unfolded only_marked_def] r'(1)] by blast
  then have "r' = r" "Q r'" using unique_key [OF u] r r'(2) same by blast+
  then show "Q r" by simp
next
  assume "Q r"
  then have "r \<in> set (select (\<lambda>r. Q r \<and> sel r) t)"
    using e [unfolded only_marked_def] r lr dead sel by (intro evolves_select) blast+
  then show "key r \<in> set (map key (select (\<lambda>r. Q r \<and> sel r) t))" by simp
qed

lemma marked_selected:
  assumes "distinct (map key (current t))" and "only_marked live m t"
    and "\<And>a b. m a b \<Longrightarrow> \<not> live b" and "\<And>a b. m a b \<Longrightarrow> Q b = Q a"
    and "\<And>a. live a \<Longrightarrow> sel a"
  shows "marked live f (\<lambda>r. key r \<in> set (map key (select (\<lambda>r. Q r \<and> sel r) t))) t = marked live f Q t"
  by (rule marked_cong) (rule selected_iff [OF assms])

end
