(* ===== verification/Store.thy ===== *)
theory Store
  imports PlanGraph Table
begin

text \<open>
  \<open>models.py\<close>, \<open>modules/design_partner/models.py\<close>, \<open>modules/factory_engineer/models.py\<close> and
  \<open>modules/shared.py\<close>: the rows the services read and write, one record per table, and the session
  state they run on.  A string column with a CHECK on its values is a datatype; a JSONB column that
  only ever holds the dump of a schema object holds that object.  \<open>created_at\<close>/\<open>updated_at\<close> stamps
  appear where the code reads them.
\<close>

section \<open>Identity and engagements\<close>

datatype identity_kind = Human | Service
datatype member_role = Owner | OperatorRole | Viewer
datatype data_class = Synthetic | Sanitized
datatype lifecycle_status = Active | DeletionProcessing | DeletionFailed
datatype lifecycle_stage =
  StQualify | StDiscover | StModel | StMap | StDecide | StDesign | StEconomicCase | StSpecify

record operator =
  op_id :: uuid
  op_external_subject :: pystr
  op_display_name :: pystr
  op_identity_kind :: identity_kind
  op_is_active :: bool

record engagement =
  eg_id :: uuid
  eg_name :: pystr
  eg_lifecycle_stage :: lifecycle_stage
  eg_workflow_name :: pystr
  eg_primary_outcome :: pystr
  eg_data_classification :: data_class
  eg_data_lifecycle_status :: lifecycle_status
  eg_retention_expires_at :: "time option"

record member =
  mb_engagement_id :: uuid
  mb_operator_id :: uuid
  mb_role :: member_role

section \<open>Evidence and knowledge\<close>

datatype evidence_status = EQueued | EProcessing | ENeedsReview | EFailed | EComplete
datatype assertion_status = Verified | Superseded | Disputed | Retired
datatype customer_class = Public | Internal | Confidential | Restricted

record evidence_asset =
  ev_id :: uuid
  ev_engagement_id :: uuid
  ev_content_hash :: pystr
  ev_status :: evidence_status
  ev_created_at :: time
  ev_qualification_id :: "uuid option"
  ev_authorized_source_key :: "pystr option"
  ev_authorized_workflow_class :: "pystr option"
  ev_data_classification :: "customer_class option"
  ev_file_name :: pystr
  ev_content_type :: pystr
  ev_byte_count :: int
  ev_storage_key :: pystr
  ev_storage_version_id :: "pystr option"
  ev_source_type :: pystr
  ev_source_timestamp :: "time option"
  ev_error_message :: "pystr option"
  ev_created_by_id :: uuid

record assertion =
  as_id :: uuid
  as_engagement_id :: uuid
  as_subject_entity_id :: uuid
  as_predicate :: pystr
  as_object_entity_id :: "uuid option"
  as_value :: json
  as_status :: assertion_status
  as_confidence :: pystr
  as_valid_from :: "pystr option"
  as_valid_until :: "pystr option"
  as_recorded_at :: time
  as_candidate_claim_id :: uuid
  as_verified_by_id :: uuid

text \<open>\<open>as_confidence\<close> is \<open>str()\<close> of the Decimal, the dates are their ISO text: the code only renders them.\<close>

section \<open>Workflows, economics, artifacts\<close>

datatype workflow_kind = Current | Target
datatype draft_status = Draft | Approved | Stale
datatype step_type = HumanTask | SoftwareTask | Decision | Approval | Handoff
datatype allocation = AHuman | ASoftware | AAi | AAiHuman
datatype artifact_status = ArCurrent | ArStale

fun workflow_kind_text :: "workflow_kind \<Rightarrow> pystr" where
  "workflow_kind_text Current = lit ''current''"
| "workflow_kind_text Target = lit ''target''"

fun step_type_text :: "step_type \<Rightarrow> pystr" where
  "step_type_text HumanTask = lit ''human_task''"
| "step_type_text SoftwareTask = lit ''software_task''"
| "step_type_text Decision = lit ''decision''"
| "step_type_text Approval = lit ''approval''"
| "step_type_text Handoff = lit ''handoff''"

fun allocation_text :: "allocation \<Rightarrow> pystr" where
  "allocation_text AHuman = lit ''human''"
| "allocation_text ASoftware = lit ''software''"
| "allocation_text AAi = lit ''ai''"
| "allocation_text AAiHuman = lit ''ai_human''"

record workflow =
  wf_id :: uuid
  wf_engagement_id :: uuid
  wf_kind :: workflow_kind
  wf_version :: int
  wf_name :: pystr
  wf_objective :: pystr
  wf_status :: draft_status
  wf_source_workflow_id :: "uuid option"
  wf_source_assertion_ids :: "pystr list"
  wf_created_by_id :: uuid
  wf_approved_by_id :: "uuid option"
  wf_approved_at :: "time option"
  wf_approval_reason :: "pystr option"

record workflow_step =
  ws_id :: uuid
  ws_engagement_id :: uuid
  ws_workflow_id :: uuid
  ws_key :: pystr
  ws_position :: int
  ws_name :: pystr
  ws_description :: pystr
  ws_type :: step_type
  ws_actor_label :: "pystr option"
  ws_system_label :: "pystr option"
  ws_allocation :: allocation
  ws_rationale :: pystr
  ws_controls :: "pystr list"
  ws_source_assertion_id :: "uuid option"

record economic_case =
  ec_id :: uuid
  ec_engagement_id :: uuid
  ec_version :: int
  ec_status :: draft_status
  ec_target_workflow_id :: uuid
  ec_formula_version :: pystr
  ec_inputs :: json
  ec_outputs :: json
  ec_scenarios :: json
  ec_assumptions :: "pystr list"
  ec_created_by_id :: uuid
  ec_approved_by_id :: "uuid option"
  ec_approved_at :: "time option"

record artifact =
  ar_id :: uuid
  ar_engagement_id :: uuid
  ar_type :: pystr
  ar_version :: int
  ar_status :: artifact_status
  ar_content_hash :: pystr
  ar_current_workflow_id :: uuid
  ar_target_workflow_id :: uuid
  ar_economic_case_id :: uuid

section \<open>Design partners\<close>

datatype qualification_status = QActive | QSuspended | QRevoked
datatype qualification_state = Configured | InQualification | QBlocked | Qualified

record qualification =
  ql_id :: uuid
  ql_engagement_id :: uuid
  ql_partner_key :: pystr
  ql_organization :: pystr
  ql_status :: qualification_status
  ql_state :: qualification_state
  ql_data_source_keys :: "pystr list"
  ql_repository_refs :: "pystr list"
  ql_workflow_classes :: "pystr list"
  ql_data_classification :: customer_class
  ql_retention_days :: int
  ql_retention_expires_at :: time
  ql_authorization_basis_ref :: pystr
  ql_configured_by_id :: uuid
  ql_created_at :: time

record access_event =
  ca_engagement_id :: uuid
  ca_qualification_id :: uuid
  ca_partner_key :: pystr
  ca_operator_id :: uuid
  ca_evidence_asset_id :: "uuid option"
  ca_source_key :: pystr
  ca_workflow_class :: pystr
  ca_data_classification :: customer_class
  ca_authorized :: bool
  ca_decision_code :: pystr
  ca_authorization_basis_ref :: pystr
  ca_correlation_id :: uuid

section \<open>Factory aggregates\<close>

record customer_model =
  cm_id :: uuid
  cm_engagement_id :: uuid
  cm_version :: int
  cm_status :: model_status
  cm_columns :: model_columns
  cm_content_digest :: pystr
  cm_created_by_id :: uuid
  cm_approved_by_id :: "uuid option"
  cm_approved_at :: "time option"
  cm_stale_reason :: "pystr option"
  cm_staled_at :: "time option"

record readiness =
  ra_id :: uuid
  ra_engagement_id :: uuid
  ra_version :: int
  ra_status :: assessment_status
  ra_overall_status :: readiness_status
  ra_model_id :: uuid
  ra_model_version :: int
  ra_opportunity_id :: uuid
  ra_opportunity_version :: int
  ra_current_workflow_ref :: version_ref
  ra_target_workflow_ref :: version_ref
  ra_stages :: "stage_snapshot list"
  ra_content_digest :: pystr
  ra_created_by_id :: uuid
  ra_approved_by_id :: "uuid option"
  ra_approved_at :: "time option"
  ra_stale_reason :: "pystr option"
  ra_staled_at :: "time option"

record opportunity =
  fo_id :: uuid
  fo_engagement_id :: uuid
  fo_key :: pystr
  fo_version :: int
  fo_status :: opportunity_status
  fo_name :: pystr
  fo_description :: pystr
  fo_source_workflow_ref :: version_ref
  fo_model_id :: uuid
  fo_model_version :: int
  fo_score :: opportunity_score
  fo_factors :: factors
  fo_economics_ref :: source_ref
  fo_evidence_refs :: "source_ref list"
  fo_blockers :: "pystr list"
  fo_content_digest :: pystr
  fo_created_by_id :: uuid
  fo_selected_by_id :: "uuid option"
  fo_selected_at :: "time option"
  fo_selection_reason :: "pystr option"
  fo_rejected_by_id :: "uuid option"
  fo_rejected_at :: "time option"
  fo_rejection_reason :: "pystr option"
  fo_stale_reason :: "pystr option"
  fo_staled_at :: "time option"

record package =
  pk_id :: uuid
  pk_engagement_id :: uuid
  pk_package_id :: uuid
  pk_version :: int
  pk_schema_version :: pystr
  pk_status :: package_status
  pk_issuer :: issuer
  pk_model_id :: uuid
  pk_model_version :: int
  pk_current_workflow_ref :: version_ref
  pk_target_workflow_ref :: version_ref
  pk_readiness_id :: uuid
  pk_readiness_version :: int
  pk_opportunity_id :: uuid
  pk_opportunity_version :: int
  pk_target :: deployment_target
  pk_contract :: package_input
  pk_digest :: "pystr option"
  pk_created_by_id :: uuid
  pk_issued_at :: "time option"
  pk_approved_by_id :: "uuid option"
  pk_approval_binding :: "approval_binding option"
  pk_approved_at :: "time option"
  pk_published_at :: "time option"
  pk_rejected_at :: "time option"
  pk_revoked_at :: "time option"
  pk_staled_at :: "time option"
  pk_superseded_at :: "time option"
  pk_state_reason :: "pystr option"

section \<open>Audit and outbox\<close>

record audit_event =
  au_engagement_id :: uuid
  au_actor_type :: pystr
  au_actor_id :: uuid
  au_action :: pystr
  au_target_type :: pystr
  au_target_id :: uuid
  au_detail :: json

record outbox_event =
  ox_engagement_id :: uuid
  ox_event_type :: pystr
  ox_aggregate_type :: pystr
  ox_aggregate_id :: uuid
  ox_payload :: json

section \<open>The session state\<close>

text \<open>
  Audit and outbox rows are only ever added, so their tables are the lists of events in order.
\<close>

record store =
  operators :: "operator table"
  engagements :: "engagement table"
  members :: "member table"
  evidence_assets :: "evidence_asset table"
  assertions :: "assertion table"
  workflows :: "workflow table"
  steps :: "workflow_step table"
  economic_cases :: "economic_case table"
  artifacts :: "artifact table"
  qualifications :: "qualification table"
  access_events :: "access_event list"
  customer_models :: "customer_model table"
  readiness_rows :: "readiness table"
  opportunities :: "opportunity table"
  packages :: "package table"
  audits :: "audit_event list"
  outbox :: "outbox_event list"

text \<open>
  What the services raise.  A failed operation rolls its transaction back, so the store is not
  part of an error.  \<open>ConstraintViolation\<close> is the database refusing a flush.
\<close>

datatype service_error =
    NotFound uuid
  | StateError pystr
  | IntegrityError pystr
  | CriteriaError criteria_error
  | CanonError canon_error
  | ValidationError pystr
  | PlainValueError pystr
  | QualificationError pystr
  | ProcessingDenied
  | ConstraintViolation string

type_synonym 'a outcome = "(service_error, 'a) result"

definition lift_canon :: "(canon_error, 'a) result \<Rightarrow> 'a outcome" where
  "lift_canon r = (case r of Inl e \<Rightarrow> Inl (CanonError e) | Inr x \<Rightarrow> Inr x)"

lemma lift_canon_Inr [result_simps]: "lift_canon r = Inr x \<longleftrightarrow> r = Inr x"
  by (cases r) (simp_all add: lift_canon_def)

text \<open>\<open>audit_event\<close> is the event \<open>record_audit\<close> adds; its \<open>actor_type\<close> is ''operator'' by default.\<close>

definition audit_event ::
  "pystr \<Rightarrow> uuid \<Rightarrow> uuid \<Rightarrow> pystr \<Rightarrow> pystr \<Rightarrow> uuid \<Rightarrow> json \<Rightarrow> audit_event" where
  "audit_event actor_type eid actor action target_type target_id detail =
     \<lparr>au_engagement_id = eid, au_actor_type = actor_type, au_actor_id = actor, au_action = action,
      au_target_type = target_type, au_target_id = target_id, au_detail = detail\<rparr>"

definition record_audit ::
  "uuid \<Rightarrow> uuid \<Rightarrow> pystr \<Rightarrow> pystr \<Rightarrow> uuid \<Rightarrow> json \<Rightarrow> store \<Rightarrow> store" where
  "record_audit eid actor action target_type target_id detail s =
     s\<lparr>audits := audits s @ [audit_event (lit ''operator'') eid actor action target_type target_id detail]\<rparr>"

definition publish_domain_event ::
  "uuid \<Rightarrow> pystr \<Rightarrow> pystr \<Rightarrow> uuid \<Rightarrow> json \<Rightarrow> store \<Rightarrow> store" where
  "publish_domain_event eid event_type aggregate_type aggregate_id payload s =
     s\<lparr>outbox := outbox s @ [\<lparr>ox_engagement_id = eid, ox_event_type = event_type,
         ox_aggregate_type = aggregate_type, ox_aggregate_id = aggregate_id, ox_payload = payload\<rparr>]\<rparr>"

text \<open>Recording an event leaves every table alone.\<close>

lemma record_audit_frame [simp]:
  "operators (record_audit e a n ty i d s) = operators s"
  "engagements (record_audit e a n ty i d s) = engagements s"
  "members (record_audit e a n ty i d s) = members s"
  "evidence_assets (record_audit e a n ty i d s) = evidence_assets s"
  "assertions (record_audit e a n ty i d s) = assertions s"
  "workflows (record_audit e a n ty i d s) = workflows s"
  "steps (record_audit e a n ty i d s) = steps s"
  "economic_cases (record_audit e a n ty i d s) = economic_cases s"
  "artifacts (record_audit e a n ty i d s) = artifacts s"
  "qualifications (record_audit e a n ty i d s) = qualifications s"
  "access_events (record_audit e a n ty i d s) = access_events s"
  "customer_models (record_audit e a n ty i d s) = customer_models s"
  "readiness_rows (record_audit e a n ty i d s) = readiness_rows s"
  "opportunities (record_audit e a n ty i d s) = opportunities s"
  "packages (record_audit e a n ty i d s) = packages s"
  "outbox (record_audit e a n ty i d s) = outbox s"
  by (simp_all add: record_audit_def)

lemma publish_event_frame [simp]:
  "operators (publish_domain_event e n ty i d s) = operators s"
  "engagements (publish_domain_event e n ty i d s) = engagements s"
  "members (publish_domain_event e n ty i d s) = members s"
  "evidence_assets (publish_domain_event e n ty i d s) = evidence_assets s"
  "assertions (publish_domain_event e n ty i d s) = assertions s"
  "workflows (publish_domain_event e n ty i d s) = workflows s"
  "steps (publish_domain_event e n ty i d s) = steps s"
  "economic_cases (publish_domain_event e n ty i d s) = economic_cases s"
  "artifacts (publish_domain_event e n ty i d s) = artifacts s"
  "qualifications (publish_domain_event e n ty i d s) = qualifications s"
  "access_events (publish_domain_event e n ty i d s) = access_events s"
  "customer_models (publish_domain_event e n ty i d s) = customer_models s"
  "readiness_rows (publish_domain_event e n ty i d s) = readiness_rows s"
  "opportunities (publish_domain_event e n ty i d s) = opportunities s"
  "packages (publish_domain_event e n ty i d s) = packages s"
  "audits (publish_domain_event e n ty i d s) = audits s"
  by (simp_all add: publish_domain_event_def)

end
