(* ===== verification/Database.thy ===== *)
theory Database
  imports Store
begin

text \<open>
  What PostgreSQL checks when a session is flushed: the primary keys, unique constraints, partial
  unique indexes, foreign keys and CHECKs of \<open>modules/factory_engineer/models.py\<close>, and the triggers
  installed by \<open>migrations/versions/9b0d4e7c2f11_factory_engineer_handoff.py\<close>.  An UPDATE is only
  sent for an object that differs from its row.  The order of the UPDATEs inside one flush is not
  fixed, so a partial unique index is taken to be safe only when no order can violate it: at most
  one row per engagement satisfies the index before or after the flush.
\<close>

section \<open>SQL truth values\<close>

text \<open>\<open>None\<close> is NULL; PL/pgSQL's IF takes its branch only when the condition is true.\<close>

type_synonym sql_bool = "bool option"

definition sql_or :: "sql_bool list \<Rightarrow> sql_bool" where
  "sql_or bs = (if Some True \<in> set bs then Some True else if None \<in> set bs then None else Some False)"

definition sql_and :: "sql_bool list \<Rightarrow> sql_bool" where
  "sql_and bs = (if Some False \<in> set bs then Some False else if None \<in> set bs then None else Some True)"

definition sql_not :: "sql_bool \<Rightarrow> sql_bool" where
  "sql_not b = map_option Not b"

definition raises :: "sql_bool \<Rightarrow> bool" where
  "raises b \<longleftrightarrow> b = Some True"

section \<open>Row triggers\<close>

definition model_frozen :: "customer_model \<Rightarrow> customer_model" where
  "model_frozen r = r\<lparr>cm_status := MDraft, cm_approved_by_id := None, cm_approved_at := None,
     cm_stale_reason := None, cm_staled_at := None\<rparr>"

definition model_insert_ok :: "customer_model \<Rightarrow> bool" where
  "model_insert_ok r \<longleftrightarrow> cm_status r = MDraft \<and> cm_approved_by_id r = None \<and> cm_approved_at r = None
     \<and> cm_stale_reason r = None \<and> cm_staled_at r = None"

definition model_update_ok :: "customer_model \<Rightarrow> customer_model \<Rightarrow> bool" where
  "model_update_ok old new \<longleftrightarrow>
     model_frozen new = model_frozen old
     \<and> (cm_status new \<noteq> cm_status old \<longrightarrow>
          (cm_status old = MDraft \<and> cm_status new \<in> {MApproved, MStale})
          \<or> (cm_status old = MApproved \<and> cm_status new = MStale))
     \<and> ((cm_approved_by_id new, cm_approved_at new) \<noteq> (cm_approved_by_id old, cm_approved_at old) \<longrightarrow>
          cm_status old = MDraft \<and> cm_status new = MApproved
          \<and> cm_approved_by_id new \<noteq> None \<and> cm_approved_at new \<noteq> None)
     \<and> ((cm_stale_reason new, cm_staled_at new) \<noteq> (cm_stale_reason old, cm_staled_at old) \<longrightarrow>
          cm_status old \<noteq> MStale \<and> cm_status new = MStale
          \<and> cm_stale_reason new \<noteq> None \<and> cm_staled_at new \<noteq> None)
     \<and> (cm_status new = MApproved \<longrightarrow> cm_approved_by_id new \<noteq> None \<and> cm_approved_at new \<noteq> None)
     \<and> (cm_status new = MStale \<longrightarrow> cm_stale_reason new \<noteq> None \<and> cm_staled_at new \<noteq> None)"

definition readiness_frozen :: "readiness \<Rightarrow> readiness" where
  "readiness_frozen r = r\<lparr>ra_status := ADraft, ra_overall_status := RStale,
     ra_approved_by_id := None, ra_approved_at := None, ra_stale_reason := None, ra_staled_at := None\<rparr>"

definition readiness_insert_ok :: "readiness \<Rightarrow> bool" where
  "readiness_insert_ok r \<longleftrightarrow> ra_status r = ADraft \<and> ra_approved_by_id r = None
     \<and> ra_approved_at r = None \<and> ra_stale_reason r = None \<and> ra_staled_at r = None"

definition readiness_update_ok :: "readiness \<Rightarrow> readiness \<Rightarrow> bool" where
  "readiness_update_ok old new \<longleftrightarrow>
     readiness_frozen new = readiness_frozen old
     \<and> (ra_status new \<noteq> ra_status old \<longrightarrow>
          (ra_status old = ADraft \<and> ra_status new \<in> {AApproved, AStale})
          \<or> (ra_status old = AApproved \<and> ra_status new = AStale))
     \<and> (ra_overall_status new \<noteq> ra_overall_status old \<longrightarrow>
          ra_status old \<noteq> AStale \<and> ra_status new = AStale \<and> ra_overall_status new = RStale)
     \<and> ((ra_approved_by_id new, ra_approved_at new) \<noteq> (ra_approved_by_id old, ra_approved_at old) \<longrightarrow>
          ra_status old = ADraft \<and> ra_status new = AApproved \<and> ra_overall_status new = Ready
          \<and> ra_approved_by_id new \<noteq> None \<and> ra_approved_at new \<noteq> None)
     \<and> ((ra_stale_reason new, ra_staled_at new) \<noteq> (ra_stale_reason old, ra_staled_at old) \<longrightarrow>
          ra_status old \<noteq> AStale \<and> ra_status new = AStale \<and> ra_overall_status new = RStale
          \<and> ra_stale_reason new \<noteq> None \<and> ra_staled_at new \<noteq> None)
     \<and> (ra_status new = AApproved \<longrightarrow>
          ra_overall_status new = Ready \<and> ra_approved_by_id new \<noteq> None \<and> ra_approved_at new \<noteq> None)
     \<and> (ra_status new = AStale \<longrightarrow>
          ra_overall_status new = RStale \<and> ra_stale_reason new \<noteq> None \<and> ra_staled_at new \<noteq> None)"

definition opportunity_frozen :: "opportunity \<Rightarrow> opportunity" where
  "opportunity_frozen r = r\<lparr>fo_status := OCandidate, fo_selected_by_id := None, fo_selected_at := None,
     fo_selection_reason := None, fo_rejected_by_id := None, fo_rejected_at := None,
     fo_rejection_reason := None, fo_stale_reason := None, fo_staled_at := None\<rparr>"

definition opportunity_insert_ok :: "opportunity \<Rightarrow> bool" where
  "opportunity_insert_ok r \<longleftrightarrow> fo_status r \<in> {OCandidate, OAssessed, ORecommended}
     \<and> fo_selected_by_id r = None \<and> fo_selected_at r = None \<and> fo_selection_reason r = None
     \<and> fo_rejected_by_id r = None \<and> fo_rejected_at r = None \<and> fo_rejection_reason r = None
     \<and> fo_stale_reason r = None \<and> fo_staled_at r = None"

definition opportunity_transition :: "opportunity_status \<Rightarrow> opportunity_status \<Rightarrow> bool" where
  "opportunity_transition old new \<longleftrightarrow>
     (old = OCandidate \<and> new \<in> {OAssessed, ORecommended, ORejected, OStale})
     \<or> (old \<in> {OAssessed, ORecommended} \<and> new \<in> {OSelected, ORejected, OStale})
     \<or> (old = OSelected \<and> new = OStale)"

definition opportunity_update_ok :: "opportunity \<Rightarrow> opportunity \<Rightarrow> bool" where
  "opportunity_update_ok old new \<longleftrightarrow>
     opportunity_frozen new = opportunity_frozen old
     \<and> (fo_status new \<noteq> fo_status old \<longrightarrow> opportunity_transition (fo_status old) (fo_status new))
     \<and> ((fo_selected_by_id new, fo_selected_at new, fo_selection_reason new)
          \<noteq> (fo_selected_by_id old, fo_selected_at old, fo_selection_reason old) \<longrightarrow>
          fo_status old \<in> {OAssessed, ORecommended} \<and> fo_status new = OSelected
          \<and> fo_selected_by_id new \<noteq> None \<and> fo_selected_at new \<noteq> None \<and> fo_selection_reason new \<noteq> None)
     \<and> ((fo_stale_reason new, fo_staled_at new) \<noteq> (fo_stale_reason old, fo_staled_at old) \<longrightarrow>
          fo_status old \<noteq> OStale \<and> fo_status new = OStale
          \<and> fo_stale_reason new \<noteq> None \<and> fo_staled_at new \<noteq> None)
     \<and> ((fo_rejected_by_id new, fo_rejected_at new, fo_rejection_reason new)
          \<noteq> (fo_rejected_by_id old, fo_rejected_at old, fo_rejection_reason old) \<longrightarrow>
          fo_status old \<in> {OCandidate, OAssessed, ORecommended} \<and> fo_status new = ORejected
          \<and> fo_rejected_by_id new \<noteq> None \<and> fo_rejected_at new \<noteq> None \<and> fo_rejection_reason new \<noteq> None)
     \<and> (fo_status new = OSelected \<longrightarrow> fo_selected_by_id new \<noteq> None \<and> fo_selected_at new \<noteq> None
          \<and> fo_selection_reason new \<noteq> None)
     \<and> (fo_status new = OStale \<longrightarrow> fo_stale_reason new \<noteq> None \<and> fo_staled_at new \<noteq> None)
     \<and> (fo_status new = ORejected \<longrightarrow> fo_rejected_by_id new \<noteq> None \<and> fo_rejected_at new \<noteq> None
          \<and> fo_rejection_reason new \<noteq> None)"

section \<open>The package trigger\<close>

definition package_frozen :: "package \<Rightarrow> package" where
  "package_frozen r = r\<lparr>pk_status := PDraft, pk_digest := None, pk_issued_at := None,
     pk_approved_by_id := None, pk_approval_binding := None, pk_approved_at := None,
     pk_published_at := None, pk_rejected_at := None, pk_revoked_at := None, pk_staled_at := None,
     pk_superseded_at := None, pk_state_reason := None\<rparr>"

definition package_insert_ok :: "package list \<Rightarrow> package \<Rightarrow> bool" where
  "package_insert_ok rows new \<longleftrightarrow>
     (let same = filter (\<lambda>r. pk_package_id r = pk_package_id new) rows in
      case latest_by (\<lambda>r. - pk_version r) same of
        None \<Rightarrow> pk_version new = 1
      | Some existing \<Rightarrow>
          pk_engagement_id new = pk_engagement_id existing \<and> pk_issuer new = pk_issuer existing
          \<and> maximum (map pk_version same) = Some (pk_version new - 1))
     \<and> pk_status new = PDraft \<and> pk_digest new = None \<and> pk_issued_at new = None
     \<and> pk_approved_by_id new = None \<and> pk_approval_binding new = None \<and> pk_approved_at new = None
     \<and> pk_published_at new = None \<and> pk_rejected_at new = None \<and> pk_revoked_at new = None
     \<and> pk_staled_at new = None \<and> pk_superseded_at new = None \<and> pk_state_reason new = None"

definition package_transition :: "package_status \<Rightarrow> package_status \<Rightarrow> bool" where
  "package_transition old new \<longleftrightarrow>
     (old = PDraft \<and> new \<in> {PReadyForReview, PRejected, PStale})
     \<or> (old = PReadyForReview \<and> new \<in> {PApproved, PRejected, PStale})
     \<or> (old = PApproved \<and> new \<in> {PPublished, PRejected, PStale})
     \<or> (old = PPublished \<and> new \<in> {PSuperseded, PRevoked, PStale})"

text \<open>\<open>digest ~ pattern\<close>, NULL on a NULL digest.\<close>

definition digest_matches :: "package \<Rightarrow> sql_bool" where
  "digest_matches r = map_option sha_pattern (pk_digest r)"

definition approval_columns :: "package \<Rightarrow>
    pystr option \<times> time option \<times> uuid option \<times> approval_binding option \<times> time option" where
  "approval_columns r = (pk_digest r, pk_issued_at r, pk_approved_by_id r, pk_approval_binding r,
     pk_approved_at r)"

definition approval_change_refused :: "package \<Rightarrow> package \<Rightarrow> bool" where
  "approval_change_refused old new \<longleftrightarrow>
     approval_columns new \<noteq> approval_columns old
     \<and> raises (sql_not (sql_and
         [Some (pk_status old = PReadyForReview), Some (pk_status new = PApproved), digest_matches new,
          Some (pk_issued_at new \<noteq> None), Some (pk_approved_by_id new \<noteq> None),
          Some (pk_approval_binding new \<noteq> None), Some (pk_approved_at new \<noteq> None)]))"

definition later :: "time option \<Rightarrow> time option \<Rightarrow> sql_bool" where
  "later a b = (case (a, b) of (Some x, Some y) \<Rightarrow> Some (y < x) | _ \<Rightarrow> None)"

definition approved_state_refused :: "package \<Rightarrow> bool" where
  "approved_state_refused new \<longleftrightarrow>
     raises (sql_and
       [Some (pk_status new \<in> {PApproved, PPublished, PRevoked, PSuperseded}
          \<or> (pk_status new = PStale \<and> pk_digest new \<noteq> None)),
        sql_or
         [sql_not (digest_matches new), Some (pk_issued_at new = None),
          Some (pk_approved_by_id new = None), Some (pk_approval_binding new = None),
          Some (pk_approved_at new = None), later (pk_approved_at new) (pk_issued_at new),
          Some (map_option bd_approved_by (pk_approval_binding new) \<noteq> pk_approved_by_id new),
          Some (map_option bd_approved_at (pk_approval_binding new) \<noteq> pk_approved_at new),
          Some (map_option bd_authorized_by_ref (pk_approval_binding new)
                  \<noteq> map_option (sr_ref \<circ> bd_authority_basis_ref) (pk_approval_binding new))]])"

definition package_update_ok :: "package \<Rightarrow> package \<Rightarrow> bool" where
  "package_update_ok old new \<longleftrightarrow>
     package_frozen new = package_frozen old
     \<and> (pk_status new \<noteq> pk_status old \<longrightarrow> package_transition (pk_status old) (pk_status new))
     \<and> \<not> approval_change_refused old new
     \<and> (pk_published_at new \<noteq> pk_published_at old \<longrightarrow>
          pk_status old = PApproved \<and> pk_status new = PPublished \<and> pk_published_at new \<noteq> None)
     \<and> (pk_rejected_at new \<noteq> pk_rejected_at old \<longrightarrow>
          pk_status old \<noteq> PRejected \<and> pk_status new = PRejected \<and> pk_rejected_at new \<noteq> None)
     \<and> (pk_revoked_at new \<noteq> pk_revoked_at old \<longrightarrow>
          pk_status old = PPublished \<and> pk_status new = PRevoked \<and> pk_revoked_at new \<noteq> None)
     \<and> (pk_staled_at new \<noteq> pk_staled_at old \<longrightarrow>
          pk_status old \<noteq> PStale \<and> pk_status new = PStale \<and> pk_staled_at new \<noteq> None)
     \<and> (pk_superseded_at new \<noteq> pk_superseded_at old \<longrightarrow>
          pk_status old = PPublished \<and> pk_status new = PSuperseded \<and> pk_superseded_at new \<noteq> None)
     \<and> (pk_state_reason new \<noteq> pk_state_reason old \<longrightarrow>
          pk_status old \<noteq> pk_status new \<and> pk_status new \<in> {PRejected, PRevoked, PStale, PSuperseded}
          \<and> pk_state_reason new \<noteq> None)
     \<and> \<not> approved_state_refused new
     \<and> (pk_status new = PPublished \<longrightarrow> pk_published_at new \<noteq> None)
     \<and> (pk_status new = PRejected \<longrightarrow> pk_rejected_at new \<noteq> None \<and> pk_state_reason new \<noteq> None)
     \<and> (pk_status new = PRevoked \<longrightarrow> pk_revoked_at new \<noteq> None \<and> pk_state_reason new \<noteq> None)
     \<and> (pk_status new = PStale \<longrightarrow> pk_staled_at new \<noteq> None \<and> pk_state_reason new \<noteq> None)
     \<and> (pk_status new = PSuperseded \<longrightarrow> pk_superseded_at new \<noteq> None \<and> pk_state_reason new \<noteq> None)"

section \<open>Flushing\<close>

definition stored_rows :: "'r table \<Rightarrow> 'r list" where
  "stored_rows t = concat (map (\<lambda>e. opt_list (fst e)) t)"

definition accepts :: "('r list \<Rightarrow> 'r \<Rightarrow> bool) \<Rightarrow> ('r \<Rightarrow> 'r \<Rightarrow> bool) \<Rightarrow> 'r table \<Rightarrow> bool" where
  "accepts ins upd t = list_all (\<lambda>e. case fst e of
       None \<Rightarrow> ins (stored_rows t) (snd e)
     | Some old \<Rightarrow> old = snd e \<or> upd old (snd e)) t"

definition unique :: "('r \<Rightarrow> 'k) \<Rightarrow> 'r table \<Rightarrow> bool" where
  "unique k t = distinct (map k (current t))"

definition index_safe :: "('r \<Rightarrow> 'k) \<Rightarrow> ('r \<Rightarrow> bool) \<Rightarrow> 'r table \<Rightarrow> bool" where
  "index_safe k P t = distinct (map (k \<circ> snd) (filter (\<lambda>e. stored e P \<or> P (snd e)) t))"

definition refers :: "('r \<Rightarrow> 'k) \<Rightarrow> 'r table \<Rightarrow> ('q \<Rightarrow> 'k) \<Rightarrow> 'q table \<Rightarrow> bool" where
  "refers k t k' t' = list_all (\<lambda>r. k r \<in> set (map k' (current t'))) (current t)"

definition model_key :: "customer_model \<Rightarrow> uuid \<times> uuid \<times> int" where
  "model_key r = (cm_engagement_id r, cm_id r, cm_version r)"

definition readiness_key :: "readiness \<Rightarrow> uuid \<times> uuid \<times> int" where
  "readiness_key r = (ra_engagement_id r, ra_id r, ra_version r)"

definition opportunity_key :: "opportunity \<Rightarrow> uuid \<times> uuid \<times> int" where
  "opportunity_key r = (fo_engagement_id r, fo_id r, fo_version r)"

definition models_accepted :: "store \<Rightarrow> bool" where
  "models_accepted s \<longleftrightarrow> (let t = customer_models s in
     accepts (\<lambda>_. model_insert_ok) model_update_ok t
     \<and> unique cm_id t \<and> unique (\<lambda>r. (cm_engagement_id r, cm_version r)) t
     \<and> list_all (\<lambda>r. 0 < cm_version r) (current t)
     \<and> index_safe cm_engagement_id (\<lambda>r. cm_status r = MApproved) t)"

definition readiness_accepted :: "store \<Rightarrow> bool" where
  "readiness_accepted s \<longleftrightarrow> (let t = readiness_rows s in
     accepts (\<lambda>_. readiness_insert_ok) readiness_update_ok t
     \<and> unique ra_id t \<and> unique (\<lambda>r. (ra_engagement_id r, ra_version r)) t
     \<and> list_all (\<lambda>r. 0 < ra_version r) (current t)
     \<and> index_safe ra_engagement_id (\<lambda>r. ra_status r = AApproved) t
     \<and> refers (\<lambda>r. (ra_engagement_id r, ra_model_id r, ra_model_version r)) t model_key (customer_models s)
     \<and> refers (\<lambda>r. (ra_engagement_id r, ra_opportunity_id r, ra_opportunity_version r)) t
         opportunity_key (opportunities s))"

definition opportunities_accepted :: "store \<Rightarrow> bool" where
  "opportunities_accepted s \<longleftrightarrow> (let t = opportunities s in
     accepts (\<lambda>_. opportunity_insert_ok) opportunity_update_ok t
     \<and> unique fo_id t \<and> unique (\<lambda>r. (fo_engagement_id r, fo_key r, fo_version r)) t
     \<and> list_all (\<lambda>r. 0 < fo_version r \<and> valid_score (fo_score r)) (current t)
     \<and> index_safe fo_engagement_id (\<lambda>r. fo_status r = OSelected) t
     \<and> refers (\<lambda>r. (fo_engagement_id r, fo_model_id r, fo_model_version r)) t model_key (customer_models s))"

definition packages_accepted :: "store \<Rightarrow> bool" where
  "packages_accepted s \<longleftrightarrow> (let t = packages s in
     accepts package_insert_ok package_update_ok t
     \<and> unique pk_id t \<and> unique (\<lambda>r. (pk_package_id r, pk_version r)) t
     \<and> list_all (\<lambda>r. 0 < pk_version r) (current t)
     \<and> index_safe pk_engagement_id (\<lambda>r. pk_status r = PPublished) t
     \<and> refers (\<lambda>r. (pk_engagement_id r, pk_model_id r, pk_model_version r)) t model_key (customer_models s)
     \<and> refers (\<lambda>r. (pk_engagement_id r, pk_readiness_id r, pk_readiness_version r)) t
         readiness_key (readiness_rows s)
     \<and> refers (\<lambda>r. (pk_engagement_id r, pk_opportunity_id r, pk_opportunity_version r)) t
         opportunity_key (opportunities s))"

text \<open>\<open>session.flush()\<close> (and the flush of \<open>session.commit()\<close>).\<close>

definition synced :: "store \<Rightarrow> store" where
  "synced s = s\<lparr>operators := flush (operators s), engagements := flush (engagements s),
     members := flush (members s), evidence_assets := flush (evidence_assets s),
     assertions := flush (assertions s), workflows := flush (workflows s), steps := flush (steps s),
     economic_cases := flush (economic_cases s), artifacts := flush (artifacts s),
     qualifications := flush (qualifications s), customer_models := flush (customer_models s),
     readiness_rows := flush (readiness_rows s), opportunities := flush (opportunities s),
     packages := flush (packages s)\<rparr>"

definition flush_session :: "store \<Rightarrow> store outcome" where
  "flush_session s =
     bindE (require (models_accepted s) (ConstraintViolation ''customer_factory_model_versions'')) (\<lambda>_.
     bindE (require (opportunities_accepted s) (ConstraintViolation ''factory_opportunities'')) (\<lambda>_.
     bindE (require (readiness_accepted s) (ConstraintViolation ''fdlc_readiness_assessments'')) (\<lambda>_.
     bindE (require (packages_accepted s) (ConstraintViolation ''factory_deployment_package_versions''))
       (\<lambda>_. Inr (synced s)))))"

definition factory_accepted :: "store \<Rightarrow> bool" where
  "factory_accepted s \<longleftrightarrow> models_accepted s \<and> opportunities_accepted s \<and> readiness_accepted s
     \<and> packages_accepted s"

lemma flush_session_Inr [result_simps]:
  "flush_session s = Inr s' \<longleftrightarrow> factory_accepted s \<and> s' = synced s"
  by (auto simp: flush_session_def factory_accepted_def bindE_eq_Inr require_eq_Inr)

lemma flush_session_accepted: "factory_accepted s \<Longrightarrow> flush_session s = Inr (synced s)"
  by (simp add: flush_session_Inr)

lemma synced_simps [simp]:
  "operators (synced s) = flush (operators s)" "engagements (synced s) = flush (engagements s)"
  "members (synced s) = flush (members s)" "evidence_assets (synced s) = flush (evidence_assets s)"
  "assertions (synced s) = flush (assertions s)" "workflows (synced s) = flush (workflows s)"
  "steps (synced s) = flush (steps s)" "economic_cases (synced s) = flush (economic_cases s)"
  "artifacts (synced s) = flush (artifacts s)" "qualifications (synced s) = flush (qualifications s)"
  "customer_models (synced s) = flush (customer_models s)"
  "readiness_rows (synced s) = flush (readiness_rows s)"
  "opportunities (synced s) = flush (opportunities s)" "packages (synced s) = flush (packages s)"
  "audits (synced s) = audits s" "outbox (synced s) = outbox s"
  "access_events (synced s) = access_events s"
  by (simp_all add: synced_def)

end
