(* ===== verification/FactoryRefs.thy ===== *)
theory FactoryRefs
  imports Cascade "HOL-Library.Product_Lexorder"
begin

text \<open>
  \<open>modules/factory_engineer/service.py\<close>: the lookups under the engagement lock, the digests that
  pin every source of a package, and the validation of the source references of a payload.
\<close>

section \<open>Lookups\<close>

definition lock_active_engagement :: "uuid \<Rightarrow> store \<Rightarrow> engagement outcome" where
  "lock_active_engagement eid s =
     bindE (the_or (first (select (\<lambda>e. eg_id e = eid) (engagements s))) (NotFound eid)) (\<lambda>e.
     bindE (require (eg_data_lifecycle_status e = Active)
       (StateError (lit ''Factory package issuance is unavailable while engagement deletion is pending or failed.'')))
       (\<lambda>_. Inr e))"

definition get_model :: "uuid \<Rightarrow> uuid \<Rightarrow> store \<Rightarrow> customer_model outcome" where
  "get_model eid k s =
     the_or (first (select (\<lambda>r. cm_id r = k \<and> cm_engagement_id r = eid) (customer_models s))) (NotFound k)"

definition get_readiness :: "uuid \<Rightarrow> uuid \<Rightarrow> store \<Rightarrow> readiness outcome" where
  "get_readiness eid k s =
     the_or (first (select (\<lambda>r. ra_id r = k \<and> ra_engagement_id r = eid) (readiness_rows s))) (NotFound k)"

definition get_opportunity :: "uuid \<Rightarrow> uuid \<Rightarrow> store \<Rightarrow> opportunity outcome" where
  "get_opportunity eid k s =
     the_or (first (select (\<lambda>r. fo_id r = k \<and> fo_engagement_id r = eid) (opportunities s))) (NotFound k)"

definition get_package :: "uuid \<Rightarrow> uuid \<Rightarrow> store \<Rightarrow> package outcome" where
  "get_package eid k s =
     the_or (first (select (\<lambda>r. pk_id r = k \<and> pk_engagement_id r = eid) (packages s))) (NotFound k)"

text \<open>\<open>session.get(T, key)\<close>\<close>

definition session_get :: "('r \<Rightarrow> uuid) \<Rightarrow> uuid \<Rightarrow> 'r table \<Rightarrow> 'r option" where
  "session_get key k t = first (select (\<lambda>r. key r = k) t)"

definition require_human :: "operator \<Rightarrow> pystr \<Rightarrow> unit outcome" where
  "require_human opr action =
     require (op_identity_kind opr = Human \<and> op_is_active opr)
       (StateError (action @ lit '' requires a human operator identity.''))"

definition require_engagement_owner :: "uuid \<Rightarrow> operator \<Rightarrow> pystr \<Rightarrow> store \<Rightarrow> unit outcome" where
  "require_engagement_owner eid opr action s =
     require (first (select (\<lambda>m. mb_engagement_id m = eid \<and> mb_operator_id m = op_id opr \<and> mb_role m = Owner)
         (members s)) \<noteq> None)
       (StateError (action @ lit '' requires the engagement owner.''))"

definition next_version :: "int list \<Rightarrow> int" where
  "next_version vs = (case maximum vs of None \<Rightarrow> 1 | Some v \<Rightarrow> v + 1)"

section \<open>References and digests\<close>

definition version_reference :: "uuid \<Rightarrow> int \<Rightarrow> pystr \<Rightarrow> version_ref outcome" where
  "version_reference k v d =
     (let r = \<lparr>vr_id = k, vr_version = v, vr_digest = d\<rparr> in
      bindE (require (valid_version_ref r) (ValidationError (lit ''ImmutableVersionReference''))) (\<lambda>_. Inr r))"

definition source_reference :: "provenance_kind \<Rightarrow> pystr \<Rightarrow> int option \<Rightarrow> pystr \<Rightarrow> source_ref outcome" where
  "source_reference kind rf v sha =
     (let r = \<lparr>sr_kind = kind, sr_ref = rf, sr_version = v, sr_sha256 = sha\<rparr> in
      bindE (require (valid_source_ref r) (ValidationError (lit ''SourceReference''))) (\<lambda>_. Inr r))"

definition verified_content_digest :: "pystr \<Rightarrow> pystr \<Rightarrow> pystr \<Rightarrow> pystr outcome" where
  "verified_content_digest st expected source =
     bindE (require (st = expected)
       (IntegrityError (lit ''Stored '' @ source @ lit '' digest does not match its immutable content.'')))
       (\<lambda>_. Inr expected)"

definition customer_model_digest :: "customer_model \<Rightarrow> pystr outcome" where
  "customer_model_digest m = lift_canon (canonical_sha256 (model_columns_json (cm_columns m)))"

definition verified_model_digest :: "customer_model \<Rightarrow> pystr outcome" where
  "verified_model_digest m =
     bindE (customer_model_digest m) (\<lambda>d. verified_content_digest (cm_content_digest m) d (lit ''customer model''))"

definition model_ref :: "customer_model \<Rightarrow> version_ref outcome" where
  "model_ref m = bindE (verified_model_digest m) (version_reference (cm_id m) (cm_version m))"

definition row_input :: "opportunity \<Rightarrow> opportunity_input" where
  "row_input r = \<lparr>oi_key = fo_key r, oi_name = fo_name r, oi_description = fo_description r,
     oi_source_workflow_ref = fo_source_workflow_ref r, oi_factors = fo_factors r,
     oi_economics_ref = fo_economics_ref r, oi_evidence_refs = fo_evidence_refs r,
     oi_blockers = fo_blockers r\<rparr>"

definition opportunity_payload :: "opportunity_input \<Rightarrow> opportunity_score \<Rightarrow> version_ref \<Rightarrow> json" where
  "opportunity_payload i sc mr = obj
     [(''input'', opportunity_input_json i), (''score'', score_json sc),
      (''customer_factory_model'', version_ref_json mr)]"

definition opportunity_digest :: "store \<Rightarrow> opportunity \<Rightarrow> pystr outcome" where
  "opportunity_digest s r =
     bindE (the_or (session_get cm_id (fo_model_id r) (customer_models s))
       (IntegrityError (lit ''Opportunity customer model no longer exists.''))) (\<lambda>m.
     bindE (model_ref m) (\<lambda>mr.
       lift_canon (canonical_sha256 (opportunity_payload (row_input r) (fo_score r) mr))))"

definition verified_opportunity_digest :: "store \<Rightarrow> opportunity \<Rightarrow> pystr outcome" where
  "verified_opportunity_digest s r =
     bindE (opportunity_digest s r) (\<lambda>d.
       verified_content_digest (fo_content_digest r) d (lit ''factory opportunity''))"

definition opportunity_ref :: "store \<Rightarrow> opportunity \<Rightarrow> version_ref outcome" where
  "opportunity_ref s r =
     bindE (verified_opportunity_digest s r) (version_reference (fo_id r) (fo_version r))"

definition readiness_payload ::
  "version_ref \<Rightarrow> version_ref \<Rightarrow> version_ref \<Rightarrow> version_ref \<Rightarrow> stage_snapshot list \<Rightarrow> json" where
  "readiness_payload mr fr cur tgt stages = obj
     [(''customer_factory_model'', version_ref_json mr),
      (''selected_opportunity'', version_ref_json fr),
      (''current_workflow'', version_ref_json cur), (''target_workflow'', version_ref_json tgt),
      (''stages'', JList (map stage_snapshot_json stages))]"

definition readiness_digest :: "store \<Rightarrow> readiness \<Rightarrow> pystr outcome" where
  "readiness_digest s r =
     bindE (the_or (session_get cm_id (ra_model_id r) (customer_models s))
       (IntegrityError (lit ''Readiness exact source version no longer exists.''))) (\<lambda>m.
     bindE (the_or (session_get fo_id (ra_opportunity_id r) (opportunities s))
       (IntegrityError (lit ''Readiness exact source version no longer exists.''))) (\<lambda>f.
     bindE (model_ref m) (\<lambda>mr.
     bindE (opportunity_ref s f) (\<lambda>fr.
       lift_canon (canonical_sha256
         (readiness_payload mr fr (ra_current_workflow_ref r) (ra_target_workflow_ref r) (ra_stages r)))))))"

definition verified_readiness_digest :: "store \<Rightarrow> readiness \<Rightarrow> pystr outcome" where
  "verified_readiness_digest s r =
     bindE (readiness_digest s r) (\<lambda>d.
       verified_content_digest (ra_content_digest r) d (lit ''readiness assessment''))"

definition readiness_ref :: "store \<Rightarrow> readiness \<Rightarrow> version_ref outcome" where
  "readiness_ref s r =
     bindE (verified_readiness_digest s r) (version_reference (ra_id r) (ra_version r))"

section \<open>Workflow references\<close>

text \<open>A query with ORDER BY sorts by the flushed rows.\<close>

definition select_sorted :: "('r \<Rightarrow> 'k :: linorder) \<Rightarrow> ('r \<Rightarrow> bool) \<Rightarrow> 'r table \<Rightarrow> 'r list" where
  "select_sorted k P t = map snd (sort_key (\<lambda>e. k (the (fst e))) (filter (\<lambda>e. stored e P) t))"

definition step_json :: "workflow_step \<Rightarrow> json" where
  "step_json st = obj
     [(''step_key'', JStr (ws_key st)), (''position'', JInt (ws_position st)),
      (''name'', JStr (ws_name st)), (''description'', JStr (ws_description st)),
      (''step_type'', JStr (step_type_text (ws_type st))),
      (''actor_label'', jopt JStr (ws_actor_label st)),
      (''system_label'', jopt JStr (ws_system_label st)),
      (''allocation'', JStr (allocation_text (ws_allocation st))),
      (''rationale'', JStr (ws_rationale st)), (''controls'', jtexts (ws_controls st)),
      (''source_assertion_id'', jopt (\<lambda>u. JStr (uuid_str u)) (ws_source_assertion_id st))]"

definition workflow_payload :: "store \<Rightarrow> workflow \<Rightarrow> json" where
  "workflow_payload s w = obj
     [(''id'', JStr (uuid_str (wf_id w))), (''kind'', JStr (workflow_kind_text (wf_kind w))),
      (''version'', JInt (wf_version w)), (''name'', JStr (wf_name w)),
      (''objective'', JStr (wf_objective w)),
      (''source_workflow_id'', jopt (\<lambda>u. JStr (uuid_str u)) (wf_source_workflow_id w)),
      (''source_assertion_ids'', jtexts (wf_source_assertion_ids w)),
      (''steps'', JList (map step_json
         (select_sorted (\<lambda>st. (ws_position st, ws_id st)) (\<lambda>st. ws_workflow_id st = wf_id w) (steps s))))]"

definition workflow_version_reference :: "store \<Rightarrow> workflow \<Rightarrow> version_ref outcome" where
  "workflow_version_reference s w =
     bindE (lift_canon (canonical_sha256 (workflow_payload s w))) (version_reference (wf_id w) (wf_version w))"

definition approved_workflow :: "uuid \<Rightarrow> uuid \<Rightarrow> workflow_kind \<Rightarrow> store \<Rightarrow> workflow outcome" where
  "approved_workflow eid wid kind s =
     bindE (the_or (first (select (\<lambda>w. wf_id w = wid \<and> wf_engagement_id w = eid \<and> wf_kind w = kind) (workflows s)))
       (NotFound wid)) (\<lambda>w.
     bindE (require (wf_status w = Approved)
       (StateError (lit ''The '' @ workflow_kind_text kind @ lit '' workflow must be approved and current.'')))
       (\<lambda>_. Inr w))"

definition latest_approved_workflow :: "uuid \<Rightarrow> workflow_kind \<Rightarrow> store \<Rightarrow> workflow option" where
  "latest_approved_workflow eid kind s =
     latest_by wf_version (select (\<lambda>w. wf_engagement_id w = eid \<and> wf_kind w = kind \<and> wf_status w = Approved)
       (workflows s))"

definition assert_workflow_ref_current ::
  "uuid \<Rightarrow> version_ref \<Rightarrow> workflow_kind \<Rightarrow> store \<Rightarrow> workflow outcome" where
  "assert_workflow_ref_current eid expected kind s =
     bindE (approved_workflow eid (vr_id expected) kind s) (\<lambda>w.
     bindE (workflow_version_reference s w) (\<lambda>actual.
     bindE (require (actual = expected)
       (StateError (lit ''The '' @ workflow_kind_text kind
          @ lit '' workflow content no longer matches its pinned package source.''))) (\<lambda>_. Inr w)))"

section \<open>Source references\<close>

definition evidence_asset_reference :: "evidence_asset \<Rightarrow> source_ref outcome" where
  "evidence_asset_reference e =
     source_reference Evidence (lit ''evidence_asset:'' @ uuid_str (ev_id e)) None
       (lit ''sha256:'' @ ev_content_hash e)"

definition assertion_digest :: "assertion \<Rightarrow> pystr outcome" where
  "assertion_digest a = lift_canon (canonical_sha256 (obj
     [(''id'', JStr (uuid_str (as_id a))),
      (''subject_entity_id'', JStr (uuid_str (as_subject_entity_id a))),
      (''predicate'', JStr (as_predicate a)),
      (''object_entity_id'', jopt (\<lambda>u. JStr (uuid_str u)) (as_object_entity_id a)),
      (''value'', as_value a), (''confidence'', JStr (as_confidence a)),
      (''valid_from'', jopt JStr (as_valid_from a)), (''valid_until'', jopt JStr (as_valid_until a)),
      (''candidate_claim_id'', JStr (uuid_str (as_candidate_claim_id a))),
      (''verified_by_id'', JStr (uuid_str (as_verified_by_id a))),
      (''recorded_at'', JStr (rfc3339_z (as_recorded_at a)))]))"

definition assertion_reference :: "assertion \<Rightarrow> source_ref outcome" where
  "assertion_reference a =
     bindE (assertion_digest a)
       (source_reference VerifiedClaim (lit ''assertion:'' @ uuid_str (as_id a)) (Some 1))"

definition economic_case_digest :: "economic_case \<Rightarrow> pystr outcome" where
  "economic_case_digest c = lift_canon (canonical_sha256 (obj
     [(''id'', JStr (uuid_str (ec_id c))), (''version'', JInt (ec_version c)),
      (''source_target_workflow_id'', JStr (uuid_str (ec_target_workflow_id c))),
      (''formula_version'', JStr (ec_formula_version c)), (''inputs'', ec_inputs c),
      (''outputs'', ec_outputs c), (''scenarios'', ec_scenarios c),
      (''assumptions'', jtexts (ec_assumptions c))]))"

definition economic_case_reference :: "economic_case \<Rightarrow> source_ref outcome" where
  "economic_case_reference c =
     bindE (require (ec_status c = Approved)
       (StateError (lit ''Economic-case provenance requires an approved version.''))) (\<lambda>_.
     bindE (economic_case_digest c)
       (source_reference ApprovedInput (lit ''economic_case:'' @ uuid_str (ec_id c)) (Some (ec_version c))))"

definition implementation_artifact_reference :: "artifact \<Rightarrow> source_ref outcome" where
  "implementation_artifact_reference a =
     bindE (require (ar_status a = ArCurrent)
       (StateError (lit ''Implementation provenance requires a current artifact.''))) (\<lambda>_.
     source_reference ApprovedInput (lit ''implementation_artifact:'' @ uuid_str (ar_id a))
       (Some (ar_version a)) (lit ''sha256:'' @ ar_content_hash a))"

definition customer_factory_model_authority_reference :: "customer_model \<Rightarrow> source_ref outcome" where
  "customer_factory_model_authority_reference m =
     bindE (require (cm_status m = MApproved)
       (StateError (lit ''Package authority requires an approved customer factory model.''))) (\<lambda>_.
     bindE (model_ref m) (\<lambda>r.
       source_reference ApprovedInput (lit ''customer_factory_model:'' @ uuid_str (cm_id m))
         (Some (cm_version m)) (vr_digest r)))"

definition source_reference_id :: "pystr \<Rightarrow> uuid outcome" where
  "source_reference_id rf =
     the_or (parse_uuid (after_last 47 (after_last 58 rf)))
       (StateError (lit ''Provenance references must end with a source UUID.''))"

definition is_reference :: "(json \<times> json) list \<Rightarrow> bool" where
  "is_reference kvs \<longleftrightarrow>
     {JStr (lit ''kind''), JStr (lit ''ref''), JStr (lit ''sha256'')} \<subseteq> set (map fst kvs)"

function (sequential) collect_source_references :: "json \<Rightarrow> source_ref list outcome"
  and collect_references_list :: "json list \<Rightarrow> source_ref list outcome"
  and collect_references_items :: "(json \<times> json) list \<Rightarrow> source_ref list outcome" where
  "collect_source_references (JObj kvs) =
     (if is_reference kvs
      then bindE (the_or (parse_source_ref (JObj kvs)) (ValidationError (lit ''SourceReference'')))
             (\<lambda>r. Inr [r])
      else collect_references_items kvs)"
| "collect_source_references (JList xs) = collect_references_list xs"
| "collect_source_references _ = Inr []"
| "collect_references_list [] = Inr []"
| "collect_references_list (x # xs) =
     bindE (collect_source_references x) (\<lambda>a. bindE (collect_references_list xs) (\<lambda>b. Inr (a @ b)))"
| "collect_references_items [] = Inr []"
| "collect_references_items ((k, v) # kvs) =
     bindE (collect_source_references v) (\<lambda>a. bindE (collect_references_items kvs) (\<lambda>b. Inr (a @ b)))"
  by pat_completeness auto
termination
  by (relation "measure (\<lambda>x. case x of Inl v \<Rightarrow> size v
      | Inr (Inl vs) \<Rightarrow> size_list size vs
      | Inr (Inr kvs) \<Rightarrow> size_list (size_prod size size) kvs)") auto

section \<open>Validation of a reference\<close>

definition require_reference_digest :: "source_ref \<Rightarrow> pystr \<Rightarrow> unit outcome" where
  "require_reference_digest r expected =
     require (sr_sha256 r = expected)
       (IntegrityError (lit ''Provenance digest does not match its exact same-tenant source.''))"

text \<open>
  The digest of the approved input a reference names, \<open>None\<close> when no current one matches
  (\<open>expected_digest\<close>).
\<close>

definition approved_input_digest :: "store \<Rightarrow> uuid \<Rightarrow> uuid \<Rightarrow> pystr \<Rightarrow> int \<Rightarrow> pystr option outcome" where
  "approved_input_digest s eid sid source_type version =
     (let digest_of = \<lambda>r. bindE r (\<lambda>v. Inr (Some (vr_digest v))) in
      if source_type = lit ''workflow'' then
        (case first (select (\<lambda>w. wf_id w = sid \<and> wf_engagement_id w = eid \<and> wf_version w = version
            \<and> wf_status w = Approved) (workflows s)) of
           None \<Rightarrow> Inr None | Some w \<Rightarrow> digest_of (workflow_version_reference s w))
      else if source_type = lit ''economic_case'' then
        (case latest_by ec_version (select (\<lambda>c. ec_engagement_id c = eid) (economic_cases s)) of
           None \<Rightarrow> Inr None
         | Some c \<Rightarrow> if ec_id c = sid \<and> ec_version c = version \<and> ec_status c = Approved
             then bindE (economic_case_digest c) (\<lambda>d. Inr (Some d)) else Inr None)
      else if source_type = lit ''implementation_artifact'' then
        (case first (select (\<lambda>a. ar_id a = sid \<and> ar_engagement_id a = eid \<and> ar_version a = version
            \<and> ar_status a = ArCurrent) (artifacts s)) of
           None \<Rightarrow> Inr None | Some a \<Rightarrow> Inr (Some (lit ''sha256:'' @ ar_content_hash a)))
      else if source_type = lit ''customer_factory_model'' then
        (case first (select (\<lambda>m. cm_id m = sid \<and> cm_engagement_id m = eid \<and> cm_version m = version
            \<and> cm_status m = MApproved) (customer_models s)) of
           None \<Rightarrow> Inr None | Some m \<Rightarrow> digest_of (model_ref m))
      else if source_type = lit ''fdlc_readiness'' then
        (case first (select (\<lambda>r. ra_id r = sid \<and> ra_engagement_id r = eid \<and> ra_version r = version
            \<and> ra_status r = AApproved) (readiness_rows s)) of
           None \<Rightarrow> Inr None | Some r \<Rightarrow> digest_of (readiness_ref s r))
      else if source_type = lit ''factory_opportunity'' then
        (case first (select (\<lambda>f. fo_id f = sid \<and> fo_engagement_id f = eid \<and> fo_version f = version
            \<and> fo_status f = OSelected) (opportunities s)) of
           None \<Rightarrow> Inr None | Some f \<Rightarrow> digest_of (opportunity_ref s f))
      else Inr None)"

definition validate_source_reference :: "store \<Rightarrow> uuid \<Rightarrow> source_ref \<Rightarrow> unit outcome" where
  "validate_source_reference s eid r =
     bindE (source_reference_id (sr_ref r)) (\<lambda>sid.
     case sr_kind r of
       VerifiedClaim \<Rightarrow>
         bindE (the_or (case first (select (\<lambda>a. as_id a = sid \<and> as_engagement_id a = eid) (assertions s)) of
              None \<Rightarrow> None
            | Some a \<Rightarrow> if as_status a = Verified \<and> sr_version r = Some 1 then Some a else None)
           (IntegrityError (lit ''Claim provenance must resolve to a current exact same-tenant assertion.'')))
           (\<lambda>a. bindE (assertion_digest a) (require_reference_digest r))
     | ApprovedInput \<Rightarrow>
         bindE (the_or (sr_version r)
           (IntegrityError (lit ''Approved inputs must pin an immutable version.''))) (\<lambda>v.
         bindE (approved_input_digest s eid sid (before_first 58 (sr_ref r)) v) (\<lambda>d.
         bindE (the_or d (StateError
             (lit ''Approved-input provenance must resolve to a current same-tenant source.'')))
           (require_reference_digest r)))
     | _ \<Rightarrow>
         bindE (the_or (case first (select (\<lambda>e. ev_id e = sid \<and> ev_engagement_id e = eid) (evidence_assets s)) of
              None \<Rightarrow> None
            | Some e \<Rightarrow> if ev_status e = EComplete then Some e else None)
           (StateError (lit ''Evidence and assumption provenance must resolve to a complete same-tenant asset.'')))
           (\<lambda>e. require_reference_digest r (lit ''sha256:'' @ ev_content_hash e)))"

definition validate_source_references :: "store \<Rightarrow> uuid \<Rightarrow> source_ref list \<Rightarrow> unit outcome" where
  "validate_source_references s eid rs = all_ok (validate_source_reference s eid) rs"

definition validate_opportunity_row_sources :: "store \<Rightarrow> opportunity \<Rightarrow> unit outcome" where
  "validate_opportunity_row_sources s f =
     bindE (assert_workflow_ref_current (fo_engagement_id f) (fo_source_workflow_ref f) Current s) (\<lambda>_.
     bindE (validate_source_reference s (fo_engagement_id f) (fo_economics_ref f)) (\<lambda>_.
       validate_source_references s (fo_engagement_id f) (fo_evidence_refs f)))"

section \<open>References the service makes are references it accepts\<close>

lemma uuid_str_no_colon: "58 \<notin> set (uuid_str u) \<and> 47 \<notin> set (uuid_str u)"
  using uuid_str_chars [of 58 u] uuid_str_chars [of 47 u] by (auto simp: hex_char_def)

lemma source_reference_id_tagged:
  "58 \<notin> set tag \<Longrightarrow> 47 \<notin> set tag \<Longrightarrow> source_reference_id (tag @ 58 # uuid_str u) = Inr u"
  using uuid_str_no_colon [of u] by (simp add: source_reference_id_def after_last_append after_last_absent)

lemma tag_append: "lit (t @ '':'') @ x = lit t @ 58 # x"
  by (simp add: lit_def)

lemma lookup_clean:
  assumes "clean t" and "distinct (map key (current t))" and "r \<in> set (current t)" and "P r"
    and "\<And>x. P x \<Longrightarrow> key x = key r"
  shows "first (select P t) = Some r"
proof (cases "first (select P t)")
  case None
  then show ?thesis using assms by (auto simp: select_clean filter_empty_conv)
next
  case (Some x)
  then have "x \<in> set (current t)" "P x" using assms(1) by (auto dest!: first_in simp: select_clean)
  then show ?thesis using Some unique_key [OF assms(2)] assms(3,5) by metis
qed

section \<open>Handoff prerequisites\<close>

definition max_factory_source_references :: nat where
  "max_factory_source_references = 200"

record handoff =
  hp_evidence_refs :: "source_ref list"
  hp_verified_claim_refs :: "source_ref list"
  hp_current_workflow_ref :: "version_ref option"
  hp_target_workflow_ref :: "version_ref option"
  hp_economic_case_ref :: "source_ref option"
  hp_implementation_artifact_refs :: "source_ref list"

definition opt_map :: "('a \<Rightarrow> 'b outcome) \<Rightarrow> 'a option \<Rightarrow> 'b option outcome" where
  "opt_map f x = (case x of None \<Rightarrow> Inr None | Some v \<Rightarrow> bindE (f v) (\<lambda>y. Inr (Some y)))"

definition get_factory_handoff_prerequisites :: "uuid \<Rightarrow> store \<Rightarrow> handoff outcome" where
  "get_factory_handoff_prerequisites eid s =
     bindE (the_or (session_get eg_id eid (engagements s)) (NotFound eid)) (\<lambda>_.
     let evidence = take max_factory_source_references
           (select_sorted (\<lambda>e. (ev_created_at e, ev_id e))
              (\<lambda>e. ev_engagement_id e = eid \<and> ev_status e = EComplete) (evidence_assets s));
         claims = take max_factory_source_references
           (select_sorted (\<lambda>a. (as_recorded_at a, as_id a))
              (\<lambda>a. as_engagement_id a = eid \<and> as_status a = Verified) (assertions s));
         economics = latest_by ec_version
           (select (\<lambda>c. ec_engagement_id c = eid \<and> ec_status c = Approved) (economic_cases s));
         arts = take max_factory_source_references
           (select_sorted (\<lambda>a. (ar_type a, ar_id a))
              (\<lambda>a. ar_engagement_id a = eid \<and> ar_status a = ArCurrent) (artifacts s))
     in bindE (mapE evidence_asset_reference evidence) (\<lambda>es.
        bindE (mapE assertion_reference claims) (\<lambda>cs.
        bindE (opt_map (workflow_version_reference s) (latest_approved_workflow eid Current s)) (\<lambda>cw.
        bindE (opt_map (workflow_version_reference s) (latest_approved_workflow eid Target s)) (\<lambda>tw.
        bindE (opt_map economic_case_reference economics) (\<lambda>ec.
        bindE (mapE implementation_artifact_reference arts) (\<lambda>ars.
          Inr \<lparr>hp_evidence_refs = es, hp_verified_claim_refs = cs, hp_current_workflow_ref = cw,
               hp_target_workflow_ref = tw, hp_economic_case_ref = ec,
               hp_implementation_artifact_refs = ars\<rparr>)))))))"

lemma set_select_sorted: "clean t \<Longrightarrow> set (select_sorted k P t) = {r \<in> set (current t). P r}"
  by (force simp: select_sorted_def clean_def current_def stored_def)

lemma source_reference_Inr [result_simps]:
  "source_reference kind rf v sha = Inr r \<longleftrightarrow>
     r = \<lparr>sr_kind = kind, sr_ref = rf, sr_version = v, sr_sha256 = sha\<rparr> \<and> valid_source_ref r"
  by (auto simp: source_reference_def Let_def bindE_eq_Inr require_eq_Inr)

lemma tagged_ids [simp]:
  "source_reference_id (lit ''evidence_asset:'' @ uuid_str u) = Inr u"
  "source_reference_id (lit ''assertion:'' @ uuid_str u) = Inr u"
  "source_reference_id (lit ''implementation_artifact:'' @ uuid_str u) = Inr u"
  "source_reference_id (lit ''economic_case:'' @ uuid_str u) = Inr u"
  "source_reference_id (lit ''customer_factory_model:'' @ uuid_str u) = Inr u"
  using source_reference_id_tagged [of "lit ''evidence_asset''" u]
    source_reference_id_tagged [of "lit ''assertion''" u]
    source_reference_id_tagged [of "lit ''implementation_artifact''" u]
    source_reference_id_tagged [of "lit ''economic_case''" u]
    source_reference_id_tagged [of "lit ''customer_factory_model''" u]
  by (simp_all add: lit_def)

lemma tagged_types [simp]:
  "before_first 58 (lit ''implementation_artifact:'' @ x) = lit ''implementation_artifact''"
  "before_first 58 (lit ''economic_case:'' @ x) = lit ''economic_case''"
  "before_first 58 (lit ''customer_factory_model:'' @ x) = lit ''customer_factory_model''"
  using before_first_append [of 58 "lit ''implementation_artifact''" x]
    before_first_append [of 58 "lit ''economic_case''" x]
    before_first_append [of 58 "lit ''customer_factory_model''" x]
  by (simp_all add: lit_def)

lemma evidence_reference_validates:
  assumes "clean (evidence_assets s)" and "distinct (map ev_id (current (evidence_assets s)))"
    and "e \<in> set (current (evidence_assets s))" and "ev_engagement_id e = eid" and "ev_status e = EComplete"
    and "evidence_asset_reference e = Inr r"
  shows "validate_source_reference s eid r = Inr ()"
proof -
  have "first (select (\<lambda>x. ev_id x = ev_id e \<and> ev_engagement_id x = eid) (evidence_assets s)) = Some e"
    using assms by (intro lookup_clean [where key = ev_id]) auto
  then show ?thesis
    using assms(5,6) by (auto simp: validate_source_reference_def evidence_asset_reference_def
        source_reference_Inr require_reference_digest_def)
qed

lemma assertion_reference_validates:
  assumes "clean (assertions s)" and "distinct (map as_id (current (assertions s)))"
    and "a \<in> set (current (assertions s))" and "as_engagement_id a = eid" and "as_status a = Verified"
    and "assertion_reference a = Inr r"
  shows "validate_source_reference s eid r = Inr ()"
proof -
  have "first (select (\<lambda>x. as_id x = as_id a \<and> as_engagement_id x = eid) (assertions s)) = Some a"
    using assms by (intro lookup_clean [where key = as_id]) auto
  then show ?thesis
    using assms(5,6) by (auto simp: validate_source_reference_def assertion_reference_def bindE_eq_Inr
        source_reference_Inr require_reference_digest_def)
qed

lemma artifact_reference_validates:
  assumes "clean (artifacts s)" and "distinct (map ar_id (current (artifacts s)))"
    and "a \<in> set (current (artifacts s))" and "ar_engagement_id a = eid"
    and "implementation_artifact_reference a = Inr r"
  shows "validate_source_reference s eid r = Inr ()"
proof -
  have c: "ar_status a = ArCurrent"
    using assms(5) by (auto simp: implementation_artifact_reference_def bindE_eq_Inr require_eq_Inr)
  have "first (select (\<lambda>x. ar_id x = ar_id a \<and> ar_engagement_id x = eid \<and> ar_version x = ar_version a
      \<and> ar_status x = ArCurrent) (artifacts s)) = Some a"
    using assms c by (intro lookup_clean [where key = ar_id]) auto
  then show ?thesis
    using assms(5) by (auto simp: validate_source_reference_def implementation_artifact_reference_def
        bindE_eq_Inr require_eq_Inr source_reference_Inr require_reference_digest_def
        approved_input_digest_def Let_def)
qed

lemma mapE_all: "mapE f xs = Inr ys \<Longrightarrow> y \<in> set ys \<Longrightarrow> \<exists>x \<in> set xs. f x = Inr y"
proof (induction xs arbitrary: ys)
  case (Cons x xs)
  then show ?case by (auto simp: bindE_eq_Inr)
qed simp

text \<open>
  C27: every evidence, claim and artifact reference the service hands out as a handoff prerequisite
  is accepted, as it is, by the validation of source references: it resolves to the same row and
  repeats its digest.
\<close>

theorem handoff_references_validate:
  assumes "clean (evidence_assets s)" and "distinct (map ev_id (current (evidence_assets s)))"
    and "clean (assertions s)" and "distinct (map as_id (current (assertions s)))"
    and "clean (artifacts s)" and "distinct (map ar_id (current (artifacts s)))"
    and "get_factory_handoff_prerequisites eid s = Inr h"
  shows "validate_source_references s eid
    (hp_evidence_refs h @ hp_verified_claim_refs h @ hp_implementation_artifact_refs h) = Inr ()"
proof -
  note run = assms(7) [unfolded get_factory_handoff_prerequisites_def Let_def bindE_eq_Inr]
  have "validate_source_reference s eid r = Inr ()"
    if "r \<in> set (hp_evidence_refs h @ hp_verified_claim_refs h @ hp_implementation_artifact_refs h)" for r
    using that run assms(1-6)
    by (auto dest!: mapE_all in_set_takeD simp: set_select_sorted
        intro: evidence_reference_validates assertion_reference_validates artifact_reference_validates)
  then show ?thesis by (simp add: validate_source_references_def all_ok_Inr)
qed

section \<open>A small engagement\<close>

definition sample_engagement :: engagement where
  "sample_engagement = \<lparr>eg_id = 1, eg_name = lit ''n'', eg_lifecycle_stage = StDesign, eg_workflow_name = lit ''w'', eg_primary_outcome = lit ''o'',
     eg_data_classification = Synthetic, eg_data_lifecycle_status = Active,
     eg_retention_expires_at = None\<rparr>"

definition sample_evidence :: evidence_asset where
  "sample_evidence = \<lparr>ev_id = 2, ev_engagement_id = 1, ev_content_hash = replicate 64 97,
     ev_status = EComplete, ev_created_at = 0, ev_qualification_id = None,
     ev_authorized_source_key = None, ev_authorized_workflow_class = None,
     ev_data_classification = None, ev_file_name = lit ''a.txt'', ev_content_type = lit ''text/plain'',
     ev_byte_count = 1, ev_storage_key = lit ''k'', ev_storage_version_id = None, ev_source_type = lit ''upload'',
     ev_source_timestamp = None, ev_error_message = None, ev_created_by_id = 1\<rparr>"

definition sample_artifact :: artifact where
  "sample_artifact = \<lparr>ar_id = 3, ar_engagement_id = 1, ar_type = lit ''prd'', ar_version = 1,
     ar_status = ArCurrent, ar_content_hash = replicate 64 98, ar_current_workflow_id = 4,
     ar_target_workflow_id = 5, ar_economic_case_id = 6\<rparr>"

definition sample_case :: "int \<Rightarrow> draft_status \<Rightarrow> economic_case" where
  "sample_case n st = \<lparr>ec_id = word_of_int (5 + n), ec_engagement_id = 1, ec_version = n, ec_status = st,
     ec_target_workflow_id = 5, ec_formula_version = lit ''f'', ec_inputs = JObj [], ec_outputs = JObj [],
     ec_scenarios = JObj [], ec_assumptions = [], ec_created_by_id = 7, ec_approved_by_id = Some 7,
     ec_approved_at = Some 0\<rparr>"

definition empty_store :: store where
  "empty_store = \<lparr>operators = [], engagements = [], members = [], evidence_assets = [], assertions = [],
     workflows = [], steps = [], economic_cases = [], artifacts = [], qualifications = [],
     access_events = [], customer_models = [], readiness_rows = [], opportunities = [], packages = [],
     audits = [], outbox = []\<rparr>"

definition sample_store :: store where
  "sample_store = empty_store\<lparr>engagements := from_rows [sample_engagement],
     evidence_assets := from_rows [sample_evidence], artifacts := from_rows [sample_artifact],
     economic_cases := from_rows [sample_case 1 Approved, sample_case 2 Draft]\<rparr>"

lemmas sample_store_simps =
  sample_store_def empty_store_def sample_engagement_def sample_evidence_def sample_artifact_def
  sample_case_def

lemma lookup_simps:
  "select P (from_rows rs) = filter P rs"
  by (simp add: select_clean clean_from_rows current_from_rows)

lemma select_sorted_single: "P r \<Longrightarrow> select_sorted k P (from_rows [r]) = [r]"
  by (simp add: select_sorted_def from_rows_def stored_def)

lemma select_sorted_Nil: "select_sorted k P [] = []"
  by (simp add: select_sorted_def)

lemma select_Nil: "select P [] = []"
  by (simp add: select_def)

lemma list_all_replicate: "P x \<Longrightarrow> list_all P (replicate n x)"
  by (induction n) simp_all

lemma sha_pattern_replicate: "hex_char c \<Longrightarrow> sha_pattern (lit ''sha256:'' @ replicate 64 c)"
  by (simp add: sha_pattern_def lit_def list_all_replicate)

lemma length_uuid_str [simp]: "length (uuid_str u) = 36"
  by (simp add: uuid_str_def Let_def)

lemma sample_evidence_ref:
  "\<exists>r. evidence_asset_reference sample_evidence = Inr r"
  using sha_pattern_replicate [of 97]
  by (simp add: evidence_asset_reference_def source_reference_Inr sample_evidence_def
      valid_source_ref_def bounded_text_def hex_char_def)

lemma sample_artifact_ref:
  "\<exists>r. implementation_artifact_reference sample_artifact = Inr r"
  using sha_pattern_replicate [of 98]
  by (simp add: implementation_artifact_reference_def source_reference_Inr sample_artifact_def
      bindE_eq_Inr require_eq_Inr valid_source_ref_def bounded_text_def hex_char_def)


lemma latest_by_Nil: "latest_by k [] = None"
  by simp

lemma sample_handoff:
  "\<exists>h. get_factory_handoff_prerequisites 1 (sample_store\<lparr>economic_cases := []\<rparr>) = Inr h
     \<and> length (hp_evidence_refs h) = 1 \<and> length (hp_implementation_artifact_refs h) = 1"
proof -
  obtain e a where e: "evidence_asset_reference sample_evidence = Inr e"
    and a: "implementation_artifact_reference sample_artifact = Inr a"
    using sample_evidence_ref sample_artifact_ref by blast
  have es: "select_sorted (\<lambda>e. (ev_created_at e, ev_id e)) (\<lambda>e. ev_engagement_id e = 1 \<and> ev_status e = EComplete)
      (from_rows [sample_evidence]) = [sample_evidence]"
    by (rule select_sorted_single) (simp add: sample_evidence_def)
  have ars: "select_sorted (\<lambda>a. (ar_type a, ar_id a)) (\<lambda>a. ar_engagement_id a = 1 \<and> ar_status a = ArCurrent)
      (from_rows [sample_artifact]) = [sample_artifact]"
    by (rule select_sorted_single) (simp add: sample_artifact_def)
  have "session_get eg_id 1 (from_rows [sample_engagement]) = Some sample_engagement"
    by (simp add: session_get_def lookup_simps sample_engagement_def)
  then show ?thesis
    using e a by (simp add: get_factory_handoff_prerequisites_def sample_store_def empty_store_def es ars
        select_sorted_Nil select_Nil latest_approved_workflow_def opt_map_def max_factory_source_references_def)
qed

theorem handoff_references_validate_witness:
  "\<exists>h. get_factory_handoff_prerequisites 1 (sample_store\<lparr>economic_cases := []\<rparr>) = Inr h
     \<and> length (hp_evidence_refs h) = 1
     \<and> validate_source_references (sample_store\<lparr>economic_cases := []\<rparr>) 1
         (hp_evidence_refs h @ hp_verified_claim_refs h @ hp_implementation_artifact_refs h) = Inr ()"
proof -
  let ?s = "sample_store\<lparr>economic_cases := []\<rparr>"
  obtain h where h: "get_factory_handoff_prerequisites 1 ?s = Inr h" "length (hp_evidence_refs h) = 1"
    using sample_handoff by blast
  have "validate_source_references ?s 1
      (hp_evidence_refs h @ hp_verified_claim_refs h @ hp_implementation_artifact_refs h) = Inr ()"
    by (rule handoff_references_validate [OF _ _ _ _ _ _ h(1)])
       (simp_all add: sample_store_def empty_store_def table_simps, simp add: current_def)
  then show ?thesis using h by blast
qed

lemma canonical_ok: "validate (lit ''$'') v = Inr () \<Longrightarrow> \<exists>bs. canonical_sha256 v = Inr (sha_ref bs)"
  by (auto simp: canonical_sha256_def canonical_json_bytes_eq)

lemma uuid_str_no_surrogate [simp]: "\<not> list_ex surrogate (uuid_str u)"
  using uuid_str_chars [of _ u] by (fastforce simp: list_ex_iff hex_char_def surrogate_def)

lemma sample_case_reference:
  "\<exists>r. economic_case_reference (sample_case 1 Approved) = Inr r
     \<and> sr_kind r = ApprovedInput \<and> sr_ref r = lit ''economic_case:'' @ uuid_str 6 \<and> sr_version r = Some 1"
proof -
  let ?c = "sample_case 1 Approved"
  have "validate (lit ''$'') (obj
     [(''id'', JStr (uuid_str (ec_id ?c))), (''version'', JInt (ec_version ?c)),
      (''source_target_workflow_id'', JStr (uuid_str (ec_target_workflow_id ?c))),
      (''formula_version'', JStr (ec_formula_version ?c)), (''inputs'', ec_inputs ?c),
      (''outputs'', ec_outputs ?c), (''scenarios'', ec_scenarios ?c),
      (''assumptions'', jtexts (ec_assumptions ?c))]) = Inr ()"
    by (simp add: obj_def sample_case_def is_str_def max_safe_json_integer_def lit_def surrogate_def)
  then obtain bs where "economic_case_digest ?c = Inr (sha_ref bs)"
    using canonical_ok by (fastforce simp: economic_case_digest_def lift_canon_def)
  then show ?thesis
    by (simp add: economic_case_reference_def bindE_eq_Inr require_eq_Inr source_reference_Inr
        sample_case_def valid_source_ref_def bounded_text_def)
qed


end
