(* ===== verification/DesignPartner.thy ===== *)
theory DesignPartner
  imports FactoryRefs Unicode
begin

text \<open>
  \<open>modules/design_partner/service.py\<close>: the normalisation of qualification inputs, the provisioning
  and the two state machines of a qualification, the decision chain for a customer-data upload, and
  the gates for package publication and evidence processing.
\<close>

section \<open>Case conversion\<close>

text \<open>
  \<open>str.upper\<close> on one character.  The characters outside ASCII whose conversion is ASCII text are
  listed; every other character outside ASCII converts to text that still has a character outside
  ASCII, and stays as it is here: the service only compares the results with ASCII text and matches
  them against ASCII patterns.
\<close>

definition upper_special :: "(nat \<times> string) list" where
  "upper_special = [(0xDF, ''SS''), (0x131, ''I''), (0x17F, ''S''),
     (0xFB00, ''FF''), (0xFB01, ''FI''), (0xFB02, ''FL''), (0xFB03, ''FFI''), (0xFB04, ''FFL''),
     (0xFB05, ''ST''), (0xFB06, ''ST'')]"

definition upper :: "pystr \<Rightarrow> pystr" where
  "upper s = concat (map (\<lambda>c.
     if 97 \<le> c \<and> c \<le> 122 then [c - 32]
     else case map_of upper_special c of None \<Rightarrow> [c] | Some t \<Rightarrow> lit t) s)"

section \<open>Normalisation\<close>

definition source_key_char :: "nat \<Rightarrow> bool" where
  "source_key_char c \<longleftrightarrow> (97 \<le> c \<and> c \<le> 122) \<or> (48 \<le> c \<and> c \<le> 57) \<or> c = 46 \<or> c = 95 \<or> c = 45"

text \<open>\<open>^[a-z0-9][a-z0-9._-]{0,119}$\<close>\<close>

definition source_key_pattern :: "pystr \<Rightarrow> bool" where
  "source_key_pattern s \<longleftrightarrow> (case s of [] \<Rightarrow> False
     | c # cs \<Rightarrow> ((97 \<le> c \<and> c \<le> 122) \<or> (48 \<le> c \<and> c \<le> 57)) \<and> length cs \<le> 119 \<and> list_all source_key_char cs)"

fun contains_text :: "pystr \<Rightarrow> pystr \<Rightarrow> bool" where
  "contains_text p [] \<longleftrightarrow> p = []"
| "contains_text p (c # cs) \<longleftrightarrow> take (length p) (c # cs) = p \<or> contains_text p cs"

definition qualification_error :: "string \<Rightarrow> service_error" where
  "qualification_error m = QualificationError (lit m)"

definition required_text :: "pystr \<Rightarrow> string \<Rightarrow> nat \<Rightarrow> pystr outcome" where
  "required_text v label m =
     (let n = py_strip v in
      bindE (require (n \<noteq> [] \<and> length n \<le> m)
        (QualificationError (lit ''The '' @ lit label @ lit '' must contain between 1 and ''
           @ dec_int (int m) @ lit '' characters.''))) (\<lambda>_. Inr n))"

definition url_like :: "pystr \<Rightarrow> bool" where
  "url_like s \<longleftrightarrow> contains_text (lit ''://'') s \<or> 64 \<in> set s \<or> 63 \<in> set s \<or> 35 \<in> set s \<or> list_ex py_space s"

definition normalize_partner_key :: "pystr \<Rightarrow> pystr outcome" where
  "normalize_partner_key v =
     (let n = casefold (py_strip v) in
      bindE (require (source_key_pattern n) (qualification_error
        ''Partner keys must use lowercase letters, numbers, dots, underscores, or hyphens.'')) (\<lambda>_. Inr n))"

definition normalize_source_key :: "pystr \<Rightarrow> pystr outcome" where
  "normalize_source_key v =
     (let n = casefold (py_strip v) in
      bindE (require (source_key_pattern n)
        (qualification_error ''The authorized data-source key is invalid.'')) (\<lambda>_. Inr n))"

definition normalize_reference :: "pystr \<Rightarrow> pystr outcome" where
  "normalize_reference v =
     bindE (required_text v ''authorization reference'' 512) (\<lambda>n.
     bindE (require (\<not> url_like n) (qualification_error
       ''Authorization references must be stable identifiers, not URLs or credentials.'')) (\<lambda>_. Inr n))"

definition parse_classification :: "pystr \<Rightarrow> customer_class option" where
  "parse_classification s =
     (if s = lit ''PUBLIC'' then Some Public else if s = lit ''INTERNAL'' then Some Internal
      else if s = lit ''CONFIDENTIAL'' then Some Confidential
      else if s = lit ''RESTRICTED'' then Some Restricted else None)"

definition normalize_data_classification :: "pystr \<Rightarrow> customer_class outcome" where
  "normalize_data_classification v =
     the_or (parse_classification (upper (py_strip v)))
       (qualification_error ''The data classification is invalid.'')"

definition max_authorization_items :: nat where
  "max_authorization_items = 100"

definition normalized_items :: "(pystr \<Rightarrow> pystr outcome) \<Rightarrow> pystr list \<Rightarrow> pystr \<Rightarrow> pystr list outcome" where
  "normalized_items normalizer values label =
     bindE (require (values \<noteq> [] \<and> length values \<le> max_authorization_items)
       (QualificationError (lit ''At least one and no more than 100 '' @ label @ lit ''s are required.''))) (\<lambda>_.
     bindE (mapE normalizer values) (\<lambda>ns.
     bindE (require (distinct ns) (QualificationError (lit ''Duplicate '' @ label @ lit ''s are not allowed.'')))
       (\<lambda>_. Inr (sort ns))))"

definition media_type :: "pystr \<Rightarrow> pystr" where
  "media_type v = casefold (py_strip (before_first 59 v))"

section \<open>Owners\<close>

definition require_active_human_owner :: "uuid \<Rightarrow> uuid \<Rightarrow> store \<Rightarrow> operator outcome" where
  "require_active_human_owner eid oid s =
     the_or (first (filter (\<lambda>opr.
         select (\<lambda>m. mb_operator_id m = op_id opr \<and> mb_engagement_id m = eid \<and> mb_role m = Owner) (members s) \<noteq> [])
       (select (\<lambda>opr. op_id opr = oid \<and> op_identity_kind opr = Human \<and> op_is_active opr) (operators s))))
       (qualification_error ''Qualification administration requires an active human engagement owner.'')"

definition record_qualification_change :: "qualification \<Rightarrow> uuid \<Rightarrow> pystr \<Rightarrow> json \<Rightarrow> store \<Rightarrow> store" where
  "record_qualification_change q actor action detail s =
     publish_domain_event (ql_engagement_id q) action (lit ''design_partner_qualification'') (ql_id q) detail
       (record_audit (ql_engagement_id q) actor action (lit ''design_partner_qualification'') (ql_id q) detail s)"

section \<open>Retention\<close>

datatype retention_failure = RetentionExpired | RetentionOutsideQualification

definition qualification_retention_failure ::
  "engagement \<Rightarrow> qualification \<Rightarrow> time \<Rightarrow> retention_failure option" where
  "qualification_retention_failure e q now =
     (case eg_retention_expires_at e of
        None \<Rightarrow> Some RetentionExpired
      | Some ceiling \<Rightarrow>
          if ceiling > ql_retention_expires_at q then Some RetentionOutsideQualification
          else if ceiling \<le> now \<or> ql_retention_expires_at q \<le> now then Some RetentionExpired
          else None)"

definition qualification_retention_is_authorized :: "engagement \<Rightarrow> qualification \<Rightarrow> time \<Rightarrow> bool" where
  "qualification_retention_is_authorized e q now \<longleftrightarrow> qualification_retention_failure e q now = None"

section \<open>Provisioning\<close>

record qualification_values =
  qv_partner_key :: pystr
  qv_organization :: pystr
  qv_data_source_keys :: "pystr list"
  qv_repository_refs :: "pystr list"
  qv_workflow_classes :: "pystr list"
  qv_data_classification :: customer_class
  qv_retention_days :: int
  qv_authorization_basis_ref :: pystr

definition qualification_matches :: "qualification \<Rightarrow> qualification_values \<Rightarrow> bool" where
  "qualification_matches q v \<longleftrightarrow>
     ql_partner_key q = qv_partner_key v \<and> ql_organization q = qv_organization v
     \<and> ql_data_source_keys q = qv_data_source_keys v \<and> ql_repository_refs q = qv_repository_refs v
     \<and> ql_workflow_classes q = qv_workflow_classes v
     \<and> ql_data_classification q = qv_data_classification v
     \<and> ql_retention_days q = qv_retention_days v
     \<and> ql_authorization_basis_ref q = qv_authorization_basis_ref v"

definition day_us :: int where
  "day_us = 86400000000"

fun classification_text :: "customer_class \<Rightarrow> pystr" where
  "classification_text Public = lit ''PUBLIC''"
| "classification_text Internal = lit ''INTERNAL''"
| "classification_text Confidential = lit ''CONFIDENTIAL''"
| "classification_text Restricted = lit ''RESTRICTED''"

fun qualification_status_text :: "qualification_status \<Rightarrow> pystr" where
  "qualification_status_text QActive = lit ''ACTIVE''"
| "qualification_status_text QSuspended = lit ''SUSPENDED''"
| "qualification_status_text QRevoked = lit ''REVOKED''"

fun qualification_state_text :: "qualification_state \<Rightarrow> pystr" where
  "qualification_state_text Configured = lit ''CONFIGURED''"
| "qualification_state_text InQualification = lit ''IN_PROGRESS''"
| "qualification_state_text QBlocked = lit ''BLOCKED''"
| "qualification_state_text Qualified = lit ''QUALIFIED''"

record qualification_request =
  qr_partner_key :: pystr
  qr_organization :: pystr
  qr_data_source_keys :: "pystr list"
  qr_repository_refs :: "pystr list"
  qr_workflow_classes :: "pystr list"
  qr_data_classification :: pystr
  qr_retention_days :: int
  qr_authorization_basis_ref :: pystr

definition normalize_request :: "qualification_request \<Rightarrow> qualification_values outcome" where
  "normalize_request r =
     bindE (normalize_partner_key (qr_partner_key r)) (\<lambda>pk.
     bindE (required_text (qr_organization r) ''organization'' 255) (\<lambda>org.
     bindE (normalized_items normalize_source_key (qr_data_source_keys r) (lit ''authorized data-source key'')) (\<lambda>srcs.
     bindE (normalized_items normalize_reference (qr_repository_refs r)
        (lit ''authorized repository reference'')) (\<lambda>repos.
     bindE (normalized_items normalize_reference (qr_workflow_classes r) (lit ''allowed workflow class'')) (\<lambda>wfs.
     bindE (normalize_data_classification (qr_data_classification r)) (\<lambda>cls.
     bindE (normalize_reference (qr_authorization_basis_ref r)) (\<lambda>basis.
     bindE (require (1 \<le> qr_retention_days r \<and> qr_retention_days r \<le> 3650)
       (qualification_error ''Retention days must be between 1 and 3650.'')) (\<lambda>_.
       Inr \<lparr>qv_partner_key = pk, qv_organization = org, qv_data_source_keys = srcs,
            qv_repository_refs = repos, qv_workflow_classes = wfs, qv_data_classification = cls,
            qv_retention_days = qr_retention_days r, qv_authorization_basis_ref = basis\<rparr>))))))))"

definition retention_within_policy :: "engagement \<Rightarrow> time \<Rightarrow> time \<Rightarrow> store \<Rightarrow> engagement table outcome" where
  "retention_within_policy e now limit s =
     (case eg_retention_expires_at e of
        None \<Rightarrow> Inr (modify (\<lambda>x. eg_id x = eg_id e) (\<lambda>x. x\<lparr>eg_retention_expires_at := Some limit\<rparr>)
                  (engagements s))
      | Some cur \<Rightarrow>
          if cur \<le> now then Inl (qualification_error ''The engagement retention period has expired.'')
          else if cur > limit then Inl (qualification_error
            ''The engagement retention deadline exceeds the qualification policy.'')
          else Inr (engagements s))"

definition configured_qualification ::
  "uuid \<Rightarrow> uuid \<Rightarrow> qualification_values \<Rightarrow> operator \<Rightarrow> time \<Rightarrow> qualification" where
  "configured_qualification nid eid v owner now =
     \<lparr>ql_id = nid, ql_engagement_id = eid, ql_partner_key = qv_partner_key v,
      ql_organization = qv_organization v, ql_status = QActive, ql_state = Configured,
      ql_data_source_keys = qv_data_source_keys v, ql_repository_refs = qv_repository_refs v,
      ql_workflow_classes = qv_workflow_classes v,
      ql_data_classification = qv_data_classification v, ql_retention_days = qv_retention_days v,
      ql_retention_expires_at = now + qv_retention_days v * day_us,
      ql_authorization_basis_ref = qv_authorization_basis_ref v,
      ql_configured_by_id = op_id owner, ql_created_at = now\<rparr>"

text \<open>
  \<open>nid\<close> is the fresh id of the row; the result is the qualification's id.  A second row with the
  same id or partner key is refused by the table's constraints.
\<close>

definition provision_design_partner_qualification ::
  "uuid \<Rightarrow> qualification_request \<Rightarrow> uuid \<Rightarrow> time \<Rightarrow> uuid \<Rightarrow> store \<Rightarrow> (uuid \<times> store) outcome" where
  "provision_design_partner_qualification eid req configured_by now nid s =
     bindE (the_or (first (select (\<lambda>e. eg_id e = eid) (engagements s)))
       (qualification_error ''The engagement does not exist.'')) (\<lambda>e.
     bindE (require (eg_data_classification e = Sanitized)
       (qualification_error ''Design-partner qualification is available only for sanitized engagements.'')) (\<lambda>_.
     bindE (require_active_human_owner eid configured_by s) (\<lambda>owner.
     bindE (normalize_request req) (\<lambda>v.
     case first (select (\<lambda>q. ql_engagement_id q = eid) (qualifications s)) of
       Some q \<Rightarrow>
         bindE (require (qualification_matches q v)
           (qualification_error ''The engagement already has a different design-partner qualification.''))
           (\<lambda>_. Inr (ql_id q, s))
     | None \<Rightarrow>
         bindE (retention_within_policy e now (now + qv_retention_days v * day_us) s) (\<lambda>es.
         let q = configured_qualification nid eid v owner now;
             s1 = s\<lparr>engagements := es, qualifications := add q (qualifications s)\<rparr>
         in bindE (require (distinct (map ql_partner_key (current (qualifications s1)))
                \<and> distinct (map ql_id (current (qualifications s1))))
              (ConstraintViolation ''design_partner_qualifications'')) (\<lambda>_.
            bindE (flush_session s1) (\<lambda>s2.
              Inr (nid, record_qualification_change q (op_id owner)
                (lit ''design_partner.qualification_configured'')
                (obj [(''status'', JStr (lit ''ACTIVE'')), (''qualification_state'', JStr (lit ''CONFIGURED'')),
                      (''data_classification'', JStr (classification_text (qv_data_classification v))),
                      (''retention_days'', JInt (qv_retention_days v))]) s2))))))))"

section \<open>Transitions\<close>

fun status_transitions :: "qualification_status \<Rightarrow> qualification_status list" where
  "status_transitions QActive = [QSuspended, QRevoked]"
| "status_transitions QSuspended = [QActive, QRevoked]"
| "status_transitions QRevoked = []"

fun state_transitions :: "qualification_state \<Rightarrow> qualification_state list" where
  "state_transitions Configured = [InQualification, QBlocked]"
| "state_transitions InQualification = [QBlocked, Qualified]"
| "state_transitions QBlocked = [InQualification]"
| "state_transitions Qualified = [QBlocked]"

definition parse_status :: "pystr \<Rightarrow> qualification_status option" where
  "parse_status s = (if s = lit ''ACTIVE'' then Some QActive else if s = lit ''SUSPENDED'' then Some QSuspended
     else if s = lit ''REVOKED'' then Some QRevoked else None)"

definition parse_state :: "pystr \<Rightarrow> qualification_state option" where
  "parse_state s = (if s = lit ''CONFIGURED'' then Some Configured
     else if s = lit ''IN_PROGRESS'' then Some InQualification
     else if s = lit ''BLOCKED'' then Some QBlocked else if s = lit ''QUALIFIED'' then Some Qualified else None)"

definition next_status :: "qualification_status \<Rightarrow> pystr option \<Rightarrow> qualification_status outcome" where
  "next_status cur req = (case req of None \<Rightarrow> Inr cur
     | Some t \<Rightarrow>
         bindE (the_or (parse_status (upper (py_strip t))) (qualification_error ''The qualification status is invalid.'')) (\<lambda>n.
         bindE (require (n = cur \<or> n \<in> set (status_transitions cur))
           (QualificationError (lit ''Qualification status cannot transition from ''
              @ qualification_status_text cur @ lit '' to '' @ qualification_status_text n @ lit ''.''))) (\<lambda>_. Inr n)))"

definition next_state :: "qualification_state \<Rightarrow> pystr option \<Rightarrow> qualification_state outcome" where
  "next_state cur req = (case req of None \<Rightarrow> Inr cur
     | Some t \<Rightarrow>
         bindE (the_or (parse_state (upper (py_strip t))) (qualification_error ''The qualification state is invalid.'')) (\<lambda>n.
         bindE (require (n = cur \<or> n \<in> set (state_transitions cur))
           (QualificationError (lit ''Qualification state cannot transition from ''
              @ qualification_state_text cur @ lit '' to '' @ qualification_state_text n @ lit ''.''))) (\<lambda>_. Inr n)))"

definition transition_design_partner_qualification ::
  "uuid \<Rightarrow> pystr option \<Rightarrow> pystr option \<Rightarrow> pystr \<Rightarrow> uuid \<Rightarrow> time \<Rightarrow> store \<Rightarrow> store outcome" where
  "transition_design_partner_qualification eid status state basis_ref actor_id now s =
     bindE (require (status \<noteq> None \<or> state \<noteq> None)
       (qualification_error ''A status or qualification-state transition is required.'')) (\<lambda>_.
     bindE (the_or (first (select (\<lambda>e. eg_id e = eid) (engagements s))) (NotFound eid)) (\<lambda>e.
     bindE (the_or (first (select (\<lambda>q. ql_engagement_id q = eid) (qualifications s))) (NotFound eid)) (\<lambda>q.
     bindE (require_active_human_owner eid actor_id s) (\<lambda>actor.
     bindE (normalize_reference basis_ref) (\<lambda>basis.
     bindE (next_status (ql_status q) status) (\<lambda>st.
     bindE (next_state (ql_state q) state) (\<lambda>sta.
     bindE (if sta = Qualified \<and> ql_state q \<noteq> Qualified then
              bindE (require (st = QActive)
                (qualification_error ''Only an active design partner can become qualified.'')) (\<lambda>_.
              require (qualification_retention_is_authorized e q now)
                (qualification_error ''Qualification requires an unexpired engagement retention deadline within its immutable qualification ceiling.''))
            else Inr ()) (\<lambda>_.
     flush_session (record_qualification_change q (op_id actor)
       (lit ''design_partner.qualification_transitioned'')
       (obj [(''previous_status'', JStr (qualification_status_text (ql_status q))),
             (''status'', JStr (qualification_status_text st)),
             (''previous_qualification_state'', JStr (qualification_state_text (ql_state q))),
             (''qualification_state'', JStr (qualification_state_text sta))])
       (s\<lparr>qualifications := modify (\<lambda>x. ql_id x = ql_id q)
            (\<lambda>x. x\<lparr>ql_status := st, ql_state := sta, ql_authorization_basis_ref := basis\<rparr>)
            (qualifications s)\<rparr>))))))))))"

section \<open>Customer-data uploads\<close>

datatype decision_code =
    Authorized | QualificationRequired | QualificationInactive | QualificationIncomplete
  | ContextRequired | InvalidSourceKey | InvalidWorkflowClass | UnsupportedMediaType
  | SourceNotAuthorized | WorkflowNotAuthorized | InvalidDataClassification
  | ClassificationOutsideQualification | ProviderClassificationDenied | ProviderNotQualified
  | RetentionFailed retention_failure | DeploymentQualificationInactive

fun decision_text :: "decision_code \<Rightarrow> pystr" where
  "decision_text Authorized = lit ''AUTHORIZED''"
| "decision_text QualificationRequired = lit ''QUALIFICATION_REQUIRED''"
| "decision_text QualificationInactive = lit ''QUALIFICATION_INACTIVE''"
| "decision_text QualificationIncomplete = lit ''QUALIFICATION_INCOMPLETE''"
| "decision_text ContextRequired = lit ''QUALIFICATION_CONTEXT_REQUIRED''"
| "decision_text InvalidSourceKey = lit ''INVALID_SOURCE_KEY''"
| "decision_text InvalidWorkflowClass = lit ''INVALID_WORKFLOW_CLASS''"
| "decision_text UnsupportedMediaType = lit ''UNSUPPORTED_QUALIFIED_MEDIA_TYPE''"
| "decision_text SourceNotAuthorized = lit ''SOURCE_NOT_AUTHORIZED''"
| "decision_text WorkflowNotAuthorized = lit ''WORKFLOW_NOT_AUTHORIZED''"
| "decision_text InvalidDataClassification = lit ''INVALID_DATA_CLASSIFICATION''"
| "decision_text ClassificationOutsideQualification = lit ''CLASSIFICATION_OUTSIDE_QUALIFICATION''"
| "decision_text ProviderClassificationDenied = lit ''PROVIDER_CLASSIFICATION_DENIED''"
| "decision_text ProviderNotQualified = lit ''PROVIDER_NOT_QUALIFIED''"
| "decision_text (RetentionFailed RetentionExpired) = lit ''RETENTION_EXPIRED''"
| "decision_text (RetentionFailed RetentionOutsideQualification) = lit ''RETENTION_OUTSIDE_QUALIFICATION''"
| "decision_text DeploymentQualificationInactive = lit ''DEPLOYMENT_QUALIFICATION_INACTIVE''"

record upload_request =
  up_source_key :: "pystr option"
  up_workflow_class :: "pystr option"
  up_data_classification :: "pystr option"
  up_content_type :: pystr
  up_extraction_provider :: pystr
  up_provider_classifications :: "customer_class list"
  up_correlation_id :: uuid

definition or_empty :: "pystr option \<Rightarrow> pystr" where
  "or_empty x = (case x of None \<Rightarrow> [] | Some t \<Rightarrow> t)"

definition source_candidate :: "upload_request \<Rightarrow> pystr" where
  "source_candidate r = casefold (py_strip (or_empty (up_source_key r)))"

definition workflow_candidate :: "upload_request \<Rightarrow> pystr" where
  "workflow_candidate r = py_strip (or_empty (up_workflow_class r))"

definition classification_candidate :: "upload_request \<Rightarrow> customer_class option" where
  "classification_candidate r = parse_classification (upper (py_strip (or_empty (up_data_classification r))))"

definition workflow_valid :: "upload_request \<Rightarrow> bool" where
  "workflow_valid r \<longleftrightarrow> workflow_candidate r \<noteq> [] \<and> length (workflow_candidate r) \<le> 160
     \<and> \<not> url_like (workflow_candidate r)"

record access_context =
  ax_engagement_id :: uuid
  ax_qualification_id :: uuid
  ax_partner_key :: pystr
  ax_operator_id :: uuid
  ax_source_key :: pystr
  ax_workflow_class :: pystr
  ax_data_classification :: customer_class
  ax_authorization_basis_ref :: pystr
  ax_correlation_id :: uuid

record access_decision =
  ad_allowed :: bool
  ad_code :: decision_code
  ad_context :: "access_context option"

definition requested_source :: "qualification \<Rightarrow> upload_request \<Rightarrow> pystr" where
  "requested_source q r =
     (if source_key_pattern (source_candidate r) \<and> source_candidate r \<in> set (ql_data_source_keys q)
      then source_candidate r
      else if up_source_key r = None then lit ''missing-source''
      else if \<not> source_key_pattern (source_candidate r) then lit ''invalid-source''
      else lit ''unauthorized-source'')"

definition requested_workflow :: "qualification \<Rightarrow> upload_request \<Rightarrow> pystr" where
  "requested_workflow q r =
     (if workflow_valid r \<and> workflow_candidate r \<in> set (ql_workflow_classes q) then workflow_candidate r
      else if up_workflow_class r = None then lit ''missing-workflow''
      else if \<not> workflow_valid r then lit ''invalid-workflow''
      else lit ''unauthorized-workflow'')"

definition requested_classification :: "qualification \<Rightarrow> upload_request \<Rightarrow> customer_class" where
  "requested_classification q r =
     (case classification_candidate r of None \<Rightarrow> ql_data_classification q | Some c \<Rightarrow> c)"

definition qualified_media_types :: "pystr list" where
  "qualified_media_types = [lit ''text/plain'', lit ''text/markdown'']"

definition upload_decision :: "engagement \<Rightarrow> qualification \<Rightarrow> upload_request \<Rightarrow> time \<Rightarrow> decision_code" where
  "upload_decision e q r now =
     (let cls = requested_classification q r in
      if eg_data_classification e \<noteq> Sanitized \<or> eg_data_lifecycle_status e \<noteq> Active \<or> ql_status q \<noteq> QActive
        then QualificationInactive
      else if ql_state q \<noteq> Qualified then QualificationIncomplete
      else if up_source_key r = None \<or> up_workflow_class r = None \<or> up_data_classification r = None
        then ContextRequired
      else if \<not> source_key_pattern (source_candidate r) then InvalidSourceKey
      else if \<not> workflow_valid r then InvalidWorkflowClass
      else if media_type (up_content_type r) \<notin> set qualified_media_types then UnsupportedMediaType
      else if source_candidate r \<notin> set (ql_data_source_keys q) then SourceNotAuthorized
      else if workflow_candidate r \<notin> set (ql_workflow_classes q) then WorkflowNotAuthorized
      else if classification_candidate r = None then InvalidDataClassification
      else if cls \<noteq> ql_data_classification q then ClassificationOutsideQualification
      else if cls = Restricted then ProviderClassificationDenied
      else if up_extraction_provider r \<noteq> lit ''bedrock'' then ProviderNotQualified
      else if cls \<notin> set (up_provider_classifications r) then ProviderClassificationDenied
      else case qualification_retention_failure e q now of
             None \<Rightarrow> Authorized | Some f \<Rightarrow> RetentionFailed f)"

definition record_customer_data_access_outcome ::
  "access_context \<Rightarrow> bool \<Rightarrow> decision_code \<Rightarrow> uuid option \<Rightarrow> store \<Rightarrow> store outcome" where
  "record_customer_data_access_outcome c authorized code asset s =
     bindE (require (authorized = (asset \<noteq> None))
       (qualification_error ''Authorized customer-data access must identify its evidence asset.'')) (\<lambda>_.
     Inr (s\<lparr>access_events := access_events s @
       [\<lparr>ca_engagement_id = ax_engagement_id c, ca_qualification_id = ax_qualification_id c,
         ca_partner_key = ax_partner_key c, ca_operator_id = ax_operator_id c,
         ca_evidence_asset_id = asset, ca_source_key = ax_source_key c,
         ca_workflow_class = ax_workflow_class c,
         ca_data_classification = ax_data_classification c, ca_authorized = authorized,
         ca_decision_code = decision_text code,
         ca_authorization_basis_ref = ax_authorization_basis_ref c,
         ca_correlation_id = ax_correlation_id c\<rparr>]\<rparr>))"

definition denied_detail :: "upload_request \<Rightarrow> json" where
  "denied_detail r = obj
     [(''operation'', JStr (lit ''MANUAL_DOCUMENT_UPLOAD'')),
      (''decision_code'', JStr (lit ''QUALIFICATION_REQUIRED'')),
      (''source_key'', JStr (if up_source_key r = None then lit ''missing-source''
         else if source_key_pattern (source_candidate r) then lit ''unqualified-source'' else lit ''invalid-source'')),
      (''workflow_class'', JStr (if up_workflow_class r = None then lit ''missing-workflow''
         else if workflow_valid r then lit ''unqualified-workflow'' else lit ''invalid-workflow'')),
      (''data_classification'', JStr (case classification_candidate r of
           Some c \<Rightarrow> classification_text c
         | None \<Rightarrow> if up_data_classification r = None then lit ''missing-classification''
             else lit ''invalid-classification'')),
      (''authorization_basis_ref'', JStr (lit ''none'')), (''qualification_present'', JBool False)]"

definition evaluate_qualified_document_upload ::
  "engagement \<Rightarrow> qualification option \<Rightarrow> uuid \<Rightarrow> upload_request \<Rightarrow> time \<Rightarrow> store
    \<Rightarrow> (access_decision \<times> store) outcome" where
  "evaluate_qualified_document_upload e q_opt oid r now s =
     (case q_opt of
        None \<Rightarrow>
          Inr (\<lparr>ad_allowed = False, ad_code = QualificationRequired, ad_context = None\<rparr>,
            record_audit (eg_id e) oid (lit ''customer_data.access_denied'') (lit ''engagement'') (eg_id e)
              (denied_detail r) s)
      | Some q \<Rightarrow>
          let code = upload_decision e q r now;
              context = \<lparr>ax_engagement_id = eg_id e, ax_qualification_id = ql_id q,
                 ax_partner_key = ql_partner_key q, ax_operator_id = oid,
                 ax_source_key = requested_source q r, ax_workflow_class = requested_workflow q r,
                 ax_data_classification = requested_classification q r,
                 ax_authorization_basis_ref = ql_authorization_basis_ref q,
                 ax_correlation_id = up_correlation_id r\<rparr>
          in if code = Authorized
             then Inr (\<lparr>ad_allowed = True, ad_code = code, ad_context = Some context\<rparr>, s)
             else bindE (record_customer_data_access_outcome context False code None s) (\<lambda>s'.
               Inr (\<lparr>ad_allowed = False, ad_code = code, ad_context = None\<rparr>, s')))"

definition authorize_qualified_document_upload ::
  "engagement \<Rightarrow> uuid \<Rightarrow> upload_request \<Rightarrow> time \<Rightarrow> store \<Rightarrow> (access_decision \<times> store) outcome" where
  "authorize_qualified_document_upload e oid r now s =
     evaluate_qualified_document_upload e
       (first (select (\<lambda>q. ql_engagement_id q = eg_id e) (qualifications s))) oid r now s"

text \<open>
  \<open>populate_existing=True\<close> reads the flushed rows.  \<open>locked\<close> is the answer of the database function
  \<open>ai_fde_lock_design_partner_authority\<close>, \<open>deployed now\<close> says that the deployment check does not raise.
\<close>

definition stored_first :: "('r \<Rightarrow> bool) \<Rightarrow> 'r table \<Rightarrow> 'r option" where
  "stored_first P t = first (filter P (stored_rows t))"

definition reauthorize_qualified_document_upload ::
  "uuid \<Rightarrow> uuid \<Rightarrow> upload_request \<Rightarrow> bool \<Rightarrow> (time \<Rightarrow> bool) \<Rightarrow> time \<Rightarrow> store
    \<Rightarrow> (access_decision \<times> store) outcome" where
  "reauthorize_qualified_document_upload eid oid r locked deployed now s =
     (case stored_first (\<lambda>e. eg_id e = eid) (engagements s) of
        None \<Rightarrow> Inr (\<lparr>ad_allowed = False, ad_code = QualificationRequired, ad_context = None\<rparr>, s)
      | Some e \<Rightarrow>
          bindE (evaluate_qualified_document_upload e
              (if locked then stored_first (\<lambda>q. ql_engagement_id q = eid) (qualifications s) else None)
              oid r now s) (\<lambda>(d, s1).
          case (ad_allowed d, ad_context d) of
            (True, Some c) \<Rightarrow>
              if deployed now then Inr (d, s1)
              else bindE (record_customer_data_access_outcome c False DeploymentQualificationInactive None s1)
                (\<lambda>s2. Inr (\<lparr>ad_allowed = False, ad_code = DeploymentQualificationInactive,
                   ad_context = None\<rparr>, s2))
          | _ \<Rightarrow> Inr (d, s1)))"

section \<open>Publication and processing gates\<close>

definition require_package_publication_eligibility ::
  "uuid \<Rightarrow> deployment_target \<Rightarrow> time \<Rightarrow> bool \<Rightarrow> store \<Rightarrow> unit outcome" where
  "require_package_publication_eligibility eid target now locked s =
     (let refused = qualification_error ''A sanitized deployment package requires an active completed qualification.'' in
      bindE (the_or (stored_first (\<lambda>e. eg_id e = eid) (engagements s)) refused) (\<lambda>e.
      bindE (require locked refused) (\<lambda>_.
      if eg_data_classification e \<noteq> Sanitized then Inr ()
      else
        bindE (the_or (stored_first (\<lambda>q. ql_engagement_id q = eid) (qualifications s)) refused) (\<lambda>q.
        bindE (require (ql_status q = QActive \<and> ql_state q = Qualified) refused) (\<lambda>_.
        bindE (require (ql_data_classification q \<noteq> Restricted) (qualification_error
          ''Restricted design-partner data is not eligible for Mission Control handoff.'')) (\<lambda>_.
        bindE (require (qualification_retention_is_authorized e q now) (qualification_error
          ''The design-partner retention period is missing, expired, or outside its immutable qualification ceiling.'')) (\<lambda>_.
        bindE (require (dt_repository_ref target \<in> set (ql_repository_refs q)) (qualification_error
          ''The deployment-package repository is outside the design-partner authorization.'')) (\<lambda>_.
        require (dt_semantic_execution_workflow_ref target \<in> set (ql_workflow_classes q)) (qualification_error
          ''The deployment-package workflow is outside the design-partner authorization.'')))))))))"

definition require_qualified_evidence_processing ::
  "evidence_asset \<Rightarrow> pystr \<Rightarrow> customer_class list \<Rightarrow> time \<Rightarrow> bool \<Rightarrow> store \<Rightarrow> time option outcome" where
  "require_qualified_evidence_processing a provider allowed now locked s =
     bindE (the_or (stored_first (\<lambda>e. eg_id e = ev_engagement_id a) (engagements s)) ProcessingDenied) (\<lambda>e.
     bindE (require locked ProcessingDenied) (\<lambda>_.
     if eg_data_classification e = Synthetic \<and> ev_qualification_id a = None
        \<and> ev_authorized_source_key a = None \<and> ev_authorized_workflow_class a = None
        \<and> ev_data_classification a = None
     then Inr None
     else
       bindE (require (eg_data_classification e = Sanitized) ProcessingDenied) (\<lambda>_.
       case (ev_qualification_id a, ev_authorized_source_key a, ev_authorized_workflow_class a,
             ev_data_classification a) of
         (Some qid, Some src, Some wfc, Some cls) \<Rightarrow>
           bindE (the_or (stored_first (\<lambda>q. ql_id q = qid \<and> ql_engagement_id q = ev_engagement_id a)
              (qualifications s)) ProcessingDenied) (\<lambda>q.
           bindE (require (eg_data_lifecycle_status e = Active
              \<and> qualification_retention_is_authorized e q now
              \<and> ql_status q = QActive \<and> ql_state q = Qualified
              \<and> src \<in> set (ql_data_source_keys q) \<and> wfc \<in> set (ql_workflow_classes q)
              \<and> cls = ql_data_classification q \<and> cls \<noteq> Restricted \<and> cls \<in> set allowed
              \<and> provider = lit ''amazon-bedrock-converse'') ProcessingDenied) (\<lambda>_. Inr (Some now)))
       | _ \<Rightarrow> Inl ProcessingDenied)))"

end
