(* ===== verification/CascadeSpec.thy ===== *)
theory CascadeSpec
  imports Cascade
begin

text \<open>
  The staling cascade stated without its loops: which rows become stale when a set of models,
  assessments and opportunities does, and the proof that the cascade of the service marks exactly
  those, whatever is pending in the session.
\<close>

section \<open>Live rows and dependencies\<close>

definition cm_live :: "customer_model \<Rightarrow> bool" where
  "cm_live m \<longleftrightarrow> cm_status m \<noteq> MStale"

definition ra_live :: "readiness \<Rightarrow> bool" where
  "ra_live r \<longleftrightarrow> ra_status r \<noteq> AStale"

definition fo_live :: "opportunity \<Rightarrow> bool" where
  "fo_live r \<longleftrightarrow> fo_status r \<notin> {OStale, ORejected}"

definition pk_live :: "package \<Rightarrow> bool" where
  "pk_live p \<longleftrightarrow> \<not> package_terminal (pk_status p)"

definition ra_of_model :: "readiness \<Rightarrow> customer_model \<Rightarrow> bool" where
  "ra_of_model r m \<longleftrightarrow> ra_engagement_id r = cm_engagement_id m \<and> ra_model_id r = cm_id m"

definition fo_of_model :: "opportunity \<Rightarrow> customer_model \<Rightarrow> bool" where
  "fo_of_model r m \<longleftrightarrow> fo_engagement_id r = cm_engagement_id m \<and> fo_model_id r = cm_id m"

definition ra_of_opportunity :: "readiness \<Rightarrow> opportunity \<Rightarrow> bool" where
  "ra_of_opportunity r f \<longleftrightarrow> ra_engagement_id r = fo_engagement_id f \<and> ra_opportunity_id r = fo_id f"

definition pk_of_readiness :: "package \<Rightarrow> readiness \<Rightarrow> bool" where
  "pk_of_readiness p r \<longleftrightarrow> pk_engagement_id p = ra_engagement_id r \<and> pk_readiness_id p = ra_id r"

definition pk_of_opportunity :: "package \<Rightarrow> opportunity \<Rightarrow> bool" where
  "pk_of_opportunity p f \<longleftrightarrow> pk_engagement_id p = fo_engagement_id f \<and> pk_opportunity_id p = fo_id f"

section \<open>The specification\<close>

text \<open>
  \<open>hit_...\<close>: the assessments, opportunities and packages that depend on the models \<open>M\<close>, the
  assessments \<open>R\<close> and the opportunities \<open>F\<close> that are live in \<open>s\<close>.
\<close>

definition hit_opportunity ::
  "store \<Rightarrow> (customer_model \<Rightarrow> bool) \<Rightarrow> (opportunity \<Rightarrow> bool) \<Rightarrow> opportunity \<Rightarrow> bool" where
  "hit_opportunity s M F f \<longleftrightarrow>
     F f \<or> (\<exists>m \<in> set (current (customer_models s)). M m \<and> cm_live m \<and> fo_of_model f m)"

definition hit_readiness ::
  "store \<Rightarrow> (customer_model \<Rightarrow> bool) \<Rightarrow> (readiness \<Rightarrow> bool) \<Rightarrow> (opportunity \<Rightarrow> bool) \<Rightarrow> readiness \<Rightarrow> bool" where
  "hit_readiness s M R F r \<longleftrightarrow>
     R r \<or> (\<exists>m \<in> set (current (customer_models s)). M m \<and> cm_live m \<and> ra_of_model r m)
     \<or> (\<exists>f \<in> set (current (opportunities s)). hit_opportunity s M F f \<and> fo_live f \<and> ra_of_opportunity r f)"

definition hit_package ::
  "store \<Rightarrow> (customer_model \<Rightarrow> bool) \<Rightarrow> (readiness \<Rightarrow> bool) \<Rightarrow> (opportunity \<Rightarrow> bool) \<Rightarrow> package \<Rightarrow> bool" where
  "hit_package s M R F p \<longleftrightarrow>
     (\<exists>r \<in> set (current (readiness_rows s)). hit_readiness s M R F r \<and> ra_live r \<and> pk_of_readiness p r)
     \<or> (\<exists>f \<in> set (current (opportunities s)). hit_opportunity s M F f \<and> fo_live f \<and> pk_of_opportunity p f)"

definition staled :: "pystr \<Rightarrow> time \<Rightarrow> (customer_model \<Rightarrow> bool) \<Rightarrow> (readiness \<Rightarrow> bool)
    \<Rightarrow> (opportunity \<Rightarrow> bool) \<Rightarrow> (package \<Rightarrow> bool) \<Rightarrow> store \<Rightarrow> store \<Rightarrow> bool" where
  "staled reason now M R F P s s' \<longleftrightarrow>
     customer_models s' = marked cm_live (mark_model reason now) M (customer_models s)
     \<and> readiness_rows s' = marked ra_live (mark_readiness reason now) R (readiness_rows s)
     \<and> opportunities s' = marked fo_live (mark_opportunity reason now) F (opportunities s)
     \<and> packages s' = marked pk_live (mark_package reason now) P (packages s)
     \<and> base_tables s' = base_tables s"

definition cascade_spec :: "pystr \<Rightarrow> time \<Rightarrow> (customer_model \<Rightarrow> bool) \<Rightarrow> (readiness \<Rightarrow> bool)
    \<Rightarrow> (opportunity \<Rightarrow> bool) \<Rightarrow> store \<Rightarrow> store \<Rightarrow> bool" where
  "cascade_spec reason now M R F s s' \<longleftrightarrow>
     staled reason now M (hit_readiness s M R F) (hit_opportunity s M F) (hit_package s M R F) s s'"

text \<open>The sessions the cascade runs on: unique keys, and no unflushed change but marks.\<close>

definition mark_pending :: "store \<Rightarrow> bool" where
  "mark_pending s \<longleftrightarrow>
     distinct (map cm_id (current (customer_models s))) \<and> distinct (map ra_id (current (readiness_rows s)))
     \<and> distinct (map fo_id (current (opportunities s))) \<and> distinct (map pk_id (current (packages s)))
     \<and> only_marked ra_live (\<lambda>a b. \<exists>w n. b = mark_readiness w n a) (readiness_rows s)
     \<and> only_marked fo_live (\<lambda>a b. \<exists>w n. b = mark_opportunity w n a) (opportunities s)
     \<and> only_marked pk_live (\<lambda>a b. \<exists>w n. b = mark_package w n a) (packages s)"

section \<open>Marks\<close>

lemma mark_fields [simp]:
  "cm_id (mark_model w n m) = cm_id m" "cm_engagement_id (mark_model w n m) = cm_engagement_id m"
  "cm_version (mark_model w n m) = cm_version m" "cm_status (mark_model w n m) = MStale"
  "ra_id (mark_readiness w n r) = ra_id r" "ra_engagement_id (mark_readiness w n r) = ra_engagement_id r"
  "ra_version (mark_readiness w n r) = ra_version r" "ra_status (mark_readiness w n r) = AStale"
  "ra_model_id (mark_readiness w n r) = ra_model_id r"
  "ra_model_version (mark_readiness w n r) = ra_model_version r"
  "ra_opportunity_id (mark_readiness w n r) = ra_opportunity_id r"
  "ra_opportunity_version (mark_readiness w n r) = ra_opportunity_version r"
  "fo_id (mark_opportunity w n f) = fo_id f"
  "fo_engagement_id (mark_opportunity w n f) = fo_engagement_id f"
  "fo_key (mark_opportunity w n f) = fo_key f" "fo_version (mark_opportunity w n f) = fo_version f"
  "fo_score (mark_opportunity w n f) = fo_score f"
  "fo_status (mark_opportunity w n f) = OStale" "fo_model_id (mark_opportunity w n f) = fo_model_id f"
  "fo_model_version (mark_opportunity w n f) = fo_model_version f"
  "pk_id (mark_package w n p) = pk_id p" "pk_engagement_id (mark_package w n p) = pk_engagement_id p"
  "pk_package_id (mark_package w n p) = pk_package_id p" "pk_version (mark_package w n p) = pk_version p"
  "pk_status (mark_package w n p) = PStale" "pk_readiness_id (mark_package w n p) = pk_readiness_id p"
  "pk_readiness_version (mark_package w n p) = pk_readiness_version p"
  "pk_opportunity_id (mark_package w n p) = pk_opportunity_id p"
  "pk_opportunity_version (mark_package w n p) = pk_opportunity_version p"
  "pk_model_id (mark_package w n p) = pk_model_id p"
  "pk_model_version (mark_package w n p) = pk_model_version p"
  by (simp_all add: mark_model_def mark_readiness_def mark_opportunity_def mark_package_def)

lemma mark_dead [simp]:
  "\<not> cm_live (mark_model w n m)" "\<not> ra_live (mark_readiness w n r)"
  "\<not> fo_live (mark_opportunity w n f)" "\<not> pk_live (mark_package w n p)"
  by (simp_all add: cm_live_def ra_live_def fo_live_def pk_live_def package_terminal_def)

lemma staled_refl: "staled w n (\<lambda>_. False) (\<lambda>_. False) (\<lambda>_. False) (\<lambda>_. False) s s"
  by (simp add: staled_def)

lemma staled_trans:
  assumes "staled w n M R F P s s1" and "staled w n M' R' F' P' s1 s2"
  shows "staled w n (\<lambda>x. M x \<or> M' x) (\<lambda>x. R x \<or> R' x) (\<lambda>x. F x \<or> F' x) (\<lambda>x. P x \<or> P' x) s s2"
  using assms by (simp add: staled_def marked_marked)

lemma staled_mark_pending:
  assumes "staled w n M R F P s s'" and "mark_pending s"
  shows "mark_pending s'"
  using assms unfolding staled_def mark_pending_def
  by (auto simp: map_key_marked intro!: only_marked_marked)

lemma staled_live:
  assumes "staled w n M R F P s s'"
  shows "m \<in> set (current (customer_models s')) \<and> cm_live m
      \<longleftrightarrow> m \<in> set (current (customer_models s)) \<and> cm_live m \<and> \<not> M m"
    and "r \<in> set (current (readiness_rows s')) \<and> ra_live r
      \<longleftrightarrow> r \<in> set (current (readiness_rows s)) \<and> ra_live r \<and> \<not> R r"
    and "f \<in> set (current (opportunities s')) \<and> fo_live f
      \<longleftrightarrow> f \<in> set (current (opportunities s)) \<and> fo_live f \<and> \<not> F f"
    and "p \<in> set (current (packages s')) \<and> pk_live p
      \<longleftrightarrow> p \<in> set (current (packages s)) \<and> pk_live p \<and> \<not> P p"
  using assms unfolding staled_def by (simp_all only: marked_live mark_dead not_False_eq_True)

lemma cascade_spec_refl: "cascade_spec w n (\<lambda>_. False) (\<lambda>_. False) (\<lambda>_. False) s s"
proof -
  have "hit_opportunity s (\<lambda>_. False) (\<lambda>_. False) = (\<lambda>_. False)"
    "hit_readiness s (\<lambda>_. False) (\<lambda>_. False) (\<lambda>_. False) = (\<lambda>_. False)"
    "hit_package s (\<lambda>_. False) (\<lambda>_. False) (\<lambda>_. False) = (\<lambda>_. False)"
    by (simp_all add: hit_readiness_def hit_opportunity_def hit_package_def fun_eq_iff)
  then show ?thesis by (simp add: cascade_spec_def staled_refl)
qed

lemma cascade_spec_trans:
  assumes a: "cascade_spec w n M R F s s1" and b: "cascade_spec w n M' R' F' s1 s2"
  shows "cascade_spec w n (\<lambda>x. M x \<or> M' x) (\<lambda>x. R x \<or> R' x) (\<lambda>x. F x \<or> F' x) s s2"
proof -
  note l = staled_live [OF a [unfolded cascade_spec_def]]
  have F: "(\<lambda>f. hit_opportunity s M F f \<or> hit_opportunity s1 M' F' f)
      = hit_opportunity s (\<lambda>x. M x \<or> M' x) (\<lambda>x. F x \<or> F' x)"
    unfolding hit_opportunity_def fun_eq_iff using l(1) by blast
  have R: "(\<lambda>r. hit_readiness s M R F r \<or> hit_readiness s1 M' R' F' r)
      = hit_readiness s (\<lambda>x. M x \<or> M' x) (\<lambda>x. R x \<or> R' x) (\<lambda>x. F x \<or> F' x)"
    unfolding hit_readiness_def F [symmetric] fun_eq_iff using l(1,3) by blast
  have P: "(\<lambda>p. hit_package s M R F p \<or> hit_package s1 M' R' F' p)
      = hit_package s (\<lambda>x. M x \<or> M' x) (\<lambda>x. R x \<or> R' x) (\<lambda>x. F x \<or> F' x)"
    unfolding hit_package_def F [symmetric] R [symmetric] fun_eq_iff using l(2,3) by blast
  show ?thesis
    using staled_trans [OF a [unfolded cascade_spec_def] b [unfolded cascade_spec_def]]
    unfolding cascade_spec_def F R P .
qed

text \<open>A loop of cascades is the cascade of the union.\<close>

lemma cascade_fold:
  assumes step: "\<And>s k. mark_pending s \<Longrightarrow> cascade_spec w n (M k) (R k) (F k) s (f s k)"
    and "mark_pending s"
  shows "cascade_spec w n (\<lambda>x. \<exists>k \<in> set ks. M k x) (\<lambda>x. \<exists>k \<in> set ks. R k x) (\<lambda>x. \<exists>k \<in> set ks. F k x)
    s (foldl f s ks)"
  using assms(2)
proof (induction ks arbitrary: s)
  case Nil
  then show ?case by (simp add: cascade_spec_refl)
next
  case (Cons k ks)
  have 1: "cascade_spec w n (M k) (R k) (F k) s (f s k)" using step Cons.prems by blast
  then have "mark_pending (f s k)" using staled_mark_pending Cons.prems by (auto simp: cascade_spec_def)
  from cascade_spec_trans [OF 1 Cons.IH [OF this]] show ?case by simp
qed

lemma staled_fold:
  assumes step: "\<And>s k. mark_pending s \<Longrightarrow> staled w n (\<lambda>_. False) (\<lambda>_. False) (\<lambda>_. False) (P k) s (f s k)"
    and "mark_pending s"
  shows "staled w n (\<lambda>_. False) (\<lambda>_. False) (\<lambda>_. False) (\<lambda>x. \<exists>k \<in> set ks. P k x) s (foldl f s ks)"
  using assms(2)
proof (induction ks arbitrary: s)
  case Nil
  then show ?case by (simp add: staled_refl)
next
  case (Cons k ks)
  have 1: "staled w n (\<lambda>_. False) (\<lambda>_. False) (\<lambda>_. False) (P k) s (f s k)" using step Cons.prems by blast
  then have "mark_pending (f s k)" using staled_mark_pending Cons.prems by auto
  from staled_trans [OF 1 Cons.IH [OF this]] show ?case by simp
qed

section \<open>The cascade meets its specification\<close>

lemma cm_live_iff [simp]: "cm_status m = MStale \<longleftrightarrow> \<not> cm_live m"
  by (simp add: cm_live_def)

lemma ra_live_iff [simp]: "ra_status r = AStale \<longleftrightarrow> \<not> ra_live r"
  by (simp add: ra_live_def)

lemma fo_live_iff: "fo_status f \<in> {OStale, ORejected} \<longleftrightarrow> \<not> fo_live f"
  by (simp add: fo_live_def)

lemma pk_live_iff [simp]: "package_terminal (pk_status p) \<longleftrightarrow> \<not> pk_live p"
  by (simp add: pk_live_def)

lemma stale_package_staled:
  assumes "mark_pending s"
  shows "staled w n (\<lambda>_. False) (\<lambda>_. False) (\<lambda>_. False) (\<lambda>p. pk_id p = k) s (stale_package w n a s k)"
proof -
  have u: "distinct (map pk_id (current (packages s)))" using assms by (simp add: mark_pending_def)
  show ?thesis
  proof (cases "\<exists>p. find_row pk_id k (packages s) = Some p \<and> pk_live p")
    case True
    then obtain p where p: "find_row pk_id k (packages s) = Some p" "pk_live p" by blast
    from marked_find [where live = pk_live, OF u this] show ?thesis
      using p by (simp add: stale_package_def staled_def)
  next
    case False
    then show ?thesis
      using marked_find_dead [where live = pk_live and f = "mark_package w n", OF u, of k]
      by (auto simp: stale_package_def staled_def split: option.splits)
  qed
qed

text \<open>The loop over the packages a query returned.\<close>

lemma stale_packages_staled:
  assumes "mark_pending s" and "\<And>a w n. Q (mark_package w n a) = Q a"
  shows "staled w n (\<lambda>_. False) (\<lambda>_. False) (\<lambda>_. False) Q s
    (foldl (stale_package w n a) s
      (map pk_id (select (\<lambda>p. Q p \<and> \<not> package_terminal (pk_status p)) (packages s))))"
proof -
  let ?ids = "map pk_id (select (\<lambda>p. Q p \<and> \<not> package_terminal (pk_status p)) (packages s))"
  have "marked pk_live (mark_package w n) (\<lambda>p. pk_id p \<in> set ?ids) (packages s)
      = marked pk_live (mark_package w n) Q (packages s)"
    using assms by (intro marked_selected [where m = "\<lambda>a b. \<exists>w n. b = mark_package w n a"])
      (auto simp: mark_pending_def)
  moreover have "(\<lambda>p. \<exists>k \<in> set ?ids. pk_id p = k) = (\<lambda>p. pk_id p \<in> set ?ids)" by auto
  ultimately show ?thesis
    using staled_fold [where f = "stale_package w n a" and P = "\<lambda>k p. pk_id p = k" and ks = ?ids,
        OF stale_package_staled assms(1)]
    by (simp add: staled_def)
qed

lemma mark_pending_record [simp]:
  "mark_pending (record_derived_transition e ty i ev r a s) = mark_pending s"
  by (simp add: mark_pending_def)

lemma staled_compose_first:
  assumes "staled w n M R F (\<lambda>_. False) s s1" and "staled w n M' R' F' P s1 s2"
  shows "staled w n (\<lambda>x. M x \<or> M' x) (\<lambda>x. R x \<or> R' x) (\<lambda>x. F x \<or> F' x) P s s2"
  using staled_trans [OF assms] by simp

lemma dead_hits:
  assumes "\<And>r. r \<in> set (current (readiness_rows s)) \<Longrightarrow> ra_id r = k \<Longrightarrow> \<not> ra_live r"
  shows "cascade_spec w n (\<lambda>_. False) (\<lambda>r. ra_id r = k) (\<lambda>_. False) s s"
proof -
  have "hit_package s (\<lambda>_. False) (\<lambda>r. ra_id r = k) (\<lambda>_. False) = (\<lambda>_. False)"
    "hit_opportunity s (\<lambda>_. False) (\<lambda>_. False) = (\<lambda>_. False)"
    "hit_readiness s (\<lambda>_. False) (\<lambda>r. ra_id r = k) (\<lambda>_. False) = (\<lambda>r. ra_id r = k)"
    using assms by (auto simp: hit_package_def hit_readiness_def hit_opportunity_def fun_eq_iff)
  moreover have "marked ra_live (mark_readiness w n) (\<lambda>r. ra_id r = k) (readiness_rows s) = readiness_rows s"
    unfolding marked_def using assms by (intro modify_none) auto
  ultimately show ?thesis by (simp add: cascade_spec_def staled_def)
qed

lemma stale_readiness_spec:
  assumes mp: "mark_pending s"
  shows "cascade_spec w n (\<lambda>_. False) (\<lambda>r. ra_id r = k) (\<lambda>_. False) s (stale_readiness w n a s k)"
proof -
  have u: "distinct (map ra_id (current (readiness_rows s)))" using mp by (simp add: mark_pending_def)
  show ?thesis
  proof (cases "\<exists>r. find_row ra_id k (readiness_rows s) = Some r \<and> ra_live r")
    case True
    then obtain r where r: "find_row ra_id k (readiness_rows s) = Some r" "ra_live r" by blast
    note rk = find_row_Some [OF r(1)]
    define s1 where "s1 = record_derived_transition (ra_engagement_id r) readiness_type k
      (lit ''fdlc_readiness.staled'') w a
      (s\<lparr>readiness_rows := modify (\<lambda>r. ra_id r = k) (mark_readiness w n) (readiness_rows s)\<rparr>)"
    have 1: "staled w n (\<lambda>_. False) (\<lambda>r. ra_id r = k) (\<lambda>_. False) (\<lambda>_. False) s s1"
      using marked_find [where live = ra_live, OF u r] by (simp add: s1_def staled_def)
    note 2 = stale_packages_staled [OF staled_mark_pending [OF 1 mp],
        of "\<lambda>p. pk_engagement_id p = ra_engagement_id r \<and> pk_readiness_id p = k" w n a]
    have only: "r' = r" if "r' \<in> set (current (readiness_rows s))" "ra_id r' = k" for r'
      using unique_key [OF u] rk that by metis
    have P: "(\<lambda>p. pk_engagement_id p = ra_engagement_id r \<and> pk_readiness_id p = k)
        = hit_package s (\<lambda>_. False) (\<lambda>r. ra_id r = k) (\<lambda>_. False)"
      using rk r(2) only by (auto simp: hit_package_def hit_readiness_def hit_opportunity_def
          pk_of_readiness_def fun_eq_iff)
    have "hit_opportunity s (\<lambda>_. False) (\<lambda>_. False) = (\<lambda>_. False)"
      "hit_readiness s (\<lambda>_. False) (\<lambda>r. ra_id r = k) (\<lambda>_. False) = (\<lambda>r. ra_id r = k)"
      by (simp_all add: hit_readiness_def hit_opportunity_def fun_eq_iff)
    then show ?thesis
      using staled_compose_first [OF 1 2] r unfolding cascade_spec_def P
      by (simp add: stale_readiness_def Let_def flip: s1_def)
  next
    case False
    have "cascade_spec w n (\<lambda>_. False) (\<lambda>r. ra_id r = k) (\<lambda>_. False) s s"
      by (rule dead_hits) (use False u find_row_unique in metis)
    then show ?thesis using False by (auto simp: stale_readiness_def split: option.splits)
  qed
qed

text \<open>The loop over the assessments a query returned.\<close>

lemma cascade_spec_cong:
  assumes "cascade_spec w n M R F s s'"
    and "\<And>x. x \<in> set (current (readiness_rows s)) \<Longrightarrow> ra_live x \<Longrightarrow> R x = R' x"
    and "\<And>x. x \<in> set (current (opportunities s)) \<Longrightarrow> fo_live x \<Longrightarrow> F x = F' x"
  shows "cascade_spec w n M R' F' s s'"
proof -
  have F: "hit_opportunity s M F x = hit_opportunity s M F' x"
    if "x \<in> set (current (opportunities s))" "fo_live x" for x
    using assms(3) that by (simp add: hit_opportunity_def)
  have R: "hit_readiness s M R F x = hit_readiness s M R' F' x"
    if "x \<in> set (current (readiness_rows s))" "ra_live x" for x
    using assms(2) that F by (auto simp: hit_readiness_def)
  have P: "hit_package s M R F = hit_package s M R' F'"
    using F R by (auto simp: hit_package_def fun_eq_iff)
  have "marked ra_live (mark_readiness w n) (hit_readiness s M R F) (readiness_rows s)
      = marked ra_live (mark_readiness w n) (hit_readiness s M R' F') (readiness_rows s)"
    by (intro marked_cong) (simp add: R)
  moreover have "marked fo_live (mark_opportunity w n) (hit_opportunity s M F) (opportunities s)
      = marked fo_live (mark_opportunity w n) (hit_opportunity s M F') (opportunities s)"
    by (intro marked_cong) (simp add: F)
  ultimately show ?thesis using assms(1) by (simp add: cascade_spec_def staled_def P)
qed

lemma stale_readiness_loop:
  assumes mp: "mark_pending s" and Q: "\<And>a w n. Q (mark_readiness w n a) = Q a"
  shows "cascade_spec w n (\<lambda>_. False) Q (\<lambda>_. False) s
    (foldl (stale_readiness w n a) s
      (map ra_id (select (\<lambda>r. Q r \<and> ra_status r \<noteq> AStale) (readiness_rows s))))"
proof -
  let ?ids = "map ra_id (select (\<lambda>r. Q r \<and> ra_status r \<noteq> AStale) (readiness_rows s))"
  have any: "(\<exists>k \<in> S. x = k) \<longleftrightarrow> x \<in> S" for x :: uuid and S by auto
  have main: "cascade_spec w n (\<lambda>_. False) (\<lambda>r. ra_id r \<in> set ?ids) (\<lambda>_. False) s
      (foldl (stale_readiness w n a) s ?ids)"
    using cascade_fold [where M = "\<lambda>_ _. False" and R = "\<lambda>k r. ra_id r = k" and F = "\<lambda>_ _. False"
        and f = "stale_readiness w n a" and ks = ?ids, OF stale_readiness_spec mp]
    by (simp only: any bex_triv simp_thms)
  show ?thesis
  proof (rule cascade_spec_cong [OF main])
    fix r assume r: "r \<in> set (current (readiness_rows s))" "ra_live r"
    show "(ra_id r \<in> set ?ids) = Q r"
      using mp Q r by (intro selected_iff [where m = "\<lambda>a b. \<exists>w n. b = mark_readiness w n a" and live = ra_live])
        (auto simp: mark_pending_def)
  qed simp_all
qed

lemma dead_opportunity:
  assumes "\<And>f. f \<in> set (current (opportunities s)) \<Longrightarrow> fo_id f = k \<Longrightarrow> \<not> fo_live f"
  shows "cascade_spec w n (\<lambda>_. False) (\<lambda>_. False) (\<lambda>f. fo_id f = k) s s"
proof -
  have "hit_package s (\<lambda>_. False) (\<lambda>_. False) (\<lambda>f. fo_id f = k) = (\<lambda>_. False)"
    "hit_opportunity s (\<lambda>_. False) (\<lambda>f. fo_id f = k) = (\<lambda>f. fo_id f = k)"
    "hit_readiness s (\<lambda>_. False) (\<lambda>_. False) (\<lambda>f. fo_id f = k) = (\<lambda>_. False)"
    using assms by (auto simp: hit_package_def hit_readiness_def hit_opportunity_def fun_eq_iff)
  moreover have "marked fo_live (mark_opportunity w n) (\<lambda>r. fo_id r = k) (opportunities s) = opportunities s"
    unfolding marked_def using assms by (intro modify_none) auto
  ultimately show ?thesis by (simp add: cascade_spec_def staled_def)
qed

lemma stale_opportunity_spec:
  assumes mp: "mark_pending s"
  shows "cascade_spec w n (\<lambda>_. False) (\<lambda>_. False) (\<lambda>f. fo_id f = k) s (stale_opportunity w n a s k)"
proof -
  have u: "distinct (map fo_id (current (opportunities s)))" using mp by (simp add: mark_pending_def)
  show ?thesis
  proof (cases "\<exists>f. find_row fo_id k (opportunities s) = Some f \<and> fo_live f")
    case True
    then obtain f where f: "find_row fo_id k (opportunities s) = Some f" "fo_live f" by blast
    note fk = find_row_Some [OF f(1)]
    define s1 where "s1 = record_derived_transition (fo_engagement_id f) opportunity_type k
      (lit ''factory_opportunity.staled'') w a
      (s\<lparr>opportunities := modify (\<lambda>r. fo_id r = k) (mark_opportunity w n) (opportunities s)\<rparr>)"
    define s2 where "s2 = foldl (stale_readiness w n a) s1
      (map ra_id (select (\<lambda>r. (ra_engagement_id r = fo_engagement_id f \<and> ra_opportunity_id r = k)
         \<and> ra_status r \<noteq> AStale) (readiness_rows s1)))"
    have 1: "staled w n (\<lambda>_. False) (\<lambda>_. False) (\<lambda>f. fo_id f = k) (\<lambda>_. False) s s1"
      using marked_find [where live = fo_live, OF u f] by (simp add: s1_def staled_def)
    note mp1 = staled_mark_pending [OF 1 mp]
    have 2: "cascade_spec w n (\<lambda>_. False)
        (\<lambda>r. ra_engagement_id r = fo_engagement_id f \<and> ra_opportunity_id r = k) (\<lambda>_. False) s1 s2"
      unfolding s2_def by (rule stale_readiness_loop [OF mp1]) simp
    note mp2 = staled_mark_pending [OF 2 [unfolded cascade_spec_def] mp1]
    note 3 = stale_packages_staled [OF mp2,
        of "\<lambda>p. pk_engagement_id p = fo_engagement_id f \<and> pk_opportunity_id p = k" w n a]
    have only: "f' = f" if "f' \<in> set (current (opportunities s))" "fo_id f' = k" for f'
      using unique_key [OF u] fk that by metis
    have F: "hit_opportunity s (\<lambda>_. False) (\<lambda>f. fo_id f = k) = (\<lambda>f. fo_id f = k)"
      "hit_opportunity s1 (\<lambda>_. False) (\<lambda>_. False) = (\<lambda>_. False)"
      by (simp_all add: hit_opportunity_def fun_eq_iff)
    have R: "hit_readiness s (\<lambda>_. False) (\<lambda>_. False) (\<lambda>f. fo_id f = k)
        = (\<lambda>r. ra_engagement_id r = fo_engagement_id f \<and> ra_opportunity_id r = k)"
      using fk f(2) only by (auto simp: hit_readiness_def F ra_of_opportunity_def fun_eq_iff)
    have R1: "hit_readiness s1 (\<lambda>_. False) R (\<lambda>_. False) = R" for R
      by (auto simp: hit_readiness_def F fun_eq_iff)
    have rs1: "readiness_rows s1 = readiness_rows s" by (simp add: s1_def)
    have P: "(\<lambda>p. hit_package s1 (\<lambda>_. False)
           (\<lambda>r. ra_engagement_id r = fo_engagement_id f \<and> ra_opportunity_id r = k) (\<lambda>_. False) p
         \<or> pk_engagement_id p = fo_engagement_id f \<and> pk_opportunity_id p = k)
        = hit_package s (\<lambda>_. False) (\<lambda>_. False) (\<lambda>f. fo_id f = k)"
      using fk f(2) only
      by (auto simp: hit_package_def R R1 F pk_of_opportunity_def fun_eq_iff rs1)
    have 23: "staled w n (\<lambda>_. False) (\<lambda>r. ra_engagement_id r = fo_engagement_id f \<and> ra_opportunity_id r = k)
        (\<lambda>_. False) (hit_package s (\<lambda>_. False) (\<lambda>_. False) (\<lambda>f. fo_id f = k)) s1
        (foldl (stale_package w n a) s2 (map pk_id (select (\<lambda>p. (pk_engagement_id p = fo_engagement_id f
           \<and> pk_opportunity_id p = k) \<and> \<not> package_terminal (pk_status p)) (packages s2))))"
      using staled_trans [OF 2 [unfolded cascade_spec_def] 3] by (simp add: R1 F P)
    have run: "stale_opportunity w n a s k = foldl (stale_package w n a) s2
        (map pk_id (select (\<lambda>p. (pk_engagement_id p = fo_engagement_id f
           \<and> pk_opportunity_id p = k) \<and> \<not> package_terminal (pk_status p)) (packages s2)))"
      unfolding stale_opportunity_def f(1) s2_def s1_def Let_def option.case fo_live_iff
      using f(2) by simp
    show ?thesis
      using staled_compose_first [OF 1 23] unfolding run cascade_spec_def R F by simp
  next
    case False
    have "cascade_spec w n (\<lambda>_. False) (\<lambda>_. False) (\<lambda>f. fo_id f = k) s s"
      by (rule dead_opportunity) (use False u find_row_unique in metis)
    then show ?thesis using False by (auto simp: stale_opportunity_def fo_live_def split: option.splits)
  qed
qed

lemma stale_opportunity_loop:
  assumes mp: "mark_pending s" and Q: "\<And>a w n. Q (mark_opportunity w n a) = Q a"
  shows "cascade_spec w n (\<lambda>_. False) (\<lambda>_. False) Q s
    (foldl (stale_opportunity w n a) s
      (map fo_id (select (\<lambda>r. Q r \<and> fo_status r \<noteq> OStale) (opportunities s))))"
proof -
  let ?ids = "map fo_id (select (\<lambda>r. Q r \<and> fo_status r \<noteq> OStale) (opportunities s))"
  have any: "(\<exists>k \<in> S. x = k) \<longleftrightarrow> x \<in> S" for x :: uuid and S by auto
  have main: "cascade_spec w n (\<lambda>_. False) (\<lambda>_. False) (\<lambda>r. fo_id r \<in> set ?ids) s
      (foldl (stale_opportunity w n a) s ?ids)"
    using cascade_fold [where M = "\<lambda>_ _. False" and F = "\<lambda>k r. fo_id r = k" and R = "\<lambda>_ _. False"
        and f = "stale_opportunity w n a" and ks = ?ids, OF stale_opportunity_spec mp]
    by (simp only: any bex_triv simp_thms)
  show ?thesis
  proof (rule cascade_spec_cong [OF main])
    fix r assume r: "r \<in> set (current (opportunities s))" "fo_live r"
    show "(fo_id r \<in> set ?ids) = Q r"
      using mp Q r by (intro selected_iff [where m = "\<lambda>a b. \<exists>w n. b = mark_opportunity w n a" and live = fo_live])
        (auto simp: mark_pending_def fo_live_def)
  qed simp_all
qed

lemma dead_model:
  assumes "\<And>m. m \<in> set (current (customer_models s)) \<Longrightarrow> cm_id m = k \<Longrightarrow> \<not> cm_live m"
  shows "cascade_spec w n (\<lambda>m. cm_id m = k) (\<lambda>_. False) (\<lambda>_. False) s s"
proof -
  have "hit_opportunity s (\<lambda>m. cm_id m = k) (\<lambda>_. False) = (\<lambda>_. False)"
    using assms by (auto simp: hit_opportunity_def fun_eq_iff)
  moreover from this have "hit_readiness s (\<lambda>m. cm_id m = k) (\<lambda>_. False) (\<lambda>_. False) = (\<lambda>_. False)"
    using assms by (auto simp: hit_readiness_def fun_eq_iff)
  ultimately have "hit_package s (\<lambda>m. cm_id m = k) (\<lambda>_. False) (\<lambda>_. False) = (\<lambda>_. False)"
    "hit_opportunity s (\<lambda>m. cm_id m = k) (\<lambda>_. False) = (\<lambda>_. False)"
    "hit_readiness s (\<lambda>m. cm_id m = k) (\<lambda>_. False) (\<lambda>_. False) = (\<lambda>_. False)"
    by (auto simp: hit_package_def fun_eq_iff)
  moreover have "marked cm_live (mark_model w n) (\<lambda>r. cm_id r = k) (customer_models s) = customer_models s"
    unfolding marked_def using assms by (intro modify_none) auto
  ultimately show ?thesis by (simp add: cascade_spec_def staled_def)
qed

lemma stale_customer_model_spec:
  assumes mp: "mark_pending s"
  shows "cascade_spec w n (\<lambda>m. cm_id m = k) (\<lambda>_. False) (\<lambda>_. False) s (stale_customer_model w n a s k)"
proof -
  have u: "distinct (map cm_id (current (customer_models s)))" using mp by (simp add: mark_pending_def)
  show ?thesis
  proof (cases "\<exists>m. find_row cm_id k (customer_models s) = Some m \<and> cm_live m")
    case True
    then obtain m where m: "find_row cm_id k (customer_models s) = Some m" "cm_live m" by blast
    note mk = find_row_Some [OF m(1)]
    define Q where "Q = (\<lambda>r :: readiness. ra_engagement_id r = cm_engagement_id m \<and> ra_model_id r = k)"
    define Q' where "Q' = (\<lambda>f :: opportunity. fo_engagement_id f = cm_engagement_id m \<and> fo_model_id f = k)"
    define s1 where "s1 = record_derived_transition (cm_engagement_id m) model_type k
      (lit ''customer_factory_model.staled'') w a
      (s\<lparr>customer_models := modify (\<lambda>r. cm_id r = k) (mark_model w n) (customer_models s)\<rparr>)"
    define s2 where "s2 = foldl (stale_readiness w n a) s1
      (map ra_id (select (\<lambda>r. Q r \<and> ra_status r \<noteq> AStale) (readiness_rows s1)))"
    have 1: "staled w n (\<lambda>m. cm_id m = k) (\<lambda>_. False) (\<lambda>_. False) (\<lambda>_. False) s s1"
      using marked_find [where live = cm_live, OF u m] by (simp add: s1_def staled_def)
    note mp1 = staled_mark_pending [OF 1 mp]
    have 2: "cascade_spec w n (\<lambda>_. False) Q (\<lambda>_. False) s1 s2"
      unfolding s2_def by (rule stale_readiness_loop [OF mp1]) (simp add: Q_def)
    note mp2 = staled_mark_pending [OF 2 [unfolded cascade_spec_def] mp1]
    have 3: "cascade_spec w n (\<lambda>_. False) (\<lambda>_. False) Q' s2 (foldl (stale_opportunity w n a) s2
        (map fo_id (select (\<lambda>r. Q' r \<and> fo_status r \<noteq> OStale) (opportunities s2))))"
      by (rule stale_opportunity_loop [OF mp2]) (simp add: Q'_def)
    note 23 = cascade_spec_trans [OF 2 3, unfolded simp_thms]
    have tabs: "readiness_rows s1 = readiness_rows s" "opportunities s1 = opportunities s"
      by (simp_all add: s1_def)
    have only: "m' = m" if "m' \<in> set (current (customer_models s))" "cm_id m' = k" for m'
      using unique_key [OF u] mk that by metis
    have F: "hit_opportunity s (\<lambda>m. cm_id m = k) (\<lambda>_. False) = Q'"
      using mk m(2) only by (auto simp: hit_opportunity_def fo_of_model_def fun_eq_iff Q'_def)
    have F1: "hit_opportunity s1 (\<lambda>_. False) Q' = Q'" by (simp add: hit_opportunity_def fun_eq_iff)
    have R: "hit_readiness s (\<lambda>m. cm_id m = k) (\<lambda>_. False) (\<lambda>_. False) = hit_readiness s1 (\<lambda>_. False) Q Q'"
      using mk m(2) only by (auto simp: hit_readiness_def F F1 ra_of_model_def tabs fun_eq_iff Q_def)
    have P: "hit_package s (\<lambda>m. cm_id m = k) (\<lambda>_. False) (\<lambda>_. False) = hit_package s1 (\<lambda>_. False) Q Q'"
      by (auto simp: hit_package_def F F1 R tabs fun_eq_iff)
    have run: "stale_customer_model w n a s k = foldl (stale_opportunity w n a) s2
        (map fo_id (select (\<lambda>r. Q' r \<and> fo_status r \<noteq> OStale) (opportunities s2)))"
      unfolding stale_customer_model_def m(1) s2_def s1_def Let_def option.case Q_def Q'_def
      using m(2) by simp
    show ?thesis
      using staled_trans [OF 1 23 [unfolded cascade_spec_def]] unfolding run cascade_spec_def F R P F1
      by simp
  next
    case False
    have "cascade_spec w n (\<lambda>m. cm_id m = k) (\<lambda>_. False) (\<lambda>_. False) s s"
      by (rule dead_model) (use False u find_row_unique in metis)
    then show ?thesis using False by (auto simp: stale_customer_model_def split: option.splits)
  qed
qed

lemma stale_models_loop:
  assumes mp: "mark_pending s"
  shows "cascade_spec w n (\<lambda>m. cm_id m \<in> set ids) (\<lambda>_. False) (\<lambda>_. False) s
    (foldl (stale_customer_model w n a) s ids)"
proof -
  have any: "(\<exists>k \<in> S. x = k) \<longleftrightarrow> x \<in> S" for x :: uuid and S by auto
  show ?thesis
    using cascade_fold [where M = "\<lambda>k m. cm_id m = k" and R = "\<lambda>_ _. False" and F = "\<lambda>_ _. False"
        and f = "stale_customer_model w n a" and ks = ids, OF stale_customer_model_spec mp]
    by (simp only: any bex_triv simp_thms)
qed

end
