(* ===== verification/FactoryService.thy ===== *)
theory FactoryService
  imports DesignPartner FactoryRefs CascadeSpec
begin

text \<open>
  \<open>modules/factory_engineer/service.py\<close>: the operations on customer factory models, opportunities
  and readiness assessments, and the entry points that make them stale.  An operation takes the
  operator, the time (\<open>now or datetime.now(UTC)\<close>) and the id a new row gets; \<open>Inl\<close> is the
  exception that rolls the transaction back, \<open>Inr\<close> the session state it returns with.  The
  arguments that are schema objects have passed their validation (see \<open>FactorySystem\<close>).
\<close>

section \<open>Shared steps\<close>

definition max_factory_aggregate_bytes :: nat where
  "max_factory_aggregate_bytes = 512 * 1024"

definition within_limit :: "nat \<Rightarrow> json \<Rightarrow> pystr \<Rightarrow> unit outcome" where
  "within_limit n v msg =
     bindE (lift_canon (canonical_json_bytes v)) (\<lambda>bs. require (length bs \<le> n) (StateError msg))"

text \<open>\<open>select(func.max(column)).where(...)\<close> reads the flushed rows.\<close>

definition stored_max :: "('r \<Rightarrow> int) \<Rightarrow> ('r \<Rightarrow> bool) \<Rightarrow> 'r table \<Rightarrow> int" where
  "stored_max k P t = next_version (map k (filter P (stored_rows t)))"

definition version_text :: "string \<Rightarrow> int \<Rightarrow> pystr" where
  "version_text prefix n = lit prefix @ dec_int n @ lit ''.''"

section \<open>Customer factory models\<close>

definition drafted_model :: "uuid \<Rightarrow> uuid \<Rightarrow> int \<Rightarrow> customer_model_input \<Rightarrow> pystr \<Rightarrow> operator \<Rightarrow> customer_model" where
  "drafted_model nid eid v i d opr =
     \<lparr>cm_id = nid, cm_engagement_id = eid, cm_version = v, cm_status = MDraft,
      cm_columns = model_columns_of i, cm_content_digest = d, cm_created_by_id = op_id opr,
      cm_approved_by_id = None, cm_approved_at = None, cm_stale_reason = None, cm_staled_at = None\<rparr>"

definition create_customer_factory_model ::
  "uuid \<Rightarrow> operator \<Rightarrow> customer_model_input \<Rightarrow> uuid \<Rightarrow> store \<Rightarrow> store outcome" where
  "create_customer_factory_model eid opr i nid s =
     bindE (lock_active_engagement eid s) (\<lambda>_.
     let payload = customer_model_input_json i in
     bindE (within_limit max_factory_aggregate_bytes payload
       (lit ''The customer factory model exceeds 512 KiB.'')) (\<lambda>_.
     bindE (collect_source_references payload) (\<lambda>refs.
     bindE (validate_source_references s eid refs) (\<lambda>_.
     bindE (lift_canon (canonical_sha256 payload)) (\<lambda>d.
     let v = stored_max cm_version (\<lambda>r. cm_engagement_id r = eid) (customer_models s);
         m = drafted_model nid eid v i d opr
     in bindE (flush_session (s\<lparr>customer_models := add m (customer_models s)\<rparr>)) (\<lambda>s1.
        Inr (record_event eid model_type nid opr (lit ''customer_factory_model.drafted'') (JObj []) s1)))))))"

definition approve_model :: "operator \<Rightarrow> time \<Rightarrow> customer_model \<Rightarrow> customer_model" where
  "approve_model opr now r =
     r\<lparr>cm_status := MApproved, cm_approved_by_id := Some (op_id opr), cm_approved_at := Some now\<rparr>"

definition approve_customer_factory_model ::
  "uuid \<Rightarrow> uuid \<Rightarrow> operator \<Rightarrow> time \<Rightarrow> store \<Rightarrow> store outcome" where
  "approve_customer_factory_model eid mid opr now s =
     bindE (require_human opr (lit ''Customer factory model approval'')) (\<lambda>_.
     bindE (lock_active_engagement eid s) (\<lambda>_.
     bindE (get_model eid mid s) (\<lambda>m.
     bindE (require (cm_status m = MDraft)
       (StateError (lit ''Only a draft customer factory model can be approved.''))) (\<lambda>_.
     let older = select (\<lambda>r. cm_engagement_id r = eid \<and> cm_id r \<noteq> cm_id m \<and> cm_status r = MApproved)
                   (customer_models s);
         reason = version_text ''Superseded by approved customer model version '' (cm_version m)
     in bindE (flush_session (foldl (stale_customer_model reason now (Some (op_id opr))) s (map cm_id older)))
          (\<lambda>s1. flush_session (record_event (cm_engagement_id m) model_type (cm_id m) opr
             (lit ''customer_factory_model.approved'') (JObj [])
             (s1\<lparr>customer_models := modify (\<lambda>r. cm_id r = cm_id m) (approve_model opr now)
                 (customer_models s1)\<rparr>)))))))"

section \<open>Staling entry points\<close>

text \<open>
  \<open>str(value.get("id"))\<close>; the text of an object or a list starts with a bracket or a brace, so it
  is never the text of a reference and is left out.
\<close>

definition scalar_text :: "json option \<Rightarrow> pystr option" where
  "scalar_text v = (case v of
       None \<Rightarrow> Some (lit ''None'')
     | Some JNull \<Rightarrow> Some (lit ''None'')
     | Some (JBool b) \<Rightarrow> Some (if b then lit ''True'' else lit ''False'')
     | Some (JInt i) \<Rightarrow> Some (dec_int i)
     | Some (JFloat r) \<Rightarrow> Some r
     | Some (JStr s) \<Rightarrow> Some s
     | _ \<Rightarrow> None)"

function (sequential) contains_reference :: "json \<Rightarrow> pystr \<Rightarrow> bool"
  and contains_in_list :: "json list \<Rightarrow> pystr \<Rightarrow> bool"
  and contains_in_items :: "(json \<times> json) list \<Rightarrow> pystr \<Rightarrow> bool" where
  "contains_reference (JObj kvs) rf \<longleftrightarrow>
     jget ''ref'' (JObj kvs) = Some (JStr rf) \<or> scalar_text (jget ''id'' (JObj kvs)) = Some rf
     \<or> contains_in_items kvs rf"
| "contains_reference (JList xs) rf \<longleftrightarrow> contains_in_list xs rf"
| "contains_reference _ rf \<longleftrightarrow> False"
| "contains_in_list [] rf \<longleftrightarrow> False"
| "contains_in_list (x # xs) rf \<longleftrightarrow> contains_reference x rf \<or> contains_in_list xs rf"
| "contains_in_items [] rf \<longleftrightarrow> False"
| "contains_in_items ((k, v) # kvs) rf \<longleftrightarrow> contains_reference v rf \<or> contains_in_items kvs rf"
  by pat_completeness auto
termination
  by (relation "measure (\<lambda>x. case x of Inl (v, _) \<Rightarrow> size v
      | Inr (Inl (vs, _)) \<Rightarrow> size_list size vs
      | Inr (Inr (kvs, _)) \<Rightarrow> size_list (size_prod size size) kvs)") auto

definition model_contains_reference :: "customer_model \<Rightarrow> pystr \<Rightarrow> bool" where
  "model_contains_reference m rf =
     (let c = cm_columns m in
      list_ex (\<lambda>v. contains_reference v rf)
        [mc_organization c, mc_systems c, mc_repositories c, mc_environments c, mc_workflows c,
         mc_policies c, mc_authority_boundaries c, mc_constraints c, mc_risks c, mc_baselines c,
         mc_evidence_refs c, mc_verified_claim_refs c, mc_assumption_refs c,
         mc_factory_opportunity_refs c])"

definition stale_models_for_upstream_reference ::
  "uuid \<Rightarrow> pystr \<Rightarrow> pystr \<Rightarrow> time \<Rightarrow> uuid option \<Rightarrow> store \<Rightarrow> store outcome" where
  "stale_models_for_upstream_reference eid upstream reason now actor s =
     bindE (lock_active_engagement eid s) (\<lambda>_.
     let models = select (\<lambda>r. cm_engagement_id r = eid \<and> cm_status r \<in> {MDraft, MApproved}) (customer_models s);
         affected = filter (\<lambda>m. model_contains_reference m upstream) models
     in Inr (foldl (stale_customer_model reason now actor) s (map cm_id affected)))"

definition stale_all_customer_models ::
  "uuid \<Rightarrow> pystr \<Rightarrow> time \<Rightarrow> uuid option \<Rightarrow> store \<Rightarrow> store outcome" where
  "stale_all_customer_models eid reason now actor s =
     bindE (lock_active_engagement eid s) (\<lambda>_.
     let affected = select (\<lambda>r. cm_engagement_id r = eid \<and> cm_status r \<in> {MDraft, MApproved}) (customer_models s)
     in Inr (foldl (stale_customer_model reason now actor) s (map cm_id affected)))"

definition stale_all_after_current_workflow_change ::
  "uuid \<Rightarrow> pystr \<Rightarrow> time \<Rightarrow> uuid option \<Rightarrow> store \<Rightarrow> store outcome" where
  "stale_all_after_current_workflow_change eid reason now actor s =
     bindE (lock_active_engagement eid s) (\<lambda>_.
     let rows = select (\<lambda>r. ra_engagement_id r = eid \<and> ra_status r \<noteq> AStale) (readiness_rows s);
         opps = select (\<lambda>r. fo_engagement_id r = eid \<and> fo_status r \<noteq> OStale) (opportunities s)
     in Inr (foldl (stale_opportunity reason now actor)
               (foldl (stale_readiness reason now actor) s (map ra_id rows)) (map fo_id opps)))"

definition stale_all_after_target_workflow_change ::
  "uuid \<Rightarrow> pystr \<Rightarrow> time \<Rightarrow> uuid option \<Rightarrow> store \<Rightarrow> store outcome" where
  "stale_all_after_target_workflow_change eid reason now actor s =
     bindE (lock_active_engagement eid s) (\<lambda>_.
     Inr (foldl (stale_readiness reason now actor) s
       (map ra_id (select (\<lambda>r. ra_engagement_id r = eid \<and> ra_status r \<noteq> AStale) (readiness_rows s)))))"

definition stale_all_after_economic_change ::
  "uuid \<Rightarrow> pystr \<Rightarrow> time \<Rightarrow> uuid option \<Rightarrow> store \<Rightarrow> store outcome" where
  "stale_all_after_economic_change eid reason now actor s =
     bindE (lock_active_engagement eid s) (\<lambda>_.
     Inr (foldl (stale_opportunity reason now actor) s
       (map fo_id (select (\<lambda>r. fo_engagement_id r = eid \<and> fo_status r \<noteq> OStale) (opportunities s)))))"

definition stale_all_packages_after_artifact_change ::
  "uuid \<Rightarrow> pystr \<Rightarrow> time \<Rightarrow> uuid option \<Rightarrow> store \<Rightarrow> store outcome" where
  "stale_all_packages_after_artifact_change eid reason now actor s =
     bindE (lock_active_engagement eid s) (\<lambda>_.
     Inr (foldl (stale_package reason now actor) s
       (map pk_id (select (\<lambda>p. pk_engagement_id p = eid \<and> \<not> package_terminal (pk_status p)) (packages s)))))"

section \<open>Readiness assessments\<close>

definition lift_criteria :: "(criteria_error, 'a) result \<Rightarrow> 'a outcome" where
  "lift_criteria r = (case r of Inl e \<Rightarrow> Inl (CriteriaError e) | Inr x \<Rightarrow> Inr x)"

lemma lift_criteria_Inr [result_simps]: "lift_criteria r = Inr x \<longleftrightarrow> r = Inr x"
  by (cases r) (simp_all add: lift_criteria_def)

definition drafted_readiness :: "uuid \<Rightarrow> uuid \<Rightarrow> int \<Rightarrow> readiness_status \<Rightarrow> customer_model \<Rightarrow> opportunity
    \<Rightarrow> version_ref \<Rightarrow> version_ref \<Rightarrow> stage_snapshot list \<Rightarrow> pystr \<Rightarrow> operator \<Rightarrow> readiness" where
  "drafted_readiness nid eid v overall m f cur tgt stages d opr =
     \<lparr>ra_id = nid, ra_engagement_id = eid, ra_version = v, ra_status = ADraft,
      ra_overall_status = overall, ra_model_id = cm_id m, ra_model_version = cm_version m,
      ra_opportunity_id = fo_id f, ra_opportunity_version = fo_version f,
      ra_current_workflow_ref = cur, ra_target_workflow_ref = tgt, ra_stages = stages,
      ra_content_digest = d, ra_created_by_id = op_id opr, ra_approved_by_id = None,
      ra_approved_at = None, ra_stale_reason = None, ra_staled_at = None\<rparr>"

definition create_readiness_assessment ::
  "uuid \<Rightarrow> operator \<Rightarrow> uuid \<Rightarrow> uuid \<Rightarrow> uuid \<Rightarrow> uuid \<Rightarrow> stage_input list \<Rightarrow> time \<Rightarrow> uuid \<Rightarrow> store
    \<Rightarrow> store outcome" where
  "create_readiness_assessment eid opr mid fid cwid twid inp now nid s =
     bindE (lock_active_engagement eid s) (\<lambda>_.
     bindE (get_model eid mid s) (\<lambda>m.
     bindE (require (cm_status m = MApproved)
       (StateError (lit ''Readiness requires an approved customer factory model.''))) (\<lambda>_.
     bindE (get_opportunity eid fid s) (\<lambda>f.
     bindE (require (fo_status f = OSelected \<and> fo_model_id f = cm_id m) (StateError
       (lit ''Final readiness requires a selected opportunity from the same customer model.''))) (\<lambda>_.
     bindE (validate_opportunity_row_sources s f) (\<lambda>_.
     bindE (approved_workflow eid cwid Current s) (\<lambda>cw.
     bindE (approved_workflow eid twid Target s) (\<lambda>tw.
     let payload = assessment_input_json inp in
     bindE (within_limit max_factory_aggregate_bytes payload
       (lit ''The readiness assessment exceeds 512 KiB.'')) (\<lambda>_.
     bindE (collect_source_references payload) (\<lambda>refs.
     bindE (validate_source_references s eid refs) (\<lambda>_.
     bindE (lift_criteria (evaluate_readiness now inp)) (\<lambda>(overall, stages).
     bindE (workflow_version_reference s cw) (\<lambda>cur.
     bindE (workflow_version_reference s tw) (\<lambda>tgt.
     bindE (require (fo_source_workflow_ref f = cur) (StateError
       (lit ''The selected opportunity does not reference this current workflow version.''))) (\<lambda>_.
     bindE (model_ref m) (\<lambda>mr.
     bindE (opportunity_ref s f) (\<lambda>fr.
     bindE (lift_canon (canonical_sha256 (readiness_payload mr fr cur tgt stages))) (\<lambda>d.
     let v = stored_max ra_version (\<lambda>r. ra_engagement_id r = eid) (readiness_rows s);
         r = drafted_readiness nid eid v overall m f cur tgt stages d opr
     in bindE (flush_session (s\<lparr>readiness_rows := add r (readiness_rows s)\<rparr>)) (\<lambda>s1.
        Inr (record_event eid readiness_type nid opr (lit ''fdlc_readiness.assessed'') (JObj []) s1))))))))))))))))))))"

definition approve_readiness :: "operator \<Rightarrow> time \<Rightarrow> readiness \<Rightarrow> readiness" where
  "approve_readiness opr now r =
     r\<lparr>ra_status := AApproved, ra_approved_by_id := Some (op_id opr), ra_approved_at := Some now\<rparr>"

definition approve_readiness_assessment ::
  "uuid \<Rightarrow> uuid \<Rightarrow> operator \<Rightarrow> time \<Rightarrow> store \<Rightarrow> store outcome" where
  "approve_readiness_assessment eid rid opr now s =
     bindE (require_human opr (lit ''Readiness approval'')) (\<lambda>_.
     bindE (lock_active_engagement eid s) (\<lambda>_.
     bindE (get_readiness eid rid s) (\<lambda>r.
     bindE (require (ra_status r = ADraft)
       (StateError (lit ''Only a draft readiness assessment can be approved.''))) (\<lambda>_.
     bindE (require (ra_overall_status r = Ready)
       (StateError (lit ''All seven FDLC stages must be READY before readiness approval.''))) (\<lambda>_.
     bindE (get_model eid (ra_model_id r) s) (\<lambda>m.
     bindE (require (cm_status m = MApproved)
       (StateError (lit ''The readiness customer model is no longer current.''))) (\<lambda>_.
     bindE (get_opportunity eid (ra_opportunity_id r) s) (\<lambda>f.
     bindE (require (fo_status f = OSelected \<and> fo_version f = ra_opportunity_version r)
       (StateError (lit ''The selected opportunity is no longer current.''))) (\<lambda>_.
     bindE (assert_workflow_ref_current eid (ra_current_workflow_ref r) Current s) (\<lambda>_.
     bindE (assert_workflow_ref_current eid (ra_target_workflow_ref r) Target s) (\<lambda>_.
     let older = select (\<lambda>x. ra_engagement_id x = eid \<and> ra_id x \<noteq> ra_id r \<and> ra_status x = AApproved)
                   (readiness_rows s);
         reason = version_text ''Superseded by readiness version '' (ra_version r)
     in bindE (flush_session (foldl (stale_readiness reason now (Some (op_id opr))) s (map ra_id older)))
          (\<lambda>s1. flush_session (record_event (ra_engagement_id r) readiness_type (ra_id r) opr
             (lit ''fdlc_readiness.approved'') (JObj [])
             (s1\<lparr>readiness_rows := modify (\<lambda>x. ra_id x = ra_id r) (approve_readiness opr now)
                 (readiness_rows s1)\<rparr>))))))))))))))"

section \<open>Opportunities\<close>

definition drafted_opportunity :: "uuid \<Rightarrow> uuid \<Rightarrow> int \<Rightarrow> opportunity_status \<Rightarrow> customer_model
    \<Rightarrow> opportunity_input \<Rightarrow> opportunity_score \<Rightarrow> pystr \<Rightarrow> operator \<Rightarrow> opportunity" where
  "drafted_opportunity nid eid v st m i sc d opr =
     \<lparr>fo_id = nid, fo_engagement_id = eid, fo_key = oi_key i, fo_version = v, fo_status = st,
      fo_name = oi_name i, fo_description = oi_description i,
      fo_source_workflow_ref = oi_source_workflow_ref i, fo_model_id = cm_id m,
      fo_model_version = cm_version m, fo_score = sc, fo_factors = oi_factors i,
      fo_economics_ref = oi_economics_ref i, fo_evidence_refs = oi_evidence_refs i,
      fo_blockers = oi_blockers i, fo_content_digest = d, fo_created_by_id = op_id opr,
      fo_selected_by_id = None, fo_selected_at = None, fo_selection_reason = None,
      fo_rejected_by_id = None, fo_rejected_at = None, fo_rejection_reason = None,
      fo_stale_reason = None, fo_staled_at = None\<rparr>"

definition assessed_status :: "opportunity_score \<Rightarrow> opportunity_status" where
  "assessed_status sc =
     (if take 9 (os_recommendation sc) = lit ''RECOMMEND'' then ORecommended else OAssessed)"

definition create_factory_opportunity ::
  "uuid \<Rightarrow> operator \<Rightarrow> uuid \<Rightarrow> opportunity_input \<Rightarrow> time \<Rightarrow> uuid \<Rightarrow> store \<Rightarrow> store outcome" where
  "create_factory_opportunity eid opr mid i now nid s =
     bindE (lock_active_engagement eid s) (\<lambda>_.
     bindE (get_model eid mid s) (\<lambda>m.
     bindE (require (cm_status m = MApproved)
       (StateError (lit ''Opportunity scoring requires a current customer model.''))) (\<lambda>_.
     bindE (approved_workflow eid (vr_id (oi_source_workflow_ref i)) Current s) (\<lambda>w.
     bindE (workflow_version_reference s w) (\<lambda>wr.
     bindE (require (wr = oi_source_workflow_ref i) (StateError
       (lit ''Opportunity scoring requires an exact current-workflow version reference.''))) (\<lambda>_.
     bindE (within_limit max_factory_aggregate_bytes (opportunity_input_json i)
       (lit ''The factory opportunity exceeds 512 KiB.'')) (\<lambda>_.
     bindE (validate_source_reference s eid (oi_economics_ref i)) (\<lambda>_.
     bindE (validate_source_references s eid (oi_evidence_refs i)) (\<lambda>_.
     let sc = score_factory_opportunity (oi_factors i) (oi_blockers i);
         previous = select (\<lambda>r. fo_engagement_id r = eid \<and> fo_key r = oi_key i \<and> fo_status r \<noteq> OStale)
                      (opportunities s);
         s1 = foldl (stale_opportunity (lit ''A new scored version was created.'') now (Some (op_id opr)))
                s (map fo_id previous)
     in bindE (model_ref m) (\<lambda>mr.
     bindE (lift_canon (canonical_sha256 (opportunity_payload i sc mr))) (\<lambda>d.
     let v = stored_max fo_version (\<lambda>r. fo_engagement_id r = eid \<and> fo_key r = oi_key i) (opportunities s1);
         f = drafted_opportunity nid eid v (assessed_status sc) m i sc d opr
     in bindE (flush_session (s1\<lparr>opportunities := add f (opportunities s1)\<rparr>)) (\<lambda>s2.
        Inr (record_event eid opportunity_type nid opr (lit ''factory_opportunity.assessed'')
          (JObj []) s2)))))))))))))"

definition select_opportunity :: "operator \<Rightarrow> time \<Rightarrow> pystr \<Rightarrow> opportunity \<Rightarrow> opportunity" where
  "select_opportunity opr now reason r =
     r\<lparr>fo_status := OSelected, fo_selected_by_id := Some (op_id opr), fo_selected_at := Some now,
       fo_selection_reason := Some reason\<rparr>"

definition select_factory_opportunity ::
  "uuid \<Rightarrow> uuid \<Rightarrow> operator \<Rightarrow> pystr \<Rightarrow> time \<Rightarrow> store \<Rightarrow> store outcome" where
  "select_factory_opportunity eid fid opr reason now s =
     bindE (require_human opr (lit ''Opportunity selection'')) (\<lambda>_.
     bindE (lock_active_engagement eid s) (\<lambda>_.
     bindE (get_opportunity eid fid s) (\<lambda>f.
     bindE (require (fo_status f \<in> {OAssessed, ORecommended})
       (StateError (lit ''Only a current assessed opportunity can be selected.''))) (\<lambda>_.
     bindE (require (fo_blockers f = [])
       (StateError (lit ''Resolve opportunity blockers before selection.''))) (\<lambda>_.
     bindE (validate_opportunity_row_sources s f) (\<lambda>_.
     let clean_reason = py_strip reason in
     bindE (require (clean_reason \<noteq> [])
       (StateError (lit ''Opportunity selection requires a recorded rationale.''))) (\<lambda>_.
     let others = select (\<lambda>r. fo_engagement_id r = eid \<and> fo_id r \<noteq> fo_id f \<and> fo_status r = OSelected)
                    (opportunities s);
         why = lit ''A different opportunity ('' @ uuid_str (fo_id f) @ lit '') was selected.''
     in bindE (flush_session (foldl (stale_opportunity why now (Some (op_id opr))) s (map fo_id others)))
          (\<lambda>s1. flush_session (record_event (fo_engagement_id f) opportunity_type (fo_id f) opr
             (lit ''factory_opportunity.selected'') (JObj [])
             (s1\<lparr>opportunities := modify (\<lambda>r. fo_id r = fo_id f) (select_opportunity opr now clean_reason)
                 (opportunities s1)\<rparr>))))))))))"

definition reject_opportunity :: "operator \<Rightarrow> time \<Rightarrow> pystr \<Rightarrow> opportunity \<Rightarrow> opportunity" where
  "reject_opportunity opr now reason r =
     r\<lparr>fo_status := ORejected, fo_rejected_by_id := Some (op_id opr), fo_rejected_at := Some now,
       fo_rejection_reason := Some reason\<rparr>"

definition reject_factory_opportunity ::
  "uuid \<Rightarrow> uuid \<Rightarrow> operator \<Rightarrow> pystr \<Rightarrow> time \<Rightarrow> store \<Rightarrow> store outcome" where
  "reject_factory_opportunity eid fid opr reason now s =
     bindE (require_human opr (lit ''Opportunity rejection'')) (\<lambda>_.
     bindE (lock_active_engagement eid s) (\<lambda>_.
     bindE (get_opportunity eid fid s) (\<lambda>f.
     bindE (require (fo_status f \<in> {OCandidate, OAssessed, ORecommended})
       (StateError (lit ''Only a current unselected opportunity can be rejected.''))) (\<lambda>_.
     let clean_reason = py_strip reason in
     bindE (require (clean_reason \<noteq> [])
       (StateError (lit ''Opportunity rejection requires a recorded rationale.''))) (\<lambda>_.
     flush_session (record_event (fo_engagement_id f) opportunity_type (fo_id f) opr
       (lit ''factory_opportunity.rejected'') (obj [(''reason'', JStr clean_reason)])
       (s\<lparr>opportunities := modify (\<lambda>r. fo_id r = fo_id f) (reject_opportunity opr now clean_reason)
           (opportunities s)\<rparr>)))))))"

end
