(* ===== verification/FactoryPackages.thy ===== *)
theory FactoryPackages
  imports FactoryService
begin

text \<open>
  \<open>modules/factory_engineer/service.py\<close>: the deployment packages: their lineage checks, the
  immutable document, its digest and envelope, and the operations that draft, review, approve,
  publish, reject and revoke them.
\<close>

definition package_schema_version :: pystr where
  "package_schema_version = lit ''fdlc.factory-deployment-package/v1''"

definition max_package_input_bytes :: nat where
  "max_package_input_bytes = 240000"

definition max_published_envelope_bytes :: nat where
  "max_published_envelope_bytes = 256000"

section \<open>Lineage\<close>

definition validate_package_sources :: "customer_model \<Rightarrow> readiness \<Rightarrow> opportunity \<Rightarrow> unit outcome" where
  "validate_package_sources m r f =
     bindE (require (cm_status m = MApproved)
       (StateError (lit ''Deployment package requires an approved customer model.''))) (\<lambda>_.
     bindE (require (ra_status r = AApproved \<and> ra_overall_status r = Ready \<and> ra_model_id r = cm_id m
         \<and> ra_opportunity_id r = fo_id f \<and> ra_opportunity_version r = fo_version f)
       (StateError (lit ''Deployment package requires current approved readiness.''))) (\<lambda>_.
     require (fo_status f = OSelected \<and> fo_model_id f = cm_id m) (StateError
       (lit ''Deployment package requires a selected opportunity from the same source versions.''))))"

definition validate_package_row_sources :: "store \<Rightarrow> package \<Rightarrow> unit outcome" where
  "validate_package_row_sources s p =
     bindE (get_model (pk_engagement_id p) (pk_model_id p) s) (\<lambda>m.
     bindE (get_readiness (pk_engagement_id p) (pk_readiness_id p) s) (\<lambda>r.
     bindE (get_opportunity (pk_engagement_id p) (pk_opportunity_id p) s) (\<lambda>f.
     bindE (validate_package_sources m r f) (\<lambda>_.
     bindE (validate_opportunity_row_sources s f) (\<lambda>_.
     bindE (require (cm_version m = pk_model_version p)
       (StateError (lit ''Customer model version changed after package generation.''))) (\<lambda>_.
     bindE (require (ra_version r = pk_readiness_version p)
       (StateError (lit ''Readiness version changed after package generation.''))) (\<lambda>_.
     bindE (require (fo_version f = pk_opportunity_version p)
       (StateError (lit ''Opportunity version changed after package generation.''))) (\<lambda>_.
     bindE (assert_workflow_ref_current (pk_engagement_id p) (pk_current_workflow_ref p) Current s) (\<lambda>_.
     bindE (assert_workflow_ref_current (pk_engagement_id p) (pk_target_workflow_ref p) Target s) (\<lambda>_.
       Inr ()))))))))))"

section \<open>Approval binding\<close>

definition validate_package_authority_basis :: "store \<Rightarrow> package \<Rightarrow> source_ref \<Rightarrow> unit outcome" where
  "validate_package_authority_basis s p basis =
     bindE (get_model (pk_engagement_id p) (pk_model_id p) s) (\<lambda>m.
     bindE (require (mc_authority_boundaries (cm_columns m) \<noteq> JList []) (StateError
       (lit ''Package approval requires an evidence-backed authority boundary in the customer model.''))) (\<lambda>_.
     bindE (customer_factory_model_authority_reference m) (\<lambda>expected.
     bindE (require (basis = expected) (IntegrityError
       (lit ''Package approval authority must pin its exact approved customer model.''))) (\<lambda>_.
     validate_source_reference s (pk_engagement_id p) basis))))"

definition package_approval_decision_reference ::
  "package \<Rightarrow> uuid \<Rightarrow> source_ref \<Rightarrow> time \<Rightarrow> source_ref outcome" where
  "package_approval_decision_reference p by basis at =
     bindE (lift_canon (canonical_sha256 (obj
       [(''package_version_id'', JStr (uuid_str (pk_id p))),
        (''package_id'', JStr (uuid_str (pk_package_id p))),
        (''package_version'', JInt (pk_version p)), (''decision'', JStr (lit ''APPROVED'')),
        (''approved_by'', JStr (uuid_str by)), (''authority_basis_ref'', source_ref_json basis),
        (''approved_at'', JStr (rfc3339_z at))])))
       (source_reference ApprovedInput (lit ''factory_deployment_package_approval:'' @ uuid_str (pk_id p))
          (Some 1))"

definition make_binding :: "source_ref \<Rightarrow> uuid \<Rightarrow> source_ref \<Rightarrow> time \<Rightarrow> approval_binding outcome" where
  "make_binding decision by basis at =
     (let b = \<lparr>bd_decision_ref = decision, bd_approved_by = by, bd_authorized_by_ref = sr_ref basis,
               bd_authority_basis_ref = basis, bd_approved_at = at\<rparr>
      in bindE (require (valid_binding b) (ValidationError (lit ''ApprovalBinding''))) (\<lambda>_. Inr b))"

definition validate_package_approval_binding :: "store \<Rightarrow> package \<Rightarrow> approval_binding \<Rightarrow> unit outcome" where
  "validate_package_approval_binding s p b =
     bindE (require (pk_approved_by_id p = Some (bd_approved_by b)
         \<and> (case (pk_approved_at p, pk_issued_at p) of
              (Some at, Some iss) \<Rightarrow> rfc3339_z at = rfc3339_z (bd_approved_at b) \<and> at \<le> iss
            | _ \<Rightarrow> False))
       (IntegrityError (lit ''Package approval columns contradict the immutable approval binding.''))) (\<lambda>_.
     bindE (package_approval_decision_reference p (bd_approved_by b) (bd_authority_basis_ref b)
         (bd_approved_at b)) (\<lambda>expected.
     bindE (require (bd_decision_ref b = expected) (IntegrityError
       (lit ''Package approval decision reference does not match its immutable binding.''))) (\<lambda>_.
     bindE (require (bd_authorized_by_ref b = sr_ref (bd_authority_basis_ref b)) (IntegrityError
       (lit ''Package approval authority label does not match its exact authority source.''))) (\<lambda>_.
     validate_package_authority_basis s p (bd_authority_basis_ref b)))))"

section \<open>The immutable document\<close>

definition package_issuer :: "package \<Rightarrow> issuer outcome" where
  "package_issuer p =
     bindE (require (valid_issuer (pk_issuer p)) (ValidationError (lit ''PackageIssuer''))) (\<lambda>_.
       Inr (pk_issuer p))"

definition required_source :: "string \<Rightarrow> 'r option \<Rightarrow> ('r \<Rightarrow> pystr outcome) \<Rightarrow> pystr outcome" where
  "required_source source row digest_of =
     bindE (the_or row (IntegrityError (lit ''Package '' @ lit source @ lit '' source no longer exists.'')))
       digest_of"

definition package_lineage :: "store \<Rightarrow> package \<Rightarrow> source_lineage outcome" where
  "package_lineage s p =
     bindE (required_source ''customer_model'' (session_get cm_id (pk_model_id p) (customer_models s))
       verified_model_digest) (\<lambda>md.
     bindE (version_reference (pk_model_id p) (pk_model_version p) md) (\<lambda>mr.
     bindE (required_source ''readiness'' (session_get ra_id (pk_readiness_id p) (readiness_rows s))
       (verified_readiness_digest s)) (\<lambda>rd.
     bindE (version_reference (pk_readiness_id p) (pk_readiness_version p) rd) (\<lambda>rr.
     bindE (required_source ''opportunity'' (session_get fo_id (pk_opportunity_id p) (opportunities s))
       (verified_opportunity_digest s)) (\<lambda>fd.
     bindE (version_reference (pk_opportunity_id p) (pk_opportunity_version p) fd) (\<lambda>fr.
     bindE (require (valid_version_ref (pk_current_workflow_ref p) \<and> valid_version_ref (pk_target_workflow_ref p))
       (ValidationError (lit ''ImmutableVersionReference''))) (\<lambda>_.
       Inr \<lparr>ln_engagement = pk_engagement_id p, ln_customer_factory_model = mr,
            ln_current_workflow = pk_current_workflow_ref p, ln_target_workflow = pk_target_workflow_ref p,
            ln_readiness_assessment = rr, ln_factory_opportunity = fr\<rparr>)))))))"

definition immutable_package_payload :: "store \<Rightarrow> package \<Rightarrow> pystr option \<Rightarrow> package_document outcome" where
  "immutable_package_payload s p digest =
     (case (pk_issued_at p, pk_approval_binding p) of
        (Some issued, Some b) \<Rightarrow>
          bindE (package_lineage s p) (\<lambda>source.
          bindE (require (valid_package_input (pk_contract p))
            (ValidationError (lit ''FactoryDeploymentPackageInput''))) (\<lambda>_.
          bindE (require (valid_binding b) (ValidationError (lit ''ApprovalBinding''))) (\<lambda>_.
          bindE (validate_package_approval_binding s p b) (\<lambda>_.
          bindE (package_issuer p) (\<lambda>iss.
          let d = (case digest of None \<Rightarrow> lit ''sha256:'' @ replicate 64 48 | Some d \<Rightarrow> d) in
          bindE (require (sha_pattern d) (ValidationError (lit ''PackageIntegrity''))) (\<lambda>_.
          bindE (require (valid_target (pk_target p)) (ValidationError (lit ''DeploymentTarget''))) (\<lambda>_.
            Inr \<lparr>dc_schema_version = pk_schema_version p, dc_package_id = pk_package_id p,
                 dc_package_version = pk_version p, dc_issuer = iss, dc_issued_at = issued,
                 dc_approval = b, dc_digest = d, dc_source = source, dc_target = pk_target p,
                 dc_intent = pk_contract p\<rparr>)))))))
      | _ \<Rightarrow> Inl (StateError (lit ''Package approval binding is incomplete.'')))"

definition calculate_package_digest :: "store \<Rightarrow> package \<Rightarrow> pystr outcome" where
  "calculate_package_digest s p =
     bindE (immutable_package_payload s p None) (\<lambda>d. lift_canon (canonical_sha256 (document_json None d)))"

definition immutable_package_document :: "store \<Rightarrow> package \<Rightarrow> package_document outcome" where
  "immutable_package_document s p =
     (case pk_digest p of
        None \<Rightarrow> Inl (StateError (lit ''The package has not been approved and digested.''))
      | Some d \<Rightarrow>
          bindE (require (d \<noteq> []) (StateError (lit ''The package has not been approved and digested.''))) (\<lambda>_.
          bindE (immutable_package_payload s p (Some d)) (\<lambda>doc.
          bindE (require (valid_document doc) (ValidationError (lit ''ImmutablePackageDocument'')))
            (\<lambda>_. Inr doc))))"

definition serialize_published_package_envelope :: "envelope \<Rightarrow> nat list" where
  "serialize_published_package_envelope e = utf8 (json_text (envelope_json e))"

definition published_package_envelope ::
  "store \<Rightarrow> package \<Rightarrow> time \<Rightarrow> time \<Rightarrow> uuid \<Rightarrow> envelope outcome" where
  "published_package_envelope s p published_at retrieved_at corr =
     bindE (require (pk_status p \<in> {PApproved, PPublished})
       (StateError (lit ''Only an approved or published package can form a retrieval envelope.''))) (\<lambda>_.
     bindE (immutable_package_document s p) (\<lambda>doc.
     case (pk_digest p, pk_approval_binding p) of
       (Some d, Some b) \<Rightarrow>
         bindE (package_issuer p) (\<lambda>iss.
         bindE (require (valid_binding b) (ValidationError (lit ''ApprovalBinding''))) (\<lambda>_.
         let a = \<lparr>at_package_id = pk_package_id p, at_package_version = pk_version p, at_digest = d,
                  at_current_status = PPublished, at_issuer = iss, at_approval = b,
                  at_published_at = published_at, at_retrieved_at = retrieved_at,
                  at_correlation_id = corr\<rparr>;
             e = \<lparr>en_package = doc, en_attestation = a\<rparr>
         in bindE (require (valid_envelope e) (ValidationError (lit ''PublishedPackageEnvelope''))) (\<lambda>_.
            bindE (require (length (serialize_published_package_envelope e) \<le> max_published_envelope_bytes)
              (StateError (lit ''The full deployment package retrieval envelope exceeds 256,000 bytes.'')))
              (\<lambda>_. Inr e))))
     | _ \<Rightarrow> Inl (IntegrityError (lit ''Published package integrity metadata is incomplete.''))))"

section \<open>Operations\<close>

text \<open>
  \<open>iss\<close> is the issuer of the settings; \<open>nid\<close> and \<open>fresh\<close> are the ids the database and
  \<open>uuid.uuid4()\<close> give the row and a new package identity.
\<close>

definition drafted_package :: "uuid \<Rightarrow> uuid \<Rightarrow> uuid \<Rightarrow> int \<Rightarrow> issuer \<Rightarrow> customer_model \<Rightarrow> readiness
    \<Rightarrow> opportunity \<Rightarrow> deployment_target \<Rightarrow> package_input \<Rightarrow> operator \<Rightarrow> package" where
  "drafted_package nid eid ident v iss m r f target inp opr =
     \<lparr>pk_id = nid, pk_engagement_id = eid, pk_package_id = ident, pk_version = v,
      pk_schema_version = package_schema_version, pk_status = PDraft, pk_issuer = iss,
      pk_model_id = cm_id m, pk_model_version = cm_version m,
      pk_current_workflow_ref = ra_current_workflow_ref r,
      pk_target_workflow_ref = ra_target_workflow_ref r, pk_readiness_id = ra_id r,
      pk_readiness_version = ra_version r, pk_opportunity_id = fo_id f,
      pk_opportunity_version = fo_version f, pk_target = target, pk_contract = inp,
      pk_digest = None, pk_created_by_id = op_id opr, pk_issued_at = None, pk_approved_by_id = None,
      pk_approval_binding = None, pk_approved_at = None, pk_published_at = None,
      pk_rejected_at = None, pk_revoked_at = None, pk_staled_at = None, pk_superseded_at = None,
      pk_state_reason = None\<rparr>"

definition stable_package_id :: "uuid \<Rightarrow> issuer \<Rightarrow> uuid option \<Rightarrow> uuid \<Rightarrow> store \<Rightarrow> uuid outcome" where
  "stable_package_id eid iss pid fresh s =
     (case pid of
        None \<Rightarrow> Inr fresh
      | Some pid' \<Rightarrow>
          bindE (the_or (latest_by pk_version (select (\<lambda>p. pk_package_id p = pid') (packages s)))
            (StateError (lit ''New package identities are server-generated; the requested package does not exist.'')))
            (\<lambda>existing.
          bindE (if pk_engagement_id existing \<noteq> eid then Inr False
                 else bindE (package_issuer existing) (\<lambda>i. Inr (i = iss))) (\<lambda>same.
          bindE (require same
            (StateError (lit ''A package identity cannot move between engagements or issuers.'')))
            (\<lambda>_. Inr pid'))))"

definition create_deployment_package ::
  "uuid \<Rightarrow> operator \<Rightarrow> issuer \<Rightarrow> uuid \<Rightarrow> uuid \<Rightarrow> uuid \<Rightarrow> deployment_target \<Rightarrow> package_input \<Rightarrow> uuid option
    \<Rightarrow> uuid \<Rightarrow> uuid \<Rightarrow> store \<Rightarrow> store outcome" where
  "create_deployment_package eid opr iss mid rid fid target inp pid nid fresh s =
     bindE (lock_active_engagement eid s) (\<lambda>_.
     bindE (require (valid_issuer iss) (ValidationError (lit ''PackageIssuer''))) (\<lambda>_.
     bindE (get_model eid mid s) (\<lambda>m.
     bindE (get_readiness eid rid s) (\<lambda>r.
     bindE (get_opportunity eid fid s) (\<lambda>f.
     bindE (validate_package_sources m r f) (\<lambda>_.
     bindE (within_limit max_package_input_bytes
         (obj [(''target'', target_json target), (''contract'', package_input_json inp)])
         (lit ''The deployment package input exceeds 240,000 bytes.'')) (\<lambda>_.
     bindE (collect_source_references (package_input_json inp)) (\<lambda>refs.
     bindE (validate_source_references s eid refs) (\<lambda>_.
     bindE (require (list_all (\<lambda>b. bp_requested_code_scopes b = dt_requested_code_scopes target)
         (pi_work_order_blueprints inp)) (StateError
       (lit ''V1 work-order code scopes must exactly equal the package target code scopes.''))) (\<lambda>_.
     bindE (require (valid_version_ref (ra_current_workflow_ref r) \<and> valid_version_ref (ra_target_workflow_ref r))
       (ValidationError (lit ''ImmutableVersionReference''))) (\<lambda>_.
     bindE (stable_package_id eid iss pid fresh s) (\<lambda>ident.
     let v = stored_max pk_version (\<lambda>p. pk_engagement_id p = eid \<and> pk_package_id p = ident) (packages s);
         p = drafted_package nid eid ident v iss m r f target inp opr
     in bindE (flush_session (s\<lparr>packages := add p (packages s)\<rparr>)) (\<lambda>s1.
        Inr (record_event eid package_type nid opr (lit ''deployment_package.drafted'') (JObj []) s1))))))))))))))"

definition submit_deployment_package_for_review ::
  "uuid \<Rightarrow> uuid \<Rightarrow> operator \<Rightarrow> store \<Rightarrow> store outcome" where
  "submit_deployment_package_for_review eid pid opr s =
     bindE (lock_active_engagement eid s) (\<lambda>_.
     bindE (get_package eid pid s) (\<lambda>p.
     bindE (require (pk_status p = PDraft)
       (StateError (lit ''Only a draft package can be submitted for review.''))) (\<lambda>_.
     bindE (validate_package_row_sources s p) (\<lambda>_.
     flush_session (record_event (pk_engagement_id p) package_type (pk_id p) opr
       (lit ''deployment_package.ready_for_review'') (JObj [])
       (s\<lparr>packages := modify (\<lambda>x. pk_id x = pk_id p) (\<lambda>x. x\<lparr>pk_status := PReadyForReview\<rparr>) (packages s)\<rparr>))))))"

definition approve_package :: "operator \<Rightarrow> approval_binding \<Rightarrow> time \<Rightarrow> package \<Rightarrow> package" where
  "approve_package opr b now p =
     p\<lparr>pk_status := PApproved, pk_issued_at := Some now, pk_approved_by_id := Some (op_id opr),
       pk_approval_binding := Some b, pk_approved_at := Some now\<rparr>"

definition approve_deployment_package ::
  "uuid \<Rightarrow> uuid \<Rightarrow> operator \<Rightarrow> source_ref \<Rightarrow> time \<Rightarrow> store \<Rightarrow> store outcome" where
  "approve_deployment_package eid pid opr basis now s =
     bindE (require_human opr (lit ''Deployment package approval'')) (\<lambda>_.
     bindE (lock_active_engagement eid s) (\<lambda>_.
     bindE (require_engagement_owner eid opr (lit ''Deployment package approval'') s) (\<lambda>_.
     bindE (get_package eid pid s) (\<lambda>p.
     bindE (require (pk_status p = PReadyForReview)
       (StateError (lit ''Only a review-ready package can be approved.''))) (\<lambda>_.
     bindE (validate_package_row_sources s p) (\<lambda>_.
     bindE (validate_package_authority_basis s p basis) (\<lambda>_.
     bindE (package_approval_decision_reference p (op_id opr) basis now) (\<lambda>decision.
     bindE (make_binding decision (op_id opr) basis now) (\<lambda>b.
     bindE (calculate_package_digest s (approve_package opr b now p)) (\<lambda>d.
     flush_session (record_event (pk_engagement_id p) package_type (pk_id p) opr
       (lit ''deployment_package.approved'') (obj [(''digest'', JStr d)])
       (s\<lparr>packages := modify (\<lambda>x. pk_id x = pk_id p) (\<lambda>x. (approve_package opr b now x)\<lparr>pk_digest := Some d\<rparr>)
           (packages s)\<rparr>))))))))))))"

definition as_state_error :: "'a outcome \<Rightarrow> 'a outcome" where
  "as_state_error r = (case r of Inl (QualificationError m) \<Rightarrow> Inl (StateError m) | _ \<Rightarrow> r)"

lemma as_state_error_Inr [result_simps]: "as_state_error r = Inr x \<longleftrightarrow> r = Inr x"
  by (auto simp: as_state_error_def split: sum.splits service_error.splits)

definition supersede_package :: "pystr \<Rightarrow> time \<Rightarrow> package \<Rightarrow> package" where
  "supersede_package reason now p =
     p\<lparr>pk_status := PSuperseded, pk_superseded_at := Some now, pk_state_reason := Some reason\<rparr>"

definition supersede_step :: "uuid \<Rightarrow> pystr \<Rightarrow> time \<Rightarrow> uuid \<Rightarrow> store \<Rightarrow> uuid \<Rightarrow> store" where
  "supersede_step eid reason now actor s pid =
     record_derived_transition eid package_type pid (lit ''deployment_package.superseded'') reason (Some actor)
       (s\<lparr>packages := modify (\<lambda>x. pk_id x = pid) (supersede_package reason now) (packages s)\<rparr>)"

definition publish_package :: "time \<Rightarrow> package \<Rightarrow> package" where
  "publish_package now p = p\<lparr>pk_status := PPublished, pk_published_at := Some now\<rparr>"

definition publish_deployment_package ::
  "uuid \<Rightarrow> uuid \<Rightarrow> operator \<Rightarrow> time \<Rightarrow> store \<Rightarrow> store outcome" where
  "publish_deployment_package eid pid opr now s =
     bindE (require_human opr (lit ''Deployment package publication'')) (\<lambda>_.
     bindE (lock_active_engagement eid s) (\<lambda>_.
     bindE (require_engagement_owner eid opr (lit ''Deployment package publication'') s) (\<lambda>_.
     bindE (get_package eid pid s) (\<lambda>p.
     bindE (require (pk_status p = PApproved)
       (StateError (lit ''Only an approved package can be published.''))) (\<lambda>_.
     bindE (validate_package_row_sources s p) (\<lambda>_.
     bindE (calculate_package_digest s p) (\<lambda>expected.
     bindE (require (pk_digest p = Some expected)
       (IntegrityError (lit ''Approved package digest no longer matches its content.''))) (\<lambda>_.
     bindE (as_state_error (require_package_publication_eligibility eid (pk_target p) now True s)) (\<lambda>_.
     bindE (published_package_envelope s p now now 0) (\<lambda>_.
     let previous = select (\<lambda>x. pk_engagement_id x = eid \<and> pk_id x \<noteq> pk_id p \<and> pk_status x = PPublished)
                      (packages s);
         reason = version_text ''Superseded by package version '' (pk_version p)
     in bindE (flush_session (foldl (supersede_step eid reason now (op_id opr)) s (map pk_id previous)))
          (\<lambda>s1. flush_session (record_event (pk_engagement_id p) package_type (pk_id p) opr
             (lit ''deployment_package.published'') (obj [(''digest'', jopt JStr (pk_digest p))])
             (s1\<lparr>packages := modify (\<lambda>x. pk_id x = pk_id p) (publish_package now) (packages s1)\<rparr>)))))))))))))"

definition reject_package :: "pystr \<Rightarrow> time \<Rightarrow> package \<Rightarrow> package" where
  "reject_package reason now p =
     p\<lparr>pk_status := PRejected, pk_rejected_at := Some now, pk_state_reason := Some reason\<rparr>"

definition reject_deployment_package ::
  "uuid \<Rightarrow> uuid \<Rightarrow> operator \<Rightarrow> pystr \<Rightarrow> time \<Rightarrow> store \<Rightarrow> store outcome" where
  "reject_deployment_package eid pid opr reason now s =
     bindE (require_human opr (lit ''Deployment package rejection'')) (\<lambda>_.
     bindE (lock_active_engagement eid s) (\<lambda>_.
     bindE (require_engagement_owner eid opr (lit ''Deployment package rejection'') s) (\<lambda>_.
     bindE (get_package eid pid s) (\<lambda>p.
     bindE (require (pk_status p \<in> {PDraft, PReadyForReview, PApproved})
       (StateError (lit ''Only a current unpublished package can be rejected.''))) (\<lambda>_.
     let clean_reason = py_strip reason in
     bindE (require (clean_reason \<noteq> []) (StateError (lit ''Package rejection requires a reason.''))) (\<lambda>_.
     flush_session (record_event (pk_engagement_id p) package_type (pk_id p) opr
       (lit ''deployment_package.rejected'') (obj [(''reason'', JStr clean_reason)])
       (s\<lparr>packages := modify (\<lambda>x. pk_id x = pk_id p) (reject_package clean_reason now) (packages s)\<rparr>))))))))"

definition revoke_package :: "pystr \<Rightarrow> time \<Rightarrow> package \<Rightarrow> package" where
  "revoke_package reason now p =
     p\<lparr>pk_status := PRevoked, pk_revoked_at := Some now, pk_state_reason := Some reason\<rparr>"

text \<open>Revocation leaves its change to the flush of the caller's commit.\<close>

definition revoke_deployment_package ::
  "uuid \<Rightarrow> uuid \<Rightarrow> operator \<Rightarrow> pystr \<Rightarrow> time \<Rightarrow> store \<Rightarrow> store outcome" where
  "revoke_deployment_package eid pid opr reason now s =
     bindE (require_human opr (lit ''Deployment package revocation'')) (\<lambda>_.
     bindE (lock_active_engagement eid s) (\<lambda>_.
     bindE (require_engagement_owner eid opr (lit ''Deployment package revocation'') s) (\<lambda>_.
     bindE (get_package eid pid s) (\<lambda>p.
     bindE (require (pk_status p = PPublished)
       (StateError (lit ''Only a published package can be revoked.''))) (\<lambda>_.
     let clean_reason = py_strip reason in
     bindE (require (clean_reason \<noteq> []) (StateError (lit ''Package revocation requires a reason.''))) (\<lambda>_.
     Inr (record_event (pk_engagement_id p) package_type (pk_id p) opr
       (lit ''deployment_package.revoked'') (JObj [])
       (s\<lparr>packages := modify (\<lambda>x. pk_id x = pk_id p) (revoke_package clean_reason now) (packages s)\<rparr>))))))))"

end
