(* ===== verification/Lifecycle.thy ===== *)
theory Lifecycle
  imports FactoryService
begin

text \<open>
  \<open>modules/lifecycle.py\<close>: what the knowledge, workflow, economics and artifact services call when
  approved truth changes: the bulk updates of workflows, economic cases and artifacts, then the
  cascade over the factory aggregates.
\<close>

definition stale_workflows :: "(workflow \<Rightarrow> bool) \<Rightarrow> workflow table \<Rightarrow> workflow table" where
  "stale_workflows Q = bulk_update (\<lambda>w. Q w \<and> wf_status w \<in> {Draft, Approved})
     (\<lambda>r c. wf_status r = wf_status c) (\<lambda>w. w\<lparr>wf_status := Stale\<rparr>)"

definition stale_cases :: "uuid \<Rightarrow> economic_case table \<Rightarrow> economic_case table" where
  "stale_cases eid = bulk_update (\<lambda>c. ec_engagement_id c = eid \<and> ec_status c \<in> {Draft, Approved})
     (\<lambda>r c. ec_status r = ec_status c) (\<lambda>c. c\<lparr>ec_status := Stale\<rparr>)"

definition stale_artifacts :: "uuid \<Rightarrow> artifact table \<Rightarrow> artifact table" where
  "stale_artifacts eid = bulk_update (\<lambda>a. ar_engagement_id a = eid \<and> ar_status a = ArCurrent)
     (\<lambda>r c. ar_status r = ar_status c) (\<lambda>a. a\<lparr>ar_status := ArStale\<rparr>)"

definition stale_after_economic_change :: "uuid \<Rightarrow> uuid option \<Rightarrow> time \<Rightarrow> store \<Rightarrow> store outcome" where
  "stale_after_economic_change eid actor now s =
     stale_all_after_economic_change eid (lit ''The approved economic case changed.'') now actor
       (s\<lparr>artifacts := stale_artifacts eid (artifacts s)\<rparr>)"

definition stale_economics_and_artifacts :: "uuid \<Rightarrow> uuid option \<Rightarrow> time \<Rightarrow> store \<Rightarrow> store outcome" where
  "stale_economics_and_artifacts eid actor now s =
     stale_after_economic_change eid actor now (s\<lparr>economic_cases := stale_cases eid (economic_cases s)\<rparr>)"

definition stale_after_model_change :: "uuid \<Rightarrow> uuid option \<Rightarrow> time \<Rightarrow> store \<Rightarrow> store outcome" where
  "stale_after_model_change eid actor now s =
     bindE (stale_economics_and_artifacts eid actor now
       (s\<lparr>workflows := stale_workflows (\<lambda>w. wf_engagement_id w = eid) (workflows s)\<rparr>)) (\<lambda>s1.
     stale_all_customer_models eid
       (lit ''Verified customer truth changed; regenerate and reapprove the customer model.'') now actor s1)"

definition stale_after_current_workflow_change :: "uuid \<Rightarrow> uuid option \<Rightarrow> time \<Rightarrow> store \<Rightarrow> store outcome" where
  "stale_after_current_workflow_change eid actor now s =
     bindE (stale_economics_and_artifacts eid actor now
       (s\<lparr>workflows := stale_workflows (\<lambda>w. wf_engagement_id w = eid \<and> wf_kind w = Target) (workflows s)\<rparr>))
       (\<lambda>s1. stale_all_after_current_workflow_change eid (lit ''The approved current workflow changed.'')
          now actor s1)"

definition stale_after_target_workflow_change :: "uuid \<Rightarrow> uuid option \<Rightarrow> time \<Rightarrow> store \<Rightarrow> store outcome" where
  "stale_after_target_workflow_change eid actor now s =
     bindE (stale_economics_and_artifacts eid actor now s) (\<lambda>s1.
       stale_all_after_target_workflow_change eid (lit ''The approved target workflow changed.'') now actor s1)"

definition stale_after_artifact_change :: "uuid \<Rightarrow> uuid option \<Rightarrow> time \<Rightarrow> store \<Rightarrow> store outcome" where
  "stale_after_artifact_change eid actor now s =
     stale_all_packages_after_artifact_change eid (lit ''An implementation artifact version changed.'')
       now actor s"

end
