(* ===== verification/Lineage.thy ===== *)
theory Lineage
  imports FactoryPackages Lifecycle
begin

text \<open>
  The lineage of the factory aggregates: what every live opportunity, assessment and package rests
  on.  The lemmas say how the cascade, a flush, a new row and an approval act on it; the operations
  are put together of these in \<open>FactorySystem\<close>.
\<close>

section \<open>Backing\<close>

definition approved_models :: "store \<Rightarrow> (uuid \<times> uuid \<times> int) set" where
  "approved_models s = model_key ` {m \<in> set (current (customer_models s)). cm_status m = MApproved}"

definition selected_opportunities :: "store \<Rightarrow> ((uuid \<times> uuid \<times> int) \<times> uuid \<times> int) set" where
  "selected_opportunities s = (\<lambda>f. (opportunity_key f, fo_model_id f, fo_model_version f))
     ` {f \<in> set (current (opportunities s)). fo_status f = OSelected}"

definition ready_key ::
  "readiness \<Rightarrow> (uuid \<times> uuid \<times> int) \<times> (uuid \<times> int) \<times> (uuid \<times> int) \<times> version_ref \<times> version_ref" where
  "ready_key r = (readiness_key r, (ra_model_id r, ra_model_version r),
     (ra_opportunity_id r, ra_opportunity_version r), ra_current_workflow_ref r, ra_target_workflow_ref r)"

definition ready_assessments ::
  "store \<Rightarrow> ((uuid \<times> uuid \<times> int) \<times> (uuid \<times> int) \<times> (uuid \<times> int) \<times> version_ref \<times> version_ref) set" where
  "ready_assessments s = ready_key
     ` {r \<in> set (current (readiness_rows s)). ra_status r = AApproved \<and> ra_overall_status r = Ready}"

definition fo_backed :: "store \<Rightarrow> opportunity \<Rightarrow> bool" where
  "fo_backed s f \<longleftrightarrow> (fo_engagement_id f, fo_model_id f, fo_model_version f) \<in> approved_models s"

definition ra_backed :: "store \<Rightarrow> readiness \<Rightarrow> bool" where
  "ra_backed s r \<longleftrightarrow> (ra_engagement_id r, ra_model_id r, ra_model_version r) \<in> approved_models s
     \<and> ((ra_engagement_id r, ra_opportunity_id r, ra_opportunity_version r), ra_model_id r, ra_model_version r)
         \<in> selected_opportunities s"

definition pk_backed :: "store \<Rightarrow> package \<Rightarrow> bool" where
  "pk_backed s p \<longleftrightarrow> (pk_engagement_id p, pk_model_id p, pk_model_version p) \<in> approved_models s
     \<and> ((pk_engagement_id p, pk_opportunity_id p, pk_opportunity_version p), pk_model_id p, pk_model_version p)
         \<in> selected_opportunities s
     \<and> ((pk_engagement_id p, pk_readiness_id p, pk_readiness_version p), (pk_model_id p, pk_model_version p),
         (pk_opportunity_id p, pk_opportunity_version p), pk_current_workflow_ref p, pk_target_workflow_ref p)
         \<in> ready_assessments s"

definition lineage :: "store \<Rightarrow> bool" where
  "lineage s \<longleftrightarrow> (\<forall>f \<in> set (current (opportunities s)). fo_live f \<longrightarrow> fo_backed s f)
     \<and> (\<forall>r \<in> set (current (readiness_rows s)). ra_live r \<longrightarrow> ra_backed s r)
     \<and> (\<forall>p \<in> set (current (packages s)). pk_live p \<longrightarrow> pk_backed s p)"

section \<open>The cascade keeps the lineage\<close>

lemma marked_keeps:
  "r \<in> set (current t) \<Longrightarrow> \<not> (P r \<and> live r) \<Longrightarrow> r \<in> set (current (marked live f P t))"
  by (auto simp: marked_def set_current_modify image_iff)

lemma approved_models_live:
  "k \<in> approved_models s \<longleftrightarrow>
     (\<exists>m \<in> set (current (customer_models s)). cm_status m = MApproved \<and> model_key m = k)"
  by (auto simp: approved_models_def)

lemma selected_live:
  "k \<in> selected_opportunities s \<longleftrightarrow>
     (\<exists>f \<in> set (current (opportunities s)). fo_status f = OSelected
        \<and> (opportunity_key f, fo_model_id f, fo_model_version f) = k)"
  by (auto simp: selected_opportunities_def)

lemma ready_live:
  "k \<in> ready_assessments s \<longleftrightarrow>
     (\<exists>r \<in> set (current (readiness_rows s)). ra_status r = AApproved \<and> ra_overall_status r = Ready
        \<and> ready_key r = k)"
  by (auto simp: ready_assessments_def)

lemma staled_tables:
  assumes cascade: "cascade_spec w n M R F s s'"
  shows "customer_models s' = marked cm_live (mark_model w n) M (customer_models s)"
    and "readiness_rows s' = marked ra_live (mark_readiness w n) (hit_readiness s M R F) (readiness_rows s)"
    and "opportunities s' = marked fo_live (mark_opportunity w n) (hit_opportunity s M F) (opportunities s)"
    and "packages s' = marked pk_live (mark_package w n) (hit_package s M R F) (packages s)"
  using assms by (simp_all add: cascade_spec_def staled_def)

lemma cascade_fo_backed:
  assumes c: "cascade_spec w n M R F s s'" and "fo_backed s f" and "\<not> hit_opportunity s M F f"
  shows "fo_backed s' f"
proof -
  obtain m where m: "m \<in> set (current (customer_models s))" "cm_status m = MApproved"
    "model_key m = (fo_engagement_id f, fo_model_id f, fo_model_version f)"
    using assms(2) by (auto simp: fo_backed_def approved_models_live)
  have "\<not> (M m \<and> cm_live m)"
    using assms(3) m by (auto simp: hit_opportunity_def fo_of_model_def model_key_def)
  then show ?thesis
    using m marked_keeps [of m] by (auto simp: fo_backed_def approved_models_live staled_tables(1) [OF c])
qed

lemma cascade_ra_backed:
  assumes c: "cascade_spec w n M R F s s'" and "ra_backed s r" and "\<not> hit_readiness s M R F r"
  shows "ra_backed s' r"
proof -
  obtain m where m: "m \<in> set (current (customer_models s))" "cm_status m = MApproved"
    "model_key m = (ra_engagement_id r, ra_model_id r, ra_model_version r)"
    using assms(2) by (auto simp: ra_backed_def approved_models_live)
  obtain f where f: "f \<in> set (current (opportunities s))" "fo_status f = OSelected"
    "opportunity_key f = (ra_engagement_id r, ra_opportunity_id r, ra_opportunity_version r)"
    "fo_model_id f = ra_model_id r" "fo_model_version f = ra_model_version r"
    using assms(2) by (auto simp: ra_backed_def selected_live)
  have "\<not> (M m \<and> cm_live m)"
    using assms(3) m by (auto simp: hit_readiness_def ra_of_model_def model_key_def)
  moreover have "\<not> (hit_opportunity s M F f \<and> fo_live f)"
    using assms(3) f by (auto simp: hit_readiness_def ra_of_opportunity_def opportunity_key_def)
  ultimately have "m \<in> set (current (customer_models s'))" "f \<in> set (current (opportunities s'))"
    using m(1) f(1) unfolding staled_tables [OF c] by (auto intro!: marked_keeps)
  then show ?thesis using m f by (force simp: ra_backed_def approved_models_live selected_live)
qed

lemma cascade_pk_backed:
  assumes c: "cascade_spec w n M R F s s'" and "pk_backed s p" and "\<not> hit_package s M R F p"
  shows "pk_backed s' p"
proof -
  obtain m where m: "m \<in> set (current (customer_models s))" "cm_status m = MApproved"
    "model_key m = (pk_engagement_id p, pk_model_id p, pk_model_version p)"
    using assms(2) by (auto simp: pk_backed_def approved_models_live)
  obtain f where f: "f \<in> set (current (opportunities s))" "fo_status f = OSelected"
    "opportunity_key f = (pk_engagement_id p, pk_opportunity_id p, pk_opportunity_version p)"
    "fo_model_id f = pk_model_id p" "fo_model_version f = pk_model_version p"
    using assms(2) by (auto simp: pk_backed_def selected_live)
  obtain r where r: "r \<in> set (current (readiness_rows s))" "ra_status r = AApproved"
    "ra_overall_status r = Ready"
    "ready_key r = ((pk_engagement_id p, pk_readiness_id p, pk_readiness_version p),
       (pk_model_id p, pk_model_version p), (pk_opportunity_id p, pk_opportunity_version p),
       pk_current_workflow_ref p, pk_target_workflow_ref p)"
    using assms(2) by (auto simp: pk_backed_def ready_live)
  have nf: "\<not> (hit_opportunity s M F f \<and> fo_live f)"
    using assms(3) f by (auto simp: hit_package_def pk_of_opportunity_def opportunity_key_def)
  have "\<not> (M m \<and> cm_live m)"
    using nf m f by (auto simp: hit_opportunity_def fo_of_model_def model_key_def opportunity_key_def
        fo_live_def)
  moreover have "\<not> (hit_readiness s M R F r \<and> ra_live r)"
    using assms(3) r by (auto simp: hit_package_def pk_of_readiness_def ready_key_def readiness_key_def)
  ultimately have "m \<in> set (current (customer_models s'))" "f \<in> set (current (opportunities s'))"
    "r \<in> set (current (readiness_rows s'))"
    using m(1) f(1) r(1) nf unfolding staled_tables [OF c] by (auto intro!: marked_keeps)
  then show ?thesis using m f r by (force simp: pk_backed_def approved_models_live selected_live ready_live)
qed

lemma cascade_lineage:
  assumes cascade: "cascade_spec w n M R F s s'" and "lineage s"
  shows "lineage s'"
proof -
  note live = staled_live [OF cascade [unfolded cascade_spec_def]]
  show ?thesis
    unfolding lineage_def using assms(2) [unfolded lineage_def] live(2-)
      cascade_fo_backed [OF cascade] cascade_ra_backed [OF cascade] cascade_pk_backed [OF cascade] by blast
qed

end
