(* ===== verification/FactoryOps.thy ===== *)
theory FactoryOps
  imports Lineage
begin

text \<open>
  Every operation of the Factory Engineer service keeps the lineage.  An operation is inverted once
  (\<open>..._Inr\<close>: the rows it read and the store it leaves), and the store it leaves is a cascade, a
  flush, a new row or a change of one row away from the store it started with.
\<close>

section \<open>Sessions between requests\<close>

text \<open>
  Between two requests nothing is pending, every row has passed the database's checks, and the
  live rows are backed.
\<close>

definition factory_clean :: "store \<Rightarrow> bool" where
  "factory_clean s \<longleftrightarrow> clean (customer_models s) \<and> clean (readiness_rows s) \<and> clean (opportunities s)
     \<and> clean (packages s)"

definition settled :: "store \<Rightarrow> bool" where
  "settled s \<longleftrightarrow> factory_clean s \<and> factory_accepted s"

lemma settled_keys:
  assumes "settled s"
  shows "distinct (map cm_id (current (customer_models s)))"
    and "distinct (map ra_id (current (readiness_rows s)))"
    and "distinct (map fo_id (current (opportunities s)))"
    and "distinct (map pk_id (current (packages s)))"
  using assms by (simp_all add: settled_def factory_accepted_def models_accepted_def readiness_accepted_def
      opportunities_accepted_def packages_accepted_def unique_def Let_def)

lemma settled_pending:
  assumes "settled s"
  shows "mark_pending s"
  using assms settled_keys [OF assms]
  by (simp add: mark_pending_def settled_def factory_clean_def only_marked_clean)

lemma select_settled:
  assumes "settled s"
  shows "select P1 (customer_models s) = filter P1 (current (customer_models s))"
    and "select P2 (readiness_rows s) = filter P2 (current (readiness_rows s))"
    and "select P3 (opportunities s) = filter P3 (current (opportunities s))"
    and "select P4 (packages s) = filter P4 (current (packages s))"
  using assms by (simp_all add: settled_def factory_clean_def select_clean)

lemma accepts_clean: "clean t \<Longrightarrow> accepts ins upd t"
  by (auto simp: accepts_def clean_def list_all_iff)

lemma index_safe_flush:
  assumes "index_safe k P t"
  shows "index_safe k P (flush t)"
proof -
  have "filter (\<lambda>e. P (snd e)) t
      = filter (\<lambda>e. P (snd e)) (filter (\<lambda>e. stored e P \<or> P (snd e)) t)"
    unfolding filter_filter by (rule filter_cong) auto
  then have "distinct (map (k \<circ> snd) (filter (\<lambda>e. P (snd e)) t))"
    using distinct_map_filter [OF assms [unfolded index_safe_def]] by simp
  then show ?thesis
    unfolding index_safe_def flush_def filter_map map_map comp_def stored_def
    by simp
qed

lemma refers_flush [simp]: "refers k (flush t) k' t' = refers k t k' t'" "refers k t k' (flush u) = refers k t k' u"
  by (simp_all add: refers_def current_flush)

lemma unique_flush [simp]: "unique k (flush t) = unique k t"
  by (simp add: unique_def current_flush)

lemma synced_settled:
  assumes "factory_accepted s"
  shows "settled (synced s)"
  using assms
  by (auto simp: settled_def factory_clean_def clean_flush factory_accepted_def models_accepted_def
      readiness_accepted_def opportunities_accepted_def packages_accepted_def Let_def accepts_clean
      index_safe_flush current_flush)

lemma factory_accepted_record [simp]:
  "factory_accepted (record_event e ty i opr a d s) = factory_accepted s"
  by (simp add: factory_accepted_def models_accepted_def readiness_accepted_def opportunities_accepted_def
      packages_accepted_def)

section \<open>Growing stores\<close>

lemma lineage_cong:
  assumes "current (customer_models s') = current (customer_models s)"
    and "current (readiness_rows s') = current (readiness_rows s)"
    and "current (opportunities s') = current (opportunities s)"
    and "current (packages s') = current (packages s)"
  shows "lineage s' = lineage s"
  using assms by (simp add: lineage_def fo_backed_def ra_backed_def pk_backed_def approved_models_def
      selected_opportunities_def ready_assessments_def)

lemma lineage_synced [simp]: "lineage (synced s) = lineage s"
  by (rule lineage_cong) (simp_all add: current_flush)

lemma lineage_record [simp]: "lineage (record_event e ty i opr a d s) = lineage s"
  by (rule lineage_cong) simp_all

lemma lineage_grow:
  assumes "approved_models s \<subseteq> approved_models s'"
    and "selected_opportunities s \<subseteq> selected_opportunities s'"
    and "ready_assessments s \<subseteq> ready_assessments s'"
    and "\<And>f. f \<in> set (current (opportunities s')) \<Longrightarrow> fo_live f \<Longrightarrow> fo_backed s f"
    and "\<And>r. r \<in> set (current (readiness_rows s')) \<Longrightarrow> ra_live r \<Longrightarrow> ra_backed s r"
    and "\<And>p. p \<in> set (current (packages s')) \<Longrightarrow> pk_live p \<Longrightarrow> pk_backed s p"
  shows "lineage s'"
  using assms unfolding lineage_def fo_backed_def ra_backed_def pk_backed_def by blast

lemma lineageD:
  assumes "lineage s"
  shows "f \<in> set (current (opportunities s)) \<Longrightarrow> fo_live f \<Longrightarrow> fo_backed s f"
    and "r \<in> set (current (readiness_rows s)) \<Longrightarrow> ra_live r \<Longrightarrow> ra_backed s r"
    and "p \<in> set (current (packages s)) \<Longrightarrow> pk_live p \<Longrightarrow> pk_backed s p"
  using assms by (simp_all add: lineage_def)

text \<open>A change of the rows with one id: the rows are the old ones, or the change of one of them.\<close>

lemma current_point:
  "x \<in> set (current (modify (\<lambda>r. key r = k) g t)) \<longleftrightarrow>
     (x \<in> set (current t) \<and> key x \<noteq> k) \<or> (\<exists>r \<in> set (current t). key r = k \<and> x = g r)"
  by (auto simp: set_current_modify image_iff)

lemma current_point_only:
  assumes "x \<in> set (current (modify (\<lambda>r. key r = key f) g t))"
    and "\<And>y. y \<in> set (current t) \<Longrightarrow> key y = key f \<Longrightarrow> y = f"
  shows "x \<in> set (current t) \<and> key x \<noteq> key f \<or> x = g f \<and> f \<in> set (current t)"
  using assms unfolding current_point by blast

lemma backed_point [simp]:
  "ra_backed s (approve_readiness opr now r) = ra_backed s r"
  "fo_backed s (select_opportunity opr now why f) = fo_backed s f"
  "\<not> fo_live (reject_opportunity opr now why f)"
  by (simp_all add: ra_backed_def fo_backed_def approve_readiness_def select_opportunity_def
      reject_opportunity_def fo_live_def)

lemma approved_models_point:
  assumes "\<And>m. m \<in> set (current (customer_models s)) \<Longrightarrow> cm_id m = k \<Longrightarrow> cm_status m \<noteq> MApproved"
  shows "approved_models s \<subseteq> approved_models (s\<lparr>customer_models := modify (\<lambda>r. cm_id r = k) g (customer_models s)\<rparr>)"
  using assms by (fastforce simp: approved_models_live current_point)

lemma ready_point:
  assumes "\<And>r. r \<in> set (current (readiness_rows s)) \<Longrightarrow> ra_id r = k \<Longrightarrow> ra_status r \<noteq> AApproved"
  shows "ready_assessments s \<subseteq> ready_assessments (s\<lparr>readiness_rows := modify (\<lambda>r. ra_id r = k) g (readiness_rows s)\<rparr>)"
  using assms by (fastforce simp: ready_live current_point)

lemma selected_point:
  assumes "\<And>f. f \<in> set (current (opportunities s)) \<Longrightarrow> fo_id f = k \<Longrightarrow> fo_status f \<noteq> OSelected"
  shows "selected_opportunities s \<subseteq> selected_opportunities (s\<lparr>opportunities := modify (\<lambda>r. fo_id r = k) g (opportunities s)\<rparr>)"
  using assms by (fastforce simp: selected_live current_point)

lemma approved_models_frame [simp]:
  "approved_models (s\<lparr>readiness_rows := t1\<rparr>) = approved_models s"
  "approved_models (s\<lparr>opportunities := t2\<rparr>) = approved_models s"
  "approved_models (s\<lparr>packages := t3\<rparr>) = approved_models s"
  "selected_opportunities (s\<lparr>customer_models := t4\<rparr>) = selected_opportunities s"
  "selected_opportunities (s\<lparr>readiness_rows := t1\<rparr>) = selected_opportunities s"
  "selected_opportunities (s\<lparr>packages := t3\<rparr>) = selected_opportunities s"
  "ready_assessments (s\<lparr>customer_models := t4\<rparr>) = ready_assessments s"
  "ready_assessments (s\<lparr>opportunities := t2\<rparr>) = ready_assessments s"
  "ready_assessments (s\<lparr>packages := t3\<rparr>) = ready_assessments s"
  by (simp_all add: approved_models_def selected_opportunities_def ready_assessments_def)

lemma approved_models_add: "approved_models s \<subseteq> approved_models (s\<lparr>customer_models := add m (customer_models s)\<rparr>)"
  by (auto simp: approved_models_def current_add)

lemma selected_add: "selected_opportunities s \<subseteq> selected_opportunities (s\<lparr>opportunities := add f (opportunities s)\<rparr>)"
  by (auto simp: selected_opportunities_def current_add)

lemma ready_add: "ready_assessments s \<subseteq> ready_assessments (s\<lparr>readiness_rows := add r (readiness_rows s)\<rparr>)"
  by (auto simp: ready_assessments_def current_add)

lemma lineage_models:
  assumes "lineage s" and "approved_models s \<subseteq> approved_models (s\<lparr>customer_models := t\<rparr>)"
  shows "lineage (s\<lparr>customer_models := t\<rparr>)"
  by (rule lineage_grow [OF assms(2)]) (use lineageD [OF assms(1)] in auto)

lemma lineage_readiness_rows:
  assumes "lineage s" and "ready_assessments s \<subseteq> ready_assessments (s\<lparr>readiness_rows := t\<rparr>)"
    and "\<And>r. r \<in> set (current t) \<Longrightarrow> ra_live r \<Longrightarrow> ra_backed s r"
  shows "lineage (s\<lparr>readiness_rows := t\<rparr>)"
  by (rule lineage_grow [OF _ _ assms(2)]) (use lineageD [OF assms(1)] assms(3) in auto)

lemma lineage_opportunity_rows:
  assumes "lineage s" and "selected_opportunities s \<subseteq> selected_opportunities (s\<lparr>opportunities := t\<rparr>)"
    and "\<And>f. f \<in> set (current t) \<Longrightarrow> fo_live f \<Longrightarrow> fo_backed s f"
  shows "lineage (s\<lparr>opportunities := t\<rparr>)"
  by (rule lineage_grow [OF _ assms(2)]) (use lineageD [OF assms(1)] assms(3) in auto)

lemma lineage_package_rows:
  assumes "lineage s" and "\<And>p. p \<in> set (current t) \<Longrightarrow> pk_live p \<Longrightarrow> pk_backed s p"
  shows "lineage (s\<lparr>packages := t\<rparr>)"
  by (rule lineage_grow) (use lineageD [OF assms(1)] assms(2) in auto)

section \<open>Rows the operations read\<close>

lemma get_row:
  assumes "settled s"
  shows "get_model eid k s = Inr m \<Longrightarrow> m \<in> set (current (customer_models s)) \<and> cm_id m = k \<and> cm_engagement_id m = eid"
    and "get_readiness eid k s = Inr r \<Longrightarrow> r \<in> set (current (readiness_rows s)) \<and> ra_id r = k \<and> ra_engagement_id r = eid"
    and "get_opportunity eid k s = Inr f \<Longrightarrow> f \<in> set (current (opportunities s)) \<and> fo_id f = k \<and> fo_engagement_id f = eid"
    and "get_package eid k s = Inr p \<Longrightarrow> p \<in> set (current (packages s)) \<and> pk_id p = k \<and> pk_engagement_id p = eid"
  unfolding get_model_def get_readiness_def get_opportunity_def get_package_def select_settled [OF assms]
    the_or_eq_Inr
  by (auto dest!: first_in)

text \<open>A row the cascade does not reach is the row it was.\<close>

lemma marked_kept_row:
  assumes "x \<in> set (current (marked live f P t))" and "key x = k"
    and "\<And>r. key (f r) = key r" and "\<And>r. key r = k \<Longrightarrow> \<not> P r"
  shows "x \<in> set (current t)"
  using assms by (fastforce simp: marked_def set_current_modify)

section \<open>Customer factory models\<close>

lemma create_model_Inr:
  assumes "create_customer_factory_model eid opr i nid s = Inr s'"
  obtains m d where "m = drafted_model nid eid
      (stored_max cm_version (\<lambda>r. cm_engagement_id r = eid) (customer_models s)) i d opr"
    and "canonical_sha256 (customer_model_input_json i) = Inr d"
    and "factory_accepted (s\<lparr>customer_models := add m (customer_models s)\<rparr>)"
    and "s' = record_event eid model_type nid opr (lit ''customer_factory_model.drafted'') (JObj [])
      (synced (s\<lparr>customer_models := add m (customer_models s)\<rparr>))"
  using assms unfolding create_customer_factory_model_def Let_def result_simps by blast

lemma create_model_lineage:
  "create_customer_factory_model eid opr i nid s = Inr s' \<Longrightarrow> lineage s \<Longrightarrow> lineage s'"
  by (erule create_model_Inr) (simp add: lineage_models approved_models_add)

lemma approve_model_Inr:
  assumes "approve_customer_factory_model eid mid opr now s = Inr s'"
  obtains m s0 s1 w where "get_model eid mid s = Inr m" and "cm_status m = MDraft"
    and "s0 = foldl (stale_customer_model w now (Some (op_id opr))) s (map cm_id
        (select (\<lambda>r. cm_engagement_id r = eid \<and> cm_id r \<noteq> cm_id m \<and> cm_status r = MApproved) (customer_models s)))"
    and "factory_accepted s0" and "s1 = (synced s0)\<lparr>customer_models :=
        modify (\<lambda>r. cm_id r = cm_id m) (approve_model opr now) (customer_models (synced s0))\<rparr>"
    and "factory_accepted s1" and "s' = synced (record_event (cm_engagement_id m) model_type (cm_id m) opr
             (lit ''customer_factory_model.approved'') (JObj []) s1)"
  using assms unfolding approve_customer_factory_model_def Let_def result_simps factory_accepted_record by blast

lemma approve_model_lineage:
  assumes "approve_customer_factory_model eid mid opr now s = Inr s'" and "settled s" and "lineage s"
  shows "lineage s'"
proof -
  obtain m s0 s1 w where run: "get_model eid mid s = Inr m" "cm_status m = MDraft"
    "s0 = foldl (stale_customer_model w now (Some (op_id opr))) s (map cm_id
        (select (\<lambda>r. cm_engagement_id r = eid \<and> cm_id r \<noteq> cm_id m \<and> cm_status r = MApproved) (customer_models s)))"
    "s1 = (synced s0)\<lparr>customer_models :=
        modify (\<lambda>r. cm_id r = cm_id m) (approve_model opr now) (customer_models (synced s0))\<rparr>"
    "lineage s' = lineage s1"
    by (rule approve_model_Inr [OF assms(1)]) simp
  define ids where "ids = map cm_id
    (select (\<lambda>r. cm_engagement_id r = eid \<and> cm_id r \<noteq> cm_id m \<and> cm_status r = MApproved) (customer_models s))"
  have c: "cascade_spec w now (\<lambda>m. cm_id m \<in> set ids) (\<lambda>_. False) (\<lambda>_. False) s s0"
    unfolding run(3) ids_def by (rule stale_models_loop [OF settled_pending [OF assms(2)]])
  note m = get_row(1) [OF assms(2) run(1)]
  have "cm_status r \<noteq> MApproved" if r: "r \<in> set (current (customer_models s0))" "cm_id r = cm_id m" for r
  proof -
    have "r \<in> set (current (customer_models s))"
      by (rule marked_kept_row [where key = cm_id, OF r(1) [unfolded staled_tables(1) [OF c]] r(2)])
        (auto simp: ids_def select_settled [OF assms(2)])
    then have "r = m" using unique_key [OF settled_keys(1) [OF assms(2)]] m r(2) by blast
    then show ?thesis using run(2) by simp
  qed
  then have "lineage ((synced s0)\<lparr>customer_models :=
        modify (\<lambda>r. cm_id r = cm_id m) (approve_model opr now) (customer_models (synced s0))\<rparr>)"
    using cascade_lineage [OF c assms(3)]
    by (intro lineage_models approved_models_point) (auto simp: current_flush)
  then show ?thesis using run(4,5) by simp
qed

section \<open>Readiness assessments\<close>

lemma create_readiness_Inr:
  assumes "create_readiness_assessment eid opr mid fid cwid twid inp now nid s = Inr s'"
  obtains m f r v ov cur tgt stages d where "get_model eid mid s = Inr m" and "cm_status m = MApproved"
    and "get_opportunity eid fid s = Inr f" and "fo_status f = OSelected" and "fo_model_id f = cm_id m"
    and "r = drafted_readiness nid eid v ov m f cur tgt stages d opr"
    and "factory_accepted (s\<lparr>readiness_rows := add r (readiness_rows s)\<rparr>)"
    and "s' = record_event eid readiness_type nid opr (lit ''fdlc_readiness.assessed'') (JObj [])
      (synced (s\<lparr>readiness_rows := add r (readiness_rows s)\<rparr>))"
  using assms unfolding create_readiness_assessment_def Let_def result_simps by (auto simp: result_simps)

lemma model_of_opportunity:
  assumes "settled s" and "lineage s" and "m \<in> set (current (customer_models s))"
    and "f \<in> set (current (opportunities s))" and "fo_live f" and "fo_model_id f = cm_id m"
  shows "fo_model_version f = cm_version m"
proof -
  obtain m' where m': "m' \<in> set (current (customer_models s))"
    "model_key m' = (fo_engagement_id f, fo_model_id f, fo_model_version f)"
    using lineageD(1) [OF assms(2,4,5)] by (auto simp: fo_backed_def approved_models_live)
  then have "m' = m" using unique_key [OF settled_keys(1) [OF assms(1)] m'(1) assms(3)] assms(6)
    by (simp add: model_key_def)
  then show ?thesis using m'(2) by (simp add: model_key_def)
qed

lemma create_readiness_lineage:
  assumes "create_readiness_assessment eid opr mid fid cwid twid inp now nid s = Inr s'"
    and "settled s" and "lineage s"
  shows "lineage s'"
proof -
  obtain m f r v ov cur tgt stages d where run: "get_model eid mid s = Inr m" "cm_status m = MApproved"
    "get_opportunity eid fid s = Inr f" "fo_status f = OSelected" "fo_model_id f = cm_id m"
    "r = drafted_readiness nid eid v ov m f cur tgt stages d opr"
    "lineage s' = lineage (s\<lparr>readiness_rows := add r (readiness_rows s)\<rparr>)"
    by (rule create_readiness_Inr [OF assms(1)]) simp
  note m = get_row(1) [OF assms(2) run(1)] and f = get_row(3) [OF assms(2) run(3)]
  have "fo_model_version f = cm_version m"
    using model_of_opportunity [OF assms(2,3)] m f run(4,5) by (simp add: fo_live_def)
  then have "ra_backed s r"
    using m f run(2,4,5) unfolding run(6) ra_backed_def approved_models_live selected_live drafted_readiness_def
    by (auto simp: model_key_def opportunity_key_def)
  then show ?thesis unfolding run(7)
    by (intro lineage_readiness_rows [OF assms(3) ready_add])
       (use lineageD(2) [OF assms(3)] in \<open>auto simp: current_add\<close>)
qed

lemma approve_readiness_Inr:
  assumes "approve_readiness_assessment eid rid opr now s = Inr s'"
  obtains r s0 s1 w where "get_readiness eid rid s = Inr r" and "ra_status r = ADraft"
    and "s0 = foldl (stale_readiness w now (Some (op_id opr))) s (map ra_id
        (select (\<lambda>x. ra_engagement_id x = eid \<and> ra_id x \<noteq> ra_id r \<and> ra_status x = AApproved) (readiness_rows s)))"
    and "factory_accepted s0" and "s1 = (synced s0)\<lparr>readiness_rows :=
        modify (\<lambda>x. ra_id x = ra_id r) (approve_readiness opr now) (readiness_rows (synced s0))\<rparr>"
    and "factory_accepted s1" and "s' = synced (record_event (ra_engagement_id r) readiness_type (ra_id r) opr
             (lit ''fdlc_readiness.approved'') (JObj []) s1)"
  using assms unfolding approve_readiness_assessment_def Let_def result_simps factory_accepted_record by blast

lemma readiness_ids_loop:
  assumes "mark_pending s"
  shows "cascade_spec w n (\<lambda>_. False) (\<lambda>r. ra_id r \<in> set ids) (\<lambda>_. False) s
    (foldl (stale_readiness w n a) s ids)"
  using cascade_fold [where M = "\<lambda>_ _. False" and R = "\<lambda>k r. ra_id r = k" and F = "\<lambda>_ _. False"
      and f = "stale_readiness w n a" and ks = ids, OF stale_readiness_spec assms]
  by (simp add: bex_simps)

lemma opportunity_ids_loop:
  assumes "mark_pending s"
  shows "cascade_spec w n (\<lambda>_. False) (\<lambda>_. False) (\<lambda>f. fo_id f \<in> set ids) s
    (foldl (stale_opportunity w n a) s ids)"
  using cascade_fold [where M = "\<lambda>_ _. False" and F = "\<lambda>k r. fo_id r = k" and R = "\<lambda>_ _. False"
      and f = "stale_opportunity w n a" and ks = ids, OF stale_opportunity_spec assms]
  by (simp add: bex_simps)

lemma approve_readiness_lineage:
  assumes "approve_readiness_assessment eid rid opr now s = Inr s'" and "settled s" and "lineage s"
  shows "lineage s'"
proof -
  obtain r s0 s1 w where run: "get_readiness eid rid s = Inr r" "ra_status r = ADraft"
    "s0 = foldl (stale_readiness w now (Some (op_id opr))) s (map ra_id
        (select (\<lambda>x. ra_engagement_id x = eid \<and> ra_id x \<noteq> ra_id r \<and> ra_status x = AApproved) (readiness_rows s)))"
    "s1 = (synced s0)\<lparr>readiness_rows :=
        modify (\<lambda>x. ra_id x = ra_id r) (approve_readiness opr now) (readiness_rows (synced s0))\<rparr>"
    "lineage s' = lineage s1"
    by (rule approve_readiness_Inr [OF assms(1)]) simp
  define ids where "ids = map ra_id
    (select (\<lambda>x. ra_engagement_id x = eid \<and> ra_id x \<noteq> ra_id r \<and> ra_status x = AApproved) (readiness_rows s))"
  have c: "cascade_spec w now (\<lambda>_. False) (\<lambda>x. ra_id x \<in> set ids) (\<lambda>_. False) s s0"
    unfolding run(3) ids_def by (rule readiness_ids_loop [OF settled_pending [OF assms(2)]])
  note r = get_row(2) [OF assms(2) run(1)] and l = cascade_lineage [OF c assms(3)]
  have only: "x = r" if x: "x \<in> set (current (readiness_rows s0))" "ra_id x = ra_id r" for x
  proof -
    have "x \<in> set (current (readiness_rows s))"
      by (rule marked_kept_row [where key = ra_id, OF x(1) [unfolded staled_tables(2) [OF c]] x(2)])
        (auto simp: ids_def select_settled [OF assms(2)] hit_readiness_def hit_opportunity_def)
    then show ?thesis using unique_key [OF settled_keys(2) [OF assms(2)]] r x(2) by blast
  qed
  have only': "x = r" if "x \<in> set (current (readiness_rows (synced s0)))" "ra_id x = ra_id r" for x
    using that by (intro only) (simp_all add: current_flush)
  have "lineage ((synced s0)\<lparr>readiness_rows :=
        modify (\<lambda>x. ra_id x = ra_id r) (approve_readiness opr now) (readiness_rows (synced s0))\<rparr>)"
  proof (rule lineage_readiness_rows)
    show "lineage (synced s0)" using l by simp
    show "ready_assessments (synced s0) \<subseteq> ready_assessments ((synced s0)\<lparr>readiness_rows :=
        modify (\<lambda>x. ra_id x = ra_id r) (approve_readiness opr now) (readiness_rows (synced s0))\<rparr>)"
    proof (rule ready_point)
      fix x assume "x \<in> set (current (readiness_rows (synced s0)))" "ra_id x = ra_id r"
      then have "x = r" by (rule only')
      then show "ra_status x \<noteq> AApproved" using run(2) by simp
    qed
    show "ra_backed (synced s0) x" if x: "x \<in> set (current (modify (\<lambda>x. ra_id x = ra_id r)
        (approve_readiness opr now) (readiness_rows (synced s0))))" "ra_live x" for x
    proof -
      have "y \<in> set (current (readiness_rows (synced s0))) \<Longrightarrow> ra_live y \<Longrightarrow> ra_backed (synced s0) y" for y
        using l by (intro lineageD(2)) simp
      moreover have "ra_live r" using run(2) by (simp add: ra_live_def)
      ultimately show ?thesis
        using current_point_only [where key = ra_id and f = r, OF x(1) only'] x(2) by auto
    qed
  qed
  then show ?thesis using run(4,5) by simp
qed

section \<open>Opportunities\<close>

lemma create_opportunity_Inr:
  assumes "create_factory_opportunity eid opr mid i now nid s = Inr s'"
  obtains m s1 f v st sc d w ids where "get_model eid mid s = Inr m" and "cm_status m = MApproved"
    and "ids = map fo_id (select (\<lambda>r. fo_engagement_id r = eid \<and> fo_key r = oi_key i \<and> fo_status r \<noteq> OStale)
        (opportunities s))"
    and "s1 = foldl (stale_opportunity w now (Some (op_id opr))) s ids"
    and "f = drafted_opportunity nid eid v st m i sc d opr"
    and "factory_accepted (s1\<lparr>opportunities := add f (opportunities s1)\<rparr>)"
    and "s' = record_event eid opportunity_type nid opr (lit ''factory_opportunity.assessed'') (JObj [])
      (synced (s1\<lparr>opportunities := add f (opportunities s1)\<rparr>))"
  using assms unfolding create_factory_opportunity_def Let_def result_simps by blast

lemma create_opportunity_lineage:
  assumes "create_factory_opportunity eid opr mid i now nid s = Inr s'" and "settled s" and "lineage s"
  shows "lineage s'"
proof -
  obtain m s1 f v st sc d w ids where run: "get_model eid mid s = Inr m" "cm_status m = MApproved"
    "s1 = foldl (stale_opportunity w now (Some (op_id opr))) s ids"
    "f = drafted_opportunity nid eid v st m i sc d opr"
    "lineage s' = lineage (s1\<lparr>opportunities := add f (opportunities s1)\<rparr>)"
    by (rule create_opportunity_Inr [OF assms(1)]) simp
  have c: "cascade_spec w now (\<lambda>_. False) (\<lambda>_. False) (\<lambda>f. fo_id f \<in> set ids) s s1"
    unfolding run(3) by (rule opportunity_ids_loop [OF settled_pending [OF assms(2)]])
  note l = cascade_lineage [OF c assms(3)] and m = get_row(1) [OF assms(2) run(1)]
  have "m \<in> set (current (customer_models s1))"
    unfolding staled_tables(1) [OF c] using m by (intro marked_keeps) auto
  then have "fo_backed s1 f"
    using m run(2) unfolding run(4) fo_backed_def approved_models_live
    by (auto simp: drafted_opportunity_def model_key_def)
  then show ?thesis unfolding run(5)
    by (intro lineage_opportunity_rows [OF l selected_add]) (use lineageD(1) [OF l] in \<open>auto simp: current_add\<close>)
qed

lemma select_opportunity_Inr:
  assumes "select_factory_opportunity eid fid opr reason now s = Inr s'"
  obtains f s0 s1 w cr where "get_opportunity eid fid s = Inr f" and "fo_status f \<in> {OAssessed, ORecommended}"
    and "cr = py_strip reason" and "cr \<noteq> []"
    and "s0 = foldl (stale_opportunity w now (Some (op_id opr))) s (map fo_id
        (select (\<lambda>r. fo_engagement_id r = eid \<and> fo_id r \<noteq> fo_id f \<and> fo_status r = OSelected) (opportunities s)))"
    and "factory_accepted s0" and "s1 = (synced s0)\<lparr>opportunities :=
        modify (\<lambda>r. fo_id r = fo_id f) (select_opportunity opr now cr) (opportunities (synced s0))\<rparr>"
    and "factory_accepted s1" and "s' = synced (record_event (fo_engagement_id f) opportunity_type (fo_id f) opr
             (lit ''factory_opportunity.selected'') (JObj []) s1)"
  using assms unfolding select_factory_opportunity_def Let_def result_simps factory_accepted_record by blast

lemma select_opportunity_lineage:
  assumes "select_factory_opportunity eid fid opr reason now s = Inr s'" and "settled s" and "lineage s"
  shows "lineage s'"
proof -
  obtain f s0 s1 w cr where run: "get_opportunity eid fid s = Inr f" "fo_status f \<in> {OAssessed, ORecommended}"
    "s0 = foldl (stale_opportunity w now (Some (op_id opr))) s (map fo_id
        (select (\<lambda>r. fo_engagement_id r = eid \<and> fo_id r \<noteq> fo_id f \<and> fo_status r = OSelected) (opportunities s)))"
    "s1 = (synced s0)\<lparr>opportunities :=
        modify (\<lambda>r. fo_id r = fo_id f) (select_opportunity opr now cr) (opportunities (synced s0))\<rparr>"
    "lineage s' = lineage s1"
    by (rule select_opportunity_Inr [OF assms(1)]) simp
  define ids where "ids = map fo_id
    (select (\<lambda>r. fo_engagement_id r = eid \<and> fo_id r \<noteq> fo_id f \<and> fo_status r = OSelected) (opportunities s))"
  have c: "cascade_spec w now (\<lambda>_. False) (\<lambda>_. False) (\<lambda>x. fo_id x \<in> set ids) s s0"
    unfolding run(3) ids_def by (rule opportunity_ids_loop [OF settled_pending [OF assms(2)]])
  note f = get_row(3) [OF assms(2) run(1)] and l = cascade_lineage [OF c assms(3)]
  have only: "x = f" if x: "x \<in> set (current (opportunities s0))" "fo_id x = fo_id f" for x
  proof -
    have "x \<in> set (current (opportunities s))"
      by (rule marked_kept_row [where key = fo_id, OF x(1) [unfolded staled_tables(3) [OF c]] x(2)])
        (auto simp: ids_def select_settled [OF assms(2)] hit_opportunity_def)
    then show ?thesis using unique_key [OF settled_keys(3) [OF assms(2)]] f x(2) by blast
  qed
  have only': "x = f" if "x \<in> set (current (opportunities (synced s0)))" "fo_id x = fo_id f" for x
    using that by (intro only) (simp_all add: current_flush)
  have "lineage ((synced s0)\<lparr>opportunities :=
        modify (\<lambda>r. fo_id r = fo_id f) (select_opportunity opr now cr) (opportunities (synced s0))\<rparr>)"
  proof (rule lineage_opportunity_rows)
    show "lineage (synced s0)" using l by simp
    show "selected_opportunities (synced s0) \<subseteq> selected_opportunities ((synced s0)\<lparr>opportunities :=
        modify (\<lambda>r. fo_id r = fo_id f) (select_opportunity opr now cr) (opportunities (synced s0))\<rparr>)"
    proof (rule selected_point)
      fix x assume "x \<in> set (current (opportunities (synced s0)))" "fo_id x = fo_id f"
      then have "x = f" by (rule only')
      then show "fo_status x \<noteq> OSelected" using run(2) by auto
    qed
    show "fo_backed (synced s0) x" if x: "x \<in> set (current (modify (\<lambda>r. fo_id r = fo_id f)
        (select_opportunity opr now cr) (opportunities (synced s0))))" "fo_live x" for x
    proof -
      have "y \<in> set (current (opportunities (synced s0))) \<Longrightarrow> fo_live y \<Longrightarrow> fo_backed (synced s0) y" for y
        using l by (intro lineageD(1)) simp
      moreover have "fo_live f" using run(2) by (auto simp: fo_live_def)
      ultimately show ?thesis
        using current_point_only [where key = fo_id and f = f, OF x(1) only'] x(2) by auto
    qed
  qed
  then show ?thesis using run(4,5) by simp
qed

lemma reject_opportunity_Inr:
  assumes "reject_factory_opportunity eid fid opr reason now s = Inr s'"
  obtains f s1 cr where "get_opportunity eid fid s = Inr f"
    and "fo_status f \<in> {OCandidate, OAssessed, ORecommended}" and "cr = py_strip reason" and "cr \<noteq> []"
    and "s1 = s\<lparr>opportunities := modify (\<lambda>r. fo_id r = fo_id f) (reject_opportunity opr now cr) (opportunities s)\<rparr>"
    and "factory_accepted s1"
    and "s' = synced (record_event (fo_engagement_id f) opportunity_type (fo_id f) opr
       (lit ''factory_opportunity.rejected'') (obj [(''reason'', JStr cr)]) s1)"
  using assms unfolding reject_factory_opportunity_def Let_def result_simps factory_accepted_record by blast

lemma reject_opportunity_lineage:
  assumes "reject_factory_opportunity eid fid opr reason now s = Inr s'" and "settled s" and "lineage s"
  shows "lineage s'"
proof -
  obtain f cr where run: "get_opportunity eid fid s = Inr f" "fo_status f \<in> {OCandidate, OAssessed, ORecommended}"
    "lineage s' = lineage (s\<lparr>opportunities :=
       modify (\<lambda>r. fo_id r = fo_id f) (reject_opportunity opr now cr) (opportunities s)\<rparr>)"
    by (rule reject_opportunity_Inr [OF assms(1)]) simp
  note f = get_row(3) [OF assms(2) run(1)]
  have only: "x = f" if "x \<in> set (current (opportunities s))" "fo_id x = fo_id f" for x
    using unique_key [OF settled_keys(3) [OF assms(2)]] f that by blast
  show ?thesis unfolding run(3)
  proof (rule lineage_opportunity_rows [OF assms(3) selected_point])
    show "fo_status x \<noteq> OSelected" if "x \<in> set (current (opportunities s))" "fo_id x = fo_id f" for x
      using only [OF that] run(2) by auto
    show "fo_backed s x" if x: "x \<in> set (current (modify (\<lambda>r. fo_id r = fo_id f)
        (reject_opportunity opr now cr) (opportunities s)))" "fo_live x" for x
      using current_point_only [where key = fo_id and f = f, OF x(1) only] x(2) lineageD(1) [OF assms(3)] by auto
  qed
qed

end
