(* ===== verification/FactoryPackageOps.thy ===== *)
theory FactoryPackageOps
  imports FactoryOps
begin

text \<open>
  The package operations and the staling entry points keep the lineage.
\<close>

section \<open>Packages\<close>

lemma ex_unit: "(\<exists>u :: unit. P u) \<longleftrightarrow> P ()"
  by auto

lemma package_sources_Inr:
  "validate_package_sources m r f = Inr u \<longleftrightarrow> cm_status m = MApproved \<and> ra_status r = AApproved
     \<and> ra_overall_status r = Ready \<and> ra_model_id r = cm_id m \<and> ra_opportunity_id r = fo_id f
     \<and> ra_opportunity_version r = fo_version f \<and> fo_status f = OSelected \<and> fo_model_id f = cm_id m"
  by (auto simp: validate_package_sources_def result_simps)

lemma create_package_Inr:
  assumes "create_deployment_package eid opr iss mid rid fid target inp pid nid fresh s = Inr s'"
  obtains m r f p v ident where "get_model eid mid s = Inr m" and "get_readiness eid rid s = Inr r"
    and "get_opportunity eid fid s = Inr f" and "validate_package_sources m r f = Inr ()"
    and "valid_issuer iss" and "stable_package_id eid iss pid fresh s = Inr ident"
    and "v = stored_max pk_version (\<lambda>p. pk_engagement_id p = eid \<and> pk_package_id p = ident) (packages s)"
    and "p = drafted_package nid eid ident v iss m r f target inp opr"
    and "factory_accepted (s\<lparr>packages := add p (packages s)\<rparr>)"
    and "s' = record_event eid package_type nid opr (lit ''deployment_package.drafted'') (JObj [])
      (synced (s\<lparr>packages := add p (packages s)\<rparr>))"
  using assms unfolding create_deployment_package_def Let_def result_simps ex_unit by blast

lemma backed_package:
  assumes "settled s" and "lineage s" and "m \<in> set (current (customer_models s))"
    and "r \<in> set (current (readiness_rows s))" and "f \<in> set (current (opportunities s))"
    and "cm_engagement_id m = eid" and "ra_engagement_id r = eid" and "fo_engagement_id f = eid"
    and "validate_package_sources m r f = Inr ()"
  shows "pk_backed s (drafted_package nid eid ident v iss m r f target inp opr)"
proof -
  note src = assms(9) [unfolded package_sources_Inr]
  have fv: "fo_model_version f = cm_version m"
    using model_of_opportunity [OF assms(1,2,3,5)] src by (simp add: fo_live_def)
  obtain f' where f': "f' \<in> set (current (opportunities s))"
    "opportunity_key f' = (ra_engagement_id r, ra_opportunity_id r, ra_opportunity_version r)"
    "fo_model_version f' = ra_model_version r"
    using lineageD(2) [OF assms(2,4)] src by (auto simp: ra_live_def ra_backed_def selected_live)
  then have "f' = f" using unique_key [OF settled_keys(3) [OF assms(1)] f'(1) assms(5)] src
    by (simp add: opportunity_key_def)
  then have "ra_model_version r = cm_version m" using f'(3) fv by simp
  then show ?thesis
    using assms(3-8) src fv
    unfolding pk_backed_def approved_models_live selected_live ready_live drafted_package_def
    by (auto simp: model_key_def opportunity_key_def ready_key_def readiness_key_def)
qed

lemma create_package_lineage:
  assumes "create_deployment_package eid opr iss mid rid fid target inp pid nid fresh s = Inr s'"
    and "settled s" and "lineage s"
  shows "lineage s'"
proof -
  obtain m r f p v ident where run: "get_model eid mid s = Inr m" "get_readiness eid rid s = Inr r"
    "get_opportunity eid fid s = Inr f" "validate_package_sources m r f = Inr ()"
    "p = drafted_package nid eid ident v iss m r f target inp opr"
    "lineage s' = lineage (s\<lparr>packages := add p (packages s)\<rparr>)"
    by (rule create_package_Inr [OF assms(1)]) simp
  have "pk_backed s p" unfolding run(5)
    using get_row(1) [OF assms(2) run(1)] get_row(2) [OF assms(2) run(2)] get_row(3) [OF assms(2) run(3)]
    by (intro backed_package [OF assms(2,3)] run(4)) simp_all
  then show ?thesis unfolding run(6)
    by (intro lineage_package_rows [OF assms(3)]) (use lineageD(3) [OF assms(3)] in \<open>auto simp: current_add\<close>)
qed

text \<open>
  The other operations change one package, keeping what it is drawn from, and never revive it.
\<close>

lemma lineage_package_point:
  assumes "settled s" and "lineage s" and "p \<in> set (current (packages s))" and "pk_live p \<or> \<not> pk_live (g p)"
    and "pk_backed s (g p) = pk_backed s p"
  shows "lineage (s\<lparr>packages := modify (\<lambda>x. pk_id x = pk_id p) g (packages s)\<rparr>)"
proof (rule lineage_package_rows [OF assms(2)])
  have only: "x = p" if "x \<in> set (current (packages s))" "pk_id x = pk_id p" for x
    using unique_key [OF settled_keys(4) [OF assms(1)]] assms(3) that by blast
  fix x assume x: "x \<in> set (current (modify (\<lambda>x. pk_id x = pk_id p) g (packages s)))" "pk_live x"
  show "pk_backed s x"
    using current_point_only [where key = pk_id and f = p, OF x(1) only] x(2) assms(4,5)
      lineageD(3) [OF assms(2)] by auto
qed

lemma package_backed_point [simp]:
  "pk_backed s (p\<lparr>pk_status := st\<rparr>) = pk_backed s p"
  "pk_backed s (approve_package opr b now p) = pk_backed s p"
  "pk_backed s (p\<lparr>pk_digest := d\<rparr>) = pk_backed s p"
  "pk_backed s (publish_package now p) = pk_backed s p"
  "pk_backed s (reject_package why now p) = pk_backed s p"
  "pk_backed s (revoke_package why now p) = pk_backed s p"
  "pk_backed s (supersede_package why now p) = pk_backed s p"
  "\<not> pk_live (reject_package why now p)" "\<not> pk_live (revoke_package why now p)"
  "\<not> pk_live (supersede_package why now p)"
  by (simp_all add: pk_backed_def approve_package_def publish_package_def reject_package_def
      revoke_package_def supersede_package_def pk_live_def package_terminal_def)

lemma submit_package_Inr:
  assumes "submit_deployment_package_for_review eid pid opr s = Inr s'"
  obtains p s1 where "get_package eid pid s = Inr p" and "pk_status p = PDraft"
    and "validate_package_row_sources s p = Inr ()"
    and "s1 = record_event (pk_engagement_id p) package_type (pk_id p) opr
       (lit ''deployment_package.ready_for_review'') (JObj [])
       (s\<lparr>packages := modify (\<lambda>x. pk_id x = pk_id p) (\<lambda>x. x\<lparr>pk_status := PReadyForReview\<rparr>) (packages s)\<rparr>)"
    and "factory_accepted s1" and "s' = synced s1"
  using assms unfolding submit_deployment_package_for_review_def Let_def result_simps ex_unit by blast

lemma submit_package_lineage:
  assumes "submit_deployment_package_for_review eid pid opr s = Inr s'" and "settled s" and "lineage s"
  shows "lineage s'"
proof -
  obtain p where run: "get_package eid pid s = Inr p" "pk_status p = PDraft"
    "lineage s' = lineage (s\<lparr>packages :=
       modify (\<lambda>x. pk_id x = pk_id p) (\<lambda>x. x\<lparr>pk_status := PReadyForReview\<rparr>) (packages s)\<rparr>)"
    by (rule submit_package_Inr [OF assms(1)]) simp
  show ?thesis unfolding run(3) using get_row(4) [OF assms(2) run(1)] run(2)
    by (intro lineage_package_point assms(2,3)) (auto simp: pk_live_def package_terminal_def)
qed

lemma approve_package_Inr:
  assumes "approve_deployment_package eid pid opr basis now s = Inr s'"
  obtains p b d s1 where "get_package eid pid s = Inr p" and "pk_status p = PReadyForReview"
    and "validate_package_row_sources s p = Inr ()" and "valid_binding b"
    and "bd_approved_by b = op_id opr" and "bd_approved_at b = now"
    and "bd_authorized_by_ref b = sr_ref (bd_authority_basis_ref b)"
    and "calculate_package_digest s (approve_package opr b now p) = Inr d"
    and "s1 = record_event (pk_engagement_id p) package_type (pk_id p) opr
       (lit ''deployment_package.approved'') (obj [(''digest'', JStr d)])
       (s\<lparr>packages := modify (\<lambda>x. pk_id x = pk_id p) (\<lambda>x. (approve_package opr b now x)\<lparr>pk_digest := Some d\<rparr>)
           (packages s)\<rparr>)"
    and "factory_accepted s1" and "s' = synced s1"
  using assms unfolding approve_deployment_package_def make_binding_def Let_def result_simps ex_unit by force

lemma approve_package_lineage:
  assumes "approve_deployment_package eid pid opr basis now s = Inr s'" and "settled s" and "lineage s"
  shows "lineage s'"
proof -
  obtain p b d where run: "get_package eid pid s = Inr p" "pk_status p = PReadyForReview"
    "lineage s' = lineage (s\<lparr>packages :=
       modify (\<lambda>x. pk_id x = pk_id p) (\<lambda>x. (approve_package opr b now x)\<lparr>pk_digest := Some d\<rparr>) (packages s)\<rparr>)"
    by (rule approve_package_Inr [OF assms(1)]) simp
  show ?thesis unfolding run(3) using get_row(4) [OF assms(2) run(1)] run(2)
    by (intro lineage_package_point assms(2,3)) (auto simp: pk_live_def package_terminal_def)
qed

lemma reject_package_Inr:
  assumes "reject_deployment_package eid pid opr reason now s = Inr s'"
  obtains p why s1 where "get_package eid pid s = Inr p" and "pk_status p \<in> {PDraft, PReadyForReview, PApproved}"
    and "s1 = record_event (pk_engagement_id p) package_type (pk_id p) opr
       (lit ''deployment_package.rejected'') (obj [(''reason'', JStr why)])
       (s\<lparr>packages := modify (\<lambda>x. pk_id x = pk_id p) (reject_package why now) (packages s)\<rparr>)"
    and "factory_accepted s1" and "s' = synced s1"
  using assms unfolding reject_deployment_package_def Let_def result_simps ex_unit by blast

lemma reject_package_lineage:
  assumes "reject_deployment_package eid pid opr reason now s = Inr s'" and "settled s" and "lineage s"
  shows "lineage s'"
proof -
  obtain p why where run: "get_package eid pid s = Inr p"
    "lineage s' = lineage (s\<lparr>packages := modify (\<lambda>x. pk_id x = pk_id p) (reject_package why now) (packages s)\<rparr>)"
    by (rule reject_package_Inr [OF assms(1)]) simp
  show ?thesis unfolding run(2) using get_row(4) [OF assms(2) run(1)]
    by (intro lineage_package_point assms(2,3)) auto
qed

lemma revoke_package_Inr:
  assumes "revoke_deployment_package eid pid opr reason now s = Inr s'"
  obtains p why where "get_package eid pid s = Inr p" and "pk_status p = PPublished"
    and "s' = record_event (pk_engagement_id p) package_type (pk_id p) opr
       (lit ''deployment_package.revoked'') (JObj [])
       (s\<lparr>packages := modify (\<lambda>x. pk_id x = pk_id p) (revoke_package why now) (packages s)\<rparr>)"
  using assms unfolding revoke_deployment_package_def Let_def result_simps ex_unit by blast

lemma revoke_package_lineage:
  assumes "revoke_deployment_package eid pid opr reason now s = Inr s'" and "settled s" and "lineage s"
  shows "lineage s'"
proof -
  obtain p why where run: "get_package eid pid s = Inr p"
    "lineage s' = lineage (s\<lparr>packages := modify (\<lambda>x. pk_id x = pk_id p) (revoke_package why now) (packages s)\<rparr>)"
    by (rule revoke_package_Inr [OF assms(1)]) simp
  show ?thesis unfolding run(2) using get_row(4) [OF assms(2) run(1)]
    by (intro lineage_package_point assms(2,3)) auto
qed

text \<open>Superseding the published packages of an engagement, one after the other, is one update.\<close>

lemma supersede_fields [simp]:
  "pk_id (supersede_package why now p) = pk_id p"
  "pk_status (supersede_package why now p) = PSuperseded"
  "supersede_package why now (supersede_package why now p) = supersede_package why now p"
  by (simp_all add: supersede_package_def)

lemma supersede_fold:
  "packages (foldl (supersede_step eid why now a) s ids)
     = modify (\<lambda>x. pk_id x \<in> set ids) (supersede_package why now) (packages s)
   \<and> customer_models (foldl (supersede_step eid why now a) s ids) = customer_models s
   \<and> readiness_rows (foldl (supersede_step eid why now a) s ids) = readiness_rows s
   \<and> opportunities (foldl (supersede_step eid why now a) s ids) = opportunities s
   \<and> base_tables (foldl (supersede_step eid why now a) s ids) = base_tables s"
proof (induction ids arbitrary: s)
  case (Cons k ids)
  show ?case using Cons.IH [of "supersede_step eid why now a s k"]
    by (auto simp: supersede_step_def modify_def)
qed (simp add: modify_True)

lemma publish_package_Inr:
  assumes "publish_deployment_package eid pid opr now s = Inr s'"
  obtains p s0 s1 why ids where "get_package eid pid s = Inr p" and "pk_status p = PApproved"
    and "validate_package_row_sources s p = Inr ()"
    and "calculate_package_digest s p = Inr (the (pk_digest p))" and "pk_digest p \<noteq> None"
    and "ids = map pk_id (select (\<lambda>x. pk_engagement_id x = eid \<and> pk_id x \<noteq> pk_id p \<and> pk_status x = PPublished)
        (packages s))"
    and "s0 = foldl (supersede_step eid why now (op_id opr)) s ids" and "factory_accepted s0"
    and "s1 = record_event (pk_engagement_id p) package_type (pk_id p) opr
             (lit ''deployment_package.published'') (obj [(''digest'', jopt JStr (pk_digest p))])
             ((synced s0)\<lparr>packages := modify (\<lambda>x. pk_id x = pk_id p) (publish_package now) (packages (synced s0))\<rparr>)"
    and "factory_accepted s1" and "s' = synced s1"
  using assms unfolding publish_deployment_package_def Let_def result_simps ex_unit by force

lemma lineage_supersede:
  assumes "lineage s"
  shows "lineage (foldl (supersede_step eid why now a) s ids)"
proof -
  note t = supersede_fold [of eid why now a s ids]
  have "lineage (s\<lparr>packages := packages (foldl (supersede_step eid why now a) s ids)\<rparr>)"
    using t lineageD(3) [OF assms]
    by (intro lineage_package_rows [OF assms]) (auto simp: set_current_modify split: if_splits)
  then show ?thesis using t
    by (subst lineage_cong [of _ "s\<lparr>packages := packages (foldl (supersede_step eid why now a) s ids)\<rparr>"]) simp_all
qed

lemma publish_package_lineage:
  assumes "publish_deployment_package eid pid opr now s = Inr s'" and "settled s" and "lineage s"
  shows "lineage s'"
proof -
  obtain p s0 why ids where run: "get_package eid pid s = Inr p" "pk_status p = PApproved"
    "ids = map pk_id (select (\<lambda>x. pk_engagement_id x = eid \<and> pk_id x \<noteq> pk_id p \<and> pk_status x = PPublished)
        (packages s))"
    "s0 = foldl (supersede_step eid why now (op_id opr)) s ids" "factory_accepted s0"
    "lineage s' = lineage ((synced s0)\<lparr>packages :=
       modify (\<lambda>x. pk_id x = pk_id p) (publish_package now) (packages (synced s0))\<rparr>)"
    by (rule publish_package_Inr [OF assms(1)]) simp
  note p = get_row(4) [OF assms(2) run(1)]
  have "pk_id p \<notin> set ids" by (auto simp: run(3) select_settled [OF assms(2)])
  then have "p \<in> set (current (packages (synced s0)))"
    using p supersede_fold [of eid why now "op_id opr" s ids]
    by (auto simp: run(4) current_flush set_current_modify image_iff)
  then show ?thesis unfolding run(6) using run(2) lineage_supersede [OF assms(3), of eid why now "op_id opr" ids]
    by (intro lineage_package_point synced_settled [OF run(5)])
       (simp_all add: run(4) pk_live_def package_terminal_def)
qed

section \<open>Staling entry points\<close>

lemma stale_all_models_spec:
  assumes "stale_all_customer_models eid why now a s = Inr s'" and "mark_pending s" and "clean (customer_models s)"
  shows "cascade_spec why now (\<lambda>m. cm_engagement_id m = eid) (\<lambda>_. False) (\<lambda>_. False) s s'"
proof -
  define ids where "ids = map cm_id (select (\<lambda>r. cm_engagement_id r = eid \<and> cm_status r \<in> {MDraft, MApproved})
    (customer_models s))"
  have s': "s' = foldl (stale_customer_model why now a) s ids"
    using assms(1) by (auto simp: stale_all_customer_models_def result_simps ids_def)
  have c: "cascade_spec why now (\<lambda>m. cm_id m \<in> set ids) (\<lambda>_. False) (\<lambda>_. False) s s'"
    unfolding s' by (rule stale_models_loop [OF assms(2)])
  have eq: "(cm_id m \<in> set ids) = (cm_engagement_id m = eid)"
    if m: "m \<in> set (current (customer_models s))" "cm_live m" for m
  proof -
    have "distinct (map cm_id (current (customer_models s)))" using assms(2) by (simp add: mark_pending_def)
    note u = unique_key [OF this _ m(1)]
    have live: "cm_status m \<in> {MDraft, MApproved}" using m(2) by (cases "cm_status m") auto
    show ?thesis
    proof
      assume "cm_id m \<in> set ids"
      then obtain m' where m': "m' \<in> set (current (customer_models s))" "cm_engagement_id m' = eid" "cm_id m' = cm_id m"
        by (auto simp: ids_def select_clean [OF assms(3)])
      then show "cm_engagement_id m = eid" using u by blast
    next
      assume "cm_engagement_id m = eid"
      then show "cm_id m \<in> set ids" using m(1) live by (simp add: ids_def select_clean [OF assms(3)])
    qed
  qed
  have F: "hit_opportunity s (\<lambda>m. cm_id m \<in> set ids) (\<lambda>_. False) = hit_opportunity s (\<lambda>m. cm_engagement_id m = eid) (\<lambda>_. False)"
    using eq by (auto simp: hit_opportunity_def fun_eq_iff)
  have R: "hit_readiness s (\<lambda>m. cm_id m \<in> set ids) (\<lambda>_. False) (\<lambda>_. False)
      = hit_readiness s (\<lambda>m. cm_engagement_id m = eid) (\<lambda>_. False) (\<lambda>_. False)"
    using eq by (auto simp: hit_readiness_def F fun_eq_iff)
  have P: "hit_package s (\<lambda>m. cm_id m \<in> set ids) (\<lambda>_. False) (\<lambda>_. False)
      = hit_package s (\<lambda>m. cm_engagement_id m = eid) (\<lambda>_. False) (\<lambda>_. False)"
    by (simp add: hit_package_def F R fun_eq_iff)
  have "marked cm_live (mark_model why now) (\<lambda>m. cm_id m \<in> set ids) (customer_models s)
      = marked cm_live (mark_model why now) (\<lambda>m. cm_engagement_id m = eid) (customer_models s)"
    using eq by (rule marked_cong)
  then show ?thesis using c by (simp add: cascade_spec_def staled_def F R P)
qed

end
