(* ===== verification/Sessions.thy ===== *)
theory Sessions
  imports FactoryPackageOps
begin

text \<open>
  What a request does in its session before the next flush: it changes objects and adds rows.
\<close>

section \<open>Sessions only change objects and add rows\<close>

definition grown :: "'r table \<Rightarrow> 'r table \<Rightarrow> bool" where
  "grown t t' \<longleftrightarrow> (\<exists>k. map fst t' = map fst t @ replicate k None)"

lemma grown_refl [simp]: "grown t t"
  unfolding grown_def by (rule exI [of _ 0]) simp

lemma grown_trans:
  assumes "grown t t1" and "grown t1 t2"
  shows "grown t t2"
proof -
  obtain j k where "map fst t1 = map fst t @ replicate j None" "map fst t2 = map fst t1 @ replicate k None"
    using assms by (auto simp: grown_def)
  then show ?thesis unfolding grown_def by (intro exI [of _ "j + k"]) (simp add: replicate_add)
qed

lemma grown_modify [simp]: "grown t (modify P f t)"
  unfolding grown_def by (rule exI [of _ 0]) (simp add: modify_def comp_def)

lemma grown_add [simp]: "grown t (add r t)"
  unfolding grown_def by (rule exI [of _ 1]) (simp add: add_def)

lemma grown_marked [simp]: "grown t (marked live f P t)"
  by (simp add: marked_def)

definition session_of :: "store \<Rightarrow> store \<Rightarrow> bool" where
  "session_of s s' \<longleftrightarrow> grown (customer_models s) (customer_models s')
     \<and> grown (readiness_rows s) (readiness_rows s') \<and> grown (opportunities s) (opportunities s')
     \<and> grown (packages s) (packages s')"

lemma session_refl [simp]: "session_of s s"
  by (simp add: session_of_def)

lemma session_trans: "session_of s s1 \<Longrightarrow> session_of s1 s2 \<Longrightarrow> session_of s s2"
  unfolding session_of_def by (elim conjE, intro conjI) (rule grown_trans, assumption+)+

lemma session_simps [simp]:
  "session_of s (s'\<lparr>customer_models := t1\<rparr>) \<longleftrightarrow> grown (customer_models s) t1
     \<and> grown (readiness_rows s) (readiness_rows s') \<and> grown (opportunities s) (opportunities s')
     \<and> grown (packages s) (packages s')"
  "session_of s (s'\<lparr>readiness_rows := t2\<rparr>) \<longleftrightarrow> grown (customer_models s) (customer_models s')
     \<and> grown (readiness_rows s) t2 \<and> grown (opportunities s) (opportunities s')
     \<and> grown (packages s) (packages s')"
  "session_of s (s'\<lparr>opportunities := t3\<rparr>) \<longleftrightarrow> grown (customer_models s) (customer_models s')
     \<and> grown (readiness_rows s) (readiness_rows s') \<and> grown (opportunities s) t3
     \<and> grown (packages s) (packages s')"
  "session_of s (s'\<lparr>packages := t4\<rparr>) \<longleftrightarrow> grown (customer_models s) (customer_models s')
     \<and> grown (readiness_rows s) (readiness_rows s') \<and> grown (opportunities s) (opportunities s')
     \<and> grown (packages s) t4"
  "session_of s (record_event e ty i opr a d s') = session_of s s'"
  by (simp_all add: session_of_def)

lemma staled_session: "staled w n M R F P s s' \<Longrightarrow> session_of s s'"
  by (simp add: staled_def session_of_def)

lemma cascade_session: "cascade_spec w n M R F s s' \<Longrightarrow> session_of s s'"
  unfolding cascade_spec_def by (rule staled_session)

end
