(* ===== verification/Staling.thy ===== *)
theory Staling
  imports Sessions
begin

text \<open>
  What a change of approved truth makes stale.  Each entry point of \<open>lifecycle.py\<close> is a cascade over
  the rows of one engagement; with the lineage, nothing of that engagement that rests on the changed
  truth stays live, and no row of another engagement changes.
\<close>

section \<open>Other engagements\<close>

definition others_unchanged :: "uuid \<Rightarrow> store \<Rightarrow> store \<Rightarrow> bool" where
  "others_unchanged eid s s' \<longleftrightarrow>
     filter (\<lambda>m. cm_engagement_id m \<noteq> eid) (current (customer_models s'))
       = filter (\<lambda>m. cm_engagement_id m \<noteq> eid) (current (customer_models s))
     \<and> filter (\<lambda>r. ra_engagement_id r \<noteq> eid) (current (readiness_rows s'))
       = filter (\<lambda>r. ra_engagement_id r \<noteq> eid) (current (readiness_rows s))
     \<and> filter (\<lambda>f. fo_engagement_id f \<noteq> eid) (current (opportunities s'))
       = filter (\<lambda>f. fo_engagement_id f \<noteq> eid) (current (opportunities s))
     \<and> filter (\<lambda>p. pk_engagement_id p \<noteq> eid) (current (packages s'))
       = filter (\<lambda>p. pk_engagement_id p \<noteq> eid) (current (packages s))"

lemma others_unchanged_trans:
  "others_unchanged eid s s1 \<Longrightarrow> others_unchanged eid s1 s2 \<Longrightarrow> others_unchanged eid s s2"
  by (simp add: others_unchanged_def)

lemma filter_others:
  assumes "\<And>r. P r \<Longrightarrow> eng r = eid" and "\<And>r. eng (f r) = eng r"
  shows "filter (\<lambda>r. eng r \<noteq> eid) (map (\<lambda>r. if P r \<and> live r then f r else r) xs) = filter (\<lambda>r. eng r \<noteq> eid) xs"
  using assms by (induction xs) auto

lemma marked_others:
  assumes "\<And>r. P r \<Longrightarrow> eng r = eid" and "\<And>r. eng (f r) = eng r"
  shows "filter (\<lambda>r. eng r \<noteq> eid) (current (marked live f P t)) = filter (\<lambda>r. eng r \<noteq> eid) (current t)"
  unfolding marked_def current_modify using assms by (rule filter_others)

lemma cascade_others:
  assumes c: "cascade_spec w n M R F s s'"
    and "\<And>m. M m \<Longrightarrow> cm_engagement_id m = eid" and "\<And>r. R r \<Longrightarrow> ra_engagement_id r = eid"
    and "\<And>f. F f \<Longrightarrow> fo_engagement_id f = eid"
  shows "others_unchanged eid s s'"
proof -
  have F: "fo_engagement_id f = eid" if "hit_opportunity s M F f" for f
    using that assms(2,4) by (auto simp: hit_opportunity_def fo_of_model_def)
  have R: "ra_engagement_id r = eid" if "hit_readiness s M R F r" for r
    using that assms(2,3) F by (auto simp: hit_readiness_def ra_of_model_def ra_of_opportunity_def)
  have P: "pk_engagement_id p = eid" if "hit_package s M R F p" for p
    using that R F by (auto simp: hit_package_def pk_of_readiness_def pk_of_opportunity_def)
  show ?thesis
    unfolding others_unchanged_def staled_tables [OF c]
    using assms(2) F R P by (simp add: marked_others)
qed

section \<open>The entry points are cascades\<close>

lemma economic_entry:
  assumes "stale_all_after_economic_change eid why now a s = Inr s'" and "mark_pending s"
  shows "cascade_spec why now (\<lambda>_. False) (\<lambda>_. False) (\<lambda>f. fo_engagement_id f = eid) s s'"
  using assms(1) stale_opportunity_loop [OF assms(2), of "\<lambda>f. fo_engagement_id f = eid"]
  by (auto simp: stale_all_after_economic_change_def result_simps)

lemma target_entry:
  assumes "stale_all_after_target_workflow_change eid why now a s = Inr s'" and "mark_pending s"
  shows "cascade_spec why now (\<lambda>_. False) (\<lambda>r. ra_engagement_id r = eid) (\<lambda>_. False) s s'"
  using assms(1) stale_readiness_loop [OF assms(2), of "\<lambda>r. ra_engagement_id r = eid"]
  by (auto simp: stale_all_after_target_workflow_change_def result_simps)

lemma current_entry:
  assumes "stale_all_after_current_workflow_change eid why now a s = Inr s'" and "mark_pending s"
  shows "cascade_spec why now (\<lambda>_. False) (\<lambda>r. ra_engagement_id r = eid) (\<lambda>f. fo_engagement_id f = eid) s s'"
proof -
  define s1 where "s1 = foldl (stale_readiness why now a) s
    (map ra_id (select (\<lambda>r. ra_engagement_id r = eid \<and> ra_status r \<noteq> AStale) (readiness_rows s)))"
  have c: "cascade_spec why now (\<lambda>_. False) (\<lambda>r. ra_engagement_id r = eid) (\<lambda>_. False) s s1"
    unfolding s1_def by (rule stale_readiness_loop [OF assms(2)]) simp
  note mp = staled_mark_pending [OF c [unfolded cascade_spec_def] assms(2)]
  have same: "opportunities s1 = opportunities s"
    unfolding staled_tables(3) [OF c] by (simp add: hit_opportunity_def [abs_def])
  have s': "s' = foldl (stale_opportunity why now a) s1
      (map fo_id (select (\<lambda>f. fo_engagement_id f = eid \<and> fo_status f \<noteq> OStale) (opportunities s1)))"
    using assms(1) unfolding same by (auto simp: stale_all_after_current_workflow_change_def result_simps s1_def)
  have "cascade_spec why now (\<lambda>_. False) (\<lambda>_. False) (\<lambda>f. fo_engagement_id f = eid) s1 s'"
    unfolding s' by (rule stale_opportunity_loop [OF mp]) simp
  from cascade_spec_trans [OF c this] show ?thesis by simp
qed

lemma artifact_entry:
  assumes "stale_all_packages_after_artifact_change eid why now a s = Inr s'" and "mark_pending s"
  shows "staled why now (\<lambda>_. False) (\<lambda>_. False) (\<lambda>_. False) (\<lambda>p. pk_engagement_id p = eid) s s'"
  using assms(1) stale_packages_staled [OF assms(2), of "\<lambda>p. pk_engagement_id p = eid"]
  by (auto simp: stale_all_packages_after_artifact_change_def result_simps)

lemma upstream_entry:
  assumes "stale_models_for_upstream_reference eid rf why now a s = Inr s'" and "settled s"
  obtains ids where "cascade_spec why now (\<lambda>m. cm_id m \<in> set ids) (\<lambda>_. False) (\<lambda>_. False) s s'"
    and "ids = map cm_id (filter (\<lambda>m. cm_engagement_id m = eid \<and> cm_status m \<in> {MDraft, MApproved}
        \<and> model_contains_reference m rf) (current (customer_models s)))"
proof -
  define ids where "ids = map cm_id (filter (\<lambda>m. cm_engagement_id m = eid \<and> cm_status m \<in> {MDraft, MApproved}
        \<and> model_contains_reference m rf) (current (customer_models s)))"
  have "s' = foldl (stale_customer_model why now a) s ids"
    using assms by (auto simp: stale_models_for_upstream_reference_def result_simps Let_def ids_def
        select_settled filter_filter conj_ac intro!: arg_cong [where f = "foldl _ s"] arg_cong [where f = "map _"] filter_cong)
  then show thesis
    using stale_models_loop [OF settled_pending [OF assms(2)], of why now ids a] that ids_def by blast
qed

text \<open>The updates of workflows, cases and artifacts leave the factory tables alone.\<close>

lemma mark_pending_upstream [simp]:
  "mark_pending (s\<lparr>workflows := w\<rparr>) = mark_pending s"
  "mark_pending (s\<lparr>economic_cases := c\<rparr>) = mark_pending s"
  "mark_pending (s\<lparr>artifacts := a\<rparr>) = mark_pending s"
  by (simp_all add: mark_pending_def)

lemma lineage_upstream [simp]:
  "lineage (s\<lparr>workflows := w\<rparr>) = lineage s" "lineage (s\<lparr>economic_cases := c\<rparr>) = lineage s"
  "lineage (s\<lparr>artifacts := a\<rparr>) = lineage s"
  by (rule lineage_cong; simp)+

lemma others_upstream [simp]:
  "others_unchanged eid (s\<lparr>workflows := w\<rparr>) s' = others_unchanged eid s s'"
  "others_unchanged eid (s\<lparr>economic_cases := c\<rparr>) s' = others_unchanged eid s s'"
  "others_unchanged eid (s\<lparr>artifacts := a\<rparr>) s' = others_unchanged eid s s'"
  by (simp_all add: others_unchanged_def)

section \<open>What is left of an engagement\<close>

definition no_live_opportunity :: "uuid \<Rightarrow> store \<Rightarrow> bool" where
  "no_live_opportunity eid s \<longleftrightarrow> (\<forall>f \<in> set (current (opportunities s)). fo_engagement_id f = eid \<longrightarrow> \<not> fo_live f)"

definition nothing_live :: "uuid \<Rightarrow> store \<Rightarrow> bool" where
  "nothing_live eid s \<longleftrightarrow> no_live_opportunity eid s
     \<and> (\<forall>r \<in> set (current (readiness_rows s)). ra_engagement_id r = eid \<longrightarrow> \<not> ra_live r)
     \<and> (\<forall>p \<in> set (current (packages s)). pk_engagement_id p = eid \<longrightarrow> \<not> pk_live p)"

lemma selected_is_live: "fo_status f = OSelected \<Longrightarrow> fo_live f"
  by (simp add: fo_live_def)

lemma nothing_live_of_opportunities:
  assumes "lineage s" and "no_live_opportunity eid s"
  shows "nothing_live eid s"
proof -
  have sel: "(k, v) \<notin> selected_opportunities s" if "fst k = eid" for k v
    using assms(2) that selected_is_live
    by (auto simp: selected_live no_live_opportunity_def opportunity_key_def)
  have "\<not> ra_live r" if "r \<in> set (current (readiness_rows s))" "ra_engagement_id r = eid" for r
    using lineageD(2) [OF assms(1) that(1)] that(2) sel by (auto simp: ra_backed_def)
  moreover have "\<not> pk_live p" if "p \<in> set (current (packages s))" "pk_engagement_id p = eid" for p
    using lineageD(3) [OF assms(1) that(1)] that(2) sel by (auto simp: pk_backed_def)
  ultimately show ?thesis using assms(2) by (simp add: nothing_live_def)
qed

lemma cascade_live_opportunities:
  assumes c: "cascade_spec w n M R F s s'" and "f \<in> set (current (opportunities s'))" and "fo_live f"
  shows "f \<in> set (current (opportunities s)) \<and> \<not> F f"
  using staled_live(3) [OF c [unfolded cascade_spec_def], of f] assms(2,3) by (auto simp: hit_opportunity_def)

lemma cascade_keeps_dead:
  assumes "cascade_spec w n M R F s s'" and "no_live_opportunity eid s"
  shows "no_live_opportunity eid s'"
  using assms cascade_live_opportunities unfolding no_live_opportunity_def by blast

lemma cascade_kills_opportunities:
  assumes "cascade_spec w n M R (\<lambda>f. fo_engagement_id f = eid) s s'"
  shows "no_live_opportunity eid s'"
  using cascade_live_opportunities [OF assms] unfolding no_live_opportunity_def by blast

text \<open>A step of a truth change: it keeps what the next step needs, and what is dead stays dead.\<close>

definition stales :: "uuid \<Rightarrow> store \<Rightarrow> store \<Rightarrow> bool" where
  "stales eid s s' \<longleftrightarrow> (mark_pending s \<longrightarrow> mark_pending s') \<and> (lineage s \<longrightarrow> lineage s')
     \<and> others_unchanged eid s s' \<and> (no_live_opportunity eid s \<longrightarrow> no_live_opportunity eid s')
     \<and> session_of s s'
     \<and> (\<forall>p \<in> set (current (packages s')). pk_live p \<longrightarrow> p \<in> set (current (packages s)))"

lemma stales_trans: "stales eid s s1 \<Longrightarrow> stales eid s1 s2 \<Longrightarrow> stales eid s s2"
  unfolding stales_def using others_unchanged_trans session_trans by blast

lemma cascade_stales:
  assumes "cascade_spec w n M R F s s'"
    and "\<And>m. M m \<Longrightarrow> cm_engagement_id m = eid" and "\<And>r. R r \<Longrightarrow> ra_engagement_id r = eid"
    and "\<And>f. F f \<Longrightarrow> fo_engagement_id f = eid"
  shows "stales eid s s'"
  using cascade_others [OF assms] cascade_lineage [OF assms(1)] cascade_keeps_dead [OF assms(1)]
    staled_mark_pending [OF assms(1) [unfolded cascade_spec_def]] cascade_session [OF assms(1)]
    staled_live(4) [OF assms(1) [unfolded cascade_spec_def]] unfolding stales_def by blast

lemma stales_upstream [simp]:
  "stales eid (s\<lparr>workflows := w\<rparr>) s' = stales eid s s'"
  "stales eid (s\<lparr>economic_cases := c\<rparr>) s' = stales eid s s'"
  "stales eid (s\<lparr>artifacts := a\<rparr>) s' = stales eid s s'"
  by (simp_all add: stales_def no_live_opportunity_def session_of_def)

lemma economic_change_stales:
  assumes "stale_after_economic_change eid actor now s = Inr s'" and "mark_pending s"
  shows "stales eid s s' \<and> no_live_opportunity eid s' \<and> customer_models s' = customer_models s"
proof -
  have c: "cascade_spec (lit ''The approved economic case changed.'') now (\<lambda>_. False) (\<lambda>_. False)
      (\<lambda>f. fo_engagement_id f = eid) (s\<lparr>artifacts := stale_artifacts eid (artifacts s)\<rparr>) s'"
    by (rule economic_entry) (use assms in \<open>simp_all add: stale_after_economic_change_def\<close>)
  from cascade_stales [OF c, of eid] cascade_kills_opportunities [OF c] staled_tables(1) [OF c] show ?thesis
    by simp
qed

lemma economics_change_stales:
  assumes "stale_economics_and_artifacts eid actor now s = Inr s'" and "mark_pending s"
  shows "stales eid s s' \<and> no_live_opportunity eid s' \<and> customer_models s' = customer_models s"
  using economic_change_stales [of eid actor now "s\<lparr>economic_cases := stale_cases eid (economic_cases s)\<rparr>" s'] assms
  by (simp add: stale_economics_and_artifacts_def)

lemma model_change_stales:
  assumes "stale_after_model_change eid actor now s = Inr s'" and "mark_pending s" and "clean (customer_models s)"
  shows "stales eid s s' \<and> no_live_opportunity eid s'
    \<and> (\<forall>m \<in> set (current (customer_models s')). cm_engagement_id m = eid \<longrightarrow> \<not> cm_live m)"
proof -
  obtain s1 w where run: "stale_economics_and_artifacts eid actor now (s\<lparr>workflows := w\<rparr>) = Inr s1"
    "stale_all_customer_models eid
      (lit ''Verified customer truth changed; regenerate and reapprove the customer model.'') now actor s1 = Inr s'"
    using assms(1) unfolding stale_after_model_change_def bindE_eq_Inr by blast
  note e = economics_change_stales [OF run(1)]
  have c: "cascade_spec (lit ''Verified customer truth changed; regenerate and reapprove the customer model.'') now
      (\<lambda>m. cm_engagement_id m = eid) (\<lambda>_. False) (\<lambda>_. False) s1 s'"
    by (rule stale_all_models_spec [OF run(2)]) (use e assms(2,3) in \<open>auto simp: stales_def\<close>)
  have "\<not> cm_live m" if "m \<in> set (current (customer_models s'))" "cm_engagement_id m = eid" for m
    using staled_live(1) [OF c [unfolded cascade_spec_def], of m] that by blast
  then show ?thesis
    using e assms(2) cascade_stales [OF c, of eid] cascade_keeps_dead [OF c] stales_trans by auto
qed

lemma current_change_stales:
  assumes "stale_after_current_workflow_change eid actor now s = Inr s'" and "mark_pending s"
  shows "stales eid s s' \<and> no_live_opportunity eid s'"
proof -
  obtain s1 w where run: "stale_economics_and_artifacts eid actor now (s\<lparr>workflows := w\<rparr>) = Inr s1"
    "stale_all_after_current_workflow_change eid (lit ''The approved current workflow changed.'') now actor s1 = Inr s'"
    using assms(1) unfolding stale_after_current_workflow_change_def bindE_eq_Inr by blast
  note e = economics_change_stales [OF run(1)]
  have c: "cascade_spec (lit ''The approved current workflow changed.'') now (\<lambda>_. False)
      (\<lambda>r. ra_engagement_id r = eid) (\<lambda>f. fo_engagement_id f = eid) s1 s'"
    by (rule current_entry [OF run(2)]) (use e assms(2) in \<open>auto simp: stales_def\<close>)
  then show ?thesis
    using e assms(2) cascade_stales [OF c, of eid] cascade_keeps_dead [OF c] stales_trans by auto
qed

lemma target_change_stales:
  assumes "stale_after_target_workflow_change eid actor now s = Inr s'" and "mark_pending s"
  shows "stales eid s s' \<and> no_live_opportunity eid s'"
proof -
  obtain s1 where run: "stale_economics_and_artifacts eid actor now s = Inr s1"
    "stale_all_after_target_workflow_change eid (lit ''The approved target workflow changed.'') now actor s1 = Inr s'"
    using assms(1) unfolding stale_after_target_workflow_change_def bindE_eq_Inr by blast
  note e = economics_change_stales [OF run(1) assms(2)]
  have c: "cascade_spec (lit ''The approved target workflow changed.'') now (\<lambda>_. False)
      (\<lambda>r. ra_engagement_id r = eid) (\<lambda>_. False) s1 s'"
    by (rule target_entry [OF run(2)]) (use e assms(2) in \<open>auto simp: stales_def\<close>)
  then show ?thesis
    using e cascade_stales [OF c, of eid] cascade_keeps_dead [OF c] stales_trans by auto
qed

end
