(* ===== verification/FactorySystem.thy ===== *)
theory FactorySystem
  imports Staling
begin

text \<open>
  The handoff as a transition system.  A request runs one operation in the transaction of
  \<open>db.operator_session\<close>: it commits (which flushes) or rolls everything back.  Between requests the
  rest of the system may change every table but the four factory tables.
\<close>

section \<open>Requests\<close>

datatype command =
    CreateModel uuid operator customer_model_input uuid
  | ApproveModel uuid uuid operator time
  | CreateOpportunity uuid operator uuid opportunity_input time uuid
  | SelectOpportunity uuid uuid operator pystr time
  | RejectOpportunity uuid uuid operator pystr time
  | CreateReadiness uuid operator uuid uuid uuid uuid "stage_input list" time uuid
  | ApproveReadiness uuid uuid operator time
  | CreatePackage uuid operator issuer uuid uuid uuid deployment_target package_input "uuid option" uuid uuid
  | SubmitPackage uuid uuid operator
  | ApprovePackage uuid uuid operator source_ref time
  | PublishPackage uuid uuid operator time
  | RejectPackage uuid uuid operator pystr time
  | RevokePackage uuid uuid operator pystr time
  | ModelTruthChanged uuid "uuid option" time
  | CurrentWorkflowChanged uuid "uuid option" time
  | TargetWorkflowChanged uuid "uuid option" time
  | EconomicsChanged uuid "uuid option" time
  | ArtifactChanged uuid "uuid option" time
  | UpstreamReferenceChanged uuid pystr pystr time "uuid option"

primrec operation :: "command \<Rightarrow> store \<Rightarrow> store outcome" where
  "operation (CreateModel eid opr i nid) = create_customer_factory_model eid opr i nid"
| "operation (ApproveModel eid k opr now) = approve_customer_factory_model eid k opr now"
| "operation (CreateOpportunity eid opr m i now nid) = create_factory_opportunity eid opr m i now nid"
| "operation (SelectOpportunity eid k opr why now) = select_factory_opportunity eid k opr why now"
| "operation (RejectOpportunity eid k opr why now) = reject_factory_opportunity eid k opr why now"
| "operation (CreateReadiness eid opr m f cw tw i now nid) =
     create_readiness_assessment eid opr m f cw tw i now nid"
| "operation (ApproveReadiness eid k opr now) = approve_readiness_assessment eid k opr now"
| "operation (CreatePackage eid opr iss m r f t i pid nid fresh) =
     create_deployment_package eid opr iss m r f t i pid nid fresh"
| "operation (SubmitPackage eid k opr) = submit_deployment_package_for_review eid k opr"
| "operation (ApprovePackage eid k opr basis now) = approve_deployment_package eid k opr basis now"
| "operation (PublishPackage eid k opr now) = publish_deployment_package eid k opr now"
| "operation (RejectPackage eid k opr why now) = reject_deployment_package eid k opr why now"
| "operation (RevokePackage eid k opr why now) = revoke_deployment_package eid k opr why now"
| "operation (ModelTruthChanged eid actor now) = stale_after_model_change eid actor now"
| "operation (CurrentWorkflowChanged eid actor now) = stale_after_current_workflow_change eid actor now"
| "operation (TargetWorkflowChanged eid actor now) = stale_after_target_workflow_change eid actor now"
| "operation (EconomicsChanged eid actor now) = stale_after_economic_change eid actor now"
| "operation (ArtifactChanged eid actor now) = stale_after_artifact_change eid actor now"
| "operation (UpstreamReferenceChanged eid rf why now actor) =
     stale_models_for_upstream_reference eid rf why now actor"

definition commit :: "(store \<Rightarrow> store outcome) \<Rightarrow> store \<Rightarrow> store outcome" where
  "commit f s = bindE (f s) flush_session"

definition run_request :: "command \<Rightarrow> store \<Rightarrow> store" where
  "run_request c s = (case commit (operation c) s of Inl _ \<Rightarrow> s | Inr s' \<Rightarrow> s')"

section \<open>Steps and reachable stores\<close>

definition same_factory_tables :: "store \<Rightarrow> store \<Rightarrow> bool" where
  "same_factory_tables s s' \<longleftrightarrow> customer_models s' = customer_models s
     \<and> readiness_rows s' = readiness_rows s \<and> opportunities s' = opportunities s
     \<and> packages s' = packages s"

inductive handoff_step :: "store \<Rightarrow> store \<Rightarrow> bool" where
  request: "handoff_step s (run_request c s)"
| elsewhere: "same_factory_tables s s' \<Longrightarrow> handoff_step s s'"

inductive_cases handoff_stepE: "handoff_step s s'"

inductive reachable :: "store \<Rightarrow> store \<Rightarrow> bool" for s0 where
  start: "reachable s0 s0"
| step: "reachable s0 s \<Longrightarrow> handoff_step s s' \<Longrightarrow> reachable s0 s'"

text \<open>The stores the handoff may start from; a freshly migrated database is one.\<close>

definition well_formed :: "store \<Rightarrow> bool" where
  "well_formed s \<longleftrightarrow> settled s \<and> lineage s"

definition initial :: "store \<Rightarrow> bool" where
  "initial s \<longleftrightarrow> customer_models s = [] \<and> readiness_rows s = [] \<and> opportunities s = [] \<and> packages s = []"

section \<open>The invariant\<close>

lemma settled_same: "same_factory_tables s s' \<Longrightarrow> settled s' = settled s"
  by (simp add: same_factory_tables_def settled_def factory_clean_def factory_accepted_def models_accepted_def
      readiness_accepted_def opportunities_accepted_def packages_accepted_def)

lemma lineage_same: "same_factory_tables s s' \<Longrightarrow> lineage s' = lineage s"
  by (rule lineage_cong) (simp_all add: same_factory_tables_def)

lemma initial_well_formed:
  assumes "initial s"
  shows "well_formed s"
  using assms by (simp add: well_formed_def initial_def settled_def factory_clean_def factory_accepted_def models_accepted_def
      readiness_accepted_def opportunities_accepted_def packages_accepted_def lineage_def accepts_def unique_def
      index_safe_def refers_def clean_def current_def)

lemma staling_lineage:
  assumes "operation c s = Inr s'" and "settled s" and "lineage s"
    and "c \<in> {ModelTruthChanged eid actor now, CurrentWorkflowChanged eid actor now,
      TargetWorkflowChanged eid actor now, EconomicsChanged eid actor now}"
  shows "lineage s'"
  using assms model_change_stales [of eid actor now s s'] current_change_stales [of eid actor now s s']
    target_change_stales [of eid actor now s s'] economic_change_stales [of eid actor now s s']
    settled_pending [OF assms(2)]
  by (auto simp: stales_def settled_def factory_clean_def)

lemma artifact_lineage:
  assumes "stale_after_artifact_change eid actor now s = Inr s'" and "settled s" and "lineage s"
  shows "lineage s'"
proof -
  obtain w where st: "staled w now (\<lambda>_. False) (\<lambda>_. False) (\<lambda>_. False) (\<lambda>p. pk_engagement_id p = eid) s s'"
    using artifact_entry [OF _ settled_pending [OF assms(2)]] assms(1)
    unfolding stale_after_artifact_change_def by blast
  have t: "packages s' = marked pk_live (mark_package w now) (\<lambda>p. pk_engagement_id p = eid) (packages s)"
    "customer_models s' = customer_models s" "readiness_rows s' = readiness_rows s"
    "opportunities s' = opportunities s" using st by (simp_all add: staled_def)
  have "lineage (s\<lparr>packages := packages s'\<rparr>)"
    using staled_live(4) [OF st] lineageD(3) [OF assms(3)] by (intro lineage_package_rows [OF assms(3)]) blast
  then show ?thesis using lineage_cong [of s' "s\<lparr>packages := packages s'\<rparr>"] t by simp
qed

lemma upstream_lineage:
  assumes "stale_models_for_upstream_reference eid rf why now a s = Inr s'" and "settled s" and "lineage s"
  shows "lineage s'"
  by (rule upstream_entry [OF assms(1,2)]) (use assms(3) cascade_lineage in blast)

lemma operation_lineage:
  assumes "operation c s = Inr s'" and "settled s" and "lineage s"
  shows "lineage s'"
proof (cases c)
  case (ModelTruthChanged eid actor now)
  then show ?thesis using staling_lineage [OF assms] by blast
next
  case (CurrentWorkflowChanged eid actor now)
  then show ?thesis using staling_lineage [OF assms] by blast
next
  case (TargetWorkflowChanged eid actor now)
  then show ?thesis using staling_lineage [OF assms] by blast
next
  case (EconomicsChanged eid actor now)
  then show ?thesis using staling_lineage [OF assms] by blast
qed (use assms in \<open>auto intro: create_model_lineage approve_model_lineage create_opportunity_lineage
  select_opportunity_lineage reject_opportunity_lineage create_readiness_lineage approve_readiness_lineage
  create_package_lineage submit_package_lineage approve_package_lineage publish_package_lineage
  reject_package_lineage revoke_package_lineage artifact_lineage upstream_lineage\<close>)

lemma commit_Inr: "commit f s = Inr s' \<longleftrightarrow> (\<exists>s1. f s = Inr s1 \<and> factory_accepted s1 \<and> s' = synced s1)"
  by (simp add: commit_def result_simps)

lemma run_request_cases:
  obtains "run_request c s = s"
  | s1 where "operation c s = Inr s1" and "factory_accepted s1" and "run_request c s = synced s1"
  by (cases "commit (operation c) s") (auto simp: run_request_def commit_Inr)

lemma request_well_formed:
  assumes "well_formed s"
  shows "well_formed (run_request c s)"
  by (rule run_request_cases [of c s])
     (use assms in \<open>auto simp: well_formed_def synced_settled dest: operation_lineage\<close>)

lemma step_well_formed:
  assumes "handoff_step s s'" and "well_formed s"
  shows "well_formed s'"
  using assms
  by (cases rule: handoff_step.cases) (auto simp: request_well_formed, auto simp: well_formed_def settled_same lineage_same)

lemma reachable_well_formed:
  assumes "reachable s0 s" and "well_formed s0"
  shows "well_formed s"
  using assms by (induction rule: reachable.induct) (auto dest: step_well_formed)

end
