(* ===== verification/Retrieval.thy ===== *)
theory Retrieval
  imports FactorySystem
begin

text \<open>
  \<open>modules/factory_engineer/retrieval.py\<close>: the service identity and the bearer grants of an
  engagement, the authentication of a token, and the retrieval of a published package.  The random
  parts of a token (\<open>uuid.uuid4\<close>, \<open>secrets.token_urlsafe\<close>) and the ids of new rows are arguments.
  Times are aware by their type, so the two timezone checks of a grant's expiry cannot fail here.
\<close>

section \<open>State\<close>

datatype retrieval_code =
    Authenticated | InvalidToken | EngagementUnavailable | RevokedToken | ExpiredToken | InvalidScope
  | InactiveServiceIdentity | InvalidServiceMembership
  | PackageNotFound | DeniedStale | DeniedRevoked | DeniedNotPublished | DeniedIntegrity
  | DeniedQualification | Retrieved

fun retrieval_code_text :: "retrieval_code \<Rightarrow> pystr" where
  "retrieval_code_text Authenticated = lit ''AUTHENTICATED''"
| "retrieval_code_text InvalidToken = lit ''INVALID_TOKEN''"
| "retrieval_code_text EngagementUnavailable = lit ''ENGAGEMENT_UNAVAILABLE''"
| "retrieval_code_text RevokedToken = lit ''REVOKED_TOKEN''"
| "retrieval_code_text ExpiredToken = lit ''EXPIRED_TOKEN''"
| "retrieval_code_text InvalidScope = lit ''INVALID_SCOPE''"
| "retrieval_code_text InactiveServiceIdentity = lit ''INACTIVE_SERVICE_IDENTITY''"
| "retrieval_code_text InvalidServiceMembership = lit ''INVALID_SERVICE_MEMBERSHIP''"
| "retrieval_code_text PackageNotFound = lit ''NOT_FOUND''"
| "retrieval_code_text DeniedStale = lit ''DENIED_STALE''"
| "retrieval_code_text DeniedRevoked = lit ''DENIED_REVOKED''"
| "retrieval_code_text DeniedNotPublished = lit ''DENIED_NOT_PUBLISHED''"
| "retrieval_code_text DeniedIntegrity = lit ''DENIED_INTEGRITY''"
| "retrieval_code_text DeniedQualification = lit ''DENIED_QUALIFICATION''"
| "retrieval_code_text Retrieved = lit ''RETRIEVED''"

record grant =
  gr_id :: uuid
  gr_engagement_id :: uuid
  gr_service_operator_id :: uuid
  gr_requester_identity :: pystr
  gr_requester_system :: pystr
  gr_token_digest :: pystr
  gr_scope :: pystr
  gr_expires_at :: time
  gr_revoked_at :: "time option"
  gr_created_by_id :: uuid

record retrieval_event =
  re_engagement_id :: uuid
  re_package_version_id :: "uuid option"
  re_package_id :: uuid
  re_package_version :: int
  re_requester_identity :: pystr
  re_requester_system :: pystr
  re_result :: retrieval_code
  re_digest :: "pystr option"
  re_correlation_id :: uuid

record gateway =
  gw_store :: store
  gw_grants :: "grant table"
  gw_events :: "retrieval_event list"

definition token_prefix :: pystr where
  "token_prefix = lit ''fdp1''"

definition retrieval_scope :: pystr where
  "retrieval_scope = lit ''deployment-packages:retrieve''"

definition max_grant_ttl :: time where
  "max_grant_ttl = 24 * 60 * 60 * 1000000"

section \<open>The grant table\<close>

definition grant_insert_ok :: "grant \<Rightarrow> bool" where
  "grant_insert_ok g \<longleftrightarrow> gr_revoked_at g = None"

definition grant_update_ok :: "grant \<Rightarrow> grant \<Rightarrow> bool" where
  "grant_update_ok old new \<longleftrightarrow> new\<lparr>gr_revoked_at := None\<rparr> = old\<lparr>gr_revoked_at := None\<rparr>
     \<and> (gr_revoked_at new \<noteq> gr_revoked_at old \<longrightarrow> gr_revoked_at old = None \<and> gr_revoked_at new \<noteq> None)"

text \<open>
  The trigger and the constraints of the table.  The CHECK that a grant expires after its creation
  compares with the wall clock of the flush, which is not part of the state.
\<close>

definition grants_accepted :: "gateway \<Rightarrow> bool" where
  "grants_accepted g \<longleftrightarrow> accepts (\<lambda>_. grant_insert_ok) grant_update_ok (gw_grants g)
     \<and> unique gr_id (gw_grants g) \<and> unique gr_token_digest (gw_grants g)
     \<and> list_all (\<lambda>x. gr_scope x = retrieval_scope) (current (gw_grants g))
     \<and> refers (\<lambda>x. (gr_engagement_id x, gr_service_operator_id x)) (gw_grants g)
         (\<lambda>m. (mb_engagement_id m, mb_operator_id m)) (members (gw_store g))"

definition flush_gateway :: "gateway \<Rightarrow> gateway outcome" where
  "flush_gateway g =
     bindE (require (grants_accepted g) (ConstraintViolation ''package_retrieval_grants'')) (\<lambda>_.
     bindE (flush_session (gw_store g)) (\<lambda>s. Inr (g\<lparr>gw_store := s, gw_grants := flush (gw_grants g)\<rparr>)))"

definition add_audit :: "audit_event \<Rightarrow> gateway \<Rightarrow> gateway" where
  "add_audit a g = g\<lparr>gw_store := (gw_store g)\<lparr>audits := audits (gw_store g) @ [a]\<rparr>\<rparr>"

section \<open>The service identity\<close>

definition value_error :: "string \<Rightarrow> service_error" where
  "value_error m = PlainValueError (lit m)"

definition lock_engagement_for_retrieval :: "string \<Rightarrow> uuid \<Rightarrow> gateway \<Rightarrow> engagement outcome" where
  "lock_engagement_for_retrieval m eid g =
     bindE (the_or (first (select (\<lambda>e. eg_id e = eid) (engagements (gw_store g)))) (value_error m)) (\<lambda>e.
     bindE (require (eg_data_lifecycle_status e = Active) (value_error m)) (\<lambda>_. Inr e))"

definition membership_of :: "uuid \<Rightarrow> uuid \<Rightarrow> gateway \<Rightarrow> member option" where
  "membership_of eid oid g =
     first (select (\<lambda>m. mb_engagement_id m = eid \<and> mb_operator_id m = oid) (members (gw_store g)))"

definition foreign_membership :: "uuid \<Rightarrow> uuid \<Rightarrow> gateway \<Rightarrow> member option" where
  "foreign_membership eid oid g =
     first (select (\<lambda>m. mb_operator_id m = oid \<and> mb_engagement_id m \<noteq> eid) (members (gw_store g)))"

text \<open>The identity found or created, with whether it was created.\<close>

definition retrieval_subject :: "uuid \<Rightarrow> pystr" where
  "retrieval_subject eid = lit ''factory-package-retrieval:'' @ uuid_str eid"

definition ensure_service_operator ::
  "uuid \<Rightarrow> engagement \<Rightarrow> uuid \<Rightarrow> gateway \<Rightarrow> (operator \<times> bool \<times> gateway) outcome" where
  "ensure_service_operator eid e nid g =
     (case first (select (\<lambda>x. op_external_subject x = retrieval_subject eid) (operators (gw_store g))) of
        Some x \<Rightarrow> Inr (x, False, g)
      | None \<Rightarrow>
          let x = \<lparr>op_id = nid, op_external_subject = retrieval_subject eid,
                   op_display_name = take 255 (lit ''Package retrieval '' @ [8212, 32] @ eg_name e),
                   op_identity_kind = Service, op_is_active = True\<rparr>
          in bindE (flush_gateway (g\<lparr>gw_store := (gw_store g)\<lparr>operators := add x (operators (gw_store g))\<rparr>\<rparr>))
               (\<lambda>g1. Inr (x, True, g1)))"

definition ensure_viewer_membership ::
  "uuid \<Rightarrow> operator \<Rightarrow> bool \<Rightarrow> gateway \<Rightarrow> (bool \<times> gateway) outcome" where
  "ensure_viewer_membership eid x created g =
     (case membership_of eid (op_id x) g of
        None \<Rightarrow> bindE (flush_gateway (g\<lparr>gw_store := (gw_store g)\<lparr>members := add
                   \<lparr>mb_engagement_id = eid, mb_operator_id = op_id x, mb_role = Viewer\<rparr>
                   (members (gw_store g))\<rparr>\<rparr>)) (\<lambda>g1. Inr (True, g1))
      | Some m \<Rightarrow>
          bindE (require (mb_role m = Viewer)
            (value_error ''A package retrieval identity must have viewer-only membership.''))
            (\<lambda>_. Inr (created, g)))"

definition provision_retrieval_service_identity ::
  "uuid \<Rightarrow> operator \<Rightarrow> uuid \<Rightarrow> gateway \<Rightarrow> (operator \<times> gateway) outcome" where
  "provision_retrieval_service_identity eid by nid g =
     bindE (lock_engagement_for_retrieval
       ''Retrieval identity provisioning is unavailable while deletion is pending or failed.'' eid g) (\<lambda>e.
     bindE (flush_gateway g) (\<lambda>g0.
     bindE (require_human by (lit ''Retrieval identity provisioning'')) (\<lambda>_.
     bindE (require_engagement_owner eid by (lit ''Retrieval identity provisioning'') (gw_store g0)) (\<lambda>_.
     bindE (ensure_service_operator eid e nid g0) (\<lambda>(x, created, g1).
     bindE (require (op_identity_kind x = Service \<and> op_is_active x)
       (value_error ''The engagement retrieval identity is not an active service identity.'')) (\<lambda>_.
     bindE (require (foreign_membership eid (op_id x) g1 = None)
       (value_error ''A package retrieval identity cannot be shared between engagements.'')) (\<lambda>_.
     bindE (ensure_viewer_membership eid x created g1) (\<lambda>(created', g2).
       Inr (x, if created' then add_audit (audit_event (lit ''operator'') eid (op_id by)
                 (lit ''deployment_package.retrieval_identity_provisioned'') (lit ''service_identity'')
                 (op_id x) (obj [(''role'', JStr (lit ''viewer''))])) g2
               else g2)))))))))"

section \<open>Grants\<close>

definition validate_grant_expiry :: "time \<Rightarrow> time \<Rightarrow> unit outcome" where
  "validate_grant_expiry expires now =
     bindE (require (now < expires) (value_error ''Retrieval grant expiry must be in the future.'')) (\<lambda>_.
     require (expires \<le> now + max_grant_ttl) (value_error ''Retrieval grant expiry cannot exceed 24 hours.''))"

definition encode_utf8 :: "pystr \<Rightarrow> nat list outcome" where
  "encode_utf8 t = bindE (require (\<forall>c \<in> set t. \<not> surrogate c) (value_error ''UnicodeEncodeError'')) (\<lambda>_. Inr (utf8 t))"

definition token_digest :: "pystr \<Rightarrow> pystr outcome" where
  "token_digest t = bindE (encode_utf8 t) (\<lambda>b. Inr (sha256_hex b))"

definition grant_token :: "uuid \<Rightarrow> uuid \<Rightarrow> pystr \<Rightarrow> pystr" where
  "grant_token oid gid secret = token_prefix @ 46 # uuid_hex oid @ 46 # uuid_hex gid @ 46 # secret"

text \<open>\<open>iso_text\<close> is \<open>expires_at.isoformat()\<close>, which depends on the offset the time was given with.\<close>

definition check_grant_request :: "uuid \<Rightarrow> operator \<Rightarrow> operator \<Rightarrow> time \<Rightarrow> time \<Rightarrow> gateway \<Rightarrow> unit outcome" where
  "check_grant_request eid x own expires now g =
     bindE (validate_grant_expiry expires now) (\<lambda>_.
     bindE (require (op_identity_kind x = Service \<and> op_is_active x)
       (value_error ''Package retrieval grants require an active service operator.'')) (\<lambda>_.
     bindE (lock_engagement_for_retrieval
       ''Retrieval grants are unavailable while engagement deletion is pending or failed.'' eid g) (\<lambda>_.
     bindE (require_human own (lit ''Retrieval grant issuance'')) (\<lambda>_.
     bindE (require_engagement_owner eid own (lit ''Retrieval grant issuance'') (gw_store g)) (\<lambda>_.
     bindE (require (case membership_of eid (op_id x) g of None \<Rightarrow> False | Some m \<Rightarrow> mb_role m = Viewer)
       (value_error ''The service operator must have viewer-only membership in the engagement.'')) (\<lambda>_.
     require (foreign_membership eid (op_id x) g = None)
       (value_error ''A package retrieval identity cannot be shared between engagements.'')))))))"

definition new_grant :: "uuid \<Rightarrow> operator \<Rightarrow> operator \<Rightarrow> pystr \<Rightarrow> pystr \<Rightarrow> pystr \<Rightarrow> time \<Rightarrow> uuid \<Rightarrow> grant" where
  "new_grant eid x own clean_identity clean_system d expires gid =
     \<lparr>gr_id = gid, gr_engagement_id = eid, gr_service_operator_id = op_id x,
      gr_requester_identity = clean_identity, gr_requester_system = clean_system,
      gr_token_digest = d, gr_scope = retrieval_scope, gr_expires_at = expires,
      gr_revoked_at = None, gr_created_by_id = op_id own\<rparr>"

definition grant_issued_event :: "grant \<Rightarrow> pystr \<Rightarrow> audit_event" where
  "grant_issued_event r iso_text = audit_event (lit ''operator'') (gr_engagement_id r) (gr_created_by_id r)
     (lit ''deployment_package.retrieval_grant_issued'') (lit ''package_retrieval_grant'') (gr_id r)
     (obj [(''service_operator_id'', JStr (uuid_str (gr_service_operator_id r))),
           (''requester_identity'', JStr (gr_requester_identity r)),
           (''requester_system'', JStr (gr_requester_system r)), (''expires_at'', JStr iso_text)])"

definition issue_retrieval_grant ::
  "uuid \<Rightarrow> operator \<Rightarrow> operator \<Rightarrow> pystr \<Rightarrow> pystr \<Rightarrow> time \<Rightarrow> pystr \<Rightarrow> time \<Rightarrow> uuid \<Rightarrow> pystr \<Rightarrow> gateway
    \<Rightarrow> (grant \<times> pystr \<times> gateway) outcome" where
  "issue_retrieval_grant eid x own ident sys expires iso_text now gid secret g =
     bindE (check_grant_request eid x own expires now g) (\<lambda>_.
     bindE (require (py_strip ident \<noteq> [] \<and> py_strip sys \<noteq> [])
       (value_error ''Requester identity and system are required.'')) (\<lambda>_.
     bindE (token_digest (grant_token (op_id x) gid secret)) (\<lambda>d.
     let r = new_grant eid x own (py_strip ident) (py_strip sys) d expires gid
     in bindE (flush_gateway (g\<lparr>gw_grants := add r (gw_grants g)\<rparr>)) (\<lambda>g1.
        Inr (r, grant_token (op_id x) gid secret, add_audit (grant_issued_event r iso_text) g1)))))"

definition revoke_grant :: "time \<Rightarrow> grant \<Rightarrow> grant" where
  "revoke_grant now r = r\<lparr>gr_revoked_at := Some now\<rparr>"

definition revoke_retrieval_grant :: "uuid \<Rightarrow> uuid \<Rightarrow> operator \<Rightarrow> time \<Rightarrow> gateway \<Rightarrow> gateway outcome" where
  "revoke_retrieval_grant eid gid by now g =
     bindE (lock_engagement_for_retrieval
       ''Retrieval grants cannot change while engagement deletion is pending or failed.'' eid g) (\<lambda>_.
     bindE (require_human by (lit ''Retrieval grant revocation'')) (\<lambda>_.
     bindE (require_engagement_owner eid by (lit ''Retrieval grant revocation'') (gw_store g)) (\<lambda>_.
     bindE (the_or (first (select (\<lambda>r. gr_id r = gid \<and> gr_engagement_id r = eid) (gw_grants g))) (NotFound gid))
       (\<lambda>r. Inr (if gr_revoked_at r = None
          then add_audit (audit_event (lit ''operator'') eid (op_id by)
                 (lit ''deployment_package.retrieval_grant_revoked'') (lit ''package_retrieval_grant'') gid
                 (obj [(''service_operator_id'', JStr (uuid_str (gr_service_operator_id r)))]))
                 (g\<lparr>gw_grants := modify (\<lambda>y. gr_id y = gid) (revoke_grant now) (gw_grants g)\<rparr>)
          else g)))))"

definition rotate_retrieval_grant ::
  "uuid \<Rightarrow> operator \<Rightarrow> operator \<Rightarrow> pystr \<Rightarrow> pystr \<Rightarrow> time \<Rightarrow> pystr \<Rightarrow> time \<Rightarrow> uuid \<Rightarrow> pystr \<Rightarrow> gateway
    \<Rightarrow> (grant \<times> pystr \<times> gateway) outcome" where
  "rotate_retrieval_grant eid x by ident sys expires iso_text now gid secret g =
     bindE (validate_grant_expiry expires now) (\<lambda>_.
     bindE (lock_engagement_for_retrieval
       ''Retrieval grants are unavailable while engagement deletion is pending or failed.'' eid g) (\<lambda>_.
     let active = map gr_id (select (\<lambda>r. gr_engagement_id r = eid \<and> gr_service_operator_id r = op_id x
                                         \<and> gr_revoked_at r = None) (gw_grants g))
     in bindE (foldE (\<lambda>g k. revoke_retrieval_grant eid k by now g) g active)
          (issue_retrieval_grant eid x by ident sys expires iso_text now gid secret)))"

section \<open>Authentication\<close>

record token_subject =
  ts_operator_id :: uuid
  ts_grant_id :: uuid

record principal =
  pr_operator_id :: uuid
  pr_grant_id :: uuid
  pr_engagement_id :: uuid
  pr_requester_identity :: pystr
  pr_requester_system :: pystr

definition parse_retrieval_token_subject :: "pystr \<Rightarrow> token_subject option" where
  "parse_retrieval_token_subject token =
     (if 512 < length token then None
      else case split_on 46 token of
        [p, o', k, secret] \<Rightarrow>
          if p \<noteq> token_prefix \<or> secret = [] then None
          else (case (parse_uuid o', parse_uuid k) of
                  (Some i, Some j) \<Rightarrow> Some \<lparr>ts_operator_id = i, ts_grant_id = j\<rparr>
                | _ \<Rightarrow> None)
      | _ \<Rightarrow> None)"

text \<open>An authentication: \<open>None\<close> and the denial's result, or the principal.\<close>

type_synonym auth_decision = "retrieval_code \<times> principal option"

definition record_authentication_denial :: "grant \<Rightarrow> retrieval_code \<Rightarrow> bool \<Rightarrow> gateway \<Rightarrow> gateway" where
  "record_authentication_denial r result authenticated =
     add_audit (audit_event (if authenticated then lit ''service'' else lit ''unauthenticated'')
       (gr_engagement_id r) (if authenticated then gr_service_operator_id r else 0)
       (lit ''deployment_package.retrieval_authentication_denied'') (lit ''package_retrieval_grant'') (gr_id r)
       (obj [(''credential_authenticated'', JBool authenticated),
             (''requester_system'', JStr (gr_requester_system r)),
             (''result'', JStr (retrieval_code_text result))]))"

definition deny_authentication ::
  "grant \<Rightarrow> retrieval_code \<Rightarrow> bool \<Rightarrow> gateway \<Rightarrow> (auth_decision \<times> gateway) outcome" where
  "deny_authentication r result authenticated g =
     Inr ((result, None), record_authentication_denial r result authenticated g)"

definition check_grant_identity :: "grant \<Rightarrow> gateway \<Rightarrow> (auth_decision \<times> gateway) outcome" where
  "check_grant_identity r g =
     (case session_get op_id (gr_service_operator_id r) (operators (gw_store g)) of
        None \<Rightarrow> deny_authentication r InactiveServiceIdentity True g
      | Some x \<Rightarrow>
          if op_identity_kind x \<noteq> Service \<or> \<not> op_is_active x
          then deny_authentication r InactiveServiceIdentity True g
          else (case membership_of (gr_engagement_id r) (gr_service_operator_id r) g of
              None \<Rightarrow> deny_authentication r InvalidServiceMembership True g
            | Some m \<Rightarrow>
                if mb_role m \<noteq> Viewer then deny_authentication r InvalidServiceMembership True g
                else Inr ((Authenticated, Some \<lparr>pr_operator_id = gr_service_operator_id r, pr_grant_id = gr_id r,
                       pr_engagement_id = gr_engagement_id r, pr_requester_identity = gr_requester_identity r,
                       pr_requester_system = gr_requester_system r\<rparr>), g)))"

definition authenticate_retrieval_token ::
  "pystr \<Rightarrow> time \<Rightarrow> gateway \<Rightarrow> (auth_decision \<times> gateway) outcome" where
  "authenticate_retrieval_token token now g =
     (case parse_retrieval_token_subject token of
        None \<Rightarrow> Inr ((InvalidToken, None), g)
      | Some t \<Rightarrow>
          bindE (token_digest token) (\<lambda>d.
          case first (select (\<lambda>r. gr_id r = ts_grant_id t \<and> gr_service_operator_id r = ts_operator_id t)
                  (gw_grants g)) of
            None \<Rightarrow> Inr ((InvalidToken, None), g)
          | Some r0 \<Rightarrow>
              let eid = gr_engagement_id r0 in
              (case first (select (\<lambda>e. eg_id e = eid) (engagements (gw_store g))) of
                 None \<Rightarrow> Inr ((EngagementUnavailable, None), g)
               | Some e \<Rightarrow>
                   if eg_data_lifecycle_status e \<noteq> Active then Inr ((EngagementUnavailable, None), g)
                   else (case stored_first (\<lambda>r. gr_id r = ts_grant_id t
                              \<and> gr_service_operator_id r = ts_operator_id t \<and> gr_engagement_id r = eid)
                              (gw_grants g) of
                       None \<Rightarrow> Inr ((InvalidToken, None), g)
                     | Some r \<Rightarrow>
                         if gr_token_digest r \<noteq> d then deny_authentication r InvalidToken False g
                         else if gr_revoked_at r \<noteq> None then deny_authentication r RevokedToken True g
                         else if gr_expires_at r \<le> now then deny_authentication r ExpiredToken True g
                         else if gr_scope r \<noteq> retrieval_scope then deny_authentication r InvalidScope True g
                         else check_grant_identity r g))))"

section \<open>Retrieval\<close>

text \<open>
  \<open>ai_fde_lock_design_partner_authority\<close> for a caller of the application role: the caller is an
  active operator of the engagement (an owner or operator for a write) and the engagement has a
  qualification.  It runs in the database, so it reads flushed rows.
\<close>

definition lock_design_partner_authority :: "uuid \<Rightarrow> uuid \<Rightarrow> bool \<Rightarrow> store \<Rightarrow> bool" where
  "lock_design_partner_authority caller eid write s \<longleftrightarrow>
     list_ex (\<lambda>x. op_id x = caller \<and> op_is_active x
       \<and> list_ex (\<lambda>m. mb_operator_id m = op_id x \<and> mb_engagement_id m = eid
            \<and> (\<not> write \<or> mb_role m \<in> {Owner, OperatorRole})) (stored_rows (members s)))
       (stored_rows (operators s))
     \<and> list_ex (\<lambda>e. eg_id e = eid) (stored_rows (engagements s))
     \<and> list_ex (\<lambda>q. ql_engagement_id q = eid) (stored_rows (qualifications s))"

record retrieval_decision =
  rd_allowed :: bool
  rd_result :: retrieval_code
  rd_correlation_id :: uuid
  rd_package :: "envelope option"

definition refusal :: "retrieval_code \<Rightarrow> uuid \<Rightarrow> retrieval_decision" where
  "refusal result corr =
     \<lparr>rd_allowed = False, rd_result = result, rd_correlation_id = corr, rd_package = None\<rparr>"

definition retrieval_detail :: "uuid \<Rightarrow> int \<Rightarrow> principal \<Rightarrow> retrieval_code \<Rightarrow> pystr option \<Rightarrow> uuid \<Rightarrow> json" where
  "retrieval_detail pid v who result digest corr = obj
     [(''package_id'', JStr (uuid_str pid)), (''package_version'', JInt v),
      (''requester_system'', JStr (pr_requester_system who)),
      (''result'', JStr (retrieval_code_text result)), (''digest'', jopt JStr digest),
      (''correlation_id'', JStr (uuid_str corr))]"

definition record_retrieval :: "package \<Rightarrow> principal \<Rightarrow> uuid \<Rightarrow> retrieval_code \<Rightarrow> gateway \<Rightarrow> gateway" where
  "record_retrieval p who corr result g =
     add_audit (audit_event (lit ''service'') (pk_engagement_id p) (pr_operator_id who)
       (lit ''deployment_package.retrieval_decided'') (lit ''factory_deployment_package_version'') (pk_id p)
       (retrieval_detail (pk_package_id p) (pk_version p) who result (pk_digest p) corr))
     (g\<lparr>gw_events := gw_events g @ [\<lparr>re_engagement_id = pk_engagement_id p,
        re_package_version_id = Some (pk_id p), re_package_id = pk_package_id p,
        re_package_version = pk_version p, re_requester_identity = pr_requester_identity who,
        re_requester_system = pr_requester_system who, re_result = result, re_digest = pk_digest p,
        re_correlation_id = corr\<rparr>]\<rparr>)"

definition record_not_found :: "uuid \<Rightarrow> int \<Rightarrow> principal \<Rightarrow> uuid \<Rightarrow> gateway \<Rightarrow> gateway" where
  "record_not_found pid v who corr g =
     add_audit (audit_event (lit ''service'') (pr_engagement_id who) (pr_operator_id who)
       (lit ''deployment_package.retrieval_decided'') (lit ''factory_deployment_package'') pid
       (retrieval_detail pid v who PackageNotFound None corr))
     (g\<lparr>gw_events := gw_events g @ [\<lparr>re_engagement_id = pr_engagement_id who,
        re_package_version_id = None, re_package_id = pid, re_package_version = v,
        re_requester_identity = pr_requester_identity who, re_requester_system = pr_requester_system who,
        re_result = PackageNotFound, re_digest = None, re_correlation_id = corr\<rparr>]\<rparr>)"

definition denied ::
  "package \<Rightarrow> principal \<Rightarrow> uuid \<Rightarrow> retrieval_code \<Rightarrow> gateway \<Rightarrow> (retrieval_decision \<times> gateway) outcome" where
  "denied p who corr result g = Inr (refusal result corr, record_retrieval p who corr result g)"

definition lock_retrieval_grant :: "principal \<Rightarrow> gateway \<Rightarrow> grant option" where
  "lock_retrieval_grant who g = stored_first (\<lambda>r. gr_id r = pr_grant_id who
     \<and> gr_service_operator_id r = pr_operator_id who \<and> gr_engagement_id r = pr_engagement_id who) (gw_grants g)"

definition revalidate_retrieval_grant ::
  "grant option \<Rightarrow> time \<Rightarrow> gateway \<Rightarrow> retrieval_code option \<times> gateway" where
  "revalidate_retrieval_grant r now g =
     (case r of
        None \<Rightarrow> (Some InvalidToken, g)
      | Some r \<Rightarrow>
          if gr_revoked_at r \<noteq> None
          then (Some RevokedToken, record_authentication_denial r RevokedToken True g)
          else if gr_expires_at r \<le> now
          then (Some ExpiredToken, record_authentication_denial r ExpiredToken True g)
          else if gr_scope r \<noteq> retrieval_scope
          then (Some InvalidScope, record_authentication_denial r InvalidScope True g)
          else (None, g))"

text \<open>What \<open>except (KeyError, TypeError, ValueError)\<close> catches of the errors of the model.\<close>

fun is_value_error :: "service_error \<Rightarrow> bool" where
  "is_value_error (NotFound _) = False"
| "is_value_error ProcessingDenied = False"
| "is_value_error (ConstraintViolation _) = False"
| "is_value_error _ = True"

definition on_value_error :: "'a outcome \<Rightarrow> 'b outcome \<Rightarrow> ('a \<Rightarrow> 'b outcome) \<Rightarrow> 'b outcome" where
  "on_value_error r handler f =
     (case r of Inr x \<Rightarrow> f x | Inl e \<Rightarrow> if is_value_error e then handler else Inl e)"

fun is_qualification_error :: "service_error \<Rightarrow> bool" where
  "is_qualification_error (QualificationError _) = True"
| "is_qualification_error _ = False"

definition on_qualification_error :: "unit outcome \<Rightarrow> 'b outcome \<Rightarrow> 'b outcome \<Rightarrow> 'b outcome" where
  "on_qualification_error r handler f =
     (case r of Inr _ \<Rightarrow> f | Inl e \<Rightarrow> if is_qualification_error e then handler else Inl e)"

text \<open>
  The authority check after the locks; \<open>check\<close> is the deployment's \<open>runtime_authority_check\<close>, run
  for sanitized engagements.
\<close>

definition retrieval_authority ::
  "(time \<Rightarrow> unit outcome) \<Rightarrow> engagement \<Rightarrow> bool \<Rightarrow> package \<Rightarrow> time \<Rightarrow> store \<Rightarrow> unit outcome" where
  "retrieval_authority check e locked p now s =
     bindE (require locked (qualification_error
       ''The design-partner qualification is not available to this runtime.'')) (\<lambda>_.
     bindE (require_package_publication_eligibility (pk_engagement_id p) (pk_target p) now True s) (\<lambda>_.
       if eg_data_classification e = Sanitized then check now else Inr ()))"

definition decide_retrieval ::
  "(time \<Rightarrow> unit outcome) \<Rightarrow> engagement \<Rightarrow> package \<Rightarrow> principal \<Rightarrow> uuid \<Rightarrow> time \<Rightarrow> gateway
    \<Rightarrow> (retrieval_decision \<times> gateway) outcome" where
  "decide_retrieval check e p who corr now g =
     (let locked = eg_data_classification e \<noteq> Sanitized
            \<or> lock_design_partner_authority (pr_operator_id who) (eg_id e) False (gw_store g)
      in case revalidate_retrieval_grant (lock_retrieval_grant who g) now g of
           (Some result, g1) \<Rightarrow> Inr (refusal result corr, g1)
         | (None, g1) \<Rightarrow>
             on_qualification_error (retrieval_authority check e locked p now (gw_store g1))
               (denied p who corr DeniedQualification g1)
               (on_value_error
                 (published_package_envelope (gw_store g1) p (the (pk_published_at p)) now corr)
                 (denied p who corr DeniedIntegrity g1)
                 (\<lambda>env. Inr (\<lparr>rd_allowed = True, rd_result = Retrieved, rd_correlation_id = corr,
                             rd_package = Some env\<rparr>, record_retrieval p who corr Retrieved g1))))"

definition retrieve_published_package ::
  "uuid \<Rightarrow> int \<Rightarrow> principal \<Rightarrow> (time \<Rightarrow> unit outcome) \<Rightarrow> uuid \<Rightarrow> time \<Rightarrow> gateway
    \<Rightarrow> (retrieval_decision \<times> gateway) outcome" where
  "retrieve_published_package pid v who check corr now g =
     (case first (select (\<lambda>e. eg_id e = pr_engagement_id who) (engagements (gw_store g))) of
        None \<Rightarrow> Inr (refusal EngagementUnavailable corr, g)
      | Some e \<Rightarrow>
          if eg_data_lifecycle_status e \<noteq> Active then Inr (refusal EngagementUnavailable corr, g)
          else (case first (select (\<lambda>p. pk_engagement_id p = pr_engagement_id who \<and> pk_package_id p = pid
                     \<and> pk_version p = v) (packages (gw_store g))) of
              None \<Rightarrow> Inr (refusal PackageNotFound corr, record_not_found pid v who corr g)
            | Some p \<Rightarrow>
                if pk_status p = PStale then denied p who corr DeniedStale g
                else if pk_status p = PRevoked then denied p who corr DeniedRevoked g
                else if pk_status p \<noteq> PPublished then denied p who corr DeniedNotPublished g
                else on_value_error (calculate_package_digest (gw_store g) p)
                  (denied p who corr DeniedIntegrity g)
                  (\<lambda>expected.
                    if pk_digest p \<noteq> Some expected then denied p who corr DeniedIntegrity g
                    else if pk_approval_binding p = None \<or> pk_published_at p = None
                    then denied p who corr DeniedIntegrity g
                    else decide_retrieval check e p who corr now g)))"

end
