(* ===== verification/Evolution.thy ===== *)
theory Evolution
  imports FactorySystem
begin

text \<open>
  How the rows of the factory tables evolve.  Whatever a request does in its session, the database
  only lets a row through that its trigger accepts; so over any request every old row is still
  there, reached by accepted updates, and every new row was inserted and then reached so.
\<close>

section \<open>What a flush lets through\<close>

definition reaches :: "('r \<Rightarrow> 'r \<Rightarrow> bool) \<Rightarrow> 'r \<Rightarrow> 'r \<Rightarrow> bool" where
  "reaches upd = upd\<^sup>*\<^sup>*"

definition advances ::
  "('r list \<Rightarrow> 'r \<Rightarrow> bool) \<Rightarrow> ('r \<Rightarrow> 'r \<Rightarrow> bool) \<Rightarrow> 'r list \<Rightarrow> 'r list \<Rightarrow> bool" where
  "advances ins upd xs xs' \<longleftrightarrow> (\<exists>ys zs. xs' = ys @ zs \<and> list_all2 (reaches upd) xs ys
     \<and> (\<forall>z \<in> set zs. \<exists>rows z0. ins rows z0 \<and> reaches upd z0 z))"

lemma reaches_refl [simp]: "reaches upd r r"
  by (simp add: reaches_def)

lemma reaches_trans: "reaches upd a b \<Longrightarrow> reaches upd b c \<Longrightarrow> reaches upd a c"
  by (simp add: reaches_def)

lemma advances_refl [simp]: "advances ins upd xs xs"
  unfolding advances_def by (intro exI [of _ xs] exI [of _ "[]"]) (simp add: list_all2_same)

lemma advances_trans:
  assumes "advances ins upd xs ys" and "advances ins upd ys zs"
  shows "advances ins upd xs zs"
proof -
  obtain a b where y: "ys = a @ b" "list_all2 (reaches upd) xs a"
    "\<forall>z \<in> set b. \<exists>rows z0. ins rows z0 \<and> reaches upd z0 z" using assms(1) by (auto simp: advances_def)
  obtain c d where z: "zs = c @ d" "list_all2 (reaches upd) ys c"
    "\<forall>z \<in> set d. \<exists>rows z0. ins rows z0 \<and> reaches upd z0 z" using assms(2) by (auto simp: advances_def)
  obtain c1 c2 where c: "c = c1 @ c2" "list_all2 (reaches upd) a c1" "list_all2 (reaches upd) b c2"
    using z(2) y(1) by (auto simp: list_all2_append1)
  have "list_all2 (reaches upd) xs c1"
    using y(2) c(2) by (rule list_all2_trans [of "reaches upd" "reaches upd" "reaches upd", rotated]) (rule reaches_trans)
  moreover have "\<exists>rows z0. ins rows z0 \<and> reaches upd z0 z" if "z \<in> set c2" for z
    using c(3) that y(3) reaches_trans by (metis in_set_conv_nth list_all2_conv_all_nth)
  ultimately show ?thesis
    unfolding advances_def using z(1,3) c(1)
    by (intro exI [of _ c1] exI [of _ "c2 @ d"]) auto
qed

lemma advances_old:
  assumes "advances ins upd xs ys" and "x \<in> set xs"
  obtains y where "y \<in> set ys" and "reaches upd x y"
  using assms unfolding advances_def by (fastforce simp: list_all2_conv_all_nth in_set_conv_nth nth_append)

lemma advances_origin:
  assumes "advances ins upd xs ys" and "y \<in> set ys"
  obtains x where "x \<in> set xs" and "reaches upd x y" | rows z where "ins rows z" and "reaches upd z y"
proof -
  obtain a b where y: "ys = a @ b" "list_all2 (reaches upd) xs a"
    "\<forall>z \<in> set b. \<exists>rows z0. ins rows z0 \<and> reaches upd z0 z" using assms(1) by (auto simp: advances_def)
  consider "y \<in> set a" | "y \<in> set b" using assms(2) y(1) by auto
  then show thesis
  proof cases
    case 1
    then obtain i where "i < length a" "a ! i = y" by (auto simp: in_set_conv_nth)
    then have "xs ! i \<in> set xs" "reaches upd (xs ! i) y"
      using y(2) by (auto simp: list_all2_conv_all_nth)
    then show thesis using that(1) by blast
  next
    case 2
    then show thesis using y(3) that(2) by blast
  qed
qed

lemma flush_advances:
  assumes "clean t" and "grown t t'" and "accepts ins upd t'"
  shows "advances ins upd (current t) (current t')"
proof -
  obtain k where k: "map fst t' = map fst t @ replicate k None" using assms(2) by (auto simp: grown_def)
  define a where "a = take (length t) t'"
  define b where "b = drop (length t) t'"
  have t': "t' = a @ b" by (simp add: a_def b_def)
  have len: "length a = length t" using arg_cong [OF k, of length] by (simp add: a_def)
  have fa: "map fst a = map fst t" and fb: "map fst b = replicate k None"
    using k unfolding t' map_append by (simp_all add: append_eq_append_conv len)
  have row: "case fst e of None \<Rightarrow> ins (stored_rows t') (snd e) | Some old \<Rightarrow> old = snd e \<or> upd old (snd e)"
    if "e \<in> set t'" for e using assms(3) that by (auto simp: accepts_def list_all_iff)
  have "list_all2 (reaches upd) (current t) (map snd a)"
    unfolding list_all2_conv_all_nth
  proof (intro conjI allI impI)
    fix i assume i: "i < length (current t)"
    then have i': "i < length a" "i < length t" using len by (simp_all add: current_def)
    have "fst (a ! i) = fst (t ! i)" using arg_cong [OF fa, of "\<lambda>l. l ! i"] i' by simp
    moreover have "fst (t ! i) = Some (snd (t ! i))" using assms(1) i' by (simp add: clean_def)
    moreover have "a ! i \<in> set t'" using i' by (simp add: t')
    ultimately have "snd (t ! i) = snd (a ! i) \<or> upd (snd (t ! i)) (snd (a ! i))" using row by fastforce
    then show "reaches upd (current t ! i) (map snd a ! i)"
      using i' by (auto simp: current_def reaches_def)
  qed (simp add: len current_def)
  moreover have "\<exists>rows z0. ins rows z0 \<and> reaches upd z0 z" if z: "z \<in> set (map snd b)" for z
  proof -
    obtain e where e: "e \<in> set b" "z = snd e" using z by auto
    have "fst e \<in> set (map fst b)" using e by auto
    then have "fst e = None" using fb by (auto split: if_splits)
    then have "ins (stored_rows t') z" using row [of e] e by (auto simp: t')
    then show ?thesis by (intro exI [of _ "stored_rows t'"] exI [of _ z]) simp
  qed
  ultimately show ?thesis
    unfolding advances_def by (intro exI [of _ "map snd a"] exI [of _ "map snd b"]) (auto simp: t' current_def)
qed

section \<open>Protected tables\<close>

text \<open>
  A table whose trigger keeps part of every row (\<open>frozen\<close>): however long the history, each row is
  still there with that part unchanged.
\<close>

locale protected_rows =
  fixes ins :: "'r list \<Rightarrow> 'r \<Rightarrow> bool"
    and upd :: "'r \<Rightarrow> 'r \<Rightarrow> bool"
    and frozen :: "'r \<Rightarrow> 'k"
  assumes upd_frozen: "upd a b \<Longrightarrow> frozen b = frozen a"
begin

lemma reaches_frozen: "reaches upd a b \<Longrightarrow> frozen b = frozen a"
  unfolding reaches_def by (induction rule: rtranclp_induct) (simp_all add: upd_frozen)

lemma row_kept:
  assumes "advances ins upd xs ys" and "x \<in> set xs"
  obtains y where "y \<in> set ys" and "reaches upd x y" and "frozen y = frozen x"
  using advances_old [OF assms] reaches_frozen by blast

lemma rows_kept: "advances ins upd xs ys \<Longrightarrow> frozen ` set xs \<subseteq> frozen ` set ys"
  by (rule image_subsetI, erule row_kept, assumption) (metis imageI)

end

interpretation model_rows: protected_rows "\<lambda>_. model_insert_ok" model_update_ok model_frozen
  by unfold_locales (simp add: model_update_ok_def)

interpretation readiness_rows_kept: protected_rows "\<lambda>_. readiness_insert_ok" readiness_update_ok readiness_frozen
  by unfold_locales (simp add: readiness_update_ok_def)

interpretation opportunity_rows: protected_rows "\<lambda>_. opportunity_insert_ok" opportunity_update_ok opportunity_frozen
  by unfold_locales (simp add: opportunity_update_ok_def)

interpretation package_rows: protected_rows package_insert_ok package_update_ok package_frozen
  by unfold_locales (simp add: package_update_ok_def)

section \<open>Requests advance the factory tables\<close>

definition store_advances :: "store \<Rightarrow> store \<Rightarrow> bool" where
  "store_advances s s' \<longleftrightarrow>
     advances (\<lambda>_. model_insert_ok) model_update_ok (current (customer_models s)) (current (customer_models s'))
     \<and> advances (\<lambda>_. readiness_insert_ok) readiness_update_ok (current (readiness_rows s)) (current (readiness_rows s'))
     \<and> advances (\<lambda>_. opportunity_insert_ok) opportunity_update_ok (current (opportunities s)) (current (opportunities s'))
     \<and> advances package_insert_ok package_update_ok (current (packages s)) (current (packages s'))"

lemma store_advances_refl [simp]: "store_advances s s"
  by (simp add: store_advances_def)

lemma store_advances_trans: "store_advances s s1 \<Longrightarrow> store_advances s1 s2 \<Longrightarrow> store_advances s s2"
  unfolding store_advances_def by (elim conjE, intro conjI) (rule advances_trans, assumption+)+

lemma flush_store_advances:
  assumes "settled s" and "session_of s s0" and "factory_accepted s0"
  shows "store_advances s (synced s0)"
  using assms
  by (auto simp: store_advances_def settled_def factory_clean_def session_of_def factory_accepted_def
      models_accepted_def readiness_accepted_def opportunities_accepted_def packages_accepted_def Let_def
      current_flush intro!: flush_advances)

text \<open>What an operation returns with: the session of a settled store the tables advanced to.\<close>

definition in_session :: "store \<Rightarrow> store \<Rightarrow> bool" where
  "in_session s s1 \<longleftrightarrow> (\<exists>s0. settled s0 \<and> store_advances s s0 \<and> session_of s0 s1)"

lemma in_sessionI: "settled s \<Longrightarrow> session_of s s1 \<Longrightarrow> in_session s s1"
  unfolding in_session_def using store_advances_refl by blast

lemma in_session_flush:
  assumes "in_session s s1" and "factory_accepted s1"
  shows "settled (synced s1) \<and> store_advances s (synced s1)"
  using assms flush_store_advances store_advances_trans synced_settled unfolding in_session_def by blast

lemma in_session_next:
  assumes "in_session s s1" and "factory_accepted s1" and "session_of (synced s1) s2"
  shows "in_session s s2"
  using in_session_flush [OF assms(1,2)] assms(3) unfolding in_session_def by blast

lemma in_session_record [simp]: "in_session s (record_event e ty i opr a d s1) = in_session s s1"
  by (simp add: in_session_def)

lemma synced_session: "in_session s s1 \<Longrightarrow> factory_accepted s1 \<Longrightarrow> in_session s (synced s1)"
  by (rule in_session_next [of s s1]) simp_all

section \<open>Every operation\<close>

lemma loop_session:
  assumes "settled s"
  shows "session_of s (foldl (stale_customer_model w n a) s ids)"
    and "session_of s (foldl (stale_readiness w n a) s ids)"
    and "session_of s (foldl (stale_opportunity w n a) s ids)"
    and "session_of s (foldl (supersede_step eid w n b) s ids)"
  using cascade_session [OF stale_models_loop [OF settled_pending [OF assms]]]
    cascade_session [OF readiness_ids_loop [OF settled_pending [OF assms]]]
    cascade_session [OF opportunity_ids_loop [OF settled_pending [OF assms]]]
    supersede_fold [of eid w n b s ids]
  by (auto simp: session_of_def)

lemma add_session:
  assumes "settled s" and "session_of s s1" and "factory_accepted s1" and "s' = record_event e ty i opr a d (synced s1)"
  shows "in_session s s'"
  unfolding assms(4) using assms(1-3) by (simp add: synced_session in_sessionI)

lemma single_session:
  assumes "settled s" and "session_of s s1" and "factory_accepted s1" and "s' = synced s1"
  shows "in_session s s'"
  unfolding assms(4) using assms(1-3) by (simp add: synced_session in_sessionI)

lemma point_session:
  assumes "settled s" and "session_of s s0" and "factory_accepted s0"
    and "s' = synced (record_event e ty i opr a d s1)" and "session_of (synced s0) s1" and "factory_accepted s1"
  shows "in_session s s'"
  unfolding assms(4) using in_session_next [OF in_sessionI [OF assms(1,2)] assms(3,5)] assms(6)
  by (intro synced_session) simp_all

lemma model_operations_session:
  assumes "settled s"
  shows "create_customer_factory_model eid opr i nid s = Inr s' \<Longrightarrow> in_session s s'"
    and "approve_customer_factory_model eid k opr now s = Inr s' \<Longrightarrow> in_session s s'"
proof -
  assume "create_customer_factory_model eid opr i nid s = Inr s'"
  then show "in_session s s'"
    by (rule create_model_Inr) (rule add_session [OF assms], simp_all)
next
  assume "approve_customer_factory_model eid k opr now s = Inr s'"
  then show "in_session s s'"
    by (rule approve_model_Inr) (hypsubst, rule point_session [OF assms loop_session(1) [OF assms]], (assumption | simp)+)
qed

lemma readiness_operations_session:
  assumes "settled s"
  shows "create_readiness_assessment eid opr m f cw tw i now nid s = Inr s' \<Longrightarrow> in_session s s'"
    and "approve_readiness_assessment eid k opr now s = Inr s' \<Longrightarrow> in_session s s'"
proof -
  assume "create_readiness_assessment eid opr m f cw tw i now nid s = Inr s'"
  then show "in_session s s'"
    by (rule create_readiness_Inr) (rule add_session [OF assms], simp_all)
next
  assume "approve_readiness_assessment eid k opr now s = Inr s'"
  then show "in_session s s'"
    by (rule approve_readiness_Inr) (hypsubst, rule point_session [OF assms loop_session(2) [OF assms]], (assumption | simp)+)
qed

lemma opportunity_operations_session:
  assumes "settled s"
  shows "create_factory_opportunity eid opr m i now nid s = Inr s' \<Longrightarrow> in_session s s'"
    and "select_factory_opportunity eid k opr why now s = Inr s' \<Longrightarrow> in_session s s'"
    and "reject_factory_opportunity eid k opr why now s = Inr s' \<Longrightarrow> in_session s s'"
proof -
  assume "create_factory_opportunity eid opr m i now nid s = Inr s'"
  then show "in_session s s'"
  proof (rule create_opportunity_Inr)
    fix s1 f w ids
    assume s1: "s1 = foldl (stale_opportunity w now (Some (op_id opr))) s ids"
    assume "factory_accepted (s1\<lparr>opportunities := add f (opportunities s1)\<rparr>)"
      "s' = record_event eid opportunity_type nid opr (lit ''factory_opportunity.assessed'') (JObj [])
        (synced (s1\<lparr>opportunities := add f (opportunities s1)\<rparr>))"
    moreover have "session_of s (s1\<lparr>opportunities := add f (opportunities s1)\<rparr>)"
      by (rule session_trans [of s s1]) (simp_all add: s1 loop_session [OF assms])
    ultimately show "in_session s s'" using add_session [OF assms] by blast
  qed
next
  assume "select_factory_opportunity eid k opr why now s = Inr s'"
  then show "in_session s s'"
    by (rule select_opportunity_Inr) (hypsubst, rule point_session [OF assms loop_session(3) [OF assms]], (assumption | simp)+)
next
  assume "reject_factory_opportunity eid k opr why now s = Inr s'"
  then show "in_session s s'"
    by (rule reject_opportunity_Inr) (rule single_session [OF assms], simp_all)
qed

lemma package_operations_session:
  assumes "settled s"
  shows "create_deployment_package eid opr iss m r f t i pid nid fresh s = Inr s' \<Longrightarrow> in_session s s'"
    and "submit_deployment_package_for_review eid k opr s = Inr s' \<Longrightarrow> in_session s s'"
    and "approve_deployment_package eid k opr basis now s = Inr s' \<Longrightarrow> in_session s s'"
    and "publish_deployment_package eid k opr now s = Inr s' \<Longrightarrow> in_session s s'"
    and "reject_deployment_package eid k opr why now s = Inr s' \<Longrightarrow> in_session s s'"
    and "revoke_deployment_package eid k opr why now s = Inr s' \<Longrightarrow> in_session s s'"
proof -
  assume "create_deployment_package eid opr iss m r f t i pid nid fresh s = Inr s'"
  then show "in_session s s'"
    by (rule create_package_Inr) (rule add_session [OF assms], simp_all)
next
  assume "submit_deployment_package_for_review eid k opr s = Inr s'"
  then show "in_session s s'"
    by (rule submit_package_Inr) (rule single_session [OF assms], simp_all)
next
  assume "approve_deployment_package eid k opr basis now s = Inr s'"
  then show "in_session s s'"
    by (rule approve_package_Inr) (rule single_session [OF assms], simp_all)
next
  assume "publish_deployment_package eid k opr now s = Inr s'"
  then show "in_session s s'"
    by (rule publish_package_Inr) (hypsubst, rule point_session [OF assms loop_session(4) [OF assms]], (assumption | simp)+)
next
  assume "reject_deployment_package eid k opr why now s = Inr s'"
  then show "in_session s s'"
    by (rule reject_package_Inr) (rule single_session [OF assms], simp_all)
next
  assume "revoke_deployment_package eid k opr why now s = Inr s'"
  then show "in_session s s'"
    by (rule revoke_package_Inr) (auto intro!: in_sessionI assms)
qed

lemma artifact_session:
  assumes "stale_after_artifact_change eid actor now s = Inr s'" and "settled s"
  shows "session_of s s'"
  using artifact_entry [OF _ settled_pending [OF assms(2)]] assms(1) staled_session
  unfolding stale_after_artifact_change_def by blast

lemma upstream_session:
  assumes "stale_models_for_upstream_reference eid rf why now a s = Inr s'" and "settled s"
  shows "session_of s s'"
  by (rule upstream_entry [OF assms]) (rule cascade_session)

lemma staling_session:
  assumes "operation c s = Inr s'" and "settled s"
    and "c \<in> {ModelTruthChanged eid actor now, CurrentWorkflowChanged eid actor now,
      TargetWorkflowChanged eid actor now, EconomicsChanged eid actor now}"
  shows "session_of s s'"
  using assms model_change_stales [of eid actor now s s'] current_change_stales [of eid actor now s s']
    target_change_stales [of eid actor now s s'] economic_change_stales [of eid actor now s s']
    settled_pending [OF assms(2)]
  by (auto simp: stales_def settled_def factory_clean_def)

lemma operation_session:
  assumes "operation c s = Inr s'" and "settled s"
  shows "in_session s s'"
proof (cases c)
  case (ModelTruthChanged eid actor now)
  then show ?thesis using staling_session [OF assms] in_sessionI [OF assms(2)] by blast
next
  case (CurrentWorkflowChanged eid actor now)
  then show ?thesis using staling_session [OF assms] in_sessionI [OF assms(2)] by blast
next
  case (TargetWorkflowChanged eid actor now)
  then show ?thesis using staling_session [OF assms] in_sessionI [OF assms(2)] by blast
next
  case (EconomicsChanged eid actor now)
  then show ?thesis using staling_session [OF assms] in_sessionI [OF assms(2)] by blast
qed (use assms in \<open>auto intro: model_operations_session readiness_operations_session
  opportunity_operations_session package_operations_session in_sessionI artifact_session upstream_session\<close>)

lemma request_advances:
  assumes "settled s"
  shows "store_advances s (run_request c s)"
  by (rule run_request_cases [of c s])
     (use operation_session [OF _ assms] in_session_flush in \<open>auto\<close>)

lemma step_advances:
  assumes "handoff_step s s'" and "settled s"
  shows "store_advances s s'"
  using assms(1)
proof (cases rule: handoff_step.cases)
  case (request c)
  then show ?thesis using request_advances [OF assms(2)] by simp
next
  case elsewhere
  then show ?thesis by (simp add: same_factory_tables_def store_advances_def)
qed

end
