(* ===== verification/HandoffSample.thy ===== *)
theory HandoffSample
  imports Evolution
begin

text \<open>
  A small handoff for the witnesses: an engagement with an approved and a draft customer model, a
  selected opportunity, an approved assessment and a published package.
\<close>

definition sample_owner :: operator where
  "sample_owner = \<lparr>op_id = 9, op_external_subject = lit ''u'', op_display_name = lit ''U'', op_identity_kind = Human, op_is_active = True\<rparr>"

definition sample_columns :: model_columns where
  "sample_columns = \<lparr>mc_organization = JNull, mc_systems = JList [], mc_repositories = JList [],
     mc_environments = JList [], mc_workflows = JList [], mc_policies = JList [],
     mc_authority_boundaries = JList [JNull], mc_constraints = JList [], mc_risks = JList [],
     mc_baselines = JList [], mc_evidence_refs = JList [], mc_verified_claim_refs = JList [],
     mc_assumption_refs = JList [], mc_factory_opportunity_refs = JList []\<rparr>"

definition sample_sha :: pystr where
  "sample_sha = lit ''sha256:'' @ replicate 64 97"

definition sample_version_ref :: "uuid \<Rightarrow> version_ref" where
  "sample_version_ref k = \<lparr>vr_id = k, vr_version = 1, vr_digest = sample_sha\<rparr>"

definition sample_model :: "int \<Rightarrow> bool \<Rightarrow> customer_model" where
  "sample_model n ok = \<lparr>cm_id = word_of_int (10 + n), cm_engagement_id = 1, cm_version = n,
     cm_status = (if ok then MApproved else MDraft), cm_columns = sample_columns,
     cm_content_digest = sample_sha, cm_created_by_id = 9,
     cm_approved_by_id = (if ok then Some 9 else None), cm_approved_at = (if ok then Some 1 else None),
     cm_stale_reason = None, cm_staled_at = None\<rparr>"

definition sample_opportunity :: opportunity where
  "sample_opportunity = \<lparr>fo_id = 20, fo_engagement_id = 1, fo_key = lit ''k'', fo_version = 1,
     fo_status = OSelected, fo_name = lit ''n'', fo_description = lit ''d'',
     fo_source_workflow_ref = sample_version_ref 50, fo_model_id = 11, fo_model_version = 1,
     fo_score = score_factory_opportunity sample_factors [],
     fo_factors = sample_factors, fo_economics_ref = sample_ref, fo_evidence_refs = [], fo_blockers = [],
     fo_content_digest = sample_sha, fo_created_by_id = 9, fo_selected_by_id = Some 9,
     fo_selected_at = Some 2, fo_selection_reason = Some (lit ''why''), fo_rejected_by_id = None,
     fo_rejected_at = None, fo_rejection_reason = None, fo_stale_reason = None, fo_staled_at = None\<rparr>"

definition sample_readiness :: readiness where
  "sample_readiness = \<lparr>ra_id = 30, ra_engagement_id = 1, ra_version = 1, ra_status = AApproved,
     ra_overall_status = Ready, ra_model_id = 11, ra_model_version = 1, ra_opportunity_id = 20,
     ra_opportunity_version = 1, ra_current_workflow_ref = sample_version_ref 50,
     ra_target_workflow_ref = sample_version_ref 51, ra_stages = [], ra_content_digest = sample_sha,
     ra_created_by_id = 9, ra_approved_by_id = Some 9, ra_approved_at = Some 3,
     ra_stale_reason = None, ra_staled_at = None\<rparr>"

definition sample_basis :: source_ref where
  "sample_basis = \<lparr>sr_kind = ApprovedInput, sr_ref = lit ''a'', sr_version = Some 1, sr_sha256 = sample_sha\<rparr>"

definition sample_binding :: approval_binding where
  "sample_binding = \<lparr>bd_decision_ref = sample_basis, bd_approved_by = 9, bd_authorized_by_ref = lit ''a'',
     bd_authority_basis_ref = sample_basis, bd_approved_at = 4\<rparr>"

definition sample_package :: "package_status \<Rightarrow> package" where
  "sample_package st = \<lparr>pk_id = 40, pk_engagement_id = 1, pk_package_id = 60, pk_version = 1,
     pk_schema_version = package_schema_version, pk_status = st,
     pk_issuer = \<lparr>is_issuer_id = lit ''i'', is_environment = lit ''e''\<rparr>, pk_model_id = 11,
     pk_model_version = 1, pk_current_workflow_ref = sample_version_ref 50,
     pk_target_workflow_ref = sample_version_ref 51, pk_readiness_id = 30, pk_readiness_version = 1,
     pk_opportunity_id = 20, pk_opportunity_version = 1,
     pk_target = \<lparr>dt_workspace_ref = lit ''w'', dt_repository_ref = lit ''r'',
       dt_requested_code_scopes = [lit ''c''], dt_semantic_execution_workflow_ref = lit ''s'',
       dt_environment_class = lit ''e''\<rparr>,
     pk_contract = sample_package_input,
     pk_digest = (if st = PDraft then None else Some sample_sha), pk_created_by_id = 9,
     pk_issued_at = (if st = PDraft then None else Some 4),
     pk_approved_by_id = (if st = PDraft then None else Some 9),
     pk_approval_binding = (if st = PDraft then None else Some sample_binding),
     pk_approved_at = (if st = PDraft then None else Some 4),
     pk_published_at = (if st = PPublished then Some 5 else None), pk_rejected_at = None,
     pk_revoked_at = None, pk_staled_at = None, pk_superseded_at = None, pk_state_reason = None\<rparr>"

definition sample_handoff :: "package_status \<Rightarrow> store" where
  "sample_handoff st = empty_store\<lparr>engagements := from_rows [sample_engagement],
     customer_models := from_rows [sample_model 1 True, sample_model 2 False],
     opportunities := from_rows [sample_opportunity], readiness_rows := from_rows [sample_readiness],
     packages := from_rows [sample_package st]\<rparr>"

lemma sample_handoff_well_formed: "well_formed (sample_handoff PPublished)"
  by code_simp

end
