(* ===== verification/Integrity.thy ===== *)
theory Integrity
  imports HandoffSample
begin

text \<open>
  What the accepted updates keep of a row, and the digest of a package: it only depends on the rows
  the package rests on, which no accepted update edits while the package is live.
\<close>

section \<open>Rows under accepted updates\<close>

lemma reaches_stable:
  assumes "reaches upd a b" and "P a" and "\<And>x y. P x \<Longrightarrow> upd x y \<Longrightarrow> P y"
  shows "P b"
  using assms(1) unfolding reaches_def by (induction rule: rtranclp_induct) (use assms(2,3) in blast)+

lemma frozen_ids:
  "model_frozen b = model_frozen a \<Longrightarrow> cm_id b = cm_id a"
  "readiness_frozen d = readiness_frozen c \<Longrightarrow> ra_id d = ra_id c"
  "opportunity_frozen f = opportunity_frozen e \<Longrightarrow> fo_id f = fo_id e"
  "package_frozen h = package_frozen g \<Longrightarrow> pk_id h = pk_id g"
  unfolding model_frozen_def readiness_frozen_def opportunity_frozen_def package_frozen_def
  by (drule arg_cong [where f = cm_id] arg_cong [where f = ra_id] arg_cong [where f = fo_id]
      arg_cong [where f = pk_id], simp)+

lemmas reaches_frozen = model_rows.reaches_frozen readiness_rows_kept.reaches_frozen
  opportunity_rows.reaches_frozen package_rows.reaches_frozen

text \<open>An approved row changes only by becoming stale: while it is approved it is the same row.\<close>

lemma model_approved_step:
  assumes "model_update_ok a b" and "cm_status a = MApproved"
  shows "b = a \<or> cm_status b = MStale"
proof (cases "cm_status b = MStale")
  case False
  have st: "cm_status b = cm_status a"
    using assms False by (auto simp: model_update_ok_def)
  moreover have "cm_approved_by_id b = cm_approved_by_id a" "cm_approved_at b = cm_approved_at a"
    "cm_stale_reason b = cm_stale_reason a" "cm_staled_at b = cm_staled_at a"
    using assms st False by (auto simp: model_update_ok_def)
  moreover have "model_frozen b = model_frozen a" using assms by (simp add: model_update_ok_def)
  ultimately have "b = a" by (cases a; cases b) (simp add: model_frozen_def)
  then show ?thesis by simp
qed simp

lemma model_same:
  assumes "reaches model_update_ok m m'" and "cm_status m = MApproved" and "cm_status m' = MApproved"
  shows "m' = m"
proof -
  have "m' = m \<or> cm_status m' = MStale"
  proof (rule reaches_stable [OF assms(1)])
    show "m = m \<or> cm_status m = MStale" by simp
    fix x y assume d: "x = m \<or> cm_status x = MStale" and u: "model_update_ok x y"
    from d show "y = m \<or> cm_status y = MStale"
    proof
      assume "x = m"
      then show ?thesis using model_approved_step [OF u] assms(2) by blast
    next
      assume "cm_status x = MStale"
      then have "cm_status y = MStale" using u unfolding model_update_ok_def by (metis model_status.distinct)
      then show ?thesis by simp
    qed
  qed
  then show ?thesis using assms(3) by (metis model_status.distinct(5))
qed

lemma readiness_approved_step:
  assumes "readiness_update_ok a b" and "ra_status a = AApproved"
  shows "b = a \<or> ra_status b = AStale"
proof (cases "ra_status b = AStale")
  case False
  have st: "ra_status b = ra_status a" using assms False by (auto simp: readiness_update_ok_def)
  moreover have "ra_overall_status b = ra_overall_status a" "ra_approved_by_id b = ra_approved_by_id a"
    "ra_approved_at b = ra_approved_at a" "ra_stale_reason b = ra_stale_reason a" "ra_staled_at b = ra_staled_at a"
    using assms st False by (auto simp: readiness_update_ok_def)
  moreover have "readiness_frozen b = readiness_frozen a" using assms by (simp add: readiness_update_ok_def)
  ultimately have "b = a" by (cases a; cases b) (simp add: readiness_frozen_def)
  then show ?thesis by simp
qed simp

lemma readiness_same:
  assumes "reaches readiness_update_ok r r'" and "ra_status r = AApproved" and "ra_status r' = AApproved"
  shows "r' = r"
proof -
  have "r' = r \<or> ra_status r' = AStale"
  proof (rule reaches_stable [OF assms(1)])
    show "r = r \<or> ra_status r = AStale" by simp
    fix x y assume d: "x = r \<or> ra_status x = AStale" and u: "readiness_update_ok x y"
    from d show "y = r \<or> ra_status y = AStale"
    proof
      assume "x = r"
      then show ?thesis using readiness_approved_step [OF u] assms(2) by blast
    next
      assume "ra_status x = AStale"
      then have "ra_status y = AStale" using u unfolding readiness_update_ok_def by (metis assessment_status.distinct)
      then show ?thesis by simp
    qed
  qed
  then show ?thesis using assms(3) by (metis assessment_status.distinct(5))
qed

lemma opportunity_selected_step:
  assumes "opportunity_update_ok a b" and "fo_status a = OSelected"
  shows "b = a \<or> fo_status b = OStale"
proof (cases "fo_status b = OStale")
  case False
  have st: "fo_status b = fo_status a"
    using assms False by (auto simp: opportunity_update_ok_def opportunity_transition_def)
  moreover have "fo_selected_by_id b = fo_selected_by_id a" "fo_selected_at b = fo_selected_at a"
    "fo_selection_reason b = fo_selection_reason a" "fo_rejected_by_id b = fo_rejected_by_id a"
    "fo_rejected_at b = fo_rejected_at a" "fo_rejection_reason b = fo_rejection_reason a"
    "fo_stale_reason b = fo_stale_reason a" "fo_staled_at b = fo_staled_at a"
    using assms st False unfolding opportunity_update_ok_def by auto
  moreover have "opportunity_frozen b = opportunity_frozen a" using assms by (simp add: opportunity_update_ok_def)
  ultimately have "b = a" by (cases a; cases b) (simp add: opportunity_frozen_def)
  then show ?thesis by simp
qed simp

lemma opportunity_same:
  assumes "reaches opportunity_update_ok f f'" and "fo_status f = OSelected" and "fo_status f' = OSelected"
  shows "f' = f"
proof -
  have "f' = f \<or> fo_status f' = OStale"
  proof (rule reaches_stable [OF assms(1)])
    show "f = f \<or> fo_status f = OStale" by simp
    fix x y assume d: "x = f \<or> fo_status x = OStale" and u: "opportunity_update_ok x y"
    from d show "y = f \<or> fo_status y = OStale"
    proof
      assume "x = f"
      then show ?thesis using opportunity_selected_step [OF u] assms(2) by blast
    next
      assume "fo_status x = OStale"
      then have "fo_status y = OStale"
        using u by (auto simp: opportunity_update_ok_def opportunity_transition_def)
      then show ?thesis by simp
    qed
  qed
  then show ?thesis using assms(3) by auto
qed

text \<open>Once a package has left review its approval columns never change, and it never returns.\<close>

lemma package_out_of_review_step:
  assumes "package_update_ok a b" and "pk_status a \<notin> {PDraft, PReadyForReview}"
  shows "pk_status b \<notin> {PDraft, PReadyForReview} \<and> approval_columns b = approval_columns a"
proof -
  have "pk_status b = pk_status a \<or> package_transition (pk_status a) (pk_status b)"
    and ref: "\<not> approval_change_refused a b" using assms(1) by (auto simp: package_update_ok_def)
  then have "pk_status b \<notin> {PDraft, PReadyForReview}" using assms(2) by (auto simp: package_transition_def)
  moreover have "approval_columns b = approval_columns a"
    using ref assms(2) unfolding approval_change_refused_def raises_def sql_not_def sql_and_def by auto
  ultimately show ?thesis by blast
qed

lemma package_out_of_review:
  assumes "reaches package_update_ok p p'" and "pk_status p \<notin> {PDraft, PReadyForReview}"
  shows "pk_status p' \<notin> {PDraft, PReadyForReview} \<and> approval_columns p' = approval_columns p"
  by (rule reaches_stable [OF assms(1), where P = "\<lambda>x. pk_status x \<notin> {PDraft, PReadyForReview}
      \<and> approval_columns x = approval_columns p"])
     (use assms(2) package_out_of_review_step in auto)

lemma package_path:
  assumes "reaches package_update_ok p p'"
  shows "package_transition\<^sup>*\<^sup>* (pk_status p) (pk_status p')"
  using assms unfolding reaches_def
proof (induction rule: rtranclp_induct)
  case (step y z)
  then have "pk_status z = pk_status y \<or> package_transition (pk_status y) (pk_status z)"
    by (auto simp: package_update_ok_def)
  then show ?case using step.IH by auto
qed simp

section \<open>Histories\<close>

lemma reachable_advances:
  assumes "reachable s0 s" and "well_formed s0"
  shows "store_advances s0 s"
  using assms
proof (induction rule: reachable.induct)
  case (step s s')
  then have "settled s" using reachable_well_formed by (simp add: well_formed_def)
  then show ?case using step step_advances store_advances_trans by blast
qed simp

section \<open>The digest depends on the backing rows only\<close>

definition rests_on :: "package \<Rightarrow> customer_model \<Rightarrow> opportunity \<Rightarrow> readiness \<Rightarrow> bool" where
  "rests_on p m f r \<longleftrightarrow> cm_engagement_id m = pk_engagement_id p \<and> cm_id m = pk_model_id p
     \<and> cm_status m = MApproved \<and> fo_id f = pk_opportunity_id p \<and> fo_model_id f = cm_id m
     \<and> ra_id r = pk_readiness_id p \<and> ra_model_id r = cm_id m \<and> ra_opportunity_id r = fo_id f"

definition holds_rows :: "store \<Rightarrow> customer_model \<Rightarrow> opportunity \<Rightarrow> readiness \<Rightarrow> bool" where
  "holds_rows s m f r \<longleftrightarrow> settled s \<and> m \<in> set (current (customer_models s))
     \<and> f \<in> set (current (opportunities s)) \<and> r \<in> set (current (readiness_rows s))"

lemma holds_lookup:
  assumes "holds_rows s m f r"
  shows "session_get cm_id (cm_id m) (customer_models s) = Some m"
    and "session_get fo_id (fo_id f) (opportunities s) = Some f"
    and "session_get ra_id (ra_id r) (readiness_rows s) = Some r"
    and "cm_engagement_id m = eid \<Longrightarrow> get_model eid (cm_id m) s = Inr m"
    and "first (select (\<lambda>x. cm_id x = cm_id m \<and> cm_engagement_id x = cm_engagement_id m
        \<and> cm_version x = cm_version m \<and> cm_status x = MApproved) (customer_models s))
      = (if cm_status m = MApproved then Some m else None)"
proof -
  have c: "clean (customer_models s)" "clean (readiness_rows s)" "clean (opportunities s)"
    and d: "distinct (map cm_id (current (customer_models s)))" "distinct (map ra_id (current (readiness_rows s)))"
      "distinct (map fo_id (current (opportunities s)))"
    and m: "m \<in> set (current (customer_models s))" and f: "f \<in> set (current (opportunities s))"
    and r: "r \<in> set (current (readiness_rows s))"
    using assms settled_keys by (auto simp: holds_rows_def settled_def factory_clean_def)
  show "session_get cm_id (cm_id m) (customer_models s) = Some m"
    unfolding session_get_def by (rule lookup_clean [OF c(1) d(1) m]) simp_all
  show "session_get fo_id (fo_id f) (opportunities s) = Some f"
    unfolding session_get_def by (rule lookup_clean [OF c(3) d(3) f]) simp_all
  show "session_get ra_id (ra_id r) (readiness_rows s) = Some r"
    unfolding session_get_def by (rule lookup_clean [OF c(2) d(2) r]) simp_all
  show "get_model eid (cm_id m) s = Inr m" if "cm_engagement_id m = eid"
    unfolding get_model_def the_or_eq_Inr by (rule lookup_clean [OF c(1) d(1) m]) (simp_all add: that)
  show "first (select (\<lambda>x. cm_id x = cm_id m \<and> cm_engagement_id x = cm_engagement_id m
        \<and> cm_version x = cm_version m \<and> cm_status x = MApproved) (customer_models s))
      = (if cm_status m = MApproved then Some m else None)"
  proof (cases "cm_status m = MApproved")
    case True
    then show ?thesis by (simp, intro lookup_clean [OF c(1) d(1) m]) simp_all
  next
    case False
    then have "filter (\<lambda>x. cm_id x = cm_id m \<and> cm_engagement_id x = cm_engagement_id m
        \<and> cm_version x = cm_version m \<and> cm_status x = MApproved) (current (customer_models s)) = []"
      using unique_key [OF d(1) _ m] by (auto simp: filter_empty_conv)
    then show ?thesis using False by (simp add: select_clean [OF c(1)])
  qed
qed

lemma model_authority_Inr:
  assumes "customer_factory_model_authority_reference m = Inr b"
  obtains v where "sr_kind b = ApprovedInput" and "sr_ref b = lit ''customer_factory_model:'' @ uuid_str (cm_id m)"
    and "sr_version b = Some (cm_version m)" and "model_ref m = Inr v" and "sr_sha256 b = vr_digest v"
    and "cm_status m = MApproved"
  using assms unfolding customer_factory_model_authority_reference_def
  by (auto simp: result_simps source_reference_def Let_def)

lemma authority_reference_valid:
  assumes "holds_rows s m f r" and "customer_factory_model_authority_reference m = Inr b"
  shows "validate_source_reference s (cm_engagement_id m) b = Inr ()"
proof -
  obtain v where b: "sr_kind b = ApprovedInput" "sr_ref b = lit ''customer_factory_model:'' @ uuid_str (cm_id m)"
    "sr_version b = Some (cm_version m)" "model_ref m = Inr v" "sr_sha256 b = vr_digest v" "cm_status m = MApproved"
    by (rule model_authority_Inr [OF assms(2)])
  have tag: "sr_ref b = lit ''customer_factory_model'' @ 58 # uuid_str (cm_id m)"
    unfolding b(2) by (simp add: lit_def)
  have sid: "source_reference_id (sr_ref b) = Inr (cm_id m)"
    unfolding tag by (rule source_reference_id_tagged) (simp_all add: lit_def)
  have ty: "before_first 58 (sr_ref b) = lit ''customer_factory_model''"
    unfolding tag by (simp add: before_first_def lit_def)
  show ?thesis
    using holds_lookup(5) [OF assms(1)] b(4-6)
    by (simp add: validate_source_reference_def sid b(1,3) ty approved_input_digest_def Let_def
        require_reference_digest_def)
qed

lemma authority_basis:
  assumes "holds_rows s m f r" and "rests_on p m f r"
  shows "validate_package_authority_basis s p b = Inr ()
    \<longleftrightarrow> mc_authority_boundaries (cm_columns m) \<noteq> JList [] \<and> customer_factory_model_authority_reference m = Inr b"
proof -
  have "get_model (pk_engagement_id p) (pk_model_id p) s = Inr m"
    using holds_lookup(4) [OF assms(1)] assms(2) by (simp add: rests_on_def)
  moreover have "validate_source_reference s (pk_engagement_id p) b = Inr ()"
    if "customer_factory_model_authority_reference m = Inr b"
    using authority_reference_valid [OF assms(1) that] assms(2) by (simp add: rests_on_def)
  ultimately show ?thesis
    unfolding validate_package_authority_basis_def by (auto simp: result_simps)
qed

text \<open>What of a package goes into its document.\<close>

definition document_of :: "package \<Rightarrow> package" where
  "document_of p = (package_frozen p)\<lparr>pk_issued_at := pk_issued_at p, pk_approved_by_id := pk_approved_by_id p,
     pk_approval_binding := pk_approval_binding p, pk_approved_at := pk_approved_at p\<rparr>"

lemma document_fields [simp]:
  "pk_id (document_of p) = pk_id p" "pk_engagement_id (document_of p) = pk_engagement_id p"
  "pk_package_id (document_of p) = pk_package_id p" "pk_version (document_of p) = pk_version p"
  "pk_schema_version (document_of p) = pk_schema_version p" "pk_issuer (document_of p) = pk_issuer p"
  "pk_model_id (document_of p) = pk_model_id p" "pk_model_version (document_of p) = pk_model_version p"
  "pk_current_workflow_ref (document_of p) = pk_current_workflow_ref p"
  "pk_target_workflow_ref (document_of p) = pk_target_workflow_ref p"
  "pk_readiness_id (document_of p) = pk_readiness_id p"
  "pk_readiness_version (document_of p) = pk_readiness_version p"
  "pk_opportunity_id (document_of p) = pk_opportunity_id p"
  "pk_opportunity_version (document_of p) = pk_opportunity_version p"
  "pk_target (document_of p) = pk_target p" "pk_contract (document_of p) = pk_contract p"
  "pk_issued_at (document_of p) = pk_issued_at p" "pk_approved_by_id (document_of p) = pk_approved_by_id p"
  "pk_approval_binding (document_of p) = pk_approval_binding p" "pk_approved_at (document_of p) = pk_approved_at p"
  by (simp_all add: document_of_def package_frozen_def)

lemma digest_document: "calculate_package_digest s (document_of p) = calculate_package_digest s p"
proof -
  have "package_lineage s (document_of p) = package_lineage s p"
    "package_issuer (document_of p) = package_issuer p"
    "\<And>b. validate_package_authority_basis s (document_of p) b = validate_package_authority_basis s p b"
    "package_approval_decision_reference (document_of p) = package_approval_decision_reference p"
    by (simp_all add: package_lineage_def package_issuer_def validate_package_authority_basis_def
        package_approval_decision_reference_def fun_eq_iff)
  then show ?thesis
    by (simp add: calculate_package_digest_def immutable_package_payload_def validate_package_approval_binding_def
        split: option.splits)
qed

lemma digest_rows:
  assumes "holds_rows s m f r" and "holds_rows s' m f r" and "rests_on p m f r"
  shows "calculate_package_digest s' p = Inr d \<longleftrightarrow> calculate_package_digest s p = Inr d"
proof -
  note l = holds_lookup [OF assms(1)] and l' = holds_lookup [OF assms(2)]
  note on = assms(3) [unfolded rests_on_def]
  have o: "opportunity_ref s' f = opportunity_ref s f" "verified_opportunity_digest s' f = verified_opportunity_digest s f"
    using l(1) l'(1) on by (simp_all add: opportunity_ref_def verified_opportunity_digest_def opportunity_digest_def)
  have r: "verified_readiness_digest s' r = verified_readiness_digest s r"
    using l(1,2) l'(1,2) on o(1) by (simp add: verified_readiness_digest_def readiness_digest_def)
  have "package_lineage s' p = package_lineage s p"
    using l(1-3) l'(1-3) on o(2) r by (simp add: package_lineage_def required_source_def)
  moreover have "validate_package_authority_basis s' p b = Inr () \<longleftrightarrow> validate_package_authority_basis s p b = Inr ()" for b
    using authority_basis [OF assms(1,3)] authority_basis [OF assms(2,3)] by simp
  ultimately have "immutable_package_payload s' p None = Inr doc \<longleftrightarrow> immutable_package_payload s p None = Inr doc" for doc
    by (auto simp: immutable_package_payload_def validate_package_approval_binding_def result_simps Let_def
        split: option.splits)
  then show ?thesis by (simp add: calculate_package_digest_def bindE_eq_Inr)
qed

text \<open>The rows a live package rests on, and that they stay the same while it stays live.\<close>

lemma backed_rows:
  assumes "settled s" and "pk_backed s p"
  obtains m f r where "rests_on p m f r" and "holds_rows s m f r" and "fo_status f = OSelected"
    and "ra_status r = AApproved"
proof -
  obtain m where m: "m \<in> set (current (customer_models s))" "cm_status m = MApproved"
    "model_key m = (pk_engagement_id p, pk_model_id p, pk_model_version p)"
    using assms(2) by (auto simp: pk_backed_def approved_models_live)
  obtain f where f: "f \<in> set (current (opportunities s))" "fo_status f = OSelected"
    "opportunity_key f = (pk_engagement_id p, pk_opportunity_id p, pk_opportunity_version p)"
    "fo_model_id f = pk_model_id p"
    using assms(2) by (auto simp: pk_backed_def selected_live)
  obtain r where r: "r \<in> set (current (readiness_rows s))" "ra_status r = AApproved"
    "ready_key r = ((pk_engagement_id p, pk_readiness_id p, pk_readiness_version p),
       (pk_model_id p, pk_model_version p), (pk_opportunity_id p, pk_opportunity_version p),
       pk_current_workflow_ref p, pk_target_workflow_ref p)"
    using assms(2) by (auto simp: pk_backed_def ready_live)
  have "rests_on p m f r" "holds_rows s m f r"
    using m f r assms(1)
    by (auto simp: rests_on_def holds_rows_def model_key_def opportunity_key_def ready_key_def readiness_key_def)
  then show thesis using that f(2) r(2) by blast
qed

lemma same_backing:
  assumes "well_formed s" and "well_formed s'" and "store_advances s s'"
    and "pk_backed s p" and "pk_backed s' p"
  obtains m f r where "rests_on p m f r" and "holds_rows s m f r" and "holds_rows s' m f r"
proof -
  have st: "settled s" "settled s'" using assms(1,2) by (simp_all add: well_formed_def)
  obtain m f r where 1: "rests_on p m f r" "holds_rows s m f r" "fo_status f = OSelected" "ra_status r = AApproved"
    by (rule backed_rows [OF st(1) assms(4)])
  obtain m' f' r' where 2: "rests_on p m' f' r'" "holds_rows s' m' f' r'" "fo_status f' = OSelected"
    "ra_status r' = AApproved"
    by (rule backed_rows [OF st(2) assms(5)])
  note adv = assms(3) [unfolded store_advances_def]
  obtain m2 where m2: "m2 \<in> set (current (customer_models s'))" "reaches model_update_ok m m2"
    using advances_old [OF adv [THEN conjunct1]] 1(2) by (auto simp: holds_rows_def)
  obtain r2 where r2: "r2 \<in> set (current (readiness_rows s'))" "reaches readiness_update_ok r r2"
    using advances_old [OF adv [THEN conjunct2, THEN conjunct1]] 1(2) by (auto simp: holds_rows_def)
  obtain f2 where f2: "f2 \<in> set (current (opportunities s'))" "reaches opportunity_update_ok f f2"
    using advances_old [OF adv [THEN conjunct2, THEN conjunct2, THEN conjunct1]] 1(2) by (auto simp: holds_rows_def)
  have "cm_id m2 = cm_id m'" "ra_id r2 = ra_id r'" "fo_id f2 = fo_id f'"
    using frozen_ids(1) [OF reaches_frozen(1) [OF m2(2)]] frozen_ids(2) [OF reaches_frozen(2) [OF r2(2)]]
      frozen_ids(3) [OF reaches_frozen(3) [OF f2(2)]] 1(1) 2(1) by (simp_all add: rests_on_def)
  moreover note in2 = 2(2) [unfolded holds_rows_def]
  ultimately have eq: "m2 = m'" "r2 = r'" "f2 = f'"
    using unique_key [OF settled_keys(1) [OF st(2)] m2(1)] unique_key [OF settled_keys(2) [OF st(2)] r2(1)]
      unique_key [OF settled_keys(3) [OF st(2)] f2(1)] by blast+
  have "m' = m" using model_same [OF m2(2)] 1(1) 2(1) eq(1) unfolding rests_on_def by blast
  moreover have "r' = r" using readiness_same [OF r2(2)] 1(4) 2(4) eq(2) by blast
  moreover have "f' = f" using opportunity_same [OF f2(2)] 1(3) 2(3) eq(3) by blast
  ultimately show thesis using that 1(1,2) 2(2) by blast
qed

section \<open>Digests verify\<close>

definition digests_verify :: "store \<Rightarrow> bool" where
  "digests_verify s \<longleftrightarrow> (\<forall>p \<in> set (current (packages s)). \<forall>d. pk_live p \<longrightarrow> pk_digest p = Some d \<longrightarrow>
     calculate_package_digest s p = Inr d)"

text \<open>The live packages with a digest are packages the store had, with the same document.\<close>

definition documents_kept :: "store \<Rightarrow> store \<Rightarrow> bool" where
  "documents_kept s s' \<longleftrightarrow> (\<forall>p' \<in> set (current (packages s')). pk_live p' \<longrightarrow> pk_digest p' \<noteq> None \<longrightarrow>
     (\<exists>p \<in> set (current (packages s)). pk_live p \<and> pk_digest p' = pk_digest p \<and> document_of p' = document_of p))"

lemma documents_kept_live:
  "(\<And>p. p \<in> set (current (packages s')) \<Longrightarrow> pk_live p \<Longrightarrow> p \<in> set (current (packages s))) \<Longrightarrow> documents_kept s s'"
  unfolding documents_kept_def by blast

lemma documents_kept_trans: "documents_kept s s1 \<Longrightarrow> documents_kept s1 s2 \<Longrightarrow> documents_kept s s2"
  unfolding documents_kept_def by metis

lemma documents_kept_cong:
  "current (packages s1) = current (packages s) \<Longrightarrow> documents_kept s s1"
  by (rule documents_kept_live) simp

lemma documents_kept_add:
  "current (packages s') = current (packages s) @ [p] \<Longrightarrow> pk_digest p = None \<Longrightarrow> documents_kept s s'"
  unfolding documents_kept_def by auto

lemma documents_kept_point:
  assumes "current (packages s') = current (modify Q g (packages s))"
    and "\<And>p. p \<in> set (current (packages s)) \<Longrightarrow> Q p \<Longrightarrow> pk_live (g p) \<Longrightarrow>
      pk_live p \<and> pk_digest (g p) = pk_digest p \<and> document_of (g p) = document_of p"
  shows "documents_kept s s'"
  unfolding documents_kept_def
proof (intro ballI impI)
  fix p' assume p': "p' \<in> set (current (packages s'))" "pk_live p'"
  then obtain p where "p \<in> set (current (packages s))" "p' = (if Q p then g p else p)"
    by (auto simp: assms(1) set_current_modify)
  then show "\<exists>p \<in> set (current (packages s)). pk_live p \<and> pk_digest p' = pk_digest p \<and> document_of p' = document_of p"
    using assms(2) p'(2) by (cases "Q p") auto
qed

lemma documents_kept_dead:
  "current (packages s') = current (modify Q g (packages s)) \<Longrightarrow> (\<And>p. \<not> pk_live (g p)) \<Longrightarrow> documents_kept s s'"
  by (erule documents_kept_point) blast

lemma document_point [simp]:
  "document_of (p\<lparr>pk_status := st\<rparr>) = document_of p"
  "document_of (publish_package now p) = document_of p"
  "document_of (p\<lparr>pk_digest := d\<rparr>) = document_of p"
  "pk_digest (publish_package now p) = pk_digest p"
  by (simp_all add: document_of_def package_frozen_def publish_package_def)

lemma factory_operations_keep_documents:
  assumes "well_formed s"
  shows "create_customer_factory_model eid opr i nid s = Inr s' \<Longrightarrow> documents_kept s s'"
    and "approve_customer_factory_model eid k opr now s = Inr s' \<Longrightarrow> documents_kept s s'"
    and "create_factory_opportunity eid opr m oi now nid s = Inr s' \<Longrightarrow> documents_kept s s'"
    and "select_factory_opportunity eid k opr why now s = Inr s' \<Longrightarrow> documents_kept s s'"
    and "reject_factory_opportunity eid k opr why now s = Inr s' \<Longrightarrow> documents_kept s s'"
    and "create_readiness_assessment eid opr m f cw tw ri now nid s = Inr s' \<Longrightarrow> documents_kept s s'"
    and "approve_readiness_assessment eid k opr now s = Inr s' \<Longrightarrow> documents_kept s s'"
proof -
  have mp: "mark_pending s" using assms settled_pending by (simp add: well_formed_def)
  have keep: "documents_kept s s'" if "current (packages s') = current (packages s0)"
    "cascade_spec w now M R F s s0" for s0 w M R F
  proof (rule documents_kept_live)
    fix p assume p: "p \<in> set (current (packages s'))" "pk_live p"
    then have "p \<in> set (current (packages s0))" using that(1) by simp
    then show "p \<in> set (current (packages s))"
      using staled_live(4) [OF that(2) [unfolded cascade_spec_def]] p(2) by blast
  qed
  show "documents_kept s s'" if "create_customer_factory_model eid opr i nid s = Inr s'"
    by (rule create_model_Inr [OF that]) (simp add: documents_kept_cong current_flush)
  show "documents_kept s s'" if "create_readiness_assessment eid opr m f cw tw ri now nid s = Inr s'"
    by (rule create_readiness_Inr [OF that]) (simp add: documents_kept_cong current_flush)
  show "documents_kept s s'" if "reject_factory_opportunity eid k opr why now s = Inr s'"
    by (rule reject_opportunity_Inr [OF that]) (simp add: documents_kept_cong current_flush)
  show "documents_kept s s'" if "approve_customer_factory_model eid k opr now s = Inr s'"
    by (rule approve_model_Inr [OF that], rule keep [OF _ stale_models_loop [OF mp]]) (simp add: current_flush)
  show "documents_kept s s'" if "approve_readiness_assessment eid k opr now s = Inr s'"
    by (rule approve_readiness_Inr [OF that], rule keep [OF _ readiness_ids_loop [OF mp]]) (simp add: current_flush)
  show "documents_kept s s'" if "select_factory_opportunity eid k opr why now s = Inr s'"
    by (rule select_opportunity_Inr [OF that], rule keep [OF _ opportunity_ids_loop [OF mp]]) (simp add: current_flush)
  show "documents_kept s s'" if "create_factory_opportunity eid opr m oi now nid s = Inr s'"
    by (rule create_opportunity_Inr [OF that], rule keep [OF _ opportunity_ids_loop [OF mp]]) (simp add: current_flush)
qed

lemma drafted_digest: "pk_digest (drafted_package nid eid ident v iss m r f t pin opr) = None"
  by (simp add: drafted_package_def)

lemma package_operations_keep_documents:
  assumes "well_formed s"
  shows "create_deployment_package eid opr iss m r f t pin pid nid fresh s = Inr s' \<Longrightarrow> documents_kept s s'"
    and "submit_deployment_package_for_review eid k opr s = Inr s' \<Longrightarrow> documents_kept s s'"
    and "publish_deployment_package eid k opr now s = Inr s' \<Longrightarrow> documents_kept s s'"
    and "reject_deployment_package eid k opr why now s = Inr s' \<Longrightarrow> documents_kept s s'"
    and "revoke_deployment_package eid k opr why now s = Inr s' \<Longrightarrow> documents_kept s s'"
proof -
  have st: "settled s" using assms by (simp add: well_formed_def)
  have live: "pk_live x" if "get_package eid k s = Inr p" "pk_status p \<in> {PDraft, PReadyForReview, PApproved, PPublished}"
    "x \<in> set (current (packages s))" "pk_id x = pk_id p" for x p
  proof -
    have "x = p" using unique_key [OF settled_keys(4) [OF st] that(3)] get_row(4) [OF st that(1)] that(4) by blast
    then show ?thesis using that(2) by (auto simp: pk_live_def package_terminal_def)
  qed
  show "documents_kept s s'" if "create_deployment_package eid opr iss m r f t pin pid nid fresh s = Inr s'"
    by (rule create_package_Inr [OF that])
       (rule documents_kept_add, simp add: current_flush current_add, simp add: drafted_digest)
  show "documents_kept s s'" if "submit_deployment_package_for_review eid k opr s = Inr s'"
  proof (rule submit_package_Inr [OF that])
    fix p s1 assume p: "get_package eid k s = Inr p" "pk_status p = PDraft" and s1:
      "s1 = record_event (pk_engagement_id p) package_type (pk_id p) opr
       (lit ''deployment_package.ready_for_review'') (JObj [])
       (s\<lparr>packages := modify (\<lambda>x. pk_id x = pk_id p) (\<lambda>x. x\<lparr>pk_status := PReadyForReview\<rparr>) (packages s)\<rparr>)"
      "s' = synced s1"
    have "current (packages s') = current (modify (\<lambda>x. pk_id x = pk_id p) (\<lambda>x. x\<lparr>pk_status := PReadyForReview\<rparr>) (packages s))"
      by (simp add: s1 current_flush)
    then show "documents_kept s s'"
      by (rule documents_kept_point) (use live [OF p(1)] p(2) in auto)
  qed
  show "documents_kept s s'" if "reject_deployment_package eid k opr why now s = Inr s'"
    by (rule reject_package_Inr [OF that]) (rule documents_kept_dead, simp add: current_flush, simp)
  show "documents_kept s s'" if "revoke_deployment_package eid k opr why now s = Inr s'"
    by (rule revoke_package_Inr [OF that]) (rule documents_kept_dead, simp, simp)
  show "documents_kept s s'" if "publish_deployment_package eid k opr now s = Inr s'"
  proof (rule publish_package_Inr [OF that])
    fix p s0 s1 why ids
    assume p: "get_package eid k s = Inr p" "pk_status p = PApproved"
      and ids: "ids = map pk_id (select (\<lambda>x. pk_engagement_id x = eid \<and> pk_id x \<noteq> pk_id p \<and> pk_status x = PPublished)
        (packages s))"
      and s0: "s0 = foldl (supersede_step eid why now (op_id opr)) s ids"
      and s1: "s1 = record_event (pk_engagement_id p) package_type (pk_id p) opr
             (lit ''deployment_package.published'') (obj [(''digest'', jopt JStr (pk_digest p))])
             ((synced s0)\<lparr>packages := modify (\<lambda>x. pk_id x = pk_id p) (publish_package now) (packages (synced s0))\<rparr>)"
      "s' = synced s1"
    have t: "packages s0 = modify (\<lambda>x. pk_id x \<in> set ids) (supersede_package why now) (packages s)"
      unfolding s0 using supersede_fold by blast
    have 1: "documents_kept s s0" by (rule documents_kept_point [OF arg_cong [OF t, where f = current]]) simp
    have "current (packages s') = current (modify (\<lambda>x. pk_id x = pk_id p) (publish_package now) (packages s0))"
      by (simp add: s1 current_flush current_modify)
    then have "documents_kept s0 s'"
    proof (rule documents_kept_point)
      fix x assume x: "x \<in> set (current (packages s0))" "pk_id x = pk_id p"
      have "pk_id p \<notin> set ids" by (auto simp: ids select_settled [OF st])
      then have "x \<in> set (current (packages s))" using x by (auto simp: t set_current_modify split: if_splits)
      then show "pk_live x \<and> pk_digest (publish_package now x) = pk_digest x
          \<and> document_of (publish_package now x) = document_of x"
        using live [OF p(1)] p(2) x(2) by simp
    qed
    then show "documents_kept s s'" using 1 documents_kept_trans by blast
  qed
qed

lemma staling_keeps_documents:
  assumes "operation c s = Inr s'" and "well_formed s"
    and "c \<in> {ModelTruthChanged eid actor now, CurrentWorkflowChanged eid actor now,
      TargetWorkflowChanged eid actor now, EconomicsChanged eid actor now}"
  shows "documents_kept s s'"
  using assms model_change_stales [of eid actor now s s'] current_change_stales [of eid actor now s s']
    target_change_stales [of eid actor now s s'] economic_change_stales [of eid actor now s s']
    settled_pending [of s]
  by (intro documents_kept_live) (auto simp: well_formed_def stales_def settled_def factory_clean_def)

lemma operation_keeps_documents:
  assumes "operation c s = Inr s'" and "well_formed s" and "\<forall>eid k opr basis now. c \<noteq> ApprovePackage eid k opr basis now"
  shows "documents_kept s s'"
proof (cases c)
  case (ModelTruthChanged eid actor now)
  then show ?thesis using staling_keeps_documents [OF assms(1,2)] by blast
next
  case (CurrentWorkflowChanged eid actor now)
  then show ?thesis using staling_keeps_documents [OF assms(1,2)] by blast
next
  case (TargetWorkflowChanged eid actor now)
  then show ?thesis using staling_keeps_documents [OF assms(1,2)] by blast
next
  case (EconomicsChanged eid actor now)
  then show ?thesis using staling_keeps_documents [OF assms(1,2)] by blast
next
  case (ArtifactChanged eid actor now)
  have mp: "mark_pending s" using assms(2) settled_pending by (simp add: well_formed_def)
  obtain w where "staled w now (\<lambda>_. False) (\<lambda>_. False) (\<lambda>_. False) (\<lambda>p. pk_engagement_id p = eid) s s'"
    using artifact_entry [OF _ mp] assms(1) unfolding ArtifactChanged operation.simps stale_after_artifact_change_def
    by blast
  from staled_live(4) [OF this] show ?thesis by (intro documents_kept_live) blast
next
  case (UpstreamReferenceChanged eid rf why now actor)
  then have "stale_models_for_upstream_reference eid rf why now actor s = Inr s'" using assms(1) by simp
  moreover have "settled s" using assms(2) by (simp add: well_formed_def)
  ultimately show ?thesis
  proof (rule upstream_entry)
    fix ids assume "cascade_spec why now (\<lambda>m. cm_id m \<in> set ids) (\<lambda>_. False) (\<lambda>_. False) s s'"
    from staled_live(4) [OF this [unfolded cascade_spec_def]] show "documents_kept s s'"
      by (intro documents_kept_live) blast
  qed
qed (use assms factory_operations_keep_documents [OF assms(2)] package_operations_keep_documents [OF assms(2)]
  in \<open>auto\<close>)

lemma backed_document: "document_of p' = document_of p \<Longrightarrow> pk_backed s p' = pk_backed s p"
proof -
  have "pk_backed s (document_of q) = pk_backed s q" for q by (simp add: pk_backed_def)
  then show "document_of p' = document_of p \<Longrightarrow> ?thesis" by metis
qed

lemma digest_transfer:
  assumes "well_formed s" and "well_formed s'" and "store_advances s s'"
    and "pk_backed s p" and "pk_backed s' p" and "calculate_package_digest s p = Inr d"
  shows "calculate_package_digest s' p = Inr d"
  by (rule same_backing [OF assms(1-5)]) (use digest_rows assms(6) in blast)

text \<open>Approval digests the package it stores.\<close>

lemma approval_verifies:
  assumes "approve_deployment_package eid k opr basis now s = Inr s1" and "well_formed s" and "digests_verify s"
    and "factory_accepted s1"
  shows "digests_verify (synced s1)"
  unfolding digests_verify_def
proof (intro ballI allI impI)
  fix x e assume x: "x \<in> set (current (packages (synced s1)))" "pk_live x" "pk_digest x = Some e"
  have st: "settled s" "lineage s" using assms(2) by (simp_all add: well_formed_def)
  have l1: "lineage s1" by (rule approve_package_lineage [OF assms(1) st])
  have wf: "well_formed (synced s1)" using synced_settled [OF assms(4)] l1 by (simp add: well_formed_def)
  have adv: "store_advances s (synced s1)"
    using in_session_flush [OF package_operations_session(3) [OF st(1) assms(1)] assms(4)] by blast
  have bx: "pk_backed (synced s1) x" using lineageD(3) [of "synced s1"] l1 x(1,2) by simp
  obtain p b d where p: "get_package eid k s = Inr p" "pk_status p = PReadyForReview"
    "calculate_package_digest s (approve_package opr b now p) = Inr d"
    "current (packages (synced s1)) = current (modify (\<lambda>x. pk_id x = pk_id p)
       (\<lambda>x. (approve_package opr b now x)\<lparr>pk_digest := Some d\<rparr>) (packages s))"
    by (rule approve_package_Inr [OF assms(1)]) (simp add: current_flush)
  note row = get_row(4) [OF st(1) p(1)]
  have only: "y = p" if "y \<in> set (current (packages s))" "pk_id y = pk_id p" for y
    using unique_key [OF settled_keys(4) [OF st(1)] that(1)] row that(2) by blast
  consider "x \<in> set (current (packages s))" | "x = (approve_package opr b now p)\<lparr>pk_digest := Some d\<rparr>"
    using current_point_only [where key = pk_id and f = p, OF x(1) [unfolded p(4)] only] by blast
  then show "calculate_package_digest (synced s1) x = Inr e"
  proof cases
    case 1
    then show ?thesis
      using digest_transfer [OF assms(2) wf adv _ bx] lineageD(3) [OF st(2)] x(2,3) assms(3)
      by (auto simp: digests_verify_def)
  next
    case 2
    let ?a = "approve_package opr b now p"
    have doc: "document_of x = document_of ?a" unfolding 2 by simp
    have "pk_live p" using p(2) by (simp add: pk_live_def package_terminal_def)
    then have "pk_backed s ?a" using lineageD(3) [OF st(2)] row by simp
    from digest_transfer [OF assms(2) wf adv this _ p(3)]
    have "calculate_package_digest (synced s1) ?a = Inr d" using bx backed_document [OF doc] by simp
    then have "calculate_package_digest (synced s1) x = Inr d"
      using digest_document [of "synced s1"] doc by metis
    then show ?thesis using x(3) 2 by simp
  qed
qed

lemma kept_verifies:
  assumes "well_formed s" and "well_formed s'" and "store_advances s s'" and "digests_verify s"
    and "documents_kept s s'"
  shows "digests_verify s'"
  unfolding digests_verify_def
proof (intro ballI allI impI)
  fix x d assume x: "x \<in> set (current (packages s'))" "pk_live x" "pk_digest x = Some d"
  then obtain p where p: "p \<in> set (current (packages s))" "pk_live p" "pk_digest p = Some d"
    "document_of x = document_of p"
    using assms(5) unfolding documents_kept_def by (metis option.distinct(1))
  have "pk_backed s p" using lineageD(3) p assms(1) by (simp add: well_formed_def)
  moreover have "pk_backed s' x" using lineageD(3) x assms(2) by (simp add: well_formed_def)
  then have "pk_backed s' p" using backed_document [OF p(4)] by simp
  ultimately have "calculate_package_digest s' p = Inr d"
    using digest_transfer [OF assms(1-3)] p assms(4) by (simp add: digests_verify_def)
  then show "calculate_package_digest s' x = Inr d" using digest_document p(4) by metis
qed

lemma request_verifies:
  assumes "well_formed s" and "digests_verify s"
  shows "digests_verify (run_request c s)"
proof (rule run_request_cases [of c s])
  assume "run_request c s = s"
  then show ?thesis using assms by simp
next
  fix s1 assume op: "operation c s = Inr s1" and acc: "factory_accepted s1" and run: "run_request c s = synced s1"
  have adv: "store_advances s (run_request c s)" using request_advances assms(1) by (simp add: well_formed_def)
  show ?thesis
  proof (cases "\<exists>eid k opr basis now. c = ApprovePackage eid k opr basis now")
    case True
    then show ?thesis using op approval_verifies [OF _ assms acc] unfolding run by auto
  next
    case False
    then have "documents_kept s s1" using operation_keeps_documents [OF op assms(1)] by blast
    then have "documents_kept s (run_request c s)" unfolding run documents_kept_def by (simp add: current_flush)
    then show ?thesis using kept_verifies [OF assms(1) request_well_formed [OF assms(1)] adv assms(2)] by blast
  qed
qed

lemma reachable_verifies:
  assumes "reachable s0 s" and "well_formed s0" and "digests_verify s0"
  shows "digests_verify s"
  using assms
proof (induction rule: reachable.induct)
  case (step s s')
  have wf: "well_formed s" using reachable_well_formed step by blast
  from step.hyps(2) show ?case
  proof (cases rule: handoff_step.cases)
    case (request c)
    then show ?thesis using request_verifies wf step by simp
  next
    case elsewhere
    have "documents_kept s s'" using elsewhere by (intro documents_kept_cong) (simp add: same_factory_tables_def)
    then show ?thesis
      using kept_verifies [OF wf step_well_formed [OF step.hyps(2) wf] step_advances [OF step.hyps(2)]] wf step
      by (simp add: well_formed_def)
  qed
qed simp

end
