(* ===== verification/RetrievalProps.thy ===== *)
theory RetrievalProps
  imports Retrieval Integrity
begin

text \<open>
  Package retrieval: what an authenticated token and an allowed retrieval imply, that an issued token
  authenticates, that rotation leaves one usable grant, and that a revoked grant never comes back.
\<close>

section \<open>Grants\<close>

definition grants_settled :: "gateway \<Rightarrow> bool" where
  "grants_settled g \<longleftrightarrow> clean (gw_grants g) \<and> unique gr_id (gw_grants g) \<and> unique gr_token_digest (gw_grants g)"

definition grant_frozen :: "grant \<Rightarrow> grant" where
  "grant_frozen r = r\<lparr>gr_revoked_at := None\<rparr>"

interpretation grant_rows: protected_rows "\<lambda>_. grant_insert_ok" grant_update_ok grant_frozen
  by unfold_locales (simp add: grant_update_ok_def grant_frozen_def)

lemma stored_rows_clean: "clean t \<Longrightarrow> stored_rows t = current t"
  by (induction t) (auto simp: clean_def stored_rows_def current_def opt_list_def)

lemma stored_first_clean: "clean t \<Longrightarrow> stored_first P t = first (filter P (current t))"
  by (simp add: stored_first_def stored_rows_clean)

lemma flush_gateway_Inr [result_simps]:
  "flush_gateway g = Inr g' \<longleftrightarrow> grants_accepted g \<and> factory_accepted (gw_store g)
     \<and> g' = g\<lparr>gw_store := synced (gw_store g), gw_grants := flush (gw_grants g)\<rparr>"
  by (auto simp: flush_gateway_def result_simps)

lemma add_audit_frame [simp]:
  "gw_grants (add_audit a g) = gw_grants g" "gw_events (add_audit a g) = gw_events g"
  "operators (gw_store (add_audit a g)) = operators (gw_store g)"
  "members (gw_store (add_audit a g)) = members (gw_store g)"
  "engagements (gw_store (add_audit a g)) = engagements (gw_store g)"
  "qualifications (gw_store (add_audit a g)) = qualifications (gw_store g)"
  "customer_models (gw_store (add_audit a g)) = customer_models (gw_store g)"
  "readiness_rows (gw_store (add_audit a g)) = readiness_rows (gw_store g)"
  "opportunities (gw_store (add_audit a g)) = opportunities (gw_store g)"
  "packages (gw_store (add_audit a g)) = packages (gw_store g)"
  by (simp_all add: add_audit_def)

lemma flushed_settled: "grants_accepted g \<Longrightarrow> grants_settled (g\<lparr>gw_store := s, gw_grants := flush (gw_grants g)\<rparr>)"
  by (simp add: grants_settled_def grants_accepted_def unique_def current_flush clean_flush)

section \<open>Requests on the gateway\<close>

datatype gateway_command =
    Provision uuid operator uuid
  | IssueGrant uuid operator operator pystr pystr time pystr time uuid pystr
  | RotateGrant uuid operator operator pystr pystr time pystr time uuid pystr
  | RevokeGrant uuid uuid operator time
  | AuthenticateToken pystr time
  | RetrievePackage uuid int principal "time \<Rightarrow> unit outcome" uuid time

primrec gateway_operation :: "gateway_command \<Rightarrow> gateway \<Rightarrow> gateway outcome" where
  "gateway_operation (Provision eid by nid) g =
     bindE (provision_retrieval_service_identity eid by nid g) (\<lambda>(_, g'). Inr g')"
| "gateway_operation (IssueGrant eid x by i sys ex iso_text now gid sec) g =
     bindE (issue_retrieval_grant eid x by i sys ex iso_text now gid sec g) (\<lambda>(_, _, g'). Inr g')"
| "gateway_operation (RotateGrant eid x by i sys ex iso_text now gid sec) g =
     bindE (rotate_retrieval_grant eid x by i sys ex iso_text now gid sec g) (\<lambda>(_, _, g'). Inr g')"
| "gateway_operation (RevokeGrant eid gid by now) g = revoke_retrieval_grant eid gid by now g"
| "gateway_operation (AuthenticateToken token now) g =
     bindE (authenticate_retrieval_token token now g) (\<lambda>(_, g'). Inr g')"
| "gateway_operation (RetrievePackage pid v who check corr now) g =
     bindE (retrieve_published_package pid v who check corr now g) (\<lambda>(_, g'). Inr g')"

definition gateway_request :: "gateway_command \<Rightarrow> gateway \<Rightarrow> gateway" where
  "gateway_request c g = (case bindE (gateway_operation c g) flush_gateway of Inl _ \<Rightarrow> g | Inr g' \<Rightarrow> g')"

inductive gateway_reachable :: "gateway \<Rightarrow> gateway \<Rightarrow> bool" for g0 where
  start: "gateway_reachable g0 g0"
| request: "gateway_reachable g0 g \<Longrightarrow> gateway_reachable g0 (gateway_request c g)"
| elsewhere: "gateway_reachable g0 g \<Longrightarrow> gw_grants g' = gw_grants g \<Longrightarrow> gateway_reachable g0 g'"

section \<open>The grant table over a history\<close>

definition grants_advance :: "gateway \<Rightarrow> gateway \<Rightarrow> bool" where
  "grants_advance g g' \<longleftrightarrow>
     advances (\<lambda>_. grant_insert_ok) grant_update_ok (current (gw_grants g)) (current (gw_grants g'))"

definition grants_session :: "gateway \<Rightarrow> gateway \<Rightarrow> bool" where
  "grants_session g g1 \<longleftrightarrow> (\<exists>g0. clean (gw_grants g0) \<and> grants_advance g g0 \<and> grown (gw_grants g0) (gw_grants g1))"

lemma grants_session_refl: "clean (gw_grants g) \<Longrightarrow> grants_session g g"
  by (auto simp: grants_session_def grants_advance_def)

lemma grants_session_grown: "grants_session g g1 \<Longrightarrow> grown (gw_grants g1) (gw_grants g2) \<Longrightarrow> grants_session g g2"
  unfolding grants_session_def using grown_trans by blast

lemma grants_session_cong: "grants_session g g1 \<Longrightarrow> gw_grants g2 = gw_grants g1 \<Longrightarrow> grants_session g g2"
  by (erule grants_session_grown) simp

lemma grants_session_flush:
  assumes "grants_session g g1" and "grants_accepted g1" and "gw_grants g2 = flush (gw_grants g1)"
  shows "grants_session g g2 \<and> grants_advance g g2"
proof -
  obtain g0 where g0: "clean (gw_grants g0)" "grants_advance g g0" "grown (gw_grants g0) (gw_grants g1)"
    using assms(1) by (auto simp: grants_session_def)
  have "grants_advance g0 g2"
    using flush_advances [OF g0(1,3)] assms(2,3) by (simp add: grants_advance_def grants_accepted_def current_flush)
  then have "grants_advance g g2" using g0(2) advances_trans unfolding grants_advance_def by blast
  moreover have "clean (gw_grants g2)" by (simp add: assms(3) clean_flush)
  ultimately show ?thesis unfolding grants_session_def using grown_refl by blast
qed

lemma flush_gateway_session:
  "flush_gateway g1 = Inr g2 \<Longrightarrow> grants_session g g1 \<Longrightarrow> grants_session g g2"
  using grants_session_flush [of g g1 g2] by (auto simp: result_simps)

lemma issue_session:
  assumes "issue_retrieval_grant eid x by i sys ex iso_text now gid sec g1 = Inr (r, token, g2)"
    and "grants_session g g1"
  shows "grants_session g g2"
proof -
  obtain r a g3 where 3: "flush_gateway (g1\<lparr>gw_grants := add r (gw_grants g1)\<rparr>) = Inr g3" "g2 = add_audit a g3"
    using assms(1) unfolding issue_retrieval_grant_def Let_def result_simps by auto
  have "grants_session g (g1\<lparr>gw_grants := add r (gw_grants g1)\<rparr>)"
    by (rule grants_session_grown [OF assms(2)]) simp
  from flush_gateway_session [OF 3(1) this] show ?thesis
    by (rule grants_session_cong) (simp add: 3(2))
qed

lemma revoke_session:
  "revoke_retrieval_grant eid k by now g1 = Inr g2 \<Longrightarrow> grants_session g g1 \<Longrightarrow> grants_session g g2"
  by (auto simp: revoke_retrieval_grant_def result_simps intro: grants_session_grown)

lemma rotate_session:
  assumes "rotate_retrieval_grant eid x by i sys ex iso_text now gid sec g1 = Inr (r, token, g2)"
    and "grants_session g g1"
  shows "grants_session g g2"
proof -
  obtain ids g3 where 3: "foldE (\<lambda>g k. revoke_retrieval_grant eid k by now g) g1 ids = Inr g3"
    "issue_retrieval_grant eid x by i sys ex iso_text now gid sec g3 = Inr (r, token, g2)"
    using assms(1) unfolding rotate_retrieval_grant_def Let_def result_simps by auto
  have "grants_session g g3"
    by (rule foldE_inv [OF _ 3(1), where P = "grants_session g"]) (use assms(2) revoke_session in blast)+
  then show ?thesis by (rule issue_session [OF 3(2)])
qed

lemma flush_store_session:
  "flush_gateway (g1\<lparr>gw_store := s\<rparr>) = Inr g2 \<Longrightarrow> grants_session g g1 \<Longrightarrow> grants_session g g2"
  by (erule flush_gateway_session) (erule grants_session_cong, simp)

lemma ensure_service_session:
  "ensure_service_operator eid e nid g1 = Inr (x, b, g2) \<Longrightarrow> grants_session g g1 \<Longrightarrow> grants_session g g2"
  unfolding ensure_service_operator_def Let_def
  by (auto simp: bindE_eq_Inr split: option.splits intro: flush_store_session)

lemma ensure_viewer_session:
  "ensure_viewer_membership eid x b g1 = Inr (b', g2) \<Longrightarrow> grants_session g g1 \<Longrightarrow> grants_session g g2"
  unfolding ensure_viewer_membership_def
  by (auto simp: bindE_eq_Inr require_eq_Inr split: option.splits intro: flush_store_session)

lemma provision_session:
  assumes "provision_retrieval_service_identity eid by nid g1 = Inr (x, g2)" and "grants_session g g1"
  shows "grants_session g g2"
proof -
  obtain e g3 y b g4 b' g5 where 3: "flush_gateway g1 = Inr g3" "ensure_service_operator eid e nid g3 = Inr (y, b, g4)"
    "ensure_viewer_membership eid y b g4 = Inr (b', g5)" "gw_grants g2 = gw_grants g5"
    using assms(1) unfolding provision_retrieval_service_identity_def bindE_eq_Inr
    by (auto simp: bindE_eq_Inr split: prod.splits if_splits)
  have "grants_session g g5"
    by (rule ensure_viewer_session [OF 3(3) ensure_service_session [OF 3(2) flush_gateway_session [OF 3(1) assms(2)]]])
  then show ?thesis by (rule grants_session_cong) (rule 3(4))
qed

text \<open>An authentication either names a denial, with no principal, or passes every check.\<close>

definition identity_ok :: "grant \<Rightarrow> gateway \<Rightarrow> bool" where
  "identity_ok r g \<longleftrightarrow>
     (\<exists>x. session_get op_id (gr_service_operator_id r) (operators (gw_store g)) = Some x
        \<and> op_identity_kind x = Service \<and> op_is_active x)
     \<and> (\<exists>m. membership_of (gr_engagement_id r) (gr_service_operator_id r) g = Some m \<and> mb_role m = Viewer)"

definition grant_principal :: "grant \<Rightarrow> principal" where
  "grant_principal r = \<lparr>pr_operator_id = gr_service_operator_id r, pr_grant_id = gr_id r,
     pr_engagement_id = gr_engagement_id r, pr_requester_identity = gr_requester_identity r,
     pr_requester_system = gr_requester_system r\<rparr>"

definition usable :: "grant \<Rightarrow> time \<Rightarrow> bool" where
  "usable r now \<longleftrightarrow> gr_revoked_at r = None \<and> now < gr_expires_at r \<and> gr_scope r = retrieval_scope"

lemma deny_cases:
  "deny_authentication r c a g = Inr (d, g') \<longleftrightarrow> d = (c, None) \<and> g' = record_authentication_denial r c a g"
  by (auto simp: deny_authentication_def)

lemma check_identity_cases:
  assumes "check_grant_identity r g = Inr (d, g')"
  obtains c where "d = (c, None)" and "c \<noteq> Authenticated" and "gw_grants g' = gw_grants g"
  | "d = (Authenticated, Some (grant_principal r))" and "g' = g" and "identity_ok r g"
  using assms unfolding check_grant_identity_def
  by (auto simp: deny_cases record_authentication_denial_def identity_ok_def grant_principal_def
      split: option.splits if_splits)

lemma authenticate_cases:
  assumes "authenticate_retrieval_token token now g = Inr (d, g')"
  obtains c where "d = (c, None)" and "c \<noteq> Authenticated" and "gw_grants g' = gw_grants g"
  | t r e eid where "parse_retrieval_token_subject token = Some t"
      and "stored_first (\<lambda>r. gr_id r = ts_grant_id t \<and> gr_service_operator_id r = ts_operator_id t
             \<and> gr_engagement_id r = eid) (gw_grants g) = Some r"
      and "first (select (\<lambda>x. eg_id x = eid) (engagements (gw_store g))) = Some e"
      and "eg_data_lifecycle_status e = Active"
      and "token_digest token = Inr (gr_token_digest r)" and "usable r now" and "identity_ok r g"
      and "d = (Authenticated, Some (grant_principal r))" and "g' = g"
proof (cases "parse_retrieval_token_subject token")
  case None
  then show ?thesis using assms that(1) by (auto simp: authenticate_retrieval_token_def)
next
  case (Some t)
  obtain k where k: "token_digest token = Inr k"
    using assms Some by (auto simp: authenticate_retrieval_token_def bindE_eq_Inr)
  note run = assms [unfolded authenticate_retrieval_token_def Some option.case k bindE_Inr Let_def]
  show ?thesis
  proof (cases "first (select (\<lambda>r. gr_id r = ts_grant_id t \<and> gr_service_operator_id r = ts_operator_id t) (gw_grants g))")
    case None
    then show ?thesis using run that(1) by auto
  next
    case (Some r0)
    note run = run [unfolded Some option.case]
    let ?eng = "first (select (\<lambda>e. eg_id e = gr_engagement_id r0) (engagements (gw_store g)))"
    let ?row = "stored_first (\<lambda>r. gr_id r = ts_grant_id t \<and> gr_service_operator_id r = ts_operator_id t
             \<and> gr_engagement_id r = gr_engagement_id r0) (gw_grants g)"
    show ?thesis
    proof (cases "\<exists>e r. ?eng = Some e \<and> eg_data_lifecycle_status e = Active \<and> ?row = Some r
        \<and> gr_token_digest r = k \<and> usable r now")
      case True
      then obtain e r where 1: "?eng = Some e" "eg_data_lifecycle_status e = Active" "?row = Some r"
        "gr_token_digest r = k" "usable r now" by blast
      then have "check_grant_identity r g = Inr (d, g')" using run by (simp add: usable_def)
      then show ?thesis
        by (rule check_identity_cases)
           (use that(1) that(2) [OF \<open>parse_retrieval_token_subject token = Some t\<close> 1(3,1,2)] k 1(4,5) in \<open>simp_all\<close>)
    next
      case False
      then show ?thesis
        using run that(1) unfolding usable_def
        by (auto simp: deny_cases record_authentication_denial_def split: option.splits if_splits)
    qed
  qed
qed

lemma authenticate_grants: "authenticate_retrieval_token token now g = Inr (d, g') \<Longrightarrow> gw_grants g' = gw_grants g"
  by (erule authenticate_cases) simp_all

lemma record_retrieval_frame [simp]:
  "gw_grants (record_retrieval p who corr result g) = gw_grants g"
  "gw_grants (record_not_found pid v who corr g) = gw_grants g"
  "packages (gw_store (record_retrieval p who corr result g)) = packages (gw_store g)"
  "packages (gw_store (record_not_found pid v who corr g)) = packages (gw_store g)"
  by (simp_all add: record_retrieval_def record_not_found_def)

lemma revalidate_frame:
  assumes "revalidate_retrieval_grant r now g = (c, g')"
  shows "gw_grants g' = gw_grants g" "gw_events g' = gw_events g" "packages (gw_store g') = packages (gw_store g)"
    "c = None \<Longrightarrow> g' = g"
  using assms unfolding revalidate_retrieval_grant_def record_authentication_denial_def
  by (auto split: option.splits if_splits)

lemma on_value_error_Inr:
  "on_value_error r h f = Inr y \<longleftrightarrow> (\<exists>x. r = Inr x \<and> f x = Inr y) \<or> (\<exists>e. r = Inl e \<and> is_value_error e \<and> h = Inr y)"
  by (auto simp: on_value_error_def split: sum.splits)

lemma on_qualification_error_Inr:
  "on_qualification_error r h f = Inr y \<longleftrightarrow>
     (r = Inr () \<and> f = Inr y) \<or> (\<exists>e. r = Inl e \<and> is_qualification_error e \<and> h = Inr y)"
  by (auto simp: on_qualification_error_def split: sum.splits)

lemma decide_cases:
  assumes "decide_retrieval check e p who corr now g = Inr (d, g')"
  obtains c g1 where "revalidate_retrieval_grant (lock_retrieval_grant who g) now g = (Some c, g1)"
      and "d = refusal c corr" and "g' = g1"
  | c where "c \<in> {DeniedQualification, DeniedIntegrity}" and "d = refusal c corr" and "g' = record_retrieval p who corr c g"
  | env where "revalidate_retrieval_grant (lock_retrieval_grant who g) now g = (None, g)"
      and "retrieval_authority check e (eg_data_classification e \<noteq> Sanitized
            \<or> lock_design_partner_authority (pr_operator_id who) (eg_id e) False (gw_store g)) p now (gw_store g) = Inr ()"
      and "published_package_envelope (gw_store g) p (the (pk_published_at p)) now corr = Inr env"
      and "d = \<lparr>rd_allowed = True, rd_result = Retrieved, rd_correlation_id = corr, rd_package = Some env\<rparr>"
      and "g' = record_retrieval p who corr Retrieved g"
proof -
  obtain c g1 where rv: "revalidate_retrieval_grant (lock_retrieval_grant who g) now g = (c, g1)" by fastforce
  show thesis
  proof (cases c)
    case None
    then have g1: "g1 = g" using revalidate_frame(4) [OF rv] by blast
    show ?thesis
      using assms that(2,3) rv None g1
      unfolding decide_retrieval_def Let_def
      by (auto simp: on_qualification_error_Inr on_value_error_Inr denied_def)
  next
    case (Some c')
    then show ?thesis using assms that(1) rv by (simp add: decide_retrieval_def Let_def)
  qed
qed

lemma retrieve_cases:
  assumes "retrieve_published_package pid v who check corr now g = Inr (d, g')"
  obtains "d = refusal EngagementUnavailable corr" and "g' = g"
  | "d = refusal PackageNotFound corr" and "g' = record_not_found pid v who corr g"
  | p c where "c \<in> {DeniedStale, DeniedRevoked, DeniedNotPublished, DeniedIntegrity}"
      and "first (select (\<lambda>p. pk_engagement_id p = pr_engagement_id who \<and> pk_package_id p = pid
             \<and> pk_version p = v) (packages (gw_store g))) = Some p"
      and "d = refusal c corr" and "g' = record_retrieval p who corr c g"
  | e p x where "first (select (\<lambda>e. eg_id e = pr_engagement_id who) (engagements (gw_store g))) = Some e"
      and "eg_data_lifecycle_status e = Active"
      and "first (select (\<lambda>p. pk_engagement_id p = pr_engagement_id who \<and> pk_package_id p = pid
             \<and> pk_version p = v) (packages (gw_store g))) = Some p"
      and "pk_status p = PPublished" and "pk_digest p = Some x"
      and "calculate_package_digest (gw_store g) p = Inr x"
      and "pk_approval_binding p \<noteq> None" and "pk_published_at p \<noteq> None"
      and "decide_retrieval check e p who corr now g = Inr (d, g')"
proof (cases "first (select (\<lambda>e. eg_id e = pr_engagement_id who) (engagements (gw_store g)))")
  case None
  then show ?thesis using assms that(1) by (simp add: retrieve_published_package_def)
next
  case (Some e)
  note e = Some
  note run = assms [unfolded retrieve_published_package_def e option.case]
  let ?q = "first (select (\<lambda>p. pk_engagement_id p = pr_engagement_id who \<and> pk_package_id p = pid
             \<and> pk_version p = v) (packages (gw_store g)))"
  show ?thesis
  proof (cases "eg_data_lifecycle_status e = Active")
    case False
    then show ?thesis using run that(1) by simp
  next
    case True
    note run = run [unfolded True, simplified]
    show ?thesis
    proof (cases ?q)
      case None
      then show ?thesis using run that(2) by simp
    next
      case (Some p)
      note run = run [unfolded Some option.case denied_def]
      consider "pk_status p = PPublished" | "pk_status p \<noteq> PPublished" by blast
      then show ?thesis
      proof cases
        case 1
        then show ?thesis
          using run that(3) [OF _ Some] that(4) [OF e True Some 1]
          by (auto simp: on_value_error_Inr split: if_splits)
      next
        case 2
        then show ?thesis using run that(3) [OF _ Some] by (auto split: if_splits)
      qed
    qed
  qed
qed

lemma decide_grants:
  assumes "decide_retrieval check e p who corr now g = Inr (d, g')"
  shows "gw_grants g' = gw_grants g"
  using assms by (rule decide_cases) (auto dest: revalidate_frame(1))

lemma retrieve_grants:
  assumes "retrieve_published_package pid v who check corr now g = Inr (d, g')"
  shows "gw_grants g' = gw_grants g"
  using assms by (rule retrieve_cases) (auto dest: decide_grants)

lemma operation_grants_session:
  assumes "gateway_operation c g = Inr g'" and "clean (gw_grants g)"
  shows "grants_session g g'"
proof -
  note refl = grants_session_refl [OF assms(2)]
  have same: "grants_session g g'" if "gw_grants g' = gw_grants g"
    by (rule grants_session_cong [OF refl that])
  show ?thesis
  proof (cases c)
    case (Provision eid own nid)
    then show ?thesis using assms(1) refl by (auto simp: bindE_eq_Inr intro: provision_session)
  next
    case (IssueGrant eid x own i sys ex iso_text now gid sec)
    then show ?thesis using assms(1) refl by (auto simp: bindE_eq_Inr intro: issue_session)
  next
    case (RotateGrant eid x own i sys ex iso_text now gid sec)
    then show ?thesis using assms(1) refl by (auto simp: bindE_eq_Inr intro: rotate_session)
  next
    case (RevokeGrant eid gid own now)
    then show ?thesis using assms(1) refl by (auto intro: revoke_session)
  next
    case (AuthenticateToken token now)
    then show ?thesis using assms(1) by (auto simp: bindE_eq_Inr intro!: same dest: authenticate_grants)
  next
    case (RetrievePackage pid v who check corr now)
    then show ?thesis using assms(1) by (auto simp: bindE_eq_Inr intro!: same dest: retrieve_grants)
  qed
qed

lemma gateway_request_cases:
  obtains "gateway_request c g = g"
  | g1 where "gateway_operation c g = Inr g1" and "grants_accepted g1" and "factory_accepted (gw_store g1)"
      and "gateway_request c g = g1\<lparr>gw_store := synced (gw_store g1), gw_grants := flush (gw_grants g1)\<rparr>"
proof (cases "bindE (gateway_operation c g) flush_gateway")
  case (Inl e)
  then show ?thesis using that(1) by (simp add: gateway_request_def)
next
  case (Inr g2)
  then obtain g1 where "gateway_operation c g = Inr g1" "flush_gateway g1 = Inr g2" by (auto simp: bindE_eq_Inr)
  moreover have "gateway_request c g = g2" by (simp add: gateway_request_def Inr)
  ultimately show ?thesis using that(2) by (simp add: flush_gateway_Inr)
qed

lemma gateway_request_advances:
  assumes "grants_settled g"
  shows "grants_settled (gateway_request c g) \<and> grants_advance g (gateway_request c g)"
proof (rule gateway_request_cases [of c g])
  assume "gateway_request c g = g"
  then show ?thesis using assms by (simp add: grants_advance_def)
next
  fix g1 assume "gateway_operation c g = Inr g1" and acc: "grants_accepted g1"
    and run: "gateway_request c g = g1\<lparr>gw_store := synced (gw_store g1), gw_grants := flush (gw_grants g1)\<rparr>"
  then have "grants_session g g1" using operation_grants_session assms by (simp add: grants_settled_def)
  then show ?thesis using grants_session_flush [OF _ acc] flushed_settled [OF acc] by (simp add: run)
qed

lemma gateway_reachable_advances:
  assumes "gateway_reachable g0 g" and "grants_settled g0"
  shows "grants_settled g \<and> grants_advance g0 g"
  using assms
proof (induction rule: gateway_reachable.induct)
  case start
  then show ?case by (simp add: grants_advance_def)
next
  case (request g c)
  then show ?case using gateway_request_advances advances_trans unfolding grants_advance_def by blast
next
  case (elsewhere g g')
  then show ?case by (simp add: grants_settled_def grants_advance_def)
qed

end
