(* ===== verification/SealedSample.thy ===== *)
theory SealedSample
  imports HandoffSample
begin

text \<open>
  A handoff whose digests are the ones the service computes.  SHA-256 stays symbolic: a value without
  surrogates, floats or long integers has the digest \<open>sha_of\<close>, and every digest of the sample is
  \<open>sha_of\<close> of the content it seals.
\<close>

section \<open>Digests that are computed\<close>

definition sha_of :: "json \<Rightarrow> pystr" where
  "sha_of v = sha_ref (utf8 (json_text (sort_json v)))"

definition ascii :: "pystr \<Rightarrow> bool" where
  "ascii t \<longleftrightarrow> list_all (\<lambda>c. c < 128) t"

definition clean_text :: "pystr \<Rightarrow> bool" where
  "clean_text t \<longleftrightarrow> list_all (\<lambda>c. \<not> surrogate c) t"

fun canonical_value :: "json \<Rightarrow> bool" where
  "canonical_value (JStr t) = clean_text t"
| "canonical_value (JInt i) = (\<bar>i\<bar> \<le> max_safe_json_integer)"
| "canonical_value (JList xs) = list_all canonical_value xs"
| "canonical_value (JObj kvs) = list_all (\<lambda>p. is_str (fst p) \<and> ascii (key_text (fst p)) \<and> canonical_value (snd p)) kvs"
| "canonical_value JNull = True"
| "canonical_value (JBool b) = True"
| "canonical_value _ = False"

lemma ascii_clean: "ascii t \<Longrightarrow> clean_text t"
  by (auto simp: ascii_def clean_text_def list_all_iff surrogate_def)

lemma clean_text_no_surrogate: "clean_text t \<Longrightarrow> \<not> list_ex surrogate t"
  by (auto simp: clean_text_def list_all_iff list_ex_iff)

lemma canonical_value_validates:
  "canonical_value v \<Longrightarrow> validate path v = Inr ()"
  "list_all canonical_value vs \<Longrightarrow> validate_list path n vs = Inr ()"
  "list_all (\<lambda>p. is_str (fst p) \<and> ascii (key_text (fst p)) \<and> canonical_value (snd p)) kvs
     \<Longrightarrow> validate_items path kvs = Inr ()"
proof (induction path v and path n vs and path kvs rule: validate_validate_list_validate_items.induct)
  case (12 path k v kvs)
  then show ?case by (auto simp: result_simps ascii_def [symmetric] ascii_clean elim!: is_strE)
qed (auto simp: result_simps clean_text_no_surrogate)

lemma canonical_sha: "canonical_value v \<Longrightarrow> canonical_sha256 v = Inr (sha_of v)"
  by (simp add: canonical_sha256_def canonical_json_bytes_eq canonical_value_validates(1) sha_of_def)

lemma sha_pattern_sha_of [simp]: "sha_pattern (sha_of v)"
  by (simp add: sha_of_def)

lemma clean_text_append [simp]: "clean_text (s @ t) \<longleftrightarrow> clean_text s \<and> clean_text t"
  by (simp add: clean_text_def)

lemma clean_text_lit [simp]: "clean_text (lit t)"
proof -
  have "\<not> surrogate (of_char c)" for c :: char
    using nat_of_char_less_256 [of c] unfolding surrogate_def by linarith
  then show ?thesis by (simp add: clean_text_def lit_def list.pred_map comp_def list_all_iff)
qed

lemma clean_text_sha_of [simp]: "clean_text (sha_of v)"
  using sha256_hex_chars by (simp add: sha_of_def sha_ref_def)
    (fastforce simp: clean_text_def list_all_iff surrogate_def hex_char_def)

lemma clean_text_uuid_str [simp]: "clean_text (uuid_str u)"
  using uuid_str_chars [of _ u] by (fastforce simp: clean_text_def list_all_iff surrogate_def hex_char_def)

lemma canonical_value_obj [simp]:
  "canonical_value (obj kvs) \<longleftrightarrow> list_all (\<lambda>p. ascii (lit (fst p)) \<and> canonical_value (snd p)) kvs"
  by (simp add: obj_def list.pred_map comp_def split_beta)

section \<open>The sealed rows\<close>

definition sealed_model :: customer_model where
  "sealed_model = (sample_model 1 True)\<lparr>cm_content_digest := sha_of (model_columns_json sample_columns)\<rparr>"

definition sealed_model_ref :: version_ref where
  "sealed_model_ref = \<lparr>vr_id = 11, vr_version = 1, vr_digest = cm_content_digest sealed_model\<rparr>"

definition sealed_opportunity :: opportunity where
  "sealed_opportunity = sample_opportunity\<lparr>fo_content_digest :=
     sha_of (opportunity_payload (row_input sample_opportunity) (fo_score sample_opportunity) sealed_model_ref)\<rparr>"

definition sealed_opportunity_ref :: version_ref where
  "sealed_opportunity_ref = \<lparr>vr_id = 20, vr_version = 1, vr_digest = fo_content_digest sealed_opportunity\<rparr>"

definition sealed_readiness :: readiness where
  "sealed_readiness = sample_readiness\<lparr>ra_content_digest := sha_of (readiness_payload sealed_model_ref
     sealed_opportunity_ref (sample_version_ref 50) (sample_version_ref 51) [])\<rparr>"

definition sealed_readiness_ref :: version_ref where
  "sealed_readiness_ref = \<lparr>vr_id = 30, vr_version = 1, vr_digest = ra_content_digest sealed_readiness\<rparr>"

definition sealed_basis :: source_ref where
  "sealed_basis = \<lparr>sr_kind = ApprovedInput, sr_ref = lit ''customer_factory_model:'' @ uuid_str 11,
     sr_version = Some 1, sr_sha256 = vr_digest sealed_model_ref\<rparr>"

definition decision_json :: json where
  "decision_json = obj
     [(''package_version_id'', JStr (uuid_str 40)), (''package_id'', JStr (uuid_str 60)),
      (''package_version'', JInt 1), (''decision'', JStr (lit ''APPROVED'')),
      (''approved_by'', JStr (uuid_str 9)), (''authority_basis_ref'', source_ref_json sealed_basis),
      (''approved_at'', JStr (rfc3339_z 4))]"

definition sealed_binding :: approval_binding where
  "sealed_binding = \<lparr>bd_decision_ref = \<lparr>sr_kind = ApprovedInput,
       sr_ref = lit ''factory_deployment_package_approval:'' @ uuid_str 40, sr_version = Some 1,
       sr_sha256 = sha_of decision_json\<rparr>,
     bd_approved_by = 9, bd_authorized_by_ref = sr_ref sealed_basis,
     bd_authority_basis_ref = sealed_basis, bd_approved_at = 4\<rparr>"

definition sealed_lineage :: source_lineage where
  "sealed_lineage = \<lparr>ln_engagement = 1, ln_customer_factory_model = sealed_model_ref,
     ln_current_workflow = sample_version_ref 50, ln_target_workflow = sample_version_ref 51,
     ln_readiness_assessment = sealed_readiness_ref, ln_factory_opportunity = sealed_opportunity_ref\<rparr>"

definition sealed_document :: "pystr \<Rightarrow> package_document" where
  "sealed_document d = (let p = sample_package PPublished in
     \<lparr>dc_schema_version = package_schema_version, dc_package_id = 60, dc_package_version = 1,
      dc_issuer = pk_issuer p, dc_issued_at = 4, dc_approval = sealed_binding, dc_digest = d,
      dc_source = sealed_lineage, dc_target = pk_target p, dc_intent = sample_package_input\<rparr>)"

definition sealed_digest :: pystr where
  "sealed_digest = sha_of (document_json None (sealed_document (lit ''sha256:'' @ replicate 64 48)))"

definition sealed_package :: package where
  "sealed_package = (sample_package PPublished)\<lparr>pk_approval_binding := Some sealed_binding,
     pk_digest := Some sealed_digest\<rparr>"

definition sealed_handoff :: store where
  "sealed_handoff = empty_store\<lparr>engagements := from_rows [sample_engagement],
     customer_models := from_rows [sealed_model], opportunities := from_rows [sealed_opportunity],
     readiness_rows := from_rows [sealed_readiness], packages := from_rows [sealed_package]\<rparr>"

lemmas sealed_tables = sealed_handoff_def empty_store_def

lemma sealed_fields [simp]:
  "cm_id sealed_model = 11" "cm_engagement_id sealed_model = 1" "cm_version sealed_model = 1"
  "cm_status sealed_model = MApproved" "cm_columns sealed_model = sample_columns"
  "fo_id sealed_opportunity = 20" "fo_engagement_id sealed_opportunity = 1" "fo_version sealed_opportunity = 1"
  "fo_status sealed_opportunity = OSelected" "fo_model_id sealed_opportunity = 11"
  "fo_model_version sealed_opportunity = 1"
  "ra_id sealed_readiness = 30" "ra_engagement_id sealed_readiness = 1" "ra_version sealed_readiness = 1"
  "ra_status sealed_readiness = AApproved" "ra_overall_status sealed_readiness = Ready"
  "ra_model_id sealed_readiness = 11" "ra_model_version sealed_readiness = 1"
  "ra_opportunity_id sealed_readiness = 20" "ra_opportunity_version sealed_readiness = 1"
  "ra_current_workflow_ref sealed_readiness = sample_version_ref 50"
  "ra_target_workflow_ref sealed_readiness = sample_version_ref 51" "ra_stages sealed_readiness = []"
  by (simp_all add: sealed_model_def sealed_opportunity_def sealed_readiness_def sample_model_def
      sample_opportunity_def sample_readiness_def)

lemma sealed_package_fields [simp]:
  "pk_id sealed_package = 40" "pk_engagement_id sealed_package = 1" "pk_package_id sealed_package = 60"
  "pk_version sealed_package = 1" "pk_status sealed_package = PPublished"
  "pk_schema_version sealed_package = package_schema_version"
  "pk_model_id sealed_package = 11" "pk_model_version sealed_package = 1"
  "pk_readiness_id sealed_package = 30" "pk_readiness_version sealed_package = 1"
  "pk_opportunity_id sealed_package = 20" "pk_opportunity_version sealed_package = 1"
  "pk_current_workflow_ref sealed_package = sample_version_ref 50"
  "pk_target_workflow_ref sealed_package = sample_version_ref 51"
  "pk_contract sealed_package = sample_package_input" "pk_digest sealed_package = Some sealed_digest"
  "pk_approval_binding sealed_package = Some sealed_binding" "pk_issued_at sealed_package = Some 4"
  "pk_approved_by_id sealed_package = Some 9" "pk_approved_at sealed_package = Some 4"
  "pk_published_at sealed_package = Some 5"
  by (simp_all add: sealed_package_def sample_package_def)

lemma sealed_lookups [simp]:
  "session_get cm_id 11 (customer_models sealed_handoff) = Some sealed_model"
  "session_get fo_id 20 (opportunities sealed_handoff) = Some sealed_opportunity"
  "session_get ra_id 30 (readiness_rows sealed_handoff) = Some sealed_readiness"
  "get_model 1 11 sealed_handoff = Inr sealed_model"
  "packages sealed_handoff = from_rows [sealed_package]"
  "engagements sealed_handoff = from_rows [sample_engagement]"
  by (simp_all add: sealed_tables session_get_def get_model_def lookup_simps)

lemma sealed_handoff_well_formed: "well_formed sealed_handoff"
proof -
  have "valid_score (fo_score sample_opportunity)" by code_simp
  then have "settled sealed_handoff"
    by (simp add: settled_def factory_clean_def factory_accepted_def models_accepted_def readiness_accepted_def
        opportunities_accepted_def packages_accepted_def sealed_tables clean_def unique_def
        index_safe_def from_rows_def stored_def accepts_def refers_def current_def model_key_def opportunity_key_def
        readiness_key_def sealed_model_def sealed_opportunity_def sealed_readiness_def sealed_package_def
        sample_model_def sample_opportunity_def sample_readiness_def sample_package_def)
  moreover have "lineage sealed_handoff"
    by (auto simp: lineage_def sealed_tables current_from_rows fo_backed_def ra_backed_def pk_backed_def
        approved_models_def selected_opportunities_def ready_assessments_def model_key_def opportunity_key_def
        readiness_key_def ready_key_def)
  ultimately show ?thesis by (simp add: well_formed_def)
qed

section \<open>The digests verify\<close>

lemma ascii_lit: "ascii (lit t) \<longleftrightarrow> list_all (\<lambda>c. of_char c < (128 :: nat)) t"
  by (simp add: ascii_def lit_def list.pred_map comp_def)

lemma canonical_value_jopt [simp]:
  "canonical_value (jopt f x) \<longleftrightarrow> (case x of None \<Rightarrow> True | Some v \<Rightarrow> canonical_value (f v))"
  by (simp add: jopt_def split: option.splits)

lemma canonical_version_ref [simp]:
  "canonical_value (version_ref_json r) \<longleftrightarrow> \<bar>vr_version r\<bar> \<le> max_safe_json_integer \<and> clean_text (vr_digest r)"
  by (simp add: version_ref_json_def ascii_lit)

lemma sample_sha_ok [simp]: "sha_pattern sample_sha" "clean_text sample_sha"
  by code_simp+

lemma sealed_canonical:
  "canonical_value (model_columns_json sample_columns)"
  "canonical_value (opportunity_input_json (row_input sample_opportunity))"
  "canonical_value (score_json (fo_score sample_opportunity))"
  "canonical_value (package_input_json sample_package_input)"
  "canonical_value (target_json (pk_target (sample_package PPublished)))"
  "canonical_value (issuer_json (pk_issuer (sample_package PPublished)))"
  "clean_text (rfc3339_z 4)"
  by code_simp+

lemma sealed_refs_canonical:
  "canonical_value (opportunity_payload (row_input sample_opportunity) (fo_score sample_opportunity) sealed_model_ref)"
  "canonical_value (readiness_payload sealed_model_ref sealed_opportunity_ref (sample_version_ref 50)
     (sample_version_ref 51) [])"
  "canonical_value (source_ref_json sealed_basis)"
  using sealed_canonical(2,3)
  by (simp_all add: opportunity_payload_def readiness_payload_def source_ref_json_def sealed_basis_def ascii_lit
      sealed_model_ref_def sealed_opportunity_ref_def sealed_model_def sealed_opportunity_def sample_version_ref_def
      max_safe_json_integer_def)

lemma sealed_version_refs [simp]:
  "valid_version_ref sealed_model_ref" "valid_version_ref sealed_opportunity_ref"
  "valid_version_ref sealed_readiness_ref" "valid_version_ref (sample_version_ref k)"
  by (simp_all add: valid_version_ref_def sealed_model_ref_def sealed_opportunity_ref_def sealed_readiness_ref_def
      sealed_model_def sealed_opportunity_def sealed_readiness_def sample_version_ref_def)

lemma sealed_model_ref [simp]:
  "verified_model_digest sealed_model = Inr (cm_content_digest sealed_model)"
  "version_reference 11 1 (cm_content_digest sealed_model) = Inr sealed_model_ref"
  "model_ref sealed_model = Inr sealed_model_ref"
proof -
  show 1: "verified_model_digest sealed_model = Inr (cm_content_digest sealed_model)"
    by (simp add: verified_model_digest_def customer_model_digest_def canonical_sha [OF sealed_canonical(1)]
        verified_content_digest_def lift_canon_def) (simp add: sealed_model_def)
  show 2: "version_reference 11 1 (cm_content_digest sealed_model) = Inr sealed_model_ref"
    using sealed_version_refs(1) by (simp add: version_reference_def Let_def flip: sealed_model_ref_def)
  show "model_ref sealed_model = Inr sealed_model_ref" using 1 2 by (simp add: model_ref_def)
qed

lemma sealed_opportunity_ref [simp]:
  "verified_opportunity_digest sealed_handoff sealed_opportunity = Inr (fo_content_digest sealed_opportunity)"
  "version_reference 20 1 (fo_content_digest sealed_opportunity) = Inr sealed_opportunity_ref"
  "opportunity_ref sealed_handoff sealed_opportunity = Inr sealed_opportunity_ref"
proof -
  have "row_input sealed_opportunity = row_input sample_opportunity"
    "fo_score sealed_opportunity = fo_score sample_opportunity"
    by (simp_all add: row_input_def sealed_opportunity_def)
  then show 1: "verified_opportunity_digest sealed_handoff sealed_opportunity = Inr (fo_content_digest sealed_opportunity)"
    by (simp add: verified_opportunity_digest_def opportunity_digest_def canonical_sha [OF sealed_refs_canonical(1)]
        verified_content_digest_def lift_canon_def) (simp add: sealed_opportunity_def)
  show 2: "version_reference 20 1 (fo_content_digest sealed_opportunity) = Inr sealed_opportunity_ref"
    using sealed_version_refs(2) by (simp add: version_reference_def Let_def flip: sealed_opportunity_ref_def)
  show "opportunity_ref sealed_handoff sealed_opportunity = Inr sealed_opportunity_ref"
    using 1 2 by (simp add: opportunity_ref_def)
qed

lemma sealed_readiness_ref [simp]:
  "verified_readiness_digest sealed_handoff sealed_readiness = Inr (ra_content_digest sealed_readiness)"
  "version_reference 30 1 (ra_content_digest sealed_readiness) = Inr sealed_readiness_ref"
  using sealed_version_refs(3)
  by (simp_all add: verified_readiness_digest_def readiness_digest_def canonical_sha [OF sealed_refs_canonical(2)]
      verified_content_digest_def lift_canon_def version_reference_def Let_def flip: sealed_readiness_ref_def)
     (simp add: sealed_readiness_def)

lemma sealed_lineage: "package_lineage sealed_handoff sealed_package = Inr sealed_lineage"
  by (simp add: package_lineage_def required_source_def sealed_lineage_def)

lemma source_reference_id_customer_model:
  "source_reference_id (lit ''customer_factory_model:'' @ uuid_str u) = Inr u"
proof -
  have "58 \<notin> set (lit ''customer_factory_model'') \<and> 47 \<notin> set (lit ''customer_factory_model'')" by code_simp
  then show ?thesis
    using source_reference_id_tagged [of "lit ''customer_factory_model''" u]
      tag_append [of "''customer_factory_model''" "uuid_str u"] by simp
qed

lemma sealed_basis_valid [simp]: "valid_source_ref sealed_basis"
  by (simp add: sealed_basis_def valid_source_ref_def bounded_text_def sealed_model_ref_def sealed_model_def)

lemma sealed_basis_ref: "customer_factory_model_authority_reference sealed_model = Inr sealed_basis"
  using sealed_basis_valid
  by (simp add: customer_factory_model_authority_reference_def source_reference_def Let_def flip: sealed_basis_def)

lemma sealed_basis_validates:
  assumes "first (select (\<lambda>m. cm_id m = 11 \<and> cm_engagement_id m = 1 \<and> cm_version m = 1 \<and> cm_status m = MApproved)
    (customer_models s)) = Some sealed_model"
  shows "validate_source_reference s 1 sealed_basis = Inr ()"
proof -
  have tag: "before_first 58 (sr_ref sealed_basis) = lit ''customer_factory_model''"
    by (simp add: sealed_basis_def)
  have "approved_input_digest s 1 11 (lit ''customer_factory_model'') 1 = Inr (Some (vr_digest sealed_model_ref))"
    using assms by (simp add: approved_input_digest_def)
  then show ?thesis
    using source_reference_id_customer_model [of 11]
    by (simp add: validate_source_reference_def tag) (simp add: sealed_basis_def require_reference_digest_def)
qed

lemma sealed_decision:
  "package_approval_decision_reference sealed_package 9 sealed_basis 4 = Inr (bd_decision_ref sealed_binding)"
proof -
  have "canonical_value decision_json"
    using sealed_refs_canonical(3) sealed_canonical(7)
    by (simp add: decision_json_def ascii_lit max_safe_json_integer_def)
  then have "canonical_sha256 decision_json = Inr (sha_of decision_json)" by (rule canonical_sha)
  then show ?thesis
    by (simp add: package_approval_decision_reference_def lift_canon_def source_reference_def Let_def
        valid_source_ref_def bounded_text_def flip: decision_json_def)
       (simp add: sealed_binding_def)
qed

lemma sealed_binding_valid [simp]: "valid_binding sealed_binding"
  using sealed_basis_valid
  unfolding valid_binding_def sealed_binding_def
  by (simp add: valid_source_ref_def bounded_text_def sealed_basis_def)

lemma sealed_columns: "mc_authority_boundaries sample_columns \<noteq> JList []"
  by (simp add: sample_columns_def)

lemma sealed_binding_checks:
  "validate_package_approval_binding sealed_handoff sealed_package sealed_binding = Inr ()"
proof -
  have "first (select (\<lambda>m. cm_id m = 11 \<and> cm_engagement_id m = 1 \<and> cm_version m = 1 \<and> cm_status m = MApproved)
      (customer_models sealed_handoff)) = Some sealed_model"
    by (simp add: sealed_tables lookup_simps)
  then have "validate_package_authority_basis sealed_handoff sealed_package sealed_basis = Inr ()"
    using sealed_columns
    by (simp add: validate_package_authority_basis_def sealed_basis_ref sealed_basis_validates)
  moreover have "bd_approved_by sealed_binding = 9" "bd_authority_basis_ref sealed_binding = sealed_basis"
    "bd_approved_at sealed_binding = 4" "bd_authorized_by_ref sealed_binding = sr_ref sealed_basis"
    by (simp_all add: sealed_binding_def)
  ultimately show ?thesis
    using sealed_decision by (simp add: validate_package_approval_binding_def)
qed

lemma sealed_parts:
  "package_issuer sealed_package = Inr (pk_issuer (sample_package PPublished))"
  "valid_target (pk_target sealed_package)" "pk_target sealed_package = pk_target (sample_package PPublished)"
proof -
  have "valid_issuer (pk_issuer (sample_package PPublished))" "valid_target (pk_target (sample_package PPublished))"
    by code_simp+
  moreover show "pk_target sealed_package = pk_target (sample_package PPublished)"
    by (simp add: sealed_package_def)
  moreover have "pk_issuer sealed_package = pk_issuer (sample_package PPublished)" by (simp add: sealed_package_def)
  ultimately show "package_issuer sealed_package = Inr (pk_issuer (sample_package PPublished))"
    "valid_target (pk_target sealed_package)"
    by (simp_all add: package_issuer_def)
qed

lemma sealed_payload:
  assumes "sha_pattern (case d of None \<Rightarrow> lit ''sha256:'' @ replicate 64 48 | Some d \<Rightarrow> d)"
  shows "immutable_package_payload sealed_handoff sealed_package d
    = Inr (sealed_document (case d of None \<Rightarrow> lit ''sha256:'' @ replicate 64 48 | Some d \<Rightarrow> d))"
  using assms sealed_parts(2)
  by (simp add: immutable_package_payload_def sealed_lineage sample_package_valid sealed_binding_checks
      sealed_parts(1) sealed_document_def Let_def sealed_parts(3))

lemma sealed_document_canonical: "canonical_value (document_json x (sealed_document d)) \<longleftrightarrow> (case x of None \<Rightarrow> True | Some y \<Rightarrow> clean_text y)"
proof -
  have "canonical_value (lineage_json sealed_lineage)" "canonical_value (binding_json sealed_binding)"
    using sealed_refs_canonical(3) sealed_canonical(7)
    by (simp_all add: lineage_json_def sealed_lineage_def binding_json_def sealed_binding_def ascii_lit
        source_ref_json_def sealed_model_ref_def sealed_opportunity_ref_def sealed_readiness_ref_def sealed_model_def
        sealed_opportunity_def sealed_readiness_def sample_version_ref_def max_safe_json_integer_def
        sealed_basis_def)
  moreover have "clean_text package_schema_version" by (simp add: package_schema_version_def)
  ultimately show ?thesis
    using sealed_canonical(4-7)
    by (simp add: document_json_def sealed_document_def Let_def integrity_fields_def ascii_lit max_safe_json_integer_def
        split: option.splits)
qed

lemma sealed_digest: "calculate_package_digest sealed_handoff sealed_package = Inr sealed_digest"
proof -
  have "sha_pattern (lit ''sha256:'' @ replicate 64 48)" by (rule sha_pattern_replicate) (simp add: hex_char_def)
  then show ?thesis
    using sealed_payload [of None] canonical_sha [of "document_json None (sealed_document (lit ''sha256:'' @ replicate 64 48))"]
    by (simp add: calculate_package_digest_def sealed_document_canonical lift_canon_def sealed_digest_def
       )
qed

section \<open>The envelope fits\<close>

text \<open>An upper bound of the length of a serialised value.\<close>

fun json_size :: "json \<Rightarrow> nat" where
  "json_size (JStr t) = 2 + 6 * length t"
| "json_size (JInt i) = 4 * length (dec_int i)"
| "json_size (JList xs) = 2 + sum_list (map (\<lambda>x. 1 + json_size x) xs)"
| "json_size (JObj kvs) = 2 + sum_list (map (\<lambda>p. 2 + json_size (fst p) + json_size (snd p)) kvs)"
| "json_size (JFloat r) = 4 * length r"
| "json_size JNull = 4"
| "json_size (JBool b) = 5"
| "json_size JOther = 0"

lemma length_utf8_ascii: "ascii t \<Longrightarrow> length (utf8 t) = length t"
  by (induction t) (auto simp: ascii_def utf8_char_def)

lemma length_utf8_le: "length (utf8 t) \<le> 4 * length t"
  by (induction t) (auto simp: utf8_char_def)

lemma length_utf8_escape: "length (utf8 (escape_char c)) \<le> 6"
proof -
  have "ascii (hex_pad 4 c)"
    using hex_pad_chars [of 4 c] hex_char_code by (auto simp: ascii_def list_all_iff)
  then have "length (utf8 (u_escape c)) = 6"
    by (subst length_utf8_ascii) (simp_all add: u_escape_def ascii_def)
  then show ?thesis by (auto simp: escape_char_def utf8_char_def)
qed

lemma length_utf8_quote: "length (utf8 (quote_str t)) \<le> 2 + 6 * length t"
proof -
  have "length (utf8 (concat (map escape_char t))) \<le> 6 * length t"
    by (induction t) (use length_utf8_escape in \<open>auto simp: utf8_append intro: add_mono\<close>)
  then show ?thesis by (simp add: quote_str_def utf8_append utf8_char_def)
qed

lemma length_utf8_joined: "length (utf8 (joined ts)) \<le> sum_list (map (\<lambda>t. 1 + length (utf8 t)) ts)"
  by (induction ts rule: joined.induct) (auto simp: utf8_append utf8_char_def)

lemma json_text_size: "length (utf8 (json_text v)) \<le> json_size v"
proof (induction v rule: json_pair_induct)
  case (Str t)
  then show ?case using length_utf8_quote by simp
next
  case (List xs)
  have "length (utf8 (joined (map json_text xs))) \<le> sum_list (map (\<lambda>x. 1 + json_size x) xs)"
    by (rule order_trans [OF length_utf8_joined]) (use List in \<open>auto simp: comp_def intro!: sum_list_mono\<close>)
  then show ?case by (simp add: utf8_append utf8_char_def)
next
  case (Obj kvs)
  have "length (utf8 (item_text p)) \<le> 1 + json_size (fst p) + json_size (snd p)" if "p \<in> set kvs" for p
    using Obj [of "fst p" "snd p"] that by (simp add: item_text_def utf8_append utf8_char_def)
  then have "length (utf8 (joined (map item_text kvs)))
      \<le> sum_list (map (\<lambda>p. 2 + json_size (fst p) + json_size (snd p)) kvs)"
    by (intro order_trans [OF length_utf8_joined]) (fastforce simp: comp_def intro!: sum_list_mono)
  then show ?case by (simp only: json_text_JObj) (simp add: utf8_append utf8_char_def)
qed (auto simp: length_utf8_le lit_def utf8_char_def)

lemma json_size_obj [simp]:
  "json_size (obj kvs) = 2 + sum_list (map (\<lambda>p. 4 + 6 * length (fst p) + json_size (snd p)) kvs)"
  by (simp add: obj_def comp_def split_beta eval_nat_numeral)

lemma length_sha_of [simp]: "length (sha_of v) = 71"
  by (simp add: sha_of_def)

lemma sealed_sizes:
  "json_size (package_input_json sample_package_input) \<le> 40000"
  "json_size (target_json (pk_target (sample_package PPublished))) \<le> 4000"
  "json_size (issuer_json (pk_issuer (sample_package PPublished))) \<le> 2000"
  "length (rfc3339_z 4) = 27" "length (rfc3339_z 5) = 27" "length (rfc3339_z 50) = 27"
  "length (dec_int 1) = 1"
  by code_simp+

text \<open>A retrieval at the moment 50 under the correlation id 70.\<close>

definition sealed_envelope :: envelope where
  "sealed_envelope = \<lparr>en_package = sealed_document sealed_digest,
     en_attestation = \<lparr>at_package_id = 60, at_package_version = 1, at_digest = sealed_digest,
       at_current_status = PPublished, at_issuer = pk_issuer (sample_package PPublished),
       at_approval = sealed_binding, at_published_at = 5, at_retrieved_at = 50, at_correlation_id = 70\<rparr>\<rparr>"

lemma sealed_binding_size: "json_size (binding_json sealed_binding) \<le> 8000"
  using sealed_sizes(4,7)
  by (simp add: binding_json_def sealed_binding_def source_ref_json_def sealed_basis_def sealed_model_ref_def
      sealed_model_def jopt_def)

lemma sealed_envelope_size: "json_size (envelope_json sealed_envelope) \<le> 256000"
proof -
  have "json_size (lineage_json sealed_lineage) \<le> 12000"
    by (simp add: lineage_json_def sealed_lineage_def version_ref_json_def sealed_model_ref_def sealed_opportunity_ref_def
        sealed_readiness_ref_def sealed_model_def sealed_opportunity_def sealed_readiness_def sample_version_ref_def
        sample_sha_def sealed_sizes(7))
  then show ?thesis
    using sealed_sizes sealed_binding_size
    by (simp add: envelope_json_def sealed_envelope_def document_json_def sealed_document_def Let_def attestation_json_def
        integrity_fields_def package_schema_version_def sealed_digest_def)
qed

lemma sealed_envelope:
  "published_package_envelope sealed_handoff sealed_package 5 50 70 = Inr sealed_envelope"
proof -
  have d: "sealed_digest \<noteq> []" "sha_pattern sealed_digest" by (simp_all add: sealed_digest_def flip: length_0_conv)
  have fields: "valid_package_fields sample_package_input" "valid_issuer (pk_issuer (sample_package PPublished))"
    using sample_package_valid sealed_parts(1)
    by (simp_all add: valid_package_input_def package_issuer_def result_simps sealed_package_def)
  have "valid_document (sealed_document sealed_digest)"
    using d fields sealed_parts(2)
    by (simp add: valid_document_def sealed_document_def Let_def valid_lineage_def sealed_lineage_def sealed_parts(3))
       (simp add: sealed_binding_def)
  then have "immutable_package_document sealed_handoff sealed_package = Inr (sealed_document sealed_digest)"
    using d sealed_payload [of "Some sealed_digest"] by (simp add: immutable_package_document_def)
  moreover have "valid_envelope sealed_envelope"
    by (simp add: valid_envelope_def sealed_envelope_def sealed_document_def Let_def) (simp add: sealed_binding_def)
  moreover have "length (serialize_published_package_envelope sealed_envelope) \<le> max_published_envelope_bytes"
    using order_trans [OF json_text_size sealed_envelope_size]
    by (simp add: serialize_published_package_envelope_def max_published_envelope_bytes_def)
  ultimately show ?thesis
    by (simp add: published_package_envelope_def sealed_parts(1) Let_def flip: sealed_envelope_def)
qed

end
