(* ===== verification/GatewayProps.thy ===== *)
theory GatewayProps
  imports RetrievalProps SealedSample
begin

text \<open>
  The properties of package retrieval: soundness of authentication and of an allowed retrieval, the
  record every decision leaves, that an issued token authenticates until it expires or is revoked,
  that rotation leaves a single usable grant and that revocation is final.
\<close>

section \<open>A small gateway\<close>

definition sample_service :: operator where
  "sample_service = \<lparr>op_id = 5, op_external_subject = retrieval_subject 1, op_display_name = lit ''r'',
     op_identity_kind = Service, op_is_active = True\<rparr>"

definition sample_gateway :: gateway where
  "sample_gateway = \<lparr>gw_store = (sample_handoff PPublished)\<lparr>operators := from_rows [sample_owner, sample_service],
       members := from_rows [\<lparr>mb_engagement_id = 1, mb_operator_id = 9, mb_role = Owner\<rparr>,
         \<lparr>mb_engagement_id = 1, mb_operator_id = 5, mb_role = Viewer\<rparr>]\<rparr>,
     gw_grants = from_rows [], gw_events = []\<rparr>"

definition sample_token :: pystr where
  "sample_token = grant_token 5 77 (lit ''s'')"

definition sample_grant :: grant where
  "sample_grant = new_grant 1 sample_service sample_owner (lit ''a'') (lit ''b'') (sha256_hex (utf8 sample_token)) 100 77"

definition sample_issued :: gateway where
  "sample_issued = add_audit (grant_issued_event sample_grant (lit ''x''))
     (sample_gateway\<lparr>gw_store := synced (gw_store sample_gateway), gw_grants := from_rows [sample_grant]\<rparr>)"

lemma sample_gateway_well_formed: "well_formed (gw_store sample_gateway)" "grants_settled sample_gateway"
proof -
  have "same_factory_tables (sample_handoff PPublished) (gw_store sample_gateway)"
    by (simp add: same_factory_tables_def sample_gateway_def)
  then show "well_formed (gw_store sample_gateway)"
    using sample_handoff_well_formed by (simp add: well_formed_def settled_same lineage_same)
qed (simp add: grants_settled_def sample_gateway_def clean_from_rows unique_def current_from_rows)

lemma sample_token_digest: "token_digest sample_token = Inr (gr_token_digest sample_grant)"
proof -
  have "\<not> surrogate c" if "c \<in> set (uuid_hex u)" for c u
    using uuid_hex_chars [OF that] by (auto simp: hex_char_def surrogate_def)
  then have "\<forall>c \<in> set sample_token. \<not> surrogate c"
    by (auto simp: sample_token_def grant_token_def token_prefix_def lit_def surrogate_def)
  then show ?thesis by (simp add: token_digest_def encode_utf8_def sample_grant_def new_grant_def)
qed

lemma issue_sample_grant:
  assumes "check_grant_request 1 sample_service sample_owner 100 1 g = Inr ()" and "factory_accepted (gw_store g)"
    and "grants_accepted (g\<lparr>gw_grants := add sample_grant (gw_grants g)\<rparr>)"
  shows "issue_retrieval_grant 1 sample_service sample_owner (lit ''a'') (lit ''b'') 100 (lit ''x'') 1 77 (lit ''s'') g
    = Inr (sample_grant, sample_token, add_audit (grant_issued_event sample_grant (lit ''x''))
        (g\<lparr>gw_store := synced (gw_store g), gw_grants := flush (add sample_grant (gw_grants g))\<rparr>))"
proof -
  have strip: "py_strip (lit ''a'') = lit ''a''" "py_strip (lit ''b'') = lit ''b''" by code_simp+
  have "op_id sample_service = 5" by (simp add: sample_service_def)
  moreover have "new_grant 1 sample_service sample_owner (lit ''a'') (lit ''b'') (gr_token_digest sample_grant) 100 77
      = sample_grant"
    by (simp add: sample_grant_def new_grant_def)
  ultimately show ?thesis
    using sample_token_digest assms strip
    by (simp add: issue_retrieval_grant_def Let_def flush_gateway_Inr bindE_eq_Inr flip: sample_token_def)
qed

lemma sample_issue:
  "issue_retrieval_grant 1 sample_service sample_owner (lit ''a'') (lit ''b'') 100 (lit ''x'') 1 77 (lit ''s'')
     sample_gateway = Inr (sample_grant, sample_token, sample_issued)"
proof -
  have "factory_accepted (gw_store sample_gateway)"
    using sample_gateway_well_formed(1) by (simp add: well_formed_def settled_def)
  moreover have "check_grant_request 1 sample_service sample_owner 100 1 sample_gateway = Inr ()" by code_simp
  moreover have "grants_accepted (sample_gateway\<lparr>gw_grants := add sample_grant (gw_grants sample_gateway)\<rparr>)"
    by (simp add: grants_accepted_def accepts_def unique_def refers_def sample_gateway_def sample_grant_def new_grant_def
        add_def from_rows_def current_def grant_insert_ok_def sample_service_def)
  moreover have "flush (add sample_grant (gw_grants sample_gateway)) = from_rows [sample_grant]"
    by (simp add: sample_gateway_def flush_def add_def from_rows_def)
  ultimately show ?thesis by (simp add: issue_sample_grant sample_issued_def)
qed

lemma sample_secret: "lit ''s'' \<noteq> []" "46 \<notin> set (lit ''s'')" "length (lit ''s'') \<le> 400"
  by (simp_all add: lit_def)

lemma sample_tables:
  "clean (operators (gw_store sample_gateway))" "clean (members (gw_store sample_gateway))"
  "clean (engagements (gw_store sample_gateway))"
  "session_get op_id (op_id sample_service) (operators (gw_store sample_gateway)) = Some sample_service"
  by (simp_all add: sample_gateway_def sample_handoff_def clean_from_rows session_get_def select_clean
      current_from_rows sample_owner_def sample_service_def)

section \<open>Tokens\<close>

lemma parse_uuid_hex [simp]: "parse_uuid (uuid_hex u) = Some u"
proof -
  have u: "117 \<in> set (lit ''urn:'')" "117 \<in> set (lit ''uuid:'')" "45 \<in> set (lit ''-'')" by (simp_all add: lit_def)
  have nu: "117 \<notin> set (uuid_hex u)" "45 \<notin> set (uuid_hex u)" using uuid_hex_chars by (fastforce simp: hex_char_def)+
  have nb: "{123, 125} \<inter> set (uuid_hex u) = {}" using uuid_hex_chars by (fastforce simp: hex_char_def)
  have lt: "unat u < 16 ^ 32" using unsigned_less [of u, where 'a = nat] by simp
  have "remove_all (lit ''-'') (strip_chars {123, 125} (remove_all (lit ''uuid:'')
      (remove_all (lit ''urn:'') (uuid_hex u)))) = uuid_hex u"
    by (simp add: remove_all_absent [OF u(1) nu(1)] remove_all_absent [OF u(2) nu(1)]
        strip_chars_absent [OF nb] remove_all_absent [OF u(3) nu(2)])
  then show ?thesis
    using py_int16_hex_pad [OF lt] unsigned_less [of u, where 'a = int]
    by (simp add: parse_uuid_def uuid_hex_def)
qed

lemma parse_grant_token:
  assumes "secret \<noteq> []" and "46 \<notin> set secret" and "length secret \<le> 400"
  shows "parse_retrieval_token_subject (grant_token oid gid secret) = Some \<lparr>ts_operator_id = oid, ts_grant_id = gid\<rparr>"
proof -
  have "46 \<notin> set token_prefix" by (simp add: token_prefix_def lit_def)
  moreover have "46 \<notin> set (uuid_hex u)" for u using uuid_hex_chars by (fastforce simp: hex_char_def)
  ultimately have "split_on 46 (grant_token oid gid secret) = [token_prefix, uuid_hex oid, uuid_hex gid, secret]"
    using assms(2) by (simp add: grant_token_def split_on_append split_on_absent)
  moreover have "length (grant_token oid gid secret) \<le> 512"
    using assms(3) by (simp add: grant_token_def token_prefix_def)
  ultimately show ?thesis using assms(1) by (simp add: parse_retrieval_token_subject_def)
qed

lemma issue_Inr:
  assumes "issue_retrieval_grant eid x own ident sys expires iso_text now gid secret g = Inr (r, token, g')"
  obtains a where "now < expires" and "expires \<le> now + max_grant_ttl" and "op_identity_kind x = Service" and "op_is_active x"
    and "\<exists>e. first (select (\<lambda>e. eg_id e = eid) (engagements (gw_store g))) = Some e \<and> eg_data_lifecycle_status e = Active"
    and "\<exists>m. membership_of eid (op_id x) g = Some m \<and> mb_role m = Viewer"
    and "foreign_membership eid (op_id x) g = None"
    and "token = grant_token (op_id x) gid secret" and "token_digest token = Inr (gr_token_digest r)"
    and "gr_id r = gid" and "gr_engagement_id r = eid" and "gr_service_operator_id r = op_id x"
    and "gr_scope r = retrieval_scope" and "gr_expires_at r = expires" and "gr_revoked_at r = None"
    and "gr_requester_identity r = py_strip ident" and "gr_requester_system r = py_strip sys"
    and "grants_accepted (g\<lparr>gw_grants := add r (gw_grants g)\<rparr>)"
    and "g' = add_audit a (g\<lparr>gw_store := synced (gw_store g), gw_grants := flush (add r (gw_grants g))\<rparr>)"
proof -
  obtain u d a where run: "check_grant_request eid x own expires now g = Inr u"
    "token = grant_token (op_id x) gid secret" "token_digest token = Inr d"
    "r = new_grant eid x own (py_strip ident) (py_strip sys) d expires gid"
    "grants_accepted (g\<lparr>gw_grants := add r (gw_grants g)\<rparr>)"
    "g' = add_audit a (g\<lparr>gw_store := synced (gw_store g), gw_grants := flush (add r (gw_grants g))\<rparr>)"
    using assms unfolding issue_retrieval_grant_def Let_def result_simps by auto
  obtain e where "now < expires" "expires \<le> now + max_grant_ttl" "op_identity_kind x = Service" "op_is_active x"
    "first (select (\<lambda>e. eg_id e = eid) (engagements (gw_store g))) = Some e" "eg_data_lifecycle_status e = Active"
    "\<exists>m. membership_of eid (op_id x) g = Some m \<and> mb_role m = Viewer" "foreign_membership eid (op_id x) g = None"
    using run(1) unfolding check_grant_request_def validate_grant_expiry_def lock_engagement_for_retrieval_def
      result_simps by (auto split: option.splits)
  then show thesis using run(2-) by (intro that [of a]) (auto simp: new_grant_def)
qed

lemma token_authenticates:
  assumes "issue_retrieval_grant eid x own ident sys expires iso_text now gid secret g = Inr (r, token, g')"
    and "secret \<noteq> []" and "46 \<notin> set secret" and "length secret \<le> 400"
    and "clean (operators (gw_store g))" and "clean (members (gw_store g))" and "clean (engagements (gw_store g))"
    and "session_get op_id (op_id x) (operators (gw_store g)) = Some x"
    and "now \<le> t" and "t < expires"
  shows "authenticate_retrieval_token token t g' = Inr ((Authenticated, Some (grant_principal r)), g')
"
proof (rule issue_Inr [OF assms(1)])
  fix a
  assume i: "expires \<le> now + max_grant_ttl" "op_identity_kind x = Service" "op_is_active x"
    "\<exists>e. first (select (\<lambda>e. eg_id e = eid) (engagements (gw_store g))) = Some e \<and> eg_data_lifecycle_status e = Active"
    "\<exists>m. membership_of eid (op_id x) g = Some m \<and> mb_role m = Viewer"
    and t: "token = grant_token (op_id x) gid secret" "token_digest token = Inr (gr_token_digest r)"
    and r: "gr_id r = gid" "gr_engagement_id r = eid" "gr_service_operator_id r = op_id x"
      "gr_scope r = retrieval_scope" "gr_expires_at r = expires" "gr_revoked_at r = None"
    and acc: "grants_accepted (g\<lparr>gw_grants := add r (gw_grants g)\<rparr>)"
    and g': "g' = add_audit a (g\<lparr>gw_store := synced (gw_store g), gw_grants := flush (add r (gw_grants g))\<rparr>)"
  have tables: "operators (gw_store g') = operators (gw_store g)" "members (gw_store g') = members (gw_store g)"
    "engagements (gw_store g') = engagements (gw_store g)"
    using assms(5-7) by (simp_all add: g' synced_def flush_clean)
  have gr: "gw_grants g' = flush (add r (gw_grants g))" by (simp add: g')
  have c: "clean (gw_grants g')" by (simp add: gr clean_flush)
  have d: "distinct (map gr_id (current (gw_grants g')))"
    using acc by (simp add: gr grants_accepted_def unique_def current_flush)
  have rin: "r \<in> set (current (gw_grants g'))" by (simp add: gr current_flush current_add)
  have q: "first (select (\<lambda>y. gr_id y = gid \<and> gr_service_operator_id y = op_id x) (gw_grants g')) = Some r"
    "first (filter (\<lambda>y. gr_id y = gid \<and> gr_service_operator_id y = op_id x \<and> gr_engagement_id y = eid)
       (current (gw_grants g'))) = Some r"
    unfolding select_clean [OF c, symmetric] by (rule lookup_clean [OF c d rin]; simp add: r)+
  have "identity_ok r g'"
    using assms(8) i(2,3,5) by (simp add: identity_ok_def membership_of_def tables r)
  then have "check_grant_identity r g' = Inr ((Authenticated, Some (grant_principal r)), g')"
    by (auto simp: identity_ok_def check_grant_identity_def grant_principal_def)
  moreover have "parse_retrieval_token_subject token = Some \<lparr>ts_operator_id = op_id x, ts_grant_id = gid\<rparr>"
    unfolding t(1) by (rule parse_grant_token [OF assms(2-4)])
  moreover have "stored_first (\<lambda>y. gr_id y = gid \<and> gr_service_operator_id y = op_id x \<and> gr_engagement_id y = eid)
      (gw_grants g') = Some r" by (simp add: stored_first_clean [OF c] q)
  moreover obtain e where "first (select (\<lambda>e. eg_id e = eid) (engagements (gw_store g'))) = Some e"
    "eg_data_lifecycle_status e = Active" using i(4) tables by auto
  ultimately have "authenticate_retrieval_token token t g' = Inr ((Authenticated, Some (grant_principal r)), g')"
    using assms(10) t(2) q(1) by (simp add: authenticate_retrieval_token_def r)
  then show ?thesis by simp
qed

text \<open>
  C8: a token that authenticates names a grant whose stored digest is the hash of exactly that token,
  which is unrevoked, unexpired and of the retrieval scope, in an active engagement, and whose holder
  is an active service identity with viewer membership; the principal is that grant's, and nothing
  is recorded or changed.
\<close>

theorem authentication_sound:
  assumes "grants_settled g" and "authenticate_retrieval_token token now g = Inr ((res, Some who), g')"
  shows "res = Authenticated \<and> g' = g
    \<and> (\<exists>r \<in> set (current (gw_grants g)). who = grant_principal r \<and> token_digest token = Inr (gr_token_digest r)
        \<and> gr_revoked_at r = None \<and> now < gr_expires_at r \<and> gr_scope r = retrieval_scope \<and> identity_ok r g
        \<and> (\<exists>e. first (select (\<lambda>x. eg_id x = gr_engagement_id r) (engagements (gw_store g))) = Some e
             \<and> eg_data_lifecycle_status e = Active))"
  using assms(2)
proof (rule authenticate_cases)
  fix t r e eid
  assume row: "stored_first (\<lambda>r. gr_id r = ts_grant_id t \<and> gr_service_operator_id r = ts_operator_id t
      \<and> gr_engagement_id r = eid) (gw_grants g) = Some r"
    and rest: "token_digest token = Inr (gr_token_digest r)" "usable r now" "identity_ok r g"
      "(res, Some who) = (Authenticated, Some (grant_principal r))" "g' = g"
      "first (select (\<lambda>x. eg_id x = eid) (engagements (gw_store g))) = Some e"
      "eg_data_lifecycle_status e = Active"
  have "r \<in> set (current (gw_grants g))" "gr_engagement_id r = eid"
    using row assms(1) by (auto simp: grants_settled_def stored_first_clean dest!: first_in)
  then show ?thesis using rest by (auto simp: usable_def)
qed simp

theorem authentication_sound_witness:
  "\<exists>r \<in> set (current (gw_grants sample_issued)). token_digest sample_token = Inr (gr_token_digest r)
     \<and> 50 < gr_expires_at r"
proof -
  have "authenticate_retrieval_token sample_token 50 sample_issued
      = Inr ((Authenticated, Some (grant_principal sample_grant)), sample_issued)"
    by (rule token_authenticates [OF sample_issue]) (simp_all add: sample_secret sample_tables)
  moreover have "grants_settled sample_issued"
    by (simp add: sample_issued_def grants_settled_def clean_from_rows unique_def current_from_rows)
  ultimately show ?thesis using authentication_sound by blast
qed

text \<open>
  C9: a token just issued authenticates as its grant, at every moment before the grant expires; the
  grant expires within 24 hours of its issue, and of the token only its hash is stored.  The secret
  is as token_urlsafe makes it: not empty, without a dot, of bounded length; the session
  is a fresh one, whose identity rows are flushed.
\<close>

theorem issued_token_authenticates:
  assumes "issue_retrieval_grant eid x own ident sys expires iso_text now gid secret g = Inr (r, token, g')"
    and "secret \<noteq> []" and "46 \<notin> set secret" and "length secret \<le> 400"
    and "clean (operators (gw_store g))" and "clean (members (gw_store g))" and "clean (engagements (gw_store g))"
    and "session_get op_id (op_id x) (operators (gw_store g)) = Some x"
    and "now \<le> t" and "t < expires"
  shows "authenticate_retrieval_token token t g' = Inr ((Authenticated, Some (grant_principal r)), g')
    \<and> gr_expires_at r = expires \<and> expires \<le> now + 24 * 60 * 60 * 1000000
    \<and> token_digest token = Inr (gr_token_digest r)"
  using token_authenticates [OF assms] issue_Inr [OF assms(1)] by (auto simp: max_grant_ttl_def)

theorem issued_token_authenticates_witness:
  "authenticate_retrieval_token sample_token 50 sample_issued
     = Inr ((Authenticated, Some (grant_principal sample_grant)), sample_issued)"
  by (rule issued_token_authenticates [OF sample_issue, THEN conjunct1])
     (simp_all add: sample_secret sample_tables)

section \<open>Rotation and revocation\<close>

definition revoke_if_active :: "time \<Rightarrow> uuid set \<Rightarrow> grant \<Rightarrow> grant" where
  "revoke_if_active now K y = (if gr_id y \<in> K \<and> gr_revoked_at y = None then revoke_grant now y else y)"

lemma revoke_if_active_fields [simp]:
  "gr_id (revoke_if_active now K y) = gr_id y"
  "gr_engagement_id (revoke_if_active now K y) = gr_engagement_id y"
  "gr_service_operator_id (revoke_if_active now K y) = gr_service_operator_id y"
  "grant_frozen (revoke_if_active now K y) = grant_frozen y"
  by (simp_all add: revoke_if_active_def revoke_grant_def grant_frozen_def)

definition identities_kept :: "grant table \<Rightarrow> bool" where
  "identities_kept t \<longleftrightarrow> unique gr_id t \<and> (\<forall>e \<in> set t. \<forall>a. fst e = Some a \<longrightarrow> gr_id (snd e) = gr_id a)"

lemma identities_kept_modify:
  assumes "identities_kept t"
  shows "identities_kept (modify (\<lambda>y. gr_id y = k) (revoke_grant now) t)"
proof -
  have id: "gr_id (if gr_id y = k then revoke_grant now y else y) = gr_id y" for y by (simp add: revoke_grant_def)
  then have "map gr_id (current (modify (\<lambda>y. gr_id y = k) (revoke_grant now) t)) = map gr_id (current t)"
    by (simp add: current_modify comp_def)
  then show ?thesis
    using assms by (auto simp: identities_kept_def unique_def modify_def revoke_grant_def)
qed

lemma revoke_step:
  assumes "revoke_retrieval_grant eid k own now g = Inr g'" and "identities_kept (gw_grants g)"
  shows "current (gw_grants g') = map (revoke_if_active now {k}) (current (gw_grants g)) \<and> identities_kept (gw_grants g')"
proof -
  obtain a r where r: "first (select (\<lambda>r. gr_id r = k \<and> gr_engagement_id r = eid) (gw_grants g)) = Some r"
    and g': "g' = (if gr_revoked_at r = None
      then add_audit a (g\<lparr>gw_grants := modify (\<lambda>y. gr_id y = k) (revoke_grant now) (gw_grants g)\<rparr>) else g)"
    using assms(1) unfolding revoke_retrieval_grant_def result_simps by auto
  have "r \<in> set (select (\<lambda>r. gr_id r = k \<and> gr_engagement_id r = eid) (gw_grants g))" by (rule first_in [OF r])
  then have rin: "r \<in> set (current (gw_grants g))" and rid: "gr_id r = k"
    using assms(2) by (auto simp: select_def current_def stored_def identities_kept_def split: option.splits)
  have only: "y = r" if "y \<in> set (current (gw_grants g))" "gr_id y = k" for y
    using unique_key [where key = gr_id, OF _ that(1) rin] that(2) rid assms(2)
    by (simp add: identities_kept_def unique_def)
  show ?thesis
  proof (cases "gr_revoked_at r = None")
    case True
    then have "gw_grants g' = modify (\<lambda>y. gr_id y = k) (revoke_grant now) (gw_grants g)" by (simp add: g')
    moreover have "map (\<lambda>y. if gr_id y = k then revoke_grant now y else y) (current (gw_grants g))
        = map (revoke_if_active now {k}) (current (gw_grants g))"
      by (rule map_cong) (use only True in \<open>auto simp: revoke_if_active_def\<close>)
    ultimately show ?thesis using identities_kept_modify [OF assms(2)] by (simp add: current_modify)
  next
    case False
    have "map (revoke_if_active now {k}) (current (gw_grants g)) = current (gw_grants g)"
      by (rule map_idI) (use only False in \<open>auto simp: revoke_if_active_def\<close>)
    moreover have "g' = g" using False by (auto simp: g')
    ultimately show ?thesis using assms(2) by simp
  qed
qed

lemma revoke_loop:
  assumes "foldE (\<lambda>g k. revoke_retrieval_grant eid k own now g) g ids = Inr g'" and "identities_kept (gw_grants g)"
  shows "current (gw_grants g') = map (revoke_if_active now (set ids)) (current (gw_grants g))"
  using assms
proof (induction ids arbitrary: g)
  case Nil
  then show ?case by (simp add: revoke_if_active_def map_idI)
next
  case (Cons k ids)
  then obtain g1 where 1: "revoke_retrieval_grant eid k own now g = Inr g1"
    "foldE (\<lambda>g k. revoke_retrieval_grant eid k own now g) g1 ids = Inr g'" by (auto simp: bindE_eq_Inr)
  have "revoke_if_active now (set ids) (revoke_if_active now {k} y) = revoke_if_active now (set (k # ids)) y" for y
    by (simp add: revoke_if_active_def revoke_grant_def)
  then show ?case
    using Cons.IH [OF 1(2)] revoke_step [OF 1(1) Cons.prems(2)] by (simp add: comp_def)
qed

text \<open>
  C10: a rotation leaves exactly one usable grant of the identity in the engagement, the one it
  returns; every other grant row is kept, unchanged but for its revocation.
\<close>

theorem rotation_leaves_one:
  assumes "grants_settled g"
    and "rotate_retrieval_grant eid x own ident sys expires iso_text now gid secret g = Inr (r, token, g')"
  shows "filter (\<lambda>y. gr_engagement_id y = eid \<and> gr_service_operator_id y = op_id x \<and> gr_revoked_at y = None)
      (current (gw_grants g')) = [r]
    \<and> map grant_frozen (current (gw_grants g')) = map grant_frozen (current (gw_grants g)) @ [grant_frozen r]"
proof -
  let ?mine = "\<lambda>y. gr_engagement_id y = eid \<and> gr_service_operator_id y = op_id x \<and> gr_revoked_at y = None"
  let ?ids = "map gr_id (select ?mine (gw_grants g))"
  obtain g1 where fold: "foldE (\<lambda>g k. revoke_retrieval_grant eid k own now g) g ?ids = Inr g1"
    and issue: "issue_retrieval_grant eid x own ident sys expires iso_text now gid secret g1 = Inr (r, token, g')"
    using assms(2) unfolding rotate_retrieval_grant_def Let_def result_simps by auto
  have c: "clean (gw_grants g)" and u: "distinct (map gr_id (current (gw_grants g)))"
    using assms(1) by (simp_all add: grants_settled_def unique_def)
  then have kept: "identities_kept (gw_grants g)"
    using assms(1) by (auto simp: grants_settled_def identities_kept_def clean_def)
  have 1: "current (gw_grants g1) = map (revoke_if_active now (set ?ids)) (current (gw_grants g))"
    by (rule revoke_loop [OF fold kept])
  obtain 2: "current (gw_grants g') = current (gw_grants g1) @ [r]" and r: "?mine r"
    by (rule issue_Inr [OF issue]) (simp add: current_flush current_add)
  have "\<not> ?mine (revoke_if_active now (set ?ids) y)" if y: "y \<in> set (current (gw_grants g))" for y
    using y by (auto simp: revoke_if_active_def revoke_grant_def select_clean [OF c])
  then have "filter ?mine (current (gw_grants g1)) = []" by (simp add: 1 filter_empty_conv)
  then show ?thesis using r by (simp add: 2 1 comp_def)
qed

definition prior_grant :: grant where
  "prior_grant = new_grant 1 sample_service sample_owner (lit ''a'') (lit ''b'') [] 100 76"

definition granted_gateway :: gateway where
  "granted_gateway = sample_gateway\<lparr>gw_grants := from_rows [prior_grant]\<rparr>"

definition revoked_gateway :: gateway where
  "revoked_gateway = add_audit (audit_event (lit ''operator'') 1 9
      (lit ''deployment_package.retrieval_grant_revoked'') (lit ''package_retrieval_grant'') 76
      (obj [(''service_operator_id'', JStr (uuid_str 5))]))
    (granted_gateway\<lparr>gw_grants := [(Some prior_grant, revoke_grant 1 prior_grant)]\<rparr>)"

lemma sample_rotation:
  "\<exists>g'. rotate_retrieval_grant 1 sample_service sample_owner (lit ''a'') (lit ''b'') 100 (lit ''x'') 1 77 (lit ''s'')
     granted_gateway = Inr (sample_grant, sample_token, g')"
proof -
  have "revoke_retrieval_grant 1 76 sample_owner 1 granted_gateway = Inr revoked_gateway" by code_simp
  moreover have "select (\<lambda>r. gr_engagement_id r = 1 \<and> gr_service_operator_id r = op_id sample_service
      \<and> gr_revoked_at r = None) (gw_grants granted_gateway) = [prior_grant]" "gr_id prior_grant = 76"
    by (simp_all add: granted_gateway_def lookup_simps prior_grant_def new_grant_def)
  moreover have "check_grant_request 1 sample_service sample_owner 100 1 revoked_gateway = Inr ()"
    "validate_grant_expiry 100 1 = Inr ()"
    "lock_engagement_for_retrieval ''Retrieval grants are unavailable while engagement deletion is pending or failed.''
       1 granted_gateway = Inr sample_engagement"
    by code_simp+
  moreover have "factory_accepted (gw_store revoked_gateway)" by code_simp
  moreover have "grants_accepted (revoked_gateway\<lparr>gw_grants := add sample_grant (gw_grants revoked_gateway)\<rparr>)"
  proof -
    have "gr_token_digest sample_grant \<noteq> []"
      by (simp add: sample_grant_def new_grant_def flip: length_0_conv)
    moreover have "grant_update_ok prior_grant (revoke_grant 1 prior_grant)" "grant_insert_ok sample_grant"
      by (simp_all add: grant_update_ok_def grant_insert_ok_def revoke_grant_def prior_grant_def new_grant_def
          sample_grant_def)
    ultimately show ?thesis
      by (simp add: grants_accepted_def accepts_def unique_def refers_def revoked_gateway_def granted_gateway_def
          sample_gateway_def add_def from_rows_def current_def)
        (simp add: revoke_grant_def prior_grant_def sample_grant_def new_grant_def sample_service_def)
  qed
  ultimately show ?thesis
    using issue_sample_grant [of revoked_gateway] by (auto simp: rotate_retrieval_grant_def)
qed

theorem rotation_leaves_one_witness:
  "\<exists>token g'. rotate_retrieval_grant 1 sample_service sample_owner (lit ''a'') (lit ''b'') 100 (lit ''x'') 1 77
      (lit ''s'') granted_gateway = Inr (sample_grant, token, g')
     \<and> filter (\<lambda>y. gr_engagement_id y = 1 \<and> gr_service_operator_id y = 5 \<and> gr_revoked_at y = None)
         (current (gw_grants g')) = [sample_grant]"
proof -
  obtain g' where g': "rotate_retrieval_grant 1 sample_service sample_owner (lit ''a'') (lit ''b'') 100 (lit ''x'') 1 77
      (lit ''s'') granted_gateway = Inr (sample_grant, sample_token, g')" using sample_rotation by blast
  have "grants_settled granted_gateway"
    by (simp add: grants_settled_def granted_gateway_def clean_from_rows unique_def current_from_rows)
  from rotation_leaves_one [OF this g'] g' show ?thesis by (auto simp: sample_service_def)
qed

text \<open>
  C11: revocation is final: whatever requests the gateway serves afterwards, no token that names a
  revoked grant ever authenticates again.
\<close>

theorem revocation_is_final:
  assumes "grants_settled g0" and "gateway_reachable g0 g" and "r \<in> set (current (gw_grants g0))"
    and "gr_revoked_at r \<noteq> None" and "parse_retrieval_token_subject token = Some t" and "ts_grant_id t = gr_id r"
    and "authenticate_retrieval_token token now g = Inr ((res, who), g')"
  shows "res \<noteq> Authenticated \<and> who = None"
proof -
  have g: "grants_settled g" "grants_advance g0 g" using gateway_reachable_advances [OF assms(2,1)] by simp_all
  obtain r' where r': "r' \<in> set (current (gw_grants g))" "reaches grant_update_ok r r'" "grant_frozen r' = grant_frozen r"
    using g(2) assms(3) unfolding grants_advance_def by (rule grant_rows.row_kept)
  have rev: "gr_revoked_at r' \<noteq> None"
    by (rule reaches_stable [OF r'(2), where P = "\<lambda>x. gr_revoked_at x \<noteq> None"])
       (use assms(4) in \<open>auto simp: grant_update_ok_def\<close>)
  have id: "gr_id r' = gr_id r" using arg_cong [OF r'(3), of gr_id] by (simp add: grant_frozen_def)
  show ?thesis
    using assms(7)
  proof (rule authenticate_cases)
    fix t' q e eid
    assume t': "parse_retrieval_token_subject token = Some t'"
      and q: "stored_first (\<lambda>r. gr_id r = ts_grant_id t' \<and> gr_service_operator_id r = ts_operator_id t'
        \<and> gr_engagement_id r = eid) (gw_grants g) = Some q" and ok: "usable q now"
    have "q \<in> set (current (gw_grants g))" "gr_id q = gr_id r"
      using q g(1) t' assms(5,6) by (auto simp: grants_settled_def stored_first_clean dest!: first_in)
    then have "q = r'"
      using unique_key [where key = gr_id, OF _ _ r'(1)] g(1) id by (auto simp: grants_settled_def unique_def)
    then show ?thesis using ok rev by (simp add: usable_def)
  qed simp
qed

theorem revocation_is_final_witness:
  "\<exists>res. authenticate_retrieval_token sample_token 50
      (sample_gateway\<lparr>gw_grants := from_rows [revoke_grant 1 sample_grant]\<rparr>)
    = Inr ((res, None), record_authentication_denial (revoke_grant 1 sample_grant) res True
        (sample_gateway\<lparr>gw_grants := from_rows [revoke_grant 1 sample_grant]\<rparr>)) \<and> res \<noteq> Authenticated"
proof -
  let ?r = "revoke_grant 1 sample_grant"
  let ?g = "sample_gateway\<lparr>gw_grants := from_rows [?r]\<rparr>"
  have t: "parse_retrieval_token_subject sample_token = Some \<lparr>ts_operator_id = 5, ts_grant_id = 77\<rparr>"
    unfolding sample_token_def by (rule parse_grant_token [OF sample_secret])
  have r: "gr_id ?r = 77" "gr_service_operator_id ?r = 5" "gr_engagement_id ?r = 1" "gr_revoked_at ?r = Some 1"
    "gr_token_digest ?r = gr_token_digest sample_grant"
    by (simp_all add: revoke_grant_def sample_grant_def new_grant_def sample_service_def)
  have "first (select (\<lambda>e. eg_id e = 1) (engagements (gw_store ?g))) = Some sample_engagement"
    "eg_data_lifecycle_status sample_engagement = Active"
    by (simp_all add: sample_gateway_def sample_handoff_def lookup_simps sample_engagement_def)
  then have run: "authenticate_retrieval_token sample_token 50 ?g
      = Inr ((RevokedToken, None), record_authentication_denial ?r RevokedToken True ?g)"
    by (simp add: authenticate_retrieval_token_def t sample_token_digest lookup_simps r stored_first_clean
        clean_from_rows current_from_rows deny_authentication_def)
  moreover have "grants_settled ?g" by (simp add: grants_settled_def clean_from_rows unique_def current_from_rows)
  moreover have "gateway_reachable ?g ?g" by (rule gateway_reachable.start)
  ultimately show ?thesis
    using revocation_is_final [of ?g ?g ?r sample_token "\<lparr>ts_operator_id = 5, ts_grant_id = 77\<rparr>" 50] t r
    by (simp add: current_from_rows)
qed

section \<open>Retrieval\<close>

lemma first_select_clean: "clean t \<Longrightarrow> first (select P t) = Some x \<Longrightarrow> x \<in> set (current t) \<and> P x"
  by (auto simp: select_clean dest!: first_in)

lemma envelope_Inr:
  assumes "published_package_envelope s p pub now corr = Inr env"
  obtains d where "pk_digest p = Some d" and "dc_digest (en_package env) = d"
    and "dc_package_id (en_package env) = pk_package_id p" and "dc_package_version (en_package env) = pk_version p"
    and "dc_intent (en_package env) = pk_contract p" and "dc_target (en_package env) = pk_target p"
    and "at_digest (en_attestation env) = d" and "at_retrieved_at (en_attestation env) = now"
    and "valid_envelope env"
proof -
  obtain doc where doc: "immutable_package_document s p = Inr doc"
    using assms by (auto simp: published_package_envelope_def result_simps)
  obtain d where d: "pk_digest p = Some d" "immutable_package_payload s p (Some d) = Inr doc"
    using doc by (auto simp: immutable_package_document_def result_simps split: option.splits)
  have "dc_digest doc = d" "dc_package_id doc = pk_package_id p" "dc_package_version doc = pk_version p"
    "dc_intent doc = pk_contract p" "dc_target doc = pk_target p"
    using d(2) by (auto simp: immutable_package_payload_def result_simps Let_def split: option.splits)
  moreover have "en_package env = doc" "at_digest (en_attestation env) = d" "at_retrieved_at (en_attestation env) = now"
    "valid_envelope env"
    using assms d(1) doc by (auto simp: published_package_envelope_def result_simps Let_def split: option.splits)
  ultimately show thesis using that d(1) by simp
qed

text \<open>
  C7: a retrieval is only allowed for the published package asked for, of the principal's own active
  engagement, under a grant that is still usable at that moment; its digest has just been recomputed
  and the envelope repeats exactly that package, contract and digest; the package still rests on live
  approved rows; a sanitized engagement has moreover an authorised qualification and the approval of
  the runtime.  Exactly one event records it.
\<close>

theorem retrieval_sound:
  assumes "well_formed (gw_store g)" and "grants_settled g"
    and "retrieve_published_package pid v who check corr now g = Inr (d, g')" and "rd_allowed d"
  shows "\<exists>p \<in> set (current (packages (gw_store g))). \<exists>env. \<exists>r \<in> set (current (gw_grants g)).
      pk_engagement_id p = pr_engagement_id who \<and> pk_package_id p = pid \<and> pk_version p = v
      \<and> pk_status p = PPublished \<and> pk_backed (gw_store g) p
      \<and> rd_package d = Some env \<and> dc_package_id (en_package env) = pid \<and> dc_package_version (en_package env) = v
      \<and> dc_intent (en_package env) = pk_contract p
      \<and> calculate_package_digest (gw_store g) p = Inr (dc_digest (en_package env))
      \<and> gr_id r = pr_grant_id who \<and> gr_engagement_id r = pr_engagement_id who
      \<and> gr_service_operator_id r = pr_operator_id who \<and> usable r now
      \<and> (\<exists>e. first (select (\<lambda>x. eg_id x = pr_engagement_id who) (engagements (gw_store g))) = Some e
            \<and> eg_data_lifecycle_status e = Active \<and> (eg_data_classification e = Sanitized \<longrightarrow>
            check now = Inr () \<and> lock_design_partner_authority (pr_operator_id who) (eg_id e) False (gw_store g)
            \<and> require_package_publication_eligibility (pk_engagement_id p) (pk_target p) now True (gw_store g) = Inr ()))
      \<and> g' = record_retrieval p who corr Retrieved g"
  using assms(3)
proof (rule retrieve_cases)
  fix e p x
  assume e: "first (select (\<lambda>e. eg_id e = pr_engagement_id who) (engagements (gw_store g))) = Some e"
    "eg_data_lifecycle_status e = Active"
    and p: "first (select (\<lambda>p. pk_engagement_id p = pr_engagement_id who \<and> pk_package_id p = pid
        \<and> pk_version p = v) (packages (gw_store g))) = Some p"
    and st: "pk_status p = PPublished" "pk_digest p = Some x" "calculate_package_digest (gw_store g) p = Inr x"
    and dec: "decide_retrieval check e p who corr now g = Inr (d, g')"
  have cl: "clean (packages (gw_store g))" "clean (gw_grants g)"
    using assms(1,2) by (simp_all add: well_formed_def settled_def factory_clean_def grants_settled_def)
  note pin = first_select_clean [OF cl(1) p]
  have "pk_live p" using st(1) by (simp add: pk_live_def package_terminal_def)
  then have backed: "pk_backed (gw_store g) p" using pin lineageD(3) assms(1) by (simp add: well_formed_def)
  show ?thesis
    using dec
  proof (rule decide_cases)
    fix env
    assume rv: "revalidate_retrieval_grant (lock_retrieval_grant who g) now g = (None, g)"
      and au: "retrieval_authority check e (eg_data_classification e \<noteq> Sanitized
        \<or> lock_design_partner_authority (pr_operator_id who) (eg_id e) False (gw_store g)) p now (gw_store g) = Inr ()"
      and env: "published_package_envelope (gw_store g) p (the (pk_published_at p)) now corr = Inr env"
      and d: "d = \<lparr>rd_allowed = True, rd_result = Retrieved, rd_correlation_id = corr, rd_package = Some env\<rparr>"
      and g': "g' = record_retrieval p who corr Retrieved g"
    obtain r where "lock_retrieval_grant who g = Some r" "usable r now"
      using rv by (auto simp: revalidate_retrieval_grant_def usable_def split: option.splits if_splits)
    then have r: "r \<in> set (current (gw_grants g))" "gr_id r = pr_grant_id who" "gr_engagement_id r = pr_engagement_id who"
      "gr_service_operator_id r = pr_operator_id who" "usable r now"
      by (auto simp: lock_retrieval_grant_def stored_first_clean [OF cl(2)] dest!: first_in)
    have auth: "eg_data_classification e = Sanitized \<longrightarrow> check now = Inr ()
        \<and> lock_design_partner_authority (pr_operator_id who) (eg_id e) False (gw_store g)
        \<and> require_package_publication_eligibility (pk_engagement_id p) (pk_target p) now True (gw_store g) = Inr ()"
      using au by (auto simp: retrieval_authority_def result_simps)
    have "dc_package_id (en_package env) = pid" "dc_package_version (en_package env) = v"
      "dc_intent (en_package env) = pk_contract p" "dc_digest (en_package env) = x"
      using envelope_Inr [OF env] pin st(2) by (metis option.inject)+
    then show ?thesis
      by (intro bexI [of _ p] exI [of _ env] bexI [of _ r] conjI exI [of _ e])
         (use pin st backed r e d g' auth in simp_all)
  qed (use assms(4) in \<open>simp_all add: refusal_def\<close>)
qed (use assms(4) in \<open>simp_all add: refusal_def\<close>)

definition sealed_gateway :: gateway where
  "sealed_gateway = \<lparr>gw_store = sealed_handoff, gw_grants = from_rows [sample_grant], gw_events = []\<rparr>"

theorem retrieval_sound_witness:
  "\<exists>d g'. retrieve_published_package 60 1 (grant_principal sample_grant) (\<lambda>_. Inr ()) 70 50 sealed_gateway = Inr (d, g')
     \<and> rd_allowed d \<and> g' = record_retrieval sealed_package (grant_principal sample_grant) 70 Retrieved sealed_gateway"
proof -
  let ?who = "grant_principal sample_grant"
  let ?g' = "record_retrieval sealed_package ?who 70 Retrieved sealed_gateway"
  let ?d = "\<lparr>rd_allowed = True, rd_result = Retrieved, rd_correlation_id = 70, rd_package = Some sealed_envelope\<rparr>"
  have who: "pr_engagement_id ?who = 1" "pr_grant_id ?who = 77" "pr_operator_id ?who = 5"
    by (simp_all add: grant_principal_def sample_grant_def new_grant_def sample_service_def)
  have "lock_retrieval_grant ?who sealed_gateway = Some sample_grant"
    by (simp add: lock_retrieval_grant_def who sealed_gateway_def stored_first_clean clean_from_rows current_from_rows)
       (simp add: sample_grant_def new_grant_def sample_service_def)
  then have rv: "revalidate_retrieval_grant (lock_retrieval_grant ?who sealed_gateway) 50 sealed_gateway = (None, sealed_gateway)"
    by (simp add: revalidate_retrieval_grant_def) (simp add: sample_grant_def new_grant_def)
  have eng: "eg_data_classification sample_engagement = Synthetic" "eg_data_lifecycle_status sample_engagement = Active"
    "eg_id sample_engagement = 1" by (simp_all add: sample_engagement_def)
  have "require_package_publication_eligibility 1 t 50 True sealed_handoff = Inr ()" for t
    by (simp add: require_package_publication_eligibility_def stored_first_clean clean_from_rows current_from_rows eng)
  then have "decide_retrieval (\<lambda>_. Inr ()) sample_engagement sealed_package ?who 70 50 sealed_gateway = Inr (?d, ?g')"
    using sealed_envelope rv
    by (simp add: decide_retrieval_def eng retrieval_authority_def on_qualification_error_def on_value_error_def)
       (simp add: sealed_gateway_def)
  then have run: "retrieve_published_package 60 1 ?who (\<lambda>_. Inr ()) 70 50 sealed_gateway = Inr (?d, ?g')"
    using sealed_digest
    by (simp add: retrieve_published_package_def who on_value_error_def)
       (simp add: sealed_gateway_def lookup_simps eng who on_value_error_def)
  moreover have "grants_settled sealed_gateway"
    by (simp add: sealed_gateway_def grants_settled_def clean_from_rows unique_def current_from_rows)
  moreover have "well_formed (gw_store sealed_gateway)"
    using sealed_handoff_well_formed by (simp add: sealed_gateway_def)
  ultimately show ?thesis
    using retrieval_sound [of sealed_gateway 60 1 ?who "\<lambda>_. Inr ()" 70 50 ?d ?g'] by auto
qed

text \<open>
  C30: a decision hands out a package exactly when its result is RETRIEVED, and never changes a
  package or a grant; a refusal because of the engagement or of the credential adds no retrieval
  event, any other decision adds exactly one, which names the package asked for, the decision's
  result and its correlation id.
\<close>

theorem retrieval_recorded:
  assumes "clean (packages (gw_store g))"
    and "retrieve_published_package pid v who check corr now g = Inr (d, g')"
  shows "(rd_allowed d \<longleftrightarrow> rd_result d = Retrieved) \<and> (rd_package d = None \<longleftrightarrow> \<not> rd_allowed d)
    \<and> gw_grants g' = gw_grants g \<and> packages (gw_store g') = packages (gw_store g)
    \<and> (if rd_result d \<in> {EngagementUnavailable, InvalidToken, RevokedToken, ExpiredToken, InvalidScope}
       then gw_events g' = gw_events g
       else \<exists>ev. gw_events g' = gw_events g @ [ev] \<and> re_result ev = rd_result d \<and> re_package_id ev = pid
              \<and> re_package_version ev = v \<and> re_engagement_id ev = pr_engagement_id who
              \<and> re_correlation_id ev = corr)"
proof -
  have ev: "\<exists>ev. gw_events (record_retrieval p who corr c g) = gw_events g @ [ev] \<and> re_result ev = c
      \<and> re_package_id ev = pid \<and> re_package_version ev = v \<and> re_engagement_id ev = pr_engagement_id who
      \<and> re_correlation_id ev = corr"
    if "first (select (\<lambda>p. pk_engagement_id p = pr_engagement_id who \<and> pk_package_id p = pid
        \<and> pk_version p = v) (packages (gw_store g))) = Some p" for p c
    using first_select_clean [OF assms(1) that] by (simp add: record_retrieval_def)
  show ?thesis
    using assms(2)
  proof (rule retrieve_cases)
    fix e p x
    assume p: "first (select (\<lambda>p. pk_engagement_id p = pr_engagement_id who \<and> pk_package_id p = pid
        \<and> pk_version p = v) (packages (gw_store g))) = Some p"
      and dec: "decide_retrieval check e p who corr now g = Inr (d, g')"
    show ?thesis
      using dec
    proof (rule decide_cases)
      fix c g1
      assume rv: "revalidate_retrieval_grant (lock_retrieval_grant who g) now g = (Some c, g1)"
        and "d = refusal c corr" "g' = g1"
      moreover have "c \<in> {InvalidToken, RevokedToken, ExpiredToken, InvalidScope}"
        using rv by (auto simp: revalidate_retrieval_grant_def split: option.splits if_splits)
      ultimately show ?thesis using revalidate_frame(1-3) [OF rv] by (auto simp: refusal_def)
    qed (use ev [OF p] in \<open>auto simp: refusal_def\<close>)
  next
    fix p c
    assume "c \<in> {DeniedStale, DeniedRevoked, DeniedNotPublished, DeniedIntegrity}"
      and "first (select (\<lambda>p. pk_engagement_id p = pr_engagement_id who \<and> pk_package_id p = pid
        \<and> pk_version p = v) (packages (gw_store g))) = Some p"
      and "d = refusal c corr" and "g' = record_retrieval p who corr c g"
    then show ?thesis using ev by (auto simp: refusal_def)
  qed (simp_all add: refusal_def record_not_found_def)
qed

theorem retrieval_recorded_witness:
  "\<exists>ev. gw_events (record_not_found 61 1 (grant_principal sample_grant) 70 sealed_gateway)
       = gw_events sealed_gateway @ [ev] \<and> re_result ev = PackageNotFound \<and> re_package_id ev = 61"
proof -
  let ?who = "grant_principal sample_grant"
  have "retrieve_published_package 61 1 ?who (\<lambda>_. Inr ()) 70 50 sealed_gateway
      = Inr (refusal PackageNotFound 70, record_not_found 61 1 ?who 70 sealed_gateway)"
    by (simp add: retrieve_published_package_def grant_principal_def sealed_gateway_def lookup_simps)
       (simp add: sample_grant_def new_grant_def sample_engagement_def)
  from retrieval_recorded [OF _ this] show ?thesis
    by (auto simp: sealed_gateway_def clean_from_rows refusal_def)
qed

end
