(* ===== verification/HandoffProps.thy ===== *)
theory HandoffProps
  imports HandoffSample
begin

text \<open>
  The properties of the handoff as a whole: what holds in every reachable store, what a change of
  approved truth leaves of an engagement, and that an approved package is never edited.
\<close>

section \<open>Lineage of live packages\<close>

text \<open>
  C1: in every reachable store a live package (draft, in review, approved or published) rests on an
  APPROVED customer model, a SELECTED opportunity of that model and an APPROVED, READY assessment of
  both, all of its own engagement and of the versions and workflow references it was drafted from.
\<close>

theorem live_package_lineage:
  assumes "well_formed s0" and "reachable s0 s" and "p \<in> set (current (packages s))"
    and "pk_status p \<in> {PDraft, PReadyForReview, PApproved, PPublished}"
  shows "\<exists>m \<in> set (current (customer_models s)). \<exists>f \<in> set (current (opportunities s)).
      \<exists>r \<in> set (current (readiness_rows s)).
        cm_status m = MApproved \<and> cm_engagement_id m = pk_engagement_id p
        \<and> cm_id m = pk_model_id p \<and> cm_version m = pk_model_version p
        \<and> fo_status f = OSelected \<and> fo_engagement_id f = pk_engagement_id p
        \<and> fo_id f = pk_opportunity_id p \<and> fo_version f = pk_opportunity_version p
        \<and> fo_model_id f = cm_id m \<and> fo_model_version f = cm_version m
        \<and> ra_status r = AApproved \<and> ra_overall_status r = Ready \<and> ra_engagement_id r = pk_engagement_id p
        \<and> ra_id r = pk_readiness_id p \<and> ra_version r = pk_readiness_version p
        \<and> ra_model_id r = cm_id m \<and> ra_model_version r = cm_version m
        \<and> ra_opportunity_id r = fo_id f \<and> ra_opportunity_version r = fo_version f
        \<and> ra_current_workflow_ref r = pk_current_workflow_ref p
        \<and> ra_target_workflow_ref r = pk_target_workflow_ref p"
proof -
  have "lineage s" using reachable_well_formed [OF assms(2,1)] by (simp add: well_formed_def)
  moreover have "pk_live p" using assms(4) by (auto simp: pk_live_def package_terminal_def)
  ultimately have "pk_backed s p" using lineageD(3) assms(3) by blast
  then show ?thesis
    unfolding pk_backed_def approved_models_live selected_live ready_live
    by (fastforce simp: model_key_def opportunity_key_def ready_key_def readiness_key_def)
qed

theorem live_package_lineage_witness:
  "\<exists>m \<in> set (current (customer_models (sample_handoff PPublished))).
     cm_status m = MApproved \<and> cm_id m = 11"
proof -
  let ?s = "(sample_handoff PPublished)\<lparr>artifacts := from_rows [sample_artifact]\<rparr>"
  have "reachable (sample_handoff PPublished) ?s"
    by (rule reachable.step [OF reachable.start], rule handoff_step.elsewhere) (simp add: same_factory_tables_def)
  moreover have "sample_package PPublished \<in> set (current (packages ?s))"
    by (simp add: sample_handoff_def current_from_rows)
  ultimately have "\<exists>m \<in> set (current (customer_models ?s)). cm_status m = MApproved
      \<and> cm_id m = pk_model_id (sample_package PPublished)"
    using live_package_lineage [OF sample_handoff_well_formed, of ?s "sample_package PPublished"]
    by (auto simp: sample_package_def)
  then show ?thesis by (simp add: sample_package_def)
qed

text \<open>
  C4: no engagement ever has two APPROVED customer models, two APPROVED assessments, two SELECTED
  opportunities or two PUBLISHED packages.
\<close>

theorem one_current_version:
  assumes "well_formed s0" and "reachable s0 s"
  shows "distinct (map cm_engagement_id (filter (\<lambda>m. cm_status m = MApproved) (current (customer_models s))))
    \<and> distinct (map ra_engagement_id (filter (\<lambda>r. ra_status r = AApproved) (current (readiness_rows s))))
    \<and> distinct (map fo_engagement_id (filter (\<lambda>f. fo_status f = OSelected) (current (opportunities s))))
    \<and> distinct (map pk_engagement_id (filter (\<lambda>p. pk_status p = PPublished) (current (packages s))))"
proof -
  have s: "settled s" using reachable_well_formed [OF assms(2,1)] by (simp add: well_formed_def)
  have at_most: "distinct (map k (filter P (current t)))" if "index_safe k P t" for k P and t :: "'r table"
  proof -
    have "filter P (current t) = map snd (filter (\<lambda>e. P (snd e)) t)"
      by (simp add: current_def filter_map comp_def)
    moreover have "distinct (map (k \<circ> snd) (filter (\<lambda>e. P (snd e)) (filter (\<lambda>e. stored e P \<or> P (snd e)) t)))"
      using that unfolding index_safe_def by (rule distinct_map_filter)
    moreover have "filter (\<lambda>e. P (snd e)) (filter (\<lambda>e. stored e P \<or> P (snd e)) t) = filter (\<lambda>e. P (snd e)) t"
      unfolding filter_filter by (rule filter_cong) auto
    ultimately show ?thesis by simp
  qed
  show ?thesis
    using s by (simp add: settled_def factory_accepted_def models_accepted_def readiness_accepted_def
        opportunities_accepted_def packages_accepted_def Let_def at_most)
qed

theorem one_current_version_witness:
  "distinct (map pk_engagement_id (filter (\<lambda>p. pk_status p = PPublished)
     (current (packages (run_request (ArtifactChanged 1 None 7) (sample_handoff PPublished))))))"
  using one_current_version [OF sample_handoff_well_formed reachable.step [OF reachable.start handoff_step.request]]
  by blast

section \<open>Changes of approved truth\<close>



text \<open>
  C12: the staling cascade computes its specification: a call on a customer model marks exactly the
  model, the opportunities and assessments that rest on it and the packages that rest on those, each
  once and only while live, and changes nothing else but the audit trail and the outbox, whatever
  marks earlier calls left unflushed in the session.
\<close>

theorem stale_customer_model_refines:
  assumes "mark_pending s"
  shows "mark_pending (stale_customer_model why now actor s k)
    \<and> cascade_spec why now (\<lambda>m. cm_id m = k) (\<lambda>_. False) (\<lambda>_. False) s (stale_customer_model why now actor s k)"
  using stale_customer_model_spec [OF assms] staled_mark_pending assms unfolding cascade_spec_def by blast

theorem stale_customer_model_refines_witness:
  "map pk_status (current (packages (stale_customer_model [] 7 None (sample_handoff PPublished) 11))) = [PStale]"
proof -
  let ?s = "sample_handoff PPublished"
  have "mark_pending ?s" using sample_handoff_well_formed settled_pending by (simp add: well_formed_def)
  note c = stale_customer_model_refines [OF this, of "[]" 7 None 11, THEN conjunct2]
  have "hit_opportunity ?s (\<lambda>m. cm_id m = 11) (\<lambda>_. False) sample_opportunity"
    unfolding hit_opportunity_def
    by (rule disjI2, rule bexI [of _ "sample_model 1 True"])
       (simp_all add: sample_handoff_def current_from_rows sample_model_def sample_opportunity_def
         fo_of_model_def flip: cm_live_iff, simp add: cm_live_def)
  then have hit: "hit_package ?s (\<lambda>m. cm_id m = 11) (\<lambda>_. False) (\<lambda>_. False) (sample_package PPublished)"
    unfolding hit_package_def
    by (intro disjI2 bexI [of _ sample_opportunity])
       (simp_all add: sample_handoff_def current_from_rows sample_package_def sample_opportunity_def
         pk_of_opportunity_def fo_live_def)
  have live: "pk_live (sample_package PPublished)" by (simp add: pk_live_def package_terminal_def sample_package_def)
  show ?thesis
    unfolding staled_tables(4) [OF c] using hit live
    by (simp add: marked_def current_modify sample_handoff_def current_from_rows)
qed

end
