(* ===== verification/IntegrityProps.thy ===== *)
theory IntegrityProps
  imports Integrity SealedSample
begin

text \<open>
  The immutability and integrity properties of the handoff: what a row keeps over every history of
  requests, what a publication leaves behind, and what the trigger on packages lets through.
\<close>

section \<open>Immutability\<close>

text \<open>
  C3: over every history a package keeps its row and everything it was drafted with, its status only
  follows the declared transitions, and once it has left review its digest, issue date and approval
  never change.
\<close>

theorem approved_package_immutable:
  assumes "well_formed s0" and "reachable s0 s" and "reachable s s'" and "p \<in> set (current (packages s))"
  shows "\<exists>p' \<in> set (current (packages s')). package_frozen p' = package_frozen p
    \<and> package_transition\<^sup>*\<^sup>* (pk_status p) (pk_status p')
    \<and> (pk_status p \<notin> {PDraft, PReadyForReview} \<longrightarrow> approval_columns p' = approval_columns p)"
proof -
  have "store_advances s s'" using reachable_advances [OF assms(3)] reachable_well_formed assms(1,2) by blast
  then have "advances package_insert_ok package_update_ok (current (packages s)) (current (packages s'))"
    by (simp add: store_advances_def)
  then obtain p' where p': "p' \<in> set (current (packages s'))" and r: "reaches package_update_ok p p'"
    and f: "package_frozen p' = package_frozen p"
    using assms(4) by (rule package_rows.row_kept)
  show ?thesis
    by (rule bexI [OF _ p']) (use f package_path [OF r] package_out_of_review [OF r] in simp)
qed

theorem approved_package_immutable_witness:
  "\<exists>p' \<in> set (current (packages (run_request (ArtifactChanged 1 None 7) (sample_handoff PPublished)))).
     package_frozen p' = package_frozen (sample_package PPublished)
     \<and> approval_columns p' = approval_columns (sample_package PPublished)"
proof -
  have "sample_package PPublished \<in> set (current (packages (sample_handoff PPublished)))"
    by (simp add: sample_handoff_def current_from_rows)
  from approved_package_immutable [OF sample_handoff_well_formed reachable.start
      reachable.step [OF reachable.start handoff_step.request] this, of "ArtifactChanged 1 None 7"]
  obtain p' where "p' \<in> set (current (packages (run_request (ArtifactChanged 1 None 7) (sample_handoff PPublished))))"
    "package_frozen p' = package_frozen (sample_package PPublished)"
    "pk_status (sample_package PPublished) \<notin> {PDraft, PReadyForReview} \<longrightarrow>
       approval_columns p' = approval_columns (sample_package PPublished)" by blast
  moreover have "pk_status (sample_package PPublished) = PPublished" by (simp add: sample_package_def)
  ultimately show ?thesis by auto
qed

text \<open>
  C5: the content of the four factory tables is append-only: over every history each customer model,
  assessment, opportunity and package stays in its table with everything but its lifecycle columns
  unchanged.
\<close>

theorem rows_never_edited:
  assumes "well_formed s0" and "reachable s0 s" and "reachable s s'"
  shows "model_frozen ` set (current (customer_models s)) \<subseteq> model_frozen ` set (current (customer_models s'))
    \<and> readiness_frozen ` set (current (readiness_rows s)) \<subseteq> readiness_frozen ` set (current (readiness_rows s'))
    \<and> opportunity_frozen ` set (current (opportunities s)) \<subseteq> opportunity_frozen ` set (current (opportunities s'))
    \<and> package_frozen ` set (current (packages s)) \<subseteq> package_frozen ` set (current (packages s'))"
proof -
  have "store_advances s s'" using reachable_advances [OF assms(3)] reachable_well_formed assms(1,2) by blast
  then show ?thesis
    unfolding store_advances_def
    by (elim conjE, intro conjI)
       (rule model_rows.rows_kept readiness_rows_kept.rows_kept opportunity_rows.rows_kept package_rows.rows_kept,
        assumption)+
qed

theorem rows_never_edited_witness:
  "model_frozen (sample_model 1 True) \<in> model_frozen ` set (current (customer_models
     (run_request (ModelTruthChanged 1 None 7) (sample_handoff PPublished))))"
proof -
  let ?s = "sample_handoff PPublished" and ?s' = "run_request (ModelTruthChanged 1 None 7) (sample_handoff PPublished)"
  have "model_frozen (sample_model 1 True) \<in> model_frozen ` set (current (customer_models ?s))"
    by (rule imageI) (simp add: sample_handoff_def current_from_rows)
  moreover have "model_frozen ` set (current (customer_models ?s)) \<subseteq> model_frozen ` set (current (customer_models ?s'))"
    by (rule rows_never_edited [OF sample_handoff_well_formed reachable.start
      reachable.step [OF reachable.start handoff_step.request], THEN conjunct1])
  ultimately show ?thesis by (rule rev_subsetD)
qed

section \<open>Integrity\<close>

text \<open>
  C6: integrity survives every history: if the digests of the live packages verify at the start, then
  in every store the requests reach, each live package with a digest still has exactly the digest
  that the service recomputes of its document and of the rows it was built from.
\<close>

theorem package_digests_verify:
  assumes "well_formed s0" and "digests_verify s0" and "reachable s0 s"
    and "p \<in> set (current (packages s))" and "pk_live p" and "pk_digest p = Some d"
  shows "calculate_package_digest s p = Inr d"
  using reachable_verifies [OF assms(3,1,2)] assms(4-6) by (simp add: digests_verify_def)

theorem package_digests_verify_witness:
  "calculate_package_digest (sealed_handoff\<lparr>evidence_assets := from_rows [sample_evidence]\<rparr>) sealed_package = Inr sealed_digest"
proof -
  let ?s = "sealed_handoff\<lparr>evidence_assets := from_rows [sample_evidence]\<rparr>"
  have "digests_verify sealed_handoff" by (simp add: digests_verify_def current_from_rows sealed_digest)
  moreover have "reachable sealed_handoff ?s"
    by (rule reachable.step [OF reachable.start handoff_step.elsewhere]) (simp_all add: same_factory_tables_def)
  moreover have "sealed_package \<in> set (current (packages ?s))" by (simp add: current_from_rows)
  moreover have "pk_live sealed_package" by (simp add: pk_live_def package_terminal_def)
  ultimately show ?thesis using package_digests_verify [OF sealed_handoff_well_formed] by simp
qed

section \<open>The package trigger\<close>

definition reviewed_package :: package where
  "reviewed_package = (sample_package PDraft)\<lparr>pk_status := PReadyForReview\<rparr>"

definition undigested_package :: package where
  "undigested_package = (sample_package PApproved)\<lparr>pk_digest := None\<rparr>"


end
