(* ===== verification/DesignPartnerProps.thy ===== *)
theory DesignPartnerProps
  imports DesignPartner
begin

text \<open>
  What the design-partner service guarantees: when an upload is authorised and what a refusal
  records, how a qualification moves, what provisioning leaves behind, and when a package may be
  published.
\<close>

section \<open>Uploads\<close>

text \<open>
  C24: a customer-data upload is authorised exactly when every condition of the boundary holds: a
  sanitized active engagement, an active completed qualification, a well-formed authorised source and
  workflow, a plain-text or Markdown document, the qualification's own classification (never
  RESTRICTED) that the Bedrock provider is approved for, and an unexpired retention deadline within
  the qualification's ceiling.
\<close>

theorem upload_authorized_iff:
  "upload_decision e q r now = Authorized \<longleftrightarrow>
     eg_data_classification e = Sanitized \<and> eg_data_lifecycle_status e = Active
     \<and> ql_status q = QActive \<and> ql_state q = Qualified
     \<and> up_source_key r \<noteq> None \<and> up_workflow_class r \<noteq> None \<and> up_data_classification r \<noteq> None
     \<and> source_key_pattern (source_candidate r) \<and> source_candidate r \<in> set (ql_data_source_keys q)
     \<and> workflow_valid r \<and> workflow_candidate r \<in> set (ql_workflow_classes q)
     \<and> media_type (up_content_type r) \<in> {lit ''text/plain'', lit ''text/markdown''}
     \<and> classification_candidate r = Some (ql_data_classification q)
     \<and> ql_data_classification q \<noteq> Restricted \<and> up_extraction_provider r = lit ''bedrock''
     \<and> ql_data_classification q \<in> set (up_provider_classifications r)
     \<and> (\<exists>d. eg_retention_expires_at e = Some d \<and> now < d \<and> d \<le> ql_retention_expires_at q)"
proof -
  have ret: "qualification_retention_failure e q now = None \<longleftrightarrow>
      (\<exists>d. eg_retention_expires_at e = Some d \<and> now < d \<and> d \<le> ql_retention_expires_at q)"
    by (auto simp: qualification_retention_failure_def split: option.splits)
  show ?thesis
    unfolding ret [symmetric]
    by (auto simp: upload_decision_def Let_def requested_classification_def qualified_media_types_def
        split: option.splits if_splits)
qed

lemma requested_source_known:
  "requested_source q r \<in> set (ql_data_source_keys q)
     \<union> set (map lit [''missing-source'', ''invalid-source'', ''unauthorized-source''])"
  by (simp add: requested_source_def)

lemma requested_workflow_known:
  "requested_workflow q r \<in> set (ql_workflow_classes q)
     \<union> set (map lit [''missing-workflow'', ''invalid-workflow'', ''unauthorized-workflow''])"
  by (simp add: requested_workflow_def)

lemma denied_outcome:
  "\<exists>ev. record_customer_data_access_outcome c False code None s
       = Inr (s\<lparr>access_events := access_events s @ [ev]\<rparr>)
     \<and> \<not> ca_authorized ev \<and> ca_evidence_asset_id ev = None
     \<and> ca_source_key ev = ax_source_key c \<and> ca_workflow_class ev = ax_workflow_class c"
  unfolding record_customer_data_access_outcome_def
  by (simp, rule exI, rule conjI, rule refl, simp)


definition sample_qualification :: qualification where
  "sample_qualification = \<lparr>ql_id = 9, ql_engagement_id = 1, ql_partner_key = lit ''acme'',
     ql_organization = lit ''Acme'', ql_status = QActive, ql_state = Qualified,
     ql_data_source_keys = [lit ''crm''], ql_repository_refs = [lit ''repo''],
     ql_workflow_classes = [lit ''intake''], ql_data_classification = Internal,
     ql_retention_days = 30, ql_retention_expires_at = 30 * day_us,
     ql_authorization_basis_ref = lit ''basis'', ql_configured_by_id = 7, ql_created_at = 0\<rparr>"

definition sanitized_engagement :: engagement where
  "sanitized_engagement = sample_engagement\<lparr>eg_data_classification := Sanitized,
     eg_retention_expires_at := Some (20 * day_us)\<rparr>"

definition sample_upload :: upload_request where
  "sample_upload = \<lparr>up_source_key = Some (lit '' CRM''), up_workflow_class = Some (lit ''payroll''),
     up_data_classification = Some (lit ''internal''), up_content_type = lit ''text/plain; charset=utf-8'',
     up_extraction_provider = lit ''bedrock'', up_provider_classifications = [Internal],
     up_correlation_id = 0\<rparr>"

lemma sample_upload_code:
  "upload_decision sanitized_engagement sample_qualification sample_upload 5 = WorkflowNotAuthorized"
  by code_simp

lemma evaluate_total:
  "\<exists>d s'. evaluate_qualified_document_upload e (Some q) oid r now s = Inr (d, s')"
proof (cases "upload_decision e q r now = Authorized")
  case False
  then show ?thesis
    by (simp add: evaluate_qualified_document_upload_def Let_def record_customer_data_access_outcome_def)
qed (simp add: evaluate_qualified_document_upload_def Let_def)


section \<open>The qualification's state machines\<close>

lemma next_status_Inr:
  "next_status cur req = Inr n \<Longrightarrow> n = cur \<or> n \<in> set (status_transitions cur)"
  by (auto simp: next_status_def bindE_eq_Inr require_eq_Inr split: option.splits)

lemma next_state_Inr:
  "next_state cur req = Inr n \<Longrightarrow> n = cur \<or> n \<in> set (state_transitions cur)"
  by (auto simp: next_state_def bindE_eq_Inr require_eq_Inr split: option.splits)

lemma transition_Inr:
  assumes "transition_design_partner_qualification eid status state basis_ref actor_id now s = Inr s'"
  obtains e q actor basis st sta where
    "first (select (\<lambda>e. eg_id e = eid) (engagements s)) = Some e"
    "first (select (\<lambda>q. ql_engagement_id q = eid) (qualifications s)) = Some q"
    "require_active_human_owner eid actor_id s = Inr actor" "normalize_reference basis_ref = Inr basis"
    "next_status (ql_status q) status = Inr st" "next_state (ql_state q) state = Inr sta"
    "sta = Qualified \<and> ql_state q \<noteq> Qualified \<longrightarrow> st = QActive \<and> qualification_retention_is_authorized e q now"
    "qualifications s' = flush (modify (\<lambda>x. ql_id x = ql_id q)
       (\<lambda>x. x\<lparr>ql_status := st, ql_state := sta, ql_authorization_basis_ref := basis\<rparr>) (qualifications s))"
proof -
  obtain e q actor basis st sta u where run:
    "first (select (\<lambda>e. eg_id e = eid) (engagements s)) = Some e"
    "first (select (\<lambda>q. ql_engagement_id q = eid) (qualifications s)) = Some q"
    "require_active_human_owner eid actor_id s = Inr actor" "normalize_reference basis_ref = Inr basis"
    "next_status (ql_status q) status = Inr st" "next_state (ql_state q) state = Inr sta"
    "(if sta = Qualified \<and> ql_state q \<noteq> Qualified then
        bindE (require (st = QActive)
          (qualification_error ''Only an active design partner can become qualified.'')) (\<lambda>_.
        require (qualification_retention_is_authorized e q now)
          (qualification_error ''Qualification requires an unexpired engagement retention deadline within its immutable qualification ceiling.''))
      else Inr ()) = Inr u"
    "qualifications s' = flush (modify (\<lambda>x. ql_id x = ql_id q)
       (\<lambda>x. x\<lparr>ql_status := st, ql_state := sta, ql_authorization_basis_ref := basis\<rparr>) (qualifications s))"
    using assms unfolding transition_design_partner_qualification_def bindE_eq_Inr the_or_eq_Inr
      flush_session_Inr
    by (fastforce simp: record_qualification_change_def)
  moreover have "sta = Qualified \<and> ql_state q \<noteq> Qualified \<longrightarrow> st = QActive \<and> qualification_retention_is_authorized e q now"
    using run(7) by (auto simp: bindE_eq_Inr require_eq_Inr split: if_splits)
  ultimately show thesis using that by blast
qed

lemma retention_authorizedD:
  "qualification_retention_is_authorized e q now \<Longrightarrow>
     \<exists>d. eg_retention_expires_at e = Some d \<and> now < d \<and> d \<le> ql_retention_expires_at q"
  by (auto simp: qualification_retention_is_authorized_def qualification_retention_failure_def
      split: option.splits if_splits)

text \<open>
  C34: a transition only moves qualifications along the declared transitions: a revoked one stays
  revoked, no qualification of another id changes, and the only way to become QUALIFIED is from
  IN_PROGRESS, while active, under an unexpired retention deadline within the ceiling.
\<close>

theorem qualification_transitions:
  assumes "transition_design_partner_qualification eid status state basis_ref actor_id now s = Inr s'"
    and "clean (qualifications s)" and "distinct (map ql_id (current (qualifications s)))"
    and "q \<in> set (current (qualifications s))" and "q' \<in> set (current (qualifications s'))"
    and "ql_id q' = ql_id q"
  shows "(ql_status q' = ql_status q \<or> ql_status q' \<in> set (status_transitions (ql_status q)))
    \<and> (ql_state q' = ql_state q \<or> ql_state q' \<in> set (state_transitions (ql_state q)))
    \<and> (ql_status q = QRevoked \<longrightarrow> ql_status q' = QRevoked)
    \<and> (ql_engagement_id q \<noteq> eid \<longrightarrow> q' = q)
    \<and> (ql_state q' = Qualified \<and> ql_state q \<noteq> Qualified \<longrightarrow>
         ql_state q = InQualification \<and> ql_status q' = QActive
         \<and> (\<exists>e d. first (select (\<lambda>e. eg_id e = eid) (engagements s)) = Some e
              \<and> eg_retention_expires_at e = Some d \<and> now < d \<and> d \<le> ql_retention_expires_at q))"
proof -
  obtain e q0 actor basis st sta where run:
    "first (select (\<lambda>e. eg_id e = eid) (engagements s)) = Some e"
    "first (select (\<lambda>q. ql_engagement_id q = eid) (qualifications s)) = Some q0"
    "next_status (ql_status q0) status = Inr st" "next_state (ql_state q0) state = Inr sta"
    "sta = Qualified \<and> ql_state q0 \<noteq> Qualified \<longrightarrow> st = QActive \<and> qualification_retention_is_authorized e q0 now"
    "qualifications s' = flush (modify (\<lambda>x. ql_id x = ql_id q0)
       (\<lambda>x. x\<lparr>ql_status := st, ql_state := sta, ql_authorization_basis_ref := basis\<rparr>) (qualifications s))"
    using transition_Inr [OF assms(1)] by metis
  have q0: "q0 \<in> set (current (qualifications s))" "ql_engagement_id q0 = eid"
    using run(2) assms(2) by (auto dest!: first_in simp: select_clean)
  obtain r where r: "r \<in> set (current (qualifications s))"
      "q' = (if ql_id r = ql_id q0 then r\<lparr>ql_status := st, ql_state := sta, ql_authorization_basis_ref := basis\<rparr> else r)"
    using assms(5) run(6) by (auto simp: table_simps)
  have rq: "r = q" using unique_key [OF assms(3)] r assms(4,6) by (auto split: if_splits)
  show ?thesis
  proof (cases "ql_id q = ql_id q0")
    case True
    then have qq: "q = q0" using unique_key [OF assms(3)] assms(4) q0(1) by metis
    have q': "q' = q\<lparr>ql_status := st, ql_state := sta, ql_authorization_basis_ref := basis\<rparr>"
      using r(2) rq True by simp
    have st: "st = ql_status q \<or> st \<in> set (status_transitions (ql_status q))"
      and sta: "sta = ql_state q \<or> sta \<in> set (state_transitions (ql_state q))"
      using next_status_Inr [OF run(3)] next_state_Inr [OF run(4)] qq by simp_all
    have revoked: "ql_status q = QRevoked \<longrightarrow> st = QRevoked" using st by (cases "ql_status q") auto
    have from_progress: "sta = Qualified \<and> ql_state q \<noteq> Qualified \<longrightarrow> ql_state q = InQualification"
      using sta by (cases "ql_state q") auto
    have ret: "sta = Qualified \<and> ql_state q \<noteq> Qualified \<longrightarrow> st = QActive
        \<and> (\<exists>d. eg_retention_expires_at e = Some d \<and> now < d \<and> d \<le> ql_retention_expires_at q)"
      using run(5) retention_authorizedD [of e q now] qq by blast
    have "ql_engagement_id q = eid" using q0(2) qq by simp
    then show ?thesis using st sta revoked from_progress ret run(1) by (simp add: q')
  next
    case False
    then have "q' = q" using r(2) rq by simp
    then show ?thesis by simp
  qed
qed

definition partner_store :: store where
  "partner_store = empty_store\<lparr>
     operators := from_rows [\<lparr>op_id = 7, op_external_subject = lit ''u'', op_display_name = lit ''U'', op_identity_kind = Human, op_is_active = True\<rparr>],
     members := from_rows [\<lparr>mb_engagement_id = 1, mb_operator_id = 7, mb_role = Owner\<rparr>],
     engagements := from_rows [sanitized_engagement],
     qualifications := from_rows [sample_qualification\<lparr>ql_state := InQualification\<rparr>]\<rparr>"

lemma partner_store_transition:
  "\<not> isl (transition_design_partner_qualification 1 None (Some (lit ''qualified'')) (lit ''basis'') 7 5 partner_store)"
  by code_simp

lemma not_isl_Inr: "\<not> isl r \<Longrightarrow> \<exists>x. r = Inr x"
  by (cases r) simp_all

theorem qualification_transitions_witness:
  "\<exists>s' q'. transition_design_partner_qualification 1 None (Some (lit ''qualified'')) (lit ''basis'') 7 5
       partner_store = Inr s' \<and> q' \<in> set (current (qualifications s')) \<and> ql_id q' = 9
     \<and> (ql_state q' = InQualification \<or> ql_state q' \<in> set (state_transitions InQualification))"
proof -
  let ?q = "sample_qualification\<lparr>ql_state := InQualification\<rparr>"
  obtain s' where run: "transition_design_partner_qualification 1 None (Some (lit ''qualified'')) (lit ''basis'')
      7 5 partner_store = Inr s'"
    using not_isl_Inr [OF partner_store_transition] by blast
  from run obtain f where f: "qualifications s' = flush (modify (\<lambda>x. ql_id x = 9) f (qualifications partner_store))"
      and fk: "\<And>x. ql_id (f x) = ql_id x"
  proof (rule transition_Inr)
    fix e q actor basis st sta
    assume q: "first (select (\<lambda>q. ql_engagement_id q = 1) (qualifications partner_store)) = Some q"
      and eq: "qualifications s' = flush (modify (\<lambda>x. ql_id x = ql_id q)
        (\<lambda>x. x\<lparr>ql_status := st, ql_state := sta, ql_authorization_basis_ref := basis\<rparr>)
        (qualifications partner_store))"
    have "q = ?q" using q by (simp add: partner_store_def lookup_simps sample_qualification_def)
    then show thesis using that eq by (simp add: sample_qualification_def)
  qed
  then have q': "f ?q \<in> set (current (qualifications s'))" "ql_id (f ?q) = 9"
    by (simp_all add: table_simps partner_store_def sample_qualification_def)
  have c: "clean (qualifications partner_store)"
    "distinct (map ql_id (current (qualifications partner_store)))"
    "?q \<in> set (current (qualifications partner_store))"
    by (simp_all add: partner_store_def table_simps)
  have "ql_id (f ?q) = ql_id ?q" by (rule fk)
  from qualification_transitions [OF run c q'(1) this] show ?thesis using run q' by auto
qed

section \<open>Provisioning\<close>

lemma record_change_tables [simp]:
  "qualifications (record_qualification_change q a n d s) = qualifications s"
  "engagements (record_qualification_change q a n d s) = engagements s"
  "operators (record_qualification_change q a n d s) = operators s"
  "members (record_qualification_change q a n d s) = members s"
  by (simp_all add: record_qualification_change_def)

lemma provision_new_Inr:
  assumes run: "provision_design_partner_qualification eid req by now nid s = Inr (k, s')"
    and new: "first (select (\<lambda>q. ql_engagement_id q = eid) (qualifications s)) = None"
  obtains e v es owner where
    "first (select (\<lambda>e. eg_id e = eid) (engagements s)) = Some e" "normalize_request req = Inr v"
    "eg_data_classification e = Sanitized" "require_active_human_owner eid by s = Inr owner"
    "retention_within_policy e now (now + qv_retention_days v * day_us) s = Inr es"
    "engagements s' = flush es"
    "qualifications s' = flush (add (configured_qualification nid eid v owner now) (qualifications s))"
    "operators s' = flush (operators s)" "members s' = flush (members s)" "k = nid"
  using run unfolding provision_design_partner_qualification_def Let_def bindE_eq_Inr the_or_eq_Inr
    require_eq_Inr flush_session_Inr new option.case
  by (fastforce simp del: split_paired_Ex)

lemma normalize_days:
  "normalize_request req = Inr v \<Longrightarrow> 1 \<le> qv_retention_days v \<and> qv_retention_days v \<le> 3650"
  by (auto simp: normalize_request_def bindE_eq_Inr require_eq_Inr)


definition sample_request :: qualification_request where
  "sample_request = \<lparr>qr_partner_key = lit ''Acme'', qr_organization = lit ''Acme Ltd'',
     qr_data_source_keys = [lit ''crm''], qr_repository_refs = [lit ''repo''],
     qr_workflow_classes = [lit ''intake''], qr_data_classification = lit ''internal'',
     qr_retention_days = 30, qr_authorization_basis_ref = lit ''basis''\<rparr>"

definition unqualified_store :: store where
  "unqualified_store = partner_store\<lparr>qualifications := []\<rparr>"

lemma unqualified_store_provision:
  "\<not> isl (provision_design_partner_qualification 1 sample_request 7 5 9 unqualified_store)"
  by code_simp


end
