(* ===== verification/Economics.thy ===== *)
theory Economics
  imports Lifecycle Decimal
begin

text \<open>
  \<open>modules/economics/service.py\<close>: the calculation of an economic case over three sensitivity
  scenarios, in Python's decimal arithmetic, and its approval.  A \<open>dict\<close> of inputs is the list of
  its items.  \<open>decimal.InvalidOperation\<close>, which \<open>quantize\<close> raises for a result of more than 28
  digits, and the \<open>RuntimeError\<close> of the sensitivity check are errors of the model.
\<close>

section \<open>Inputs\<close>

datatype economic_error =
    EconomicNotFound uuid
  | EconomicStageGate pystr
  | EconomicValueError pystr
  | NotMonotonic
  | InvalidOperation
  | EconomicInner service_error

type_synonym 'a economic = "(economic_error, 'a) result"

type_synonym economic_values = "(pystr \<times> decimal) list"

definition formula_version :: pystr where
  "formula_version = lit ''labor-capacity-sensitivity-v2''"

definition required_inputs :: "(string \<times> string) list" where
  "required_inputs =
     [(''annual_volume'', ''items/year''), (''current_minutes_per_item'', ''minutes/item''),
      (''target_minutes_per_item'', ''minutes/item''), (''loaded_hourly_cost'', ''USD/hour''),
      (''implementation_cost'', ''USD''), (''annual_operating_cost'', ''USD/year'')]"

definition valid_classifications :: "pystr list" where
  "valid_classifications =
     map lit [''measured'', ''calculated'', ''estimated'', ''synthetic'', ''simulated'']"

text \<open>A lookup in a checked \<open>dict\<close>, which has every required key.\<close>

definition input_value :: "economic_values \<Rightarrow> string \<Rightarrow> decimal" where
  "input_value vs k = (case map_of vs (lit k) of Some d \<Rightarrow> d | None \<Rightarrow> dec_of_nat 0)"

definition set_input :: "string \<Rightarrow> decimal \<Rightarrow> economic_values \<Rightarrow> economic_values" where
  "set_input k d vs = map (\<lambda>(a, v). if a = lit k then (a, d) else (a, v)) vs"

definition check_economic_input ::
  "(pystr \<times> pystr) list \<Rightarrow> pystr \<times> decimal \<Rightarrow> unit economic" where
  "check_economic_input cls kv = (case kv of (k, v) \<Rightarrow>
     bindE (require (\<not> dec_less v (dec_of_nat 0)) (EconomicValueError (k @ lit '' cannot be negative.''))) (\<lambda>_.
     require (case map_of cls k of None \<Rightarrow> False | Some c \<Rightarrow> c \<in> set valid_classifications)
       (EconomicValueError (k @ lit '' requires a valid evidence classification.''))))"

definition check_economic_inputs :: "economic_values \<Rightarrow> (pystr \<times> pystr) list \<Rightarrow> unit economic" where
  "check_economic_inputs vs cls =
     (let missing = sort (filter (\<lambda>k. k \<notin> set (map fst vs)) (map (lit \<circ> fst) required_inputs)) in
      bindE (require (missing = []) (EconomicValueError
        (lit ''Missing economic inputs: '' @ join_with (lit '', '') missing @ lit ''.''))) (\<lambda>_.
      bindE (all_ok (check_economic_input cls) vs) (\<lambda>_.
      require (\<not> dec_less (input_value vs ''current_minutes_per_item'') (input_value vs ''target_minutes_per_item''))
        (EconomicValueError (lit ''target_minutes_per_item cannot exceed current_minutes_per_item.'')))))"

section \<open>Outputs\<close>

definition cents_or_fail :: "decimal \<Rightarrow> pystr economic" where
  "cents_or_fail x = (case to_cents x of None \<Rightarrow> Inl InvalidOperation | Some q \<Rightarrow> Inr (cents_text q))"

record economic_outputs =
  eo_hours :: pystr
  eo_gross :: pystr
  eo_net :: pystr
  eo_payback :: "pystr option"

definition hours_saved :: "economic_values \<Rightarrow> decimal" where
  "hours_saved vs = dec_div
     (dec_mul (input_value vs ''annual_volume'')
       (dec_sub (input_value vs ''current_minutes_per_item'') (input_value vs ''target_minutes_per_item'')))
     (dec_of_nat 60)"

definition gross_labor_value :: "economic_values \<Rightarrow> decimal" where
  "gross_labor_value vs = dec_mul (hours_saved vs) (input_value vs ''loaded_hourly_cost'')"

definition annual_net_benefit :: "economic_values \<Rightarrow> decimal" where
  "annual_net_benefit vs = dec_sub (gross_labor_value vs) (input_value vs ''annual_operating_cost'')"

definition calculate_outputs :: "economic_values \<Rightarrow> economic_outputs economic" where
  "calculate_outputs vs =
     (let net = annual_net_benefit vs;
          payback = (if dec_less (dec_of_nat 0) net
            then Some (dec_div (input_value vs ''implementation_cost'') (dec_div net (dec_of_nat 12))) else None)
      in bindE (cents_or_fail (hours_saved vs)) (\<lambda>h.
         bindE (cents_or_fail (gross_labor_value vs)) (\<lambda>g.
         bindE (cents_or_fail net) (\<lambda>n.
         bindE (case payback of None \<Rightarrow> Inr None | Some p \<Rightarrow> bindE (cents_or_fail p) (\<lambda>t. Inr (Some t))) (\<lambda>p.
           Inr \<lparr>eo_hours = h, eo_gross = g, eo_net = n, eo_payback = p\<rparr>)))))"

definition output_json :: "json \<Rightarrow> string \<Rightarrow> pystr \<Rightarrow> json" where
  "output_json v unit formula = obj
     [(''value'', v), (''unit'', JStr (lit unit)), (''classification'', JStr (lit ''calculated'')),
      (''formula'', JStr formula)]"

definition outputs_json :: "economic_outputs \<Rightarrow> json" where
  "outputs_json o' = obj
     [(''annual_hours_saved'', output_json (JStr (eo_hours o')) ''hours/year''
         (lit ''annual_volume '' @ [215] @ lit '' (current_minutes_per_item '' @ [8722]
            @ lit '' target_minutes_per_item) '' @ [247] @ lit '' 60'')),
      (''annual_gross_labor_value'', output_json (JStr (eo_gross o')) ''USD/year''
         (lit ''annual_hours_saved '' @ [215] @ lit '' loaded_hourly_cost'')),
      (''annual_net_benefit'', output_json (JStr (eo_net o')) ''USD/year''
         (lit ''annual_gross_labor_value '' @ [8722] @ lit '' annual_operating_cost'')),
      (''payback_months'', output_json (jopt JStr (eo_payback o')) ''months''
         (lit ''implementation_cost '' @ [247] @ lit '' (annual_net_benefit '' @ [247] @ lit '' 12)''))]"

section \<open>Scenarios\<close>

definition scale_input :: "string \<Rightarrow> nat \<Rightarrow> economic_values \<Rightarrow> economic_values" where
  "scale_input k percent vs = set_input k (dec_mul (input_value vs k) (Dec False percent (- 2))) vs"

text \<open>\<open>max(Decimal(0), x)\<close>\<close>

definition dec_max0 :: "decimal \<Rightarrow> decimal" where
  "dec_max0 x = (if dec_less (dec_of_nat 0) x then x else dec_of_nat 0)"

definition base_savings :: "economic_values \<Rightarrow> decimal" where
  "base_savings vs = dec_sub (input_value vs ''current_minutes_per_item'') (input_value vs ''target_minutes_per_item'')"

definition low_values :: "economic_values \<Rightarrow> economic_values" where
  "low_values vs =
     scale_input ''annual_operating_cost'' 110 (scale_input ''implementation_cost'' 110
       (scale_input ''loaded_hourly_cost'' 90
         (set_input ''target_minutes_per_item''
            (dec_sub (input_value vs ''current_minutes_per_item'') (dec_mul (base_savings vs) (Dec False 80 (- 2))))
            (scale_input ''annual_volume'' 90 vs))))"

definition high_values :: "economic_values \<Rightarrow> economic_values" where
  "high_values vs =
     scale_input ''annual_operating_cost'' 90 (scale_input ''implementation_cost'' 90
       (scale_input ''loaded_hourly_cost'' 110
         (set_input ''target_minutes_per_item''
            (dec_max0 (dec_sub (input_value vs ''current_minutes_per_item'')
               (dec_mul (base_savings vs) (Dec False 120 (- 2)))))
            (scale_input ''annual_volume'' 110 vs))))"

definition scenario_values :: "economic_values \<Rightarrow> (string \<times> string \<times> string \<times> economic_values) list" where
  "scenario_values vs =
     [(''low'', ''Low'', ''Conservative volume, time savings, and labor value with 10% higher costs.'', low_values vs),
      (''base'', ''Base'', ''Submitted values with no sensitivity adjustment.'', vs),
      (''high'', ''High'', ''Favorable volume, time savings, and labor value with 10% lower costs.'', high_values vs)]"

definition input_transforms :: "(string \<times> string) list" where
  "input_transforms =
     [(''annual_volume'', ''90% / submitted / 110%''),
      (''current_minutes_per_item'', ''submitted in all scenarios''),
      (''target_minutes_per_item'', ''80% / 100% / 120% of submitted time savings''),
      (''loaded_hourly_cost'', ''90% / submitted / 110%''),
      (''implementation_cost'', ''110% / submitted / 90%''),
      (''annual_operating_cost'', ''110% / submitted / 90%'')]"

definition input_json :: "(pystr \<times> pystr) list \<Rightarrow> string \<Rightarrow> string \<Rightarrow> string \<Rightarrow> pystr \<Rightarrow> json" where
  "input_json cls name k unit value =
     (let c = JStr (case map_of cls (lit k) of Some c \<Rightarrow> c | None \<Rightarrow> []);
          transform = (case map_of input_transforms k of Some t \<Rightarrow> t | None \<Rightarrow> [])
      in obj
        [(''value'', JStr value), (''unit'', JStr (lit unit)),
         (''classification'', if name = ''base'' then c else JStr (lit ''simulated'')),
         (''provenance'', obj
            [(''source'', JStr (lit ''submitted_base_input'')), (''source_classification'', c),
             (''transform'', JStr (lit (if name = ''base'' then ''none'' else transform)))])])"

definition render_inputs :: "economic_values \<Rightarrow> (pystr \<times> pystr) list \<Rightarrow> string \<Rightarrow> json economic" where
  "render_inputs vs cls name =
     bindE (mapE (\<lambda>(k, unit). bindE (cents_or_fail (input_value vs k)) (\<lambda>t.
         Inr (k, input_json cls name k unit t))) required_inputs) (\<lambda>items. Inr (obj items))"

definition render_scenario ::
  "(pystr \<times> pystr) list \<Rightarrow> string \<times> string \<times> string \<times> economic_values \<Rightarrow> (string \<times> json \<times> economic_outputs) economic" where
  "render_scenario cls sc = (case sc of (name, label, description, vs) \<Rightarrow>
     bindE (render_inputs vs cls name) (\<lambda>ins.
     bindE (calculate_outputs vs) (\<lambda>outs.
       Inr (name, obj [(''label'', JStr (lit label)), (''description'', JStr (lit description)),
              (''inputs'', ins), (''outputs'', outputs_json outs)], outs))))"

section \<open>Calculation\<close>

record economic_result =
  er_inputs :: json
  er_outputs :: json
  er_scenarios :: json

definition economic_figures ::
  "economic_values \<Rightarrow> (pystr \<times> pystr) list \<Rightarrow> economic_result economic" where
  "economic_figures vs cls =
     bindE (mapE (render_scenario cls) (scenario_values vs)) (\<lambda>scenarios.
     bindE (render_inputs vs cls ''base'') (\<lambda>ins.
     bindE (calculate_outputs vs) (\<lambda>outs.
     let net_of = (\<lambda>sc. read_cents (eo_net (snd (snd sc))));
         low = net_of (scenarios ! 0); base = read_cents (eo_net outs); high = net_of (scenarios ! 2)
     in bindE (require (dec_le low base \<and> dec_le base high) NotMonotonic) (\<lambda>_.
        Inr \<lparr>er_inputs = ins, er_outputs = outputs_json outs,
              er_scenarios = obj (map (\<lambda>(name, sc, _). (name, sc)) scenarios)\<rparr>))))"

definition clean_assumptions :: "pystr list option \<Rightarrow> pystr list" where
  "clean_assumptions items = filter (\<lambda>t. t \<noteq> []) (map py_strip (case items of None \<Rightarrow> [] | Some ts \<Rightarrow> ts))"

definition inner :: "'a outcome \<Rightarrow> 'a economic" where
  "inner r = (case r of Inl e \<Rightarrow> Inl (EconomicInner e) | Inr x \<Rightarrow> Inr x)"

definition economic_case_type :: pystr where
  "economic_case_type = lit ''economic_case''"

definition fill_case :: "economic_result \<Rightarrow> pystr list option \<Rightarrow> economic_case \<Rightarrow> economic_case" where
  "fill_case r assumptions c = c\<lparr>ec_formula_version := formula_version, ec_inputs := er_inputs r,
     ec_outputs := er_outputs r, ec_scenarios := er_scenarios r,
     ec_assumptions := clean_assumptions assumptions\<rparr>"

definition new_case :: "uuid \<Rightarrow> uuid \<Rightarrow> int \<Rightarrow> uuid \<Rightarrow> uuid \<Rightarrow> economic_case" where
  "new_case nid eid v target created_by = \<lparr>ec_id = nid, ec_engagement_id = eid, ec_version = v, ec_status = Draft,
     ec_target_workflow_id = target, ec_formula_version = [], ec_inputs = JNull, ec_outputs = JNull,
     ec_scenarios = JNull, ec_assumptions = [], ec_created_by_id = created_by, ec_approved_by_id = None,
     ec_approved_at = None\<rparr>"

definition current_draft :: "uuid \<Rightarrow> uuid \<Rightarrow> store \<Rightarrow> economic_case option" where
  "current_draft eid target s = latest_by ec_version (select (\<lambda>c. ec_engagement_id c = eid
     \<and> ec_target_workflow_id c = target \<and> ec_status c = Draft) (economic_cases s))"

text \<open>The draft the figures go to, new or existing; the new row's version is \<open>max + 1\<close>.\<close>

definition store_figures ::
  "uuid \<Rightarrow> uuid \<Rightarrow> operator \<Rightarrow> economic_result \<Rightarrow> pystr list option \<Rightarrow> uuid \<Rightarrow> store \<Rightarrow> (economic_case \<times> store) economic" where
  "store_figures eid target opr r assumptions nid s =
     (case current_draft eid target s of
        None \<Rightarrow>
          let v = stored_max ec_version (\<lambda>c. ec_engagement_id c = eid) (economic_cases s);
              c = fill_case r assumptions (new_case nid eid v target (op_id opr))
          in bindE (inner (flush_session (s\<lparr>economic_cases := add c (economic_cases s)\<rparr>))) (\<lambda>s1. Inr (c, s1))
      | Some c \<Rightarrow> Inr (fill_case r assumptions c,
          s\<lparr>economic_cases := modify (\<lambda>x. ec_id x = ec_id c) (fill_case r assumptions) (economic_cases s)\<rparr>))"

definition scenario_names :: json where
  "scenario_names = jtexts [lit ''low'', lit ''base'', lit ''high'']"

definition calculate_economic_case ::
  "uuid \<Rightarrow> operator \<Rightarrow> economic_values \<Rightarrow> (pystr \<times> pystr) list \<Rightarrow> pystr list option \<Rightarrow> uuid \<Rightarrow> time \<Rightarrow> store
    \<Rightarrow> (economic_case \<times> store) economic" where
  "calculate_economic_case eid opr vs cls assumptions nid now s =
     bindE (the_or (latest_approved_workflow eid Target s) (EconomicStageGate
       (lit ''Approve a target workflow before calculating the economic case.''))) (\<lambda>target.
     bindE (check_economic_inputs vs cls) (\<lambda>_.
     bindE (economic_figures vs cls) (\<lambda>r.
     bindE (store_figures eid (wf_id target) opr r assumptions nid s) (\<lambda>(c, s1).
     bindE (inner (stale_after_economic_change eid (Some (op_id opr)) now s1)) (\<lambda>s2.
       Inr (c, publish_domain_event eid (lit ''economic_case.calculated'') economic_case_type (ec_id c)
         (obj [(''formula_version'', JStr formula_version), (''scenarios'', scenario_names)])
         (record_audit eid (op_id opr) (lit ''economic_case.calculated'') economic_case_type (ec_id c)
           (obj [(''formula_version'', JStr formula_version), (''version'', JInt (ec_version c)),
                 (''scenarios'', scenario_names)]) s2)))))))"

definition get_latest_economic_case :: "uuid \<Rightarrow> store \<Rightarrow> economic_case option" where
  "get_latest_economic_case eid s = latest_by ec_version (select (\<lambda>c. ec_engagement_id c = eid) (economic_cases s))"

section \<open>Approval\<close>

definition stale_other_approved :: "uuid \<Rightarrow> uuid \<Rightarrow> economic_case table \<Rightarrow> economic_case table" where
  "stale_other_approved eid cid = bulk_update
     (\<lambda>c. ec_engagement_id c = eid \<and> ec_id c \<noteq> cid \<and> ec_status c = Approved)
     (\<lambda>r c. ec_status r = ec_status c) (\<lambda>c. c\<lparr>ec_status := Stale\<rparr>)"

definition approve_case :: "uuid \<Rightarrow> time \<Rightarrow> economic_case \<Rightarrow> economic_case" where
  "approve_case actor now c = c\<lparr>ec_status := Approved, ec_approved_by_id := Some actor, ec_approved_at := Some now\<rparr>"

definition check_case_approval :: "uuid \<Rightarrow> uuid \<Rightarrow> store \<Rightarrow> economic_case economic" where
  "check_case_approval eid cid s =
     bindE (the_or (first (select (\<lambda>e. eg_id e = eid) (engagements s))) (EconomicNotFound eid)) (\<lambda>e.
     bindE (require (eg_data_lifecycle_status e = Active) (EconomicStageGate
       (lit ''Economics approval is unavailable while engagement deletion is pending or failed.''))) (\<lambda>_.
     bindE (the_or (first (select (\<lambda>c. ec_id c = cid \<and> ec_engagement_id c = eid) (economic_cases s)))
       (EconomicNotFound cid)) (\<lambda>c.
     bindE (require (ec_status c = Draft)
       (EconomicStageGate (lit ''Only a current draft economic case can be approved.''))) (\<lambda>_.
     bindE (require (case session_get wf_id (ec_target_workflow_id c) (workflows s) of
           None \<Rightarrow> False | Some w \<Rightarrow> wf_status w = Approved)
       (EconomicStageGate (lit ''The target workflow dependency is no longer approved.''))) (\<lambda>_. Inr c)))))"

definition approve_economic_case :: "uuid \<Rightarrow> uuid \<Rightarrow> operator \<Rightarrow> time \<Rightarrow> store \<Rightarrow> store economic" where
  "approve_economic_case eid cid opr now s =
     bindE (check_case_approval eid cid s) (\<lambda>c.
     bindE (inner (stale_after_economic_change eid (Some (op_id opr)) now
       (s\<lparr>economic_cases := stale_other_approved eid cid (economic_cases s)\<rparr>))) (\<lambda>s1.
     let detail = obj [(''version'', JInt (ec_version c))];
         s2 = s1\<lparr>economic_cases := modify (\<lambda>x. ec_id x = cid) (approve_case (op_id opr) now) (economic_cases s1),
                 engagements := modify (\<lambda>e. eg_id e = eid) (\<lambda>e. e\<lparr>eg_lifecycle_stage := StEconomicCase\<rparr>)
                   (engagements s1)\<rparr>
     in inner (flush_session (publish_domain_event eid (lit ''economic_case.approved'') economic_case_type cid detail
          (record_audit eid (op_id opr) (lit ''economic_case.approved'') economic_case_type cid detail s2)))))"

end
