(* ===== verification/DecimalRounding.thy ===== *)
theory DecimalRounding
  imports Decimal Complex_Main
begin

text \<open>
  Every decimal operation rounds correctly: \<open>rounded\<close> is the rounding of a ratio of naturals to 28
  digits, it commutes with scaling by powers of ten and it is monotone; the values of \<open>finish\<close>,
  products, differences and quotients are roundings of the exact results.
\<close>

section \<open>Digits\<close>

lemma digit_count_pos: "0 < digit_count n"
  by (simp add: digit_count_def)

lemma digit_count_step: "digit_count n = (if n < 10 then 1 else Suc (digit_count (n div 10)))"
  by (subst digit_count_def, subst dec_nat.simps) (simp add: digit_count_def)

lemma less_pow_digits: "n < 10 ^ digit_count n"
proof (induction n rule: less_induct)
  case (less n)
  show ?case
  proof (cases "n < 10")
    case False
    then have "n div 10 < 10 ^ digit_count (n div 10)" by (intro less) auto
    then have "n < 10 * 10 ^ digit_count (n div 10)" by simp
    then show ?thesis using False by (subst digit_count_step) simp
  qed (subst digit_count_step, simp)
qed

lemma pow_digits_le: "0 < n \<Longrightarrow> 10 ^ (digit_count n - 1) \<le> n"
proof (induction n rule: less_induct)
  case (less n)
  show ?case
  proof (cases "n < 10")
    case True
    then show ?thesis using less.prems by (subst digit_count_step) simp
  next
    case False
    then have "10 ^ (digit_count (n div 10) - 1) \<le> n div 10" by (intro less) auto
    then have "10 * 10 ^ (digit_count (n div 10) - 1) \<le> n" by simp
    moreover have "10 * 10 ^ (digit_count (n div 10) - 1) = (10 :: nat) ^ digit_count (n div 10)"
      using digit_count_pos [of "n div 10"] by (cases "digit_count (n div 10)") auto
    ultimately show ?thesis using False by (subst digit_count_step) simp
  qed
qed

lemma digit_count_unique: "10 ^ k \<le> n \<Longrightarrow> n < 10 ^ Suc k \<Longrightarrow> digit_count n = Suc k"
proof (rule ccontr)
  assume a: "10 ^ k \<le> n" "n < 10 ^ Suc k" "digit_count n \<noteq> Suc k"
  have n: "0 < n" using a(1) by (cases n) auto
  consider "digit_count n \<le> k" | "Suc k \<le> digit_count n - 1" using a(3) by linarith
  then show False
  proof cases
    case 1
    then have "(10 :: nat) ^ digit_count n \<le> 10 ^ k" by (rule power_increasing) simp
    then show False using less_pow_digits [of n] a(1) by linarith
  next
    case 2
    then have "(10 :: nat) ^ Suc k \<le> 10 ^ (digit_count n - 1)" by (rule power_increasing) simp
    then show False using pow_digits_le [OF n] a(2) by linarith
  qed
qed

lemma digit_count_mono: "m \<le> n \<Longrightarrow> digit_count m \<le> digit_count n"
proof (rule ccontr)
  assume a: "m \<le> n" "\<not> digit_count m \<le> digit_count n"
  have "0 < m" using a by (cases m) (auto simp: digit_count_step [of 0] digit_count_pos Suc_le_eq)
  then have "10 ^ (digit_count m - 1) \<le> m" by (rule pow_digits_le)
  moreover have "(10 :: nat) ^ digit_count n \<le> 10 ^ (digit_count m - 1)" using a(2) by (intro power_increasing) auto
  ultimately show False using less_pow_digits [of n] a(1) by linarith
qed

lemma digit_count_le: "n < 10 ^ k \<Longrightarrow> 0 < k \<Longrightarrow> digit_count n \<le> k"
proof (rule ccontr)
  assume a: "n < 10 ^ k" "0 < k" "\<not> digit_count n \<le> k"
  have n: "0 < n" using a by (cases n) (auto simp: digit_count_step [of 0])
  have "(10 :: nat) ^ k \<le> 10 ^ (digit_count n - 1)" using a(3) by (intro power_increasing) auto
  then show False using pow_digits_le [OF n] a(1) by linarith
qed

lemma digit_count_gt:
  assumes "10 ^ k \<le> n"
  shows "k < digit_count n"
proof (rule ccontr)
  assume "\<not> k < digit_count n"
  then have "(10 :: nat) ^ digit_count n \<le> 10 ^ k" by (intro power_increasing) auto
  then show False using less_pow_digits [of n] assms by linarith
qed

section \<open>Half-even rounding\<close>

lemma round_half_even_close:
  assumes "0 < m"
  shows "\<bar>2 * int (round_half_even n m * m) - 2 * int n\<bar> \<le> int m"
proof -
  have n: "n = n div m * m + n mod m" by simp
  have "int n = int (n div m * m) + int (n mod m)" using n by (metis of_nat_add)
  moreover have "n mod m < m" using assms by simp
  ultimately show ?thesis by (auto simp: round_half_even_def Let_def algebra_simps)
qed

lemma round_half_even_mono:
  assumes "0 < m" and "n \<le> n'"
  shows "round_half_even n m \<le> round_half_even n' m"
proof -
  have q: "n div m \<le> n' div m" using assms(2) by (rule div_le_mono)
  consider "n div m = n' div m" | "Suc (n div m) \<le> n' div m" using q by linarith
  then show ?thesis
  proof cases
    case 1
    have "n mod m \<le> n' mod m" using 1 assms(2) by (metis add_le_cancel_left mult_div_mod_eq)
    then show ?thesis using 1 by (auto simp: round_half_even_def Let_def)
  qed (auto simp: round_half_even_def Let_def)
qed

lemma round_half_even_scale:
  assumes "0 < j" and "0 < m"
  shows "round_half_even (n * j) (m * j) = round_half_even n m"
proof -
  have "n * j div (m * j) = n div m" "n * j mod (m * j) = n mod m * j"
    using assms(1) by (simp_all add: mult_mod_left)
  then show ?thesis using assms(1) by (auto simp: round_half_even_def Let_def)
qed

lemma round_half_even_exact [simp]: "0 < m \<Longrightarrow> round_half_even (q * m) m = q"
  by (simp add: round_half_even_def)

lemma round_half_even_between:
  assumes "0 < m" and "a * m \<le> n" and "n \<le> b * m"
  shows "a \<le> round_half_even n m" and "round_half_even n m \<le> b"
  using round_half_even_mono [OF assms(1,2)] round_half_even_mono [OF assms(1,3)] assms(1) by simp_all

section \<open>Rounding a ratio to the precision\<close>

definition excess :: "nat \<Rightarrow> nat \<Rightarrow> nat" where
  "excess d n = digit_count (n div d) - precision"

definition rounded :: "nat \<Rightarrow> nat \<Rightarrow> nat" where
  "rounded d n = round_half_even n (d * 10 ^ excess d n) * 10 ^ excess d n"

lemma rounded_upper:
  assumes "0 < d"
  shows "rounded d n \<le> 10 ^ digit_count (n div d)" and "round_half_even n (d * 10 ^ excess d n) \<le> 10 ^ min (digit_count (n div d)) precision"
proof -
  let ?k = "excess d n" and ?c = "digit_count (n div d)"
  have e: "min ?c precision + ?k = ?c" by (simp add: excess_def)
  have "n div d < 10 ^ ?c" by (rule less_pow_digits)
  then have "n \<le> 10 ^ ?c * d" using assms by (metis div_less_iff_less_mult less_imp_le)
  also have "\<dots> = 10 ^ min ?c precision * (d * 10 ^ ?k)" using e by (metis mult.commute mult.left_commute power_add)
  finally show 1: "round_half_even n (d * 10 ^ ?k) \<le> 10 ^ min ?c precision"
    using assms by (intro round_half_even_between [of _ 0]) simp_all
  have "rounded d n \<le> 10 ^ min ?c precision * 10 ^ ?k" unfolding rounded_def using 1 by (rule mult_le_mono1)
  also have "\<dots> = 10 ^ ?c" using e by (metis power_add)
  finally show "rounded d n \<le> 10 ^ ?c" .
qed

lemma rounded_lower:
  assumes "0 < d" and "0 < n div d"
  shows "10 ^ (digit_count (n div d) - 1) \<le> rounded d n"
proof -
  let ?k = "excess d n" and ?c = "digit_count (n div d)"
  show ?thesis
  proof (cases "?k = 0")
    case True
    have "10 ^ (?c - 1) \<le> n div d" by (rule pow_digits_le [OF assms(2)])
    then have "10 ^ (?c - 1) * d \<le> n" using assms(1) by (metis div_times_less_eq_dividend mult_le_mono1 order_trans)
    then have "10 ^ (?c - 1) \<le> round_half_even n d" using assms(1) by (intro round_half_even_between [of _ _ _ "n"]) simp_all
    then show ?thesis using True by (simp add: rounded_def)
  next
    case False
    then have e: "?c - 1 = precision - 1 + ?k" by (simp add: excess_def precision_def)
    have "10 ^ (?c - 1) \<le> n div d" by (rule pow_digits_le [OF assms(2)])
    then have "10 ^ (?c - 1) * d \<le> n" using assms(1) by (metis div_times_less_eq_dividend mult_le_mono1 order_trans)
    then have "10 ^ (precision - 1) * (d * 10 ^ ?k) \<le> n"
      unfolding e power_add by (simp add: algebra_simps)
    then have "10 ^ (precision - 1) \<le> round_half_even n (d * 10 ^ ?k)"
      using assms(1) by (intro round_half_even_between [of _ _ _ "n"]) simp_all
    then show ?thesis unfolding rounded_def e power_add by (rule mult_le_mono1)
  qed
qed

lemma rounded_mono:
  assumes "0 < d" and "n \<le> n'"
  shows "rounded d n \<le> rounded d n'"
proof -
  have c: "digit_count (n div d) \<le> digit_count (n' div d)" using assms(2) by (intro digit_count_mono div_le_mono)
  consider "excess d n = excess d n'" | "digit_count (n div d) < digit_count (n' div d)" "0 < excess d n'"
    using c unfolding excess_def by linarith
  then show ?thesis
  proof cases
    case 1
    then show ?thesis using round_half_even_mono [OF _ assms(2)] assms(1) by (simp add: rounded_def)
  next
    case 2
    have "0 < n' div d"
    proof (rule ccontr)
      assume "\<not> 0 < n' div d"
      then have "digit_count (n' div d) = 1" by (simp add: digit_count_step [of 0])
      then show False using 2(2) by (simp add: excess_def precision_def)
    qed
    then have "10 ^ (digit_count (n' div d) - 1) \<le> rounded d n'" by (rule rounded_lower [OF assms(1)])
    moreover have "rounded d n \<le> 10 ^ digit_count (n div d)" by (rule rounded_upper [OF assms(1)])
    moreover have "(10 :: nat) ^ digit_count (n div d) \<le> 10 ^ (digit_count (n' div d) - 1)"
      using 2(1) by (intro power_increasing) auto
    ultimately show ?thesis by linarith
  qed
qed

lemma rounded_exact: "digit_count n \<le> precision \<Longrightarrow> rounded 1 n = n"
  by (simp add: rounded_def excess_def round_half_even_def)

lemma digit_count_shift: "0 < n \<Longrightarrow> digit_count (n * 10 ^ j) = digit_count n + j"
proof -
  assume n: "0 < n"
  obtain c where c: "digit_count n = Suc c" using digit_count_pos [of n] by (cases "digit_count n") auto
  have "10 ^ (c + j) \<le> n * 10 ^ j" using pow_digits_le [OF n] c by (simp add: power_add)
  moreover have "n * 10 ^ j < 10 ^ Suc (c + j)" using less_pow_digits [of n] c by (simp add: power_add)
  ultimately show ?thesis using digit_count_unique c by simp
qed

lemma digit_count_ratio:
  assumes "0 < d" and "0 < n div d"
  shows "digit_count (n * 10 ^ j div d) = digit_count (n div d) + j"
proof -
  obtain c where c: "digit_count (n div d) = Suc c" using digit_count_pos by (metis gr0_implies_Suc)
  have "10 ^ c \<le> n div d" using pow_digits_le [OF assms(2)] c by simp
  then have "10 ^ c * d \<le> n" using assms(1) by (metis div_times_less_eq_dividend mult_le_mono1 order_trans)
  then have "10 ^ (c + j) * d \<le> n * 10 ^ j" by (simp add: power_add algebra_simps)
  then have 1: "10 ^ (c + j) \<le> n * 10 ^ j div d" using assms(1) by (simp add: less_eq_div_iff_mult_less_eq)
  have "n div d < 10 ^ Suc c" using less_pow_digits [of "n div d"] c by simp
  then have "n < 10 ^ Suc c * d" using assms(1) by (simp add: div_less_iff_less_mult)
  then have "n * 10 ^ j < 10 ^ Suc (c + j) * d" by (simp add: power_add algebra_simps)
  then have "n * 10 ^ j div d < 10 ^ Suc (c + j)" using assms(1) by (simp add: div_less_iff_less_mult)
  then show ?thesis using digit_count_unique 1 c by simp
qed

lemma rounded_scale:
  assumes "0 < d" and "precision \<le> digit_count (n div d) \<or> d = 1"
  shows "rounded d (n * 10 ^ j) = rounded d n * 10 ^ j"
proof (cases "precision \<le> digit_count (n div d)")
  case True
  then have "0 < n div d" by (cases "n div d") (auto simp: digit_count_step [of 0] precision_def)
  then have "excess d (n * 10 ^ j) = excess d n + j"
    using digit_count_ratio [OF assms(1)] True by (simp add: excess_def)
  then show ?thesis
    using round_half_even_scale [of "10 ^ j" "d * 10 ^ excess d n" n] assms(1)
    by (simp add: rounded_def power_add mult.assoc)
next
  case False
  then have d: "d = 1" and c: "digit_count n < precision" using assms(2) by auto
  show ?thesis
  proof (cases "n = 0")
    case True
    then show ?thesis by (simp add: rounded_def round_half_even_def)
  next
    case pos: False
    let ?k = "excess 1 (n * 10 ^ j)"
    have "?k \<le> j" using digit_count_shift [of n j] pos c by (simp add: excess_def)
    then have "n * 10 ^ j = n * 10 ^ (j - ?k) * 10 ^ ?k" by (simp flip: power_add mult.assoc)
    then have "rounded 1 (n * 10 ^ j) = n * 10 ^ j"
      by (metis rounded_def round_half_even_exact mult_1 zero_less_numeral zero_less_power)
    then show ?thesis using rounded_exact c d by simp
  qed
qed

lemma rounded_close: "2 * 10 ^ (precision - 1) * \<bar>int (rounded 1 n) - int n\<bar> \<le> int n"
proof (cases "excess 1 n = 0")
  case True
  then show ?thesis by (simp add: rounded_def round_half_even_def)
next
  case False
  let ?k = "excess 1 n"
  have n: "0 < n" using False by (cases n) (auto simp: excess_def digit_count_step [of 0] precision_def)
  have "\<bar>2 * int (rounded 1 n) - 2 * int n\<bar> \<le> 10 ^ ?k"
    using round_half_even_close [of "10 ^ ?k" n] by (simp add: rounded_def)
  moreover have "\<bar>2 * a - 2 * b\<bar> = 2 * \<bar>a - b\<bar>" for a b :: int by arith
  ultimately have "2 * \<bar>int (rounded 1 n) - int n\<bar> \<le> 10 ^ ?k" by metis
  then have "10 ^ (precision - 1) * (2 * \<bar>int (rounded 1 n) - int n\<bar>) \<le> 10 ^ (precision - 1) * 10 ^ ?k"
    by (rule mult_left_mono) simp
  also have "\<dots> = int (10 ^ (digit_count n - 1))"
  proof -
    have "digit_count n - 1 = precision - 1 + ?k" using False by (simp add: excess_def precision_def)
    then show ?thesis by (simp add: power_add)
  qed
  also have "\<dots> \<le> int n" using pow_digits_le [OF n] by (rule of_nat_mono)
  finally show ?thesis by simp
qed

section \<open>Values\<close>

definition val :: "decimal \<Rightarrow> rat" where
  "val x = (if dec_neg x then - 1 else 1) * of_nat (dec_coeff x) * 10 powi dec_exp x"

lemma val_Dec [simp]: "val (Dec s c e) = (if s then - 1 else 1) * of_nat c * 10 powi e"
  by (simp add: val_def)

lemma powi_shift: "(10 :: rat) powi (e + int k) = 10 ^ k * 10 powi e"
  by (simp add: power_int_add)

lemma scaled_val:
  assumes "e \<le> dec_exp x"
  shows "of_int (scaled e x) * 10 powi e = val x"
proof -
  have "dec_exp x = e + int (nat (dec_exp x - e))" using assms by simp
  then have "(10 :: rat) powi dec_exp x = 10 ^ nat (dec_exp x - e) * 10 powi e" by (metis powi_shift)
  then show ?thesis by (simp add: scaled_def val_def)
qed

lemma dec_le_val: "dec_le x y \<longleftrightarrow> val x \<le> val y"
proof -
  let ?e = "min (dec_exp x) (dec_exp y)"
  have "val x = of_int (scaled ?e x) * 10 powi ?e" "val y = of_int (scaled ?e y) * 10 powi ?e"
    by (simp_all add: scaled_val)
  then show ?thesis by (simp add: dec_le_def Let_def)
qed

lemma dec_less_val: "dec_less x y \<longleftrightarrow> val x < val y"
  by (simp add: dec_less_def dec_le_val not_le)

lemma finish_val: "val (finish s c e) = (if s then - 1 else 1) * of_nat (rounded 1 c) * 10 powi e"
proof -
  let ?k = "excess 1 c" and ?q = "round_half_even c (10 ^ excess 1 c)"
  have k: "digit_count c - precision = ?k" by (simp add: excess_def)
  consider "?k = 0" | "0 < ?k" "digit_count ?q \<le> precision" | "0 < ?k" "precision < digit_count ?q" by linarith
  then show ?thesis
  proof cases
    case 1
    then show ?thesis by (simp add: finish_def k rounded_def round_half_even_def)
  next
    case 2
    then show ?thesis by (simp add: finish_def k Let_def rounded_def powi_shift)
  next
    case 3
    have "?q \<le> 10 ^ precision" using rounded_upper(2) [of 1 c] 3(1) by (simp add: excess_def)
    moreover have "10 ^ (digit_count ?q - 1) \<le> ?q"
      using 3(2) by (intro pow_digits_le) (cases ?q, auto simp: digit_count_step [of 0] precision_def)
    moreover have "(10 :: nat) ^ precision \<le> 10 ^ (digit_count ?q - 1)" using 3(2) by (intro power_increasing) auto
    ultimately have q: "?q = 10 ^ precision" by linarith
    then have "?q div 10 * 10 = ?q" by (simp add: precision_def)
    then have "(of_nat (?q div 10) * 10 :: rat) = of_nat ?q" by (metis of_nat_mult of_nat_numeral)
    moreover have "(10 :: rat) powi (e + int ?k + 1) = 10 * (10 ^ ?k * 10 powi e)"
      by (simp add: power_int_add)
    ultimately show ?thesis using 3 by (simp add: finish_def k Let_def rounded_def)
  qed
qed

text \<open>The rounding of an integer multiple of a power of ten.\<close>

definition rounded_int :: "int \<Rightarrow> int" where
  "rounded_int n = (if n < 0 then - int (rounded 1 (nat (- n))) else int (rounded 1 (nat n)))"

lemma rounded_int_mono: "n \<le> n' \<Longrightarrow> rounded_int n \<le> rounded_int n'"
  by (auto simp: rounded_int_def intro: rounded_mono order_trans [of _ "0 :: int"])

lemma rounded_int_scale: "rounded_int (n * 10 ^ j) = rounded_int n * 10 ^ j"
proof -
  have "nat (n * 10 ^ j) = nat n * 10 ^ j" for n :: int
    by (cases "0 \<le> n") (auto simp: nat_mult_distrib nat_power_eq mult_le_0_iff)
  moreover have "n * 10 ^ j < 0 \<longleftrightarrow> n < 0" by (simp add: mult_less_0_iff)
  moreover have "nat (- (n * 10 ^ j)) = nat (- n) * 10 ^ j"
    by (metis calculation(1) mult_minus_left)
  ultimately show ?thesis by (simp add: rounded_int_def rounded_scale)
qed

lemma rounded_int_close: "2 * 10 ^ (precision - 1) * \<bar>rounded_int n - n\<bar> \<le> \<bar>n\<bar>"
proof (cases "n < 0")
  case True
  have "\<bar>- int (rounded 1 (nat (- n))) - n\<bar> = \<bar>int (rounded 1 (nat (- n))) - - n\<bar>" by arith
  then show ?thesis using rounded_close [of "nat (- n)"] True by (simp add: rounded_int_def)
qed (use rounded_close [of "nat n"] in \<open>simp add: rounded_int_def\<close>)

text \<open>\<open>rounds v w\<close>: \<open>w\<close> is the correct rounding of \<open>v\<close>.\<close>

definition rounds :: "rat \<Rightarrow> rat \<Rightarrow> bool" where
  "rounds v w \<longleftrightarrow> (\<exists>n e. v = of_int n * 10 powi e \<and> w = of_int (rounded_int n) * 10 powi e)"

lemma rounds_mono:
  assumes "rounds v w" and "rounds v' w'" and "v \<le> v'"
  shows "w \<le> w'"
proof -
  obtain n e n' e' where n: "v = of_int n * 10 powi e" "w = of_int (rounded_int n) * 10 powi e"
    and n': "v' = of_int n' * 10 powi e'" "w' = of_int (rounded_int n') * 10 powi e'"
    using assms(1,2) by (auto simp: rounds_def)
  let ?f = "min e e'"
  have e: "(10 :: rat) powi e = 10 ^ nat (e - ?f) * 10 powi ?f" "(10 :: rat) powi e' = 10 ^ nat (e' - ?f) * 10 powi ?f"
    using powi_shift [of ?f "nat (e - ?f)"] powi_shift [of ?f "nat (e' - ?f)"] by simp_all
  have p: "(0 :: rat) < 10 powi ?f" by simp
  have "of_int (n * 10 ^ nat (e - ?f)) * (10 :: rat) powi ?f \<le> of_int (n' * 10 ^ nat (e' - ?f)) * 10 powi ?f"
    using assms(3) n(1) n'(1) e by (simp add: mult.assoc)
  then have "n * 10 ^ nat (e - ?f) \<le> n' * 10 ^ nat (e' - ?f)" using p by (metis mult_le_cancel_right_pos of_int_le_iff)
  then have "rounded_int n * 10 ^ nat (e - ?f) \<le> rounded_int n' * 10 ^ nat (e' - ?f)"
    using rounded_int_mono rounded_int_scale by metis
  then have "of_int (rounded_int n * 10 ^ nat (e - ?f)) * (10 :: rat) powi ?f
      \<le> of_int (rounded_int n' * 10 ^ nat (e' - ?f)) * 10 powi ?f"
    using p by (metis mult_right_mono of_int_le_iff less_imp_le)
  then show ?thesis using n(2) n'(2) e by (simp add: mult.assoc)
qed

lemma rounds_close:
  assumes "rounds v w"
  shows "2 * 10 ^ (precision - 1) * \<bar>w - v\<bar> \<le> \<bar>v\<bar>"
proof -
  obtain n e where n: "v = of_int n * 10 powi e" "w = of_int (rounded_int n) * 10 powi e"
    using assms by (auto simp: rounds_def)
  have "w - v = of_int (rounded_int n - n) * 10 powi e" by (simp add: n algebra_simps)
  then have a: "\<bar>w - v\<bar> = of_int \<bar>rounded_int n - n\<bar> * 10 powi e" "\<bar>v\<bar> = of_int \<bar>n\<bar> * 10 powi e"
    by (simp_all add: n abs_mult)
  have "(of_int (2 * 10 ^ (precision - 1) * \<bar>rounded_int n - n\<bar>) :: rat) \<le> of_int \<bar>n\<bar>"
    using rounded_int_close by (simp only: of_int_le_iff)
  then have "(2 * 10 ^ (precision - 1) * of_int \<bar>rounded_int n - n\<bar>) * 10 powi e \<le> (of_int \<bar>n\<bar> :: rat) * 10 powi e"
    by (intro mult_right_mono) simp_all
  then show ?thesis unfolding a by (simp add: mult.assoc)
qed

lemma rounds_exact: "digit_count (dec_coeff x) \<le> precision \<Longrightarrow> rounds (val x) (val x)"
proof -
  assume a: "digit_count (dec_coeff x) \<le> precision"
  let ?n = "(if dec_neg x then - 1 else 1) * int (dec_coeff x)"
  have "rounded_int ?n = ?n" using rounded_exact [OF a] by (auto simp: rounded_int_def)
  then show ?thesis
    unfolding rounds_def by (intro exI [of _ ?n] exI [of _ "dec_exp x"]) (simp add: val_def)
qed

lemma rounds_unique: "rounds v w \<Longrightarrow> rounds v w' \<Longrightarrow> w = w'"
  using rounds_mono by (meson order_antisym order_refl)

section \<open>The operations\<close>

lemma rounded_0 [simp]: "rounded d 0 = 0"
  by (simp add: rounded_def round_half_even_def)

lemma finish_rounds: "rounds (val (Dec s c e)) (val (finish s c e))"
  unfolding rounds_def finish_val
  by (intro exI [of _ "(if s then - 1 else 1) * int c"] exI [of _ e])
     (cases s; cases "c = 0"; simp add: rounded_int_def)

lemma add_rounds: "rounds (val x + val y) (val (dec_add x y))"
proof -
  let ?e = "min (dec_exp x) (dec_exp y)"
  define n where "n = scaled ?e x + scaled ?e y"
  have "val x + val y = of_int n * 10 powi ?e"
    using scaled_val [of ?e x] scaled_val [of ?e y] by (simp add: n_def algebra_simps)
  also have "\<dots> = val (Dec (if n = 0 then dec_neg x \<and> dec_neg y else n < 0) (nat \<bar>n\<bar>) ?e)"
    by (cases "n = 0"; cases "n < 0"; simp)
  finally show ?thesis
    unfolding dec_add_def Let_def n_def [symmetric] by (simp only: finish_rounds)
qed

lemma val_negate [simp]: "val (dec_negate x) = - val x"
  by (simp add: dec_negate_def val_def)

lemma sub_rounds: "rounds (val x - val y) (val (dec_sub x y))"
  using add_rounds [of x "dec_negate y"] by (simp add: dec_sub_def)

lemma mul_rounds: "rounds (val x * val y) (val (dec_mul x y))"
proof -
  have "val x * val y = val (Dec (dec_neg x \<noteq> dec_neg y) (dec_coeff x * dec_coeff y) (dec_exp x + dec_exp y))"
    by (auto simp: val_def power_int_add)
  then show ?thesis unfolding dec_mul_def by (simp only: finish_rounds)
qed

lemma to_ideal_val: "to_ideal ideal c e = (c', e') \<Longrightarrow> of_nat c' * 10 powi e' = (of_nat c * 10 powi e :: rat)"
proof (induction ideal c e arbitrary: c' e' rule: to_ideal.induct)
  case (1 ideal c e)
  show ?case
  proof (cases "e < ideal \<and> c mod 10 = 0")
    case True
    then have "to_ideal ideal (c div 10) (e + 1) = (c', e')" using "1.prems" by (subst (asm) to_ideal.simps) simp
    then have "of_nat c' * 10 powi e' = (of_nat (c div 10) * 10 powi (e + 1) :: rat)" using "1.IH" True by simp
    also have "\<dots> = of_nat (c div 10 * 10) * 10 powi e" by (simp add: power_int_add)
    also have "c div 10 * 10 = c" using True by (simp add: div_mod_decomp [of c 10, symmetric] dvd_eq_mod_eq_0)
    finally show ?thesis .
  next
    case False
    then show ?thesis using "1.prems" by (subst (asm) to_ideal.simps) auto
  qed
qed

section \<open>Quotients\<close>

lemma rounded_whole:
  assumes "0 < d" and "n mod d = 0"
  shows "rounded 1 (n div d) = rounded d n"
proof -
  have "n = n div d * d" using assms(2) by auto
  then have "round_half_even n (d * 10 ^ k) = round_half_even (n div d) (10 ^ k)" for k
    using round_half_even_scale [of d "10 ^ k" "n div d"] assms(1) by (simp add: mult.commute)
  then show ?thesis by (simp add: rounded_def excess_def)
qed

lemma digit_count_sticky: "digit_count (sticky n d) = digit_count (n div d)"
proof -
  have "digit_count (c + 1) = digit_count c" if "c mod 5 = 0" for c
  proof -
    have "c mod 10 mod 5 = 0" using that mod_mod_cancel [of 5 10 c] by simp
    then have "c mod 10 \<noteq> 9" by auto
    then have "(c + 1) div 10 = c div 10" by (simp add: div_Suc mod_Suc)
    moreover have "c \<noteq> 9" using that by auto
    then have "c + 1 < 10 \<longleftrightarrow> c < 10" by linarith
    ultimately show ?thesis using digit_count_step [of "c + 1"] digit_count_step [of c] by metis
  qed
  then show ?thesis by (auto simp: sticky_def Let_def)
qed

lemma half_above: "(a :: nat) \<le> 2 * b \<Longrightarrow> 0 < r \<Longrightarrow> a < 2 * (b + r)"
  by simp

lemma half_below: "2 * b + 2 * d \<le> (a :: nat) \<Longrightarrow> r < d \<Longrightarrow> 2 * (b + r) < a"
  by simp

text \<open>The sticky digit makes the second rounding as good as one of the exact quotient.\<close>

lemma rounded_sticky:
  assumes "0 < d" and "precision < digit_count (n div d)"
  shows "rounded 1 (sticky n d) = rounded d n"
proof (cases "n mod d = 0")
  case True
  then show ?thesis using rounded_whole [OF assms(1)] by (simp add: sticky_def Let_def)
next
  case False
  let ?c = "n div d" and ?k = "excess d n" and ?r = "n mod d"
  define m where "m = (10 :: nat) ^ ?k"
  define c' where "c' = sticky n d"
  obtain j where k: "?k = Suc j" using assms(2) by (cases ?k) (auto simp: excess_def)
  define h where "h = 5 * (10 :: nat) ^ j"
  have m: "m = 2 * h" "h mod 5 = 0" "0 < h" by (simp_all add: m_def h_def k)
  have five: "5 dvd m" unfolding m(1) h_def by simp
  have c': "c' = (if ?c mod 5 = 0 then ?c + 1 else ?c)" using False by (simp add: c'_def sticky_def Let_def)
  have rem: "?c mod m mod 5 = ?c mod 5" using five by (rule mod_mod_cancel)
  have pred5: "(x + 1) mod 5 = 0 \<Longrightarrow> x mod 5 \<noteq> 0" for x :: nat
    by (auto simp: mod_Suc split: if_splits)
  have next_ok: "?c mod m + 1 < m" if "?c mod 5 = 0"
  proof (rule ccontr)
    assume "\<not> ?c mod m + 1 < m"
    then have "?c mod m + 1 = m" using m(1,3) mod_less_divisor [of m ?c] by linarith
    moreover have "m mod 5 = 0" using five by auto
    ultimately show False using that rem pred5 [of "?c mod m"] by simp
  qed
  have div: "c' div m = ?c div m" "c' mod m = ?c mod m + (c' - ?c)"
  proof -
    have "(?c + 1) div m = ?c div m \<and> (?c + 1) mod m = ?c mod m + 1" if "?c mod 5 = 0"
    proof -
      have "Suc (?c mod m) \<noteq> m" using next_ok [OF that] by linarith
      then show ?thesis by (simp add: div_Suc mod_Suc)
    qed
    then show "c' div m = ?c div m" "c' mod m = ?c mod m + (c' - ?c)" unfolding c' by auto
  qed
  have whole: "n div (d * m) = ?c div m" "n mod (d * m) = d * (?c mod m) + ?r"
    by (simp_all add: div_mult2_eq mod_mult2_eq)
  have r: "0 < ?r" "?r < d" using False assms(1) by simp_all
  have up: "d * m < 2 * (d * (?c mod m) + ?r) \<longleftrightarrow> m < 2 * (c' mod m)"
    and tie: "2 * (d * (?c mod m) + ?r) \<noteq> d * m" "2 * (c' mod m) \<noteq> m"
  proof -
    consider "h \<le> ?c mod m" | "?c mod m + 1 \<le> h" by linarith
    then consider "m \<le> 2 * (?c mod m)" | "2 * (?c mod m) + 2 \<le> m"
      by cases (use m(1) in simp_all)
    then have "(d * m < 2 * (d * (?c mod m) + ?r) \<longleftrightarrow> m < 2 * (c' mod m))
      \<and> 2 * (d * (?c mod m) + ?r) \<noteq> d * m \<and> 2 * (c' mod m) \<noteq> m"
    proof cases
      case 1
      then have "d * m \<le> d * (2 * (?c mod m))" by (rule mult_le_mono2)
      then have "d * m \<le> 2 * (d * (?c mod m))" by (simp only: mult.left_commute)
      moreover have "m < 2 * (c' mod m)"
      proof (cases "2 * (?c mod m) = m")
        case True
        then have "?c mod m = h" using m(1) by simp
        then have "?c mod 5 = 0" using rem m(2) by simp
        then show ?thesis using True div(2) by (simp add: c')
      qed (use 1 div(2) in simp)
      moreover from calculation have "d * m < 2 * (d * (?c mod m) + ?r)" using r(1) half_above by blast
      ultimately show ?thesis by simp
    next
      case 2
      then have "d * (2 * (?c mod m) + 2) \<le> d * m" by (rule mult_le_mono2)
      then have "2 * (d * (?c mod m)) + 2 * d \<le> d * m" by (simp only: distrib_left mult.left_commute mult.commute)
      moreover have "2 * (c' mod m) < m"
      proof (cases "?c mod 5 = 0")
        case True
        have "2 * (?c mod m) + 2 \<noteq> m"
        proof
          assume "2 * (?c mod m) + 2 = m"
          then have "h = ?c mod m + 1" using m(1) by simp
          then show False using True rem m(2) pred5 [of "?c mod m"] by simp
        qed
        then show ?thesis using 2 True div(2) by (simp add: c')
      qed (use 2 div(2) in \<open>simp add: c'\<close>)
      moreover from calculation have "2 * (d * (?c mod m) + ?r) < d * m" using r(2) half_below by blast
      ultimately show ?thesis by simp
    qed
    then show "d * m < 2 * (d * (?c mod m) + ?r) \<longleftrightarrow> m < 2 * (c' mod m)"
      and "2 * (d * (?c mod m) + ?r) \<noteq> d * m" and "2 * (c' mod m) \<noteq> m" by blast+
  qed
  have "round_half_even n (d * m) = round_half_even c' m"
    unfolding round_half_even_def Let_def div whole using up tie div(2) by simp
  then show ?thesis
    using digit_count_sticky [of n d] by (simp add: rounded_def excess_def m_def c'_def)
qed

lemma rounded_divisor:
  assumes "0 < d" and "precision < digit_count (n div (d * 10 ^ a))"
  shows "rounded (d * 10 ^ a) n * 10 ^ a = rounded d n"
proof -
  let ?q = "n div (d * 10 ^ a)"
  have pos: "0 < ?q" using assms(2) by (cases ?q) (auto simp: digit_count_step [of 0] precision_def)
  obtain c where c: "digit_count ?q = Suc c" using digit_count_pos by (metis gr0_implies_Suc)
  have q: "?q = n div d div 10 ^ a" by (simp add: div_mult2_eq)
  have "10 ^ c \<le> ?q" using pow_digits_le [OF pos] c by simp
  then have 1: "10 ^ (c + a) \<le> n div d" unfolding q by (simp add: less_eq_div_iff_mult_less_eq power_add)
  have "?q < 10 ^ Suc c" using less_pow_digits [of ?q] c by simp
  then have "n div d < 10 ^ Suc (c + a)" unfolding q by (simp add: div_less_iff_less_mult power_add algebra_simps)
  then have "digit_count (n div d) = Suc (c + a)" using 1 digit_count_unique by blast
  then have "excess d n = excess (d * 10 ^ a) n + a" using c assms(2) by (simp add: excess_def)
  then show ?thesis by (simp add: rounded_def power_add mult.assoc mult.left_commute mult.commute)
qed

text \<open>A quotient of coefficients, at every scale that is fine enough.\<close>

definition quotient_at :: "nat \<Rightarrow> nat \<Rightarrow> int \<Rightarrow> nat \<Rightarrow> rat" where
  "quotient_at d c e j = of_nat (rounded d (c * 10 ^ j)) * 10 powi (e - int j)"

lemma quotient_digits:
  assumes "0 < c" and "0 < d" and "n = c * 10 ^ i" and "m = d * 10 ^ k"
    and "int i - int k = int (digit_count d) - int (digit_count c) + int precision + 1"
  shows "precision < digit_count (n div m)"
proof -
  obtain x y where x: "digit_count c = Suc x" and y: "digit_count d = Suc y"
    using digit_count_pos by (metis gr0_implies_Suc)
  have i: "x + i = y + precision + 1 + k" using assms(5) x y by linarith
  have "10 ^ x \<le> c" using pow_digits_le [OF assms(1)] x by simp
  then have "10 ^ (x + i) \<le> n" by (simp add: assms(3) power_add)
  moreover have "m < 10 ^ Suc y * 10 ^ k" using less_pow_digits [of d] y by (simp add: assms(4))
  then have "10 ^ precision * m \<le> 10 ^ precision * (10 ^ Suc y * 10 ^ k)" by simp
  then have "10 ^ precision * m \<le> 10 ^ (x + i)" unfolding i by (simp add: power_add algebra_simps)
  ultimately have "10 ^ precision * m \<le> n" by linarith
  then have "10 ^ precision \<le> n div m" using assms(2,4) by (simp add: less_eq_div_iff_mult_less_eq)
  then show ?thesis by (rule digit_count_gt)
qed

lemma div_value:
  assumes "0 < c" and "0 < d"
  obtains i where "val (dec_div (Dec False c ex) (Dec False d ey)) = quotient_at d c (ex - ey) i"
    and "precision < digit_count (c * 10 ^ i div d)"
proof -
  define shift where "shift = int (digit_count d) - int (digit_count c) + int precision + 1"
  define n where "n = c * 10 ^ nat shift"
  define k where "k = nat (- shift)"
  define e where "e = ex - ey - shift"
  let ?m = "d * 10 ^ k"
  have dig: "precision < digit_count (n div ?m)"
    by (rule quotient_digits [OF assms n_def refl]) (simp add: k_def shift_def)
  have m: "0 < ?m" using assms(2) by simp
  have "val (dec_div (Dec False c ex) (Dec False d ey)) = of_nat (rounded ?m n) * 10 powi e"
  proof (cases "n mod ?m = 0")
    case False
    then have "dec_div (Dec False c ex) (Dec False d ey) = finish False (sticky n ?m) e"
      using assms by (simp add: dec_div_def Let_def n_def k_def shift_def e_def)
    then show ?thesis using rounded_sticky [OF m dig] by (simp add: finish_val)
  next
    case True
    obtain c' e' where c': "to_ideal (ex - ey) (n div ?m) e = (c', e')" by fastforce
    then have "dec_div (Dec False c ex) (Dec False d ey) = finish False c' e'"
      using assms True by (simp add: dec_div_def Let_def n_def k_def shift_def e_def)
    moreover have "val (finish False c' e') = val (finish False (n div ?m) e)"
    proof (rule rounds_unique [OF finish_rounds])
      have "val (Dec False c' e') = val (Dec False (n div ?m) e)" using to_ideal_val [OF c'] by simp
      then show "rounds (val (Dec False c' e')) (val (finish False (n div ?m) e))" by (simp only: finish_rounds)
    qed
    ultimately show ?thesis using rounded_whole [OF m True] by (simp add: finish_val)
  qed
  moreover have "of_nat (rounded ?m n) * (10 :: rat) powi e = of_nat (rounded d n) * 10 powi (e - int k)"
    using powi_shift [of "e - int k" k] by (simp flip: rounded_divisor [OF assms(2) dig])
  moreover have "e - int k = ex - ey - int (nat shift)" by (simp add: e_def k_def)
  ultimately have "val (dec_div (Dec False c ex) (Dec False d ey)) = quotient_at d c (ex - ey) (nat shift)"
    by (simp add: quotient_at_def n_def)
  moreover have "precision < digit_count (c * 10 ^ nat shift div d)"
    using dig digit_count_mono [of "n div ?m" "n div d"] assms(2)
    by (simp add: n_def div_le_mono2 flip: n_def)
  ultimately show thesis by (rule that)
qed

lemma quotient_finer:
  assumes "0 < d" and "precision < digit_count (c * 10 ^ i div d)"
  shows "quotient_at d c e (i + j) = quotient_at d c e i"
proof -
  have "rounded d (c * 10 ^ i * 10 ^ j) = rounded d (c * 10 ^ i) * 10 ^ j"
    by (rule rounded_scale [OF assms(1)]) (use assms(2) in simp)
  moreover have "(10 :: rat) powi (e - int i) = 10 ^ j * 10 powi (e - int (i + j))"
    using powi_shift [of "e - int (i + j)" j] by simp
  ultimately show ?thesis by (simp add: quotient_at_def power_add mult.assoc)
qed

lemma div_zero: "dec_coeff x = 0 \<Longrightarrow> val (dec_div x y) = 0"
  by (simp add: dec_div_def Let_def finish_val)

lemma powi_pos [simp]: "(0 :: rat) < 10 powi e" "\<not> (10 :: rat) powi e \<le> 0" "\<not> (10 :: rat) powi e < 0"
  by (simp_all add: not_le not_less)

lemma val_zero: "0 \<le> val x \<Longrightarrow> dec_neg x \<Longrightarrow> dec_coeff x = 0"
  by (auto simp: val_def mult_le_0_iff)

lemma val_pos: "0 < val x \<longleftrightarrow> \<not> dec_neg x \<and> 0 < dec_coeff x"
  by (auto simp: val_def zero_less_mult_iff mult_less_0_iff)

lemma div_nonneg:
  assumes "0 \<le> val x" and "\<not> dec_neg y" and "0 < dec_coeff y"
  shows "0 \<le> val (dec_div x y)"
proof (cases "dec_coeff x = 0")
  case False
  then obtain c ex where x: "x = Dec False c ex" "0 < c" using val_zero [OF assms(1)] by (cases x) auto
  obtain d ey where y: "y = Dec False d ey" "0 < d" using assms(2,3) by (cases y) auto
  obtain i where "val (dec_div x y) = quotient_at d c (ex - ey) i" using div_value [of c d ex ey] x y by auto
  then show ?thesis by (simp add: quotient_at_def)
qed (simp add: div_zero)

lemma div_mono:
  assumes "0 \<le> val x" and "\<not> dec_neg y" and "0 < dec_coeff y" and "val x \<le> val x'"
  shows "val (dec_div x y) \<le> val (dec_div x' y)"
proof (cases "dec_coeff x = 0 \<or> dec_coeff x' = 0")
  case True
  have "0 \<le> val x'" using assms(1,4) by (rule order_trans)
  have "dec_coeff x = 0"
  proof (rule ccontr)
    assume "dec_coeff x \<noteq> 0"
    then have "0 < val x" using val_zero [OF assms(1)] by (auto simp: val_pos)
    then have "0 < val x'" using assms(4) by (rule less_le_trans)
    then show False using True \<open>dec_coeff x \<noteq> 0\<close> by (simp add: val_pos)
  qed
  then show ?thesis using div_zero [of x y] div_nonneg [OF \<open>0 \<le> val x'\<close> assms(2,3)] by simp
next
  case False
  obtain c ex where x: "x = Dec False c ex" "0 < c" using False val_zero [OF assms(1)] by (cases x) auto
  obtain c' ex' where x': "x' = Dec False c' ex'" "0 < c'"
    using False val_zero [OF order_trans [OF assms(1,4)]] by (cases x') auto
  obtain d ey where y: "y = Dec False d ey" "0 < d" using assms(2,3) by (cases y) auto
  show ?thesis
  proof -
    obtain i where i: "val (dec_div x y) = quotient_at d c (ex - ey) i" "precision < digit_count (c * 10 ^ i div d)"
      using div_value [of c d ex ey] y x by auto
    obtain i' where i': "val (dec_div x' y) = quotient_at d c' (ex' - ey) i'" "precision < digit_count (c' * 10 ^ i' div d)"
      using div_value [of c' d ex' ey] y x' by auto
    define f where "f = min (ex - int i) (ex' - int i')"
    define j where "j = nat (ex - f)"
    define j' where "j' = nat (ex' - f)"
    have j: "j = i + (j - i)" "ex - int j = f" "j' = i' + (j' - i')" "ex' - int j' = f"
      by (auto simp: j_def j'_def f_def)
    have v: "val (dec_div x y) = of_nat (rounded d (c * 10 ^ j)) * 10 powi (f - ey)"
      using quotient_finer [OF y(2) i(2), of "ex - ey" "j - i"] i(1) j(1,2)
      by (simp add: quotient_at_def algebra_simps)
    have v': "val (dec_div x' y) = of_nat (rounded d (c' * 10 ^ j')) * 10 powi (f - ey)"
      using quotient_finer [OF y(2) i'(2), of "ex' - ey" "j' - i'"] i'(1) j(3,4)
      by (simp add: quotient_at_def algebra_simps)
    have "val x = of_nat (c * 10 ^ j) * 10 powi f" "val x' = of_nat (c' * 10 ^ j') * 10 powi f"
      using powi_shift [of f j] powi_shift [of f j'] j(2,4) by (simp_all add: x x' algebra_simps)
    then have "(of_nat (c * 10 ^ j) :: rat) * 10 powi f \<le> of_nat (c' * 10 ^ j') * 10 powi f" using assms(4) by simp
    then have "c * 10 ^ j \<le> c' * 10 ^ j'"
      by (metis mult_le_cancel_right_pos of_nat_le_iff zero_less_numeral zero_less_power_int)
    then have "rounded d (c * 10 ^ j) \<le> rounded d (c' * 10 ^ j')" by (rule rounded_mono [OF y(2)])
    then show ?thesis unfolding v v' by (intro mult_right_mono) (simp_all only: of_nat_le_iff, simp)
  qed
qed

lemma rounded_ratio_close:
  assumes "0 < d" and "precision < digit_count (n div d)"
  shows "2 * 10 ^ (precision - 1) * \<bar>int (rounded d n * d) - int n\<bar> \<le> int n"
proof -
  let ?k = "excess d n"
  have pos: "0 < n div d" using assms(2) by (cases "n div d") (auto simp: digit_count_step [of 0] precision_def)
  have "\<bar>2 * int (rounded d n * d) - 2 * int n\<bar> \<le> int (d * 10 ^ ?k)"
    using round_half_even_close [of "d * 10 ^ ?k" n] assms(1) by (simp add: rounded_def ac_simps)
  moreover have "\<bar>2 * a - 2 * b\<bar> = 2 * \<bar>a - b\<bar>" for a b :: int by arith
  ultimately have "2 * \<bar>int (rounded d n * d) - int n\<bar> \<le> int (d * 10 ^ ?k)" by metis
  then have "10 ^ (precision - 1) * (2 * \<bar>int (rounded d n * d) - int n\<bar>) \<le> 10 ^ (precision - 1) * int (d * 10 ^ ?k)"
    by (rule mult_left_mono) simp
  also have "\<dots> = int (10 ^ (digit_count (n div d) - 1) * d)"
  proof -
    have "digit_count (n div d) - 1 = precision - 1 + ?k" using assms(2) by (simp add: excess_def precision_def)
    then show ?thesis by (simp add: power_add)
  qed
  also have "\<dots> \<le> int (n div d * d)" using pow_digits_le [OF pos] by (intro of_nat_mono mult_le_mono1)
  also have "\<dots> \<le> int n" by (intro of_nat_mono) simp
  finally show ?thesis by simp
qed

lemma div_close:
  assumes "0 \<le> val x" and "\<not> dec_neg y" and "0 < dec_coeff y"
  shows "2 * 10 ^ (precision - 1) * \<bar>val (dec_div x y) * val y - val x\<bar> \<le> val x"
proof (cases "dec_coeff x = 0")
  case True
  moreover have "val x = 0" using True by (simp add: val_def)
  ultimately show ?thesis using div_zero [of x y] by simp
next
  case False
  obtain c ex where x: "x = Dec False c ex" "0 < c" using False val_zero [OF assms(1)] by (cases x) auto
  obtain d ey where y: "y = Dec False d ey" "0 < d" using assms(2,3) by (cases y) auto
  obtain i where i: "val (dec_div x y) = quotient_at d c (ex - ey) i" "precision < digit_count (c * 10 ^ i div d)"
    using div_value [of c d ex ey] y x by auto
  define n where "n = c * 10 ^ i"
  define p where "p = (10 :: rat) powi (ex - int i)"
  have e: "(10 :: rat) powi (ex - ey - int i) * 10 powi ey = p" by (simp add: p_def flip: power_int_add)
  have v: "val (dec_div x y) * val y = of_int (int (rounded d n * d)) * p"
  proof -
    have "val (dec_div x y) * val y = of_nat (rounded d n) * 10 powi (ex - ey - int i) * val y"
      unfolding i(1) by (simp add: quotient_at_def n_def)
    also have "\<dots> = of_nat (rounded d n) * of_nat d * (10 powi (ex - ey - int i) * 10 powi ey)"
      by (simp add: y)
    finally show ?thesis unfolding e by simp
  qed
  have w: "val x = of_int (int n) * p" using powi_shift [of "ex - int i" i] by (simp add: x n_def p_def ac_simps)
  have "(2 * 10 ^ (precision - 1) * of_int \<bar>int (rounded d n * d) - int n\<bar> :: rat) \<le> of_int (int n)"
    using rounded_ratio_close [OF y(2) i(2) [folded n_def]]
    by (metis (mono_tags, lifting) of_int_le_iff of_int_mult of_int_numeral of_int_power)
  then have "2 * 10 ^ (precision - 1) * of_int \<bar>int (rounded d n * d) - int n\<bar> * p \<le> of_int (int n) * p"
    by (rule mult_right_mono) (simp add: p_def)
  moreover have "\<bar>of_int a * p - of_int b * p\<bar> = of_int \<bar>a - b\<bar> * p" for a b :: int
    by (simp add: p_def abs_mult flip: left_diff_distrib of_int_diff)
  ultimately show ?thesis unfolding v w by (simp only: mult.assoc)
qed

section \<open>Monotonicity of the rounded operations\<close>

lemma sub_mono: "val x \<le> val x' \<Longrightarrow> val y' \<le> val y \<Longrightarrow> val (dec_sub x y) \<le> val (dec_sub x' y')"
  by (rule rounds_mono [OF sub_rounds sub_rounds]) linarith

lemma mul_mono:
  "0 \<le> val x \<Longrightarrow> val x \<le> val x' \<Longrightarrow> 0 \<le> val y \<Longrightarrow> val y \<le> val y' \<Longrightarrow> val (dec_mul x y) \<le> val (dec_mul x' y')"
  by (rule rounds_mono [OF mul_rounds mul_rounds]) (simp add: mult_mono)

lemma rounds_0: "rounds 0 0"
  using rounds_exact [of "Dec False 0 0"] by (simp add: digit_count_step [of 0] precision_def)

lemma mul_nonneg: "0 \<le> val x \<Longrightarrow> 0 \<le> val y \<Longrightarrow> 0 \<le> val (dec_mul x y)"
  by (rule rounds_mono [OF rounds_0 mul_rounds]) simp

lemma sub_nonneg: "val y \<le> val x \<Longrightarrow> 0 \<le> val (dec_sub x y)"
  by (rule rounds_mono [OF rounds_0 sub_rounds]) simp

text \<open>The relative error is below 10 to the power of -27.\<close>

lemma rounds_bounds:
  assumes "rounds v w" and "0 \<le> v"
  shows "w \<le> v * (1 + 1 / 100)" and "v * (1 - 1 / 100) \<le> w"
proof -
  have "2 * 10 ^ 27 * \<bar>w - v\<bar> \<le> v"
    using rounds_close [OF assms(1)] assms(2) by (simp add: precision_def)
  moreover have "100 * \<bar>w - v\<bar> \<le> 2 * 10 ^ 27 * \<bar>w - v\<bar>" by (rule mult_right_mono) simp_all
  ultimately have "100 * \<bar>w - v\<bar> \<le> v" by (rule order_trans [rotated])
  then have "100 * (w - v) \<le> v" and "100 * (v - w) \<le> v"
    using abs_ge_self [of "w - v"] abs_ge_minus_self [of "w - v"] by (auto intro: order_trans [rotated])
  then show "w \<le> v * (1 + 1 / 100)" "v * (1 - 1 / 100) \<le> w" by (simp_all add: algebra_simps)
qed

lemma mul_shrinks: "0 \<le> val x \<Longrightarrow> 0 \<le> val r \<Longrightarrow> val r \<le> 9 / 10 \<Longrightarrow> val (dec_mul x r) \<le> val x"
proof -
  assume a: "0 \<le> val x" "0 \<le> val r" "val r \<le> 9 / 10"
  have "val (dec_mul x r) \<le> val x * val r * (1 + 1 / 100)" by (rule rounds_bounds(1) [OF mul_rounds]) (use a in simp)
  also have "val x * val r \<le> val x * (9 / 10)" using a by (intro mult_left_mono)
  finally show ?thesis using a(1) by simp
qed

lemma mul_grows: "0 \<le> val x \<Longrightarrow> 11 / 10 \<le> val r \<Longrightarrow> val x \<le> val (dec_mul x r)"
proof -
  assume a: "0 \<le> val x" "11 / 10 \<le> val r"
  have "val x * (11 / 10) * (1 - 1 / 100) \<le> val x * val r * (1 - 1 / 100)"
    using a by (intro mult_right_mono mult_left_mono) simp_all
  also have "\<dots> \<le> val (dec_mul x r)" by (rule rounds_bounds(2) [OF mul_rounds]) (use a in simp)
  finally show ?thesis using a(1) by simp
qed

section \<open>Hundredths\<close>

definition nearest_cents :: "rat \<Rightarrow> int" where
  "nearest_cents v = (if v < 0 then - \<lfloor>- v * 100 + 1 / 2\<rfloor> else \<lfloor>v * 100 + 1 / 2\<rfloor>)"

lemma nearest_cents_mono:
  assumes "v \<le> w"
  shows "nearest_cents v \<le> nearest_cents w"
proof -
  have pos: "0 \<le> \<lfloor>u * 100 + 1 / 2\<rfloor>" if "0 \<le> u" for u :: rat using that by simp
  consider "w < 0" | "v < 0" "0 \<le> w" | "0 \<le> v" by linarith
  then show ?thesis
  proof cases
    case 1
    then show ?thesis using assms by (auto simp: nearest_cents_def intro!: floor_mono)
  next
    case 2
    then have "- \<lfloor>- v * 100 + 1 / 2\<rfloor> \<le> \<lfloor>w * 100 + 1 / 2\<rfloor>"
      using pos [of "- v"] pos [of w] by linarith
    then show ?thesis using 2 by (simp add: nearest_cents_def)
  next
    case 3
    then show ?thesis using assms by (auto simp: nearest_cents_def intro!: floor_mono)
  qed
qed

lemma to_cents_val:
  assumes "to_cents x = Some q"
  shows "val q = of_int (nearest_cents (val x)) / 100"
proof -
  let ?c = "dec_coeff x" and ?e = "dec_exp x"
  define h where "h = (if - 2 \<le> ?e then ?c * 10 ^ nat (?e + 2)
    else (2 * ?c + 10 ^ nat (- 2 - ?e)) div (2 * 10 ^ nat (- 2 - ?e)))"
  define v where "v = (of_nat ?c * 10 powi ?e :: rat)"
  have q: "q = Dec (dec_neg x) h (- 2)"
    using assms by (auto simp: to_cents_def Let_def h_def split: if_splits)
  have h: "\<lfloor>v * 100 + 1 / 2\<rfloor> = int h"
  proof (cases "- 2 \<le> ?e")
    case True
    have "(10 :: rat) powi ?e * 100 = 10 ^ nat (?e + 2)"
      using powi_shift [of "- 2" "nat (?e + 2)"] True by (simp add: power_int_minus field_simps)
    then have "v * 100 = of_nat h" using True by (simp add: v_def h_def mult.assoc)
    then show ?thesis by (simp add: floor_eq_iff)
  next
    case False
    let ?m = "(10 :: nat) ^ nat (- 2 - ?e)"
    have "(10 :: rat) powi ?e * 100 * of_nat ?m = 1"
      using powi_shift [of ?e "nat (- 2 - ?e)"] False by (simp add: power_int_minus field_simps)
    then have "v * 100 * of_nat ?m = of_nat ?c" by (simp add: v_def mult.assoc)
    then have "v * 100 + 1 / 2 = of_nat (2 * ?c + ?m) / of_nat (2 * ?m)" by (simp add: field_simps)
    then show ?thesis using False floor_divide_of_nat_eq [of "2 * ?c + ?m" "2 * ?m", where 'a = rat] by (simp add: h_def)
  qed
  have "0 \<le> v" by (simp add: v_def)
  moreover have "val x = (if dec_neg x then - v else v)" by (simp add: val_def v_def)
  ultimately have "nearest_cents (val x) = (if dec_neg x then - int h else int h)"
  proof (cases "dec_neg x \<and> v \<noteq> 0")
    case False
    have "h = 0" if "v = 0" using h that floor_eq_iff [of "1 / 2 :: rat" 0] by simp
    then show ?thesis using False h \<open>0 \<le> v\<close> \<open>val x = (if dec_neg x then - v else v)\<close>
      by (auto simp: nearest_cents_def)
  qed (use h in \<open>auto simp: nearest_cents_def\<close>)
  then show ?thesis by (simp add: q power_int_minus)
qed

lemma to_cents_mono:
  "to_cents x = Some q \<Longrightarrow> to_cents y = Some r \<Longrightarrow> val x \<le> val y \<Longrightarrow> val q \<le> val r"
  using nearest_cents_mono by (auto simp: to_cents_val divide_right_mono)

lemma to_cents_exp: "to_cents x = Some q \<Longrightarrow> dec_exp q = - 2"
  by (auto simp: to_cents_def Let_def split: if_splits)

text \<open>The text of such a number is read back as the number.\<close>

lemma remove_char: "remove_all [a] t = filter (\<lambda>c. c \<noteq> a) t"
  by (induction t) (simp_all add: remove_all.simps [of "[a]"])

lemma read_cents_text:
  assumes "dec_exp x = - 2"
  shows "read_cents (cents_text x) = x"
proof -
  let ?c = "dec_coeff x"
  have d: "filter (\<lambda>c. c \<noteq> 46) (filter (\<lambda>c. c \<noteq> 45) (dec_nat n)) = dec_nat n" for n
  proof -
    have "filter (\<lambda>c. c \<noteq> a) (dec_nat n) = dec_nat n" if "a \<in> {45, 46}" for a
      by (rule filter_True) (use that in \<open>auto dest!: dec_nat_digits simp: digit_char_def\<close>)
    then show ?thesis by simp
  qed
  have e: "48 + k \<noteq> 45 \<and> 48 + k \<noteq> (46 :: nat)" for k by simp
  have "undec 0 (dec_nat (?c div 100) @ [48 + ?c div 10 mod 10, 48 + ?c mod 10])
      = 10 * (10 * (?c div 100) + ?c div 10 mod 10) + ?c mod 10"
    by (simp add: undec_append)
  also have "\<dots> = ?c"
  proof -
    have "?c div 100 = ?c div 10 div 10" by (simp flip: div_mult2_eq)
    then show ?thesis by simp
  qed
  finally have v: "undec 0 (dec_nat (?c div 100) @ [48 + ?c div 10 mod 10, 48 + ?c mod 10]) = ?c" .
  have hd: "hd (cents_text x) = 45 \<longleftrightarrow> dec_neg x"
    using dec_nat_digits [of "hd (dec_nat (?c div 100))" "?c div 100"]
    by (auto simp: cents_text_def digit_char_def)
  have "remove_all [46] (remove_all [45] (cents_text x)) = dec_nat (?c div 100) @ [48 + ?c div 10 mod 10, 48 + ?c mod 10]"
    using d by (simp add: remove_char cents_text_def del: filter_filter)
  then show ?thesis using v hd assms by (simp add: read_cents_def Let_def) (cases x, simp)
qed

end
