(* ===== verification/EconomicsProps.thy ===== *)
theory EconomicsProps
  imports Economics DecimalRounding HandoffSample
begin

text \<open>
  The properties of the economic calculation and of the approval of a case.
\<close>

section \<open>The scenarios\<close>

lemma input_set_other: "k \<noteq> k' \<Longrightarrow> input_value (set_input k d vs) k' = input_value vs k'"
  by (induction vs) (auto simp: input_value_def set_input_def)

lemma input_set: "lit k \<in> fst ` set vs \<Longrightarrow> input_value (set_input k d vs) k = d"
  by (induction vs) (auto simp: input_value_def set_input_def)

lemma keys_set_input [simp]: "fst ` set (set_input k d vs) = fst ` set vs"
  by (induction vs) (auto simp: set_input_def)

lemma keys_scale_input [simp]: "fst ` set (scale_input k n vs) = fst ` set vs"
  by (simp add: scale_input_def)

lemma scale_other: "k \<noteq> k' \<Longrightarrow> input_value (scale_input k n vs) k' = input_value vs k'"
  by (simp add: scale_input_def input_set_other)

lemma scale_same:
  "lit k \<in> fst ` set vs \<Longrightarrow> input_value (scale_input k n vs) k = dec_mul (input_value vs k) (Dec False n (- 2))"
  by (simp add: scale_input_def input_set)

definition complete :: "economic_values \<Rightarrow> bool" where
  "complete vs \<longleftrightarrow> lit ` fst ` set required_inputs \<subseteq> fst ` set vs"

lemma low_inputs:
  assumes "complete vs"
  shows "input_value (low_values vs) ''annual_volume'' = dec_mul (input_value vs ''annual_volume'') (Dec False 90 (- 2))"
    and "input_value (low_values vs) ''current_minutes_per_item'' = input_value vs ''current_minutes_per_item''"
    and "input_value (low_values vs) ''target_minutes_per_item'' =
      dec_sub (input_value vs ''current_minutes_per_item'') (dec_mul (base_savings vs) (Dec False 80 (- 2)))"
    and "input_value (low_values vs) ''loaded_hourly_cost'' = dec_mul (input_value vs ''loaded_hourly_cost'') (Dec False 90 (- 2))"
    and "input_value (low_values vs) ''annual_operating_cost'' = dec_mul (input_value vs ''annual_operating_cost'') (Dec False 110 (- 2))"
  using assms by (simp_all add: low_values_def complete_def required_inputs_def input_set input_set_other scale_same scale_other)

lemma high_inputs:
  assumes "complete vs"
  shows "input_value (high_values vs) ''annual_volume'' = dec_mul (input_value vs ''annual_volume'') (Dec False 110 (- 2))"
    and "input_value (high_values vs) ''current_minutes_per_item'' = input_value vs ''current_minutes_per_item''"
    and "input_value (high_values vs) ''target_minutes_per_item'' = dec_max0
      (dec_sub (input_value vs ''current_minutes_per_item'') (dec_mul (base_savings vs) (Dec False 120 (- 2))))"
    and "input_value (high_values vs) ''loaded_hourly_cost'' = dec_mul (input_value vs ''loaded_hourly_cost'') (Dec False 110 (- 2))"
    and "input_value (high_values vs) ''annual_operating_cost'' = dec_mul (input_value vs ''annual_operating_cost'') (Dec False 90 (- 2))"
  using assms by (simp_all add: high_values_def complete_def required_inputs_def input_set input_set_other scale_same scale_other)

text \<open>Less volume, less time saved, cheaper labour and a higher cost give a smaller net benefit.\<close>

lemma net_mono:
  assumes "0 \<le> val (input_value vs ''annual_volume'')"
    and "val (input_value vs ''annual_volume'') \<le> val (input_value ws ''annual_volume'')"
    and "input_value vs ''current_minutes_per_item'' = input_value ws ''current_minutes_per_item''"
    and "val (input_value vs ''target_minutes_per_item'') \<le> val (input_value vs ''current_minutes_per_item'')"
    and "val (input_value ws ''target_minutes_per_item'') \<le> val (input_value vs ''target_minutes_per_item'')"
    and "0 \<le> val (input_value vs ''loaded_hourly_cost'')"
    and "val (input_value vs ''loaded_hourly_cost'') \<le> val (input_value ws ''loaded_hourly_cost'')"
    and "val (input_value ws ''annual_operating_cost'') \<le> val (input_value vs ''annual_operating_cost'')"
  shows "val (annual_net_benefit vs) \<le> val (annual_net_benefit ws)"
proof -
  let ?s = "\<lambda>xs. dec_sub (input_value xs ''current_minutes_per_item'') (input_value xs ''target_minutes_per_item'')"
  let ?m = "\<lambda>xs. dec_mul (input_value xs ''annual_volume'') (?s xs)"
  have sixty: "\<not> dec_neg (dec_of_nat 60)" "0 < dec_coeff (dec_of_nat 60)" by (simp_all add: dec_of_nat_def)
  have s: "0 \<le> val (?s vs)" "val (?s vs) \<le> val (?s ws)"
    using assms(3-5) by (auto intro!: sub_nonneg sub_mono)
  have m: "0 \<le> val (?m vs)" "val (?m vs) \<le> val (?m ws)"
    using assms(1,2) s by (auto intro!: mul_nonneg mul_mono)
  have h: "0 \<le> val (hours_saved vs)" "val (hours_saved vs) \<le> val (hours_saved ws)"
    unfolding hours_saved_def using m sixty by (auto intro!: div_nonneg div_mono)
  have "val (gross_labor_value vs) \<le> val (gross_labor_value ws)"
    unfolding gross_labor_value_def using h assms(6,7) by (intro mul_mono)
  then show ?thesis unfolding annual_net_benefit_def using assms(8) by (intro sub_mono)
qed

lemma check_inputs:
  assumes "check_economic_inputs vs cls = Inr ()"
  shows "complete vs" and "\<And>k v. (k, v) \<in> set vs \<Longrightarrow> 0 \<le> val v"
    and "val (input_value vs ''target_minutes_per_item'') \<le> val (input_value vs ''current_minutes_per_item'')"
proof -
  have run: "filter (\<lambda>k. k \<notin> set (map fst vs)) (map (lit \<circ> fst) required_inputs) = []"
    "\<forall>x \<in> set vs. check_economic_input cls x = Inr ()"
    "\<not> dec_less (input_value vs ''current_minutes_per_item'') (input_value vs ''target_minutes_per_item'')"
    using assms by (auto simp: check_economic_inputs_def Let_def result_simps all_ok_Inr sort_Nil_iff)
  show "complete vs" using run(1) by (auto simp: complete_def filter_empty_conv)
  show "0 \<le> val v" if "(k, v) \<in> set vs" for k v
    using run(2) that by (fastforce simp: check_economic_input_def result_simps dec_less_val dec_of_nat_def)
  show "val (input_value vs ''target_minutes_per_item'') \<le> val (input_value vs ''current_minutes_per_item'')"
    using run(3) by (simp add: dec_less_val)
qed

lemma input_value_in: "P (dec_of_nat 0) \<Longrightarrow> \<forall>(k, v) \<in> set vs. P v \<Longrightarrow> P (input_value vs k)"
  by (auto simp: input_value_def split: option.splits dest: map_of_SomeD)

text \<open>The inputs a calculation accepts, with coefficients that the context represents.\<close>

definition fair :: "economic_values \<Rightarrow> bool" where
  "fair vs \<longleftrightarrow> complete vs \<and> (\<forall>k. 0 \<le> val (input_value vs k) \<and> digit_count (dec_coeff (input_value vs k)) \<le> precision)
     \<and> val (input_value vs ''target_minutes_per_item'') \<le> val (input_value vs ''current_minutes_per_item'')"

lemma fair_inputs:
  assumes "check_economic_inputs vs cls = Inr ()" and "\<forall>(k, v) \<in> set vs. digit_count (dec_coeff v) \<le> 18"
  shows "fair vs"
proof -
  have "0 \<le> val (input_value vs k)" for k
    by (rule input_value_in) (use check_inputs(2) [OF assms(1)] in \<open>auto simp: dec_of_nat_def\<close>)
  moreover have "digit_count (dec_coeff (input_value vs k)) \<le> precision" for k
    by (rule input_value_in) (use assms(2) in \<open>auto simp: dec_of_nat_def digit_count_step [of 0] precision_def\<close>)
  ultimately show ?thesis using check_inputs(1,3) [OF assms(1)] by (simp add: fair_def)
qed

lemma savings_bounds:
  assumes "fair vs"
  defines "C \<equiv> val (input_value vs ''current_minutes_per_item'')" and "T \<equiv> val (input_value vs ''target_minutes_per_item'')"
  shows "val (dec_mul (base_savings vs) (Dec False 80 (- 2))) \<le> C - T"
    and "0 \<le> val (dec_mul (base_savings vs) (Dec False 80 (- 2)))"
    and "C - T \<le> val (dec_mul (base_savings vs) (Dec False 120 (- 2)))"
proof -
  have d: "0 \<le> C - T" using assms(1) by (simp add: fair_def C_def T_def)
  have "rounds (C - T) (val (base_savings vs))" unfolding C_def T_def base_savings_def by (rule sub_rounds)
  note s = rounds_bounds [OF this d]
  have s0: "0 \<le> val (base_savings vs)" by (rule order_trans [OF _ s(2)]) (use d in simp)
  have r: "val (Dec False 80 (- 2)) = 4 / 5" "val (Dec False 120 (- 2)) = 6 / 5" by (simp_all add: power_int_minus)
  show "0 \<le> val (dec_mul (base_savings vs) (Dec False 80 (- 2)))" using s0 r by (intro mul_nonneg) simp_all
  have "val (dec_mul (base_savings vs) (Dec False 80 (- 2))) \<le> val (base_savings vs) * (4 / 5) * (1 + 1 / 100)"
    using rounds_bounds(1) [OF mul_rounds, of "base_savings vs" "Dec False 80 (- 2)"] s0 r by simp
  also have "\<dots> \<le> C - T" using s(1) d by simp
  finally show "val (dec_mul (base_savings vs) (Dec False 80 (- 2))) \<le> C - T" .
  have "C - T \<le> val (base_savings vs) * (6 / 5) * (1 - 1 / 100)" using s(2) d by simp
  also have "\<dots> \<le> val (dec_mul (base_savings vs) (Dec False 120 (- 2)))"
    using rounds_bounds(2) [OF mul_rounds, of "base_savings vs" "Dec False 120 (- 2)"] s0 r by simp
  finally show "C - T \<le> val (dec_mul (base_savings vs) (Dec False 120 (- 2)))" .
qed

lemma scenario_nets:
  assumes "fair vs"
  shows "val (annual_net_benefit (low_values vs)) \<le> val (annual_net_benefit vs)"
    and "val (annual_net_benefit vs) \<le> val (annual_net_benefit (high_values vs))"
proof -
  have c: "complete vs" using assms by (simp add: fair_def)
  have pos: "0 \<le> val (input_value vs k)" for k using assms by (simp add: fair_def)
  have exact: "rounds (val (input_value vs k)) (val (input_value vs k))" for k
    using assms by (intro rounds_exact) (simp add: fair_def)
  have TC: "val (input_value vs ''target_minutes_per_item'') \<le> val (input_value vs ''current_minutes_per_item'')"
    using assms by (simp add: fair_def)
  have r: "val (Dec False 90 (- 2)) = 9 / 10" "val (Dec False 110 (- 2)) = 11 / 10" by (simp_all add: power_int_minus)
  have shrink: "val (dec_mul (input_value vs k) (Dec False 90 (- 2))) \<le> val (input_value vs k)"
    and shrunk: "0 \<le> val (dec_mul (input_value vs k) (Dec False 90 (- 2)))"
    and grow: "val (input_value vs k) \<le> val (dec_mul (input_value vs k) (Dec False 110 (- 2)))" for k
    using pos r by (auto intro!: mul_shrinks mul_grows mul_nonneg)
  note sav = savings_bounds [OF assms]
  let ?low = "dec_sub (input_value vs ''current_minutes_per_item'') (dec_mul (base_savings vs) (Dec False 80 (- 2)))"
  let ?high = "dec_sub (input_value vs ''current_minutes_per_item'') (dec_mul (base_savings vs) (Dec False 120 (- 2)))"
  have low: "val (input_value vs ''target_minutes_per_item'') \<le> val ?low"
    "val ?low \<le> val (input_value vs ''current_minutes_per_item'')"
    using sav(1,2) by (auto intro: rounds_mono [OF exact sub_rounds] rounds_mono [OF sub_rounds exact])
  have "val ?high \<le> val (input_value vs ''target_minutes_per_item'')"
    using sav(3) by (intro rounds_mono [OF sub_rounds exact]) simp
  then have high: "val (dec_max0 ?high) \<le> val (input_value vs ''target_minutes_per_item'')"
    using pos by (simp add: dec_max0_def dec_of_nat_def)
  show "val (annual_net_benefit (low_values vs)) \<le> val (annual_net_benefit vs)"
    by (rule net_mono) (simp_all add: low_inputs [OF c] shrink shrunk grow low)
  show "val (annual_net_benefit vs) \<le> val (annual_net_benefit (high_values vs))"
    by (rule net_mono) (simp_all add: high_inputs [OF c] shrink grow high pos TC)
qed

section \<open>The figures\<close>

lemma cents_or_fail_cases:
  obtains "cents_or_fail x = Inl InvalidOperation" | q where "to_cents x = Some q" and "cents_or_fail x = Inr (cents_text q)"
  by (cases "to_cents x") (auto simp: cents_or_fail_def)

lemma cents_or_fail_Inl [simp]: "cents_or_fail x = Inl e \<Longrightarrow> e = InvalidOperation"
  by (auto simp: cents_or_fail_def split: option.splits)

lemma calculate_outputs_net:
  "calculate_outputs vs = Inr o' \<Longrightarrow>
     \<exists>q. to_cents (annual_net_benefit vs) = Some q \<and> read_cents (eo_net o') = q"
  by (auto simp: calculate_outputs_def Let_def result_simps cents_or_fail_def read_cents_text to_cents_exp
      split: option.splits)

lemma mapE_Inl: "mapE f xs = Inl e \<Longrightarrow> \<exists>x \<in> set xs. f x = Inl e"
  by (induction xs) (auto simp: bindE_eq_Inl split: sum.splits)

lemma calculate_outputs_Inl: "calculate_outputs vs = Inl e \<Longrightarrow> e = InvalidOperation"
  by (auto simp: calculate_outputs_def Let_def bindE_eq_Inl split: option.splits if_splits)

lemma render_inputs_Inl: "render_inputs vs cls name = Inl e \<Longrightarrow> e = InvalidOperation"
  by (auto simp: render_inputs_def bindE_eq_Inl dest!: mapE_Inl)

lemma render_scenario_Inl: "render_scenario cls sc = Inl e \<Longrightarrow> e = InvalidOperation"
  by (auto simp: render_scenario_def bindE_eq_Inl split: prod.splits dest: calculate_outputs_Inl render_inputs_Inl)

lemma scenario_outputs:
  assumes "mapE (render_scenario cls) (scenario_values vs) = Inr scs"
  obtains l b h where "scs = [l, b, h]" and "calculate_outputs (low_values vs) = Inr (snd (snd l))"
    and "calculate_outputs (high_values vs) = Inr (snd (snd h))"
  using assms by (auto simp: scenario_values_def result_simps render_scenario_def)

lemma figures_monotonic:
  assumes "fair vs"
  shows "economic_figures vs cls = Inl InvalidOperation \<or> (\<exists>r. economic_figures vs cls = Inr r)"
proof (cases "economic_figures vs cls")
  case (Inl e)
  show ?thesis
  proof (rule ccontr)
    assume "\<not> ?thesis"
    then have e: "e \<noteq> InvalidOperation" using Inl by simp
    obtain scs outs where run: "mapE (render_scenario cls) (scenario_values vs) = Inr scs"
      "calculate_outputs vs = Inr outs"
      and bad: "\<not> (dec_le (read_cents (eo_net (snd (snd (scs ! 0))))) (read_cents (eo_net outs))
        \<and> dec_le (read_cents (eo_net outs)) (read_cents (eo_net (snd (snd (scs ! 2))))))"
      using Inl e unfolding economic_figures_def bindE_eq_Inl Let_def
      by (auto simp: require_eq_Inl dest!: mapE_Inl dest: render_scenario_Inl calculate_outputs_Inl render_inputs_Inl)
    obtain l b h where sc: "scs = [l, b, h]" "calculate_outputs (low_values vs) = Inr (snd (snd l))"
      "calculate_outputs (high_values vs) = Inr (snd (snd h))" by (rule scenario_outputs [OF run(1)])
    obtain ql q qh where q: "to_cents (annual_net_benefit (low_values vs)) = Some ql" "read_cents (eo_net (snd (snd l))) = ql"
      "to_cents (annual_net_benefit vs) = Some q" "read_cents (eo_net outs) = q"
      "to_cents (annual_net_benefit (high_values vs)) = Some qh" "read_cents (eo_net (snd (snd h))) = qh"
      using calculate_outputs_net [OF sc(2)] calculate_outputs_net [OF sc(3)] calculate_outputs_net [OF run(2)] by blast
    then show False
      using bad scenario_nets [OF assms] to_cents_mono by (simp add: sc(1) dec_le_val)
  qed
qed simp

text \<open>
  C32: the sensitivity check never fails: for the inputs the interface accepts (not negative, at most
  18 digits, the target not above the current minutes) the net benefit of the low scenario is at most
  that of the base and that at most the one of the high scenario, in spite of every intermediate
  rounding, so the only way the figures can fail is a result too long for the decimal context.
\<close>

theorem scenarios_monotonic:
  assumes "check_economic_inputs vs cls = Inr ()" and "\<forall>(k, v) \<in> set vs. digit_count (dec_coeff v) \<le> 18"
  shows "val (annual_net_benefit (low_values vs)) \<le> val (annual_net_benefit vs)
    \<and> val (annual_net_benefit vs) \<le> val (annual_net_benefit (high_values vs))
    \<and> (economic_figures vs cls = Inl InvalidOperation \<or> (\<exists>r. economic_figures vs cls = Inr r))"
  using scenario_nets figures_monotonic fair_inputs [OF assms] by blast

definition sample_values :: "nat \<Rightarrow> economic_values" where
  "sample_values n =
     [(lit ''annual_volume'', Dec False n 0), (lit ''current_minutes_per_item'', Dec False n 0),
      (lit ''target_minutes_per_item'', Dec False 0 0), (lit ''loaded_hourly_cost'', Dec False 45 0),
      (lit ''implementation_cost'', Dec False 1000 0), (lit ''annual_operating_cost'', Dec False 125 (- 1))]"

definition sample_classes :: "(pystr \<times> pystr) list" where
  "sample_classes = map (\<lambda>(k, _). (lit k, lit ''measured'')) required_inputs"

lemmas sample_value_simps =
  sample_values_def sample_classes_def required_inputs_def check_economic_inputs_def check_economic_input_def
  dec_less_def dec_le_def scaled_def dec_of_nat_def valid_classifications_def input_value_def

lemma sample_inputs_ok: "check_economic_inputs (sample_values n) sample_classes = Inr ()"
  by (simp add: sample_value_simps)

theorem scenarios_monotonic_witness:
  "val (annual_net_benefit (low_values (sample_values 12))) \<le> val (annual_net_benefit (sample_values 12))"
  by (rule scenarios_monotonic [OF sample_inputs_ok, THEN conjunct1])
     (simp add: sample_values_def digit_count_step)

lemma sample_complete: "complete (sample_values n)"
  by (simp add: complete_def required_inputs_def sample_values_def)

text \<open>Rounding a literal: a short one stays, a long one loses its last \<open>k\<close> digits.\<close>

lemma finish_short: "n < 10 ^ 28 \<Longrightarrow> finish s n e = Dec s n e"
  using digit_count_le [of n 28] by (simp add: finish_def precision_def)

lemma finish_long:
  assumes "10 ^ (27 + k) \<le> n" and "n < 10 ^ Suc (27 + k)" and "0 < k"
    and "round_half_even n (10 ^ k) = q" and "q < 10 ^ 28"
  shows "finish s n e = Dec s q (e + int k)"
proof -
  have "digit_count n = Suc (27 + k)" using assms(1,2) by (rule digit_count_unique)
  moreover have "digit_count q \<le> 28" using assms(5) by (intro digit_count_le) simp_all
  ultimately show ?thesis using assms(3,4) by (simp add: finish_def precision_def)
qed

lemmas exact_sub = dec_sub_def dec_add_def dec_negate_def scaled_def Let_def finish_short

lemma large_hours: "to_cents (hours_saved (low_values (sample_values 99999999999999))) = None"
proof -
  let ?vs = "sample_values 99999999999999"
  have i: "input_value ?vs ''annual_volume'' = Dec False 99999999999999 0"
    "input_value ?vs ''current_minutes_per_item'' = Dec False 99999999999999 0"
    "input_value ?vs ''target_minutes_per_item'' = Dec False 0 0"
    by (simp_all add: sample_values_def input_value_def)
  have v: "dec_mul (Dec False 99999999999999 0) (Dec False 90 (- 2)) = Dec False 8999999999999910 (- 2)"
    by (simp add: dec_mul_def finish_short)
  have b: "base_savings ?vs = Dec False 99999999999999 0" by (simp add: base_savings_def i exact_sub)
  have t: "dec_sub (Dec False 99999999999999 0) (dec_mul (Dec False 99999999999999 0) (Dec False 80 (- 2)))
      = Dec False 1999999999999980 (- 2)"
    by (simp add: exact_sub dec_mul_def)
  have s: "dec_sub (Dec False 99999999999999 0) (Dec False 1999999999999980 (- 2)) = Dec False 7999999999999920 (- 2)"
    by (simp add: exact_sub)
  have m: "dec_mul (Dec False 8999999999999910 (- 2)) (Dec False 7999999999999920 (- 2))
      = Dec False 7199999999999856000000000001 0"
    using finish_long [of 4 71999999999998560000000000007200 _ False "- 4"]
    by (simp add: dec_mul_def round_half_even_def Let_def)
  have n: "digit_count 7199999999999856000000000001 = 28" "digit_count 60 = 2"
    using digit_count_unique [of 27 7199999999999856000000000001] digit_count_unique [of 1 60] by simp_all
  have q: "dec_div (Dec False 7199999999999856000000000001 0) (dec_of_nat 60) = Dec False 1199999999999976000000000000 (- 1)"
    using finish_long [of 2 119999999999997600000000000016 _ False "- 3"]
    by (simp add: dec_div_def n precision_def dec_of_nat_def sticky_def round_half_even_def Let_def)
  have "digit_count 11999999999999760000000000000 = 29"
    using digit_count_unique [of 28 11999999999999760000000000000] by simp
  then have "to_cents (Dec False 1199999999999976000000000000 (- 1)) = None"
    by (simp add: to_cents_def Let_def precision_def)
  then show ?thesis
    by (simp add: hours_saved_def low_inputs [OF sample_complete] i v b t s m q)
qed


section \<open>Approval\<close>

lemma economic_change_keeps_cases:
  assumes "stale_after_economic_change eid actor now s = Inr s'" and "mark_pending s"
  shows "economic_cases s' = economic_cases s"
proof -
  have "cascade_spec (lit ''The approved economic case changed.'') now (\<lambda>_. False) (\<lambda>_. False)
      (\<lambda>f. fo_engagement_id f = eid) (s\<lparr>artifacts := stale_artifacts eid (artifacts s)\<rparr>) s'"
    by (rule economic_entry) (use assms in \<open>simp_all add: stale_after_economic_change_def\<close>)
  then have "base_tables s' = base_tables (s\<lparr>artifacts := stale_artifacts eid (artifacts s)\<rparr>)"
    by (simp add: cascade_spec_def staled_def)
  from arg_cong [where f = economic_cases, OF this] show ?thesis by (simp add: base_tables_def)
qed

lemma inner_eq_Inr [result_simps]: "inner r = Inr x \<longleftrightarrow> r = Inr x"
  by (cases r) (simp_all add: inner_def)

lemma approve_caseE:
  assumes "approve_economic_case eid cid opr now s = Inr s'"
  obtains c s1 where "check_case_approval eid cid s = Inr c"
    and "stale_after_economic_change eid (Some (op_id opr)) now
      (s\<lparr>economic_cases := stale_other_approved eid cid (economic_cases s)\<rparr>) = Inr s1"
    and "economic_cases s' = flush (modify (\<lambda>x. ec_id x = cid) (approve_case (op_id opr) now) (economic_cases s1))"
    and "customer_models s' = flush (customer_models s1)" and "readiness_rows s' = flush (readiness_rows s1)"
    and "opportunities s' = flush (opportunities s1)" and "packages s' = flush (packages s1)"
  using assms that unfolding approve_economic_case_def Let_def by (auto simp: result_simps)

lemma others_unchanged_flush:
  assumes "others_unchanged eid s s1" and "customer_models s' = flush (customer_models s1)"
    and "readiness_rows s' = flush (readiness_rows s1)"
    and "opportunities s' = flush (opportunities s1)" and "packages s' = flush (packages s1)"
  shows "others_unchanged eid s s'"
  using assms by (simp add: others_unchanged_def current_flush)

lemma filter_key: "distinct (map key xs) \<Longrightarrow> x \<in> set xs \<Longrightarrow> filter (\<lambda>y. key y = key x) xs = [x]"
  by (induction xs) (auto simp: filter_empty_conv image_iff)


definition sample_economic_case :: "uuid \<Rightarrow> draft_status \<Rightarrow> economic_case" where
  "sample_economic_case k st = (new_case k 1 (uint k) 51 9)\<lparr>ec_status := st\<rparr>"

definition sample_target :: workflow where
  "sample_target = \<lparr>wf_id = 51, wf_engagement_id = 1, wf_kind = Target, wf_version = 1,
     wf_name = lit ''t'', wf_objective = lit ''o'', wf_status = Approved, wf_source_workflow_id = Some 50,
     wf_source_assertion_ids = [], wf_created_by_id = 9, wf_approved_by_id = Some 9, wf_approved_at = Some 1,
     wf_approval_reason = None\<rparr>"

definition sample_cases :: store where
  "sample_cases = empty_store\<lparr>engagements := from_rows [sample_engagement], workflows := from_rows [sample_target],
     economic_cases := from_rows [sample_economic_case 70 Approved, sample_economic_case 71 Draft]\<rparr>"

lemma no_handoff_accepted:
  "customer_models s = [] \<Longrightarrow> readiness_rows s = [] \<Longrightarrow> opportunities s = [] \<Longrightarrow> packages s = []
    \<Longrightarrow> factory_accepted s"
  using initial_well_formed [of s] by (simp add: initial_def well_formed_def settled_def)

lemma sample_cases_approve: "\<exists>s'. approve_economic_case 1 71 sample_owner 7 sample_cases = Inr s'"
proof -
  have "check_case_approval 1 71 sample_cases = Inr (sample_economic_case 71 Draft)"
    by (simp add: check_case_approval_def sample_cases_def session_get_def lookup_simps sample_engagement_def
      sample_economic_case_def sample_target_def new_case_def)
  moreover have "\<exists>s1. stale_after_economic_change 1 (Some (op_id sample_owner)) 7
      (sample_cases\<lparr>economic_cases := stale_other_approved 1 71 (economic_cases sample_cases)\<rparr>) = Inr s1
      \<and> customer_models s1 = [] \<and> readiness_rows s1 = [] \<and> opportunities s1 = [] \<and> packages s1 = []"
    by (simp add: stale_after_economic_change_def stale_all_after_economic_change_def lock_active_engagement_def
        sample_cases_def empty_store_def lookup_simps sample_engagement_def select_clean [OF clean_Nil] current_def)
  ultimately show ?thesis
    by (auto simp: approve_economic_case_def Let_def inner_def flush_session_accepted no_handoff_accepted)
qed

lemma sample_cases_fit:
  "well_formed sample_cases \<and> clean (economic_cases sample_cases)
   \<and> distinct (map ec_id (current (economic_cases sample_cases)))"
  by code_simp


end
