(* ===== verification/Regex.thy ===== *)
theory Regex
  imports Prelude
begin

text \<open>
  Python's \<open>re\<close> as the extractor and the text parser use it: a backtracking matcher that tries the
  alternatives in order, so that the first result is the match.  A pattern is a value of \<open>regex\<close>; a
  character class is the predicate of its code points.  The lemmas say that a match is a slice of the
  text, that \<open>finditer\<close> finds the matches in order without overlap, and that it passes over a
  position only if no match starts there.
\<close>

section \<open>Patterns\<close>

datatype regex =
    REps
  | RChar "nat \<Rightarrow> bool"
  | RSeq regex regex
  | RAlt regex regex
  | RStar bool regex
  | RGroup string regex
  | RLook regex
  | REnd
  | RTextEnd

text \<open>\<open>RStar True\<close> is the greedy repetition, \<open>RStar False\<close> the lazy one; \<open>REnd\<close> is \<open>$\<close> without MULTILINE.\<close>

definition rplus :: "bool \<Rightarrow> regex \<Rightarrow> regex" where
  "rplus greedy r = RSeq r (RStar greedy r)"

definition ropt :: "regex \<Rightarrow> regex" where
  "ropt r = RAlt r REps"

fun rseq :: "regex list \<Rightarrow> regex" where
  "rseq [] = REps"
| "rseq [r] = r"
| "rseq (r # r' # rs) = RSeq r (rseq (r' # rs))"

fun ralt :: "regex list \<Rightarrow> regex" where
  "ralt [] = REps"
| "ralt [r] = r"
| "ralt (r # r' # rs) = RAlt r (ralt (r' # rs))"

definition rtext :: "string \<Rightarrow> regex" where
  "rtext t = rseq (map (\<lambda>c. RChar (\<lambda>x. x = c)) (lit t))"

definition one_of :: "string \<Rightarrow> nat \<Rightarrow> bool" where
  "one_of cs x \<longleftrightarrow> x \<in> set (lit cs)"

definition between :: "nat \<Rightarrow> nat \<Rightarrow> nat \<Rightarrow> bool" where
  "between a b x \<longleftrightarrow> a \<le> x \<and> x \<le> b"

text \<open>
  A letter under IGNORECASE also matches the characters of the same simple case folding; beyond ASCII
  these are the dotted and dotless i, the long s and the Kelvin sign.
\<close>

definition letter_i :: "nat \<Rightarrow> nat \<Rightarrow> bool" where
  "letter_i c x \<longleftrightarrow> x = c \<or> (between 97 122 c \<and> x = c - 32) \<or> (between 65 90 c \<and> x = c + 32)
     \<or> (c \<in> {73, 105} \<and> x \<in> {304, 305}) \<or> (c \<in> {83, 115} \<and> x = 383) \<or> (c \<in> {75, 107} \<and> x = 8490)"

definition rtext_i :: "string \<Rightarrow> regex" where
  "rtext_i t = rseq (map (\<lambda>c. RChar (letter_i c)) (lit t))"

section \<open>Matching\<close>

record mstate =
  ms_pos :: nat
  ms_rest :: pystr
  ms_groups :: "(string \<times> pystr) list"

definition begin_at :: "nat \<Rightarrow> pystr \<Rightarrow> mstate" where
  "begin_at i t = \<lparr>ms_pos = i, ms_rest = t, ms_groups = []\<rparr>"

text \<open>The repetitions of a step, each of which has to consume something.\<close>

fun iterate :: "nat \<Rightarrow> bool \<Rightarrow> (mstate \<Rightarrow> mstate list) \<Rightarrow> mstate \<Rightarrow> mstate list" where
  "iterate 0 greedy f st = [st]"
| "iterate (Suc n) greedy f st =
     (let more = concat (map (\<lambda>st'. if ms_pos st < ms_pos st' then iterate n greedy f st' else []) (f st))
      in if greedy then more @ [st] else st # more)"

primrec run :: "regex \<Rightarrow> mstate \<Rightarrow> mstate list" where
  "run REps st = [st]"
| "run (RChar p) st = (case ms_rest st of [] \<Rightarrow> []
     | c # cs \<Rightarrow> if p c then [st\<lparr>ms_pos := ms_pos st + 1, ms_rest := cs\<rparr>] else [])"
| "run (RSeq r r') st = concat (map (run r') (run r st))"
| "run (RAlt r r') st = run r st @ run r' st"
| "run (RStar greedy r) st = iterate (length (ms_rest st)) greedy (run r) st"
| "run (RGroup n r) st = map (\<lambda>st'. st'\<lparr>ms_groups :=
     (n, take (ms_pos st' - ms_pos st) (ms_rest st)) # ms_groups st'\<rparr>) (run r st)"
| "run (RLook r) st = (case run r st of [] \<Rightarrow> [] | st' # _ \<Rightarrow> [st\<lparr>ms_groups := ms_groups st'\<rparr>])"
| "run REnd st = (if ms_rest st = [] \<or> ms_rest st = [10] then [st] else [])"
| "run RTextEnd st = (if ms_rest st = [] then [st] else [])"

record rmatch =
  mt_start :: nat
  mt_end :: nat
  mt_text :: pystr
  mt_groups :: "(string \<times> pystr) list"

definition match_of :: "nat \<Rightarrow> pystr \<Rightarrow> mstate \<Rightarrow> rmatch" where
  "match_of i t st = \<lparr>mt_start = i, mt_end = ms_pos st, mt_text = take (ms_pos st - i) t, mt_groups = ms_groups st\<rparr>"

text \<open>\<open>finditer\<close>: the search goes on where the last match ended; the fuel is the length of the text.\<close>

fun find_from :: "nat \<Rightarrow> regex \<Rightarrow> nat \<Rightarrow> pystr \<Rightarrow> rmatch list" where
  "find_from n r i [] = (case run r (begin_at i []) of [] \<Rightarrow> [] | st # _ \<Rightarrow> [match_of i [] st])"
| "find_from 0 r i (c # cs) = []"
| "find_from (Suc n) r i (c # cs) = (case run r (begin_at i (c # cs)) of
       [] \<Rightarrow> find_from n r (i + 1) cs
     | st # _ \<Rightarrow> match_of i (c # cs) st #
         (if ms_pos st = i then find_from n r (i + 1) cs else find_from n r (ms_pos st) (ms_rest st)))"

definition finditer :: "regex \<Rightarrow> pystr \<Rightarrow> rmatch list" where
  "finditer r t = find_from (length t) r 0 t"

definition group :: "string \<Rightarrow> rmatch \<Rightarrow> pystr" where
  "group n m = (case map_of (mt_groups m) n of Some t \<Rightarrow> t | None \<Rightarrow> [])"

section \<open>A match is a slice\<close>

definition later :: "mstate \<Rightarrow> mstate \<Rightarrow> bool" where
  "later st st' \<longleftrightarrow> (\<exists>k \<le> length (ms_rest st). ms_pos st' = ms_pos st + k \<and> ms_rest st' = drop k (ms_rest st))"

lemma later_refl [simp]: "later st st"
  unfolding later_def by (rule exI [of _ 0]) simp

lemma later_trans: "later a b \<Longrightarrow> later b c \<Longrightarrow> later a c"
  unfolding later_def by (elim exE conjE) (rule_tac x = "k + ka" in exI, auto simp: add.commute)

lemma later_pos: "later a b \<Longrightarrow> ms_pos a \<le> ms_pos b"
  by (auto simp: later_def)

lemma later_groups [simp]: "later a (b\<lparr>ms_groups := g\<rparr>) = later a b" "later (a\<lparr>ms_groups := g\<rparr>) b = later a b"
  by (simp_all add: later_def)

lemma iterate_later:
  assumes "\<And>s s'. s' \<in> set (f s) \<Longrightarrow> later s s'" and "st' \<in> set (iterate n greedy f st)"
  shows "later st st'"
  using assms(2)
proof (induction n arbitrary: st)
  case (Suc n)
  then consider "st' = st" | s where "s \<in> set (f st)" "st' \<in> set (iterate n greedy f s)"
    by (auto simp: Let_def split: if_splits)
  then show ?case
  proof cases
    case 2
    then show ?thesis using assms(1) Suc.IH later_trans by blast
  qed simp
qed simp

lemma run_later: "st' \<in> set (run r st) \<Longrightarrow> later st st'"
proof (induction r arbitrary: st st')
  case (RChar p)
  then show ?case
    by (cases "ms_rest st") (auto simp: later_def split: if_splits intro!: exI [of _ 1])
next
  case (RSeq r r')
  from RSeq.prems obtain st1 where "st1 \<in> set (run r st)" "st' \<in> set (run r' st1)" by auto
  then show ?case by (blast intro: later_trans RSeq.IH)
next
  case (RStar g r)
  show ?case by (rule iterate_later [OF RStar.IH]) (use RStar.prems in auto)
next
  case (RLook r)
  then show ?case by (auto split: list.splits)
qed (auto split: if_splits)

lemma find_from_slices:
  assumes "m \<in> set (find_from n r i t)"
  shows "i \<le> mt_start m \<and> mt_start m \<le> mt_end m \<and> mt_end m \<le> i + length t
    \<and> mt_text m = take (mt_end m - mt_start m) (drop (mt_start m - i) t)
    \<and> (\<exists>st \<in> set (run r (begin_at (mt_start m) (drop (mt_start m - i) t))). mt_groups m = ms_groups st \<and> mt_end m = ms_pos st)"
  using assms
proof (induction n r i t rule: find_from.induct)
  case (1 n r i)
  then obtain st where st: "st \<in> set (run r (begin_at i []))" "m = match_of i [] st"
    by (cases "run r (begin_at i [])") auto
  from run_later [OF st(1)] have "ms_pos st = i" by (auto simp: later_def begin_at_def)
  then show ?case using st by (auto simp: match_of_def intro!: bexI [of _ st])
next
  case (3 n r i c cs)
  have hit: ?case if "st \<in> set (run r (begin_at i (c # cs)))" and "m = match_of i (c # cs) st" for st
    using that run_later [OF that(1)] by (auto simp: match_of_def later_def begin_at_def)
  have rest: ?case if "m \<in> set (find_from n r (i + 1) cs)"
    and "i + 1 \<le> mt_start m \<and> mt_start m \<le> mt_end m \<and> mt_end m \<le> i + 1 + length cs
      \<and> mt_text m = take (mt_end m - mt_start m) (drop (mt_start m - (i + 1)) cs)
      \<and> (\<exists>st \<in> set (run r (begin_at (mt_start m) (drop (mt_start m - (i + 1)) cs))). mt_groups m = ms_groups st \<and> mt_end m = ms_pos st)"
  proof -
    have "drop (mt_start m - i) (c # cs) = drop (mt_start m - (i + 1)) cs"
      using that(2) by (simp add: drop_Cons')
    then show ?thesis using that(2) by auto
  qed
  show ?case
  proof (cases "run r (begin_at i (c # cs))")
    case Nil
    then show ?thesis using 3 rest by simp
  next
    case (Cons st sts)
    then have l: "later (begin_at i (c # cs)) st" using run_later [of st r "begin_at i (c # cs)"] by simp
    then obtain k where k: "k \<le> length (c # cs)" "ms_pos st = i + k" "ms_rest st = drop k (c # cs)"
      by (auto simp: later_def begin_at_def)
    consider "m = match_of i (c # cs) st" | "ms_pos st = i" "m \<in> set (find_from n r (i + 1) cs)"
      | "ms_pos st \<noteq> i" "m \<in> set (find_from n r (ms_pos st) (ms_rest st))"
      using "3.prems" Cons by (auto split: if_splits)
    then show ?thesis
    proof cases
      case 1
      then show ?thesis using hit Cons by auto
    next
      case 2
      then show ?thesis using "3.IH"(2) Cons rest by auto
    next
      case 3
      note ih = "3.IH"(3) [OF Cons 3]
      have d: "drop (mt_start m - i) (c # cs) = drop (mt_start m - ms_pos st) (ms_rest st)"
        using ih k by (simp add: add.commute)
      show ?thesis unfolding d using ih k by auto
    qed
  qed
qed simp

lemma finditer_slice:
  assumes "m \<in> set (finditer r t)"
  shows "mt_start m \<le> mt_end m" and "mt_end m \<le> length t"
    and "mt_text m = take (mt_end m - mt_start m) (drop (mt_start m) t)"
  using find_from_slices [OF assms [unfolded finditer_def]] by simp_all

section \<open>The search finds every match in order\<close>

lemma find_from_starts: "m \<in> set (find_from n r i t) \<Longrightarrow> i \<le> mt_start m"
  using find_from_slices by blast

lemma find_from_ordered: "sorted_wrt (\<lambda>a b. mt_end a \<le> mt_start b) (find_from n r i t)"
proof (induction n r i t rule: find_from.induct)
  case (3 n r i c cs)
  show ?case
  proof (cases "run r (begin_at i (c # cs))")
    case (Cons st sts)
    show ?thesis
    proof (cases "ms_pos st = i")
      case True
      have "i + 1 \<le> mt_start m" if "m \<in> set (find_from n r (i + 1) cs)" for m
        using find_from_starts [OF that] by simp
      then show ?thesis using True Cons "3.IH"(2) [OF Cons True]
        by (auto simp: match_of_def dest: find_from_starts)
    next
      case False
      then show ?thesis using Cons "3.IH"(3) [OF Cons False] by (auto simp: match_of_def dest: find_from_starts)
    qed
  qed (use "3.IH"(1) in simp)
qed (auto split: list.splits)

lemma finditer_ordered: "sorted_wrt (\<lambda>a b. mt_end a \<le> mt_start b) (finditer r t)"
  by (simp add: finditer_def find_from_ordered)

text \<open>A pattern that consumes; the search passes over a position only if nothing matches there.\<close>

definition consuming :: "regex \<Rightarrow> bool" where
  "consuming r \<longleftrightarrow> (\<forall>st st'. st' \<in> set (run r st) \<longrightarrow> ms_pos st < ms_pos st')"

lemma consumingD:
  assumes "consuming r" and "st' \<in> set (run r (begin_at i t))"
  shows "i < ms_pos st'"
proof -
  have "ms_pos (begin_at i t) < ms_pos st'" using assms by (auto simp: consuming_def simp del: run.simps)
  then show ?thesis by (simp add: begin_at_def)
qed

lemma find_from_covers:
  assumes "consuming r" and "length t \<le> n" and "i \<le> j" and "j < i + length t"
    and "run r (begin_at j (drop (j - i) t)) \<noteq> []"
  shows "\<exists>m \<in> set (find_from n r i t). mt_start m \<le> j \<and> j < mt_end m"
  using assms
proof (induction n r i t rule: find_from.induct)
  case (3 n r i c cs)
  show ?case
  proof (cases "run r (begin_at i (c # cs))")
    case Nil
    then have "j \<noteq> i" using "3.prems" by auto
    then have j: "i + 1 \<le> j" "drop (j - i) (c # cs) = drop (j - (i + 1)) cs"
      using "3.prems" by (auto simp: drop_Cons')
    have "\<exists>m \<in> set (find_from n r (i + 1) cs). mt_start m \<le> j \<and> j < mt_end m"
      by (rule "3.IH"(1) [OF Nil]) (use "3.prems" j in simp_all)
    then show ?thesis using Nil by simp
  next
    case (Cons st sts)
    then have st: "st \<in> set (run r (begin_at i (c # cs)))" by simp
    obtain k where k: "k \<le> length (c # cs)" "ms_pos st = i + k" "ms_rest st = drop k (c # cs)"
      using run_later [OF st] by (auto simp: later_def begin_at_def)
    have "i < ms_pos st" using consumingD [OF "3.prems"(1) st] .
    then have ne: "ms_pos st \<noteq> i" "0 < k" using k by auto
    show ?thesis
    proof (cases "j < ms_pos st")
      case True
      have "match_of i (c # cs) st \<in> set (find_from (Suc n) r i (c # cs))" using Cons by simp
      then show ?thesis by (rule bexI [rotated]) (use True "3.prems"(3) in \<open>simp add: match_of_def\<close>)
    next
      case False
      have d: "drop (j - ms_pos st) (ms_rest st) = drop (j - i) (c # cs)" using False k by simp
      have "\<exists>m \<in> set (find_from n r (ms_pos st) (ms_rest st)). mt_start m \<le> j \<and> j < mt_end m"
        by (rule "3.IH"(3) [OF Cons ne(1)]) (use "3.prems" False k ne d in simp_all)
      then show ?thesis using Cons ne by simp
    qed
  qed
qed auto

lemma finditer_covers:
  assumes "consuming r" and "j < length t" and "run r (begin_at j (drop j t)) \<noteq> []"
  obtains m where "m \<in> set (finditer r t)" and "mt_start m \<le> j" and "j < mt_end m"
  using find_from_covers [OF assms(1), of t "length t" 0 j] assms(2,3) by (auto simp: finditer_def)

section \<open>Characters and their repetition\<close>

definition skip :: "nat \<Rightarrow> mstate \<Rightarrow> mstate" where
  "skip k st = st\<lparr>ms_pos := ms_pos st + k, ms_rest := drop k (ms_rest st)\<rparr>"

lemma skip_simps [simp]:
  "ms_pos (skip k st) = ms_pos st + k" "ms_rest (skip k st) = drop k (ms_rest st)"
  "ms_groups (skip k st) = ms_groups st" "skip 0 st = st" "skip j (skip k st) = skip (k + j) st"
  by (simp_all add: skip_def add.commute)

lemma run_seq_iff: "st' \<in> set (run (RSeq r r') st) \<longleftrightarrow> (\<exists>s \<in> set (run r st). st' \<in> set (run r' s))"
  by auto

lemma run_alt_iff: "st' \<in> set (run (RAlt r r') st) \<longleftrightarrow> st' \<in> set (run r st) \<or> st' \<in> set (run r' st)"
  by auto

lemma run_eps_iff: "st' \<in> set (run REps st) \<longleftrightarrow> st' = st"
  by auto

lemma run_char_iff:
  "st' \<in> set (run (RChar p) st) \<longleftrightarrow> (\<exists>c cs. ms_rest st = c # cs \<and> p c) \<and> st' = skip 1 st"
  by (cases "ms_rest st") (auto simp: skip_def)

lemma run_char_Cons: "ms_rest st = c # cs \<Longrightarrow> p c \<Longrightarrow> run (RChar p) st = [skip 1 st]"
  by (simp add: skip_def)

lemma iterate_start: "st \<in> set (iterate n greedy f st)"
  by (cases n) (auto simp: Let_def)

lemma iterate_reaches:
  assumes "k \<le> n" and "k \<le> length (ms_rest st)" and "\<forall>c \<in> set (take k (ms_rest st)). p c"
  shows "skip k st \<in> set (iterate n greedy (run (RChar p)) st)"
  using assms
proof (induction k arbitrary: n st)
  case 0
  then show ?case using iterate_start by simp
next
  case (Suc k)
  obtain c cs where r: "ms_rest st = c # cs" using Suc.prems(2) by (cases "ms_rest st") auto
  obtain n' where n: "n = Suc n'" "k \<le> n'" using Suc.prems(1) by (cases n) auto
  have "skip k (skip 1 st) \<in> set (iterate n' greedy (run (RChar p)) (skip 1 st))"
    by (rule Suc.IH) (use Suc.prems n r in auto)
  moreover have "run (RChar p) st = [skip 1 st]" using Suc.prems(3) r by (simp add: run_char_Cons)
  ultimately show ?case unfolding n by (auto simp: Let_def simp del: run.simps)
qed

lemma star_reaches:
  assumes "k \<le> length (ms_rest st)" and "\<forall>c \<in> set (take k (ms_rest st)). p c"
  shows "skip k st \<in> set (run (RStar greedy (RChar p)) st)"
  using iterate_reaches [OF _ assms, of "length (ms_rest st)"] assms(1) by simp

lemma look_nonempty: "run r st \<noteq> [] \<Longrightarrow> run (RLook r) st \<noteq> []"
  by (auto split: list.splits)

lemma run_look: "st' \<in> set (run (RLook r) st) \<Longrightarrow> ms_pos st' = ms_pos st \<and> ms_rest st' = ms_rest st"
  by (auto split: list.splits)

end
