(* ===== verification/EvidenceParser.thy ===== *)
theory EvidenceParser
  imports Regex Unicode Canonical
begin

text \<open>
  \<open>modules/evidence/parser.py\<close>: which uploads are supported, and the segments of a document.  Text and
  Markdown are split into paragraphs by a regular expression, CSV is read by the \<open>csv\<close> module in
  strict mode.  What pypdf, python-docx, Pillow, zipfile and the \<open>email\<close> package read of a document is a
  parameter, the record \<open>readers\<close>; the limits and the segments made of it are modelled.
\<close>

section \<open>Supported documents\<close>

datatype parse_error =
    UnsupportedEvidenceType pystr
  | EvidenceParseError pystr

type_synonym 'a parsing = "(parse_error, 'a) result"

datatype modality = MText | MImage

record segment =
  sg_ordinal :: nat
  sg_content :: pystr
  sg_start :: nat
  sg_end :: nat
  sg_locator :: json
  sg_parser_name :: pystr
  sg_parser_version :: pystr
  sg_modality :: modality

definition max_pdf_pages :: nat where "max_pdf_pages = 100"
definition max_csv_rows :: nat where "max_csv_rows = 10000"
definition max_csv_columns :: nat where "max_csv_columns = 200"
definition max_document_characters :: nat where "max_document_characters = 2000000"
definition max_archive_files :: nat where "max_archive_files = 1000"
definition max_archive_expanded_bytes :: int where "max_archive_expanded_bytes = 20 * 1024 * 1024"
definition max_image_pixels :: int where "max_image_pixels = 25000000"

definition content_types :: "(string \<times> string list) list" where
  "content_types =
     [(''txt'', [''text/plain'', ''application/octet-stream'']),
      (''md'', [''text/markdown'', ''text/plain'', ''application/octet-stream'']),
      (''csv'', [''text/csv'', ''application/csv'', ''application/octet-stream'']),
      (''eml'', [''message/rfc822'', ''application/octet-stream'']),
      (''pdf'', [''application/pdf'', ''application/octet-stream'']),
      (''docx'', [''application/vnd.openxmlformats-officedocument.wordprocessingml.document'',
                ''application/octet-stream'']),
      (''png'', [''image/png'', ''application/octet-stream'']),
      (''jpg'', [''image/jpeg'', ''application/octet-stream'']),
      (''jpeg'', [''image/jpeg'', ''application/octet-stream''])]"

text \<open>The keys of \<open>_CONTENT_TYPES\<close> are exactly \<open>SUPPORTED_EVIDENCE_EXTENSIONS\<close>.\<close>

definition supported_extensions :: "pystr list" where
  "supported_extensions = map (lit \<circ> fst) content_types"

text \<open>\<open>Path(name).name\<close> and \<open>Path(name).suffix\<close> on POSIX.\<close>

definition path_name :: "pystr \<Rightarrow> pystr" where
  "path_name p = (let parts = filter (\<lambda>x. x \<noteq> [] \<and> x \<noteq> [46]) (split_on 47 p) in
     if parts = [] then [] else last parts)"

definition path_suffix :: "pystr \<Rightarrow> pystr" where
  "path_suffix p = (let n = path_name p; ext = after_last 46 n in
     if 46 \<in> set n \<and> ext \<noteq> [] \<and> length ext + 1 < length n then 46 # ext else [])"

definition validate_evidence_upload_metadata :: "pystr \<Rightarrow> pystr \<Rightarrow> pystr parsing" where
  "validate_evidence_upload_metadata content_type file_name =
     (let suffix = dropWhile (\<lambda>c. c = 46) (casefold (path_suffix file_name));
          normalized = py_strip (before_first 59 (casefold content_type))
      in bindE (require (suffix \<in> set supported_extensions) (UnsupportedEvidenceType
           (lit ''Supported evidence types are: '' @ join_with (lit '', '') (map (\<lambda>e. 46 # e) (sort supported_extensions))
             @ lit ''.''))) (\<lambda>_.
         bindE (require (\<exists>(e, ts) \<in> set content_types. lit e = suffix \<and> normalized \<in> set (map lit ts))
           (UnsupportedEvidenceType (lit ''The uploaded content type does not match the evidence file extension.''))) (\<lambda>_.
         Inr suffix)))"

definition parse_failed :: "string \<Rightarrow> 'a parsing" where
  "parse_failed m = Inl (EvidenceParseError (lit m))"

definition decode_utf8 :: "nat list \<Rightarrow> pystr parsing" where
  "decode_utf8 content = (case utf8_sig_decode content of
       None \<Rightarrow> Inl (UnsupportedEvidenceType (lit ''Text evidence must be valid UTF-8.'')) | Some t \<Rightarrow> Inr t)"

section \<open>Text\<close>

definition any_char :: "nat \<Rightarrow> bool" where
  "any_char c \<longleftrightarrow> True"

definition not_space :: "nat \<Rightarrow> bool" where
  "not_space c \<longleftrightarrow> \<not> py_space c"

text \<open>\<open>\S(?:.*?\S)?(?=(?:\r?\n)[ \t]*(?:\r?\n)|\s*\Z)\<close> under DOTALL\<close>

definition line_break :: regex where
  "line_break = RSeq (ropt (RChar (\<lambda>c. c = 13))) (RChar (\<lambda>c. c = 10))"

definition paragraph_end :: regex where
  "paragraph_end = RAlt (rseq [line_break, RStar True (RChar (\<lambda>c. c = 32 \<or> c = 9)), line_break])
     (RSeq (RStar True (RChar py_space)) RTextEnd)"

definition paragraph_pattern :: regex where
  "paragraph_pattern = rseq [RChar not_space, ropt (RSeq (RStar False (RChar any_char)) (RChar not_space)), RLook paragraph_end]"

text \<open>\<open>text.find(sub, lo, hi)\<close>, for a text that is there\<close>

fun find_text :: "pystr \<Rightarrow> nat \<Rightarrow> pystr \<Rightarrow> nat" where
  "find_text sub lo [] = lo"
| "find_text sub lo (c # cs) = (if take (length sub) (c # cs) = sub then lo else find_text sub (lo + 1) cs)"

definition text_segment :: "nat \<Rightarrow> nat \<Rightarrow> pystr \<Rightarrow> segment" where
  "text_segment n start content = (let e = start + length content in
     \<lparr>sg_ordinal = n, sg_content = content, sg_start = start, sg_end = e,
      sg_locator = obj [(''kind'', JStr (lit ''text_offset'')), (''start'', JInt (int start)), (''end'', JInt (int e))],
      sg_parser_name = lit ''utf8-paragraph-parser'', sg_parser_version = lit ''1.0.0'', sg_modality = MText\<rparr>)"

fun text_segments :: "nat \<Rightarrow> pystr \<Rightarrow> rmatch list \<Rightarrow> segment list" where
  "text_segments n t [] = []"
| "text_segments n t (m # ms) = (let content = py_strip (mt_text m) in
     if content = [] then text_segments n t ms
     else text_segment n (find_text content (mt_start m) (take (mt_end m - mt_start m) (drop (mt_start m) t))) content
          # text_segments (n + 1) t ms)"

definition parse_text :: "nat list \<Rightarrow> segment list parsing" where
  "parse_text content = bindE (decode_utf8 content) (\<lambda>t. Inr (text_segments 0 t (finditer paragraph_pattern t)))"

section \<open>CSV\<close>

text \<open>
  \<open>csv.reader(io.StringIO(text, newline=""), strict=True)\<close>: the state machine of the reader, which is
  fed the characters of one line after another and the end of each line.  The fields of the row are in
  reverse order, as are the characters of the open field.
\<close>

datatype csv_state = StartRecord | StartField | InField | InQuotedField | QuoteInQuotedField | EatCrNl

record csv_reader =
  cr_state :: csv_state
  cr_field :: pystr
  cr_fields :: "pystr list"

definition csv_field_limit :: nat where "csv_field_limit = 131072"

definition save_field :: "csv_state \<Rightarrow> csv_reader \<Rightarrow> csv_reader option" where
  "save_field st r = Some (r\<lparr>cr_state := st, cr_field := [], cr_fields := rev (cr_field r) # cr_fields r\<rparr>)"

definition add_char :: "csv_state \<Rightarrow> nat \<Rightarrow> csv_reader \<Rightarrow> csv_reader option" where
  "add_char st c r = (if csv_field_limit \<le> length (cr_field r) then None
     else Some (r\<lparr>cr_state := st, cr_field := c # cr_field r\<rparr>))"

definition csv_line_end :: "nat option \<Rightarrow> csv_state" where
  "csv_line_end c = (if c = None then StartRecord else EatCrNl)"

definition ends_line :: "nat option \<Rightarrow> bool" where
  "ends_line c \<longleftrightarrow> c = None \<or> c = Some 10 \<or> c = Some 13"

definition start_field :: "nat option \<Rightarrow> csv_reader \<Rightarrow> csv_reader option" where
  "start_field c r =
     (if ends_line c then save_field (csv_line_end c) r
      else if c = Some 34 then Some (r\<lparr>cr_state := InQuotedField\<rparr>)
      else if c = Some 44 then save_field StartField r
      else add_char InField (the c) r)"

text \<open>One character, or \<open>None\<close> for the end of a line; the result \<open>None\<close> is \<open>csv.Error\<close>.\<close>

definition csv_step :: "nat option \<Rightarrow> csv_reader \<Rightarrow> csv_reader option" where
  "csv_step c r = (case cr_state r of
       StartRecord \<Rightarrow> if c = None then Some r
         else if ends_line c then Some (r\<lparr>cr_state := EatCrNl\<rparr>) else start_field c r
     | StartField \<Rightarrow> start_field c r
     | InField \<Rightarrow> if ends_line c then save_field (csv_line_end c) r
         else if c = Some 44 then save_field StartField r else add_char InField (the c) r
     | InQuotedField \<Rightarrow> if c = None then Some r
         else if c = Some 34 then Some (r\<lparr>cr_state := QuoteInQuotedField\<rparr>) else add_char InQuotedField (the c) r
     | QuoteInQuotedField \<Rightarrow> if c = Some 34 then add_char InQuotedField 34 r
         else if c = Some 44 then save_field StartField r
         else if ends_line c then save_field (csv_line_end c) r else None
     | EatCrNl \<Rightarrow> if c = Some 10 \<or> c = Some 13 then Some r
         else if c = None then Some (r\<lparr>cr_state := StartRecord\<rparr>) else None)"

definition new_row :: csv_reader where
  "new_row = \<lparr>cr_state = StartRecord, cr_field = [], cr_fields = []\<rparr>"

text \<open>The lines of the text: a line ends with a line feed, a carriage return or both.\<close>

fun csv_tokens :: "pystr \<Rightarrow> nat option list" where
  "csv_tokens [] = []"
| "csv_tokens [c] = [Some c, None]"
| "csv_tokens (c # d # cs) =
     (if c = 10 \<or> (c = 13 \<and> d \<noteq> 10) then Some c # None # csv_tokens (d # cs)
      else if c = 13 then Some c # Some d # None # csv_tokens cs
      else Some c # csv_tokens (d # cs))"

text \<open>
  The rows, and whether the reader stopped with an error.  A row ends with a line after which the
  reader is back at the start of a record.
\<close>

fun csv_rows :: "csv_reader \<Rightarrow> nat option list \<Rightarrow> pystr list list \<times> bool" where
  "csv_rows r [] = ([], cr_field r \<noteq> [] \<or> cr_state r = InQuotedField)"
| "csv_rows r (c # cs) = (case csv_step c r of None \<Rightarrow> ([], True)
     | Some r' \<Rightarrow> if c = None \<and> cr_state r' = StartRecord
         then (case csv_rows new_row cs of (rows, bad) \<Rightarrow> (rev (cr_fields r') # rows, bad))
         else csv_rows r' cs)"

definition plain_segment :: "string \<Rightarrow> json \<Rightarrow> nat \<Rightarrow> pystr \<Rightarrow> segment" where
  "plain_segment parser locator n content =
     \<lparr>sg_ordinal = n, sg_content = content, sg_start = 0, sg_end = length content, sg_locator = locator,
      sg_parser_name = lit parser, sg_parser_version = lit ''1.0.0'', sg_modality = MText\<rparr>"

definition join_cells :: "pystr list \<Rightarrow> pystr" where
  "join_cells cells = join_with (lit '' | '') (map py_strip cells)"

definition blank_row :: "pystr \<Rightarrow> bool" where
  "blank_row t \<longleftrightarrow> strip_chars {32, 124} t = []"

definition csv_segment :: "nat \<Rightarrow> nat \<Rightarrow> pystr \<Rightarrow> segment" where
  "csv_segment row = plain_segment ''csv-row-parser'' (obj [(''kind'', JStr (lit ''csv_row'')), (''row'', JInt (int row))])"

fun csv_segments :: "nat \<Rightarrow> nat \<Rightarrow> pystr list list \<Rightarrow> bool \<Rightarrow> segment list parsing" where
  "csv_segments row n [] bad = (if bad then parse_failed ''CSV evidence is malformed.'' else Inr [])"
| "csv_segments row n (r # rows) bad =
     (if max_csv_rows < row then parse_failed ''CSV evidence exceeds the safe row limit.''
      else if max_csv_columns < length r then parse_failed ''CSV evidence exceeds the safe column limit.''
      else let content = join_cells r in
        if blank_row content then csv_segments (row + 1) n rows bad
        else bindE (csv_segments (row + 1) (n + 1) rows bad) (\<lambda>sgs. Inr (csv_segment row n content # sgs)))"

definition parse_csv :: "nat list \<Rightarrow> segment list parsing" where
  "parse_csv content = bindE (decode_utf8 content) (\<lambda>t.
     let r = csv_rows new_row (csv_tokens t) in csv_segments 1 0 (fst r) (snd r))"

section \<open>Documents read by other packages\<close>

text \<open>
  What a package reads of a document; \<open>Inl True\<close> is the exception of malformed content that the parser
  names, \<open>Inl False\<close> any other exception.
\<close>

type_synonym 'a reader = "nat list \<Rightarrow> (bool, 'a) result"

record email_part =
  ep_multipart :: bool
  ep_attachment :: bool
  ep_media_type :: pystr
  ep_body :: "pystr option"

record email =
  em_header :: "string \<Rightarrow> pystr option"
  em_parts :: "email_part list"

record pdf =
  pdf_encrypted :: bool
  pdf_pages :: "pystr list"

record docx =
  dx_paragraphs :: "pystr list"
  dx_tables :: "pystr list list list"

record image =
  im_width :: int
  im_height :: int
  im_format :: pystr

text \<open>\<open>rd_image\<close> is given the only format whose decoder may be tried; \<open>rd_html\<close> is the data of the document.\<close>

record readers =
  rd_email :: "email reader"
  rd_html :: "pystr \<Rightarrow> pystr list"
  rd_pdf :: "pdf reader"
  rd_archive :: "(pystr \<times> int) list reader"
  rd_docx :: "docx reader"
  rd_image :: "pystr \<Rightarrow> image reader"

definition named_failure :: "string \<Rightarrow> (bool, 'a) result \<Rightarrow> 'a parsing" where
  "named_failure m r = (case r of Inr x \<Rightarrow> Inr x
     | Inl named \<Rightarrow> if named then parse_failed m else parse_failed ''Evidence could not be parsed safely.'')"

definition email_headers :: "email \<Rightarrow> pystr" where
  "email_headers m = join_with [10] (map (\<lambda>h. lit h @ lit '': '' @ py_strip (case em_header m h of Some t \<Rightarrow> t | None \<Rightarrow> []))
     (filter (\<lambda>h. case em_header m h of None \<Rightarrow> False | Some t \<Rightarrow> t \<noteq> []) [''From'', ''To'', ''Cc'', ''Subject'', ''Date'']))"

text \<open>\<open>" ".join(data.split())\<close>\<close>

fun words :: "pystr \<Rightarrow> pystr \<Rightarrow> pystr list" where
  "words w [] = (if w = [] then [] else [rev w])"
| "words w (c # cs) = (if py_space c then (if w = [] then words [] cs else rev w # words [] cs) else words (c # w) cs)"

definition html_to_text :: "readers \<Rightarrow> pystr \<Rightarrow> pystr" where
  "html_to_text rd t = join_with [10] (filter (\<lambda>x. x \<noteq> []) (map (\<lambda>d. join_with [32] (words [] d)) (rd_html rd t)))"

definition email_segment :: "nat \<Rightarrow> pystr \<Rightarrow> nat \<Rightarrow> pystr \<Rightarrow> segment" where
  "email_segment part media = plain_segment ''rfc822-email-parser''
     (obj [(''kind'', JStr (lit ''email_body'')), (''part'', JInt (int part)), (''media_type'', JStr media)])"

fun email_bodies :: "readers \<Rightarrow> nat \<Rightarrow> nat \<Rightarrow> email_part list \<Rightarrow> segment list parsing" where
  "email_bodies rd n k [] = Inr []"
| "email_bodies rd n k (p # ps) =
     (if ep_multipart p \<or> ep_attachment p \<or> ep_media_type p \<notin> {lit ''text/plain'', lit ''text/html''} then email_bodies rd n k ps
      else case ep_body p of None \<Rightarrow> parse_failed ''Email body encoding is unsupported.''
        | Some b \<Rightarrow> let t = py_strip (if ep_media_type p = lit ''text/plain'' then b else html_to_text rd b)
            in if t = [] then email_bodies rd n k ps
               else bindE (email_bodies rd (n + 1) (k + 1) ps) (\<lambda>sgs. Inr (email_segment k (ep_media_type p) n t # sgs)))"

definition parse_email :: "readers \<Rightarrow> nat list \<Rightarrow> segment list parsing" where
  "parse_email rd content =
     bindE (case rd_email rd content of Inl _ \<Rightarrow> parse_failed ''Email evidence is malformed.'' | Inr m \<Rightarrow> Inr m) (\<lambda>m.
     let h = email_headers m;
         first = (if h = [] then [] else [plain_segment ''rfc822-email-parser'' (obj [(''kind'', JStr (lit ''email_headers''))]) 0 h])
     in bindE (email_bodies rd (length first) 0 (em_parts m)) (\<lambda>sgs. Inr (first @ sgs)))"

text \<open>The numbered texts of a document, without the empty ones.\<close>

fun numbered_segments :: "(nat \<Rightarrow> nat \<Rightarrow> pystr \<Rightarrow> segment) \<Rightarrow> nat \<Rightarrow> nat \<Rightarrow> pystr list \<Rightarrow> segment list" where
  "numbered_segments mk k n [] = []"
| "numbered_segments mk k n (t # ts) = (let c = py_strip t in
     if c = [] then numbered_segments mk (k + 1) n ts else mk k n c # numbered_segments mk (k + 1) (n + 1) ts)"

definition pdf_segment :: "nat \<Rightarrow> nat \<Rightarrow> pystr \<Rightarrow> segment" where
  "pdf_segment page = plain_segment ''pypdf-page-parser'' (obj [(''kind'', JStr (lit ''pdf_page'')), (''page'', JInt (int page))])"

definition parse_pdf :: "readers \<Rightarrow> nat list \<Rightarrow> segment list parsing" where
  "parse_pdf rd content =
     bindE (named_failure ''PDF evidence is malformed.'' (rd_pdf rd content)) (\<lambda>d.
     if pdf_encrypted d then parse_failed ''Encrypted PDF evidence is not supported.''
     else if max_pdf_pages < length (pdf_pages d) then parse_failed ''PDF evidence exceeds the safe page limit.''
     else Inr (numbered_segments pdf_segment 1 0 (pdf_pages d)))"

definition path_parts :: "pystr \<Rightarrow> pystr list" where
  "path_parts p = filter (\<lambda>x. x \<noteq> [] \<and> x \<noteq> [46]) (split_on 47 p)"

definition validate_zip_container :: "readers \<Rightarrow> nat list \<Rightarrow> unit parsing" where
  "validate_zip_container rd content =
     bindE (named_failure ''DOCX evidence is malformed.'' (rd_archive rd content)) (\<lambda>entries.
     if max_archive_files < length entries then parse_failed ''Document archive exceeds the safe file limit.''
     else if max_archive_expanded_bytes < sum_list (map snd entries) then parse_failed ''Document archive exceeds the safe expansion limit.''
     else if list_ex (\<lambda>e. lit ''..'' \<in> set (path_parts (fst e))) entries then parse_failed ''Document archive contains an unsafe path.''
     else Inr ())"

definition docx_paragraph :: "nat \<Rightarrow> nat \<Rightarrow> pystr \<Rightarrow> segment" where
  "docx_paragraph k = plain_segment ''docx-structure-parser''
     (obj [(''kind'', JStr (lit ''docx_paragraph'')), (''paragraph'', JInt (int k))])"

definition docx_row :: "nat \<Rightarrow> nat \<Rightarrow> nat \<Rightarrow> pystr \<Rightarrow> segment" where
  "docx_row table row = plain_segment ''docx-structure-parser''
     (obj [(''kind'', JStr (lit ''docx_table_row'')), (''table'', JInt (int table)), (''row'', JInt (int row))])"

fun table_rows :: "nat \<Rightarrow> nat \<Rightarrow> nat \<Rightarrow> pystr list list \<Rightarrow> segment list" where
  "table_rows table row n [] = []"
| "table_rows table row n (r # rs) = (let t = join_cells r in
     if blank_row t then table_rows table (row + 1) n rs else docx_row table row n t # table_rows table (row + 1) (n + 1) rs)"

fun table_segments :: "nat \<Rightarrow> nat \<Rightarrow> pystr list list list \<Rightarrow> segment list" where
  "table_segments table n [] = []"
| "table_segments table n (t # ts) = (let sgs = table_rows table 1 n t in sgs @ table_segments (table + 1) (n + length sgs) ts)"

definition parse_docx :: "readers \<Rightarrow> nat list \<Rightarrow> segment list parsing" where
  "parse_docx rd content =
     bindE (validate_zip_container rd content) (\<lambda>_.
     bindE (named_failure ''DOCX evidence is malformed.'' (rd_docx rd content)) (\<lambda>d.
     let ps = numbered_segments docx_paragraph 1 0 (dx_paragraphs d)
     in Inr (ps @ table_segments 1 (length ps) (dx_tables d))))"

definition image_format :: "pystr \<Rightarrow> pystr" where
  "image_format suffix = (if suffix \<in> {lit ''jpg'', lit ''jpeg''} then lit ''JPEG'' else lit ''PNG'')"

text \<open>
  \<open>UnidentifiedImageError\<close> and the other declared exceptions of Pillow are the two branches of the
  reader's failure.
\<close>

definition image_descriptor :: "pystr \<Rightarrow> image \<Rightarrow> pystr \<Rightarrow> pystr" where
  "image_descriptor file_name im fmt = lit ''Visual evidence: '' @ path_name file_name @ lit '' ('' @ dec_int (im_width im)
     @ [215] @ dec_int (im_height im) @ [32] @ fmt @ lit '')''"

definition image_segment :: "image \<Rightarrow> pystr \<Rightarrow> segment" where
  "image_segment im d = (plain_segment ''verified-image-parser'' (obj
     [(''kind'', JStr (lit ''whole_image'')), (''width'', JInt (im_width im)), (''height'', JInt (im_height im))]) 0 d)
     \<lparr>sg_modality := MImage\<rparr>"

definition parse_image :: "readers \<Rightarrow> nat list \<Rightarrow> pystr \<Rightarrow> pystr \<Rightarrow> segment list parsing" where
  "parse_image rd content suffix file_name =
     (let expected = image_format suffix in
      bindE (case rd_image rd expected content of Inr im \<Rightarrow> Inr im
        | Inl unidentified \<Rightarrow> if unidentified then parse_failed ''Image content does not match its file extension.''
            else parse_failed ''Image evidence is malformed or unsafe.'') (\<lambda>im.
      if im_format im \<noteq> expected then parse_failed ''Image content does not match its file extension.''
      else if max_image_pixels < im_width im * im_height im then parse_failed ''Image evidence exceeds the safe pixel limit.''
      else Inr [image_segment im (image_descriptor file_name im expected)]))"

section \<open>The parser\<close>

definition parse_document :: "readers \<Rightarrow> nat list \<Rightarrow> pystr \<Rightarrow> pystr \<Rightarrow> segment list parsing" where
  "parse_document rd content suffix file_name =
     (if suffix \<in> {lit ''txt'', lit ''md''} then parse_text content
      else if suffix = lit ''csv'' then parse_csv content
      else if suffix = lit ''eml'' then parse_email rd content
      else if suffix = lit ''pdf'' then parse_pdf rd content
      else if suffix = lit ''docx'' then parse_docx rd content
      else parse_image rd content suffix file_name)"

definition total_characters :: "segment list \<Rightarrow> nat" where
  "total_characters sgs = sum_list (map (length \<circ> sg_content) sgs)"

definition parse_evidence :: "readers \<Rightarrow> nat list \<Rightarrow> pystr \<Rightarrow> pystr \<Rightarrow> segment list parsing" where
  "parse_evidence rd content content_type file_name =
     bindE (validate_evidence_upload_metadata content_type file_name) (\<lambda>suffix.
     bindE (parse_document rd content suffix file_name) (\<lambda>sgs.
     if sgs = [] then parse_failed ''Evidence did not contain any readable content.''
     else if max_document_characters < total_characters sgs then parse_failed ''Parsed evidence exceeds the safe text limit.''
     else Inr sgs))"

definition parse_text_evidence :: "nat list \<Rightarrow> pystr \<Rightarrow> pystr \<Rightarrow> segment list parsing" where
  "parse_text_evidence content content_type file_name =
     bindE (validate_evidence_upload_metadata content_type file_name) (\<lambda>suffix.
     bindE (require (suffix \<in> {lit ''txt'', lit ''md''}) (UnsupportedEvidenceType (lit ''Evidence must be UTF-8 text or Markdown.''))) (\<lambda>_.
     parse_text content))"

section \<open>What the segments of a document are\<close>

lemma find_text_prefix: "t = take (length sub) t' \<Longrightarrow> sub \<noteq> [] \<Longrightarrow> take (length sub) t' = sub \<Longrightarrow> find_text sub lo t' = lo"
  by (cases t') auto

definition ordinals :: "nat \<Rightarrow> segment list \<Rightarrow> bool" where
  "ordinals n sgs \<longleftrightarrow> map sg_ordinal sgs = [n..<n + length sgs]"

lemma ordinals_Nil [simp]: "ordinals n []"
  by (simp add: ordinals_def)

lemma ordinals_Cons [simp]: "ordinals n (g # gs) \<longleftrightarrow> sg_ordinal g = n \<and> ordinals (n + 1) gs"
  by (auto simp: ordinals_def upt_rec [of n])

lemma ordinals_append [simp]: "ordinals n (gs @ hs) \<longleftrightarrow> ordinals n gs \<and> ordinals (n + length gs) hs"
  by (induction gs arbitrary: n) auto

lemma plain_segment_simps [simp]:
  "sg_ordinal (plain_segment p l n c) = n" "sg_content (plain_segment p l n c) = c"
  "sg_start (plain_segment p l n c) = 0" "sg_end (plain_segment p l n c) = length c"
  by (simp_all add: plain_segment_def)

lemma ordinals_text: "ordinals n (text_segments n t ms)"
  by (induction n t ms rule: text_segments.induct) (auto simp: Let_def text_segment_def)

lemma ordinals_csv: "csv_segments row n rows bad = Inr sgs \<Longrightarrow> ordinals n sgs"
  by (induction row n rows bad arbitrary: sgs rule: csv_segments.induct)
     (auto simp: Let_def parse_failed_def result_simps csv_segment_def split: if_splits)

lemma ordinals_email: "email_bodies rd n k ps = Inr sgs \<Longrightarrow> ordinals n sgs"
  by (induction rd n k ps arbitrary: sgs rule: email_bodies.induct)
     (auto simp: Let_def parse_failed_def result_simps email_segment_def split: if_splits option.splits)

lemma ordinals_numbered: "(\<And>k n c. sg_ordinal (mk k n c) = n) \<Longrightarrow> ordinals n (numbered_segments mk k n ts)"
  by (induction mk k n ts rule: numbered_segments.induct) (auto simp: Let_def)

lemma ordinals_rows: "ordinals n (table_rows table row n rs)"
  by (induction table row n rs rule: table_rows.induct) (auto simp: Let_def docx_row_def)

lemma ordinals_tables: "ordinals n (table_segments table n ts)"
  by (induction table n ts rule: table_segments.induct) (auto simp: Let_def ordinals_rows)

lemma ordinals_document: "parse_document rd content suffix file_name = Inr sgs \<Longrightarrow> ordinals 0 sgs"
  by (auto simp: parse_document_def parse_text_def parse_csv_def parse_email_def parse_pdf_def parse_docx_def
      parse_image_def parse_failed_def result_simps Let_def ordinals_text ordinals_numbered pdf_segment_def
      docx_paragraph_def ordinals_tables image_segment_def
      split: if_splits prod.splits sum.splits dest: ordinals_csv ordinals_email)

section \<open>The paragraphs of a text\<close>

lemma py_strip_trimmed:
  assumes "xs \<noteq> []" and "\<not> py_space (hd xs)" and "\<not> py_space (last xs)"
  shows "py_strip xs = xs"
proof -
  have "dropWhile py_space xs = xs" using assms(1,2) by (cases xs) auto
  moreover have "dropWhile py_space (rev xs) = rev xs" using assms(1,3) by (cases xs rule: rev_cases) auto
  ultimately show ?thesis by (simp add: py_strip_def)
qed

lemma last_take: "0 < k \<Longrightarrow> k \<le> length xs \<Longrightarrow> last (take k xs) = xs ! (k - 1)"
  by (subst last_conv_nth) auto

lemma run_paragraph:
  assumes "st' \<in> set (run paragraph_pattern st)"
  shows "\<exists>k. 0 < k \<and> k \<le> length (ms_rest st) \<and> ms_pos st' = ms_pos st + k
    \<and> \<not> py_space (ms_rest st ! 0) \<and> \<not> py_space (ms_rest st ! (k - 1))"
proof -
  obtain s1 s2 where r: "s1 \<in> set (run (RChar not_space) st)"
    "s2 \<in> set (run (ropt (RSeq (RStar False (RChar any_char)) (RChar not_space))) s1)"
    and look: "st' \<in> set (run (RLook paragraph_end) s2)"
    using assms unfolding paragraph_pattern_def rseq.simps run_seq_iff by blast
  have p: "ms_pos st' = ms_pos s2" using run_look [OF look] by simp
  from r(1) obtain c cs where c: "ms_rest st = c # cs" "\<not> py_space c" "s1 = skip 1 st"
    unfolding run_char_iff not_space_def by blast
  consider "s2 = s1" | s3 where "s3 \<in> set (run (RStar False (RChar any_char)) s1)" "s2 \<in> set (run (RChar not_space) s3)"
    using r(2) unfolding ropt_def run_alt_iff run_seq_iff run_eps_iff by blast
  then show ?thesis
  proof cases
    case 1
    then show ?thesis using c p by (intro exI [of _ 1]) simp
  next
    case 2
    obtain k where k: "k \<le> length (ms_rest s1)" "ms_pos s3 = ms_pos s1 + k" "ms_rest s3 = drop k (ms_rest s1)"
      using run_later [OF 2(1)] unfolding later_def by blast
    obtain d ds where d: "ms_rest s3 = d # ds" "\<not> py_space d" "s2 = skip 1 s3"
      using 2(2) unfolding run_char_iff not_space_def by blast
    have e: "drop (k + 1) (ms_rest st) = d # ds" using k d c by simp
    then have "ms_rest st ! (k + 1) = d" by (rule nth_via_drop)
    moreover have "k + 1 < length (ms_rest st)"
    proof (rule ccontr)
      assume "\<not> k + 1 < length (ms_rest st)"
      then show False using e by simp
    qed
    ultimately show ?thesis using c d k p by (intro exI [of _ "k + 2"]) simp
  qed
qed

lemma paragraph_consuming: "consuming paragraph_pattern"
  unfolding consuming_def using run_paragraph by fastforce

text \<open>Where a character that is no space stands, a paragraph can start: the rest of the text is one.\<close>

lemma paragraph_end_of_spaces:
  assumes "\<forall>c \<in> set (ms_rest st). py_space c"
  shows "run (RLook paragraph_end) st \<noteq> []"
proof -
  have "skip (length (ms_rest st)) st \<in> set (run (RStar True (RChar py_space)) st)"
    by (rule star_reaches) (use assms in auto)
  then have "skip (length (ms_rest st)) st \<in> set (run paragraph_end st)"
    unfolding paragraph_end_def run_alt_iff run_seq_iff by (intro disjI2 bexI) simp_all
  then have "run paragraph_end st \<noteq> []" by auto
  then show ?thesis by (rule look_nonempty)
qed

lemma last_non_space:
  assumes "\<not> py_space (hd t)" and "t \<noteq> []"
  obtains n where "n < length t" and "\<not> py_space (t ! n)" and "\<forall>c \<in> set (drop (n + 1) t). py_space c"
proof -
  obtain a b where t: "t = a @ b" "b \<noteq> []" "\<not> py_space (hd b)" "\<forall>c \<in> set (tl b). py_space c"
    using assms
  proof (induction t arbitrary: thesis)
    case (Cons c t)
    show ?case
    proof (cases "\<exists>d \<in> set t. \<not> py_space d")
      case False
      then show ?thesis using Cons.prems(1) [of "[]" "c # t"] Cons.prems(2) by auto
    next
      case True
      then obtain x d y where t: "t = x @ d # y" "\<not> py_space d" "\<forall>e \<in> set y. py_space e"
        using split_list_last_prop [of t "\<lambda>d. \<not> py_space d"] by blast
      then show ?thesis using Cons.prems(1) [of "c # x" "d # y"] by simp
    qed
  qed simp
  show thesis
    by (rule that [of "length a"]) (use t in \<open>auto simp: nth_append hd_conv_nth drop_Suc\<close>)
qed

lemma paragraph_starts:
  assumes "j < length t" and "\<not> py_space (t ! j)"
  shows "run paragraph_pattern (begin_at j (drop j t)) \<noteq> []"
proof -
  let ?st = "begin_at j (drop j t)"
  have ne: "drop j t \<noteq> []" "hd (drop j t) = t ! j" using assms by (simp_all add: hd_drop_conv_nth)
  then obtain n where n: "n < length (drop j t)" "\<not> py_space (drop j t ! n)" "\<forall>c \<in> set (drop (n + 1) (drop j t)). py_space c"
    using assms(2) last_non_space by metis
  have rest: "ms_rest ?st = drop j t" by (simp add: begin_at_def)
  have s1: "skip 1 ?st \<in> set (run (RChar not_space) ?st)"
    unfolding run_char_iff rest using ne assms(2) by (cases "drop j t") (auto simp: not_space_def)
  have s2: "skip (n + 1) ?st \<in> set (run (ropt (RSeq (RStar False (RChar any_char)) (RChar not_space))) (skip 1 ?st))"
  proof (cases n)
    case 0
    then show ?thesis by (simp add: ropt_def del: run.simps(2,5))
  next
    case (Suc m)
    have "skip m (skip 1 ?st) \<in> set (run (RStar False (RChar any_char)) (skip 1 ?st))"
      by (rule star_reaches) (use n Suc rest in \<open>auto simp: any_char_def\<close>)
    moreover have "skip (n + 1) ?st \<in> set (run (RChar not_space) (skip m (skip 1 ?st)))"
    proof -
      have "ms_rest (skip m (skip 1 ?st)) = drop j t ! n # drop (n + 1) (drop j t)"
        using Cons_nth_drop_Suc [OF n(1)] Suc rest by simp
      then show ?thesis unfolding run_char_iff not_space_def using n(2) Suc by simp
    qed
    ultimately show ?thesis unfolding ropt_def run_alt_iff run_seq_iff by blast
  qed
  have "run (RLook paragraph_end) (skip (n + 1) ?st) \<noteq> []"
    by (rule paragraph_end_of_spaces) (use n(3) rest in simp)
  then obtain st' where "st' \<in> set (run (RLook paragraph_end) (skip (n + 1) ?st))" using list.set_sel(1) by blast
  then have "st' \<in> set (run paragraph_pattern ?st)"
    unfolding paragraph_pattern_def rseq.simps run_seq_iff by (intro bexI [OF _ s1] bexI [OF _ s2])
  then show ?thesis by auto
qed

lemma paragraph_match:
  assumes "m \<in> set (finditer paragraph_pattern t)"
  shows "mt_start m < mt_end m" and "mt_end m \<le> length t" and "py_strip (mt_text m) = mt_text m" and "mt_text m \<noteq> []"
    and "mt_text m = take (mt_end m - mt_start m) (drop (mt_start m) t)"
proof -
  note sl = finditer_slice [OF assms]
  obtain st where st: "st \<in> set (run paragraph_pattern (begin_at (mt_start m) (drop (mt_start m) t)))" "mt_end m = ms_pos st"
    using find_from_slices [OF assms [unfolded finditer_def]] by auto
  obtain k where k: "0 < k" "k \<le> length (drop (mt_start m) t)" "mt_end m = mt_start m + k"
    "\<not> py_space (drop (mt_start m) t ! 0)" "\<not> py_space (drop (mt_start m) t ! (k - 1))"
  proof -
    note e = run_paragraph [OF st(1), unfolded begin_at_def mstate.simps st(2) [symmetric]]
    show thesis by (rule exE [OF e], elim conjE) (rule that)
  qed
  show "mt_start m < mt_end m" "mt_end m \<le> length t" using k sl(2) by auto
  show tx: "mt_text m = take (mt_end m - mt_start m) (drop (mt_start m) t)" by (rule sl(3))
  then have tk: "mt_text m = take k (drop (mt_start m) t)" using k(3) by simp
  show ne: "mt_text m \<noteq> []" using tk k(1,2) by auto
  have "hd (mt_text m) = drop (mt_start m) t ! 0" using k(1,2) unfolding tk by (simp add: hd_conv_nth)
  moreover have "last (mt_text m) = drop (mt_start m) t ! (k - 1)" unfolding tk by (rule last_take [OF k(1,2)])
  ultimately show "py_strip (mt_text m) = mt_text m" using k(4,5) ne by (intro py_strip_trimmed) simp_all
qed

text \<open>The segments are the matches themselves.\<close>

definition exact_match :: "pystr \<Rightarrow> rmatch \<Rightarrow> bool" where
  "exact_match t m \<longleftrightarrow> py_strip (mt_text m) = mt_text m \<and> mt_text m \<noteq> []
     \<and> take (mt_end m - mt_start m) (drop (mt_start m) t) = mt_text m"

lemma text_segments_map:
  "list_all (exact_match t) ms \<Longrightarrow> map (\<lambda>g. (sg_content g, sg_start g, sg_end g)) (text_segments n t ms)
    = map (\<lambda>m. (mt_text m, mt_start m, mt_start m + length (mt_text m))) ms"
proof (induction ms arbitrary: n)
  case (Cons m ms)
  have m: "py_strip (mt_text m) = mt_text m" "mt_text m \<noteq> []"
    "take (mt_end m - mt_start m) (drop (mt_start m) t) = mt_text m" using Cons.prems by (auto simp: exact_match_def)
  have f: "find_text (mt_text m) (mt_start m) (mt_text m) = mt_start m" using m(2) by (cases "mt_text m") auto
  show ?case using Cons by (simp add: Let_def text_segment_def m f)
qed simp

lemma parse_text_segments:
  assumes "parse_text content = Inr sgs"
  obtains t where "decode_utf8 content = Inr t"
    and "map (\<lambda>g. (sg_content g, sg_start g, sg_end g)) sgs
      = map (\<lambda>m. (mt_text m, mt_start m, mt_end m)) (finditer paragraph_pattern t)"
proof -
  obtain t where t: "decode_utf8 content = Inr t" "sgs = text_segments 0 t (finditer paragraph_pattern t)"
    using assms by (auto simp: parse_text_def result_simps)
  have "mt_start m + length (mt_text m) = mt_end m" if "m \<in> set (finditer paragraph_pattern t)" for m
    using paragraph_match [OF that] by simp
  then have "map (\<lambda>m. (mt_text m, mt_start m, mt_start m + length (mt_text m))) (finditer paragraph_pattern t)
      = map (\<lambda>m. (mt_text m, mt_start m, mt_end m)) (finditer paragraph_pattern t)"
    by simp
  moreover have "map (\<lambda>g. (sg_content g, sg_start g, sg_end g)) sgs
      = map (\<lambda>m. (mt_text m, mt_start m, mt_start m + length (mt_text m))) (finditer paragraph_pattern t)"
    unfolding t(2) by (rule text_segments_map) (auto simp: list_all_iff exact_match_def paragraph_match simp flip: paragraph_match(5))
  ultimately show thesis using that t(1) by simp
qed

text \<open>
  C31: the segments of a text or Markdown document are exact slices of the decoded text, not empty and
  without surrounding white space, in order and without overlap, and no character of the text but
  white space is outside all of them.
\<close>

theorem text_segments_cover:
  assumes "parse_text content = Inr sgs"
  shows "\<exists>t. decode_utf8 content = Inr t
    \<and> (\<forall>g \<in> set sgs. sg_start g < sg_end g \<and> sg_end g \<le> length t
        \<and> sg_content g = take (sg_end g - sg_start g) (drop (sg_start g) t) \<and> py_strip (sg_content g) = sg_content g)
    \<and> sorted_wrt (\<lambda>g h. sg_end g \<le> sg_start h) sgs
    \<and> (\<forall>i < length t. \<not> py_space (t ! i) \<longrightarrow> (\<exists>g \<in> set sgs. sg_start g \<le> i \<and> i < sg_end g))"
proof -
  obtain t where t: "decode_utf8 content = Inr t"
    and eq: "map (\<lambda>g. (sg_content g, sg_start g, sg_end g)) sgs
      = map (\<lambda>m. (mt_text m, mt_start m, mt_end m)) (finditer paragraph_pattern t)"
    by (rule parse_text_segments [OF assms])
  have to: "\<exists>m \<in> set (finditer paragraph_pattern t). sg_content g = mt_text m \<and> sg_start g = mt_start m \<and> sg_end g = mt_end m"
    if "g \<in> set sgs" for g
  proof -
    have "(sg_content g, sg_start g, sg_end g) \<in> set (map (\<lambda>g. (sg_content g, sg_start g, sg_end g)) sgs)"
      using that by force
    then show ?thesis unfolding eq by auto
  qed
  have from_match: "\<exists>g \<in> set sgs. sg_start g = mt_start m \<and> sg_end g = mt_end m" if "m \<in> set (finditer paragraph_pattern t)" for m
  proof -
    have "(mt_text m, mt_start m, mt_end m) \<in> set (map (\<lambda>m. (mt_text m, mt_start m, mt_end m)) (finditer paragraph_pattern t))"
      using that by force
    then show ?thesis unfolding eq [symmetric] by auto
  qed
  have "sorted_wrt (\<lambda>a b. snd (snd a) \<le> fst (snd b)) (map (\<lambda>m. (mt_text m, mt_start m, mt_end m)) (finditer paragraph_pattern t))"
    using finditer_ordered [of paragraph_pattern t] by (simp add: sorted_wrt_map)
  then have "sorted_wrt (\<lambda>g h. sg_end g \<le> sg_start h) sgs" by (simp add: eq [symmetric] sorted_wrt_map)
  moreover have "\<exists>g \<in> set sgs. sg_start g \<le> i \<and> i < sg_end g" if "i < length t" "\<not> py_space (t ! i)" for i
    using finditer_covers [OF paragraph_consuming that(1) paragraph_starts [OF that]] from_match by metis
  moreover have "sg_start g < sg_end g \<and> sg_end g \<le> length t
      \<and> sg_content g = take (sg_end g - sg_start g) (drop (sg_start g) t) \<and> py_strip (sg_content g) = sg_content g"
    if "g \<in> set sgs" for g
    using to [OF that] paragraph_match by metis
  ultimately show ?thesis using t by blast
qed

theorem text_segments_cover_witness:
  "map (\<lambda>g. (sg_start g, sg_end g)) [text_segment 0 0 (lit ''a b''), text_segment 1 5 (lit ''c'')] = [(0, 3), (5, 6)]
   \<and> (\<exists>g \<in> set [text_segment 0 0 (lit ''a b''), text_segment 1 5 (lit ''c'')]. sg_start g \<le> 5 \<and> 5 < sg_end g)"
proof -
  have p: "parse_text [97, 32, 98, 10, 10, 99] = Inr [text_segment 0 0 (lit ''a b''), text_segment 1 5 (lit ''c'')]"
    by code_simp
  have "decode_utf8 [97, 32, 98, 10, 10, 99] = Inr [97, 32, 98, 10, 10, 99]" by code_simp
  then show ?thesis using text_segments_cover [OF p] by (auto simp: text_segment_def Let_def py_space_def)
qed

end
