(* ===== verification/Knowledge.thy ===== *)
theory Knowledge
  imports Lifecycle EvidenceParser
begin

text \<open>
  \<open>modules/knowledge/contradictions.py\<close> and \<open>modules/knowledge/review.py\<close>: the rows between evidence
  and verified assertions, the resolution of contradictions and the review of candidate claims.  The
  state is the \<open>store\<close> with the tables of this component; a flush checks their unique constraints and
  CHECKs.  New primary keys come from a supply \<open>fresh\<close>.
\<close>

section \<open>Rows\<close>

datatype run_status = RunRunning | RunComplete | RunFailed
datatype claim_status = CCandidate | CAccepted | CRejected | CDeferred
datatype contradiction_status = CtOpen | CtInvestigating | CtResolved | CtAcceptedException | CtNotAConflict
datatype job_status = JQueued | JRunning | JCompleted | JFailed | JCancelled

record extraction_run =
  rn_id :: uuid
  rn_engagement_id :: uuid
  rn_evidence_asset_id :: uuid
  rn_extractor_name :: pystr
  rn_extractor_version :: pystr
  rn_schema_version :: pystr
  rn_provider_name :: pystr
  rn_model_id :: "pystr option"
  rn_prompt_version :: pystr
  rn_input_hash :: pystr
  rn_input_tokens :: int
  rn_output_tokens :: int
  rn_latency_ms :: int
  rn_result_code :: pystr
  rn_status :: run_status
  rn_error_message :: "pystr option"
  rn_completed_at :: "time option"

record evidence_segment =
  es_id :: uuid
  es_engagement_id :: uuid
  es_evidence_asset_id :: uuid
  es_ordinal :: nat
  es_content :: pystr
  es_start_offset :: nat
  es_end_offset :: nat
  es_locator :: json
  es_parser_name :: pystr
  es_parser_version :: pystr

text \<open>
  The normalised payload of a claim, a JSONB column that only holds what the two extractors build: the
  type and name of its subject and object, its condition and whether it is an exception.
\<close>

record entity_spec =
  sp_type :: pystr
  sp_name :: pystr

record claim_payload =
  cp_subject :: entity_spec
  cp_object :: "entity_spec option"
  cp_condition :: "pystr option"
  cp_is_exception :: bool

record claim =
  cl_id :: uuid
  cl_engagement_id :: uuid
  cl_run_id :: uuid
  cl_kind :: pystr
  cl_subject :: pystr
  cl_predicate :: pystr
  cl_object :: "pystr option"
  cl_summary :: pystr
  cl_payload :: claim_payload
  cl_confidence :: pystr
  cl_materiality :: pystr
  cl_status :: claim_status
  cl_created_at :: time

record claim_evidence =
  ce_id :: uuid
  ce_engagement_id :: uuid
  ce_claim_id :: uuid
  ce_segment_id :: uuid
  ce_start_offset :: nat
  ce_end_offset :: nat
  ce_quote :: pystr

record review_decision =
  dc_id :: uuid
  dc_engagement_id :: uuid
  dc_claim_id :: uuid
  dc_reviewer_id :: uuid
  dc_decision :: claim_status
  dc_reason :: "pystr option"

record operating_entity =
  en_id :: uuid
  en_engagement_id :: uuid
  en_type :: pystr
  en_key :: pystr
  en_name :: pystr
  en_status :: pystr
  en_verified_by_id :: uuid

record assertion_evidence =
  ae_id :: uuid
  ae_engagement_id :: uuid
  ae_assertion_id :: uuid
  ae_segment_id :: uuid
  ae_claim_evidence_id :: uuid

record contradiction =
  ct_id :: uuid
  ct_engagement_id :: uuid
  ct_left_claim_id :: uuid
  ct_right_claim_id :: uuid
  ct_summary :: pystr
  ct_status :: contradiction_status
  ct_blocking :: bool
  ct_resolution_type :: "pystr option"
  ct_resolution_reason :: "pystr option"
  ct_resolved_by_id :: "uuid option"
  ct_resolved_at :: "time option"
  ct_created_at :: time

text \<open>The payload of a job holds the text of the asset's id and, maybe, of a correlation id.\<close>

record job =
  jb_id :: uuid
  jb_engagement_id :: uuid
  jb_kind :: pystr
  jb_status :: job_status
  jb_evidence_asset_id :: pystr
  jb_correlation_id :: "pystr option"
  jb_progress :: int
  jb_attempts :: int
  jb_max_attempts :: int
  jb_idempotency_key :: pystr
  jb_available_at :: time
  jb_created_at :: time
  jb_lease_token :: "uuid option"
  jb_leased_until :: "time option"
  jb_error_message :: "pystr option"
  jb_completed_at :: "time option"

record knowledge =
  kb_store :: store
  kb_runs :: "extraction_run table"
  kb_segments :: "evidence_segment table"
  kb_claims :: "claim table"
  kb_claim_evidence :: "claim_evidence table"
  kb_decisions :: "review_decision table"
  kb_entities :: "operating_entity table"
  kb_assertion_evidence :: "assertion_evidence table"
  kb_contradictions :: "contradiction table"
  kb_jobs :: "job table"

datatype knowledge_error =
    ClaimNotFound uuid
  | ClaimAlreadyReviewed
  | ContradictionNotFound uuid
  | ContradictionAlreadyResolved
  | KnowledgeValueError pystr
  | JobProcessing pystr
  | JobLeaseLost
  | EvidenceIntegrity pystr
  | BudgetExceeded pystr
  | CustomerDataDenied pystr
  | ParseRejected parse_error
  | ProviderFailed pystr bool
  | UniqueViolation string
  | CheckViolation string
  | KnowledgeInner service_error

type_synonym 'a knowing = "(knowledge_error, 'a) result"

section \<open>Flush\<close>

definition entity_types :: "pystr list" where
  "entity_types = map lit [''company'', ''department'', ''team'', ''person'', ''role'', ''system'', ''process'', ''policy'',
     ''rule'', ''exception'']"

definition claim_kinds :: "pystr list" where
  "claim_kinds = map lit [''entity'', ''relationship'', ''rule'', ''exception'']"

definition materialities :: "pystr list" where
  "materialities = map lit [''low'', ''material'']"

definition unique_rows :: "('r \<Rightarrow> 'k) \<Rightarrow> 'r table \<Rightarrow> bool" where
  "unique_rows key t \<longleftrightarrow> distinct (map key (current t))"

definition contradiction_pair :: "contradiction \<Rightarrow> uuid \<times> uuid" where
  "contradiction_pair c = (ct_left_claim_id c, ct_right_claim_id c)"

definition primary_keys :: "knowledge \<Rightarrow> bool" where
  "primary_keys k \<longleftrightarrow> unique_rows rn_id (kb_runs k) \<and> unique_rows es_id (kb_segments k) \<and> unique_rows cl_id (kb_claims k)
     \<and> unique_rows ce_id (kb_claim_evidence k) \<and> unique_rows dc_id (kb_decisions k) \<and> unique_rows en_id (kb_entities k)
     \<and> unique_rows ae_id (kb_assertion_evidence k) \<and> unique_rows ct_id (kb_contradictions k) \<and> unique_rows jb_id (kb_jobs k)
     \<and> unique_rows ev_id (evidence_assets (kb_store k)) \<and> unique_rows as_id (assertions (kb_store k))"

definition knowledge_checks :: "knowledge \<Rightarrow> (knowledge_error \<times> bool) list" where
  "knowledge_checks k =
     [(UniqueViolation ''primary_key'', primary_keys k),
      (UniqueViolation ''evidence_content_per_engagement'',
         unique_rows (\<lambda>a. (ev_engagement_id a, ev_content_hash a)) (evidence_assets (kb_store k))),
      (UniqueViolation ''evidence_segment_ordinal'', unique_rows (\<lambda>g. (es_evidence_asset_id g, es_ordinal g)) (kb_segments k)),
      (UniqueViolation ''claim_segment'', unique_rows (\<lambda>e. (ce_claim_id e, ce_segment_id e)) (kb_claim_evidence k)),
      (UniqueViolation ''one_decision_per_candidate_claim'', unique_rows dc_claim_id (kb_decisions k)),
      (UniqueViolation ''entity_identity'', unique_rows (\<lambda>e. (en_engagement_id e, en_type e, en_key e)) (kb_entities k)),
      (UniqueViolation ''assertion_source_claim'', unique_rows as_candidate_claim_id (assertions (kb_store k))),
      (UniqueViolation ''assertion_segment'', unique_rows (\<lambda>a. (ae_assertion_id a, ae_segment_id a)) (kb_assertion_evidence k)),
      (UniqueViolation ''contradiction_claim_pair'', unique_rows contradiction_pair (kb_contradictions k)),
      (UniqueViolation ''job_idempotency'', unique_rows (\<lambda>j. (jb_engagement_id j, jb_idempotency_key j)) (kb_jobs k)),
      (CheckViolation ''valid_entity_type'', list_all (\<lambda>e. en_type e \<in> set entity_types) (current (kb_entities k))),
      (CheckViolation ''valid_claim_kind'', list_all (\<lambda>c. cl_kind c \<in> set claim_kinds) (current (kb_claims k))),
      (CheckViolation ''valid_materiality'', list_all (\<lambda>c. cl_materiality c \<in> set materialities) (current (kb_claims k)))]"

definition knowledge_accepted :: "knowledge \<Rightarrow> bool" where
  "knowledge_accepted k \<longleftrightarrow> list_all snd (knowledge_checks k)"

definition flush_knowledge_tables :: "knowledge \<Rightarrow> knowledge" where
  "flush_knowledge_tables k = k\<lparr>kb_runs := flush (kb_runs k), kb_segments := flush (kb_segments k),
     kb_claims := flush (kb_claims k), kb_claim_evidence := flush (kb_claim_evidence k),
     kb_decisions := flush (kb_decisions k), kb_entities := flush (kb_entities k),
     kb_assertion_evidence := flush (kb_assertion_evidence k), kb_contradictions := flush (kb_contradictions k),
     kb_jobs := flush (kb_jobs k)\<rparr>"

definition on_store :: "(store \<Rightarrow> store outcome) \<Rightarrow> knowledge \<Rightarrow> knowledge knowing" where
  "on_store f k = (case f (kb_store k) of Inl e \<Rightarrow> Inl (KnowledgeInner e) | Inr s \<Rightarrow> Inr (k\<lparr>kb_store := s\<rparr>))"

definition events :: "(store \<Rightarrow> store) \<Rightarrow> knowledge \<Rightarrow> knowledge" where
  "events f k = k\<lparr>kb_store := f (kb_store k)\<rparr>"

definition knowledge_flush :: "knowledge \<Rightarrow> knowledge knowing" where
  "knowledge_flush k =
     bindE (all_ok (\<lambda>(e, ok). require ok e) (knowledge_checks k)) (\<lambda>_.
     bindE (on_store flush_session k) (\<lambda>k1. Inr (flush_knowledge_tables k1)))"

section \<open>Contradictions\<close>

definition list_contradictions :: "uuid \<Rightarrow> knowledge \<Rightarrow> contradiction list" where
  "list_contradictions eid k = sort_key (\<lambda>c. - ct_created_at c) (select (\<lambda>c. ct_engagement_id c = eid) (kb_contradictions k))"

definition resolution_statuses :: "(pystr \<times> contradiction_status) list" where
  "resolution_statuses =
     [(lit ''accepted_exception'', CtAcceptedException), (lit ''not_a_conflict'', CtNotAConflict),
      (lit ''superseded'', CtResolved), (lit ''override'', CtResolved)]"

definition resolved :: "pystr \<Rightarrow> contradiction_status \<Rightarrow> pystr \<Rightarrow> uuid \<Rightarrow> time \<Rightarrow> contradiction \<Rightarrow> contradiction" where
  "resolved type st reason actor now c = c\<lparr>ct_resolution_type := Some type, ct_resolution_reason := Some reason,
     ct_status := st, ct_blocking := False, ct_resolved_by_id := Some actor, ct_resolved_at := Some now\<rparr>"

definition check_resolution :: "uuid \<Rightarrow> uuid \<Rightarrow> pystr \<Rightarrow> pystr \<Rightarrow> knowledge \<Rightarrow> contradiction_status knowing" where
  "check_resolution eid cid type reason k =
     bindE (the_or (first (select (\<lambda>c. ct_id c = cid \<and> ct_engagement_id c = eid) (kb_contradictions k))) (ContradictionNotFound cid)) (\<lambda>c.
     bindE (require (ct_blocking c) ContradictionAlreadyResolved) (\<lambda>_.
     bindE (the_or (map_of resolution_statuses type) (KnowledgeValueError (lit ''Unsupported contradiction resolution.''))) (\<lambda>st.
     bindE (require (5 \<le> length (py_strip reason))
       (KnowledgeValueError (lit ''A contradiction resolution requires a meaningful reason.''))) (\<lambda>_. Inr st))))"

definition resolve_contradiction ::
  "uuid \<Rightarrow> uuid \<Rightarrow> operator \<Rightarrow> pystr \<Rightarrow> pystr \<Rightarrow> time \<Rightarrow> knowledge \<Rightarrow> knowledge knowing" where
  "resolve_contradiction eid cid opr type reason now k =
     bindE (check_resolution eid cid type reason k) (\<lambda>st.
     let clean = py_strip reason;
         k1 = k\<lparr>kb_contradictions := modify (\<lambda>c. ct_id c = cid) (resolved type st clean (op_id opr) now) (kb_contradictions k)\<rparr>
     in bindE (on_store (stale_all_customer_models eid
          (lit ''A material contradiction resolution changed the verified customer truth basis.'') now (Some (op_id opr))) k1) (\<lambda>k2.
     knowledge_flush (events (\<lambda>s.
       publish_domain_event eid (lit ''contradiction.resolved'') (lit ''contradiction'') cid
         (obj [(''resolution_type'', JStr type)])
         (record_audit eid (op_id opr) (lit ''contradiction.resolved'') (lit ''contradiction'') cid
           (obj [(''resolution_type'', JStr type), (''reason'', JStr clean)]) s)) k2)))"

section \<open>Entities\<close>

text \<open>\<open>re.sub(r"[^a-z0-9]+", "-", name.casefold()).strip("-")\<close>\<close>

definition key_char :: "nat \<Rightarrow> bool" where
  "key_char c \<longleftrightarrow> (97 \<le> c \<and> c \<le> 122) \<or> (48 \<le> c \<and> c \<le> 57)"

fun dash_runs :: "bool \<Rightarrow> pystr \<Rightarrow> pystr" where
  "dash_runs in_run [] = []"
| "dash_runs in_run (c # cs) =
     (if key_char c then c # dash_runs False cs else if in_run then dash_runs True cs else 45 # dash_runs True cs)"

definition canonical_key :: "pystr \<Rightarrow> pystr" where
  "canonical_key name = strip_chars {45} (dash_runs False (casefold name))"

definition get_or_create_entity ::
  "uuid \<Rightarrow> entity_spec \<Rightarrow> uuid \<Rightarrow> uuid \<Rightarrow> knowledge \<Rightarrow> (operating_entity \<times> knowledge) knowing" where
  "get_or_create_entity eid sp actor nid k =
     (case first (select (\<lambda>e. en_engagement_id e = eid \<and> en_type e = sp_type sp \<and> en_key e = canonical_key (sp_name sp))
        (kb_entities k)) of
       Some e \<Rightarrow> Inr (e, k)
     | None \<Rightarrow> let e = \<lparr>en_id = nid, en_engagement_id = eid, en_type = sp_type sp, en_key = canonical_key (sp_name sp),
           en_name = sp_name sp, en_status = lit ''verified'', en_verified_by_id = actor\<rparr>
         in bindE (knowledge_flush (k\<lparr>kb_entities := add e (kb_entities k)\<rparr>)) (\<lambda>k1. Inr (e, k1)))"

section \<open>Review\<close>

fun claim_status_text :: "claim_status \<Rightarrow> pystr" where
  "claim_status_text CCandidate = lit ''candidate''"
| "claim_status_text CAccepted = lit ''accepted''"
| "claim_status_text CRejected = lit ''rejected''"
| "claim_status_text CDeferred = lit ''deferred''"

definition list_claims :: "uuid \<Rightarrow> claim_status option \<Rightarrow> knowledge \<Rightarrow> claim list" where
  "list_claims eid st k = sort_key (\<lambda>c. - cl_created_at c)
     (select (\<lambda>c. cl_engagement_id c = eid \<and> (st = None \<or> st = Some (cl_status c))) (kb_claims k))"

definition new_assertion :: "claim \<Rightarrow> uuid \<Rightarrow> uuid option \<Rightarrow> uuid \<Rightarrow> uuid \<Rightarrow> time \<Rightarrow> assertion" where
  "new_assertion c subject object actor nid now = \<lparr>as_id = nid, as_engagement_id = cl_engagement_id c,
     as_subject_entity_id = subject, as_predicate = cl_predicate c, as_object_entity_id = object,
     as_value = obj [(''summary'', JStr (cl_summary c)), (''claim_kind'', JStr (cl_kind c)),
       (''condition'', jopt JStr (cp_condition (cl_payload c))), (''is_exception'', JBool (cp_is_exception (cl_payload c)))],
     as_status = Verified, as_confidence = cl_confidence c, as_valid_from = None, as_valid_until = None,
     as_recorded_at = now, as_candidate_claim_id = cl_id c, as_verified_by_id = actor\<rparr>"

definition link_of :: "uuid \<Rightarrow> uuid \<Rightarrow> (nat \<Rightarrow> uuid) \<Rightarrow> nat \<times> claim_evidence \<Rightarrow> assertion_evidence" where
  "link_of eid aid fresh = (\<lambda>(i, e). \<lparr>ae_id = fresh (4 + i), ae_engagement_id = eid, ae_assertion_id = aid,
     ae_segment_id = ce_segment_id e, ae_claim_evidence_id = ce_id e\<rparr>)"

definition create_verified_assertion ::
  "claim \<Rightarrow> uuid \<Rightarrow> (nat \<Rightarrow> uuid) \<Rightarrow> time \<Rightarrow> knowledge \<Rightarrow> (assertion \<times> knowledge) knowing" where
  "create_verified_assertion c actor fresh now k =
     bindE (get_or_create_entity (cl_engagement_id c) (cp_subject (cl_payload c)) actor (fresh 1) k) (\<lambda>(subject, k1).
     bindE (case cp_object (cl_payload c) of None \<Rightarrow> Inr (None, k1)
       | Some sp \<Rightarrow> bindE (get_or_create_entity (cl_engagement_id c) sp actor (fresh 2) k1) (\<lambda>(e, k2). Inr (Some (en_id e), k2)))
       (\<lambda>(object, k2).
     let a = new_assertion c (en_id subject) object actor (fresh 3) now
     in bindE (knowledge_flush (events (\<lambda>s. s\<lparr>assertions := add a (assertions s)\<rparr>) k2)) (\<lambda>k3.
     let links = select (\<lambda>e. ce_claim_id e = cl_id c) (kb_claim_evidence k3)
     in bindE (require (links \<noteq> []) (KnowledgeValueError (lit ''A verified assertion must retain at least one evidence link.''))) (\<lambda>_.
     Inr (a, k3\<lparr>kb_assertion_evidence := kb_assertion_evidence k3
       @ map (\<lambda>l. (None, link_of (cl_engagement_id c) (as_id a) fresh l)) (enumerate 0 links)\<rparr>)))))"

definition asset_has_pending :: "uuid \<Rightarrow> knowledge \<Rightarrow> bool" where
  "asset_has_pending aid k \<longleftrightarrow> list_ex (\<lambda>c.
     list_ex (\<lambda>r. rn_id r = cl_run_id c) (select (\<lambda>r. rn_evidence_asset_id r = aid) (kb_runs k)))
     (select (\<lambda>c. cl_status c = CCandidate) (kb_claims k))"

definition complete_evidence_review_if_decided :: "claim \<Rightarrow> knowledge \<Rightarrow> evidence_asset option \<times> knowledge" where
  "complete_evidence_review_if_decided c k =
     (case session_get rn_id (cl_run_id c) (kb_runs k) of None \<Rightarrow> (None, k)
      | Some r \<Rightarrow>
        (case first (select (\<lambda>a. ev_id a = rn_evidence_asset_id r \<and> ev_status a = ENeedsReview) (evidence_assets (kb_store k))) of
           None \<Rightarrow> (None, k)
         | Some a \<Rightarrow> if asset_has_pending (ev_id a) k then (None, k)
             else (Some a, events (\<lambda>s. s\<lparr>evidence_assets := modify (\<lambda>x. ev_id x = ev_id a)
                 (\<lambda>x. x\<lparr>ev_status := EComplete\<rparr>) (evidence_assets s)\<rparr>) k)))"

definition review_reason :: "pystr option \<Rightarrow> pystr option" where
  "review_reason r = (case r of None \<Rightarrow> None | Some t \<Rightarrow> if t = [] then None else Some (py_strip t))"

text \<open>The decision as the request gives it; other texts are refused.\<close>

definition review_decisions :: "(pystr \<times> claim_status) list" where
  "review_decisions = [(lit ''accepted'', CAccepted), (lit ''rejected'', CRejected), (lit ''deferred'', CDeferred)]"

definition check_review :: "uuid \<Rightarrow> uuid \<Rightarrow> pystr \<Rightarrow> knowledge \<Rightarrow> (claim \<times> claim_status) knowing" where
  "check_review eid cid decision k =
     bindE (the_or (first (select (\<lambda>c. cl_id c = cid \<and> cl_engagement_id c = eid) (kb_claims k))) (ClaimNotFound cid)) (\<lambda>c.
     bindE (require (cl_status c = CCandidate) ClaimAlreadyReviewed) (\<lambda>_.
     bindE (the_or (map_of review_decisions decision) (KnowledgeValueError (lit ''Unsupported review decision.''))) (\<lambda>d.
     Inr (c, d))))"

definition record_decision :: "uuid \<Rightarrow> claim \<Rightarrow> claim_status \<Rightarrow> pystr option \<Rightarrow> uuid \<Rightarrow> uuid \<Rightarrow> knowledge \<Rightarrow> knowledge" where
  "record_decision eid c d reason actor nid k =
     k\<lparr>kb_claims := modify (\<lambda>x. cl_id x = cl_id c) (\<lambda>x. x\<lparr>cl_status := d\<rparr>) (kb_claims k),
       kb_decisions := add \<lparr>dc_id = nid, dc_engagement_id = eid, dc_claim_id = cl_id c, dc_reviewer_id = actor,
         dc_decision = d, dc_reason = review_reason reason\<rparr> (kb_decisions k)\<rparr>"

text \<open>Accepting a claim: its assertion, the staleness of everything built on the verified truth, the stage.\<close>

definition accept_claim ::
  "uuid \<Rightarrow> claim \<Rightarrow> uuid \<Rightarrow> (nat \<Rightarrow> uuid) \<Rightarrow> time \<Rightarrow> knowledge \<Rightarrow> (assertion option \<times> knowledge) knowing" where
  "accept_claim eid c actor fresh now k =
     bindE (create_verified_assertion c actor fresh now k) (\<lambda>(a, k1).
     bindE (on_store (stale_after_model_change eid (Some actor) now) k1) (\<lambda>k2.
     Inr (Some a, events (\<lambda>s. s\<lparr>engagements := modify (\<lambda>e. eg_id e = eid) (\<lambda>e. e\<lparr>eg_lifecycle_stage := StModel\<rparr>)
       (engagements s)\<rparr>) k2)))"

definition review_events ::
  "uuid \<Rightarrow> claim \<Rightarrow> claim_status \<Rightarrow> pystr option \<Rightarrow> uuid \<Rightarrow> assertion option \<Rightarrow> evidence_asset option \<Rightarrow> store \<Rightarrow> store" where
  "review_events eid c d reason actor a asset s =
     (let s1 = publish_domain_event eid (lit ''claim.reviewed'') (lit ''candidate_claim'') (cl_id c)
            (obj [(''decision'', JStr (claim_status_text d))])
            (record_audit eid actor (lit ''claim.'' @ claim_status_text d) (lit ''candidate_claim'') (cl_id c)
              (obj [(''reason'', jopt JStr reason), (''assertion_id'', jopt (\<lambda>x. JStr (uuid_str (as_id x))) a)]) s);
          s2 = (case a of None \<Rightarrow> s1 | Some x \<Rightarrow>
            publish_domain_event eid (lit ''assertion.verified'') (lit ''assertion'') (as_id x)
              (obj [(''candidate_claim_id'', JStr (uuid_str (cl_id c)))]) s1)
      in case asset of None \<Rightarrow> s2 | Some x \<Rightarrow>
        publish_domain_event eid (lit ''evidence.review_completed'') (lit ''evidence_asset'') (ev_id x) (obj [])
          (record_audit eid actor (lit ''evidence.review_completed'') (lit ''evidence_asset'') (ev_id x) (obj []) s2))"

definition review_claim ::
  "uuid \<Rightarrow> uuid \<Rightarrow> operator \<Rightarrow> pystr \<Rightarrow> pystr option \<Rightarrow> (nat \<Rightarrow> uuid) \<Rightarrow> time \<Rightarrow> knowledge
    \<Rightarrow> (assertion option \<times> knowledge) knowing" where
  "review_claim eid cid opr decision reason fresh now k =
     bindE (check_review eid cid decision k) (\<lambda>(c, d).
     let k1 = record_decision eid c d reason (op_id opr) (fresh 0) k
     in bindE (if d = CAccepted then accept_claim eid c (op_id opr) fresh now k1 else Inr (None, k1)) (\<lambda>(a, k2).
     bindE (knowledge_flush k2) (\<lambda>k3.
     case complete_evidence_review_if_decided c k3 of (asset, k4) \<Rightarrow>
       Inr (a, events (review_events eid c d reason (op_id opr) a asset) k4))))"

text \<open>The evidence of a claim, joined over its links, their segments and the assets.\<close>

definition evidence_for_claim ::
  "uuid \<Rightarrow> knowledge \<Rightarrow> (claim_evidence \<times> evidence_segment \<times> evidence_asset) list" where
  "evidence_for_claim cid k =
     concat (map (\<lambda>l. concat (map (\<lambda>g. map (\<lambda>a. (l, g, a))
        (select (\<lambda>a. ev_id a = es_evidence_asset_id g) (evidence_assets (kb_store k))))
        (select (\<lambda>g. es_id g = ce_segment_id l) (kb_segments k))))
        (select (\<lambda>l. ce_claim_id l = cid) (kb_claim_evidence k)))"

end
