(* ===== verification/Workflows.thy ===== *)
theory Workflows
  imports Knowledge Lowercase
begin

text \<open>
  \<open>modules/workflows/service.py\<close>: the current workflow as a projection of the verified assertions, the
  target workflow that allocates its steps, the editing of a draft's steps and the approval of a
  draft.  A flush also checks the keys of the two workflow tables.
\<close>

section \<open>Errors and flush\<close>

datatype workflow_error =
    WorkflowNotFound uuid
  | WorkflowStageGate pystr
  | WorkflowValueError pystr
  | WorkflowUnique string
  | WorkflowFailed knowledge_error

type_synonym 'a drawing = "(workflow_error, 'a) result"

definition lifted :: "'a knowing \<Rightarrow> 'a drawing" where
  "lifted r = (case r of Inl e \<Rightarrow> Inl (WorkflowFailed e) | Inr x \<Rightarrow> Inr x)"

definition workflow_identity :: "workflow \<Rightarrow> uuid \<times> workflow_kind \<times> int" where
  "workflow_identity w = (wf_engagement_id w, wf_kind w, wf_version w)"

definition workflow_keys :: "store \<Rightarrow> bool" where
  "workflow_keys s \<longleftrightarrow> unique_rows wf_id (workflows s) \<and> unique_rows workflow_identity (workflows s)
     \<and> unique_rows ws_id (steps s) \<and> unique_rows (\<lambda>st. (ws_workflow_id st, ws_key st)) (steps s)"

definition workflow_flush :: "knowledge \<Rightarrow> knowledge drawing" where
  "workflow_flush k =
     bindE (require (workflow_keys (kb_store k)) (WorkflowUnique ''workflow'')) (\<lambda>_. lifted (knowledge_flush k))"

section \<open>Reading\<close>

definition newest_workflow :: "uuid \<Rightarrow> workflow_kind \<Rightarrow> (workflow \<Rightarrow> bool) \<Rightarrow> store \<Rightarrow> workflow option" where
  "newest_workflow eid kind P s =
     latest_by wf_version (select (\<lambda>w. wf_engagement_id w = eid \<and> wf_kind w = kind \<and> P w) (workflows s))"

definition list_latest_workflows :: "uuid \<Rightarrow> store \<Rightarrow> workflow option \<times> workflow option" where
  "list_latest_workflows eid s = (newest_workflow eid Current (\<lambda>_. True) s, newest_workflow eid Target (\<lambda>_. True) s)"

definition list_workflow_steps :: "uuid \<Rightarrow> store \<Rightarrow> workflow_step list" where
  "list_workflow_steps wid s = select_sorted ws_position (\<lambda>st. ws_workflow_id st = wid) (steps s)"

definition get_workflow :: "uuid \<Rightarrow> uuid \<Rightarrow> store \<Rightarrow> workflow drawing" where
  "get_workflow eid wid s =
     the_or (first (select (\<lambda>w. wf_id w = wid \<and> wf_engagement_id w = eid) (workflows s))) (WorkflowNotFound wid)"

definition approved_now :: "uuid \<Rightarrow> workflow_kind \<Rightarrow> store \<Rightarrow> workflow option" where
  "approved_now eid kind = newest_workflow eid kind (\<lambda>w. wf_status w = Approved)"

definition next_workflow_version :: "uuid \<Rightarrow> workflow_kind \<Rightarrow> store \<Rightarrow> int" where
  "next_workflow_version eid kind s =
     (case newest_workflow eid kind (\<lambda>_. True) s of None \<Rightarrow> 1 | Some w \<Rightarrow> wf_version w + 1)"

definition stale_kind :: "uuid \<Rightarrow> workflow_kind \<Rightarrow> store \<Rightarrow> store" where
  "stale_kind eid kind s = s\<lparr>workflows := stale_workflows (\<lambda>w. wf_engagement_id w = eid \<and> wf_kind w = kind) (workflows s)\<rparr>"

definition record_workflow_event :: "workflow \<Rightarrow> uuid \<Rightarrow> pystr \<Rightarrow> (string \<times> json) list \<Rightarrow> store \<Rightarrow> store" where
  "record_workflow_event w actor event detail s =
     (let base = [(''kind'', JStr (workflow_kind_text (wf_kind w))), (''version'', JInt (wf_version w))] in
      publish_domain_event (wf_engagement_id w) event (lit ''workflow_version'') (wf_id w) (obj base)
        (record_audit (wf_engagement_id w) actor event (lit ''workflow_version'') (wf_id w) (obj (base @ detail)) s))"

section \<open>Projection of an assertion\<close>

text \<open>
  The value of an assertion is a JSONB object that only \<open>new_assertion\<close> writes: its fields are texts,
  booleans or null.
\<close>

definition value_field :: "string \<Rightarrow> json \<Rightarrow> json option" where
  "value_field field v = (case v of JObj kvs \<Rightarrow> map_of kvs (JStr (lit field)) | _ \<Rightarrow> None)"

definition value_text :: "string \<Rightarrow> json \<Rightarrow> pystr option" where
  "value_text field v = (case value_field field v of Some (JStr t) \<Rightarrow> if t = [] then None else Some t | _ \<Rightarrow> None)"

definition value_flag :: "string \<Rightarrow> json \<Rightarrow> bool" where
  "value_flag field v = (value_field field v = Some (JBool True))"

text \<open>The keyword arguments of a step; the remaining columns are set by the caller.\<close>

record step_data =
  sd_key :: pystr
  sd_name :: pystr
  sd_description :: pystr
  sd_type :: step_type
  sd_actor_label :: "pystr option"
  sd_system_label :: "pystr option"
  sd_allocation :: allocation
  sd_rationale :: pystr
  sd_controls :: "pystr list"
  sd_source_assertion_id :: uuid

definition step_of :: "assertion \<Rightarrow> string \<Rightarrow> string \<Rightarrow> step_type \<Rightarrow> allocation \<Rightarrow> string \<Rightarrow> pystr \<Rightarrow> pystr \<Rightarrow> pystr option
    \<Rightarrow> pystr \<Rightarrow> step_data" where
  "step_of a prefix summary type alloc rationale name actor system control =
     \<lparr>sd_key = lit prefix @ take 10 (uuid_hex (as_id a)), sd_name = name,
      sd_description = (case value_text ''summary'' (as_value a) of Some t \<Rightarrow> t | None \<Rightarrow> lit summary),
      sd_type = type, sd_actor_label = Some actor, sd_system_label = system, sd_allocation = alloc,
      sd_rationale = lit rationale, sd_controls = [control], sd_source_assertion_id = as_id a\<rparr>"

definition approval_name :: "json \<Rightarrow> pystr" where
  "approval_name v = (if value_flag ''is_exception'' v then lit ''Apply approved exception for'' else lit ''Approve'') @ lit '' ''
     @ (case value_text ''condition'' v of Some t \<Rightarrow> t | None \<Rightarrow> lit ''qualifying work'')"

definition project_relation :: "assertion \<Rightarrow> pystr \<Rightarrow> pystr \<Rightarrow> step_data option" where
  "project_relation a subject object =
     (if as_predicate a = lit ''OWNS'' then Some (step_of a ''ownership-'' ''Verified process ownership.'' HumanTask AHuman
        ''Verified ownership is currently exercised by a human accountable owner.''
        (lit ''Oversee '' @ object) subject None (lit ''Named owner remains accountable''))
      else if as_predicate a = lit ''USES'' then Some (step_of a ''system-use-'' ''Verified system use.'' SoftwareTask ASoftware
        ''The current workflow already uses this deterministic system.''
        (lit ''Process work in '' @ object) subject (Some object) (lit ''Preserve the existing system of record''))
      else if as_predicate a = lit ''REQUIRES_APPROVAL'' then Some (step_of a ''approval-'' ''Verified approval rule.'' Approval AHuman
        ''A material financial approval remains under human authority.''
        (approval_name (as_value a)) object None (lit ''Approval actor and decision are recorded''))
      else if as_predicate a = lit ''PRECEDES'' then Some (step_of a ''sequence-'' ''Verified workflow sequence.'' Decision AHuman
        ''The ordering dependency is verified; its execution remains explicit.''
        (lit ''Complete '' @ subject @ lit '' before '' @ object) subject None
        (lit ''Do not begin '' @ object @ lit '' before completion is recorded''))
      else if as_predicate a = lit ''HANDS_OFF_TO'' then Some (step_of a ''handoff-'' ''Verified workflow handoff.'' Handoff AHuman
        ''The verified receiving role must acknowledge the transfer of work.''
        (lit ''Hand off from '' @ subject @ lit '' to '' @ object) object None
        (lit ''Record the sender, recipient, timestamp, and acknowledgement''))
      else if as_predicate a = lit ''GOVERNED_BY'' then Some (step_of a ''governance-'' ''Verified governing rule.'' Decision AHuman
        ''A verified policy or rule must remain an explicit decision control.''
        (lit ''Apply '' @ object) subject None (lit ''Record the applicable version of '' @ object))
      else None)"

definition project_assertion :: "knowledge \<Rightarrow> assertion \<Rightarrow> step_data option" where
  "project_assertion k a =
     (case session_get en_id (as_subject_entity_id a) (kb_entities k) of None \<Rightarrow> None
      | Some subject \<Rightarrow>
        (case Option.bind (as_object_entity_id a) (\<lambda>i. session_get en_id i (kb_entities k)) of None \<Rightarrow> None
         | Some object \<Rightarrow> if en_name object = [] then None else project_relation a (en_name subject) (en_name object)))"

section \<open>The current workflow\<close>

definition em_dash :: pystr where "em_dash = [0x2014]"

definition new_workflow ::
  "uuid \<Rightarrow> uuid \<Rightarrow> workflow_kind \<Rightarrow> int \<Rightarrow> pystr \<Rightarrow> pystr \<Rightarrow> uuid option \<Rightarrow> pystr list \<Rightarrow> uuid \<Rightarrow> workflow" where
  "new_workflow nid eid kind version name objective source sources actor =
     \<lparr>wf_id = nid, wf_engagement_id = eid, wf_kind = kind, wf_version = version, wf_name = name, wf_objective = objective,
      wf_status = Draft, wf_source_workflow_id = source, wf_source_assertion_ids = sources, wf_created_by_id = actor,
      wf_approved_by_id = None, wf_approved_at = None, wf_approval_reason = None\<rparr>"

definition step_row :: "uuid \<Rightarrow> uuid \<Rightarrow> uuid \<Rightarrow> nat \<Rightarrow> step_data \<Rightarrow> workflow_step" where
  "step_row nid eid wid position d = \<lparr>ws_id = nid, ws_engagement_id = eid, ws_workflow_id = wid, ws_key = sd_key d,
     ws_position = int position, ws_name = sd_name d, ws_description = sd_description d, ws_type = sd_type d,
     ws_actor_label = sd_actor_label d, ws_system_label = sd_system_label d, ws_allocation = sd_allocation d,
     ws_rationale = sd_rationale d, ws_controls = sd_controls d, ws_source_assertion_id = Some (sd_source_assertion_id d)\<rparr>"

text \<open>The new workflow, flushed, then its steps, flushed.\<close>

definition add_workflow :: "workflow \<Rightarrow> workflow_step list \<Rightarrow> knowledge \<Rightarrow> knowledge drawing" where
  "add_workflow w sts k =
     bindE (workflow_flush (events (\<lambda>s. s\<lparr>workflows := add w (workflows s)\<rparr>) k)) (\<lambda>k1.
     workflow_flush (events (\<lambda>s. s\<lparr>steps := steps s @ map (\<lambda>st. (None, st)) sts\<rparr>) k1))"

definition verified_assertions :: "uuid \<Rightarrow> store \<Rightarrow> assertion list" where
  "verified_assertions eid s = select_sorted (\<lambda>a. (as_recorded_at a, as_id a))
     (\<lambda>a. as_engagement_id a = eid \<and> as_status a = Verified) (assertions s)"

definition draft_current ::
  "engagement \<Rightarrow> uuid \<Rightarrow> (nat \<Rightarrow> uuid) \<Rightarrow> time \<Rightarrow> knowledge \<Rightarrow> (workflow \<times> knowledge) drawing" where
  "draft_current e actor fresh now k =
     (let eid = eg_id e; as = verified_assertions eid (kb_store k); projected = List.map_filter (project_assertion k) as in
      bindE (require (projected \<noteq> []) (WorkflowStageGate
        (lit ''Verify at least one workflow relationship, rule, or exception before drafting the current workflow.''))) (\<lambda>_.
      bindE (lifted (on_store (stale_after_current_workflow_change eid (Some actor) now) (events (stale_kind eid Current) k))) (\<lambda>k1.
      let w = new_workflow (fresh 0) eid Current (next_workflow_version eid Current (kb_store k1))
            (eg_workflow_name e @ lit '' '' @ em_dash @ lit '' Current State'')
            (lit ''Represent the verified '' @ lower (eg_workflow_name e) @ lit '' workflow without redesigning it.'')
            None (map (\<lambda>a. uuid_str (as_id a)) as) actor;
          sts = map (\<lambda>(i, d). step_row (fresh i) eid (fresh 0) i d) (enumerate 1 projected)
      in bindE (add_workflow w sts k1) (\<lambda>k2.
         Inr (w, events (record_workflow_event w actor (lit ''workflow.current_drafted'') []) k2)))))"

definition generate_current_workflow ::
  "uuid \<Rightarrow> uuid \<Rightarrow> (nat \<Rightarrow> uuid) \<Rightarrow> time \<Rightarrow> knowledge \<Rightarrow> (workflow \<times> knowledge) drawing" where
  "generate_current_workflow eid actor fresh now k =
     bindE (the_or (session_get eg_id eid (engagements (kb_store k))) (WorkflowNotFound eid)) (\<lambda>e.
     case newest_workflow eid Current (\<lambda>w. wf_status w = Draft) (kb_store k) of
       Some w \<Rightarrow> Inr (w, k)
     | None \<Rightarrow> draft_current e actor fresh now k)"

section \<open>The target workflow\<close>

definition target_recommendation :: "workflow_step \<Rightarrow> allocation \<times> pystr \<times> pystr list" where
  "target_recommendation st =
     (if ws_type st = Approval then (AHuman, lit ''Keep material approval authority with the verified human role.'',
        [lit ''Approval actor and decision are recorded'', lit ''No autonomous approval''])
      else case ws_system_label st of
        Some (c # cs) \<Rightarrow> (ASoftware, lit ''Preserve '' @ (c # cs) @ lit '' as the deterministic system of record.'',
          [lit ''Existing system of record is preserved'', lit ''Failures route to a human owner''])
      | _ \<Rightarrow> (AHuman, lit ''Insufficient verified evidence exists to justify higher autonomy.'',
          [lit ''Named human owner remains accountable'']))"

definition target_step :: "uuid \<Rightarrow> uuid \<Rightarrow> uuid \<Rightarrow> workflow_step \<Rightarrow> workflow_step" where
  "target_step nid eid wid st = (case target_recommendation st of (alloc, rationale, controls) \<Rightarrow>
     st\<lparr>ws_id := nid, ws_engagement_id := eid, ws_workflow_id := wid, ws_allocation := alloc, ws_rationale := rationale,
        ws_controls := controls\<rparr>)"

definition draft_target ::
  "engagement \<Rightarrow> workflow \<Rightarrow> uuid \<Rightarrow> (nat \<Rightarrow> uuid) \<Rightarrow> time \<Rightarrow> knowledge \<Rightarrow> (workflow \<times> knowledge) drawing" where
  "draft_target e c actor fresh now k =
     (let eid = eg_id e in
      bindE (lifted (on_store (stale_after_target_workflow_change eid (Some actor) now) (events (stale_kind eid Target) k))) (\<lambda>k1.
      let w = new_workflow (fresh 0) eid Target (next_workflow_version eid Target (kb_store k1))
            (eg_workflow_name e @ lit '' '' @ em_dash @ lit '' Target State'')
            (lit ''Allocate each verified workflow step to the safest effective combination of human authority and existing software.'')
            (Some (wf_id c)) (wf_source_assertion_ids c) actor;
          sts = map (\<lambda>(i, st). target_step (fresh i) eid (fresh 0) st) (enumerate 1 (list_workflow_steps (wf_id c) (kb_store k1)))
      in bindE (add_workflow w sts k1) (\<lambda>k2.
         Inr (w, events (\<lambda>s. record_workflow_event w actor (lit ''workflow.target_drafted'') []
           (s\<lparr>engagements := modify (\<lambda>x. eg_id x = eid) (\<lambda>x. x\<lparr>eg_lifecycle_stage := StDecide\<rparr>) (engagements s)\<rparr>)) k2))))"

definition generate_target_workflow ::
  "uuid \<Rightarrow> uuid \<Rightarrow> (nat \<Rightarrow> uuid) \<Rightarrow> time \<Rightarrow> knowledge \<Rightarrow> (workflow \<times> knowledge) drawing" where
  "generate_target_workflow eid actor fresh now k =
     bindE (the_or (session_get eg_id eid (engagements (kb_store k))) (WorkflowNotFound eid)) (\<lambda>e.
     bindE (the_or (approved_now eid Current (kb_store k))
       (WorkflowStageGate (lit ''Approve a current-state workflow before designing a target state.''))) (\<lambda>c.
     case newest_workflow eid Target (\<lambda>w. wf_source_workflow_id w = Some (wf_id c) \<and> wf_status w = Draft) (kb_store k) of
       Some w \<Rightarrow> Inr (w, k)
     | None \<Rightarrow> draft_target e c actor fresh now k))"

section \<open>Editing a draft\<close>

record step_update =
  su_name :: "pystr option"
  su_description :: "pystr option"
  su_actor_label :: "pystr option"
  su_allocation :: "pystr option"
  su_rationale :: "pystr option"
  su_controls :: "pystr list option"

definition allocation_of :: "pystr \<Rightarrow> allocation option" where
  "allocation_of t = map_of (map (\<lambda>a. (allocation_text a, a)) [AHuman, ASoftware, AAi, AAiHuman]) t"

definition new_allocation :: "workflow \<Rightarrow> step_update \<Rightarrow> allocation option drawing" where
  "new_allocation w u = (case su_allocation u of None \<Rightarrow> Inr None
     | Some t \<Rightarrow> bindE (require (wf_kind w = Target) (WorkflowStageGate (lit ''Allocation changes belong to the target workflow.''))) (\<lambda>_.
         bindE (the_or (allocation_of t) (WorkflowValueError (lit ''Unsupported allocation.''))) (\<lambda>a. Inr (Some a))))"

definition or_keep :: "'a option \<Rightarrow> 'a \<Rightarrow> 'a" where
  "or_keep x y = (case x of None \<Rightarrow> y | Some v \<Rightarrow> v)"

definition text_or_none :: "pystr \<Rightarrow> pystr option" where
  "text_or_none t = (if t = [] then None else Some t)"

definition edited_step :: "step_update \<Rightarrow> allocation option \<Rightarrow> workflow_step \<Rightarrow> workflow_step" where
  "edited_step u alloc st = st\<lparr>ws_allocation := or_keep alloc (ws_allocation st),
     ws_name := or_keep (map_option py_strip (su_name u)) (ws_name st),
     ws_description := or_keep (map_option py_strip (su_description u)) (ws_description st),
     ws_actor_label := or_keep (map_option (\<lambda>t. text_or_none (py_strip t)) (su_actor_label u)) (ws_actor_label st),
     ws_rationale := or_keep (map_option py_strip (su_rationale u)) (ws_rationale st),
     ws_controls := or_keep (map_option (\<lambda>cs. filter (\<lambda>t. t \<noteq> []) (map py_strip cs)) (su_controls u)) (ws_controls st)\<rparr>"

text \<open>What the request reads and checks, then what it writes; the commit flushes.\<close>

definition check_step_update ::
  "uuid \<Rightarrow> uuid \<Rightarrow> uuid \<Rightarrow> step_update \<Rightarrow> knowledge \<Rightarrow> (workflow \<times> workflow_step \<times> allocation option) drawing" where
  "check_step_update eid wid sid u k =
     bindE (get_workflow eid wid (kb_store k)) (\<lambda>w.
     bindE (require (wf_status w = Draft) (WorkflowStageGate (lit ''Only a draft workflow can be edited.''))) (\<lambda>_.
     bindE (the_or (first (select (\<lambda>st. ws_id st = sid \<and> ws_workflow_id st = wid \<and> ws_engagement_id st = eid)
        (steps (kb_store k)))) (WorkflowNotFound sid)) (\<lambda>st.
     bindE (new_allocation w u) (\<lambda>a. Inr (w, st, a)))))"

definition write_step_update :: "uuid \<Rightarrow> uuid \<Rightarrow> workflow \<Rightarrow> uuid \<Rightarrow> step_update \<Rightarrow> allocation option \<Rightarrow> store \<Rightarrow> store" where
  "write_step_update eid actor w sid u a s =
     record_audit eid actor (lit ''workflow.step_updated'') (lit ''workflow_step'') sid
       (obj [(''workflow_id'', JStr (uuid_str (wf_id w))), (''workflow_kind'', JStr (workflow_kind_text (wf_kind w)))])
       (s\<lparr>steps := modify (\<lambda>st. ws_id st = sid) (edited_step u a) (steps s)\<rparr>)"

definition update_workflow_step ::
  "uuid \<Rightarrow> uuid \<Rightarrow> uuid \<Rightarrow> uuid \<Rightarrow> step_update \<Rightarrow> knowledge \<Rightarrow> (workflow_step \<times> knowledge) drawing" where
  "update_workflow_step eid wid sid actor u k =
     bindE (check_step_update eid wid sid u k) (\<lambda>(w, st, a).
     Inr (edited_step u a st, events (write_step_update eid actor w sid u a) k))"

section \<open>Approval\<close>

definition ai_step :: "workflow_step \<Rightarrow> bool" where
  "ai_step st \<longleftrightarrow> ws_allocation st \<in> {AAi, AAiHuman}"

definition controlled :: "workflow_step \<Rightarrow> bool" where
  "controlled st \<longleftrightarrow> py_strip (ws_rationale st) \<noteq> [] \<and> ws_controls st \<noteq> []"

definition check_current_approval :: "uuid \<Rightarrow> pystr option \<Rightarrow> knowledge \<Rightarrow> unit drawing" where
  "check_current_approval eid reason k =
     require (\<not> (select (\<lambda>c. ct_engagement_id c = eid \<and> ct_blocking c) (kb_contradictions k) \<noteq> [] \<and> reason \<in> {None, Some []}))
       (WorkflowStageGate (lit ''Resolve blocking contradictions or record an explicit approval override reason.''))"

definition check_target_approval :: "workflow \<Rightarrow> knowledge \<Rightarrow> unit drawing" where
  "check_target_approval w k =
     bindE (require (case Option.bind (wf_source_workflow_id w) (\<lambda>i. session_get wf_id i (workflows (kb_store k))) of
         None \<Rightarrow> False | Some source \<Rightarrow> wf_status source = Approved)
       (WorkflowStageGate (lit ''The target workflow's current-state source is no longer approved.''))) (\<lambda>_.
     all_ok (\<lambda>st. require (\<not> (ai_step st \<and> \<not> controlled st)) (WorkflowStageGate (ws_name st
       @ lit '' needs a rationale and at least one control before AI allocation approval.'')))
       (list_workflow_steps (wf_id w) (kb_store k)))"

definition approve_kind :: "workflow \<Rightarrow> pystr option \<Rightarrow> uuid \<Rightarrow> time \<Rightarrow> knowledge \<Rightarrow> knowledge drawing" where
  "approve_kind w reason actor now k = (case wf_kind w of
     Current \<Rightarrow> bindE (check_current_approval (wf_engagement_id w) reason k) (\<lambda>_.
       lifted (on_store (stale_after_current_workflow_change (wf_engagement_id w) (Some actor) now) k))
   | Target \<Rightarrow> bindE (check_target_approval w k) (\<lambda>_.
       lifted (on_store (stale_after_target_workflow_change (wf_engagement_id w) (Some actor) now) k)))"

definition approved_workflow_row :: "uuid \<Rightarrow> time \<Rightarrow> pystr option \<Rightarrow> workflow \<Rightarrow> workflow" where
  "approved_workflow_row actor now reason w = w\<lparr>wf_status := Approved, wf_approved_by_id := Some actor,
     wf_approved_at := Some now, wf_approval_reason := reason\<rparr>"

definition approve_workflow ::
  "uuid \<Rightarrow> uuid \<Rightarrow> uuid \<Rightarrow> pystr option \<Rightarrow> time \<Rightarrow> time \<Rightarrow> knowledge \<Rightarrow> (workflow \<times> knowledge) drawing" where
  "approve_workflow eid wid actor reason now at_stale k =
     bindE (get_workflow eid wid (kb_store k)) (\<lambda>w.
     bindE (require (wf_status w = Draft) (WorkflowStageGate (lit ''Only a draft workflow can be approved.''))) (\<lambda>_.
     bindE (require (list_workflow_steps wid (kb_store k) \<noteq> [])
       (WorkflowStageGate (lit ''A workflow must contain at least one step before approval.''))) (\<lambda>_.
     let clean = review_reason reason; w' = approved_workflow_row actor now clean w;
         stage = (case wf_kind w of Current \<Rightarrow> StMap | Target \<Rightarrow> StDesign)
     in bindE (approve_kind w clean actor at_stale k) (\<lambda>k1.
        bindE (workflow_flush (events (\<lambda>s. record_workflow_event w' actor
            (lit ''workflow.'' @ workflow_kind_text (wf_kind w) @ lit ''_approved'') [(''approval_reason'', jopt JStr clean)]
            (s\<lparr>workflows := modify (\<lambda>x. wf_id x = wid) (approved_workflow_row actor now clean) (workflows s),
               engagements := modify (\<lambda>x. eg_id x = eid) (\<lambda>x. x\<lparr>eg_lifecycle_stage := stage\<rparr>) (engagements s)\<rparr>)) k1)) (\<lambda>k2.
        Inr (w', k2))))))"

end
