(* ===== verification/Extractor.thy ===== *)
theory Extractor
  imports Knowledge
begin

text \<open>
  \<open>modules/knowledge/extractor.py\<close>: the deterministic extractor, its regular expressions and the claims
  made of their matches, and the removal of duplicates.
\<close>

section \<open>Claims\<close>

record extracted_claim =
  xc_kind :: pystr
  xc_subject :: pystr
  xc_predicate :: pystr
  xc_object :: "pystr option"
  xc_summary :: pystr
  xc_payload :: claim_payload
  xc_confidence :: pystr
  xc_materiality :: pystr
  xc_start :: nat
  xc_end :: nat
  xc_quote :: pystr

record extraction_result =
  xr_claims :: "extracted_claim list"
  xr_input_tokens :: int
  xr_output_tokens :: int
  xr_latency_ms :: int

text \<open>A provider; \<open>pr_extract\<close> gives the text and, for an image, its bytes and whether it is a PNG.\<close>

record provider =
  pr_name :: pystr
  pr_version :: pystr
  pr_schema_version :: pystr
  pr_prompt_version :: pystr
  pr_model_id :: "pystr option"
  pr_max_output_tokens :: nat
  pr_extract :: "pystr \<Rightarrow> (nat list \<times> bool) option \<Rightarrow> extraction_result knowing"

section \<open>Patterns\<close>

definition upper_letter :: "nat \<Rightarrow> bool" where
  "upper_letter = between 65 90"

definition letter :: "nat \<Rightarrow> bool" where
  "letter c \<longleftrightarrow> between 65 90 c \<or> between 97 122 c"

definition letter_or :: "string \<Rightarrow> nat \<Rightarrow> bool" where
  "letter_or cs c \<longleftrightarrow> letter c \<or> one_of cs c"

definition alnum_or :: "string \<Rightarrow> nat \<Rightarrow> bool" where
  "alnum_or cs c \<longleftrightarrow> letter_or cs c \<or> between 48 57 c"

text \<open>Letters under IGNORECASE: \<open>[A-Z]\<close> and \<open>[A-Za-z]\<close> then match these.\<close>

definition any_letter_i :: "nat \<Rightarrow> bool" where
  "any_letter_i c \<longleftrightarrow> letter c \<or> c \<in> {304, 305, 383, 8490}"

definition no_newline :: "nat \<Rightarrow> bool" where
  "no_newline c \<longleftrightarrow> c \<noteq> 10"

definition spaces :: regex where
  "spaces = rplus True (RChar py_space)"

definition blanks :: regex where
  "blanks = rplus True (RChar (one_of [CHR '' '', CHR 0x09]))"

text \<open>\<open>[A-Z][...]+?\<close>, the start of most patterns\<close>

definition capitalised :: "(nat \<Rightarrow> bool) \<Rightarrow> regex" where
  "capitalised p = RSeq (RChar upper_letter) (rplus False (RChar p))"

text \<open>\<open>(?:\.|$)\<close>\<close>

definition full_stop :: regex where
  "full_stop = RAlt (RChar (\<lambda>c. c = 46)) REnd"

definition owns_pattern :: regex where
  "owns_pattern = rseq
     [RGroup ''person'' (rseq [RChar upper_letter, rplus True (RChar (letter_or [CHR 0x27, CHR ''-''])),
        rplus True (rseq [blanks, RChar upper_letter, rplus True (RChar (letter_or [CHR 0x27, CHR ''-'']))])]),
      blanks, rtext ''owns'', blanks, RGroup ''process'' (capitalised (letter_or '' &-'')), full_stop]"

text \<open>\<open>\b\<close> after \<open>to\<close>: the next character, if any, is no word character.\<close>

definition uses_end :: regex where
  "uses_end = ralt [rseq [spaces, rtext ''to'', RLook (RAlt (RChar (\<lambda>c. \<not> word_char c)) RTextEnd)],
     RChar (\<lambda>c. c = 46), REnd]"

definition uses_pattern :: regex where
  "uses_pattern = rseq [RGroup ''subject'' (capitalised (letter_or '' &-'')), spaces, rtext ''uses'', spaces,
     RGroup ''system'' (RSeq (RChar upper_letter) (rplus True (RChar (alnum_or ''._-'')))), uses_end]"

definition approval_rule_pattern :: regex where
  "approval_rule_pattern = rseq [rtext_i ''Invoices'', spaces, RGroup ''condition'' (rplus False (RChar no_newline)), spaces,
     rtext_i ''require'', spaces, RGroup ''approver'' (rplus False (RChar no_newline)), spaces, rtext_i ''approval'', full_stop]"

definition approval_exception_pattern :: regex where
  "approval_exception_pattern = rseq
     [ropt (RSeq (rtext_i ''However,'') (RStar True (RChar py_space))),
      RGroup ''condition'' (RSeq (rtext_i ''Strategic vendors'') (rplus False (RChar no_newline))), spaces,
      RAlt (rtext_i ''may'') (rtext_i ''are''), spaces, ropt (RSeq (rtext_i ''be'') spaces), rtext_i ''approved by '',
      ropt (rtext_i ''the ''),
      RGroup ''approver'' (RSeq (RChar any_letter_i) (rplus False (RChar (\<lambda>c. any_letter_i c \<or> c = 32)))),
      RLook (ralt [RSeq spaces (rtext_i ''when''), RChar (\<lambda>c. c = 46), REnd])]"

definition named_approval_pattern :: regex where
  "named_approval_pattern = rseq
     [RGroup ''subject'' (rseq [RChar upper_letter, rplus True (RChar (letter_or '' &-'')), rtext '' approval'']), rtext '':'',
      RStar True (RChar py_space), RGroup ''condition'' (rplus False (RChar no_newline)), spaces, rtext ''require'',
      ropt (rtext ''s''), spaces, RGroup ''approver'' (capitalised (letter_or '' &-'')), spaces, rtext ''approval'', full_stop]"

definition relation_pattern :: "regex \<Rightarrow> regex" where
  "relation_pattern verb = rseq
     [RGroup ''subject'' (capitalised (alnum_or ('' &/-'' @ [CHR 0x27]))), spaces, verb, spaces,
      RGroup ''object'' (capitalised (alnum_or ('' &/-'' @ [CHR 0x27]))), full_stop]"

definition precedes_pattern :: regex where "precedes_pattern = relation_pattern (rtext ''precedes'')"
definition hands_off_pattern :: regex where "hands_off_pattern = relation_pattern (rtext ''hands off to'')"
definition governed_by_pattern :: regex where "governed_by_pattern = relation_pattern (rtext ''is governed by'')"

definition entity_pattern :: regex where
  "entity_pattern = rseq
     [RGroup ''type'' (ralt (map rtext_i [''Person'', ''System'', ''Process'', ''Department'', ''Role''])), rtext '':'',
      RStar True (RChar py_space), RGroup ''name'' (rplus True (RChar (\<lambda>c. c \<noteq> 10 \<and> c \<noteq> 46)))]"

section \<open>From matches to claims\<close>

text \<open>\<open>value.strip().rstrip(".").strip()\<close>\<close>

definition clean_value :: "pystr \<Rightarrow> pystr" where
  "clean_value t = py_strip (rev (dropWhile (\<lambda>c. c = 46) (rev (py_strip t))))"

definition payload :: "string \<Rightarrow> pystr \<Rightarrow> (string \<times> pystr) option \<Rightarrow> pystr option \<Rightarrow> bool \<Rightarrow> claim_payload" where
  "payload st sn ob cond ex = \<lparr>cp_subject = \<lparr>sp_type = lit st, sp_name = sn\<rparr>,
     cp_object = map_option (\<lambda>(t, n). \<lparr>sp_type = lit t, sp_name = n\<rparr>) ob, cp_condition = cond, cp_is_exception = ex\<rparr>"

definition make_claim ::
  "rmatch \<Rightarrow> string \<Rightarrow> pystr \<Rightarrow> string \<Rightarrow> pystr \<Rightarrow> pystr \<Rightarrow> claim_payload \<Rightarrow> string \<Rightarrow> string \<Rightarrow> extracted_claim" where
  "make_claim m kind subject predicate object summary pl confidence materiality =
     \<lparr>xc_kind = lit kind, xc_subject = subject, xc_predicate = lit predicate, xc_object = Some object,
      xc_summary = summary, xc_payload = pl, xc_confidence = lit confidence, xc_materiality = lit materiality,
      xc_start = mt_start m, xc_end = mt_end m, xc_quote = py_strip (mt_text m)\<rparr>"

definition ownership_claim :: "rmatch \<Rightarrow> extracted_claim" where
  "ownership_claim m = (let person = clean_value (group ''person'' m); process = clean_value (group ''process'' m) in
     make_claim m ''relationship'' person ''OWNS'' process (person @ lit '' owns '' @ process @ lit ''.'')
       (payload ''person'' person (Some (''process'', process)) None False) ''0.9900'' ''material'')"

definition system_usage_claim :: "rmatch \<Rightarrow> extracted_claim" where
  "system_usage_claim m = (let subject = clean_value (group ''subject'' m); system = clean_value (group ''system'' m) in
     make_claim m ''relationship'' subject ''USES'' system (subject @ lit '' uses '' @ system @ lit ''.'')
       (payload ''process'' subject (Some (''system'', system)) None False) ''0.9800'' ''material'')"

definition approval_rule_claim :: "rmatch \<Rightarrow> extracted_claim" where
  "approval_rule_claim m = (let cond = clean_value (group ''condition'' m); approver = clean_value (group ''approver'' m) in
     make_claim m ''rule'' (lit ''Invoice approval'') ''REQUIRES_APPROVAL'' approver
       (lit ''Invoices '' @ cond @ lit '' require '' @ approver @ lit '' approval.'')
       (payload ''process'' (lit ''Invoice approval'') (Some (''role'', approver)) (Some cond) False) ''0.9900'' ''material'')"

definition approval_exception_claim :: "rmatch \<Rightarrow> extracted_claim" where
  "approval_exception_claim m = (let cond = clean_value (group ''condition'' m); approver = clean_value (group ''approver'' m) in
     make_claim m ''exception'' (lit ''Invoice approval'') ''REQUIRES_APPROVAL'' approver
       (lit ''Exception: '' @ cond @ lit '' may be approved by '' @ approver @ lit ''.'')
       (payload ''process'' (lit ''Invoice approval'') (Some (''role'', approver)) (Some cond) True) ''0.9600'' ''material'')"

definition named_approval_claim :: "rmatch \<Rightarrow> extracted_claim" where
  "named_approval_claim m = (let subject = clean_value (group ''subject'' m); cond = clean_value (group ''condition'' m);
       approver = clean_value (group ''approver'' m) in
     make_claim m ''rule'' subject ''REQUIRES_APPROVAL'' approver (cond @ lit '' require '' @ approver @ lit '' approval.'')
       (payload ''process'' subject (Some (''role'', approver)) (Some cond) False) ''0.9900'' ''material'')"

definition relation_claim ::
  "string \<Rightarrow> string \<Rightarrow> string \<Rightarrow> string \<Rightarrow> string \<Rightarrow> rmatch \<Rightarrow> extracted_claim" where
  "relation_claim predicate st ot verb confidence m =
     (let subject = clean_value (group ''subject'' m); object = clean_value (group ''object'' m) in
      make_claim m ''relationship'' subject predicate object (subject @ lit verb @ object @ lit ''.'')
        (payload st subject (Some (ot, object)) None False) confidence ''material'')"

text \<open>The type and name of an entity; \<open>.lower()\<close> is applied to text that matched one of the type names.\<close>

definition entity_claim :: "rmatch \<Rightarrow> extracted_claim" where
  "entity_claim m = (let type = lower_ascii (group ''type'' m); name = clean_value (group ''name'' m);
       c = make_claim m ''entity'' name ''IDENTIFIED_AS'' type (name @ lit '' is identified as a '' @ type @ lit ''.'')
         (payload ''process'' name None None False) ''0.9900'' ''low''
     in c\<lparr>xc_payload := (xc_payload c)\<lparr>cp_subject := \<lparr>sp_type = type, sp_name = name\<rparr>\<rparr>\<rparr>)"

definition all_claims :: "pystr \<Rightarrow> extracted_claim list" where
  "all_claims t =
     map ownership_claim (finditer owns_pattern t)
     @ map system_usage_claim (finditer uses_pattern t)
     @ map approval_rule_claim (finditer approval_rule_pattern t)
     @ map named_approval_claim (finditer named_approval_pattern t)
     @ map approval_exception_claim (finditer approval_exception_pattern t)
     @ map (relation_claim ''PRECEDES'' ''process'' ''process'' '' precedes '' ''0.9800'') (finditer precedes_pattern t)
     @ map (relation_claim ''HANDS_OFF_TO'' ''role'' ''role'' '' hands off to '' ''0.9800'') (finditer hands_off_pattern t)
     @ map (relation_claim ''GOVERNED_BY'' ''process'' ''policy'' '' is governed by '' ''0.9900'') (finditer governed_by_pattern t)
     @ map entity_claim (finditer entity_pattern t)"

definition claim_key :: "extracted_claim \<Rightarrow> pystr \<times> pystr \<times> pystr \<times> pystr option \<times> nat \<times> nat" where
  "claim_key c = (xc_kind c, casefold (xc_subject c), xc_predicate c,
     (case xc_object c of None \<Rightarrow> None | Some t \<Rightarrow> if t = [] then None else Some (casefold t)), xc_start c, xc_end c)"

fun deduplicate ::
  "(pystr \<times> pystr \<times> pystr \<times> pystr option \<times> nat \<times> nat) list \<Rightarrow> extracted_claim list \<Rightarrow> extracted_claim list" where
  "deduplicate seen [] = []"
| "deduplicate seen (c # cs) =
     (if claim_key c \<in> set seen then deduplicate seen cs else c # deduplicate (claim_key c # seen) cs)"

definition extract_claims :: "pystr \<Rightarrow> extracted_claim list" where
  "extract_claims t = deduplicate [] (all_claims t)"

definition fixture_extractor :: provider where
  "fixture_extractor = \<lparr>pr_name = lit ''deterministic-fixture-patterns'', pr_version = lit ''2.0.0'',
     pr_schema_version = lit ''claim-v1'', pr_prompt_version = lit ''fixture-rules-v2'', pr_model_id = None,
     pr_max_output_tokens = 0,
     pr_extract = (\<lambda>t image. Inr \<lparr>xr_claims = extract_claims t, xr_input_tokens = 0, xr_output_tokens = 0, xr_latency_ms = 0\<rparr>)\<rparr>"

end
