(* ===== verification/Jobs.thy ===== *)
theory Jobs
  imports DesignPartner Extractor
begin

text \<open>
  \<open>modules/knowledge/jobs.py\<close> and the error boundary of \<open>worker.py\<close>: leasing an ingestion job,
  processing it under its lease, failing it, and the detection of contradictions between claims.  What
  the operations read of the outside is the record \<open>job_context\<close>: the object store, the readers of
  documents, the extraction provider, the deployment's authority check, the answers of the locking
  function and the readings of the clock, in the order of the calls.
\<close>

section \<open>Context\<close>

record job_budget =
  bg_max_segments :: nat
  bg_max_provider_calls :: nat
  bg_max_provider_tokens :: int

definition default_budget :: job_budget where
  "default_budget = \<lparr>bg_max_segments = 100, bg_max_provider_calls = 50, bg_max_provider_tokens = 1000000\<rparr>"

definition provider_input_token_reserve :: int where
  "provider_input_token_reserve = 16384"

text \<open>What \<open>runtime_authority_check\<close> does: return, refuse, or raise another \<open>ValueError\<close>.\<close>

datatype authority_answer = AuthorityGranted | AuthorityRefused pystr | AuthorityInvalid

text \<open>
  \<open>jc_fresh\<close> and \<open>jc_created\<close> give the key and the time of creation of the new rows in their order;
  \<open>jc_object\<close> is \<open>None\<close> for a version the object store does not have.
\<close>

record job_context =
  jc_object :: "pystr \<Rightarrow> pystr option \<Rightarrow> nat list option"
  jc_readers :: readers
  jc_provider :: provider
  jc_budget :: job_budget
  jc_allowed :: "customer_class list"
  jc_authority :: "(time \<Rightarrow> authority_answer) option"
  jc_locked :: "nat \<Rightarrow> bool"
  jc_clock :: "nat \<Rightarrow> time"
  jc_fresh :: "nat \<Rightarrow> uuid"
  jc_created :: "nat \<Rightarrow> time"
  jc_actor :: "operator option"

section \<open>Leases\<close>

definition second_us :: int where
  "second_us = 1000000"

definition leasable :: "uuid \<Rightarrow> time \<Rightarrow> job \<Rightarrow> bool" where
  "leasable eid now j \<longleftrightarrow> jb_engagement_id j = eid \<and> jb_available_at j \<le> now \<and> jb_attempts j < jb_max_attempts j
     \<and> (jb_status j = JQueued \<or> (jb_status j = JRunning \<and> (case jb_leased_until j of None \<Rightarrow> False | Some t \<Rightarrow> t < now)))"

definition leased :: "uuid \<Rightarrow> time \<Rightarrow> int \<Rightarrow> job \<Rightarrow> job" where
  "leased token now seconds j = j\<lparr>jb_status := JRunning, jb_attempts := jb_attempts j + 1, jb_lease_token := Some token,
     jb_leased_until := Some (now + seconds * second_us), jb_progress := 5\<rparr>"

text \<open>\<open>skipped\<close> holds the jobs whose row another transaction has locked.\<close>

definition lease_next_job ::
  "uuid \<Rightarrow> int \<Rightarrow> time \<Rightarrow> uuid \<Rightarrow> uuid set \<Rightarrow> knowledge \<Rightarrow> (uuid \<times> uuid) option \<times> knowledge" where
  "lease_next_job eid seconds now token skipped k =
     (case first (sort_key jb_created_at (select (\<lambda>j. leasable eid now j \<and> jb_id j \<notin> skipped) (kb_jobs k))) of
        None \<Rightarrow> (None, k)
      | Some j \<Rightarrow> (Some (jb_id j, token),
          k\<lparr>kb_jobs := modify (\<lambda>x. jb_id x = jb_id j) (leased token now seconds) (kb_jobs k)\<rparr>))"

definition lease_active :: "uuid \<Rightarrow> time \<Rightarrow> job \<Rightarrow> bool" where
  "lease_active token now j \<longleftrightarrow> jb_status j = JRunning \<and> jb_lease_token j = Some token
     \<and> (case jb_leased_until j of None \<Rightarrow> False | Some t \<Rightarrow> now < t)"

definition lock_active_lease :: "uuid \<Rightarrow> uuid \<Rightarrow> time \<Rightarrow> knowledge \<Rightarrow> (job \<times> knowledge) knowing" where
  "lock_active_lease jid token now k =
     bindE (knowledge_flush k) (\<lambda>k1.
     case first (select (\<lambda>j. jb_id j = jid) (kb_jobs k1)) of
       None \<Rightarrow> Inl JobLeaseLost
     | Some j \<Rightarrow> bindE (require (lease_active token now j) JobLeaseLost) (\<lambda>_. Inr (j, k1)))"

section \<open>Authority and budget\<close>

definition customer_data_authority :: "job_context \<Rightarrow> evidence_asset \<Rightarrow> bool \<Rightarrow> nat \<Rightarrow> knowledge \<Rightarrow> bool knowing" where
  "customer_data_authority c a locked n k =
     (case require_qualified_evidence_processing a (pr_name (jc_provider c)) (jc_allowed c) (jc_clock c n) locked (kb_store k) of
        Inl e \<Rightarrow> Inl (KnowledgeInner e)
      | Inr None \<Rightarrow> Inr False
      | Inr (Some t) \<Rightarrow> (case jc_authority c of
            None \<Rightarrow> Inl (CustomerDataDenied (lit ''Customer-data processing runtime authorization is unavailable.''))
          | Some check \<Rightarrow> (case check t of
                AuthorityGranted \<Rightarrow> Inr True
              | AuthorityRefused m \<Rightarrow> Inl (CustomerDataDenied m)
              | AuthorityInvalid \<Rightarrow> Inl (CustomerDataDenied
                  (lit ''Customer-data processing runtime authorization is no longer valid.'')))))"

text \<open>The repeated checks of \<open>process_job\<close>: only for qualified customer data; the answer is not used.\<close>

definition recheck_authority :: "job_context \<Rightarrow> evidence_asset \<Rightarrow> bool \<Rightarrow> bool \<Rightarrow> nat \<Rightarrow> knowledge \<Rightarrow> unit knowing" where
  "recheck_authority c a qualified locked n k =
     (if qualified then bindE (customer_data_authority c a locked n k) (\<lambda>_. Inr ()) else Inr ())"

definition segment_tokens :: "job_context \<Rightarrow> nat list \<Rightarrow> segment \<Rightarrow> int" where
  "segment_tokens c content g = int (length (utf8 (sg_content g)))
     + (if sg_modality g = MImage then int (length content) else 0)
     + provider_input_token_reserve + int (pr_max_output_tokens (jc_provider c))"

definition enforce_extraction_budget :: "job_context \<Rightarrow> nat list \<Rightarrow> segment list \<Rightarrow> unit knowing" where
  "enforce_extraction_budget c content sgs =
     (let b = jc_budget c; n = length sgs in
      bindE (require (n \<le> bg_max_segments b) (BudgetExceeded (lit ''Evidence produced '' @ dec_nat n
         @ lit '' segments; the per-job limit is '' @ dec_nat (bg_max_segments b) @ lit ''.''))) (\<lambda>_.
      bindE (require (n \<le> bg_max_provider_calls b)
        (BudgetExceeded (lit ''Evidence would exceed the per-job extraction provider-call limit.''))) (\<lambda>_.
      if pr_max_output_tokens (jc_provider c) = 0 then Inr ()
      else require (sum_list (map (segment_tokens c content) sgs) \<le> bg_max_provider_tokens b)
        (BudgetExceeded (lit ''Evidence would exceed the conservative per-job provider-token ceiling.'')))))"

section \<open>Extraction\<close>

text \<open>\<open>asset.file_name.casefold().endswith(".png")\<close>\<close>

definition png_name :: "pystr \<Rightarrow> bool" where
  "png_name t \<longleftrightarrow> (let s = casefold t in drop (length s - 4) s = lit ''.png'')"

definition segment_image :: "evidence_asset \<Rightarrow> nat list \<Rightarrow> segment \<Rightarrow> (nat list \<times> bool) option" where
  "segment_image a content g = (if sg_modality g = MImage then Some (content, png_name (ev_file_name a)) else None)"

definition exact_offsets :: "pystr \<Rightarrow> extracted_claim \<Rightarrow> bool" where
  "exact_offsets t x \<longleftrightarrow> xc_start x < xc_end x \<and> xc_end x \<le> length t
     \<and> take (xc_end x - xc_start x) (drop (xc_start x) t) = xc_quote x"

record run_totals =
  rt_input :: int
  rt_output :: int
  rt_latency :: int

definition add_totals :: "run_totals \<Rightarrow> extraction_result \<Rightarrow> run_totals" where
  "add_totals t r = \<lparr>rt_input = rt_input t + xr_input_tokens r, rt_output = rt_output t + xr_output_tokens r,
     rt_latency = rt_latency t + xr_latency_ms r\<rparr>"

text \<open>One call of the provider, between two checks of the authority; \<open>n\<close> counts the checks.\<close>

definition extract_segment ::
  "job_context \<Rightarrow> evidence_asset \<Rightarrow> nat list \<Rightarrow> bool \<Rightarrow> knowledge \<Rightarrow> nat \<Rightarrow> run_totals \<Rightarrow> segment
    \<Rightarrow> (run_totals \<times> extracted_claim list) knowing" where
  "extract_segment c a content qualified k n t g =
     bindE (recheck_authority c a qualified True n k) (\<lambda>_.
     bindE (pr_extract (jc_provider c) (sg_content g) (segment_image a content g)) (\<lambda>r.
     bindE (recheck_authority c a qualified True (n + 1) k) (\<lambda>_.
     let t' = add_totals t r in
     bindE (require (rt_input t' + rt_output t' \<le> bg_max_provider_tokens (jc_budget c))
       (BudgetExceeded (lit ''Extraction stopped because the provider token budget was exceeded.''))) (\<lambda>_.
     bindE (require (list_all (exact_offsets (sg_content g)) (xr_claims r))
       (JobProcessing (lit ''An extracted claim did not resolve to exact stored evidence offsets.''))) (\<lambda>_.
     Inr (t', xr_claims r))))))"

fun extract_segments ::
  "job_context \<Rightarrow> evidence_asset \<Rightarrow> nat list \<Rightarrow> bool \<Rightarrow> knowledge \<Rightarrow> nat \<Rightarrow> run_totals \<Rightarrow> segment list
    \<Rightarrow> (run_totals \<times> (segment \<times> extracted_claim list) list) knowing" where
  "extract_segments c a content qualified k n t [] = Inr (t, [])"
| "extract_segments c a content qualified k n t (g # gs) =
     bindE (extract_segment c a content qualified k n t g) (\<lambda>(t', xs).
     bindE (extract_segments c a content qualified k (n + 2) t' gs) (\<lambda>(t'', rest). Inr (t'', (g, xs) # rest)))"

section \<open>Staging\<close>

definition new_run :: "job_context \<Rightarrow> job \<Rightarrow> evidence_asset \<Rightarrow> run_totals \<Rightarrow> extraction_run" where
  "new_run c j a t = (let p = jc_provider c in
     \<lparr>rn_id = jc_fresh c 0, rn_engagement_id = jb_engagement_id j, rn_evidence_asset_id = ev_id a,
      rn_extractor_name = pr_name p, rn_extractor_version = pr_version p, rn_schema_version = pr_schema_version p,
      rn_provider_name = pr_name p, rn_model_id = pr_model_id p, rn_prompt_version = pr_prompt_version p,
      rn_input_hash = ev_content_hash a, rn_input_tokens = rt_input t, rn_output_tokens = rt_output t,
      rn_latency_ms = rt_latency t, rn_result_code = lit ''running'', rn_status = RunRunning,
      rn_error_message = None, rn_completed_at = None\<rparr>)"

definition new_segment :: "job_context \<Rightarrow> job \<Rightarrow> evidence_asset \<Rightarrow> nat \<Rightarrow> segment \<Rightarrow> evidence_segment" where
  "new_segment c j a n g = \<lparr>es_id = jc_fresh c n, es_engagement_id = jb_engagement_id j, es_evidence_asset_id = ev_id a,
     es_ordinal = sg_ordinal g, es_content = sg_content g, es_start_offset = sg_start g, es_end_offset = sg_end g,
     es_locator = sg_locator g, es_parser_name = sg_parser_name g, es_parser_version = sg_parser_version g\<rparr>"

definition new_claim :: "job_context \<Rightarrow> job \<Rightarrow> nat \<Rightarrow> extracted_claim \<Rightarrow> claim" where
  "new_claim c j n x = \<lparr>cl_id = jc_fresh c n, cl_engagement_id = jb_engagement_id j, cl_run_id = jc_fresh c 0,
     cl_kind = xc_kind x, cl_subject = xc_subject x, cl_predicate = xc_predicate x, cl_object = xc_object x,
     cl_summary = xc_summary x, cl_payload = xc_payload x, cl_confidence = xc_confidence x,
     cl_materiality = xc_materiality x, cl_status = CCandidate, cl_created_at = jc_created c n\<rparr>"

definition new_claim_evidence ::
  "job_context \<Rightarrow> job \<Rightarrow> nat \<Rightarrow> evidence_segment \<Rightarrow> claim \<Rightarrow> extracted_claim \<Rightarrow> claim_evidence" where
  "new_claim_evidence c j n g cl x = \<lparr>ce_id = jc_fresh c n, ce_engagement_id = jb_engagement_id j, ce_claim_id = cl_id cl,
     ce_segment_id = es_id g, ce_start_offset = xc_start x, ce_end_offset = xc_end x, ce_quote = xc_quote x\<rparr>"

text \<open>The rows of a segment's claims, each flushed before its evidence is added; \<open>n\<close> numbers the new rows.\<close>

fun stage_claims ::
  "job_context \<Rightarrow> job \<Rightarrow> evidence_segment \<Rightarrow> nat \<Rightarrow> extracted_claim list \<Rightarrow> knowledge
    \<Rightarrow> (nat \<times> claim list \<times> knowledge) knowing" where
  "stage_claims c j g n [] k = Inr (n, [], k)"
| "stage_claims c j g n (x # xs) k =
     (let cl = new_claim c j n x in
      bindE (knowledge_flush (k\<lparr>kb_claims := add cl (kb_claims k)\<rparr>)) (\<lambda>k1.
      let k2 = k1\<lparr>kb_claim_evidence := add (new_claim_evidence c j (n + 1) g cl x) (kb_claim_evidence k1)\<rparr> in
      bindE (stage_claims c j g (n + 2) xs k2) (\<lambda>(m, cls, k3). Inr (m, cl # cls, k3))))"

fun stage_segments ::
  "job_context \<Rightarrow> job \<Rightarrow> evidence_asset \<Rightarrow> nat \<Rightarrow> (segment \<times> extracted_claim list) list \<Rightarrow> knowledge
    \<Rightarrow> (nat \<times> claim list \<times> knowledge) knowing" where
  "stage_segments c j a n [] k = Inr (n, [], k)"
| "stage_segments c j a n ((p, xs) # rest) k =
     (let g = new_segment c j a n p in
      bindE (knowledge_flush (k\<lparr>kb_segments := add g (kb_segments k)\<rparr>)) (\<lambda>k1.
      bindE (stage_claims c j g (n + 1) xs k1) (\<lambda>(m, cls, k2).
      bindE (stage_segments c j a m rest k2) (\<lambda>(m', cls', k3). Inr (m', cls @ cls', k3)))))"

section \<open>Contradictions\<close>

definition approval_claim :: "claim \<Rightarrow> bool" where
  "approval_claim c \<longleftrightarrow> cl_predicate c = lit ''REQUIRES_APPROVAL'' \<and> cl_object c \<noteq> None \<and> cl_object c \<noteq> Some []"

definition conflicts_with :: "uuid \<Rightarrow> claim \<Rightarrow> claim \<Rightarrow> bool" where
  "conflicts_with eid new c \<longleftrightarrow> cl_engagement_id c = eid \<and> cl_id c \<noteq> cl_id new \<and> cl_subject c = cl_subject new
     \<and> cl_predicate c = cl_predicate new \<and> cl_object c \<noteq> None \<and> cl_object c \<noteq> cl_object new
     \<and> cl_status c \<in> {CCandidate, CAccepted}"

text \<open>The texts of UUIDs are lower-case hexadecimal of one length: they are ordered as the numbers.\<close>

definition claim_pair :: "claim \<Rightarrow> claim \<Rightarrow> uuid \<times> uuid" where
  "claim_pair a b = (min (cl_id a) (cl_id b), max (cl_id a) (cl_id b))"

definition new_contradiction :: "job_context \<Rightarrow> uuid \<Rightarrow> nat \<Rightarrow> claim \<Rightarrow> claim \<Rightarrow> contradiction" where
  "new_contradiction c eid n old new = \<lparr>ct_id = jc_fresh c n, ct_engagement_id = eid,
     ct_left_claim_id = fst (claim_pair old new), ct_right_claim_id = snd (claim_pair old new),
     ct_summary = lit ''Approval evidence names both '' @ or_empty (cl_object old) @ lit '' and '' @ or_empty (cl_object new)
       @ lit ''. Confirm whether this is a conflict, exception, or change over time.'',
     ct_status = CtOpen, ct_blocking = True, ct_resolution_type = None, ct_resolution_reason = None,
     ct_resolved_by_id = None, ct_resolved_at = None, ct_created_at = jc_created c n\<rparr>"

definition add_contradiction ::
  "job_context \<Rightarrow> uuid \<Rightarrow> claim \<Rightarrow> nat \<times> knowledge \<Rightarrow> claim \<Rightarrow> nat \<times> knowledge" where
  "add_contradiction c eid new = (\<lambda>(n, k) old.
     if select (\<lambda>d. contradiction_pair d = claim_pair old new) (kb_contradictions k) = []
     then (n + 1, k\<lparr>kb_contradictions := add (new_contradiction c eid n old new) (kb_contradictions k)\<rparr>)
     else (n, k))"

definition claim_contradictions :: "job_context \<Rightarrow> uuid \<Rightarrow> nat \<times> knowledge \<Rightarrow> claim \<Rightarrow> nat \<times> knowledge" where
  "claim_contradictions c eid = (\<lambda>(n, k) new.
     if approval_claim new
     then foldl (add_contradiction c eid new) (n, k) (select (conflicts_with eid new) (kb_claims k))
     else (n, k))"

definition detect_contradictions :: "job_context \<Rightarrow> uuid \<Rightarrow> nat \<Rightarrow> claim list \<Rightarrow> knowledge \<Rightarrow> knowledge" where
  "detect_contradictions c eid n news k = snd (foldl (claim_contradictions c eid) (n, k) news)"

section \<open>Processing\<close>

definition set_asset :: "uuid \<Rightarrow> (evidence_asset \<Rightarrow> evidence_asset) \<Rightarrow> knowledge \<Rightarrow> knowledge" where
  "set_asset aid f = events (\<lambda>s. s\<lparr>evidence_assets := modify (\<lambda>a. ev_id a = aid) f (evidence_assets s)\<rparr>)"

definition set_job :: "uuid \<Rightarrow> (job \<Rightarrow> job) \<Rightarrow> knowledge \<Rightarrow> knowledge" where
  "set_job jid f k = k\<lparr>kb_jobs := modify (\<lambda>j. jb_id j = jid) f (kb_jobs k)\<rparr>"

definition completed_job :: "time \<Rightarrow> job \<Rightarrow> job" where
  "completed_job now j = j\<lparr>jb_status := JCompleted, jb_progress := 100, jb_completed_at := Some now, jb_leased_until := None\<rparr>"

definition complete_existing_job :: "job \<Rightarrow> evidence_asset \<Rightarrow> time \<Rightarrow> knowledge \<Rightarrow> knowledge" where
  "complete_existing_job j a now k =
     set_asset (ev_id a) (\<lambda>x. x\<lparr>ev_status := if asset_has_pending (ev_id a) k then ENeedsReview else EComplete\<rparr>)
       (set_job (jb_id j) (completed_job now) k)"

definition completed_run :: "time \<Rightarrow> extraction_run \<Rightarrow> extraction_run" where
  "completed_run now r = r\<lparr>rn_status := RunComplete, rn_result_code := lit ''complete'', rn_completed_at := Some now\<rparr>"

fun identity_text :: "identity_kind \<Rightarrow> pystr" where
  "identity_text Human = lit ''human''"
| "identity_text Service = lit ''service''"

definition completion_events :: "job_context \<Rightarrow> job \<Rightarrow> evidence_asset \<Rightarrow> nat \<Rightarrow> store \<Rightarrow> store" where
  "completion_events c j a claims s =
     (let p = jc_provider c;
          s1 = publish_domain_event (jb_engagement_id j) (lit ''extraction.completed'') (lit ''evidence_asset'') (ev_id a)
            (obj [(''claim_count'', JInt (int claims)), (''extractor'', JStr (pr_name p)),
                  (''extractor_version'', JStr (pr_version p))]) s
      in case jc_actor c of None \<Rightarrow> s1 | Some x \<Rightarrow>
        s1\<lparr>audits := audits s1 @ [audit_event (identity_text (op_identity_kind x)) (jb_engagement_id j) (op_id x)
          (lit ''extraction.completed'') (lit ''extraction_run'') (jc_fresh c 0)
          (obj [(''provider'', JStr (pr_name p)), (''model_id'', jopt JStr (pr_model_id p)),
                (''prompt_version'', JStr (pr_prompt_version p)), (''schema_version'', JStr (pr_schema_version p)),
                (''result_code'', JStr (lit ''complete'')), (''claim_count'', JInt (int claims))])]\<rparr>)"

text \<open>Which bytes a job may process: the immutable version of the asset, with the recorded hash.\<close>

definition evidence_bytes :: "job_context \<Rightarrow> evidence_asset \<Rightarrow> bool \<Rightarrow> nat list knowing" where
  "evidence_bytes c a qualified =
     bindE (require (\<not> (qualified \<and> ev_storage_version_id a = None))
       (EvidenceIntegrity (lit ''Qualified evidence is missing its immutable object version.''))) (\<lambda>_.
     bindE (the_or (jc_object c (ev_storage_key a) (ev_storage_version_id a))
       (EvidenceIntegrity (lit ''The immutable evidence object version is unavailable.''))) (\<lambda>content.
     bindE (require (sha256_hex content = ev_content_hash a)
       (EvidenceIntegrity (lit ''The immutable evidence object version failed integrity verification.''))) (\<lambda>_.
     Inr content)))"

definition lift_parse :: "'a parsing \<Rightarrow> 'a knowing" where
  "lift_parse r = (case r of Inl e \<Rightarrow> Inl (ParseRejected e) | Inr x \<Rightarrow> Inr x)"

definition job_asset :: "job \<Rightarrow> knowledge \<Rightarrow> evidence_asset knowing" where
  "job_asset j k =
     bindE (require (jb_kind j = lit ''ingest_evidence'') (JobProcessing (lit ''Unsupported job kind: '' @ jb_kind j))) (\<lambda>_.
     bindE (the_or (parse_uuid (jb_evidence_asset_id j)) (KnowledgeValueError (lit ''badly formed hexadecimal UUID string''))) (\<lambda>aid.
     bindE (the_or (session_get ev_id aid (evidence_assets (kb_store k)))
       (JobProcessing (lit ''The evidence asset is not available in this engagement.''))) (\<lambda>a.
     bindE (require (ev_engagement_id a = jb_engagement_id j)
       (JobProcessing (lit ''The evidence asset is not available in this engagement.''))) (\<lambda>_. Inr a))))"

text \<open>The part of \<open>process_job\<close> that stages its output, up to the last check of the authority.\<close>

definition stage_output ::
  "job_context \<Rightarrow> job \<Rightarrow> evidence_asset \<Rightarrow> bool \<Rightarrow> nat \<Rightarrow> run_totals
    \<Rightarrow> (segment \<times> extracted_claim list) list \<Rightarrow> knowledge \<Rightarrow> knowledge knowing" where
  "stage_output c j a qualified n t extracted k =
     (let k1 = set_job (jb_id j) (\<lambda>x. x\<lparr>jb_progress := 15\<rparr>)
            (set_asset (ev_id a) (\<lambda>x. x\<lparr>ev_status := EProcessing, ev_error_message := None\<rparr>) k);
          k2 = k1\<lparr>kb_runs := add (new_run c j a t) (kb_runs k1)\<rparr>
      in bindE (knowledge_flush k2) (\<lambda>k3.
         bindE (stage_segments c j a 1 extracted k3) (\<lambda>(m, cls, k4).
         bindE (knowledge_flush k4) (\<lambda>k5.
         let k6 = detect_contradictions c (jb_engagement_id j) m cls k5;
             k7 = k6\<lparr>kb_runs := modify (\<lambda>r. rn_id r = jc_fresh c 0) (completed_run (jc_clock c n)) (kb_runs k6)\<rparr>;
             k8 = set_asset (ev_id a) (\<lambda>x. x\<lparr>ev_status := if cls \<noteq> [] then ENeedsReview else EComplete\<rparr>) k7;
             k9 = set_job (jb_id j) (completed_job (jc_clock c (n + 1))) k8;
             k10 = events (completion_events c j a (length cls)) k9
         in bindE (recheck_authority c a qualified (jc_locked c 1) (n + 2) k10) (\<lambda>_. Inr k10)))))"

definition process_leased_job :: "job_context \<Rightarrow> job \<Rightarrow> knowledge \<Rightarrow> knowledge knowing" where
  "process_leased_job c j k =
     bindE (job_asset j k) (\<lambda>a.
     bindE (customer_data_authority c a True 1 k) (\<lambda>qualified.
     bindE (evidence_bytes c a qualified) (\<lambda>content.
     bindE (recheck_authority c a qualified True 2 k) (\<lambda>_.
     bindE (lift_parse (parse_evidence (jc_readers c) content (ev_content_type a) (ev_file_name a))) (\<lambda>sgs.
     bindE (enforce_extraction_budget c content sgs) (\<lambda>_.
     if select (\<lambda>g. es_evidence_asset_id g = ev_id a) (kb_segments k) \<noteq> []
     then bindE (recheck_authority c a qualified (jc_locked c 0) 3 k) (\<lambda>_.
       Inr (complete_existing_job j a (jc_clock c 4) k))
     else
       bindE (extract_segments c a content qualified k 3 \<lparr>rt_input = 0, rt_output = 0, rt_latency = 0\<rparr> sgs) (\<lambda>(t, extracted).
       let n = 3 + 2 * length sgs in
       bindE (recheck_authority c a qualified (jc_locked c 0) n k) (\<lambda>_.
       stage_output c j a qualified (n + 1) t extracted k))))))))"

definition process_job :: "job_context \<Rightarrow> uuid \<Rightarrow> uuid \<Rightarrow> knowledge \<Rightarrow> knowledge knowing" where
  "process_job c jid token k =
     bindE (lock_active_lease jid token (jc_clock c 0) k) (\<lambda>(j, k1). process_leased_job c j k1)"

section \<open>Failure\<close>

definition failed_run :: "provider \<Rightarrow> job \<Rightarrow> evidence_asset \<Rightarrow> pystr \<Rightarrow> pystr \<Rightarrow> uuid \<Rightarrow> time \<Rightarrow> extraction_run" where
  "failed_run p j a message code nid now =
     \<lparr>rn_id = nid, rn_engagement_id = jb_engagement_id j, rn_evidence_asset_id = ev_id a,
      rn_extractor_name = pr_name p, rn_extractor_version = pr_version p, rn_schema_version = pr_schema_version p,
      rn_provider_name = pr_name p, rn_model_id = pr_model_id p, rn_prompt_version = pr_prompt_version p,
      rn_input_hash = ev_content_hash a, rn_input_tokens = 0, rn_output_tokens = 0, rn_latency_ms = 0,
      rn_result_code = take 120 code, rn_status = RunFailed, rn_error_message = Some (take 4000 message),
      rn_completed_at = Some now\<rparr>"

definition failed_job :: "pystr \<Rightarrow> bool \<Rightarrow> time \<Rightarrow> job \<Rightarrow> job" where
  "failed_job message retryable now j =
     (let j1 = j\<lparr>jb_error_message := Some (take 4000 message), jb_leased_until := None\<rparr> in
      if \<not> retryable \<or> jb_max_attempts j \<le> jb_attempts j then j1\<lparr>jb_status := JFailed\<rparr>
      else j1\<lparr>jb_status := JQueued, jb_available_at := now + 2 ^ nat (jb_attempts j) * second_us\<rparr>)"

definition failed_asset :: "job \<Rightarrow> evidence_asset \<Rightarrow> evidence_asset" where
  "failed_asset j a = a\<lparr>ev_status := if jb_status j = JFailed then EFailed else EQueued, ev_error_message := jb_error_message j\<rparr>"

definition fail_job ::
  "uuid \<Rightarrow> pystr \<Rightarrow> uuid \<Rightarrow> bool \<Rightarrow> pystr \<Rightarrow> provider option \<Rightarrow> (nat \<Rightarrow> time) \<Rightarrow> uuid \<Rightarrow> knowledge \<Rightarrow> (bool \<times> knowledge) knowing" where
  "fail_job jid message token retryable code provider clock nid k =
     (case first (select (\<lambda>j. jb_id j = jid \<and> jb_status j = JRunning \<and> jb_lease_token j = Some token) (kb_jobs k)) of
        None \<Rightarrow> Inr (False, k)
      | Some j \<Rightarrow>
          let j' = failed_job message retryable (clock 0) j;
              k1 = set_job jid (failed_job message retryable (clock 0)) k
          in if jb_evidence_asset_id j = [] then Inr (True, k1)
             else bindE (the_or (parse_uuid (jb_evidence_asset_id j))
                 (KnowledgeValueError (lit ''badly formed hexadecimal UUID string''))) (\<lambda>aid.
               case session_get ev_id aid (evidence_assets (kb_store k1)) of
                 None \<Rightarrow> Inr (True, k1)
               | Some a \<Rightarrow>
                   let k2 = set_asset aid (failed_asset j') k1
                   in Inr (True, case provider of None \<Rightarrow> k2
                     | Some p \<Rightarrow> k2\<lparr>kb_runs := add (failed_run p j a message code nid (clock 1)) (kb_runs k2)\<rparr>)))"

section \<open>The worker's error boundary\<close>

record public_failure =
  pf_code :: pystr
  pf_message :: pystr
  pf_retryable :: bool

definition failure :: "string \<Rightarrow> string \<Rightarrow> bool \<Rightarrow> public_failure" where
  "failure code message retryable = \<lparr>pf_code = lit code, pf_message = lit message, pf_retryable = retryable\<rparr>"

fun public_job_failure :: "knowledge_error \<Rightarrow> public_failure" where
  "public_job_failure (ParseRejected (UnsupportedEvidenceType m)) = failure ''unsupported_evidence_type''
     ''Evidence must use a supported file type and matching content type.'' False"
| "public_job_failure (ParseRejected (EvidenceParseError m)) = failure ''evidence_parse_rejected''
     ''Evidence could not be parsed safely.'' False"
| "public_job_failure (ProviderFailed code retryable) = \<lparr>pf_code = code,
     pf_message = lit ''The configured extraction provider could not complete this evidence.'', pf_retryable = retryable\<rparr>"
| "public_job_failure (BudgetExceeded m) = failure ''extraction_budget_exceeded''
     ''Evidence exceeded a configured extraction workload budget.'' False"
| "public_job_failure (EvidenceIntegrity m) = failure ''evidence_integrity_failed''
     ''The immutable evidence object failed integrity verification.'' False"
| "public_job_failure JobLeaseLost = failure ''job_lease_lost''
     ''The evidence job lease is no longer owned by this worker.'' False"
| "public_job_failure (JobProcessing m) = failure ''invalid_evidence_job''
     ''Evidence processing could not be completed because the job is invalid.'' False"
| "public_job_failure (CustomerDataDenied m) = failure ''customer_data_authorization_denied''
     ''Customer-data processing authorization is no longer valid.'' False"
| "public_job_failure (KnowledgeInner ProcessingDenied) = failure ''customer_data_authorization_denied''
     ''Customer-data processing authorization is no longer valid.'' False"
| "public_job_failure e = failure ''evidence_processing_failed'' ''Evidence processing could not be completed.'' True"

definition job_correlation_id :: "job \<Rightarrow> uuid option" where
  "job_correlation_id j = (case jb_correlation_id j of None \<Rightarrow> None | Some t \<Rightarrow> parse_uuid t)"

text \<open>
  One turn of the worker: a transaction that leases a job, one that processes it, and
  after any exception, which rolled the second one back, one that fails it.  A transaction commits by a
  flush.  The first component tells whether a job was leased.
\<close>

definition commit_knowledge :: "knowledge \<Rightarrow> knowledge knowing" where
  "commit_knowledge = knowledge_flush"

definition run_job :: "job_context \<Rightarrow> uuid \<Rightarrow> uuid \<Rightarrow> (nat \<Rightarrow> time) \<Rightarrow> uuid \<Rightarrow> knowledge \<Rightarrow> knowledge knowing" where
  "run_job c jid token clock nid k =
     (case bindE (process_job c jid token k) commit_knowledge of
        Inr k1 \<Rightarrow> Inr k1
      | Inl e \<Rightarrow> (let f = public_job_failure e in
          bindE (fail_job jid (pf_message f) token (pf_retryable f) (pf_code f) (Some (jc_provider c)) clock nid k)
            (\<lambda>(_, k1). commit_knowledge k1)))"

definition process_one ::
  "job_context \<Rightarrow> uuid \<Rightarrow> int \<Rightarrow> time \<Rightarrow> uuid \<Rightarrow> uuid set \<Rightarrow> (nat \<Rightarrow> time) \<Rightarrow> uuid \<Rightarrow> knowledge \<Rightarrow> (bool \<times> knowledge) knowing" where
  "process_one c eid seconds now token skipped clock nid k =
     (case lease_next_job eid seconds now token skipped k of (lease, k0) \<Rightarrow>
      bindE (commit_knowledge k0) (\<lambda>k1.
      case lease of None \<Rightarrow> Inr (False, k1)
        | Some (jid, tk) \<Rightarrow> bindE (run_job c jid tk clock nid k1) (\<lambda>k2. Inr (True, k2))))"

fun process_engagements ::
  "job_context \<Rightarrow> int \<Rightarrow> time \<Rightarrow> uuid \<Rightarrow> uuid set \<Rightarrow> (nat \<Rightarrow> time) \<Rightarrow> uuid \<Rightarrow> uuid list \<Rightarrow> knowledge \<Rightarrow> (bool \<times> knowledge) knowing" where
  "process_engagements c seconds now token skipped clock nid [] k = Inr (False, k)"
| "process_engagements c seconds now token skipped clock nid (eid # eids) k =
     bindE (process_one c eid seconds now token skipped clock nid k) (\<lambda>(processed, k1).
     if processed then Inr (True, k1) else process_engagements c seconds now token skipped clock nid eids k1)"

end
