(* ===== verification/ObjectStore.thy ===== *)
theory ObjectStore
  imports Canonical
begin

text \<open>
  \<open>adapters/storage.py\<close>: the in-memory evidence store, with its current objects and its versions, and
  the bounded, paged deletion of an engagement's evidence prefix in S3.  The S3 client is a parameter:
  what it lists is a JSON value that the code checks before it uses it.
\<close>

section \<open>The in-memory store\<close>

type_synonym version_entry = "pystr \<times> nat list option"

text \<open>A version without content is a delete marker.  Version identifiers are random, so parameters.\<close>

record evidence_store =
  st_objects :: "pystr \<rightharpoonup> nat list"
  st_versions :: "pystr \<rightharpoonup> version_entry list"

record stored_version =
  sv_key :: pystr
  sv_version_id :: pystr

definition versions_of :: "evidence_store \<Rightarrow> pystr \<Rightarrow> version_entry list" where
  "versions_of s key = (case st_versions s key of None \<Rightarrow> [] | Some vs \<Rightarrow> vs)"

definition append_version :: "pystr \<Rightarrow> version_entry \<Rightarrow> evidence_store \<Rightarrow> evidence_store" where
  "append_version key v s = s\<lparr>st_versions := (st_versions s)(key \<mapsto> versions_of s key @ [v])\<rparr>"

definition put_object :: "pystr \<Rightarrow> pystr \<Rightarrow> nat list \<Rightarrow> evidence_store \<Rightarrow> stored_version \<times> evidence_store" where
  "put_object vid key content s =
     (\<lparr>sv_key = key, sv_version_id = vid\<rparr>,
      (append_version key (vid, Some content) s)\<lparr>st_objects := (st_objects s)(key \<mapsto> content)\<rparr>)"

datatype store_read = ReadOk "nat list" | ReadKeyError | ReadVersionMissing

definition get_object :: "evidence_store \<Rightarrow> pystr \<Rightarrow> pystr option \<Rightarrow> store_read" where
  "get_object s key version = (case version of
       None \<Rightarrow> (case st_objects s key of None \<Rightarrow> ReadKeyError | Some c \<Rightarrow> ReadOk c)
     | Some vid \<Rightarrow> (case map_of (versions_of s key) vid of Some (Some c) \<Rightarrow> ReadOk c | _ \<Rightarrow> ReadVersionMissing))"

definition delete_object :: "pystr \<Rightarrow> pystr \<Rightarrow> evidence_store \<Rightarrow> evidence_store" where
  "delete_object marker key s = (append_version key (marker, None) s)\<lparr>st_objects := (st_objects s)(key := None)\<rparr>"

definition delete_version :: "stored_version \<Rightarrow> evidence_store \<Rightarrow> evidence_store" where
  "delete_version v s = (case st_versions s (sv_key v) of
       None \<Rightarrow> s
     | Some vs \<Rightarrow>
         let remaining = filter (\<lambda>i. fst i \<noteq> sv_version_id v) vs in
         if length remaining = length vs then s
         else if remaining = [] then s\<lparr>st_versions := (st_versions s)(sv_key v := None),
             st_objects := (st_objects s)(sv_key v := None)\<rparr>
         else s\<lparr>st_versions := (st_versions s)(sv_key v \<mapsto> remaining),
             st_objects := (st_objects s)(sv_key v := snd (last remaining))\<rparr>)"

definition engagement_evidence_prefix :: "uuid \<Rightarrow> pystr" where
  "engagement_evidence_prefix eid = lit ''engagements/'' @ uuid_str eid @ lit ''/evidence/''"

definition has_prefix :: "pystr \<Rightarrow> pystr \<Rightarrow> bool" where
  "has_prefix p t \<longleftrightarrow> take (length p) t = p"

record purge_receipt =
  pu_prefix :: pystr
  pu_versions :: nat
  pu_markers :: nat

text \<open>\<open>keys\<close> is the set of the keys with the prefix, as a list; the result does not depend on its order.\<close>

definition purge_in_memory :: "uuid \<Rightarrow> pystr list \<Rightarrow> evidence_store \<Rightarrow> purge_receipt \<times> evidence_store" where
  "purge_in_memory eid keys s =
     (let p = engagement_evidence_prefix eid;
          gone = filter (\<lambda>key. has_prefix p key) keys;
          entries = concat (map (versions_of s) gone)
      in (\<lparr>pu_prefix = p, pu_versions = length (filter (\<lambda>v. snd v \<noteq> None) entries),
           pu_markers = length (filter (\<lambda>v. snd v = None) entries)\<rparr>,
          s\<lparr>st_objects := (\<lambda>key. if key \<in> set gone then None else st_objects s key),
            st_versions := (\<lambda>key. if key \<in> set gone then None else st_versions s key)\<rparr>))"

section \<open>The paged deletion in S3\<close>

datatype purge_error =
    InvalidListing | InvalidIdentity | DuplicateIdentity | InvalidPaginationState
  | InvalidPaginationBoundary | RepeatedBoundary | PageLimit | NotEmpty

type_synonym marker = "(pystr \<times> pystr option) option"

text \<open>The client: \<open>list_object_versions\<close> for a prefix and a marker, and the deletion of one version.\<close>

record 's s3_client =
  s3_list :: "'s \<Rightarrow> pystr \<Rightarrow> marker \<Rightarrow> json"
  s3_delete :: "stored_version \<Rightarrow> 's \<Rightarrow> 's"

definition json_get :: "string \<Rightarrow> (json \<times> json) list \<Rightarrow> json option" where
  "json_get field kvs = map_of kvs (JStr (lit field))"

fun listed_version :: "pystr \<Rightarrow> json \<Rightarrow> (purge_error, stored_version) result" where
  "listed_version prefix (JObj kvs) = (case (json_get ''Key'' kvs, json_get ''VersionId'' kvs) of
       (Some (JStr key), Some (JStr vid)) \<Rightarrow>
         if has_prefix prefix key \<and> vid \<noteq> [] then Inr \<lparr>sv_key = key, sv_version_id = vid\<rparr> else Inl InvalidIdentity
     | _ \<Rightarrow> Inl InvalidIdentity)"
| "listed_version prefix _ = Inl InvalidIdentity"

fun listed_object_versions :: "string \<Rightarrow> pystr \<Rightarrow> json \<Rightarrow> (purge_error, stored_version list) result" where
  "listed_object_versions field prefix (JObj kvs) = (case json_get field kvs of
       None \<Rightarrow> Inr []
     | Some (JList entries) \<Rightarrow> mapE (listed_version prefix) entries
     | Some _ \<Rightarrow> Inl InvalidListing)"
| "listed_object_versions field prefix _ = Inl InvalidListing"

fun listing_is_truncated :: "json \<Rightarrow> (purge_error, bool) result" where
  "listing_is_truncated (JObj kvs) = (case json_get ''IsTruncated'' kvs of
       None \<Rightarrow> Inr False | Some (JBool b) \<Rightarrow> Inr b | Some _ \<Rightarrow> Inl InvalidPaginationState)"
| "listing_is_truncated _ = Inl InvalidListing"

text \<open>\<open>response.get(...)\<close> is only reached after the response was found to be a dict.\<close>

definition next_marker :: "pystr \<Rightarrow> json \<Rightarrow> (purge_error, pystr \<times> pystr option) result" where
  "next_marker prefix r = (case r of
       JObj kvs \<Rightarrow> (case (json_get ''NextKeyMarker'' kvs, json_get ''NextVersionIdMarker'' kvs) of
           (Some (JStr key), v) \<Rightarrow>
             if \<not> has_prefix prefix key then Inl InvalidPaginationBoundary
             else (case v of None \<Rightarrow> Inr (key, None) | Some JNull \<Rightarrow> Inr (key, None)
               | Some (JStr vid) \<Rightarrow> Inr (key, Some vid)
               | Some _ \<Rightarrow> Inl InvalidPaginationBoundary)
         | _ \<Rightarrow> Inl InvalidPaginationBoundary)
     | _ \<Rightarrow> Inl InvalidListing)"

text \<open>\<open>pg_seen\<close> holds the identities deleted so far, the last one first.\<close>

record 's purge_state =
  pg_store :: 's
  pg_seen :: "stored_version list"
  pg_markers_seen :: "(pystr \<times> pystr option) list"
  pg_versions :: nat
  pg_markers :: nat

fun delete_listed :: "'s s3_client \<Rightarrow> stored_version list \<Rightarrow> 's purge_state \<Rightarrow> purge_error option \<times> 's purge_state" where
  "delete_listed cl [] g = (None, g)"
| "delete_listed cl (v # vs) g =
     (if v \<in> set (pg_seen g) then (Some DuplicateIdentity, g)
      else delete_listed cl vs (g\<lparr>pg_seen := v # pg_seen g, pg_store := s3_delete cl v (pg_store g)\<rparr>))"

definition max_evidence_purge_pages :: nat where
  "max_evidence_purge_pages = 10000"

datatype page_result = PageFailed purge_error | PageLast | PageNext "pystr \<times> pystr option"

definition next_page :: "pystr \<Rightarrow> json \<Rightarrow> 's purge_state \<Rightarrow> page_result \<times> 's purge_state" where
  "next_page prefix r g = (case listing_is_truncated r of
       Inl e \<Rightarrow> (PageFailed e, g)
     | Inr False \<Rightarrow> (PageLast, g)
     | Inr True \<Rightarrow> (case next_marker prefix r of
           Inl e \<Rightarrow> (PageFailed e, g)
         | Inr m \<Rightarrow> if m \<in> set (pg_markers_seen g) then (PageFailed RepeatedBoundary, g)
             else (PageNext m, g\<lparr>pg_markers_seen := m # pg_markers_seen g\<rparr>)))"

definition purge_page :: "'s s3_client \<Rightarrow> pystr \<Rightarrow> marker \<Rightarrow> 's purge_state \<Rightarrow> page_result \<times> 's purge_state" where
  "purge_page cl prefix m g =
     (let r = s3_list cl (pg_store g) prefix m in
      case listed_object_versions ''Versions'' prefix r of Inl e \<Rightarrow> (PageFailed e, g)
      | Inr vs \<Rightarrow> (case listed_object_versions ''DeleteMarkers'' prefix r of Inl e \<Rightarrow> (PageFailed e, g)
      | Inr ds \<Rightarrow> (case delete_listed cl (vs @ ds) g of
          (Some e, g') \<Rightarrow> (PageFailed e, g')
        | (None, g') \<Rightarrow> next_page prefix r
            (g'\<lparr>pg_versions := pg_versions g' + length vs, pg_markers := pg_markers g' + length ds\<rparr>))))"

fun purge_pages ::
  "'s s3_client \<Rightarrow> pystr \<Rightarrow> nat \<Rightarrow> marker \<Rightarrow> 's purge_state \<Rightarrow> (purge_error, unit) result \<times> 's purge_state" where
  "purge_pages cl prefix 0 m g = (Inl PageLimit, g)"
| "purge_pages cl prefix (Suc n) m g = (case purge_page cl prefix m g of
       (PageFailed e, g') \<Rightarrow> (Inl e, g')
     | (PageLast, g') \<Rightarrow> (Inr (), g')
     | (PageNext m', g') \<Rightarrow> purge_pages cl prefix n (Some m') g')"

definition prefix_empty :: "pystr \<Rightarrow> json \<Rightarrow> (purge_error, unit) result" where
  "prefix_empty prefix r =
     bindE (listed_object_versions ''Versions'' prefix r) (\<lambda>vs.
     bindE (require (vs = []) NotEmpty) (\<lambda>_.
     bindE (listed_object_versions ''DeleteMarkers'' prefix r) (\<lambda>ds.
     bindE (require (ds = []) NotEmpty) (\<lambda>_.
     bindE (listing_is_truncated r) (\<lambda>t. require (\<not> t) NotEmpty)))))"

text \<open>The deletions stay when the operation fails, so the state is part of every result.\<close>

definition purge_engagement_evidence ::
  "'s s3_client \<Rightarrow> uuid \<Rightarrow> 's \<Rightarrow> (purge_error, purge_receipt) result \<times> 's purge_state" where
  "purge_engagement_evidence cl eid s =
     (let prefix = engagement_evidence_prefix eid;
          start = \<lparr>pg_store = s, pg_seen = [], pg_markers_seen = [], pg_versions = 0, pg_markers = 0\<rparr>
      in case purge_pages cl prefix max_evidence_purge_pages None start of
        (Inl e, g) \<Rightarrow> (Inl e, g)
      | (Inr _, g) \<Rightarrow>
          (bindE (prefix_empty prefix (s3_list cl (pg_store g) prefix None)) (\<lambda>_.
             Inr \<lparr>pu_prefix = prefix, pu_versions = pg_versions g, pu_markers = pg_markers g\<rparr>), g))"

section \<open>The in-memory store is consistent\<close>

text \<open>The object of a key is the content of its latest version.\<close>

definition store_consistent :: "evidence_store \<Rightarrow> bool" where
  "store_consistent s \<longleftrightarrow> (\<forall>key. st_versions s key \<noteq> Some []
     \<and> st_objects s key = (if versions_of s key = [] then None else snd (last (versions_of s key))))"

lemma versions_of_simps [simp]:
  "versions_of (s\<lparr>st_objects := ob\<rparr>) key = versions_of s key"
  "versions_of (s\<lparr>st_versions := vs\<rparr>) key = (case vs key of None \<Rightarrow> [] | Some x \<Rightarrow> x)"
  by (simp_all add: versions_of_def)

lemma append_version_simps [simp]:
  "st_objects (append_version key v s) = st_objects s"
  "st_versions (append_version key v s) = (st_versions s)(key \<mapsto> versions_of s key @ [v])"
  "versions_of (append_version key v s) k = (if k = key then versions_of s key @ [v] else versions_of s k)"
  by (simp_all add: append_version_def versions_of_def)

lemma consistent_put: "store_consistent s \<Longrightarrow> store_consistent (snd (put_object vid key content s))"
  by (simp add: store_consistent_def put_object_def)

lemma consistent_delete: "store_consistent s \<Longrightarrow> store_consistent (delete_object marker key s)"
  by (simp add: store_consistent_def delete_object_def)

lemma consistent_delete_version: "store_consistent s \<Longrightarrow> store_consistent (delete_version v s)"
  by (auto simp: store_consistent_def delete_version_def Let_def versions_of_def split: option.splits)

lemma consistent_purge: "store_consistent s \<Longrightarrow> store_consistent (snd (purge_in_memory eid keys s))"
  by (auto simp: store_consistent_def purge_in_memory_def Let_def versions_of_def)

lemma put_then_delete_version:
  assumes "store_consistent s" and "vid \<notin> fst ` set (versions_of s key)" and "put_object vid key content s = (v, s')"
  shows "delete_version v s' = s"
proof -
  have v: "v = \<lparr>sv_key = key, sv_version_id = vid\<rparr>"
    and s': "s' = (append_version key (vid, Some content) s)\<lparr>st_objects := (st_objects s)(key \<mapsto> content)\<rparr>"
    using assms(3) by (auto simp: put_object_def)
  have f: "filter (\<lambda>i. fst i \<noteq> vid) (versions_of s key) = versions_of s key"
    using assms(2) by (intro filter_True) force
  note c = assms(1) [unfolded store_consistent_def, THEN spec, of key]
  show ?thesis
  proof (cases "st_versions s key")
    case None
    then have "versions_of s key = []" by (simp add: versions_of_def)
    with None c f show ?thesis
      by (simp add: v s' delete_version_def append_version_def fun_upd_idem)
  next
    case (Some vs)
    then have "versions_of s key = vs" by (simp add: versions_of_def)
    with Some c f show ?thesis
      by (simp add: v s' delete_version_def append_version_def fun_upd_idem)
  qed
qed

section \<open>What the paged deletion deletes\<close>

text \<open>A state reached from \<open>s\<close> by deleting distinct versions under the prefix, and nothing else.\<close>

definition purged_from :: "'s s3_client \<Rightarrow> pystr \<Rightarrow> 's \<Rightarrow> 's purge_state \<Rightarrow> bool" where
  "purged_from cl prefix s g \<longleftrightarrow> distinct (pg_seen g) \<and> (\<forall>v \<in> set (pg_seen g). has_prefix prefix (sv_key v))
     \<and> pg_store g = foldr (s3_delete cl) (pg_seen g) s"

lemma purged_from_counts [simp]:
  "purged_from cl prefix s (g\<lparr>pg_versions := a, pg_markers := b\<rparr>) = purged_from cl prefix s g"
  "purged_from cl prefix s (g\<lparr>pg_markers_seen := ms\<rparr>) = purged_from cl prefix s g"
  by (simp_all add: purged_from_def)

lemma listed_version_prefix: "listed_version prefix j = Inr v \<Longrightarrow> has_prefix prefix (sv_key v)"
  by (cases j) (auto split: option.splits json.splits if_splits)

lemma listed_prefix:
  assumes "listed_object_versions field prefix r = Inr vs"
  shows "\<forall>v \<in> set vs. has_prefix prefix (sv_key v)"
proof -
  have "\<forall>v \<in> set vs. has_prefix prefix (sv_key v)" if "list_all2 (\<lambda>j v. listed_version prefix j = Inr v) es vs" for es
    using that by induction (auto intro: listed_version_prefix)
  then show ?thesis using assms by (cases r) (auto split: option.splits json.splits simp: mapE_Inr_iff)
qed

lemma delete_listed_purged:
  assumes "purged_from cl prefix s g" and "\<forall>v \<in> set vs. has_prefix prefix (sv_key v)"
    and "delete_listed cl vs g = (e, g')"
  shows "purged_from cl prefix s g' \<and> pg_versions g' = pg_versions g \<and> pg_markers g' = pg_markers g
    \<and> (e = None \<longrightarrow> length (pg_seen g') = length (pg_seen g) + length vs)"
  using assms
proof (induction vs arbitrary: g)
  case (Cons v vs)
  show ?case
  proof (cases "v \<in> set (pg_seen g)")
    case False
    have "purged_from cl prefix s (g\<lparr>pg_seen := v # pg_seen g, pg_store := s3_delete cl v (pg_store g)\<rparr>)"
      using Cons.prems(1,2) False by (simp add: purged_from_def)
    from Cons.IH [OF this] Cons.prems(2,3) False show ?thesis by simp
  qed (use Cons.prems in auto)
qed auto

definition counted :: "'s purge_state \<Rightarrow> bool" where
  "counted g \<longleftrightarrow> pg_versions g + pg_markers g = length (pg_seen g)"

lemma purge_page_purged:
  assumes "purged_from cl prefix s g" and "purge_page cl prefix m g = (r, g')"
  shows "purged_from cl prefix s g' \<and> (counted g \<longrightarrow> (\<forall>e. r \<noteq> PageFailed e) \<longrightarrow> counted g')"
proof -
  let ?r = "s3_list cl (pg_store g) prefix m"
  have np: "purged_from cl prefix s h' = purged_from cl prefix s h \<and> counted h' = counted h"
    if "next_page prefix ?r h = (r', h')" for h h' r'
    using that by (auto simp: next_page_def counted_def split: sum.splits bool.splits if_splits prod.splits)
  show ?thesis
  proof (cases "listed_object_versions ''Versions'' prefix ?r")
    case (Inr vs)
    note vs = this
    show ?thesis
    proof (cases "listed_object_versions ''DeleteMarkers'' prefix ?r")
      case (Inr ds)
      obtain e h where h: "delete_listed cl (vs @ ds) g = (e, h)" by fastforce
      have pre: "\<forall>v \<in> set (vs @ ds). has_prefix prefix (sv_key v)" using listed_prefix vs Inr by auto
      note d = delete_listed_purged [OF assms(1) pre h]
      show ?thesis
      proof (cases e)
        case None
        have "next_page prefix ?r (h\<lparr>pg_versions := pg_versions h + length vs, pg_markers := pg_markers h + length ds\<rparr>) = (r, g')"
          using assms(2) vs Inr h None by (simp add: purge_page_def Let_def)
        from np [OF this] d None show ?thesis by (auto simp: counted_def)
      next
        case (Some x)
        then have "r = PageFailed x" "g' = h" using assms(2) vs Inr h by (auto simp: purge_page_def Let_def)
        then show ?thesis using d by auto
      qed
    qed (use assms vs in \<open>auto simp: purge_page_def Let_def\<close>)
  qed (use assms in \<open>auto simp: purge_page_def Let_def\<close>)
qed

lemma purge_pages_purged:
  "purged_from cl prefix s g \<Longrightarrow> counted g \<Longrightarrow> purge_pages cl prefix n m g = (r, g') \<Longrightarrow>
    purged_from cl prefix s g' \<and> (r = Inr () \<longrightarrow> counted g')"
proof (induction n arbitrary: m g)
  case (Suc n)
  obtain q h where h: "purge_page cl prefix m g = (q, h)" by fastforce
  note p = purge_page_purged [OF Suc.prems(1) h]
  show ?case using Suc.prems h p Suc.IH [of h] by (cases q) auto
qed auto


text \<open>A bucket of two versions and a marker, listed in two pages.\<close>

definition sample_bucket_key :: pystr where
  "sample_bucket_key = engagement_evidence_prefix 1 @ lit ''a''"

definition sample_version :: "string \<Rightarrow> stored_version" where
  "sample_version v = \<lparr>sv_key = sample_bucket_key, sv_version_id = lit v\<rparr>"

definition sample_entry :: "stored_version \<Rightarrow> json" where
  "sample_entry v = obj [(''Key'', JStr (sv_key v)), (''VersionId'', JStr (sv_version_id v))]"

definition sample_client :: "stored_version list s3_client" where
  "sample_client = \<lparr>s3_list = (\<lambda>s p m. case s of
       [] \<Rightarrow> obj []
     | [v] \<Rightarrow> obj [(''DeleteMarkers'', JList [sample_entry v]), (''IsTruncated'', JBool False)]
     | v # w # vs \<Rightarrow> obj [(''Versions'', JList [sample_entry v, sample_entry w]), (''IsTruncated'', JBool True),
         (''NextKeyMarker'', JStr sample_bucket_key)]),
     s3_delete = (\<lambda>v s. remove1 v s)\<rparr>"


text \<open>
  C21: the compensation of a rolled-back upload restores the evidence store: storing an object under a
  new version identifier and then deleting that version gives back the same store, and until then the
  version reads back as the bytes that were stored; every operation keeps the current object of a key
  equal to the content of its latest version.
\<close>

theorem upload_compensation_restores:
  assumes "store_consistent s" and "vid \<notin> fst ` set (versions_of s key)" and "put_object vid key content s = (v, s')"
  shows "delete_version v s' = s \<and> get_object s' key (Some vid) = ReadOk content \<and> get_object s' key None = ReadOk content
    \<and> store_consistent s' \<and> store_consistent (delete_object marker key s') \<and> store_consistent (delete_version w s)
    \<and> store_consistent (snd (purge_in_memory eid keys s))"
proof -
  have s': "s' = snd (put_object vid key content s)" using assms(3) by simp
  have "get_object s' key (Some vid) = ReadOk content \<and> get_object s' key None = ReadOk content"
    using assms(2) by (simp add: s' put_object_def get_object_def map_add_def map_of_eq_None_iff [THEN iffD2])
  then show ?thesis
    using put_then_delete_version [OF assms] consistent_put [OF assms(1)] consistent_delete consistent_delete_version [OF assms(1)]
      consistent_purge [OF assms(1)] by (simp add: s')
qed

theorem upload_compensation_restores_witness:
  "let s = snd (put_object (lit ''v1'') (lit ''k'') [1] \<lparr>st_objects = Map.empty, st_versions = Map.empty\<rparr>);
       r = put_object (lit ''v2'') (lit ''k'') [2] s
   in delete_version (fst r) (snd r) = s \<and> get_object (snd r) (lit ''k'') None = ReadOk [2]"
proof -
  let ?s = "snd (put_object (lit ''v1'') (lit ''k'') [1] \<lparr>st_objects = Map.empty, st_versions = Map.empty\<rparr>)"
  have c: "store_consistent ?s" by (rule consistent_put) (simp add: store_consistent_def versions_of_def)
  have f: "lit ''v2'' \<notin> fst ` set (versions_of ?s (lit ''k''))" by (simp add: put_object_def versions_of_def append_version_def)
  obtain v s' where p: "put_object (lit ''v2'') (lit ''k'') [2] ?s = (v, s')" by fastforce
  show ?thesis using upload_compensation_restores [OF c f p] unfolding Let_def p fst_conv snd_conv by blast
qed

end
