(* ===== verification/EvidenceIntake.thy ===== *)
theory EvidenceIntake
  imports Jobs ObjectStore
begin

text \<open>
  \<open>modules/evidence/service.py\<close>: the registration of an uploaded document.  The file name is made safe,
  the bytes go to the object store under a key of their digest, the asset and its ingestion job to the
  database; when the transaction fails, the compensation it registered deletes the stored version.
  \<open>unicodedata\<close> is a parameter: NFC normalisation and the general categories that start with C.
\<close>

section \<open>File names\<close>

record unicode_data =
  uc_nfc :: "pystr \<Rightarrow> pystr"
  uc_control :: "nat \<Rightarrow> bool"

definition max_evidence_bytes :: nat where "max_evidence_bytes = 5 * 1024 * 1024"
definition max_evidence_file_name_characters :: nat where "max_evidence_file_name_characters = 512"

definition unsafe_file_name_characters :: "nat list" where
  "unsafe_file_name_characters = lit [CHR ''/'', CHR 0x5C, CHR ''<'', CHR ''>'', CHR '':'', CHR 0x22, CHR ''|'', CHR ''?'', CHR ''*'', CHR ''%'']"

definition windows_reserved_file_names :: "pystr list" where
  "windows_reserved_file_names = map lit [''CON'', ''PRN'', ''AUX'', ''NUL'']
     @ map (\<lambda>i. lit ''COM'' @ dec_nat i) [1..<10] @ map (\<lambda>i. lit ''LPT'' @ dec_nat i) [1..<10]"

datatype intake_error =
    EvidenceInvalid pystr
  | EvidenceTooLarge
  | IntakeFailed knowledge_error

type_synonym 'a intake = "(intake_error, 'a) result"

definition invalid :: "string \<Rightarrow> intake_error" where
  "invalid m = EvidenceInvalid (lit m)"

definition normalize_evidence_file_name :: "unicode_data \<Rightarrow> pystr \<Rightarrow> pystr intake" where
  "normalize_evidence_file_name u file_name =
     (let canonical = uc_nfc u file_name; unsafe = invalid ''Evidence needs one safe file basename.'' in
      bindE (require (\<not> list_ex (uc_control u) canonical) unsafe) (\<lambda>_.
      let n = py_strip canonical; stem = upper (before_first 46 n) in
      bindE (require (\<not> (n = [] \<or> max_evidence_file_name_characters < length n \<or> n \<in> {[46], [46, 46]}
         \<or> hd n = 46 \<or> last n = 46 \<or> list_ex (\<lambda>ch. ch \<in> set unsafe_file_name_characters) n
         \<or> stem \<in> set windows_reserved_file_names)) unsafe) (\<lambda>_. Inr n)))"

section \<open>Registration\<close>

record upload =
  ul_engagement_id :: uuid
  ul_operator :: operator
  ul_file_name :: pystr
  ul_content_type :: pystr
  ul_content :: "nat list"
  ul_source_type :: pystr
  ul_source_timestamp :: "time option"
  ul_qualification_id :: "uuid option"
  ul_source_key :: "pystr option"
  ul_workflow_class :: "pystr option"
  ul_data_classification :: "customer_class option"

definition upload_context ::
  "upload \<Rightarrow> uuid option \<times> pystr option \<times> pystr option \<times> customer_class option" where
  "upload_context u = (ul_qualification_id u, ul_source_key u, ul_workflow_class u, ul_data_classification u)"

definition asset_context ::
  "evidence_asset \<Rightarrow> uuid option \<times> pystr option \<times> pystr option \<times> customer_class option" where
  "asset_context a = (ev_qualification_id a, ev_authorized_source_key a, ev_authorized_workflow_class a, ev_data_classification a)"

definition all_or_none :: "upload \<Rightarrow> bool" where
  "all_or_none u \<longleftrightarrow> upload_context u = (None, None, None, None)
     \<or> (ul_qualification_id u \<noteq> None \<and> ul_source_key u \<noteq> None \<and> ul_workflow_class u \<noteq> None \<and> ul_data_classification u \<noteq> None)"

definition check_qualified_document :: "upload \<Rightarrow> pystr \<Rightarrow> unit intake" where
  "check_qualified_document u name =
     bindE (require (casefold (py_strip (before_first 59 (ul_content_type u))) \<in> {lit ''text/plain'', lit ''text/markdown''}
        \<and> casefold (path_suffix name) \<in> {lit ''.txt'', lit ''.md''})
       (invalid ''Qualified customer data must be one plain-text or Markdown document.'')) (\<lambda>_.
     bindE (the_or (utf8_sig_decode (ul_content u)) (invalid ''Qualified customer data must contain valid UTF-8 text.'')) (\<lambda>t.
     require (py_strip t \<noteq> [] \<and> 0 \<notin> set t) (invalid ''Qualified customer data must contain readable UTF-8 text.'')))"

definition check_upload :: "unicode_data \<Rightarrow> upload \<Rightarrow> pystr intake" where
  "check_upload uc u =
     bindE (require (all_or_none u)
       (invalid ''Qualified evidence requires qualification, source, workflow, and classification.'')) (\<lambda>_.
     bindE (normalize_evidence_file_name uc (ul_file_name u)) (\<lambda>name.
     bindE (require (ul_content u \<noteq> []) (invalid ''Evidence cannot be empty.'')) (\<lambda>_.
     bindE (require (length (ul_content u) \<le> max_evidence_bytes) EvidenceTooLarge) (\<lambda>_.
     bindE (if ul_qualification_id u \<noteq> None then check_qualified_document u name else Inr ()) (\<lambda>_.
     bindE (case validate_evidence_upload_metadata (ul_content_type u) name of
         Inl (UnsupportedEvidenceType m) \<Rightarrow> Inl (EvidenceInvalid m) | Inl (EvidenceParseError m) \<Rightarrow> Inl (EvidenceInvalid m)
       | Inr x \<Rightarrow> Inr ()) (\<lambda>_. Inr name))))))"

definition check_existing :: "upload \<Rightarrow> evidence_asset \<Rightarrow> unit intake" where
  "check_existing u a =
     bindE (require (asset_context a = upload_context u)
       (invalid ''Matching evidence already exists under a different authorization context.'')) (\<lambda>_.
     require (\<not> (ul_qualification_id u \<noteq> None \<and> ev_storage_version_id a = None))
       (invalid ''Qualified evidence without immutable object provenance cannot be reused.''))"

definition storage_key :: "uuid \<Rightarrow> pystr \<Rightarrow> pystr \<Rightarrow> pystr" where
  "storage_key eid digest name = engagement_evidence_prefix eid @ digest @ lit ''/'' @ name"

definition new_asset :: "upload \<Rightarrow> pystr \<Rightarrow> pystr \<Rightarrow> stored_version \<Rightarrow> uuid \<Rightarrow> time \<Rightarrow> evidence_asset" where
  "new_asset u name digest v nid now = \<lparr>ev_id = nid, ev_engagement_id = ul_engagement_id u, ev_content_hash = digest,
     ev_status = EQueued, ev_created_at = now, ev_qualification_id = ul_qualification_id u,
     ev_authorized_source_key = ul_source_key u, ev_authorized_workflow_class = ul_workflow_class u,
     ev_data_classification = ul_data_classification u, ev_file_name = name, ev_content_type = ul_content_type u,
     ev_byte_count = int (length (ul_content u)), ev_storage_key = storage_key (ul_engagement_id u) digest name,
     ev_storage_version_id = Some (sv_version_id v), ev_source_type = ul_source_type u,
     ev_source_timestamp = ul_source_timestamp u, ev_error_message = None, ev_created_by_id = op_id (ul_operator u)\<rparr>"

definition ingest_job :: "upload \<Rightarrow> uuid \<Rightarrow> uuid option \<Rightarrow> uuid \<Rightarrow> time \<Rightarrow> job" where
  "ingest_job u aid correlation nid now = \<lparr>jb_id = nid, jb_engagement_id = ul_engagement_id u, jb_kind = lit ''ingest_evidence'',
     jb_status = JQueued, jb_evidence_asset_id = uuid_str aid, jb_correlation_id = map_option uuid_str correlation,
     jb_progress = 0, jb_attempts = 0, jb_max_attempts = 3,
     jb_idempotency_key = lit ''evidence:'' @ uuid_str aid @ lit '':ingest:v1'', jb_available_at = now, jb_created_at = now,
     jb_lease_token = None, jb_leased_until = None, jb_error_message = None, jb_completed_at = None\<rparr>"

definition queued_events :: "upload \<Rightarrow> evidence_asset \<Rightarrow> store \<Rightarrow> store" where
  "queued_events u a s =
     publish_domain_event (ul_engagement_id u) (lit ''evidence.queued'') (lit ''evidence_asset'') (ev_id a)
       (obj [(''source_type'', JStr (ul_source_type u))])
       (record_audit (ul_engagement_id u) (op_id (ul_operator u)) (lit ''evidence.queued'') (lit ''evidence_asset'') (ev_id a)
         (obj [(''file_name'', JStr (ev_file_name a)), (''source_type'', JStr (ul_source_type u)),
           (''content_hash'', JStr (ev_content_hash a)), (''byte_count'', JInt (ev_byte_count a))]) s)"

text \<open>
  The keys of the two rows, the time, the version identifier of the store and the correlation id of the
  request are parameters.
\<close>

record intake_supply =
  is_asset_id :: uuid
  is_job_id :: uuid
  is_now :: time
  is_version_id :: pystr
  is_correlation :: "uuid option"

definition insert_asset :: "upload \<Rightarrow> intake_supply \<Rightarrow> evidence_asset \<Rightarrow> knowledge \<Rightarrow> knowledge intake" where
  "insert_asset u w a k =
     (case knowledge_flush (events (\<lambda>s. s\<lparr>evidence_assets := add a (evidence_assets s)\<rparr>) k) of
        Inl e \<Rightarrow> Inl (IntakeFailed e)
      | Inr k1 \<Rightarrow> Inr (events (queued_events u a)
          (k1\<lparr>kb_jobs := add (ingest_job u (ev_id a) (is_correlation w) (is_job_id w) (is_now w)) (kb_jobs k1)\<rparr>)))"

text \<open>
  The result of the operation; beside it the object store and the version the transaction deletes when
  it is rolled back.
\<close>

definition create_evidence_asset ::
  "unicode_data \<Rightarrow> upload \<Rightarrow> intake_supply \<Rightarrow> evidence_store \<Rightarrow> knowledge
    \<Rightarrow> (evidence_asset \<times> knowledge) intake \<times> evidence_store \<times> stored_version list" where
  "create_evidence_asset uc u w st k =
     (case check_upload uc u of Inl e \<Rightarrow> (Inl e, st, [])
      | Inr name \<Rightarrow>
        let digest = sha256_hex (ul_content u) in
        (case first (select (\<lambda>a. ev_engagement_id a = ul_engagement_id u \<and> ev_content_hash a = digest)
            (evidence_assets (kb_store k))) of
           Some a \<Rightarrow> (bindE (check_existing u a) (\<lambda>_. Inr (a, k)), st, [])
         | None \<Rightarrow>
             (case put_object (is_version_id w) (storage_key (ul_engagement_id u) digest name) (ul_content u) st of
                (v, st') \<Rightarrow> let a = new_asset u name digest v (is_asset_id w) (is_now w)
                  in (bindE (insert_asset u w a k) (\<lambda>k1. Inr (a, k1)), st', [v]))))"

text \<open>
  The transaction of an upload: a commit keeps the stored object, and any failure runs the
  compensations, the last one first, and leaves the database as it was.
\<close>

definition upload_transaction ::
  "unicode_data \<Rightarrow> upload \<Rightarrow> intake_supply \<Rightarrow> evidence_store \<Rightarrow> knowledge
    \<Rightarrow> (intake_error, evidence_asset) result \<times> evidence_store \<times> knowledge" where
  "upload_transaction uc u w st k =
     (case create_evidence_asset uc u w st k of (r, st', pending) \<Rightarrow>
        (case bindE r (\<lambda>(a, k1). case commit_knowledge k1 of Inl e \<Rightarrow> Inl (IntakeFailed e) | Inr k2 \<Rightarrow> Inr (a, k2)) of
           Inr (a, k2) \<Rightarrow> (Inr a, st', k2)
         | Inl e \<Rightarrow> (Inl e, foldr delete_version pending st', k)))"

definition list_evidence :: "uuid \<Rightarrow> knowledge \<Rightarrow> evidence_asset list" where
  "list_evidence eid k =
     sort_key (\<lambda>a. - ev_created_at a) (select (\<lambda>a. ev_engagement_id a = eid) (evidence_assets (kb_store k)))"

end
