(* ===== verification/JobProps.thy ===== *)
theory JobProps
  imports EvidenceIntake
begin

text \<open>
  The life of an ingestion job: the invariant of the job rows over every history of worker
  transactions, and what a processed job leaves in the store: claims that quote exact slices of the
  stored evidence and no verified truth.
\<close>

section \<open>Flushes\<close>

lemma knowledge_flush_Inr [result_simps]:
  "knowledge_flush k = Inr k' \<longleftrightarrow> knowledge_accepted k \<and> factory_accepted (kb_store k)
     \<and> k' = flush_knowledge_tables (k\<lparr>kb_store := synced (kb_store k)\<rparr>)"
proof -
  have "bindE (all_ok (\<lambda>(e, ok). require ok e) xs) (\<lambda>_. r) = Inr y \<longleftrightarrow> list_all snd xs \<and> r = Inr y"
    for xs :: "(knowledge_error \<times> bool) list" and r and y :: knowledge
    by (induction xs) (auto simp: bindE_eq_Inr require_eq_Inr)
  then show ?thesis
    by (auto simp: knowledge_flush_def knowledge_accepted_def on_store_def flush_session_Inr bindE_eq_Inr
        split: sum.splits dest: flush_session_accepted)
qed

lemma flush_knowledge_simps [simp]:
  "kb_store (flush_knowledge_tables k) = kb_store k" "kb_runs (flush_knowledge_tables k) = flush (kb_runs k)"
  "kb_segments (flush_knowledge_tables k) = flush (kb_segments k)" "kb_claims (flush_knowledge_tables k) = flush (kb_claims k)"
  "kb_claim_evidence (flush_knowledge_tables k) = flush (kb_claim_evidence k)"
  "kb_decisions (flush_knowledge_tables k) = flush (kb_decisions k)"
  "kb_entities (flush_knowledge_tables k) = flush (kb_entities k)"
  "kb_assertion_evidence (flush_knowledge_tables k) = flush (kb_assertion_evidence k)"
  "kb_contradictions (flush_knowledge_tables k) = flush (kb_contradictions k)"
  "kb_jobs (flush_knowledge_tables k) = flush (kb_jobs k)"
  by (simp_all add: flush_knowledge_tables_def)


section \<open>The rows of a job\<close>

definition job_ok :: "job \<Rightarrow> bool" where
  "job_ok j \<longleftrightarrow> 0 \<le> jb_attempts j \<and> jb_attempts j \<le> jb_max_attempts j
     \<and> (jb_status j = JRunning \<longleftrightarrow> jb_leased_until j \<noteq> None)
     \<and> (jb_status j = JRunning \<longrightarrow> jb_lease_token j \<noteq> None \<and> 0 < jb_attempts j)
     \<and> (jb_status j = JCompleted \<longleftrightarrow> jb_completed_at j \<noteq> None)
     \<and> (jb_status j = JCompleted \<longrightarrow> jb_progress j = 100 \<and> 0 < jb_attempts j)"

definition job_table_ok :: "job table \<Rightarrow> bool" where
  "job_table_ok t \<longleftrightarrow> clean t \<and> distinct (map jb_id (current t)) \<and> list_all job_ok (current t)"

text \<open>How the row of a job may change; a finished job never does, and attempts only grow.\<close>

definition job_moves :: "job \<Rightarrow> job \<Rightarrow> bool" where
  "job_moves j j' \<longleftrightarrow> jb_id j' = jb_id j \<and> jb_engagement_id j' = jb_engagement_id j \<and> jb_kind j' = jb_kind j
     \<and> jb_evidence_asset_id j' = jb_evidence_asset_id j \<and> jb_idempotency_key j' = jb_idempotency_key j
     \<and> jb_max_attempts j' = jb_max_attempts j \<and> jb_attempts j \<le> jb_attempts j'
     \<and> (jb_status j \<in> {JCompleted, JFailed, JCancelled} \<longrightarrow> j' = j)"

lemma job_moves_refl [simp]: "job_moves j j"
  by (simp add: job_moves_def)

lemma job_moves_trans: "job_moves i j \<Longrightarrow> job_moves j k \<Longrightarrow> job_moves i k"
  by (auto simp: job_moves_def)

text \<open>Every job of \<open>t\<close> is still there and moved; new jobs come at the end.\<close>

definition jobs_move :: "job table \<Rightarrow> job table \<Rightarrow> bool" where
  "jobs_move t t' \<longleftrightarrow> (\<exists>js ns. current t' = js @ ns \<and> list_all2 job_moves (current t) js)"

lemma jobs_move_refl [simp]: "jobs_move t t"
  unfolding jobs_move_def by (intro exI [of _ "current t"] exI [of _ "[]"]) (simp add: list_all2_same)

lemma jobs_move_trans: "jobs_move t u \<Longrightarrow> jobs_move u v \<Longrightarrow> jobs_move t v"
proof -
  assume "jobs_move t u" and "jobs_move u v"
  then obtain js ns ks ms where u: "current u = js @ ns" and l1: "list_all2 job_moves (current t) js"
    and v: "current v = ks @ ms" and l2: "list_all2 job_moves (current u) ks" by (auto simp: jobs_move_def)
  from l2 obtain ka kb where k: "ks = ka @ kb" "list_all2 job_moves js ka" unfolding u
    by (auto simp: list_all2_append1)
  have "list_all2 job_moves (current t) ka" by (rule list_all2_trans [OF job_moves_trans l1 k(2)])
  then show ?thesis unfolding jobs_move_def v k(1) by (intro exI [of _ ka] exI [of _ "kb @ ms"]) simp
qed

lemma jobs_move_modify:
  "(\<And>j. j \<in> set (current t) \<Longrightarrow> P j \<Longrightarrow> job_moves j (f j)) \<Longrightarrow> jobs_move t (modify P f t)"
  unfolding jobs_move_def current_modify
  by (intro exI [of _ "map (\<lambda>j. if P j then f j else j) (current t)"] exI [of _ "[]"])
    (auto simp: list_all2_conv_all_nth)


section \<open>What staging adds\<close>

text \<open>\<open>k'\<close> has the rows of \<open>k\<close> and, after them, new segments, claims and claim evidence.\<close>

definition staged ::
  "knowledge \<Rightarrow> evidence_segment list \<Rightarrow> claim list \<Rightarrow> claim_evidence list \<Rightarrow> knowledge \<Rightarrow> bool" where
  "staged k gs cls ces k' \<longleftrightarrow> current (kb_segments k') = current (kb_segments k) @ gs
     \<and> current (kb_claims k') = current (kb_claims k) @ cls
     \<and> current (kb_claim_evidence k') = current (kb_claim_evidence k) @ ces
     \<and> current (kb_jobs k') = current (kb_jobs k) \<and> current (kb_runs k') = current (kb_runs k)
     \<and> current (kb_decisions k') = current (kb_decisions k) \<and> current (kb_entities k') = current (kb_entities k)
     \<and> current (kb_assertion_evidence k') = current (kb_assertion_evidence k)
     \<and> current (kb_contradictions k') = current (kb_contradictions k)
     \<and> current (assertions (kb_store k')) = current (assertions (kb_store k))
     \<and> current (evidence_assets (kb_store k')) = current (evidence_assets (kb_store k))"

lemma staged_flush: "knowledge_flush k = Inr k' \<Longrightarrow> staged k [] [] [] k'"
  by (auto simp: staged_def knowledge_flush_Inr current_flush)

lemma staged_trans:
  "staged k gs cls ces k1 \<Longrightarrow> staged k1 gs' cls' ces' k2 \<Longrightarrow> staged k (gs @ gs') (cls @ cls') (ces @ ces') k2"
  by (simp add: staged_def)

lemma staged_adds:
  "staged k [g] [] [] (k\<lparr>kb_segments := add g (kb_segments k)\<rparr>)"
  "staged k [] [cl] [] (k\<lparr>kb_claims := add cl (kb_claims k)\<rparr>)"
  "staged k [] [] [ce] (k\<lparr>kb_claim_evidence := add ce (kb_claim_evidence k)\<rparr>)"
  by (simp_all add: staged_def current_add)

text \<open>Evidence that quotes its segment exactly, for a claim that waits for review.\<close>

definition quotes :: "evidence_segment \<Rightarrow> claim \<Rightarrow> claim_evidence \<Rightarrow> bool" where
  "quotes g cl ce \<longleftrightarrow> ce_claim_id ce = cl_id cl \<and> ce_segment_id ce = es_id g \<and> cl_status cl = CCandidate
     \<and> ce_start_offset ce < ce_end_offset ce \<and> ce_end_offset ce \<le> length (es_content g)
     \<and> ce_quote ce = take (ce_end_offset ce - ce_start_offset ce) (drop (ce_start_offset ce) (es_content g))"

text \<open>The evidence of each claim comes with it, in the same order.\<close>

definition grounded :: "evidence_segment list \<Rightarrow> claim list \<Rightarrow> claim_evidence list \<Rightarrow> bool" where
  "grounded gs cls ces \<longleftrightarrow> list_all2 (\<lambda>cl ce. \<exists>g \<in> set gs. quotes g cl ce) cls ces"

lemma grounded_simps [simp]:
  "grounded gs [] []" "grounded gs (cl # cls) (ce # ces) \<longleftrightarrow> (\<exists>g \<in> set gs. quotes g cl ce) \<and> grounded gs cls ces"
  by (simp_all add: grounded_def)

lemma grounded_append: "grounded gs cls ces \<Longrightarrow> grounded hs cls' ces' \<Longrightarrow> grounded (gs @ hs) (cls @ cls') (ces @ ces')"
  unfolding grounded_def by (intro list_all2_appendI) (auto elim!: list_all2_mono)

lemma stage_claims_staged:
  "list_all (exact_offsets (es_content g)) xs \<Longrightarrow> stage_claims c j g n xs k = Inr (m, cls, k') \<Longrightarrow>
    \<exists>ces. staged k [] cls ces k' \<and> grounded [g] cls ces \<and> length cls = length xs"
proof (induction xs arbitrary: n k cls)
  case Nil
  then show ?case by (intro exI [of _ "[]"]) (auto simp: staged_def)
next
  case (Cons x xs)
  let ?cl = "new_claim c j n x" and ?ce = "new_claim_evidence c j (n + 1) g (new_claim c j n x) x"
  obtain k1 cls' where k1: "knowledge_flush (k\<lparr>kb_claims := add ?cl (kb_claims k)\<rparr>) = Inr k1"
    and rest: "stage_claims c j g (n + 2) xs (k1\<lparr>kb_claim_evidence := add ?ce (kb_claim_evidence k1)\<rparr>) = Inr (m, cls', k')"
    and cls: "cls = ?cl # cls'"
    using Cons.prems(2) by (auto simp: Let_def bindE_eq_Inr)
  from Cons.IH [OF _ rest] Cons.prems(1) obtain ces where
    ces: "staged (k1\<lparr>kb_claim_evidence := add ?ce (kb_claim_evidence k1)\<rparr>) [] cls' ces k'" "grounded [g] cls' ces"
    "length cls' = length xs" by auto
  have "staged k [] cls (?ce # ces) k'"
    using staged_trans [OF staged_trans [OF staged_trans [OF staged_adds(2) staged_flush [OF k1]] staged_adds(3)] ces(1)]
    by (simp add: cls)
  moreover have "quotes g ?cl ?ce"
    using Cons.prems(1) by (simp add: quotes_def new_claim_def new_claim_evidence_def exact_offsets_def)
  ultimately show ?case using ces(2,3) by (intro exI [of _ "?ce # ces"]) (simp add: cls)
qed

text \<open>The segments of the parsed document, row by row.\<close>

definition stores_segment :: "evidence_asset \<Rightarrow> segment \<Rightarrow> evidence_segment \<Rightarrow> bool" where
  "stores_segment a p g \<longleftrightarrow> es_evidence_asset_id g = ev_id a \<and> es_content g = sg_content p \<and> es_ordinal g = sg_ordinal p
     \<and> es_start_offset g = sg_start p \<and> es_end_offset g = sg_end p"

lemma stage_segments_staged:
  "\<forall>(p, xs) \<in> set extracted. list_all (exact_offsets (sg_content p)) xs \<Longrightarrow>
    stage_segments c j a n extracted k = Inr (m, cls, k') \<Longrightarrow>
    \<exists>gs ces. staged k gs cls ces k' \<and> grounded gs cls ces \<and> list_all2 (stores_segment a) (map fst extracted) gs
      \<and> length cls = (\<Sum>x\<leftarrow>extracted. length (snd x))"
proof (induction extracted arbitrary: n k cls)
  case Nil
  then show ?case by (intro exI [of _ "[]"]) (auto simp: staged_def)
next
  case (Cons px rest)
  obtain p xs where px: "px = (p, xs)" by fastforce
  let ?g = "new_segment c j a n p"
  obtain k1 m1 cls1 k2 cls2 where k1: "knowledge_flush (k\<lparr>kb_segments := add ?g (kb_segments k)\<rparr>) = Inr k1"
    and s1: "stage_claims c j ?g (n + 1) xs k1 = Inr (m1, cls1, k2)"
    and s2: "stage_segments c j a m1 rest k2 = Inr (m, cls2, k')" and cls: "cls = cls1 @ cls2"
    using Cons.prems(2) by (auto simp: px Let_def bindE_eq_Inr)
  have g: "es_content ?g = sg_content p" "stores_segment a p ?g" by (simp_all add: new_segment_def stores_segment_def)
  from stage_claims_staged [OF _ s1] Cons.prems(1) px g(1) obtain ces1 where
    c1: "staged k1 [] cls1 ces1 k2" "grounded [?g] cls1 ces1" "length cls1 = length xs" by auto
  from Cons.IH [OF _ s2] Cons.prems(1) obtain gs ces2 where
    c2: "staged k2 gs cls2 ces2 k'" "grounded gs cls2 ces2" "list_all2 (stores_segment a) (map fst rest) gs"
    "length cls2 = (\<Sum>x\<leftarrow>rest. length (snd x))" by auto
  have "staged k (?g # gs) cls (ces1 @ ces2) k'"
    using staged_trans [OF staged_trans [OF staged_trans [OF staged_adds(1) staged_flush [OF k1]] c1(1)] c2(1)] by (simp add: cls)
  moreover have "grounded (?g # gs) cls (ces1 @ ces2)" using grounded_append [OF c1(2) c2(2)] by (simp add: cls)
  ultimately show ?case using c1(3) c2(3,4) g(2)
    by (intro exI [of _ "?g # gs"] exI [of _ "ces1 @ ces2"]) (simp add: px cls)
qed


section \<open>What a processed job leaves\<close>

definition only_contradictions :: "knowledge \<Rightarrow> knowledge \<Rightarrow> bool" where
  "only_contradictions k k' \<longleftrightarrow> (\<exists>t. k' = k\<lparr>kb_contradictions := t\<rparr>)"

lemma only_contradictions_refl [simp]: "only_contradictions k k"
  unfolding only_contradictions_def by (intro exI [of _ "kb_contradictions k"]) simp

lemma only_contradictions_trans: "only_contradictions k k1 \<Longrightarrow> only_contradictions k1 k2 \<Longrightarrow> only_contradictions k k2"
  by (auto simp: only_contradictions_def)

lemma add_contradiction_frame: "only_contradictions (snd s) (snd (add_contradiction c eid new s old))"
  by (auto simp: add_contradiction_def only_contradictions_def split: prod.splits intro: exI [of _ "kb_contradictions (snd s)"])

lemma foldl_frame:
  "(\<And>s x. only_contradictions (snd s) (snd (f s x))) \<Longrightarrow> only_contradictions (snd s) (snd (foldl f s xs))"
proof (induction xs arbitrary: s)
  case (Cons x xs)
  show ?case using only_contradictions_trans [OF Cons.prems Cons.IH [OF Cons.prems]] by simp
qed simp

lemma claim_contradictions_frame: "only_contradictions (snd s) (snd (claim_contradictions c eid s new))"
  by (cases s) (auto simp: claim_contradictions_def intro: foldl_frame [of _ "(a, b)" for a b, simplified] add_contradiction_frame)

lemma detect_frame: "only_contradictions k (detect_contradictions c eid n news k)"
  unfolding detect_contradictions_def using foldl_frame [OF claim_contradictions_frame, of "(n, k)"] by simp

lemma set_simps [simp]:
  "kb_jobs (set_asset aid f k) = kb_jobs k" "kb_segments (set_asset aid f k) = kb_segments k"
  "kb_claims (set_asset aid f k) = kb_claims k" "kb_claim_evidence (set_asset aid f k) = kb_claim_evidence k"
  "kb_decisions (set_asset aid f k) = kb_decisions k" "kb_entities (set_asset aid f k) = kb_entities k"
  "kb_assertion_evidence (set_asset aid f k) = kb_assertion_evidence k" "kb_runs (set_asset aid f k) = kb_runs k"
  "assertions (kb_store (set_asset aid f k)) = assertions (kb_store k)"
  "kb_jobs (set_job jid g k) = modify (\<lambda>j. jb_id j = jid) g (kb_jobs k)" "kb_segments (set_job jid g k) = kb_segments k"
  "kb_claims (set_job jid g k) = kb_claims k" "kb_claim_evidence (set_job jid g k) = kb_claim_evidence k"
  "kb_decisions (set_job jid g k) = kb_decisions k" "kb_entities (set_job jid g k) = kb_entities k"
  "kb_assertion_evidence (set_job jid g k) = kb_assertion_evidence k" "kb_runs (set_job jid g k) = kb_runs k"
  "kb_store (set_job jid g k) = kb_store k"
  by (simp_all add: set_asset_def set_job_def events_def)

lemma events_simps [simp]:
  "kb_jobs (events f k) = kb_jobs k" "kb_segments (events f k) = kb_segments k" "kb_claims (events f k) = kb_claims k"
  "kb_claim_evidence (events f k) = kb_claim_evidence k" "kb_decisions (events f k) = kb_decisions k"
  "kb_entities (events f k) = kb_entities k" "kb_assertion_evidence (events f k) = kb_assertion_evidence k"
  "kb_runs (events f k) = kb_runs k" "kb_contradictions (events f k) = kb_contradictions k" "kb_store (events f k) = f (kb_store k)"
  by (simp_all add: events_def)

lemma completion_events_assertions [simp]: "assertions (completion_events c j a n s) = assertions s"
  by (simp add: completion_events_def Let_def publish_domain_event_def split: option.split)

text \<open>The rows the extraction never writes, and the jobs after it.\<close>

definition untouched :: "knowledge \<Rightarrow> knowledge \<Rightarrow> bool" where
  "untouched k k' \<longleftrightarrow> current (kb_decisions k') = current (kb_decisions k) \<and> current (kb_entities k') = current (kb_entities k)
     \<and> current (kb_assertion_evidence k') = current (kb_assertion_evidence k)
     \<and> current (assertions (kb_store k')) = current (assertions (kb_store k))"

definition completes :: "uuid \<Rightarrow> time \<Rightarrow> job table \<Rightarrow> job table \<Rightarrow> bool" where
  "completes jid now t t' \<longleftrightarrow> current t' = map (\<lambda>j. if jb_id j = jid then completed_job now j else j) (current t)"

definition adds_evidence :: "evidence_asset \<Rightarrow> segment list \<Rightarrow> knowledge \<Rightarrow> knowledge \<Rightarrow> bool" where
  "adds_evidence a sgs k k' \<longleftrightarrow> (\<exists>gs cls ces. current (kb_segments k') = current (kb_segments k) @ gs
     \<and> current (kb_claims k') = current (kb_claims k) @ cls
     \<and> current (kb_claim_evidence k') = current (kb_claim_evidence k) @ ces
     \<and> (gs = [] \<and> cls = [] \<or> list_all2 (stores_segment a) sgs gs) \<and> grounded gs cls ces)"

lemma stage_output_effect:
  assumes "stage_output c j a q n t extracted k = Inr k'"
    and "\<forall>(p, xs) \<in> set extracted. list_all (exact_offsets (sg_content p)) xs"
  shows "untouched k k' \<and> completes (jb_id j) (jc_clock c (n + 1)) (kb_jobs k) (kb_jobs k')
    \<and> adds_evidence a (map fst extracted) k k'"
proof -
  let ?k1 = "set_job (jb_id j) (\<lambda>x. x\<lparr>jb_progress := 15\<rparr>)
      (set_asset (ev_id a) (\<lambda>x. x\<lparr>ev_status := EProcessing, ev_error_message := None\<rparr>) k)"
  let ?k2 = "?k1\<lparr>kb_runs := add (new_run c j a t) (kb_runs ?k1)\<rparr>"
  obtain k3 m cls k4 k5 where f3: "knowledge_flush ?k2 = Inr k3" and s4: "stage_segments c j a 1 extracted k3 = Inr (m, cls, k4)"
    and f5: "knowledge_flush k4 = Inr k5"
    and k': "k' = (let k6 = detect_contradictions c (jb_engagement_id j) m cls k5;
             k7 = k6\<lparr>kb_runs := modify (\<lambda>r. rn_id r = jc_fresh c 0) (completed_run (jc_clock c n)) (kb_runs k6)\<rparr>;
             k8 = set_asset (ev_id a) (\<lambda>x. x\<lparr>ev_status := if cls \<noteq> [] then ENeedsReview else EComplete\<rparr>) k7
         in events (completion_events c j a (length cls)) (set_job (jb_id j) (completed_job (jc_clock c (n + 1))) k8))"
    using assms(1) by (auto simp: stage_output_def Let_def bindE_eq_Inr)
  obtain gs ces where st: "staged k3 gs cls ces k4" "grounded gs cls ces" "list_all2 (stores_segment a) (map fst extracted) gs"
    using stage_segments_staged [OF assms(2) s4] by auto
  have s5: "staged k3 gs cls ces k5" using staged_trans [OF st(1) staged_flush [OF f5]] by simp
  obtain ct where d: "detect_contradictions c (jb_engagement_id j) m cls k5 = k5\<lparr>kb_contradictions := ct\<rparr>"
    using detect_frame only_contradictions_def by metis
  have job: "current (kb_jobs k3) = map (\<lambda>x. if jb_id x = jb_id j then x\<lparr>jb_progress := 15\<rparr> else x) (current (kb_jobs k))"
    using f3 by (auto simp: knowledge_flush_Inr current_flush current_modify)
  have rows: "current (kb_segments k3) = current (kb_segments k)" "current (kb_claims k3) = current (kb_claims k)"
    "current (kb_claim_evidence k3) = current (kb_claim_evidence k)" "untouched k k3"
    using f3 by (auto simp: knowledge_flush_Inr current_flush untouched_def)
  have "kb_jobs k' = modify (\<lambda>x. jb_id x = jb_id j) (completed_job (jc_clock c (n + 1))) (kb_jobs k5)"
    by (simp add: k' Let_def d)
  then have "completes (jb_id j) (jc_clock c (n + 1)) (kb_jobs k) (kb_jobs k')"
    using s5 job by (simp add: completes_def current_modify staged_def comp_def completed_job_def)
  moreover have "untouched k k'"
    using rows(4) s5 by (simp add: untouched_def k' Let_def d staged_def)
  moreover have "adds_evidence a (map fst extracted) k k'"
    unfolding adds_evidence_def using rows(1-3) s5 st(2,3) by (simp add: k' Let_def d staged_def)
  ultimately show ?thesis by blast
qed

lemma extract_segments_exact:
  "extract_segments c a content q k n t sgs = Inr (t', extracted) \<Longrightarrow>
    map fst extracted = sgs \<and> (\<forall>(p, xs) \<in> set extracted. list_all (exact_offsets (sg_content p)) xs)"
proof (induction sgs arbitrary: n t extracted)
  case (Cons g gs)
  obtain t1 xs rest where g: "extract_segment c a content q k n t g = Inr (t1, xs)"
    and gs: "extract_segments c a content q k (n + 2) t1 gs = Inr (t', rest)" and e: "extracted = (g, xs) # rest"
    using Cons.prems by (auto simp: bindE_eq_Inr)
  have "list_all (exact_offsets (sg_content g)) xs"
    using g by (auto simp: bindE_eq_Inr extract_segment_def Let_def require_eq_Inr)
  then show ?case using Cons.IH [OF gs] by (simp add: e)
qed simp

lemma lock_active_lease_Inr:
  "lock_active_lease jid token now k = Inr (j, k1) \<Longrightarrow> knowledge_flush k = Inr k1 \<and> j \<in> set (current (kb_jobs k))
    \<and> jb_id j = jid \<and> lease_active token now j"
  by (auto simp: lock_active_lease_def bindE_eq_Inr require_eq_Inr knowledge_flush_Inr select_flush current_flush
      split: option.splits dest!: first_in)

lemma job_asset_Inr:
  "clean (evidence_assets (kb_store k)) \<Longrightarrow> job_asset j k = Inr a \<Longrightarrow> a \<in> set (current (evidence_assets (kb_store k))) \<and> ev_engagement_id a = jb_engagement_id j
    \<and> parse_uuid (jb_evidence_asset_id j) = Some (ev_id a)"
  by (auto simp: job_asset_def bindE_eq_Inr require_eq_Inr the_or_eq_Inr session_get_def select_clean
      dest!: first_in)

lemma process_job_effect:
  assumes "process_job c jid token k = Inr k'"
  obtains j a content sgs now where "j \<in> set (current (kb_jobs k))" and "jb_id j = jid"
    and "lease_active token (jc_clock c 0) j" and "a \<in> set (current (evidence_assets (kb_store k)))"
    and "parse_uuid (jb_evidence_asset_id j) = Some (ev_id a)" and "ev_engagement_id a = jb_engagement_id j"
    and "jc_object c (ev_storage_key a) (ev_storage_version_id a) = Some content"
    and "sha256_hex content = ev_content_hash a"
    and "parse_evidence (jc_readers c) content (ev_content_type a) (ev_file_name a) = Inr sgs"
    and "completes jid now (kb_jobs k) (kb_jobs k')" and "untouched k k'" and "adds_evidence a sgs k k'"
    and "primary_keys k"
proof -
  obtain j k1 where l: "lock_active_lease jid token (jc_clock c 0) k = Inr (j, k1)" and p: "process_leased_job c j k1 = Inr k'"
    using assms by (auto simp: process_job_def bindE_eq_Inr)
  note l1 = lock_active_lease_Inr [OF l]
  have k1: "staged k [] [] [] k1" using l1 staged_flush by blast
  have cl: "clean (evidence_assets (kb_store k1))" using l1 by (auto simp: knowledge_flush_Inr clean_flush)
  obtain a q content sgs where a: "job_asset j k1 = Inr a" and b: "evidence_bytes c a q = Inr content"
    and sg: "lift_parse (parse_evidence (jc_readers c) content (ev_content_type a) (ev_file_name a)) = Inr sgs"
    and r: "(if select (\<lambda>g. es_evidence_asset_id g = ev_id a) (kb_segments k1) \<noteq> []
     then bindE (recheck_authority c a q (jc_locked c 0) 3 k1) (\<lambda>_. Inr (complete_existing_job j a (jc_clock c 4) k1))
     else bindE (extract_segments c a content q k1 3 \<lparr>rt_input = 0, rt_output = 0, rt_latency = 0\<rparr> sgs) (\<lambda>(t, extracted).
       let n = 3 + 2 * length sgs in
       bindE (recheck_authority c a q (jc_locked c 0) n k1) (\<lambda>_. stage_output c j a q (n + 1) t extracted k1))) = Inr k'"
    using p unfolding process_leased_job_def bindE_eq_Inr by blast
  have "\<exists>now. completes jid now (kb_jobs k1) (kb_jobs k') \<and> untouched k1 k' \<and> adds_evidence a sgs k1 k'"
  proof (cases "select (\<lambda>g. es_evidence_asset_id g = ev_id a) (kb_segments k1) \<noteq> []")
    case True
    then have "k' = complete_existing_job j a (jc_clock c 4) k1" using r by (auto simp: bindE_eq_Inr)
    then show ?thesis using l1
      by (intro exI [of _ "jc_clock c 4"]) (auto simp: complete_existing_job_def completes_def untouched_def
          adds_evidence_def current_modify intro: exI [of _ "[]"])
  next
    case False
    then obtain t extracted where e: "extract_segments c a content q k1 3 \<lparr>rt_input = 0, rt_output = 0, rt_latency = 0\<rparr> sgs = Inr (t, extracted)"
      and s: "stage_output c j a q (3 + 2 * length sgs + 1) t extracted k1 = Inr k'"
      using r by (auto simp: bindE_eq_Inr Let_def)
    note x = extract_segments_exact [OF e]
    show ?thesis using stage_output_effect [OF s] x l1 by blast
  qed
  then obtain now where e: "completes jid now (kb_jobs k1) (kb_jobs k')" "untouched k1 k'" "adds_evidence a sgs k1 k'" by blast
  have "primary_keys k" using l1 by (simp add: knowledge_flush_Inr knowledge_accepted_def knowledge_checks_def)
  moreover have "completes jid now (kb_jobs k) (kb_jobs k')" "untouched k k'" "adds_evidence a sgs k k'"
    using e k1 by (simp_all add: completes_def untouched_def adds_evidence_def staged_def)
  ultimately show thesis
    using that [of j a content sgs now] l1 job_asset_Inr [OF cl a] b sg k1
    by (auto simp: evidence_bytes_def bindE_eq_Inr require_eq_Inr the_or_eq_Inr lift_parse_def staged_def split: sum.splits)
qed


lemma stage_claims_frame: "stage_claims c j g n xs k = Inr (m, cls, k') \<Longrightarrow> \<exists>ces. staged k [] cls ces k'"
proof (induction xs arbitrary: n k cls)
  case Nil
  then show ?case by (intro exI [of _ "[]"]) (auto simp: staged_def)
next
  case (Cons x xs)
  let ?cl = "new_claim c j n x" and ?ce = "new_claim_evidence c j (n + 1) g (new_claim c j n x) x"
  obtain k1 cls' where k1: "knowledge_flush (k\<lparr>kb_claims := add ?cl (kb_claims k)\<rparr>) = Inr k1"
    and rest: "stage_claims c j g (n + 2) xs (k1\<lparr>kb_claim_evidence := add ?ce (kb_claim_evidence k1)\<rparr>) = Inr (m, cls', k')"
    and cls: "cls = ?cl # cls'"
    using Cons.prems by (auto simp: Let_def bindE_eq_Inr)
  from Cons.IH [OF rest] obtain ces where
    ces: "staged (k1\<lparr>kb_claim_evidence := add ?ce (kb_claim_evidence k1)\<rparr>) [] cls' ces k'" by auto
  show ?case
    using staged_trans [OF staged_trans [OF staged_trans [OF staged_adds(2) staged_flush [OF k1]] staged_adds(3)] ces]
    by (intro exI [of _ "?ce # ces"]) (simp add: cls)
qed

lemma stage_segments_frame: "stage_segments c j a n ex k = Inr (m, cls, k') \<Longrightarrow> \<exists>gs ces. staged k gs cls ces k'"
proof (induction ex arbitrary: n k cls)
  case Nil
  then show ?case by (intro exI [of _ "[]"]) (auto simp: staged_def)
next
  case (Cons px rest)
  obtain p xs where px: "px = (p, xs)" by fastforce
  let ?g = "new_segment c j a n p"
  obtain k1 m1 cls1 k2 cls2 where k1: "knowledge_flush (k\<lparr>kb_segments := add ?g (kb_segments k)\<rparr>) = Inr k1"
    and s1: "stage_claims c j ?g (n + 1) xs k1 = Inr (m1, cls1, k2)"
    and s2: "stage_segments c j a m1 rest k2 = Inr (m, cls2, k')" and cls: "cls = cls1 @ cls2"
    using Cons.prems by (auto simp: px Let_def bindE_eq_Inr)
  obtain ces1 gs ces2 where c: "staged k1 [] cls1 ces1 k2" "staged k2 gs cls2 ces2 k'"
    using stage_claims_frame [OF s1] Cons.IH [OF s2] by blast
  show ?case
    using staged_trans [OF staged_trans [OF staged_trans [OF staged_adds(1) staged_flush [OF k1]] c(1)] c(2)]
    by (intro exI [of _ "?g # gs"] exI [of _ "ces1 @ ces2"]) (simp add: cls)
qed

lemma process_job_cases:
  assumes "process_job c jid token k = Inr k'"
  obtains j k1 a q n t ex where "knowledge_flush k = Inr k1"
    and "stage_output c j a q n t ex k1 = Inr k' \<or> k' = complete_existing_job j a (jc_clock c 4) k1"
proof -
  obtain j k1 where l: "lock_active_lease jid token (jc_clock c 0) k = Inr (j, k1)" and p: "process_leased_job c j k1 = Inr k'"
    using assms by (auto simp: process_job_def bindE_eq_Inr)
  obtain a q content sgs where "(if select (\<lambda>g. es_evidence_asset_id g = ev_id a) (kb_segments k1) \<noteq> []
     then bindE (recheck_authority c a q (jc_locked c 0) 3 k1) (\<lambda>_. Inr (complete_existing_job j a (jc_clock c 4) k1))
     else bindE (extract_segments c a content q k1 3 \<lparr>rt_input = 0, rt_output = 0, rt_latency = 0\<rparr> sgs) (\<lambda>(t, extracted).
       let n = 3 + 2 * length sgs in
       bindE (recheck_authority c a q (jc_locked c 0) n k1) (\<lambda>_. stage_output c j a q (n + 1) t extracted k1))) = Inr k'"
    using p unfolding process_leased_job_def bindE_eq_Inr by blast
  then have "(\<exists>n t ex. stage_output c j a q n t ex k1 = Inr k') \<or> k' = complete_existing_job j a (jc_clock c 4) k1"
    by (auto simp: bindE_eq_Inr Let_def split: if_splits)
  then show thesis using that [of k1 j a] lock_active_lease_Inr [OF l] by blast
qed

section \<open>Histories\<close>

text \<open>
  The committed transactions on the evidence of an engagement: an upload, the worker's lease, its
  processing and its failing of a job, a review and the resolution of a contradiction, each with
  whatever arguments and answers of the outside.
\<close>

inductive evidence_step :: "knowledge \<Rightarrow> knowledge \<Rightarrow> bool" where
  Upload: "upload_transaction uc u w st k = (Inr a, st', k') \<Longrightarrow> evidence_step k k'"
| Lease: "lease_next_job eid seconds now token skipped k = (l, k0) \<Longrightarrow> commit_knowledge k0 = Inr k' \<Longrightarrow> evidence_step k k'"
| Process: "process_job c jid token k = Inr k0 \<Longrightarrow> commit_knowledge k0 = Inr k' \<Longrightarrow> evidence_step k k'"
| Fail: "fail_job jid m token r code p clock nid k = Inr (b, k0) \<Longrightarrow> commit_knowledge k0 = Inr k' \<Longrightarrow> evidence_step k k'"
| Review: "review_claim eid cid opr d reason fresh now k = Inr (a, k0) \<Longrightarrow> commit_knowledge k0 = Inr k' \<Longrightarrow> evidence_step k k'"
| Resolve: "resolve_contradiction eid cid opr type reason now k = Inr k0 \<Longrightarrow> commit_knowledge k0 = Inr k' \<Longrightarrow> evidence_step k k'"

definition empty_knowledge :: "store \<Rightarrow> knowledge" where
  "empty_knowledge s = \<lparr>kb_store = s, kb_runs = [], kb_segments = [], kb_claims = [], kb_claim_evidence = [],
     kb_decisions = [], kb_entities = [], kb_assertion_evidence = [], kb_contradictions = [], kb_jobs = []\<rparr>"

text \<open>How the jobs of a step's result come from those before it.\<close>

definition jobs_step :: "job table \<Rightarrow> job table \<Rightarrow> bool" where
  "jobs_step t t' \<longleftrightarrow> (\<forall>j \<in> set (current t'). job_ok j) \<and> jobs_move t t'"

lemma commit_jobs:
  "commit_knowledge k0 = Inr k' \<Longrightarrow> kb_jobs k' = flush (kb_jobs k0) \<and> distinct (map jb_id (current (kb_jobs k0)))"
  by (auto simp: commit_knowledge_def knowledge_flush_Inr knowledge_accepted_def knowledge_checks_def primary_keys_def unique_rows_def)

lemma jobs_move_flush [simp]: "jobs_move t (flush t') = jobs_move t t'" "current (flush t') = current t'"
  by (simp_all add: jobs_move_def current_flush)

lemma job_table_step:
  assumes "job_table_ok (kb_jobs k)" and "commit_knowledge k0 = Inr k'" and "jobs_step (kb_jobs k) (kb_jobs k0)"
  shows "job_table_ok (kb_jobs k') \<and> jobs_move (kb_jobs k) (kb_jobs k')"
  using assms(3) commit_jobs [OF assms(2)] by (auto simp: job_table_ok_def jobs_step_def clean_flush list_all_iff)

lemma leased_ok:
  assumes "job_ok j" and "leasable eid now j"
  shows "job_ok (leased token now seconds j) \<and> job_moves j (leased token now seconds j)"
proof -
  have "jb_status j = JQueued \<or> jb_status j = JRunning" using assms(2) by (auto simp: leasable_def)
  moreover have "jb_attempts j < jb_max_attempts j" using assms(2) by (simp add: leasable_def)
  ultimately show ?thesis using assms(1) by (elim disjE) (simp_all add: job_ok_def leased_def job_moves_def)
qed

lemma completed_ok:
  "job_ok j \<Longrightarrow> jb_status j = JRunning \<Longrightarrow> job_ok (completed_job now j) \<and> job_moves j (completed_job now j)"
  by (simp add: job_ok_def completed_job_def job_moves_def)

lemma failed_ok:
  "job_ok j \<Longrightarrow> jb_status j = JRunning \<Longrightarrow> job_ok (failed_job m r now j) \<and> job_moves j (failed_job m r now j)"
  by (simp add: job_ok_def failed_job_def job_moves_def Let_def)

lemma ingest_ok: "job_ok (ingest_job u aid cor nid now)"
  by (simp add: job_ok_def ingest_job_def)

lemma jobs_step_modify:
  assumes ok: "job_table_ok t" and j: "j \<in> set (current t)" and f: "job_ok (f j)" "job_moves j (f j)"
  shows "jobs_step t (modify (\<lambda>x. jb_id x = jb_id j) f t)"
proof -
  have e: "x = j" if "x \<in> set (current t)" "jb_id x = jb_id j" for x
    using ok that j unique_key [of jb_id t x j] by (auto simp: job_table_ok_def)
  have "\<forall>x \<in> set (current (modify (\<lambda>x. jb_id x = jb_id j) f t)). job_ok x"
    using ok e f(1) by (auto simp: set_current_modify job_table_ok_def list_all_iff)
  moreover have "jobs_move t (modify (\<lambda>x. jb_id x = jb_id j) f t)" by (rule jobs_move_modify) (use e f(2) in auto)
  ultimately show ?thesis by (simp add: jobs_step_def)
qed

lemma jobs_move_append: "current t' = current t @ ns \<Longrightarrow> jobs_move t t'"
  unfolding jobs_move_def by (intro exI [of _ "current t"] exI [of _ ns]) (simp add: list_all2_same)

lemma jobs_step_same: "job_table_ok t \<Longrightarrow> current t' = current t \<Longrightarrow> jobs_step t t'"
  using jobs_move_append [of t' t "[]"] by (auto simp: jobs_step_def job_table_ok_def list_all_iff)

lemma jobs_step_add: "job_table_ok t \<Longrightarrow> job_ok j \<Longrightarrow> jobs_step t (add j t)"
  using jobs_move_append [of "add j t" t "[j]"] by (auto simp: jobs_step_def job_table_ok_def list_all_iff current_add)

lemma lease_jobs:
  assumes "job_table_ok (kb_jobs k)" and "lease_next_job eid seconds now token skipped k = (l, k0)"
  shows "jobs_step (kb_jobs k) (kb_jobs k0)"
proof (cases "first (sort_key jb_created_at (select (\<lambda>j. leasable eid now j \<and> jb_id j \<notin> skipped) (kb_jobs k)))")
  case None
  then show ?thesis using assms by (simp add: lease_next_job_def jobs_step_same)
next
  case (Some j)
  have j: "j \<in> set (current (kb_jobs k))" "leasable eid now j"
    using first_in [OF Some] assms(1) by (auto simp: job_table_ok_def select_clean)
  then have "job_ok j" using assms(1) by (simp add: job_table_ok_def list_all_iff)
  from jobs_step_modify [OF assms(1) j(1)] leased_ok [OF this j(2)] show ?thesis
    using assms(2) Some by (auto simp: lease_next_job_def)
qed

lemma running_ok: "job_table_ok t \<Longrightarrow> j \<in> set (current t) \<Longrightarrow> job_ok j"
  by (simp add: job_table_ok_def list_all_iff)

lemma process_jobs:
  assumes "job_table_ok (kb_jobs k)" and "process_job c jid token k = Inr k0"
  shows "jobs_step (kb_jobs k) (kb_jobs k0)"
proof -
  obtain j now where j: "j \<in> set (current (kb_jobs k))" "jb_id j = jid" "lease_active token (jc_clock c 0) j"
    and e: "completes jid now (kb_jobs k) (kb_jobs k0)" by (rule process_job_effect [OF assms(2)])
  have "jobs_step (kb_jobs k) (modify (\<lambda>x. jb_id x = jb_id j) (completed_job now) (kb_jobs k))"
    by (rule jobs_step_modify [OF assms(1) j(1)])
      (use completed_ok [OF running_ok [OF assms(1) j(1)]] j(3) in \<open>auto simp: lease_active_def\<close>)
  then show ?thesis using e j(2) by (simp add: jobs_step_def jobs_move_def completes_def current_modify)
qed

lemma fail_jobs:
  assumes "job_table_ok (kb_jobs k)" and "fail_job jid m token r code p clock nid k = Inr (b, k0)"
  shows "jobs_step (kb_jobs k) (kb_jobs k0)"
proof (cases "first (select (\<lambda>j. jb_id j = jid \<and> jb_status j = JRunning \<and> jb_lease_token j = Some token) (kb_jobs k))")
  case None
  then show ?thesis using assms by (simp add: fail_job_def jobs_step_same)
next
  case (Some j)
  have j: "j \<in> set (current (kb_jobs k))" "jb_id j = jid" "jb_status j = JRunning"
    using first_in [OF Some] assms(1) by (auto simp: job_table_ok_def select_clean)
  have "kb_jobs k0 = modify (\<lambda>x. jb_id x = jb_id j) (failed_job m r (clock 0)) (kb_jobs k)"
    using assms(2) Some j(2) by (cases p) (auto simp: fail_job_def Let_def bindE_eq_Inr the_or_eq_Inr split: if_splits option.splits)
  then show ?thesis
    using jobs_step_modify [OF assms(1) j(1)] failed_ok [OF running_ok [OF assms(1) j(1)] j(3)] by simp
qed

lemma get_or_create_jobs:
  "get_or_create_entity eid sp actor nid k = Inr (e, k') \<Longrightarrow> current (kb_jobs k') = current (kb_jobs k)"
  by (auto simp: get_or_create_entity_def Let_def bindE_eq_Inr knowledge_flush_Inr current_flush split: option.splits)

lemma create_assertion_jobs:
  "create_verified_assertion c actor fresh now k = Inr (a, k') \<Longrightarrow> current (kb_jobs k') = current (kb_jobs k)"
  by (auto simp: create_verified_assertion_def Let_def bindE_eq_Inr knowledge_flush_Inr current_flush
      split: option.splits dest!: get_or_create_jobs)

lemma on_store_jobs: "on_store f k = Inr k' \<Longrightarrow> kb_jobs k' = kb_jobs k"
  by (auto simp: on_store_def split: sum.splits)

lemma review_jobs:
  assumes "review_claim eid cid opr d reason fresh now k = Inr (a, k')"
  shows "current (kb_jobs k') = current (kb_jobs k)"
proof -
  have r: "kb_jobs (record_decision e c x rs ac n k) = kb_jobs k" for e c x rs ac n
    by (simp add: record_decision_def)
  have c: "kb_jobs (snd (complete_evidence_review_if_decided c k)) = kb_jobs k" for c k
    by (simp add: complete_evidence_review_if_decided_def split: option.splits)
  have ac: "current (kb_jobs k2) = current (kb_jobs k1)" if "accept_claim e cl ac fr n k1 = Inr (x, k2)" for e cl ac fr n k1 x k2
    using that by (auto simp: accept_claim_def bindE_eq_Inr dest!: on_store_jobs create_assertion_jobs)
  obtain cl st where ch: "check_review eid cid d k = Inr (cl, st)"
    using assms by (cases "check_review eid cid d k") (auto simp: review_claim_def)
  have eq: "bindE (if st = CAccepted then accept_claim eid cl (op_id opr) fresh now
        (record_decision eid cl st reason (op_id opr) (fresh 0) k)
      else Inr (None, record_decision eid cl st reason (op_id opr) (fresh 0) k)) (\<lambda>(a, k2).
     bindE (knowledge_flush k2) (\<lambda>k3. case complete_evidence_review_if_decided cl k3 of (asset, k4) \<Rightarrow>
       Inr (a, events (review_events eid cl st reason (op_id opr) a asset) k4))) = Inr (a, k')"
    using assms ch by (simp add: review_claim_def Let_def)
  obtain k2 k3 where k2: "(if st = CAccepted then accept_claim eid cl (op_id opr) fresh now
        (record_decision eid cl st reason (op_id opr) (fresh 0) k)
      else Inr (None, record_decision eid cl st reason (op_id opr) (fresh 0) k)) = Inr (a, k2)"
    and k3: "knowledge_flush k2 = Inr k3" and k': "kb_jobs k' = kb_jobs (snd (complete_evidence_review_if_decided cl k3))"
    using eq by (auto simp: bindE_eq_Inr case_prod_beta)
  have "current (kb_jobs k2) = current (kb_jobs k)" using k2 ac r by (auto split: if_splits)
  then show ?thesis using k3 k' c by (auto simp: knowledge_flush_Inr current_flush)
qed

lemma resolve_jobs:
  "resolve_contradiction eid cid opr type reason now k = Inr k' \<Longrightarrow> current (kb_jobs k') = current (kb_jobs k)"
  by (auto simp: resolve_contradiction_def bindE_eq_Inr Let_def knowledge_flush_Inr current_flush dest!: on_store_jobs)

lemma upload_jobs:
  assumes "job_table_ok (kb_jobs k)" and "upload_transaction uc u w st k = (Inr a, st', k')"
  obtains k0 where "commit_knowledge k0 = Inr k'" and "jobs_step (kb_jobs k) (kb_jobs k0)"
proof -
  obtain k0 p where r: "create_evidence_asset uc u w st k = (Inr (a, k0), st', p)" and c: "commit_knowledge k0 = Inr k'"
    using assms(2) by (auto simp: upload_transaction_def bindE_eq_Inr split: prod.splits sum.splits)
  have "jobs_step (kb_jobs k) (kb_jobs k0)"
  proof (cases "kb_jobs k0 = kb_jobs k")
    case False
    then obtain n k1 v where k1: "knowledge_flush (events v k) = Inr k1" and "kb_jobs k0 = add (ingest_job u n (is_correlation w) (is_job_id w) (is_now w)) (kb_jobs k1)"
      using r by (auto simp: create_evidence_asset_def insert_asset_def Let_def bindE_eq_Inr split: sum.splits option.splits prod.splits)
    moreover have "kb_jobs k1 = kb_jobs k" using k1 assms(1) by (auto simp: knowledge_flush_Inr job_table_ok_def flush_clean)
    ultimately show ?thesis using jobs_step_add [OF assms(1) ingest_ok] by simp
  qed (simp add: jobs_step_same assms(1))
  then show thesis using c that by blast
qed

lemma evidence_step_jobs:
  assumes "evidence_step k k'" and "job_table_ok (kb_jobs k)"
  shows "job_table_ok (kb_jobs k') \<and> jobs_move (kb_jobs k) (kb_jobs k')"
  using assms
proof (induction rule: evidence_step.induct)
  case (Upload uc u w st k a st' k')
  from Upload(2,1) show ?case by (rule upload_jobs) (rule job_table_step [OF Upload(2)])
next
  case (Lease eid seconds now token skipped k l k0 k')
  then show ?case using lease_jobs job_table_step by blast
next
  case (Process c jid token k k0 k')
  then show ?case using process_jobs job_table_step by blast
next
  case (Fail jid m token r code p clock nid k b k0 k')
  then show ?case using fail_jobs job_table_step by blast
next
  case (Review eid cid opr d reason fresh now k a k0 k')
  from job_table_step [OF Review(3,2) jobs_step_same [OF Review(3) review_jobs [OF Review(1)]]] show ?case .
next
  case (Resolve eid cid opr type reason now k k0 k')
  from job_table_step [OF Resolve(3,2) jobs_step_same [OF Resolve(3) resolve_jobs [OF Resolve(1)]]] show ?case .
qed


section \<open>Whole histories\<close>

lemma evidence_steps_jobs:
  assumes "evidence_step\<^sup>*\<^sup>* k k'" and "job_table_ok (kb_jobs k)"
  shows "job_table_ok (kb_jobs k') \<and> jobs_move (kb_jobs k) (kb_jobs k')"
  using assms
proof (induction rule: rtranclp_induct)
  case (step k1 k2)
  then show ?case using evidence_step_jobs jobs_move_trans by blast
qed simp

lemma jobs_move_find:
  assumes "jobs_move t t'" and "j \<in> set (current t)"
  shows "\<exists>j' \<in> set (current t'). job_moves j j'"
  using assms by (force simp: jobs_move_def list_all2_conv_all_nth in_set_conv_nth)

end
