(* ===== verification/EvidenceProps.thy ===== *)
theory EvidenceProps
  imports JobProps HandoffSample
begin

text \<open>
  What the evidence pipeline promises, from the upload of a document to the review of the claims found
  in it, and where it does not keep its promise.  The witnesses run the pipeline on a small document.
\<close>

section \<open>A document\<close>

definition sample_bytes :: "nat list" where
  "sample_bytes = lit ''Role: A.''"

text \<open>Two rules for one subject in one document.\<close>

definition conflict_bytes :: "nat list" where
  "conflict_bytes = lit ''Invoices a require B approval.Invoices c require D approval.''"

definition sample_asset :: "nat list \<Rightarrow> evidence_asset" where
  "sample_asset bytes = \<lparr>ev_id = 2, ev_engagement_id = 1, ev_content_hash = sha256_hex bytes, ev_status = EQueued, ev_created_at = 0,
     ev_qualification_id = None, ev_authorized_source_key = None, ev_authorized_workflow_class = None,
     ev_data_classification = None, ev_file_name = lit ''a.txt'', ev_content_type = lit ''text/plain'',
     ev_byte_count = int (length bytes),
     ev_storage_key = lit ''k'', ev_storage_version_id = Some (lit ''v''), ev_source_type = lit ''upload'',
     ev_source_timestamp = None, ev_error_message = None, ev_created_by_id = 9\<rparr>"

definition sample_job :: job where
  "sample_job = \<lparr>jb_id = 5, jb_engagement_id = 1, jb_kind = lit ''ingest_evidence'',
     jb_status = JRunning, jb_evidence_asset_id = uuid_str 2, jb_correlation_id = None,
     jb_progress = 0, jb_attempts = 1, jb_max_attempts = 3, jb_idempotency_key = lit ''i'',
     jb_available_at = 0, jb_created_at = 0, jb_lease_token = Some 77,
     jb_leased_until = Some 100, jb_error_message = None, jb_completed_at = None\<rparr>"

definition sample_evidence_store :: "nat list \<Rightarrow> store" where
  "sample_evidence_store bytes =
     empty_store\<lparr>engagements := from_rows [sample_engagement], evidence_assets := from_rows [sample_asset bytes]\<rparr>"

definition sample_knowledge :: "nat list \<Rightarrow> knowledge" where
  "sample_knowledge bytes = (empty_knowledge (sample_evidence_store bytes))\<lparr>kb_jobs := from_rows [sample_job]\<rparr>"

definition no_readers :: readers where
  "no_readers = \<lparr>rd_email = (\<lambda>_. Inl False), rd_html = (\<lambda>_. []), rd_pdf = (\<lambda>_. Inl False), rd_archive = (\<lambda>_. Inl False),
     rd_docx = (\<lambda>_. Inl False), rd_image = (\<lambda>_ _. Inl False)\<rparr>"

definition sample_context :: "nat list \<Rightarrow> job_context" where
  "sample_context bytes = \<lparr>jc_object = (\<lambda>_ _. Some bytes), jc_readers = no_readers, jc_provider = fixture_extractor,
     jc_budget = default_budget, jc_allowed = [], jc_authority = None, jc_locked = (\<lambda>_. True), jc_clock = (\<lambda>n. int n),
     jc_fresh = (\<lambda>n. word_of_nat (1000 + n)), jc_created = (\<lambda>n. int n), jc_actor = None\<rparr>"

text \<open>The run up to the staging of its output, for a text document of one paragraph.\<close>

lemma nothing_to_hand_off:
  "customer_models s = [] \<Longrightarrow> readiness_rows s = [] \<Longrightarrow> opportunities s = [] \<Longrightarrow> packages s = []
    \<Longrightarrow> factory_accepted s"
  using initial_well_formed [of s] by (simp add: initial_def well_formed_def settled_def)

lemma flush_ok: "knowledge_accepted k \<Longrightarrow> factory_accepted (kb_store k) \<Longrightarrow>
    knowledge_flush k = Inr (flush_knowledge_tables (k\<lparr>kb_store := synced (kb_store k)\<rparr>))"
  by (simp add: knowledge_flush_Inr)

lemma flush_Nil: "flush [] = []"
  by (simp add: flush_def)

lemmas run_simps = flush_ok knowledge_accepted_def knowledge_checks_def primary_keys_def unique_rows_def sample_knowledge_def
  empty_knowledge_def sample_evidence_store_def current_from_rows current_def [of "[]"] lookup_simps nothing_to_hand_off
  empty_store_def flush_knowledge_tables_def synced_def flush_Nil

lemma sample_start:
  "lock_active_lease 5 77 0 (sample_knowledge b) = Inr (sample_job, sample_knowledge b)"
  by (simp add: lock_active_lease_def run_simps flush_clean clean_from_rows sample_job_def lease_active_def)

lemma sample_asset_found: "job_asset sample_job (sample_knowledge b) = Inr (sample_asset b)"
  by (simp add: job_asset_def sample_job_def session_get_def sample_knowledge_def empty_knowledge_def sample_evidence_store_def
     lookup_simps sample_asset_def)

lemma sample_authority: "customer_data_authority (sample_context b) (sample_asset b) True n (sample_knowledge b) = Inr False"
  by (simp add: customer_data_authority_def require_qualified_evidence_processing_def stored_first_def stored_rows_def
     sample_knowledge_def empty_knowledge_def sample_evidence_store_def sample_asset_def sample_engagement_def from_rows_def opt_list_def)

lemma sample_content: "evidence_bytes (sample_context b) (sample_asset b) False = Inr b"
  by (simp add: evidence_bytes_def sample_context_def sample_asset_def)

lemma sample_budget: "enforce_extraction_budget (sample_context b) c [g] = Inr ()"
  by (simp add: enforce_extraction_budget_def sample_context_def default_budget_def fixture_extractor_def Let_def)

definition no_tokens :: run_totals where
  "no_tokens = \<lparr>rt_input = 0, rt_output = 0, rt_latency = 0\<rparr>"

lemma sample_extracted:
  assumes "extract_claims b = xs" and "list_all (exact_offsets b) xs"
  shows "extract_segments (sample_context b) a c False k n no_tokens [text_segment 0 0 b] = Inr (no_tokens, [(text_segment 0 0 b, xs)])"
  using assms by (simp add: extract_segment_def recheck_authority_def sample_context_def fixture_extractor_def text_segment_def
     Let_def add_totals_def default_budget_def no_tokens_def)

lemma sample_process:
  assumes "parse_evidence no_readers b (lit ''text/plain'') (lit ''a.txt'') = Inr [text_segment 0 0 b]"
    and "extract_claims b = xs" and "list_all (exact_offsets b) xs"
  shows "process_job (sample_context b) 5 77 (sample_knowledge b)
   = stage_output (sample_context b) sample_job (sample_asset b) False 6 no_tokens [(text_segment 0 0 b, xs)] (sample_knowledge b)"
proof -
  have "parse_evidence (jc_readers (sample_context b)) b (ev_content_type (sample_asset b)) (ev_file_name (sample_asset b))
    = Inr [text_segment 0 0 b]"
    using assms(1) by (simp add: sample_context_def sample_asset_def)
  moreover have "select (\<lambda>g. es_evidence_asset_id g = ev_id (sample_asset b)) (kb_segments (sample_knowledge b)) = []"
    by (simp add: sample_knowledge_def empty_knowledge_def select_def)
  moreover have "jc_clock (sample_context b) 0 = 0" by (simp add: sample_context_def)
  ultimately show ?thesis
    by (simp add: process_job_def sample_start process_leased_job_def sample_asset_found sample_authority sample_content
     recheck_authority_def lift_parse_def sample_budget sample_extracted [OF assms(2,3)] no_tokens_def [symmetric] del: extract_segments.simps)
qed

lemma detect_simps [simp]:
  "kb_claims (detect_contradictions c eid n news k) = kb_claims k"
  "kb_claim_evidence (detect_contradictions c eid n news k) = kb_claim_evidence k"
  using detect_frame [of k c eid n news] by (auto simp: only_contradictions_def)

lemmas stage_simps = stage_output_def Let_def set_job_def set_asset_def events_def text_segment_def
  current_add current_modify current_flush recheck_authority_def new_run_def new_segment_def
  new_claim_def new_claim_evidence_def sample_context_def fixture_extractor_def sample_asset_def sample_job_def
  claim_kinds_def materialities_def

definition sample_claim :: extracted_claim where
  "sample_claim = \<lparr>xc_kind = lit ''entity'', xc_subject = lit ''A'', xc_predicate = lit ''IDENTIFIED_AS'',
     xc_object = Some (lit ''role''), xc_summary = lit ''A is identified as a role.'',
     xc_payload = \<lparr>cp_subject = \<lparr>sp_type = lit ''role'', sp_name = lit ''A''\<rparr>, cp_object = None, cp_condition = None, cp_is_exception = False\<rparr>,
     xc_confidence = lit ''0.9900'', xc_materiality = lit ''low'', xc_start = 0, xc_end = 7, xc_quote = lit ''Role: A''\<rparr>"

lemma sample_extraction: "extract_claims sample_bytes = [sample_claim]" "list_all (exact_offsets sample_bytes) [sample_claim]"
  by code_simp+

lemma sample_parse: "parse_evidence no_readers sample_bytes (lit ''text/plain'') (lit ''a.txt'') = Inr [text_segment 0 0 sample_bytes]"
  by code_simp

lemma sample_staged: "\<exists>k'. stage_output (sample_context sample_bytes) sample_job (sample_asset sample_bytes) False 6
      no_tokens [(text_segment 0 0 sample_bytes, [sample_claim])] (sample_knowledge sample_bytes) = Inr k'
   \<and> map ce_quote (current (kb_claim_evidence k')) = [lit ''Role: A'']"
  by (simp add: stage_simps run_simps sample_claim_def)

section \<open>Uploads\<close>

definition read_version :: "evidence_store \<Rightarrow> pystr \<Rightarrow> pystr option \<Rightarrow> nat list option" where
  "read_version st key version = (case get_object st key version of ReadOk b \<Rightarrow> Some b | _ \<Rightarrow> None)"

lemma put_reads:
  assumes "vid \<notin> fst ` set (versions_of s key)" and "put_object vid key content s = (v, s')"
  shows "get_object s' key (Some vid) = ReadOk content"
  using assms by (auto simp: put_object_def get_object_def map_add_def map_of_eq_None_iff [THEN iffD2])

lemma settled_assets: "knowledge_flush k = Inr k \<Longrightarrow> clean (evidence_assets (kb_store k))"
proof -
  assume "knowledge_flush k = Inr k"
  then have "k = flush_knowledge_tables (k\<lparr>kb_store := synced (kb_store k)\<rparr>)" by (simp add: knowledge_flush_Inr)
  from arg_cong [where f = "\<lambda>k. evidence_assets (kb_store k)", OF this]
  have "evidence_assets (kb_store k) = flush (evidence_assets (kb_store k))" by (simp add: flush_knowledge_tables_def synced_def)
  then show ?thesis by (metis clean_flush)
qed

lemma queued_frame [simp]: "evidence_assets (queued_events u a s) = evidence_assets s"
  by (simp add: queued_events_def publish_domain_event_def record_audit_def)

lemma queued_asset:
  assumes "insert_asset u w a k = Inr k1" and "commit_knowledge k1 = Inr k2"
  shows "a \<in> set (current (evidence_assets (kb_store k2)))
    \<and> current (kb_jobs k2) = current (kb_jobs k) @ [ingest_job u (ev_id a) (is_correlation w) (is_job_id w) (is_now w)]"
proof -
  obtain k0 where k0: "knowledge_flush (events (\<lambda>s. s\<lparr>evidence_assets := add a (evidence_assets s)\<rparr>) k) = Inr k0"
    and k1: "k1 = events (queued_events u a) (k0\<lparr>kb_jobs := add (ingest_job u (ev_id a) (is_correlation w) (is_job_id w) (is_now w)) (kb_jobs k0)\<rparr>)"
    using assms(1) by (auto simp: insert_asset_def split: sum.splits)
  have "a \<in> set (current (evidence_assets (kb_store k0)))" "current (kb_jobs k0) = current (kb_jobs k)"
    using k0 by (auto simp: knowledge_flush_Inr current_flush current_add events_def)
  then show ?thesis
    using assms(2) by (auto simp: commit_knowledge_def knowledge_flush_Inr current_flush current_add k1 events_def)
qed


subsection \<open>A sample\<close>

definition ascii_data :: unicode_data where
  "ascii_data = \<lparr>uc_nfc = (\<lambda>t. t), uc_control = (\<lambda>ch. ch < 32 \<or> ch = 127)\<rparr>"

definition sample_upload :: upload where
  "sample_upload = \<lparr>ul_engagement_id = 1, ul_operator = sample_owner, ul_file_name = lit ''a.txt'',
     ul_content_type = lit ''text/plain'', ul_content = sample_bytes, ul_source_type = lit ''upload'',
     ul_source_timestamp = None, ul_qualification_id = None, ul_source_key = None, ul_workflow_class = None,
     ul_data_classification = None\<rparr>"

definition sample_supply :: intake_supply where
  "sample_supply = \<lparr>is_asset_id = 2, is_job_id = 5, is_now = 0, is_version_id = lit ''v'', is_correlation = None\<rparr>"

definition no_objects :: evidence_store where
  "no_objects = \<lparr>st_objects = Map.empty, st_versions = Map.empty\<rparr>"

definition before_upload :: knowledge where
  "before_upload = empty_knowledge (empty_store\<lparr>engagements := from_rows [sample_engagement]\<rparr>)"

lemma sample_checked: "check_upload ascii_data sample_upload = Inr (lit ''a.txt'')"
  by code_simp

lemma sample_uploaded: "\<exists>a st' k'. upload_transaction ascii_data sample_upload sample_supply no_objects before_upload = (Inr a, st', k')
    \<and> map jb_id (current (kb_jobs k')) = [5]"
  by (simp add: upload_transaction_def create_evidence_asset_def sample_checked Let_def before_upload_def run_simps select_def [of _ "[]"]
    put_object_def insert_asset_def new_asset_def ingest_job_def commit_knowledge_def current_add queued_events_def publish_domain_event_def
    record_audit_def events_def current_flush sample_supply_def)

lemma sample_fresh: "store_consistent no_objects" "\<forall>key. is_version_id sample_supply \<notin> fst ` set (versions_of no_objects key)"
  by (simp_all add: store_consistent_def versions_of_def no_objects_def)

lemma before_settled: "knowledge_flush before_upload = Inr before_upload"
  by (simp add: before_upload_def run_simps flush_clean clean_from_rows)


section \<open>Jobs\<close>

text \<open>
  C17: over every history of uploads, worker transactions, reviews and resolutions that starts without
  jobs, the row of every job is well formed: it is running exactly while it has a lease, it was never
  attempted more often than allowed, and it is completed exactly when it has a completion time; keys are
  distinct; and later rows of a job keep its identity and its asset, never lose an attempt, and do not
  change at all once the job is completed, failed or cancelled.
\<close>

theorem jobs_well_formed:
  assumes "evidence_step\<^sup>*\<^sup>* (empty_knowledge s) k" and "evidence_step\<^sup>*\<^sup>* k k'"
  shows "distinct (map jb_id (current (kb_jobs k'))) \<and> (\<forall>j \<in> set (current (kb_jobs k')). job_ok j)
    \<and> (\<forall>j \<in> set (current (kb_jobs k)). \<exists>j' \<in> set (current (kb_jobs k')). job_moves j j')"
proof -
  have "job_table_ok (kb_jobs (empty_knowledge s))" by (simp add: job_table_ok_def empty_knowledge_def clean_Nil current_def)
  then have k: "job_table_ok (kb_jobs k)" using evidence_steps_jobs [OF assms(1)] by blast
  then have "job_table_ok (kb_jobs k') \<and> jobs_move (kb_jobs k) (kb_jobs k')" by (rule evidence_steps_jobs [OF assms(2)])
  then show ?thesis using jobs_move_find by (auto simp: job_table_ok_def list_all_iff)
qed

theorem jobs_well_formed_witness:
  "\<exists>k'. evidence_step before_upload k' \<and> map jb_id (current (kb_jobs k')) = [5] \<and> (\<forall>j \<in> set (current (kb_jobs k')). job_ok j)"
proof -
  obtain a st' k' where run: "upload_transaction ascii_data sample_upload sample_supply no_objects before_upload = (Inr a, st', k')"
    and jobs: "map jb_id (current (kb_jobs k')) = [5]"
    using sample_uploaded by (elim exE conjE) (rule that)
  have s: "evidence_step before_upload k'" by (rule evidence_step.Upload [OF run])
  then have "evidence_step\<^sup>*\<^sup>* (empty_knowledge (empty_store\<lparr>engagements := from_rows [sample_engagement]\<rparr>)) k'"
    by (simp add: before_upload_def)
  from jobs_well_formed [OF this rtranclp.rtrancl_refl] have "\<forall>j \<in> set (current (kb_jobs k')). job_ok j" by (elim conjE)
  with s jobs show ?thesis by (intro exI [of _ k'] conjI)
qed

text \<open>
  C19: a worker whose lease was taken over, or whose job is not running any more, changes nothing: the
  processing is refused, and the failing of the job that follows finds no job to fail.
\<close>

theorem superseded_worker_powerless:
  assumes "knowledge_flush k = Inr k" and "\<forall>j \<in> set (current (kb_jobs k)). jb_id j = jid \<longrightarrow> \<not> (jb_status j = JRunning \<and> jb_lease_token j = Some token)"
  shows "process_job c jid token k = Inl JobLeaseLost \<and> run_job c jid token clock nid k = Inr k"
proof -
  have cl: "kb_jobs k = flush (kb_jobs k)" using assms(1) by (metis flush_knowledge_simps(10) knowledge.select_convs(10) knowledge.surjective knowledge_flush_Inr knowledge.update_convs(1))
  have sel: "select P (kb_jobs k) = filter P (current (kb_jobs k))" for P by (subst cl) (rule select_flush)
  have p: "process_job c jid token k = Inl JobLeaseLost"
    using assms(2) by (auto simp: process_job_def lock_active_lease_def assms(1) sel lease_active_def dest!: first_in split: option.splits)
  have "fail_job jid m token r code p' clock nid k = Inr (False, k)" for m r code p'
  proof -
    have "filter (\<lambda>j. jb_id j = jid \<and> jb_status j = JRunning \<and> jb_lease_token j = Some token) (current (kb_jobs k)) = []"
      using assms(2) by (auto simp: filter_empty_conv)
    then show ?thesis by (simp add: fail_job_def sel)
  qed
  then show ?thesis using p assms(1) by (simp add: run_job_def Let_def commit_knowledge_def)
qed

lemma completed_status [simp]: "jb_status (completed_job now j) = JCompleted" "jb_id (completed_job now j) = jb_id j"
  by (simp_all add: completed_job_def)

lemma completes_all:
  assumes "completes jid now t t'" and "x \<in> set (current t')" and "jb_id x = jid"
  shows "jb_status x = JCompleted"
proof -
  have "x \<in> (\<lambda>j. if jb_id j = jid then completed_job now j else j) ` set (current t)"
    using assms(1,2) by (simp add: completes_def)
  then obtain j where "x = (if jb_id j = jid then completed_job now j else j)" by (rule imageE)
  then show ?thesis using assms(3) by (cases "jb_id j = jid") simp_all
qed

text \<open>
  C15: a job that was processed was running under the caller's live lease, and read the bytes the asset's
  digest names.  It added the segments the parser finds in those bytes, one row for each, and to every
  claim, which waits for review, evidence that quotes a slice of one of these segments exactly.  It
  recorded no decision, no entity, no assertion and no evidence of an assertion.
\<close>

theorem processed_job_provenance:
  assumes "process_job c jid token k = Inr k'"
  shows "\<exists>j a content sgs gs cls ces. j \<in> set (current (kb_jobs k)) \<and> jb_id j = jid \<and> lease_active token (jc_clock c 0) j
    \<and> a \<in> set (current (evidence_assets (kb_store k))) \<and> parse_uuid (jb_evidence_asset_id j) = Some (ev_id a)
    \<and> ev_engagement_id a = jb_engagement_id j
    \<and> jc_object c (ev_storage_key a) (ev_storage_version_id a) = Some content \<and> sha256_hex content = ev_content_hash a
    \<and> parse_evidence (jc_readers c) content (ev_content_type a) (ev_file_name a) = Inr sgs
    \<and> current (kb_segments k') = current (kb_segments k) @ gs \<and> current (kb_claims k') = current (kb_claims k) @ cls
    \<and> current (kb_claim_evidence k') = current (kb_claim_evidence k) @ ces
    \<and> (gs = [] \<and> cls = [] \<or> list_all2 (stores_segment a) sgs gs) \<and> list_all2 (\<lambda>cl ce. \<exists>g \<in> set gs. quotes g cl ce) cls ces
    \<and> untouched k k' \<and> (\<forall>x \<in> set (current (kb_jobs k')). jb_id x = jid \<longrightarrow> jb_status x = JCompleted)"
proof -
  obtain j a content sgs now where e: "j \<in> set (current (kb_jobs k))" "jb_id j = jid"
    "lease_active token (jc_clock c 0) j" "a \<in> set (current (evidence_assets (kb_store k)))"
    "parse_uuid (jb_evidence_asset_id j) = Some (ev_id a)" "ev_engagement_id a = jb_engagement_id j"
    "jc_object c (ev_storage_key a) (ev_storage_version_id a) = Some content" "sha256_hex content = ev_content_hash a"
    "parse_evidence (jc_readers c) content (ev_content_type a) (ev_file_name a) = Inr sgs"
    "completes jid now (kb_jobs k) (kb_jobs k')" "untouched k k'" "adds_evidence a sgs k k'"
    by (rule process_job_effect [OF assms])
  have "\<forall>x \<in> set (current (kb_jobs k')). jb_id x = jid \<longrightarrow> jb_status x = JCompleted"
    using completes_all [OF e(10)] by blast
  moreover obtain gs cls ces where "current (kb_segments k') = current (kb_segments k) @ gs"
    "current (kb_claims k') = current (kb_claims k) @ cls" "current (kb_claim_evidence k') = current (kb_claim_evidence k) @ ces"
    "gs = [] \<and> cls = [] \<or> list_all2 (stores_segment a) sgs gs" "grounded gs cls ces"
    using e(12) unfolding adds_evidence_def by blast
  ultimately show ?thesis using e(1-9,11) unfolding grounded_def
    by - (rule exI [of _ j], rule exI [of _ a], rule exI [of _ content], rule exI [of _ sgs], rule exI [of _ gs],
      rule exI [of _ cls], rule exI [of _ ces], (intro conjI; assumption))
qed

theorem processed_job_provenance_witness:
  "\<exists>k'. process_job (sample_context sample_bytes) 5 77 (sample_knowledge sample_bytes) = Inr k'
     \<and> map ce_quote (current (kb_claim_evidence k')) = [lit ''Role: A''] \<and> untouched (sample_knowledge sample_bytes) k'
     \<and> (\<forall>x \<in> set (current (kb_jobs k')). jb_id x = 5 \<longrightarrow> jb_status x = JCompleted)"
proof -
  obtain k' where k': "process_job (sample_context sample_bytes) 5 77 (sample_knowledge sample_bytes) = Inr k'"
    "map ce_quote (current (kb_claim_evidence k')) = [lit ''Role: A'']"
    using sample_staged sample_process [OF sample_parse sample_extraction] by auto
  have "untouched (sample_knowledge sample_bytes) k' \<and> (\<forall>x \<in> set (current (kb_jobs k')). jb_id x = 5 \<longrightarrow> jb_status x = JCompleted)"
    using processed_job_provenance [OF k'(1)] by (elim exE conjE) (intro conjI; assumption)
  then show ?thesis using k' by (intro exI [of _ k']) (elim conjE, intro conjI; assumption)
qed

theorem superseded_worker_powerless_witness:
  "run_job (sample_context sample_bytes) 5 78 (\<lambda>_. 0) 9 (sample_knowledge sample_bytes) = Inr (sample_knowledge sample_bytes)"
proof -
  have "knowledge_flush (sample_knowledge sample_bytes) = Inr (sample_knowledge sample_bytes)"
    using lock_active_lease_Inr [OF sample_start [of sample_bytes]] by blast
  moreover have "\<forall>j \<in> set (current (kb_jobs (sample_knowledge sample_bytes))). jb_id j = 5 \<longrightarrow> \<not> (jb_status j = JRunning \<and> jb_lease_token j = Some 78)"
    by (simp add: sample_knowledge_def current_from_rows sample_job_def)
  ultimately show ?thesis using superseded_worker_powerless by blast
qed

section \<open>Contradictions inside one document\<close>

text \<open>The pairs a new claim adds, with the flushed contradictions \<open>t\<close> and the flushed claims \<open>cs\<close>.\<close>

definition conflict_pairs :: "uuid \<Rightarrow> contradiction table \<Rightarrow> claim table \<Rightarrow> claim \<Rightarrow> (uuid \<times> uuid) list" where
  "conflict_pairs eid t cs new = (if approval_claim new
     then map (\<lambda>old. claim_pair old new) (filter (\<lambda>old. select (\<lambda>d. contradiction_pair d = claim_pair old new) t = [])
       (select (conflicts_with eid new) cs)) else [])"

definition pending :: "contradiction list \<Rightarrow> contradiction table" where
  "pending ds = map (Pair None) ds"

lemma select_pending [simp]: "select P (t @ pending ds) = select P t"
  by (simp add: select_def pending_def stored_def)

lemma pending_snoc: "add d (t @ pending ds) = t @ pending (ds @ [d])"
  by (simp add: add_def pending_def)

lemma pair_of_new [simp]: "contradiction_pair (new_contradiction c eid n old new) = claim_pair old new"
  by (simp add: contradiction_pair_def new_contradiction_def)

lemma add_contradictions:
  "\<exists>n' es. foldl (add_contradiction c eid new) (n, k\<lparr>kb_contradictions := t @ pending ds\<rparr>) olds
      = (n', k\<lparr>kb_contradictions := t @ pending (ds @ es)\<rparr>)
    \<and> map contradiction_pair es = map (\<lambda>old. claim_pair old new)
        (filter (\<lambda>old. select (\<lambda>d. contradiction_pair d = claim_pair old new) t = []) olds)"
proof (induction olds arbitrary: n ds)
  case Nil
  show ?case by (intro exI [of _ n] exI [of _ "[]"]) simp
next
  case (Cons old olds)
  show ?case
  proof (cases "select (\<lambda>d. contradiction_pair d = claim_pair old new) t = []")
    case True
    let ?d = "new_contradiction c eid n old new"
    obtain n' es where es: "foldl (add_contradiction c eid new) (n + 1, k\<lparr>kb_contradictions := t @ pending (ds @ [?d])\<rparr>) olds
        = (n', k\<lparr>kb_contradictions := t @ pending ((ds @ [?d]) @ es)\<rparr>)"
      "map contradiction_pair es = map (\<lambda>old. claim_pair old new)
        (filter (\<lambda>old. select (\<lambda>d. contradiction_pair d = claim_pair old new) t = []) olds)" using Cons.IH by blast
    then show ?thesis using True
      by (intro exI [of _ n'] exI [of _ "?d # es"]) (simp add: add_contradiction_def pending_snoc)
  next
    case False
    then show ?thesis using Cons.IH [of n ds] by (simp add: add_contradiction_def)
  qed
qed

lemma detect_pairs:
  "\<exists>n' es. foldl (claim_contradictions c eid) (n, k\<lparr>kb_contradictions := t @ pending ds\<rparr>) news
      = (n', k\<lparr>kb_contradictions := t @ pending (ds @ es)\<rparr>)
    \<and> map contradiction_pair es = concat (map (conflict_pairs eid t (kb_claims k)) news)"
proof (induction news arbitrary: n ds)
  case Nil
  show ?case by (intro exI [of _ n] exI [of _ "[]"]) simp
next
  case (Cons new news)
  obtain n1 es1 where e1: "claim_contradictions c eid (n, k\<lparr>kb_contradictions := t @ pending ds\<rparr>) new
      = (n1, k\<lparr>kb_contradictions := t @ pending (ds @ es1)\<rparr>)"
    "map contradiction_pair es1 = conflict_pairs eid t (kb_claims k) new"
  proof (cases "approval_claim new")
    case True
    then show thesis
      using that add_contradictions [of c eid new n t ds k "select (conflicts_with eid new) (kb_claims k)"]
      by (auto simp: claim_contradictions_def conflict_pairs_def)
  next
    case False
    then show thesis using that [of n "[]"] by (simp add: claim_contradictions_def conflict_pairs_def)
  qed
  obtain n2 es2 where e2: "foldl (claim_contradictions c eid) (n1, k\<lparr>kb_contradictions := t @ pending (ds @ es1)\<rparr>) news
      = (n2, k\<lparr>kb_contradictions := t @ pending ((ds @ es1) @ es2)\<rparr>)"
    "map contradiction_pair es2 = concat (map (conflict_pairs eid t (kb_claims k)) news)" using Cons.IH by blast
  show ?case using e1 e2 by (intro exI [of _ n2] exI [of _ "es1 @ es2"]) simp
qed

lemma detected_contradictions:
  "map contradiction_pair (current (kb_contradictions (detect_contradictions c eid n news k)))
    = map contradiction_pair (current (kb_contradictions k))
      @ concat (map (conflict_pairs eid (kb_contradictions k) (kb_claims k)) news)"
proof -
  obtain n' es where e: "foldl (claim_contradictions c eid) (n, k) news
      = (n', k\<lparr>kb_contradictions := kb_contradictions k @ pending es\<rparr>)"
    "map contradiction_pair es = concat (map (conflict_pairs eid (kb_contradictions k) (kb_claims k)) news)"
    using detect_pairs [of c eid n "kb_contradictions k" "[]" k news] by (auto simp: pending_def)
  have "map snd (pending es) = es" by (simp add: pending_def comp_def)
  then show ?thesis using e by (simp add: detect_contradictions_def current_def)
qed

lemma concat_not_distinct:
  "x \<in> set (f a) \<Longrightarrow> x \<in> set (f b) \<Longrightarrow> a \<noteq> b \<Longrightarrow> a \<in> set xs \<Longrightarrow> b \<in> set xs \<Longrightarrow> \<not> distinct (concat (map f xs))"
  by (induction xs) auto

text \<open>Two approval claims of one document name different approvers for one subject.\<close>

definition conflicting :: "claim \<Rightarrow> claim \<Rightarrow> bool" where
  "conflicting a b \<longleftrightarrow> approval_claim a \<and> approval_claim b \<and> cl_subject a = cl_subject b \<and> cl_object a \<noteq> cl_object b
     \<and> cl_id a \<noteq> cl_id b"

lemma claim_pair_sym: "claim_pair a b = claim_pair b a"
  by (simp add: claim_pair_def min.commute max.commute)

lemma stage_claims_engagement:
  "stage_claims c j g n xs k = Inr (m, cls, k') \<Longrightarrow> \<forall>cl \<in> set cls. cl_engagement_id cl = jb_engagement_id j \<and> cl_status cl = CCandidate"
  by (induction xs arbitrary: n k cls) (auto simp: Let_def bindE_eq_Inr new_claim_def)

lemma stage_segments_engagement:
  "stage_segments c j a n ex k = Inr (m, cls, k') \<Longrightarrow> \<forall>cl \<in> set cls. cl_engagement_id cl = jb_engagement_id j \<and> cl_status cl = CCandidate"
proof (induction ex arbitrary: n k cls)
  case (Cons px ex)
  then show ?case by (cases px) (fastforce simp: Let_def bindE_eq_Inr dest: stage_claims_engagement)
qed simp

lemma stage_output_conflict:
  assumes "stage_output c j a q n tot ex k = Inr k'" and "current (kb_claims k') = current (kb_claims k) @ cls"
    and "x \<in> set cls" and "y \<in> set cls" and "conflicting x y"
    and "\<forall>d \<in> set (current (kb_contradictions k)). cl_id x \<notin> {ct_left_claim_id d, ct_right_claim_id d}"
  shows "\<not> unique_rows contradiction_pair (kb_contradictions k')"
proof -
  let ?k1 = "set_job (jb_id j) (\<lambda>x. x\<lparr>jb_progress := 15\<rparr>)
      (set_asset (ev_id a) (\<lambda>x. x\<lparr>ev_status := EProcessing, ev_error_message := None\<rparr>) k)"
  let ?k2 = "?k1\<lparr>kb_runs := add (new_run c j a tot) (kb_runs ?k1)\<rparr>"
  let ?eid = "jb_engagement_id j"
  obtain k3 m news k4 k5 where f3: "knowledge_flush ?k2 = Inr k3" and s4: "stage_segments c j a 1 ex k3 = Inr (m, news, k4)"
    and f5: "knowledge_flush k4 = Inr k5"
    and k': "k' = (let k6 = detect_contradictions c ?eid m news k5;
             k7 = k6\<lparr>kb_runs := modify (\<lambda>r. rn_id r = jc_fresh c 0) (completed_run (jc_clock c n)) (kb_runs k6)\<rparr>;
             k8 = set_asset (ev_id a) (\<lambda>x. x\<lparr>ev_status := if news \<noteq> [] then ENeedsReview else EComplete\<rparr>) k7
         in events (completion_events c j a (length news)) (set_job (jb_id j) (completed_job (jc_clock c (n + 1))) k8))"
    using assms(1) by (auto simp: stage_output_def Let_def bindE_eq_Inr)
  obtain ct where d: "detect_contradictions c ?eid m news k5 = k5\<lparr>kb_contradictions := ct\<rparr>"
    using detect_frame only_contradictions_def by metis
  have c3: "current (kb_claims k3) = current (kb_claims k)" "current (kb_contradictions k3) = current (kb_contradictions k)"
    using f3 by (auto simp: knowledge_flush_Inr current_flush set_job_def set_asset_def)
  obtain gs ces where st: "staged k3 gs news ces k4" using stage_segments_frame [OF s4] by blast
  have c5: "current (kb_claims k5) = current (kb_claims k) @ news" "current (kb_contradictions k5) = current (kb_contradictions k)"
    "clean (kb_claims k5)" "clean (kb_contradictions k5)"
    using st f5 c3 by (auto simp: knowledge_flush_Inr staged_def current_flush clean_flush)
  have "kb_claims k' = kb_claims k5" by (simp add: k' Let_def d)
  then have news: "news = cls" using assms(2) c5(1) by simp
  note eng = stage_segments_engagement [OF s4, unfolded news]
  have none: "select (\<lambda>d. contradiction_pair d = claim_pair u v) (kb_contradictions k5) = []"
    if "cl_id x \<in> {cl_id u, cl_id v}" for u v
    using assms(6) that c5(2,4) by (auto simp: select_clean filter_empty_conv contradiction_pair_def claim_pair_def min_def max_def)
  have in5: "x \<in> set (current (kb_claims k5))" "y \<in> set (current (kb_claims k5))" using c5(1) news assms(3,4) by auto
  have cx: "conflicts_with ?eid y x" and cy: "conflicts_with ?eid x y"
    using assms(3-5) eng by (auto simp: conflicting_def conflicts_with_def approval_claim_def)
  have "claim_pair y x \<in> set (conflict_pairs ?eid (kb_contradictions k5) (kb_claims k5) x)"
    using assms(5) none [of y x] in5 c5(3) cy by (force simp: conflict_pairs_def conflicting_def select_clean)
  moreover have "claim_pair y x \<in> set (conflict_pairs ?eid (kb_contradictions k5) (kb_claims k5) y)"
    using assms(5) none [of x y] in5 c5(3) cx claim_pair_sym [of y x] by (force simp: conflict_pairs_def conflicting_def select_clean)
  moreover have "x \<noteq> y" using assms(5) by (auto simp: conflicting_def)
  ultimately have "\<not> distinct (concat (map (conflict_pairs ?eid (kb_contradictions k5) (kb_claims k5)) cls))"
    using assms(3,4) by (intro concat_not_distinct)
  then have "\<not> unique_rows contradiction_pair (kb_contradictions (detect_contradictions c ?eid m news k5))"
    by (simp add: unique_rows_def detected_contradictions news)
  then show ?thesis by (simp add: k' Let_def set_job_def set_asset_def)
qed

text \<open>
  C22: a document whose own rules name two approvers for one subject can never be ingested: the
  search for contradictions, which does not see the pending row of the first claim of the pair, adds the
  pair a second time, so that the commit of the whole job violates the unique constraint on claim pairs.
\<close>

theorem conflicting_document_never_ingested:
  assumes "process_job c jid token k = Inr k'" and "current (kb_claims k') = current (kb_claims k) @ cls"
    and "x \<in> set cls" and "y \<in> set cls" and "conflicting x y"
    and "\<forall>d \<in> set (current (kb_contradictions k)). cl_id x \<notin> {ct_left_claim_id d, ct_right_claim_id d}"
  shows "\<not> unique_rows contradiction_pair (kb_contradictions k') \<and> (\<exists>e. commit_knowledge k' = Inl e)"
proof -
  obtain j k1 a q n tot ex where l: "knowledge_flush k = Inr k1"
    and r: "stage_output c j a q n tot ex k1 = Inr k' \<or> k' = complete_existing_job j a (jc_clock c 4) k1"
    by (rule process_job_cases [OF assms(1)])
  have k1: "current (kb_claims k1) = current (kb_claims k)" "current (kb_contradictions k1) = current (kb_contradictions k)"
    using l by (auto simp: knowledge_flush_Inr current_flush)
  have "stage_output c j a q n tot ex k1 = Inr k'"
  proof (rule disjE [OF r])
    assume "k' = complete_existing_job j a (jc_clock c 4) k1"
    then have "cls = []" using assms(2) k1(1) by (simp add: complete_existing_job_def)
    then show ?thesis using assms(3) by simp
  qed
  from stage_output_conflict [OF this _ assms(3-5)] assms(2,6) k1
  have u: "\<not> unique_rows contradiction_pair (kb_contradictions k')" by simp
  moreover have "commit_knowledge k' \<noteq> Inr k2" for k2
    using u by (auto simp: commit_knowledge_def knowledge_flush_Inr knowledge_accepted_def knowledge_checks_def)
  ultimately show ?thesis by (cases "commit_knowledge k'") auto
qed

definition conflict_claim :: "nat \<Rightarrow> string \<Rightarrow> string \<Rightarrow> extracted_claim" where
  "conflict_claim start condition approver = (let s = lit ''Invoices '' @ lit condition @ lit '' require '' @ lit approver @ lit '' approval.'' in
     \<lparr>xc_kind = lit ''rule'', xc_subject = lit ''Invoice approval'', xc_predicate = lit ''REQUIRES_APPROVAL'',
      xc_object = Some (lit approver), xc_summary = s,
      xc_payload = \<lparr>cp_subject = \<lparr>sp_type = lit ''process'', sp_name = lit ''Invoice approval''\<rparr>,
        cp_object = Some \<lparr>sp_type = lit ''role'', sp_name = lit approver\<rparr>, cp_condition = Some (lit condition), cp_is_exception = False\<rparr>,
      xc_confidence = lit ''0.9900'', xc_materiality = lit ''material'', xc_start = start, xc_end = start + 30, xc_quote = s\<rparr>)"

definition conflict_claims :: "extracted_claim list" where
  "conflict_claims = [conflict_claim 0 ''a'' ''B'', conflict_claim 30 ''c'' ''D'']"

lemma conflict_extraction: "extract_claims conflict_bytes = conflict_claims" "list_all (exact_offsets conflict_bytes) conflict_claims"
  by code_simp+

lemma conflict_parse:
  "parse_evidence no_readers conflict_bytes (lit ''text/plain'') (lit ''a.txt'') = Inr [text_segment 0 0 conflict_bytes]"
  by code_simp

lemma conflict_staged: "\<exists>k'. stage_output (sample_context conflict_bytes) sample_job (sample_asset conflict_bytes) False 6
      no_tokens [(text_segment 0 0 conflict_bytes, conflict_claims)] (sample_knowledge conflict_bytes) = Inr k'
   \<and> map (\<lambda>c. (cl_id c, cl_subject c, cl_predicate c, cl_object c)) (current (kb_claims k'))
     = [(1002, lit ''Invoice approval'', lit ''REQUIRES_APPROVAL'', Some (lit ''B'')),
        (1004, lit ''Invoice approval'', lit ''REQUIRES_APPROVAL'', Some (lit ''D''))]"
  by (simp add: stage_simps run_simps conflict_claims_def conflict_claim_def)

theorem conflicting_document_never_ingested_witness:
  "\<exists>k'. process_job (sample_context conflict_bytes) 5 77 (sample_knowledge conflict_bytes) = Inr k'
     \<and> (\<exists>e. commit_knowledge k' = Inl e)"
proof -
  obtain k' where k': "process_job (sample_context conflict_bytes) 5 77 (sample_knowledge conflict_bytes) = Inr k'"
    and m: "map (\<lambda>c. (cl_id c, cl_subject c, cl_predicate c, cl_object c)) (current (kb_claims k'))
     = [(1002, lit ''Invoice approval'', lit ''REQUIRES_APPROVAL'', Some (lit ''B'')),
        (1004, lit ''Invoice approval'', lit ''REQUIRES_APPROVAL'', Some (lit ''D''))]"
    using conflict_staged sample_process [OF conflict_parse conflict_extraction] by auto
  obtain x y where xy: "current (kb_claims k') = [x, y]" using m by auto
  have "conflicting x y" using m by (simp add: xy conflicting_def approval_claim_def)
  moreover have "current (kb_claims k') = current (kb_claims (sample_knowledge conflict_bytes)) @ [x, y]"
    "\<forall>d \<in> set (current (kb_contradictions (sample_knowledge conflict_bytes))). cl_id x \<notin> {ct_left_claim_id d, ct_right_claim_id d}"
    by (simp_all add: xy sample_knowledge_def empty_knowledge_def current_def [of "[]"])
  ultimately show ?thesis using conflicting_document_never_ingested [OF k', of "[x, y]" x y] k' by auto
qed

section \<open>White space at a line end\<close>

definition carriage_return :: "nat list" where
  "carriage_return = lit ''Role: A'' @ [13, 10] @ lit ''Role: B.''"

lemma carriage_parse:
  "parse_evidence no_readers carriage_return (lit ''text/plain'') (lit ''a.txt'') = Inr [text_segment 0 0 carriage_return]"
  by code_simp

lemma carriage_offsets: "list_all (exact_offsets carriage_return) (extract_claims carriage_return) = False"
  by code_simp

lemma sample_rejected:
  assumes "list_all (exact_offsets b) (extract_claims b) = False"
  shows "extract_segments (sample_context b) a c False k n no_tokens [text_segment 0 0 b]
    = Inl (JobProcessing (lit ''An extracted claim did not resolve to exact stored evidence offsets.''))"
  using assms by (simp add: extract_segment_def recheck_authority_def sample_context_def fixture_extractor_def text_segment_def
     Let_def add_totals_def default_budget_def no_tokens_def)

lemma sample_refused:
  assumes "parse_evidence no_readers b (lit ''text/plain'') (lit ''a.txt'') = Inr [text_segment 0 0 b]"
    and "list_all (exact_offsets b) (extract_claims b) = False"
  shows "process_job (sample_context b) 5 77 (sample_knowledge b)
    = Inl (JobProcessing (lit ''An extracted claim did not resolve to exact stored evidence offsets.''))"
proof -
  have "parse_evidence (jc_readers (sample_context b)) b (ev_content_type (sample_asset b)) (ev_file_name (sample_asset b))
    = Inr [text_segment 0 0 b]"
    using assms(1) by (simp add: sample_context_def sample_asset_def)
  moreover have "select (\<lambda>g. es_evidence_asset_id g = ev_id (sample_asset b)) (kb_segments (sample_knowledge b)) = []"
    by (simp add: sample_knowledge_def empty_knowledge_def select_def)
  moreover have "jc_clock (sample_context b) 0 = 0" by (simp add: sample_context_def)
  ultimately show ?thesis
    by (simp add: process_job_def sample_start process_leased_job_def sample_asset_found sample_authority sample_content
     recheck_authority_def lift_parse_def sample_budget sample_rejected [OF assms(2)] no_tokens_def [symmetric] del: extract_segments.simps)
qed


section \<open>Entities\<close>

lemma canonical_key_blank:
  assumes "\<forall>ch \<in> set (casefold name). \<not> key_char ch"
  shows "canonical_key name = []"
proof -
  have "set (dash_runs b t) \<subseteq> {45}" if "\<forall>ch \<in> set t. \<not> key_char ch" for b t
    using that by (induction b t rule: dash_runs.induct) auto
  then have "set (dash_runs False (casefold name)) \<subseteq> {45}" using assms by blast
  then show ?thesis by (auto simp: canonical_key_def strip_chars_def dest!: set_dropWhileD)
qed

text \<open>
  Entities of one type whose names have no ASCII letter or digit after case folding, for instance
  names in Cyrillic or in Chinese, are all the same entity: the second name resolves to the row of the
  first one, and nothing is created for it.
\<close>

theorem names_without_ascii_merge:
  assumes "\<forall>ch \<in> set (casefold a) \<union> set (casefold b). \<not> key_char ch" and "clean (kb_entities k)"
    and "get_or_create_entity eid \<lparr>sp_type = t, sp_name = a\<rparr> actor nid k = Inr (e, k1)"
  shows "get_or_create_entity eid \<lparr>sp_type = t, sp_name = b\<rparr> actor' nid' k1 = Inr (e, k1) \<and> en_key e = []"
proof -
  have key: "canonical_key a = []" "canonical_key b = []" using assms(1) canonical_key_blank by auto
  let ?P = "\<lambda>e. en_engagement_id e = eid \<and> en_type e = t \<and> en_key e = []"
  show ?thesis
  proof (cases "first (select ?P (kb_entities k))")
    case (Some r)
    then have "r = e" "k1 = k" using assms(3) key by (auto simp: get_or_create_entity_def)
    then show ?thesis using Some key first_in [OF Some] assms(2) by (auto simp: get_or_create_entity_def select_clean)
  next
    case None
    then have none: "filter ?P (current (kb_entities k)) = []" using assms(2) by (simp add: select_clean)
    have e: "e = \<lparr>en_id = nid, en_engagement_id = eid, en_type = t, en_key = [], en_name = a,
        en_status = lit ''verified'', en_verified_by_id = actor\<rparr>"
      and k1: "kb_entities k1 = flush (add e (kb_entities k))"
      using assms(3) None key by (auto simp: get_or_create_entity_def Let_def bindE_eq_Inr knowledge_flush_Inr)
    have "select ?P (kb_entities k1) = [e]" using none by (simp add: k1 select_flush current_add e)
    then show ?thesis using key by (simp add: get_or_create_entity_def e)
  qed
qed

theorem names_without_ascii_merge_witness:
  "\<exists>e k1. get_or_create_entity 1 \<lparr>sp_type = lit ''role'', sp_name = [1041, 1072, 1085, 1082]\<rparr> 9 100 (sample_knowledge []) = Inr (e, k1)
     \<and> get_or_create_entity 1 \<lparr>sp_type = lit ''role'', sp_name = [37504, 34892]\<rparr> 9 101 k1 = Inr (e, k1)"
proof -
  have f: "\<forall>ch \<in> set (casefold [1041, 1072, 1085, 1082]) \<union> set (casefold [37504, 34892]). \<not> key_char ch" by code_simp
  have c: "clean (kb_entities (sample_knowledge []))" by (simp add: sample_knowledge_def empty_knowledge_def clean_Nil)
  have "canonical_key [1041, 1072, 1085, 1082] = []" by code_simp
  then have "\<exists>e k1. get_or_create_entity 1 \<lparr>sp_type = lit ''role'', sp_name = [1041, 1072, 1085, 1082]\<rparr> 9 100 (sample_knowledge []) = Inr (e, k1)"
    by (simp add: get_or_create_entity_def Let_def run_simps current_add select_clean [OF clean_Nil] entity_types_def)
  then show ?thesis using names_without_ascii_merge [OF f c] by blast
qed

end
