(* ===== verification/ReviewProps.thy ===== *)
theory ReviewProps
  imports EvidenceProps
begin

text \<open>
  What the review of a claim leaves: an accepted claim becomes exactly one verified assertion that keeps
  the evidence of the claim, and what was built on the earlier truth is no longer live.
\<close>

section \<open>The store under a review\<close>

lemma synced_same: "well_formed s \<Longrightarrow> same_factory_tables s (synced s)"
  by (simp add: well_formed_def settled_def factory_clean_def same_factory_tables_def flush_clean)

lemma well_formed_same: "same_factory_tables s s' \<Longrightarrow> well_formed s' = well_formed s"
  by (simp add: well_formed_def settled_same lineage_same)

text \<open>What stays while an assertion is made: the tables of the claims, and a well-formed store.\<close>

definition reviewing :: "knowledge \<Rightarrow> knowledge \<Rightarrow> bool" where
  "reviewing k k' \<longleftrightarrow> current (kb_claims k') = current (kb_claims k)
     \<and> current (kb_claim_evidence k') = current (kb_claim_evidence k)
     \<and> current (kb_assertion_evidence k') = current (kb_assertion_evidence k)
     \<and> (well_formed (kb_store k) \<longrightarrow> well_formed (kb_store k'))"

lemma reviewing_refl [simp]: "reviewing k k"
  by (simp add: reviewing_def)

lemma reviewing_trans: "reviewing k k1 \<Longrightarrow> reviewing k1 k2 \<Longrightarrow> reviewing k k2"
  by (simp add: reviewing_def)

lemma reviewing_flush: "knowledge_flush k = Inr k' \<Longrightarrow> reviewing k k'"
  using synced_same well_formed_same by (auto simp: reviewing_def knowledge_flush_Inr current_flush)

lemma flush_store: "knowledge_flush k = Inr k' \<Longrightarrow> current (assertions (kb_store k')) = current (assertions (kb_store k))"
  by (auto simp: knowledge_flush_Inr current_flush)

lemma entity_reviewing:
  assumes "get_or_create_entity eid sp actor nid k = Inr (e, k')"
  shows "reviewing k k' \<and> current (assertions (kb_store k')) = current (assertions (kb_store k))"
proof (cases "kb_entities k' = kb_entities k \<and> k' = k")
  case False
  then obtain t where "knowledge_flush (k\<lparr>kb_entities := t\<rparr>) = Inr k'"
    using assms by (auto simp: get_or_create_entity_def Let_def bindE_eq_Inr split: option.splits)
  from reviewing_flush [OF this] flush_store [OF this] show ?thesis by (simp add: reviewing_def)
qed simp

section \<open>The assertion of a claim\<close>

lemma map_links: "map ae_claim_evidence_id (map (link_of eid aid fresh) (enumerate n es)) = map ce_id es"
  by (induction es arbitrary: n) (simp_all add: link_of_def)

lemma create_assertion_effect:
  assumes "create_verified_assertion c actor fresh now k = Inr (a, k')"
  obtains ls where "as_candidate_claim_id a = cl_id c" and "as_status a = Verified" and "as_verified_by_id a = actor"
    and "current (kb_claims k') = current (kb_claims k)" and "current (kb_claim_evidence k') = current (kb_claim_evidence k)"
    and "well_formed (kb_store k) \<Longrightarrow> well_formed (kb_store k')"
    and "current (assertions (kb_store k')) = current (assertions (kb_store k)) @ [a]"
    and "current (kb_assertion_evidence k') = current (kb_assertion_evidence k) @ ls" and "ls \<noteq> []"
    and "\<forall>l \<in> set ls. ae_assertion_id l = as_id a"
    and "map ae_claim_evidence_id ls = map ce_id (filter (\<lambda>e. ce_claim_id e = cl_id c) (current (kb_claim_evidence k)))"
proof -
  obtain subject k1 object k2 where s: "get_or_create_entity (cl_engagement_id c) (cp_subject (cl_payload c)) actor (fresh 1) k = Inr (subject, k1)"
    and ob: "(case cp_object (cl_payload c) of None \<Rightarrow> Inr (None, k1)
       | Some sp \<Rightarrow> bindE (get_or_create_entity (cl_engagement_id c) sp actor (fresh 2) k1) (\<lambda>(e, k2). Inr (Some (en_id e), k2))) = Inr (object, k2)"
    and rest: "bindE (knowledge_flush (events (\<lambda>s. s\<lparr>assertions := add (new_assertion c (en_id subject) object actor (fresh 3) now) (assertions s)\<rparr>) k2)) (\<lambda>k3.
     let links = select (\<lambda>e. ce_claim_id e = cl_id c) (kb_claim_evidence k3)
     in bindE (require (links \<noteq> []) (KnowledgeValueError (lit ''A verified assertion must retain at least one evidence link.''))) (\<lambda>_.
     Inr (new_assertion c (en_id subject) object actor (fresh 3) now, k3\<lparr>kb_assertion_evidence := kb_assertion_evidence k3
       @ map (\<lambda>l. (None, link_of (cl_engagement_id c) (as_id (new_assertion c (en_id subject) object actor (fresh 3) now)) fresh l)) (enumerate 0 links)\<rparr>))) = Inr (a, k')"
    using assms by (auto simp: create_verified_assertion_def Let_def bindE_eq_Inr)
  have r2: "reviewing k k2 \<and> current (assertions (kb_store k2)) = current (assertions (kb_store k))"
    using entity_reviewing [OF s] ob by (auto simp: bindE_eq_Inr split: option.splits dest: entity_reviewing intro: reviewing_trans)
  let ?k2 = "events (\<lambda>s. s\<lparr>assertions := add a (assertions s)\<rparr>) k2"
  obtain k3 where a: "a = new_assertion c (en_id subject) object actor (fresh 3) now" and k3: "knowledge_flush ?k2 = Inr k3"
    and ne: "select (\<lambda>e. ce_claim_id e = cl_id c) (kb_claim_evidence k3) \<noteq> []"
    and k': "k' = k3\<lparr>kb_assertion_evidence := kb_assertion_evidence k3
       @ map (\<lambda>l. (None, link_of (cl_engagement_id c) (as_id a) fresh l))
           (enumerate 0 (select (\<lambda>e. ce_claim_id e = cl_id c) (kb_claim_evidence k3)))\<rparr>"
    using rest by (auto simp: bindE_eq_Inr Let_def require_eq_Inr)
  have w2: "well_formed (kb_store ?k2)" if "well_formed (kb_store k)"
    using r2 that well_formed_same [of "kb_store k2" "kb_store ?k2"] by (simp add: reviewing_def same_factory_tables_def)
  note r3 = reviewing_flush [OF k3]
  have ev: "select (\<lambda>e. ce_claim_id e = cl_id c) (kb_claim_evidence k3)
      = filter (\<lambda>e. ce_claim_id e = cl_id c) (current (kb_claim_evidence k))"
    using k3 r2 by (auto simp: knowledge_flush_Inr select_flush reviewing_def)
  have as: "current (assertions (kb_store k3)) = current (assertions (kb_store k)) @ [a]"
    using flush_store [OF k3] r2 by (simp add: current_add)
  show thesis
  proof (rule that [of "map (link_of (cl_engagement_id c) (as_id a) fresh)
      (enumerate 0 (filter (\<lambda>e. ce_claim_id e = cl_id c) (current (kb_claim_evidence k))))"])
    show "map ae_claim_evidence_id (map (link_of (cl_engagement_id c) (as_id a) fresh)
      (enumerate 0 (filter (\<lambda>e. ce_claim_id e = cl_id c) (current (kb_claim_evidence k)))))
      = map ce_id (filter (\<lambda>e. ce_claim_id e = cl_id c) (current (kb_claim_evidence k)))"
      by (rule map_links)
    show "map (link_of (cl_engagement_id c) (as_id a) fresh)
      (enumerate 0 (filter (\<lambda>e. ce_claim_id e = cl_id c) (current (kb_claim_evidence k)))) \<noteq> []"
      using ne ev by (metis length_enumerate length_greater_0_conv length_map)
  qed (use r2 r3 w2 as ev in \<open>auto simp: a new_assertion_def k' reviewing_def current_def link_of_def comp_def\<close>)
qed

section \<open>The staling\<close>

lemma economic_change_assertions:
  assumes "stale_after_economic_change eid actor now s = Inr s'" and "mark_pending s"
  shows "assertions s' = assertions s"
proof -
  have "cascade_spec (lit ''The approved economic case changed.'') now (\<lambda>_. False) (\<lambda>_. False)
      (\<lambda>f. fo_engagement_id f = eid) (s\<lparr>artifacts := stale_artifacts eid (artifacts s)\<rparr>) s'"
    by (rule economic_entry) (use assms in \<open>simp_all add: stale_after_economic_change_def\<close>)
  then have "base_tables s' = base_tables (s\<lparr>artifacts := stale_artifacts eid (artifacts s)\<rparr>)"
    by (simp add: cascade_spec_def staled_def)
  from arg_cong [where f = assertions, OF this] show ?thesis by (simp add: base_tables_def)
qed

lemma model_change_assertions:
  assumes "stale_after_model_change eid actor now s = Inr s'" and "mark_pending s" and "clean (customer_models s)"
  shows "assertions s' = assertions s"
proof -
  obtain s1 w where run: "stale_economics_and_artifacts eid actor now (s\<lparr>workflows := w\<rparr>) = Inr s1"
    "stale_all_customer_models eid
      (lit ''Verified customer truth changed; regenerate and reapprove the customer model.'') now actor s1 = Inr s'"
    using assms(1) unfolding stale_after_model_change_def bindE_eq_Inr by blast
  have "cascade_spec (lit ''Verified customer truth changed; regenerate and reapprove the customer model.'') now
      (\<lambda>m. cm_engagement_id m = eid) (\<lambda>_. False) (\<lambda>_. False) s1 s'"
    by (rule stale_all_models_spec [OF run(2)])
      (use economics_change_stales [OF run(1)] assms(2,3) in \<open>auto simp: stales_def\<close>)
  then have "base_tables s' = base_tables s1" by (simp add: cascade_spec_def staled_def)
  from arg_cong [where f = assertions, OF this] have "assertions s' = assertions s1" by (simp add: base_tables_def)
  moreover have "assertions s1 = assertions s"
    using economic_change_assertions [of eid actor now "s\<lparr>workflows := w, economic_cases := stale_cases eid (economic_cases s)\<rparr>" s1]
      run(1) assms(2) by (simp add: stale_economics_and_artifacts_def)
  ultimately show ?thesis by simp
qed

lemma on_store_Inr: "on_store f k = Inr k' \<longleftrightarrow> (\<exists>s. f (kb_store k) = Inr s \<and> k' = k\<lparr>kb_store := s\<rparr>)"
  by (auto simp: on_store_def split: sum.splits)

lemma accept_claim_effect:
  assumes "accept_claim eid c actor fresh now k = Inr (r, k')" and "well_formed (kb_store k)"
  obtains a ls where "r = Some a" and "as_candidate_claim_id a = cl_id c" and "as_status a = Verified" and "as_verified_by_id a = actor"
    and "current (kb_claims k') = current (kb_claims k)"
    and "current (assertions (kb_store k')) = current (assertions (kb_store k)) @ [a]"
    and "current (kb_assertion_evidence k') = current (kb_assertion_evidence k) @ ls" and "ls \<noteq> []"
    and "\<forall>l \<in> set ls. ae_assertion_id l = as_id a"
    and "map ae_claim_evidence_id ls = map ce_id (filter (\<lambda>e. ce_claim_id e = cl_id c) (current (kb_claim_evidence k)))"
    and "nothing_live eid (kb_store k')"
proof -
  obtain a k1 s2 where c: "create_verified_assertion c actor fresh now k = Inr (a, k1)"
    and s: "stale_after_model_change eid (Some actor) now (kb_store k1) = Inr s2" and r: "r = Some a"
    and k': "k' = events (\<lambda>s. s\<lparr>engagements := modify (\<lambda>e. eg_id e = eid) (\<lambda>e. e\<lparr>eg_lifecycle_stage := StModel\<rparr>)
       (engagements s)\<rparr>) (k1\<lparr>kb_store := s2\<rparr>)"
    using assms(1) by (auto simp: accept_claim_def bindE_eq_Inr on_store_Inr)
  show thesis
  proof (rule create_assertion_effect [OF c])
    fix ls
    assume e: "as_candidate_claim_id a = cl_id c" "as_status a = Verified" "as_verified_by_id a = actor"
      "current (kb_claims k1) = current (kb_claims k)" "current (kb_claim_evidence k1) = current (kb_claim_evidence k)"
      "well_formed (kb_store k) \<Longrightarrow> well_formed (kb_store k1)"
      "current (assertions (kb_store k1)) = current (assertions (kb_store k)) @ [a]"
      "current (kb_assertion_evidence k1) = current (kb_assertion_evidence k) @ ls" "ls \<noteq> []"
      "\<forall>l \<in> set ls. ae_assertion_id l = as_id a"
      "map ae_claim_evidence_id ls = map ce_id (filter (\<lambda>e. ce_claim_id e = cl_id c) (current (kb_claim_evidence k)))"
    have w: "well_formed (kb_store k1)" using e(6) assms(2) by blast
    then have mp: "mark_pending (kb_store k1)" "clean (customer_models (kb_store k1))" "lineage (kb_store k1)"
      using settled_pending by (simp_all add: well_formed_def settled_def factory_clean_def)
    note st = model_change_stales [OF s mp(1,2)]
    have "nothing_live eid s2" using st mp nothing_live_of_opportunities by (auto simp: stales_def)
    then have "nothing_live eid (kb_store k')" by (simp add: k' nothing_live_def no_live_opportunity_def)
    moreover have "assertions s2 = assertions (kb_store k1)" by (rule model_change_assertions [OF s mp(1,2)])
    ultimately show thesis using e by (intro that [of a ls]) (simp_all add: r k')
  qed
qed

section \<open>The review\<close>

lemma record_decision_simps [simp]:
  "kb_store (record_decision eid c d reason actor nid k) = kb_store k"
  "kb_claim_evidence (record_decision eid c d reason actor nid k) = kb_claim_evidence k"
  "kb_assertion_evidence (record_decision eid c d reason actor nid k) = kb_assertion_evidence k"
  "kb_claims (record_decision eid c d reason actor nid k) = modify (\<lambda>x. cl_id x = cl_id c) (\<lambda>x. x\<lparr>cl_status := d\<rparr>) (kb_claims k)"
  by (simp_all add: record_decision_def)

lemma publish_frame [simp]:
  "assertions (publish_domain_event e t a i p s) = assertions s"
  "nothing_live eid (publish_domain_event e t a i p s) = nothing_live eid s"
  "nothing_live eid (record_audit e ac n ty i d s) = nothing_live eid s"
  by (simp_all add: publish_domain_event_def nothing_live_def no_live_opportunity_def)

lemma review_events_frame [simp]:
  "assertions (review_events eid c d reason actor a asset s) = assertions s"
  "nothing_live e (review_events eid c d reason actor a asset s) = nothing_live e s"
  by (simp_all add: review_events_def Let_def split: option.split)

lemma complete_review_frame:
  assumes "complete_evidence_review_if_decided c k = (asset, k')"
  shows "kb_claims k' = kb_claims k \<and> kb_assertion_evidence k' = kb_assertion_evidence k
    \<and> assertions (kb_store k') = assertions (kb_store k) \<and> nothing_live eid (kb_store k') = nothing_live eid (kb_store k)"
  using assms by (auto simp: complete_evidence_review_if_decided_def nothing_live_def no_live_opportunity_def split: option.splits if_splits)

lemma reviewed_once:
  assumes "current (kb_claims k') = map (\<lambda>x. if cl_id x = cid then x\<lparr>cl_status := CAccepted\<rparr> else x) cs"
    and "clean (kb_claims k')" and "c \<in> set cs" and "cl_id c = cid" and "cl_engagement_id c = eid"
  shows "review_claim eid cid opr d reason fresh now k' = Inl ClaimAlreadyReviewed"
proof -
  let ?sel = "filter (\<lambda>c. cl_id c = cid \<and> cl_engagement_id c = eid) (current (kb_claims k'))"
  have all: "cl_status x = CAccepted" if "x \<in> set ?sel" for x
  proof -
    have "x \<in> set (current (kb_claims k'))" and i: "cl_id x = cid" using that by simp_all
    then have "x \<in> (\<lambda>x. if cl_id x = cid then x\<lparr>cl_status := CAccepted\<rparr> else x) ` set cs"
      by (simp only: assms(1) set_map)
    then obtain y where "x = (if cl_id y = cid then y\<lparr>cl_status := CAccepted\<rparr> else y)" by (rule imageE)
    then show ?thesis using i by (cases "cl_id y = cid") simp_all
  qed
  have "c\<lparr>cl_status := CAccepted\<rparr> \<in> set ?sel" using assms by (force simp: assms(1))
  then have "?sel \<noteq> []" by (metis empty_iff list.set(1))
  then obtain x where x: "first ?sel = Some x" by (cases ?sel) auto
  have "check_review eid cid d k' = Inl ClaimAlreadyReviewed"
    using x all [OF first_in [OF x]] assms(2) by (simp add: check_review_def select_clean)
  then show ?thesis by (simp add: review_claim_def)
qed

text \<open>What one review of a waiting claim runs.\<close>

lemma review_accepted:
  assumes "review_claim eid cid opr (lit ''accepted'') reason fresh now k = Inr (r, k')" and "clean (kb_claims k)"
  obtains c k2 k3 asset k4 where "c \<in> set (current (kb_claims k))" "cl_id c = cid" "cl_engagement_id c = eid" "cl_status c = CCandidate"
    and "accept_claim eid c (op_id opr) fresh now (record_decision eid c CAccepted reason (op_id opr) (fresh 0) k) = Inr (r, k2)"
    and "knowledge_flush k2 = Inr k3" and "complete_evidence_review_if_decided c k3 = (asset, k4)"
    and "k' = events (review_events eid c CAccepted reason (op_id opr) r asset) k4"
proof -
  obtain c d where ch: "check_review eid cid (lit ''accepted'') k = Inr (c, d)"
    using assms(1) by (cases "check_review eid cid (lit ''accepted'') k") (auto simp: review_claim_def)
  have d: "d = CAccepted" and c0: "first (select (\<lambda>c. cl_id c = cid \<and> cl_engagement_id c = eid) (kb_claims k)) = Some c"
    and cs: "cl_status c = CCandidate"
    using ch by (auto simp: check_review_def bindE_eq_Inr the_or_eq_Inr require_eq_Inr review_decisions_def split: if_splits)
  have c: "c \<in> set (current (kb_claims k))" "cl_id c = cid" "cl_engagement_id c = eid"
    using first_in [OF c0] assms(2) by (auto simp: select_clean)
  let ?k1 = "record_decision eid c CAccepted reason (op_id opr) (fresh 0) k"
  have eq: "bindE (accept_claim eid c (op_id opr) fresh now ?k1) (\<lambda>(a, k2).
     bindE (knowledge_flush k2) (\<lambda>k3. case complete_evidence_review_if_decided c k3 of (asset, k4) \<Rightarrow>
       Inr (a, events (review_events eid c CAccepted reason (op_id opr) a asset) k4))) = Inr (r, k')"
    using assms(1) ch d by (simp add: review_claim_def Let_def)
  obtain k2 k3 where "accept_claim eid c (op_id opr) fresh now ?k1 = Inr (r, k2)" and "knowledge_flush k2 = Inr k3"
    and "k' = events (review_events eid c CAccepted reason (op_id opr) r (fst (complete_evidence_review_if_decided c k3)))
      (snd (complete_evidence_review_if_decided c k3))"
    using eq by (auto simp: bindE_eq_Inr case_prod_beta)
  then show thesis using that c cs by (metis prod.collapse)
qed


definition waiting_claim :: claim where
  "waiting_claim = new_claim (sample_context sample_bytes) sample_job 42 sample_claim"

definition waiting_evidence :: claim_evidence where
  "waiting_evidence = \<lparr>ce_id = 41, ce_engagement_id = 1, ce_claim_id = cl_id waiting_claim, ce_segment_id = 40,
     ce_start_offset = 0, ce_end_offset = 7, ce_quote = lit ''Role: A''\<rparr>"

definition waiting :: knowledge where
  "waiting = (empty_knowledge (sample_evidence_store sample_bytes))
     \<lparr>kb_claims := from_rows [waiting_claim], kb_claim_evidence := from_rows [waiting_evidence]\<rparr>"

lemma waiting_settled: "knowledge_flush waiting = Inr waiting"
  by (simp add: run_simps waiting_def waiting_claim_def waiting_evidence_def new_claim_def sample_claim_def claim_kinds_def
     materialities_def flush_clean clean_from_rows)

lemma waiting_well_formed: "well_formed (kb_store waiting)"
  by (rule initial_well_formed) (simp add: waiting_def run_simps initial_def)

lemma waiting_found: "check_review 1 1042 (lit ''accepted'') waiting = Inr (waiting_claim, CAccepted)"
  by (simp add: check_review_def waiting_def empty_knowledge_def lookup_simps waiting_claim_def new_claim_def sample_context_def
     sample_job_def review_decisions_def)

lemma keyA: "canonical_key (lit ''A'') = lit ''a''" by code_simp

lemma current_of_row: "current [(x, r)] = [r]" by (simp add: current_def)

lemmas wait_simps = current_of_row waiting_def waiting_claim_def waiting_evidence_def new_claim_def sample_context_def select_Nil
     sample_job_def sample_claim_def run_simps keyA Let_def entity_types_def materialities_def claim_kinds_def current_add current_modify
     current_flush select_flush events_def

lemma waiting_accepted: "\<exists>r k'. review_claim 1 1042 sample_owner (lit ''accepted'') None word_of_nat 3 waiting = Inr (r, k')"
  apply (simp add: review_claim_def waiting_found Let_def record_decision_def)
  apply (simp add: accept_claim_def create_verified_assertion_def get_or_create_entity_def wait_simps)
  apply (simp add: wait_simps new_assertion_def)
  apply (simp add: wait_simps on_store_def stale_after_model_change_def stale_economics_and_artifacts_def stale_after_economic_change_def
    stale_all_after_economic_change_def stale_all_customer_models_def lock_active_engagement_def stale_workflows_def stale_cases_def stale_artifacts_def
    bulk_update_def sample_engagement_def)
  apply (simp add: wait_simps link_of_def case_prod_beta)
  done


end
