(* ===== verification/WorkflowProps.thy ===== *)
theory WorkflowProps
  imports Workflows ReviewProps
begin

text \<open>
  The workflows of an engagement over every history of generations, edits, approvals and reviews: at most
  one live workflow of each kind, a live target rests on the approved current workflow, and no approved
  workflow has an uncontrolled AI step.
\<close>

section \<open>What a change of truth does to the workflows\<close>

lemma foldl_base: "(\<And>s x. base_tables (f s x) = base_tables s) \<Longrightarrow> base_tables (foldl f s xs) = base_tables s"
  by (induction xs arbitrary: s) simp_all

lemma cascade_base [simp]:
  "base_tables (stale_package r n a s i) = base_tables s"
  "base_tables (stale_readiness r n a s i) = base_tables s"
  "base_tables (stale_opportunity r n a s i) = base_tables s"
  "base_tables (stale_customer_model r n a s i) = base_tables s"
proof -
  have p: "base_tables (stale_package r n a s i) = base_tables s" for s i
    by (simp add: stale_package_def split: option.split)
  have rd: "base_tables (stale_readiness r n a s i) = base_tables s" for s i
    by (simp add: stale_readiness_def Let_def foldl_base p split: option.split)
  have op: "base_tables (stale_opportunity r n a s i) = base_tables s" for s i
    by (simp add: stale_opportunity_def Let_def foldl_base p rd split: option.split)
  have "base_tables (stale_customer_model r n a s i) = base_tables s" for s i
    by (simp add: stale_customer_model_def Let_def foldl_base rd op split: option.split)
  with p rd op show "base_tables (stale_package r n a s i) = base_tables s"
    "base_tables (stale_readiness r n a s i) = base_tables s" "base_tables (stale_opportunity r n a s i) = base_tables s"
    "base_tables (stale_customer_model r n a s i) = base_tables s" by blast+
qed

lemma base_drawing:
  assumes "base_tables s' = base_tables s"
  shows "workflows s' = workflows s" and "steps s' = steps s"
proof -
  have "workflows (base_tables x) = workflows x" "steps (base_tables x) = steps x" for x by (simp_all add: base_tables_def)
  then show "workflows s' = workflows s" "steps s' = steps s" using assms by metis+
qed

lemma fold_drawing [simp]:
  "workflows (foldl (stale_opportunity r n a) s xs) = workflows s" "steps (foldl (stale_opportunity r n a) s xs) = steps s"
  "workflows (foldl (stale_readiness r n a) s xs) = workflows s" "steps (foldl (stale_readiness r n a) s xs) = steps s"
  "workflows (foldl (stale_customer_model r n a) s xs) = workflows s" "steps (foldl (stale_customer_model r n a) s xs) = steps s"
  by (rule base_drawing, rule foldl_base, simp)+

lemma economics_drawing:
  assumes "stale_economics_and_artifacts eid a n s = Inr s'"
  shows "workflows s' = workflows s" and "steps s' = steps s"
  using assms by (auto simp: stale_economics_and_artifacts_def stale_after_economic_change_def
      stale_all_after_economic_change_def bindE_eq_Inr)

lemma current_change_drawing:
  assumes "stale_after_current_workflow_change eid a n s = Inr s'"
  shows "workflows s' = stale_workflows (\<lambda>w. wf_engagement_id w = eid \<and> wf_kind w = Target) (workflows s)"
    and "steps s' = steps s"
proof -
  obtain s1 where s1: "stale_economics_and_artifacts eid a n
      (s\<lparr>workflows := stale_workflows (\<lambda>w. wf_engagement_id w = eid \<and> wf_kind w = Target) (workflows s)\<rparr>) = Inr s1"
    and s': "stale_all_after_current_workflow_change eid (lit ''The approved current workflow changed.'') n a s1 = Inr s'"
    using assms unfolding stale_after_current_workflow_change_def bindE_eq_Inr by blast
  have "workflows s' = workflows s1" "steps s' = steps s1"
    using s' by (auto simp: stale_all_after_current_workflow_change_def bindE_eq_Inr Let_def)
  then show "workflows s' = stale_workflows (\<lambda>w. wf_engagement_id w = eid \<and> wf_kind w = Target) (workflows s)"
    "steps s' = steps s" using economics_drawing [OF s1] by simp_all
qed

lemma target_change_drawing:
  assumes "stale_after_target_workflow_change eid a n s = Inr s'"
  shows "workflows s' = workflows s" and "steps s' = steps s"
proof -
  obtain s1 where s1: "stale_economics_and_artifacts eid a n s = Inr s1"
    and s': "stale_all_after_target_workflow_change eid (lit ''The approved target workflow changed.'') n a s1 = Inr s'"
    using assms unfolding stale_after_target_workflow_change_def bindE_eq_Inr by blast
  have "workflows s' = workflows s1" "steps s' = steps s1"
    using s' by (auto simp: stale_all_after_target_workflow_change_def bindE_eq_Inr)
  then show "workflows s' = workflows s" "steps s' = steps s" using economics_drawing [OF s1] by simp_all
qed

lemma model_change_drawing:
  assumes "stale_after_model_change eid a n s = Inr s'"
  shows "workflows s' = stale_workflows (\<lambda>w. wf_engagement_id w = eid) (workflows s)" and "steps s' = steps s"
proof -
  obtain s1 where s1: "stale_economics_and_artifacts eid a n
      (s\<lparr>workflows := stale_workflows (\<lambda>w. wf_engagement_id w = eid) (workflows s)\<rparr>) = Inr s1"
    and s': "stale_all_customer_models eid
      (lit ''Verified customer truth changed; regenerate and reapprove the customer model.'') n a s1 = Inr s'"
    using assms unfolding stale_after_model_change_def bindE_eq_Inr by blast
  have "workflows s' = workflows s1" "steps s' = steps s1"
    using s' by (auto simp: stale_all_customer_models_def bindE_eq_Inr Let_def)
  then show "workflows s' = stale_workflows (\<lambda>w. wf_engagement_id w = eid) (workflows s)" "steps s' = steps s"
    using economics_drawing [OF s1] by simp_all
qed

definition outdated :: "(workflow \<Rightarrow> bool) \<Rightarrow> workflow \<Rightarrow> workflow" where
  "outdated Q w = (if Q w \<and> wf_status w \<in> {Draft, Approved} then w\<lparr>wf_status := Stale\<rparr> else w)"

lemma stale_workflows_rows:
  assumes "clean t"
  shows "current (stale_workflows Q t) = map (outdated Q) (current t)" and "clean (stale_workflows Q t)"
  using assms by (simp_all add: stale_workflows_def current_bulk_update clean_bulk_update outdated_def [abs_def])

lemma outdated_simps [simp]:
  "wf_id (outdated Q w) = wf_id w" "wf_engagement_id (outdated Q w) = wf_engagement_id w"
  "wf_kind (outdated Q w) = wf_kind w" "wf_source_workflow_id (outdated Q w) = wf_source_workflow_id w"
  "wf_source_assertion_ids (outdated Q w) = wf_source_assertion_ids w"
  by (simp_all add: outdated_def)

lemma outdated_live: "wf_status (outdated Q w) \<noteq> Stale \<longleftrightarrow> wf_status w \<noteq> Stale \<and> \<not> Q w"
  by (cases "wf_status w") (simp_all add: outdated_def)

lemma outdated_same: "\<not> Q w \<Longrightarrow> outdated Q w = w"
  by (simp add: outdated_def)

section \<open>The invariant\<close>

definition draws_on :: "workflow \<Rightarrow> workflow \<Rightarrow> bool" where
  "draws_on w c \<longleftrightarrow> wf_source_workflow_id w = Some (wf_id c) \<and> wf_kind c = Current \<and> wf_status c = Approved
     \<and> wf_engagement_id c = wf_engagement_id w \<and> wf_source_assertion_ids c = wf_source_assertion_ids w"

text \<open>At most one live workflow of a kind, and a live target is drawn on the approved current one.\<close>

definition one_live :: "workflow list \<Rightarrow> bool" where
  "one_live ws \<longleftrightarrow> (\<forall>w \<in> set ws. \<forall>w' \<in> set ws. wf_status w \<noteq> Stale \<and> wf_status w' \<noteq> Stale
     \<and> wf_engagement_id w = wf_engagement_id w' \<and> wf_kind w = wf_kind w' \<longrightarrow> w = w')"

definition targets_drawn :: "workflow list \<Rightarrow> bool" where
  "targets_drawn ws \<longleftrightarrow> (\<forall>w \<in> set ws. wf_status w \<noteq> Stale \<and> wf_kind w = Target \<longrightarrow> (\<exists>c \<in> set ws. draws_on w c))"

text \<open>An approved workflow has steps, and its AI steps are controlled; only a target has AI steps.\<close>

definition approved_controlled :: "workflow list \<Rightarrow> workflow_step list \<Rightarrow> bool" where
  "approved_controlled ws sts \<longleftrightarrow> (\<forall>w \<in> set ws. wf_status w = Approved \<longrightarrow>
     (\<exists>st \<in> set sts. ws_workflow_id st = wf_id w)
     \<and> (\<forall>st \<in> set sts. ws_workflow_id st = wf_id w \<and> ai_step st \<longrightarrow> controlled st))"

definition steps_placed :: "workflow list \<Rightarrow> workflow_step list \<Rightarrow> bool" where
  "steps_placed ws sts \<longleftrightarrow> (\<forall>st \<in> set sts. \<exists>w \<in> set ws. ws_workflow_id st = wf_id w \<and> (ai_step st \<longrightarrow> wf_kind w = Target))"

definition drawing_ok :: "workflow list \<Rightarrow> workflow_step list \<Rightarrow> bool" where
  "drawing_ok ws sts \<longleftrightarrow> distinct (map wf_id ws) \<and> distinct (map ws_id sts) \<and> one_live ws \<and> targets_drawn ws
     \<and> approved_controlled ws sts \<and> steps_placed ws sts"

lemma ok_outdated:
  assumes "drawing_ok ws sts" and closed: "\<And>w c. draws_on w c \<Longrightarrow> Q c \<Longrightarrow> wf_kind w = Target \<Longrightarrow> Q w"
  shows "drawing_ok (map (outdated Q) ws) sts"
proof -
  note d = assms(1) [unfolded drawing_ok_def]
  have "targets_drawn (map (outdated Q) ws)"
  proof (unfold targets_drawn_def, intro ballI impI, elim conjE)
    fix y assume "y \<in> set (map (outdated Q) ws)" and y: "wf_status y \<noteq> Stale" "wf_kind y = Target"
    then obtain w where w: "w \<in> set ws" "y = outdated Q w" by auto
    then have q: "wf_status w \<noteq> Stale" "\<not> Q w" "wf_kind w = Target" using y outdated_live by auto
    then obtain c where c: "c \<in> set ws" "draws_on w c" using d w(1) by (auto simp: targets_drawn_def)
    then have "\<not> Q c" using closed q by blast
    then have "draws_on y (outdated Q c)" using c(2) q(2) by (simp add: w(2) outdated_same)
    then show "\<exists>c \<in> set (map (outdated Q) ws). draws_on y c" using c(1) by auto
  qed
  moreover have "one_live (map (outdated Q) ws)"
  proof (unfold one_live_def, intro ballI impI, elim conjE)
    fix y z assume "y \<in> set (map (outdated Q) ws)" "z \<in> set (map (outdated Q) ws)"
      and l: "wf_status y \<noteq> Stale" "wf_status z \<noteq> Stale" and e: "wf_engagement_id y = wf_engagement_id z" "wf_kind y = wf_kind z"
    then obtain v w where v: "v \<in> set ws" "w \<in> set ws" "y = outdated Q v" "z = outdated Q w" by auto
    then have "wf_status v \<noteq> Stale" "wf_status w \<noteq> Stale" using l outdated_live by blast+
    then have "v = w" using d v e by (simp add: one_live_def)
    then show "y = z" by (simp add: v)
  qed
  moreover have "approved_controlled (map (outdated Q) ws) sts"
  proof -
    have "wf_status w = Approved" if "wf_status (outdated Q w) = Approved" for w
      using that by (simp add: outdated_def split: if_splits)
    then show ?thesis using d by (auto simp: approved_controlled_def)
  qed
  ultimately show ?thesis using d by (auto simp: drawing_ok_def comp_def steps_placed_def)
qed

lemma ok_append:
  assumes "drawing_ok ws sts" and "distinct (map wf_id (ws @ [w]))" and "distinct (map ws_id (sts @ new))"
    and "wf_status w = Draft"
    and "\<And>x. x \<in> set ws \<Longrightarrow> wf_status x \<noteq> Stale \<Longrightarrow> wf_engagement_id x = wf_engagement_id w \<Longrightarrow> wf_kind x \<noteq> wf_kind w"
    and "wf_kind w = Target \<Longrightarrow> \<exists>c \<in> set ws. draws_on w c"
    and "\<And>st. st \<in> set new \<Longrightarrow> ws_workflow_id st = wf_id w \<and> \<not> ai_step st"
  shows "drawing_ok (ws @ [w]) (sts @ new)"
proof -
  note d = assms(1) [unfolded drawing_ok_def]
  have "approved_controlled (ws @ [w]) (sts @ new)"
    using d assms(4,7) by (fastforce simp: approved_controlled_def)
  moreover have "one_live (ws @ [w])" using d assms(5) by (fastforce simp: one_live_def)
  moreover have "targets_drawn (ws @ [w])" using d assms(6) by (auto simp: targets_drawn_def)
  moreover have "steps_placed (ws @ [w]) (sts @ new)" using d assms(7) by (fastforce simp: steps_placed_def)
  ultimately show ?thesis using assms(2,3) by (simp add: drawing_ok_def)
qed

lemma ok_approve:
  assumes "drawing_ok ws sts" and "w \<in> set ws" and "wf_status w = Draft"
    and "\<exists>st \<in> set sts. ws_workflow_id st = wf_id w"
    and "\<And>st. st \<in> set sts \<Longrightarrow> ws_workflow_id st = wf_id w \<Longrightarrow> ai_step st \<Longrightarrow> controlled st"
  shows "drawing_ok (map (\<lambda>x. if wf_id x = wf_id w then approved_workflow_row actor now reason x else x) ws) sts"
proof -
  note d = assms(1) [unfolded drawing_ok_def]
  define f where "f = (\<lambda>x. if wf_id x = wf_id w then approved_workflow_row actor now reason x else x)"
  have eq: "x = w" if "x \<in> set ws" "wf_id x = wf_id w" for x
    using that d assms(2) by (auto simp: distinct_map dest: inj_onD)
  have fx: "wf_id (f x) = wf_id x" "wf_kind (f x) = wf_kind x" "wf_engagement_id (f x) = wf_engagement_id x"
    "wf_source_workflow_id (f x) = wf_source_workflow_id x" "wf_source_assertion_ids (f x) = wf_source_assertion_ids x" for x
    by (simp_all add: f_def approved_workflow_row_def)
  have live: "wf_status (f x) = Stale \<longleftrightarrow> wf_status x = Stale" if "x \<in> set ws" for x
    using eq [OF that] assms(3) by (auto simp: f_def approved_workflow_row_def)
  have "one_live (map f ws)"
  proof (unfold one_live_def, intro ballI impI, elim conjE)
    fix y z assume "y \<in> set (map f ws)" "z \<in> set (map f ws)"
      and l: "wf_status y \<noteq> Stale" "wf_status z \<noteq> Stale" and e: "wf_engagement_id y = wf_engagement_id z" "wf_kind y = wf_kind z"
    then obtain u v where v: "u \<in> set ws" "v \<in> set ws" "y = f u" "z = f v" by auto
    have "wf_status u \<noteq> Stale" using l(1) unfolding v(3) live [OF v(1)] .
    moreover have "wf_status v \<noteq> Stale" using l(2) unfolding v(4) live [OF v(2)] .
    moreover have "wf_engagement_id u = wf_engagement_id v" "wf_kind u = wf_kind v" using e unfolding v(3,4) fx by simp_all
    ultimately have "u = v" using d v(1,2) by (simp add: one_live_def)
    then show "y = z" by (simp only: v(3,4))
  qed
  moreover have "targets_drawn (map f ws)"
  proof (unfold targets_drawn_def, intro ballI impI, elim conjE)
    fix y assume "y \<in> set (map f ws)" and y: "wf_status y \<noteq> Stale" "wf_kind y = Target"
    then obtain x where x: "x \<in> set ws" "y = f x" by auto
    then obtain c where c: "c \<in> set ws" "draws_on x c" using d y live fx by (auto simp: targets_drawn_def)
    then have "f c = c" using eq [OF c(1)] assms(3) by (auto simp: f_def draws_on_def)
    then have "draws_on y (f c)" using c(2) by (simp only: x(2) draws_on_def fx)
    then show "\<exists>c \<in> set (map f ws). draws_on y c" using c(1) by auto
  qed
  moreover have "approved_controlled (map f ws) sts"
  proof (unfold approved_controlled_def, intro ballI impI)
    fix y assume "y \<in> set (map f ws)" and y: "wf_status y = Approved"
    then obtain x where x: "x \<in> set ws" "y = f x" by auto
    show "(\<exists>st \<in> set sts. ws_workflow_id st = wf_id y) \<and> (\<forall>st \<in> set sts. ws_workflow_id st = wf_id y \<and> ai_step st \<longrightarrow> controlled st)"
    proof (cases "wf_id x = wf_id w")
      case True
      then show ?thesis using assms(4,5) x fx by auto
    next
      case False
      then have "y = x" by (simp add: x(2) f_def)
      then show ?thesis using d x(1) y by (auto simp: approved_controlled_def)
    qed
  qed
  moreover have "map wf_id (map f ws) = map wf_id ws" by (simp add: fx)
  moreover have "steps_placed (map f ws) sts" using d fx by (fastforce simp: steps_placed_def)
  ultimately have "drawing_ok (map f ws) sts" using d by (simp only: drawing_ok_def)
  then show ?thesis by (simp only: f_def)
qed

lemma ok_edit:
  assumes "drawing_ok ws sts" and "w \<in> set ws" and "wf_status w = Draft"
    and "st \<in> set sts" and "ws_workflow_id st = wf_id w" and "\<And>x. ws_id (f x) = ws_id x" and "\<And>x. ws_workflow_id (f x) = ws_workflow_id x"
    and "\<And>x. ai_step (f x) \<Longrightarrow> \<not> ai_step x \<Longrightarrow> wf_kind w = Target"
  shows "drawing_ok ws (map (\<lambda>x. if ws_id x = ws_id st then f x else x) sts)"
proof -
  note d = assms(1) [unfolded drawing_ok_def]
  let ?f = "\<lambda>x. if ws_id x = ws_id st then f x else x"
  have eq: "x = st" if "x \<in> set sts" "ws_id x = ws_id st" for x
    using that d assms(4) by (auto simp: distinct_map dest: inj_onD)
  have other: "wf_id v \<noteq> wf_id w" if "v \<in> set ws" "wf_status v = Approved" for v
    using that d assms(2,3) by (auto simp: distinct_map dest: inj_onD)
  have "approved_controlled ws (map ?f sts)"
  proof (unfold approved_controlled_def, intro ballI impI)
    fix v assume v: "v \<in> set ws" "wf_status v = Approved"
    then have keep: "?f x = x" if "x \<in> set sts" "ws_workflow_id (?f x) = wf_id v" for x
      using that eq [OF that(1)] other [OF v] assms(5,7) by (auto split: if_splits)
    obtain x where x: "x \<in> set sts" "ws_workflow_id x = wf_id v" using d v by (auto simp: approved_controlled_def)
    have "ws_workflow_id (?f x) = wf_id v" using x assms(7) by simp
    moreover have "controlled y" if y: "y \<in> set (map ?f sts)" "ws_workflow_id y = wf_id v" "ai_step y" for y
    proof -
      obtain z where z: "z \<in> set sts" "y = ?f z" using y(1) by auto
      then have "y = z" using keep y(2) by metis
      then show ?thesis using d v y z by (auto simp: approved_controlled_def)
    qed
    ultimately show "(\<exists>st \<in> set (map ?f sts). ws_workflow_id st = wf_id v)
      \<and> (\<forall>st \<in> set (map ?f sts). ws_workflow_id st = wf_id v \<and> ai_step st \<longrightarrow> controlled st)"
      using x(1) by (metis (no_types, lifting) imageI list.set_map)
  qed
  moreover have "steps_placed ws (map ?f sts)"
  proof (unfold steps_placed_def, intro ballI)
    fix y assume "y \<in> set (map ?f sts)"
    then obtain x where x: "x \<in> set sts" "y = ?f x" by auto
    obtain v where v: "v \<in> set ws" "ws_workflow_id x = wf_id v" "ai_step x \<longrightarrow> wf_kind v = Target"
      using d x by (auto simp: steps_placed_def)
    have "ai_step y \<longrightarrow> wf_kind v = Target"
    proof (cases "ws_id x = ws_id st")
      case True
      then have "wf_id v = wf_id w" using eq [OF x(1)] v(2) assms(5) by simp
      then have "v = w" using v(1) assms(2) d by (auto simp: distinct_map dest: inj_onD)
      then show ?thesis using assms(8) v(3) x(2) True by auto
    qed (use v x in auto)
    then show "\<exists>v \<in> set ws. ws_workflow_id y = wf_id v \<and> (ai_step y \<longrightarrow> wf_kind v = Target)"
      using v x assms(7) by (intro bexI [of _ v]) auto
  qed
  moreover have "map ws_id (map ?f sts) = map ws_id sts" using assms(6) by simp
  ultimately show ?thesis using d by (simp only: drawing_ok_def)
qed

section \<open>The operations\<close>

definition drawn :: "knowledge \<Rightarrow> bool" where
  "drawn k \<longleftrightarrow> clean (workflows (kb_store k)) \<and> clean (steps (kb_store k))
     \<and> drawing_ok (current (workflows (kb_store k))) (current (steps (kb_store k)))"

lemma workflow_flush_Inr:
  assumes "workflow_flush k = Inr k'"
  shows "workflow_keys (kb_store k)" and "knowledge_flush k = Inr k'"
  using assms by (auto simp: workflow_flush_def lifted_def bindE_eq_Inr require_eq_Inr split: sum.splits)

lemma knowledge_flush_drawing:
  assumes "knowledge_flush k = Inr k'"
  shows "workflows (kb_store k') = flush (workflows (kb_store k))" and "steps (kb_store k') = flush (steps (kb_store k))"
  using assms by (auto simp: knowledge_flush_Inr synced_def)

lemma lifted_Inr [simp]: "lifted r = Inr x \<longleftrightarrow> r = Inr x"
  by (simp add: lifted_def split: sum.split)

lemma lifted_value [simp]: "lifted (Inr x) = Inr x"
  by (simp add: lifted_def)

lemma recorded_drawing [simp]:
  "workflows (record_workflow_event w a e d s) = workflows s" "steps (record_workflow_event w a e d s) = steps s"
  "workflows (stale_kind eid kind s) = stale_workflows (\<lambda>w. wf_engagement_id w = eid \<and> wf_kind w = kind) (workflows s)"
  "steps (stale_kind eid kind s) = steps s"
  by (simp_all add: record_workflow_event_def Let_def publish_domain_event_def stale_kind_def)

lemma flush_drawn:
  assumes "workflow_flush k = Inr k'" and "drawing_ok (current (workflows (kb_store k))) (current (steps (kb_store k)))"
  shows "drawn k'"
  using assms knowledge_flush_drawing [OF workflow_flush_Inr(2) [OF assms(1)]]
  by (simp add: drawn_def clean_flush current_flush)

lemma add_workflow_effect:
  assumes "add_workflow w sts k = Inr k'" and "clean (steps (kb_store k))"
  shows "current (workflows (kb_store k')) = current (workflows (kb_store k)) @ [w]"
    and "current (steps (kb_store k')) = current (steps (kb_store k)) @ sts"
    and "clean (workflows (kb_store k'))" and "clean (steps (kb_store k'))"
    and "distinct (map wf_id (current (workflows (kb_store k)) @ [w]))"
    and "distinct (map ws_id (current (steps (kb_store k)) @ sts))"
proof -
  obtain k1 where a: "workflow_flush (events (\<lambda>s. s\<lparr>workflows := add w (workflows s)\<rparr>) k) = Inr k1"
    and b: "workflow_flush (events (\<lambda>s. s\<lparr>steps := steps s @ map (\<lambda>st. (None, st)) sts\<rparr>) k1) = Inr k'"
    using assms(1) unfolding add_workflow_def bindE_eq_Inr by blast
  have one: "workflows (kb_store k1) = flush (add w (workflows (kb_store k)))" "steps (kb_store k1) = steps (kb_store k)"
    using knowledge_flush_drawing [OF workflow_flush_Inr(2) [OF a]] assms(2) by (simp_all add: events_def flush_clean)
  have two: "workflows (kb_store k') = flush (workflows (kb_store k1))"
    "steps (kb_store k') = flush (steps (kb_store k1) @ map (\<lambda>st. (None, st)) sts)"
    using knowledge_flush_drawing [OF workflow_flush_Inr(2) [OF b]] by (simp_all add: events_def)
  have c: "current (t @ map (\<lambda>st. (None, st)) xs) = current t @ xs" for t :: "workflow_step table" and xs
    by (simp add: current_def comp_def)
  show "current (workflows (kb_store k')) = current (workflows (kb_store k)) @ [w]"
    "current (steps (kb_store k')) = current (steps (kb_store k)) @ sts" "clean (workflows (kb_store k'))" "clean (steps (kb_store k'))"
    by (simp_all add: one two current_flush current_add clean_flush c)
  show "distinct (map wf_id (current (workflows (kb_store k)) @ [w]))"
    using workflow_flush_Inr(1) [OF a] by (simp add: workflow_keys_def unique_rows_def events_def current_add)
  show "distinct (map ws_id (current (steps (kb_store k)) @ sts))"
    using workflow_flush_Inr(1) [OF b] by (simp add: workflow_keys_def unique_rows_def events_def one(2) c)
qed

lemma outdated_both: "outdated (\<lambda>w. wf_engagement_id w = eid \<and> wf_kind w = Target)
    (outdated (\<lambda>w. wf_engagement_id w = eid \<and> wf_kind w = Current) w) = outdated (\<lambda>w. wf_engagement_id w = eid) w"
  by (cases "wf_kind w") (auto simp: outdated_def)

lemma project_no_ai: "project_assertion k a = Some d \<Longrightarrow> sd_allocation d \<in> {AHuman, ASoftware}"
  by (auto simp: project_assertion_def project_relation_def step_of_def split: option.splits if_splits)

lemma target_no_ai: "ws_workflow_id (target_step i eid wid st) = wid \<and> \<not> ai_step (target_step i eid wid st)"
  by (auto simp: target_step_def target_recommendation_def ai_step_def split: option.split list.split)

lemma enumerate_member: "(i, d) \<in> set (enumerate n xs) \<Longrightarrow> d \<in> set xs"
  by (metis map_snd_enumerate in_set_zip enumerate_eq_zip snd_conv nth_mem)

lemma current_step_rows:
  assumes "st \<in> set (map (\<lambda>(i, d). step_row (fresh i) eid wid i d) (enumerate n (List.map_filter (project_assertion k) as)))"
  shows "ws_workflow_id st = wid \<and> \<not> ai_step st"
proof -
  obtain i d where st: "st = step_row (fresh i) eid wid i d" and "(i, d) \<in> set (enumerate n (List.map_filter (project_assertion k) as))"
    using assms by auto
  then have "d \<in> set (List.map_filter (project_assertion k) as)" by (blast dest: enumerate_member)
  then obtain a where "project_assertion k a = Some d" by (auto simp: List.map_filter_def)
  then have "sd_allocation d \<in> {AHuman, ASoftware}" by (rule project_no_ai)
  then show ?thesis by (auto simp: st step_row_def ai_step_def)
qed

lemma draft_current_ok:
  assumes "draft_current e actor fresh now k = Inr (w, k')" and "drawn k"
  shows "drawn k'"
proof -
  note d = assms(2) [unfolded drawn_def]
  let ?eid = "eg_id e" let ?as = "verified_assertions (eg_id e) (kb_store k)"
  let ?sts = "map (\<lambda>(i, d). step_row (fresh i) ?eid (fresh 0) i d) (enumerate 1 (List.map_filter (project_assertion k) ?as))"
  obtain k1 k2 where s: "on_store (stale_after_current_workflow_change ?eid (Some actor) now) (events (stale_kind ?eid Current) k) = Inr k1"
    and a: "add_workflow w ?sts k1 = Inr k2" and k': "k' = events (record_workflow_event w actor (lit ''workflow.current_drafted'') []) k2"
    and w: "wf_id w = fresh 0" "wf_engagement_id w = ?eid" "wf_kind w = Current" "wf_status w = Draft"
    using assms(1) by (auto simp: draft_current_def Let_def bindE_eq_Inr new_workflow_def)
  obtain s1 where s1: "stale_after_current_workflow_change ?eid (Some actor) now (stale_kind ?eid Current (kb_store k)) = Inr s1"
    and k1: "kb_store k1 = s1" using s by (auto simp: on_store_Inr events_def)
  have c1: "clean (stale_workflows (\<lambda>w. wf_engagement_id w = ?eid \<and> wf_kind w = Current) (workflows (kb_store k)))"
    using d by (simp add: stale_workflows_rows)
  have ws: "current (workflows (kb_store k1)) = map (outdated (\<lambda>w. wf_engagement_id w = ?eid)) (current (workflows (kb_store k)))"
    using current_change_drawing(1) [OF s1] d c1 by (simp add: k1 stale_workflows_rows outdated_both comp_def)
  have sts: "steps (kb_store k1) = steps (kb_store k)" using current_change_drawing(2) [OF s1] by (simp add: k1)
  note ad = add_workflow_effect [OF a, unfolded sts, OF d [THEN conjunct2, THEN conjunct1]]
  have "drawing_ok (current (workflows (kb_store k1)) @ [w]) (current (steps (kb_store k)) @ ?sts)"
  proof (rule ok_append)
    show "drawing_ok (current (workflows (kb_store k1))) (current (steps (kb_store k)))"
      unfolding ws by (rule ok_outdated) (use d in \<open>auto simp: draws_on_def\<close>)
    show "wf_kind x \<noteq> wf_kind w" if "x \<in> set (current (workflows (kb_store k1)))" "wf_status x \<noteq> Stale"
      "wf_engagement_id x = wf_engagement_id w" for x
      using that w outdated_live by (auto simp: ws)
    show "ws_workflow_id st = wf_id w \<and> \<not> ai_step st" if "st \<in> set ?sts" for st
      using current_step_rows [OF that] w(1) by simp
  qed (use ad w in auto)
  then show ?thesis using ad by (simp add: drawn_def k' events_def)
qed

lemma newest_in:
  assumes "newest_workflow eid kind P s = Some c" and "clean (workflows s)"
  shows "c \<in> set (current (workflows s))" and "wf_engagement_id c = eid" and "wf_kind c = kind" and "P c"
  using latest_by_in [OF assms(1) [unfolded newest_workflow_def]] assms(2) by (simp_all add: select_clean)

lemma engagement_id:
  "session_get eg_id eid (engagements s) = Some e \<Longrightarrow> clean (engagements s) \<Longrightarrow> eg_id e = eid"
  unfolding session_get_def by (drule first_in) (simp add: select_clean)

lemma target_step_rows:
  assumes "st \<in> set (map (\<lambda>(i, x). target_step (fresh i) eid wid x) (enumerate n xs))"
  shows "ws_workflow_id st = wid \<and> \<not> ai_step st"
  using assms target_no_ai by auto

lemma draft_target_ok:
  assumes "draft_target e c actor fresh now k = Inr (w, k')" and "drawn k"
    and "approved_now (eg_id e) Current (kb_store k) = Some c"
  shows "drawn k'"
proof -
  note d = assms(2) [unfolded drawn_def]
  let ?eid = "eg_id e"
  obtain k1 k2 sts where s: "on_store (stale_after_target_workflow_change ?eid (Some actor) now) (events (stale_kind ?eid Target) k) = Inr k1"
    and sts: "sts = map (\<lambda>(i, st). target_step (fresh i) ?eid (fresh 0) st) (enumerate 1 (list_workflow_steps (wf_id c) (kb_store k1)))"
    and a: "add_workflow w sts k1 = Inr k2"
    and k': "k' = events (\<lambda>s. record_workflow_event w actor (lit ''workflow.target_drafted'') []
           (s\<lparr>engagements := modify (\<lambda>x. eg_id x = ?eid) (\<lambda>x. x\<lparr>eg_lifecycle_stage := StDecide\<rparr>) (engagements s)\<rparr>)) k2"
    and w: "wf_id w = fresh 0" "wf_engagement_id w = ?eid" "wf_kind w = Target" "wf_status w = Draft"
      "wf_source_workflow_id w = Some (wf_id c)" "wf_source_assertion_ids w = wf_source_assertion_ids c"
    using assms(1) by (auto simp: draft_target_def Let_def bindE_eq_Inr new_workflow_def)
  obtain s1 where s1: "stale_after_target_workflow_change ?eid (Some actor) now (stale_kind ?eid Target (kb_store k)) = Inr s1"
    and k1: "kb_store k1 = s1" using s by (auto simp: on_store_Inr events_def)
  let ?Q = "\<lambda>w. wf_engagement_id w = ?eid \<and> wf_kind w = Target"
  have ws: "current (workflows (kb_store k1)) = map (outdated ?Q) (current (workflows (kb_store k)))"
    using target_change_drawing(1) [OF s1] d by (simp add: k1 stale_workflows_rows)
  have st: "steps (kb_store k1) = steps (kb_store k)" using target_change_drawing(2) [OF s1] by (simp add: k1)
  note ad = add_workflow_effect [OF a, unfolded st, OF d [THEN conjunct2, THEN conjunct1]]
  note c = newest_in [OF assms(3) [unfolded approved_now_def] d [THEN conjunct1]]
  have dr: "draws_on w c" "outdated ?Q c = c" using c w by (simp_all add: draws_on_def outdated_def)
  have "outdated ?Q c \<in> set (map (outdated ?Q) (current (workflows (kb_store k))))" using c(1) by simp
  then have in_ws: "c \<in> set (current (workflows (kb_store k1)))" by (simp only: ws dr(2))
  have "drawing_ok (current (workflows (kb_store k1)) @ [w]) (current (steps (kb_store k)) @ sts)"
  proof (rule ok_append)
    show "drawing_ok (current (workflows (kb_store k1))) (current (steps (kb_store k)))"
      unfolding ws by (rule ok_outdated) (use d in \<open>auto simp: draws_on_def\<close>)
    show "wf_kind x \<noteq> wf_kind w" if "x \<in> set (current (workflows (kb_store k1)))" "wf_status x \<noteq> Stale"
      "wf_engagement_id x = wf_engagement_id w" for x
      using that w outdated_live by (auto simp: ws)
    show "ws_workflow_id x = wf_id w \<and> \<not> ai_step x" if "x \<in> set sts" for x
      using target_step_rows [OF that [unfolded sts]] w(1) by simp
    show "\<exists>c \<in> set (current (workflows (kb_store k1))). draws_on w c"
      using dr(1) in_ws by blast
  qed (use ad w in auto)
  then show ?thesis using ad by (simp add: drawn_def k' events_def)
qed

lemma generate_current_ok:
  assumes "generate_current_workflow eid actor fresh now k = Inr (w, k')" and "drawn k"
  shows "drawn k'"
proof -
  obtain e where e: "(case newest_workflow eid Current (\<lambda>w. wf_status w = Draft) (kb_store k) of
       Some w \<Rightarrow> Inr (w, k) | None \<Rightarrow> draft_current e actor fresh now k) = Inr (w, k')"
    using assms(1) unfolding generate_current_workflow_def bindE_eq_Inr by blast
  show ?thesis
    by (cases "newest_workflow eid Current (\<lambda>w. wf_status w = Draft) (kb_store k)")
      (use e assms(2) draft_current_ok in auto)
qed

lemma generate_target_ok:
  assumes "generate_target_workflow eid actor fresh now k = Inr (w, k')" and "drawn k" and "clean (engagements (kb_store k))"
  shows "drawn k'"
proof -
  obtain e c where e: "session_get eg_id eid (engagements (kb_store k)) = Some e" and c: "approved_now eid Current (kb_store k) = Some c"
    and r: "(case newest_workflow eid Target (\<lambda>w. wf_source_workflow_id w = Some (wf_id c) \<and> wf_status w = Draft) (kb_store k) of
       Some w \<Rightarrow> Inr (w, k) | None \<Rightarrow> draft_target e c actor fresh now k) = Inr (w, k')"
    using assms(1) unfolding generate_target_workflow_def bindE_eq_Inr the_or_eq_Inr by blast
  have "eg_id e = eid" by (rule engagement_id [OF e assms(3)])
  then show ?thesis
    using r assms(2) c draft_target_ok [of e c actor fresh now k w k']
    by (cases "newest_workflow eid Target (\<lambda>w. wf_source_workflow_id w = Some (wf_id c) \<and> wf_status w = Draft) (kb_store k)") auto
qed

lemma check_step_update_Inr:
  assumes "check_step_update eid wid sid u k = Inr (w, st, a)" and "drawn k"
  shows "w \<in> set (current (workflows (kb_store k)))" and "wf_status w = Draft" and "wf_id w = wid"
    and "st \<in> set (current (steps (kb_store k)))" and "ws_id st = sid" and "ws_workflow_id st = wid"
    and "a \<noteq> None \<Longrightarrow> wf_kind w = Target"
proof -
  have g: "get_workflow eid wid (kb_store k) = Inr w" and s: "wf_status w = Draft" and al: "new_allocation w u = Inr a"
    and f: "first (select (\<lambda>st. ws_id st = sid \<and> ws_workflow_id st = wid \<and> ws_engagement_id st = eid) (steps (kb_store k))) = Some st"
    using assms(1) by (auto simp: check_step_update_def bindE_eq_Inr require_eq_Inr the_or_eq_Inr)
  have "first (select (\<lambda>w. wf_id w = wid \<and> wf_engagement_id w = eid) (workflows (kb_store k))) = Some w"
    using g by (simp add: get_workflow_def the_or_eq_Inr)
  from first_in [OF this] first_in [OF f] assms(2)
  show "w \<in> set (current (workflows (kb_store k)))" "wf_status w = Draft" "wf_id w = wid"
    "st \<in> set (current (steps (kb_store k)))" "ws_id st = sid" "ws_workflow_id st = wid"
    using s by (simp_all add: drawn_def select_clean)
  show "wf_kind w = Target" if "a \<noteq> None"
    using al that by (auto simp: new_allocation_def bindE_eq_Inr require_eq_Inr split: option.splits)
qed

lemma edited_step_simps [simp]:
  "ws_id (edited_step u a st) = ws_id st" "ws_workflow_id (edited_step u a st) = ws_workflow_id st"
  "ws_allocation (edited_step u a st) = or_keep a (ws_allocation st)"
  by (simp_all add: edited_step_def)

lemma write_step_drawing [simp]:
  "workflows (write_step_update eid actor w sid u a s) = workflows s"
  "steps (write_step_update eid actor w sid u a s) = modify (\<lambda>st. ws_id st = sid) (edited_step u a) (steps s)"
  by (simp_all add: write_step_update_def)

lemma update_ok:
  assumes "update_workflow_step eid wid sid actor u k = Inr (st', k')" and "drawn k"
  shows "drawing_ok (current (workflows (kb_store k'))) (current (steps (kb_store k')))"
proof -
  obtain w st a where c: "check_step_update eid wid sid u k = Inr (w, st, a)"
    and k': "k' = events (write_step_update eid actor w sid u a) k"
    using assms(1) by (auto simp: update_workflow_step_def bindE_eq_Inr)
  note i = check_step_update_Inr [OF c assms(2)]
  have "wf_kind w = Target" if "ai_step (edited_step u a x)" "\<not> ai_step x" for x
    using that i(7) by (cases a) (simp_all add: ai_step_def or_keep_def)
  moreover have "drawing_ok (current (workflows (kb_store k))) (current (steps (kb_store k)))" using assms(2) by (simp add: drawn_def)
  moreover have "ws_workflow_id st = wf_id w" using i(3,6) by simp
  ultimately have "drawing_ok (current (workflows (kb_store k)))
      (map (\<lambda>x. if ws_id x = ws_id st then edited_step u a x else x) (current (steps (kb_store k))))"
    using i(1,2,4) by (intro ok_edit) auto
  then show ?thesis by (simp add: k' events_def current_modify i(5))
qed

lemma all_ok_require: "all_ok (\<lambda>x. require (P x) (e x)) xs = Inr () \<longleftrightarrow> (\<forall>x \<in> set xs. P x)"
  by (induction xs) (auto simp: bindE_eq_Inr require_eq_Inr)

lemma approve_kind_effect:
  assumes "approve_kind w reason actor now k = Inr k'" and "drawn k"
  shows "steps (kb_store k') = steps (kb_store k)"
    and "current (workflows (kb_store k')) = map (outdated (\<lambda>x. wf_kind w = Current \<and> wf_engagement_id x = wf_engagement_id w
      \<and> wf_kind x = Target)) (current (workflows (kb_store k)))"
    and "wf_kind w = Target \<Longrightarrow> \<forall>st \<in> set (current (steps (kb_store k))). ws_workflow_id st = wf_id w \<longrightarrow> ai_step st \<longrightarrow> controlled st"
proof -
  have cl: "clean (workflows (kb_store k))" "clean (steps (kb_store k))" using assms(2) by (simp_all add: drawn_def)
  have none: "outdated (\<lambda>x. False) = id" by (simp add: outdated_def fun_eq_iff)
  show "steps (kb_store k') = steps (kb_store k)"
    using assms(1) by (auto simp: approve_kind_def bindE_eq_Inr on_store_Inr current_change_drawing target_change_drawing
      split: workflow_kind.splits)
  show "current (workflows (kb_store k')) = map (outdated (\<lambda>x. wf_kind w = Current \<and> wf_engagement_id x = wf_engagement_id w
      \<and> wf_kind x = Target)) (current (workflows (kb_store k)))"
    using assms(1) cl by (cases "wf_kind w") (auto simp: approve_kind_def bindE_eq_Inr on_store_Inr current_change_drawing
      target_change_drawing stale_workflows_rows none)
  show "\<forall>st \<in> set (current (steps (kb_store k))). ws_workflow_id st = wf_id w \<longrightarrow> ai_step st \<longrightarrow> controlled st"
    if "wf_kind w = Target"
  proof -
    have "check_target_approval w k = Inr ()" using assms(1) that by (auto simp: approve_kind_def bindE_eq_Inr)
    then have "\<forall>st \<in> set (list_workflow_steps (wf_id w) (kb_store k)). \<not> (ai_step st \<and> \<not> controlled st)"
      by (auto simp: check_target_approval_def bindE_eq_Inr all_ok_require)
    then show ?thesis using cl by (auto simp: list_workflow_steps_def set_select_sorted)
  qed
qed

lemma approve_effect:
  assumes "approve_workflow eid wid actor reason now at_stale k = Inr (w', k')" and "drawn k"
  shows "\<exists>v \<in> set (current (workflows (kb_store k'))). wf_id v = wid \<and> wf_status v = Approved"
    and "current (steps (kb_store k')) = current (steps (kb_store k))"
proof -
  obtain w k1 k2 where g: "get_workflow eid wid (kb_store k) = Inr w"
    and a: "approve_kind w (review_reason reason) actor at_stale k = Inr k1" and f: "workflow_flush k2 = Inr k'"
    and k2: "workflows (kb_store k2) = modify (\<lambda>x. wf_id x = wid) (approved_workflow_row actor now (review_reason reason)) (workflows (kb_store k1))"
      "steps (kb_store k2) = steps (kb_store k1)"
    using assms(1) by (fastforce simp: approve_workflow_def Let_def bindE_eq_Inr require_eq_Inr events_def)
  have "first (select (\<lambda>w. wf_id w = wid \<and> wf_engagement_id w = eid) (workflows (kb_store k))) = Some w"
    using g by (simp add: get_workflow_def the_or_eq_Inr)
  then have w: "w \<in> set (current (workflows (kb_store k)))" "wf_id w = wid"
    using assms(2) by (auto simp: drawn_def select_clean dest!: first_in)
  note e = approve_kind_effect [OF a assms(2)]
  note fl = knowledge_flush_drawing [OF workflow_flush_Inr(2) [OF f]]
  show "current (steps (kb_store k')) = current (steps (kb_store k))" by (simp add: fl k2 e(1) current_flush)
  have "\<exists>y \<in> set (current (workflows (kb_store k1))). wf_id y = wid" using w by (force simp: e(2))
  then obtain y where y: "y \<in> set (current (workflows (kb_store k1)))" "wf_id y = wid" by blast
  have ws: "current (workflows (kb_store k')) = map (\<lambda>x. if wf_id x = wid then approved_workflow_row actor now (review_reason reason) x else x)
      (current (workflows (kb_store k1)))" by (simp add: fl k2 current_flush current_modify)
  have "(if wf_id y = wid then approved_workflow_row actor now (review_reason reason) y else y) \<in> set (current (workflows (kb_store k')))"
    unfolding ws set_map using y(1) by (rule imageI)
  then show "\<exists>v \<in> set (current (workflows (kb_store k'))). wf_id v = wid \<and> wf_status v = Approved"
    by (rule bexI [rotated]) (simp add: y(2) approved_workflow_row_def)
qed

lemma approve_ok:
  assumes "approve_workflow eid wid actor reason now at_stale k = Inr (w', k')" and "drawn k"
  shows "drawn k'"
proof -
  note d = assms(2) [unfolded drawn_def]
  obtain w k1 st where g: "get_workflow eid wid (kb_store k) = Inr w" and s: "wf_status w = Draft"
    and ne: "list_workflow_steps wid (kb_store k) \<noteq> []" and a: "approve_kind w (review_reason reason) actor at_stale k = Inr k1"
    and f: "workflow_flush (events (\<lambda>s. record_workflow_event (approved_workflow_row actor now (review_reason reason) w) actor
            (lit ''workflow.'' @ workflow_kind_text (wf_kind w) @ lit ''_approved'') [(''approval_reason'', jopt JStr (review_reason reason))]
            (s\<lparr>workflows := modify (\<lambda>x. wf_id x = wid) (approved_workflow_row actor now (review_reason reason)) (workflows s),
               engagements := modify (\<lambda>x. eg_id x = eid) (\<lambda>x. x\<lparr>eg_lifecycle_stage := st\<rparr>) (engagements s)\<rparr>)) k1) = Inr k'"
    using assms(1) by (auto simp: approve_workflow_def Let_def bindE_eq_Inr require_eq_Inr)
  have "first (select (\<lambda>w. wf_id w = wid \<and> wf_engagement_id w = eid) (workflows (kb_store k))) = Some w"
    using g by (simp add: get_workflow_def the_or_eq_Inr)
  then have w: "w \<in> set (current (workflows (kb_store k)))" "wf_id w = wid" using d by (auto simp: select_clean dest!: first_in)
  note e = approve_kind_effect [OF a assms(2)]
  let ?Q = "\<lambda>x. wf_kind w = Current \<and> wf_engagement_id x = wf_engagement_id w \<and> wf_kind x = Target"
  have same: "outdated ?Q w = w" by (rule outdated_same) simp
  have ok: "drawing_ok (current (workflows (kb_store k1))) (current (steps (kb_store k)))"
    unfolding e(2) by (rule ok_outdated) (use d in \<open>auto simp: draws_on_def\<close>)
  have "outdated ?Q w \<in> set (map (outdated ?Q) (current (workflows (kb_store k))))" using w(1) by simp
  then have in1: "w \<in> set (current (workflows (kb_store k1)))" by (simp only: e(2) same)
  have ex: "\<exists>st \<in> set (current (steps (kb_store k))). ws_workflow_id st = wf_id w"
  proof -
    obtain st where "st \<in> set (list_workflow_steps wid (kb_store k))" using ne by (cases "list_workflow_steps wid (kb_store k)") auto
    then show ?thesis using d w(2) by (auto simp: list_workflow_steps_def set_select_sorted)
  qed
  have ctl: "controlled st" if "st \<in> set (current (steps (kb_store k)))" "ws_workflow_id st = wf_id w" "ai_step st" for st
  proof -
    have "\<exists>v \<in> set (current (workflows (kb_store k))). ws_workflow_id st = wf_id v \<and> (ai_step st \<longrightarrow> wf_kind v = Target)"
      using d that(1) by (simp add: drawing_ok_def steps_placed_def)
    with \<open>ai_step st\<close> obtain v where "v \<in> set (current (workflows (kb_store k)))" "ws_workflow_id st = wf_id v" "wf_kind v = Target"
      by blast
    then have "wf_kind w = Target" using w(1) that(2) d by (auto simp: drawing_ok_def distinct_map dest: inj_onD)
    then show ?thesis using e(3) that by blast
  qed
  from ok_approve [OF ok in1 s ex ctl, of actor now "review_reason reason"]
  have ok': "drawing_ok (map (\<lambda>x. if wf_id x = wid then approved_workflow_row actor now (review_reason reason) x else x)
      (current (workflows (kb_store k1)))) (current (steps (kb_store k1)))"
    by (simp add: w(2) e(1))
  show ?thesis by (rule flush_drawn [OF f]) (simp add: events_def current_modify ok')
qed

section \<open>Reviews\<close>

definition same_drawing :: "knowledge \<Rightarrow> knowledge \<Rightarrow> bool" where
  "same_drawing k k' \<longleftrightarrow> (clean (workflows (kb_store k)) \<and> clean (steps (kb_store k)) \<longrightarrow>
     workflows (kb_store k') = workflows (kb_store k) \<and> steps (kb_store k') = steps (kb_store k))"

lemma same_drawing_refl [simp]: "same_drawing k k"
  by (simp add: same_drawing_def)

lemma same_drawing_trans: "same_drawing k k1 \<Longrightarrow> same_drawing k1 k2 \<Longrightarrow> same_drawing k k2"
  by (simp add: same_drawing_def)

lemma same_drawing_flush: "knowledge_flush k = Inr k' \<Longrightarrow> same_drawing k k'"
  by (simp add: same_drawing_def knowledge_flush_drawing flush_clean)

lemma entity_drawing: "get_or_create_entity eid sp actor nid k = Inr (e, k') \<Longrightarrow> same_drawing k k'"
  using same_drawing_flush by (fastforce simp: get_or_create_entity_def Let_def bindE_eq_Inr same_drawing_def split: option.splits)

lemma create_assertion_drawing:
  assumes "create_verified_assertion c actor fresh now k = Inr (a, k')"
  shows "same_drawing k k'"
proof -
  obtain subject k1 object k2 k3 where s: "get_or_create_entity (cl_engagement_id c) (cp_subject (cl_payload c)) actor (fresh 1) k = Inr (subject, k1)"
    and ob: "(case cp_object (cl_payload c) of None \<Rightarrow> Inr (None, k1)
       | Some sp \<Rightarrow> bindE (get_or_create_entity (cl_engagement_id c) sp actor (fresh 2) k1) (\<lambda>(e, k2). Inr (Some (en_id e), k2))) = Inr (object, k2)"
    and f: "knowledge_flush (events (\<lambda>s. s\<lparr>assertions := add (new_assertion c (en_id subject) object actor (fresh 3) now) (assertions s)\<rparr>) k2) = Inr k3"
    and k': "kb_store k' = kb_store k3"
    using assms by (auto simp: create_verified_assertion_def Let_def bindE_eq_Inr)
  have "same_drawing k k2"
    using entity_drawing [OF s] ob by (auto simp: bindE_eq_Inr split: option.splits dest: entity_drawing intro: same_drawing_trans)
  moreover have "same_drawing k2 k'" using same_drawing_flush [OF f] by (simp add: same_drawing_def events_def k')
  ultimately show ?thesis by (rule same_drawing_trans)
qed

lemma review_frame [simp]:
  "workflows (review_events eid c d reason actor a asset s) = workflows s"
  "steps (review_events eid c d reason actor a asset s) = steps s"
  "kb_store (record_decision eid c d reason actor nid k) = kb_store k"
  by (simp_all add: review_events_def Let_def publish_domain_event_def record_decision_def split: option.split)

lemma complete_review_drawing:
  "complete_evidence_review_if_decided c k = (asset, k') \<Longrightarrow>
    workflows (kb_store k') = workflows (kb_store k) \<and> steps (kb_store k') = steps (kb_store k)"
  by (auto simp: complete_evidence_review_if_decided_def events_def split: option.splits if_splits)

lemma accept_drawing:
  assumes "accept_claim eid c actor fresh now k = Inr (a, k')" and "drawn k"
  shows "workflows (kb_store k') = stale_workflows (\<lambda>w. wf_engagement_id w = eid) (workflows (kb_store k))
    \<and> steps (kb_store k') = steps (kb_store k)"
proof -
  obtain x k1 s2 where c: "create_verified_assertion c actor fresh now k = Inr (x, k1)"
    and s: "stale_after_model_change eid (Some actor) now (kb_store k1) = Inr s2"
    and k': "kb_store k' = s2\<lparr>engagements := modify (\<lambda>e. eg_id e = eid) (\<lambda>e. e\<lparr>eg_lifecycle_stage := StModel\<rparr>) (engagements s2)\<rparr>"
    using assms(1) by (auto simp: accept_claim_def bindE_eq_Inr on_store_Inr events_def)
  then show ?thesis using create_assertion_drawing [OF c] model_change_drawing [OF s] assms(2)
    by (simp add: same_drawing_def drawn_def)
qed

lemma review_drawing:
  assumes "review_claim eid cid opr dec reason fresh now k = Inr (r, k')" and "drawn k"
  shows "drawn k'"
proof -
  note d = assms(2) [unfolded drawn_def]
  obtain c dd where ch: "check_review eid cid dec k = Inr (c, dd)"
    using assms(1) by (cases "check_review eid cid dec k") (auto simp: review_claim_def)
  let ?k1 = "record_decision eid c dd reason (op_id opr) (fresh 0) k"
  have eq: "bindE (if dd = CAccepted then accept_claim eid c (op_id opr) fresh now ?k1 else Inr (None, ?k1)) (\<lambda>(a, k2).
     bindE (knowledge_flush k2) (\<lambda>k3. case complete_evidence_review_if_decided c k3 of (asset, k4) \<Rightarrow>
       Inr (a, events (review_events eid c dd reason (op_id opr) a asset) k4))) = Inr (r, k')"
    using assms(1) ch by (simp add: review_claim_def Let_def)
  obtain k2 k3 where k2: "(if dd = CAccepted then accept_claim eid c (op_id opr) fresh now ?k1 else Inr (None, ?k1)) = Inr (r, k2)"
    and k3: "knowledge_flush k2 = Inr k3"
    and k': "k' = events (review_events eid c dd reason (op_id opr) r (fst (complete_evidence_review_if_decided c k3)))
      (snd (complete_evidence_review_if_decided c k3))"
    using eq by (auto simp: bindE_eq_Inr case_prod_beta)
  have d1: "drawn ?k1" using assms(2) by (simp add: drawn_def)
  have "drawn k2"
  proof (cases "dd = CAccepted")
    case True
    then have "accept_claim eid c (op_id opr) fresh now ?k1 = Inr (r, k2)" using k2 by simp
    from accept_drawing [OF this d1] have w: "workflows (kb_store k2) = stale_workflows (\<lambda>w. wf_engagement_id w = eid) (workflows (kb_store k))"
      "steps (kb_store k2) = steps (kb_store k)" by simp_all
    have "drawing_ok (map (outdated (\<lambda>w. wf_engagement_id w = eid)) (current (workflows (kb_store k)))) (current (steps (kb_store k)))"
      by (rule ok_outdated) (use d in \<open>auto simp: draws_on_def\<close>)
    then show ?thesis using d by (simp add: drawn_def w stale_workflows_rows)
  next
    case False
    then have "k2 = ?k1" using k2 by simp
    then show ?thesis using d1 by simp
  qed
  then have "drawn k3" by (simp add: drawn_def knowledge_flush_drawing [OF k3] flush_clean)
  then show ?thesis
    using complete_review_drawing [of c k3] by (cases "complete_evidence_review_if_decided c k3") (simp add: drawn_def k' events_def)
qed

section \<open>Histories\<close>

text \<open>
  One committed transaction: a generation, an edit, an approval or a review, with whatever arguments; or
  any other, which leaves the two workflow tables alone.
\<close>

inductive drawing_step :: "knowledge \<Rightarrow> knowledge \<Rightarrow> bool" where
  Drafted: "generate_current_workflow eid actor fresh now k = Inr (w, k0) \<Longrightarrow> workflow_flush k0 = Inr k' \<Longrightarrow> drawing_step k k'"
| Targeted: "generate_target_workflow eid actor fresh now k = Inr (w, k0) \<Longrightarrow> clean (engagements (kb_store k))
    \<Longrightarrow> workflow_flush k0 = Inr k' \<Longrightarrow> drawing_step k k'"
| Edited: "update_workflow_step eid wid sid actor u k = Inr (st, k0) \<Longrightarrow> workflow_flush k0 = Inr k' \<Longrightarrow> drawing_step k k'"
| Agreed: "approve_workflow eid wid actor reason now at_stale k = Inr (w, k0) \<Longrightarrow> workflow_flush k0 = Inr k' \<Longrightarrow> drawing_step k k'"
| Reviewed: "review_claim eid cid opr dec reason fresh now k = Inr (r, k0) \<Longrightarrow> workflow_flush k0 = Inr k' \<Longrightarrow> drawing_step k k'"
| Elsewhere: "workflows (kb_store k') = workflows (kb_store k) \<Longrightarrow> steps (kb_store k') = steps (kb_store k) \<Longrightarrow> drawing_step k k'"

lemma flushed_drawn: "workflow_flush k = Inr k' \<Longrightarrow> drawn k \<Longrightarrow> drawn k'"
  by (erule flush_drawn) (simp add: drawn_def)

lemma drawing_step_drawn:
  assumes "drawing_step k k'" and "drawn k"
  shows "drawn k'"
  using assms
proof (induction rule: drawing_step.induct)
  case (Drafted eid actor fresh now k w k0 k')
  then show ?case using generate_current_ok flushed_drawn by blast
next
  case (Targeted eid actor fresh now k w k0 k')
  then show ?case using generate_target_ok flushed_drawn by blast
next
  case (Edited eid wid sid actor u k st k0 k')
  then show ?case using update_ok flush_drawn by blast
next
  case (Agreed eid wid actor reason now at_stale k w k0 k')
  then show ?case using approve_ok flushed_drawn by blast
next
  case (Reviewed eid cid opr dec reason fresh now k r k0 k')
  then show ?case using review_drawing flushed_drawn by blast
next
  case (Elsewhere k' k)
  then show ?case by (simp add: drawn_def)
qed

lemma drawing_steps_drawn: "drawing_step\<^sup>*\<^sup>* k k' \<Longrightarrow> drawn k \<Longrightarrow> drawn k'"
  by (induction rule: rtranclp_induct) (auto dest: drawing_step_drawn)

lemma nothing_drawn: "workflows (kb_store k) = [] \<Longrightarrow> steps (kb_store k) = [] \<Longrightarrow> drawn k"
  by (simp add: drawn_def drawing_ok_def one_live_def targets_drawn_def approved_controlled_def steps_placed_def clean_def current_def)

text \<open>
  C13: whatever generations, edits, approvals, reviews and other transactions follow each other, no
  engagement ever has two live workflows of one kind, a draft or approved target workflow rests on the
  approved current workflow of its engagement and cites the same assertions, every approved workflow
  has a step, only target workflows have AI steps, and each AI step of an approved workflow has a
  rationale and a control.
\<close>

theorem workflows_stay_governed:
  assumes "drawing_step\<^sup>*\<^sup>* k k'" and "workflows (kb_store k) = []" and "steps (kb_store k) = []"
  shows "let ws = current (workflows (kb_store k')); sts = current (steps (kb_store k')) in
    (\<forall>w \<in> set ws. \<forall>w' \<in> set ws. wf_status w \<noteq> Stale \<and> wf_status w' \<noteq> Stale
       \<and> wf_engagement_id w = wf_engagement_id w' \<and> wf_kind w = wf_kind w' \<longrightarrow> w = w')
    \<and> (\<forall>w \<in> set ws. wf_status w \<noteq> Stale \<and> wf_kind w = Target \<longrightarrow> (\<exists>c \<in> set ws. draws_on w c))
    \<and> (\<forall>w \<in> set ws. wf_status w = Approved \<longrightarrow> (\<exists>st \<in> set sts. ws_workflow_id st = wf_id w)
         \<and> (\<forall>st \<in> set sts. ws_workflow_id st = wf_id w \<and> ai_step st \<longrightarrow> controlled st))
    \<and> (\<forall>st \<in> set sts. \<exists>w \<in> set ws. ws_workflow_id st = wf_id w \<and> (ai_step st \<longrightarrow> wf_kind w = Target))"
  using drawing_steps_drawn [OF assms(1) nothing_drawn [OF assms(2,3)]]
  by (simp add: drawn_def drawing_ok_def one_live_def targets_drawn_def approved_controlled_def steps_placed_def Let_def)

text \<open>
  C14: an edit that was checked while the workflow was a draft, and written after another transaction
  approved it, goes through, because the edit does not lock the workflow: the approved workflow then has
  an AI step without any control.
\<close>

theorem edit_races_approval:
  assumes "check_step_update eid wid sid u k = Inr (w, st, Some a)" and "a \<in> {AAi, AAiHuman}" and "su_controls u = Some []"
    and "drawn k" and "approve_workflow eid wid actor reason now at_stale k = Inr (w', k1)"
  shows "let k2 = events (write_step_update eid editor w sid u (Some a)) k1 in
    (\<exists>v \<in> set (current (workflows (kb_store k2))). wf_id v = wid \<and> wf_status v = Approved)
    \<and> (\<exists>x \<in> set (current (steps (kb_store k2))). ws_id x = sid \<and> ws_workflow_id x = wid \<and> ai_step x \<and> \<not> controlled x)"
proof -
  note c = check_step_update_Inr [OF assms(1,4)]
  note ap = approve_effect [OF assms(5,4)]
  let ?x = "edited_step u (Some a) st"
  have s2: "workflows (kb_store (events (write_step_update eid editor w sid u (Some a)) k1)) = workflows (kb_store k1)"
    "steps (kb_store (events (write_step_update eid editor w sid u (Some a)) k1)) = modify (\<lambda>x. ws_id x = sid) (edited_step u (Some a)) (steps (kb_store k1))"
    by (simp_all add: events_def)
  have "(if ws_id st = sid then ?x else st) \<in> (\<lambda>x. if ws_id x = sid then edited_step u (Some a) x else x) ` set (current (steps (kb_store k)))"
    using c(4) by (rule imageI)
  then have m: "?x \<in> set (current (modify (\<lambda>x. ws_id x = sid) (edited_step u (Some a)) (steps (kb_store k1))))"
    by (simp only: current_modify set_map ap(2) c(5) if_True simp_thms)
  have x: "ws_id ?x = sid \<and> ws_workflow_id ?x = wid \<and> ai_step ?x \<and> \<not> controlled ?x"
    using assms(2,3) c(5,6) by (auto simp: ai_step_def or_keep_def controlled_def edited_step_def)
  show ?thesis unfolding Let_def s2 by (rule conjI [OF ap(1)], rule bexI [where x = ?x], rule x, rule m)
qed

subsection \<open>A sample\<close>

definition owning_entity :: "nat \<Rightarrow> string \<Rightarrow> operating_entity" where
  "owning_entity i name = \<lparr>en_id = word_of_nat i, en_engagement_id = 1, en_type = lit ''role'', en_key = lit name,
     en_name = lit name, en_status = lit ''verified'', en_verified_by_id = 9\<rparr>"

definition owning_assertion :: assertion where
  "owning_assertion = \<lparr>as_id = 3, as_engagement_id = 1, as_subject_entity_id = 1, as_predicate = lit ''OWNS'',
     as_object_entity_id = Some 2, as_value = obj [(''summary'', JStr (lit ''s'')), (''condition'', JNull), (''is_exception'', JBool False)],
     as_status = Verified, as_confidence = lit ''0.9900'', as_valid_from = None, as_valid_until = None, as_recorded_at = 0,
     as_candidate_claim_id = 4, as_verified_by_id = 9\<rparr>"

definition owned :: knowledge where
  "owned = (empty_knowledge (empty_store\<lparr>engagements := from_rows [sample_engagement], assertions := from_rows [owning_assertion]\<rparr>))
     \<lparr>kb_entities := from_rows [owning_entity 1 ''a'', owning_entity 2 ''b'']\<rparr>"

lemma lower_w: "lower (lit ''w'') = lit ''w''"
  by code_simp

lemma owned_projection: "List.map_filter (project_assertion owned) (verified_assertions 1 (kb_store owned))
    = [step_of owning_assertion ''ownership-'' ''Verified process ownership.'' HumanTask AHuman
        ''Verified ownership is currently exercised by a human accountable owner.''
        (lit ''Oversee '' @ lit ''b'') (lit ''a'') None (lit ''Named owner remains accountable'')]"
  by (simp add: owned_def empty_knowledge_def empty_store_def verified_assertions_def select_sorted_single owning_assertion_def
     project_assertion_def session_get_def lookup_simps owning_entity_def project_relation_def List.map_filter_def)

lemma no_workflows: "workflows (kb_store owned) = []" "steps (kb_store owned) = []"
  by (simp_all add: owned_def empty_knowledge_def empty_store_def)

lemma owned_staled: "on_store (stale_after_current_workflow_change 1 (Some 9) 0) (events (stale_kind 1 Current) owned) = Inr owned"
  by (simp add: owned_def empty_knowledge_def empty_store_def on_store_def stale_after_current_workflow_change_def
    stale_economics_and_artifacts_def stale_after_economic_change_def stale_all_after_economic_change_def
    stale_all_after_current_workflow_change_def lock_active_engagement_def stale_workflows_def stale_cases_def stale_artifacts_def
    bulk_update_def lookup_simps sample_engagement_def events_def stale_kind_def select_Nil)

lemma owned_engagement: "session_get eg_id 1 (engagements (kb_store owned)) = Some sample_engagement"
  by (simp add: owned_def empty_knowledge_def empty_store_def session_get_def lookup_simps sample_engagement_def)

lemma owned_newest: "newest_workflow 1 kind P (kb_store owned) = None"
  by (simp add: newest_workflow_def no_workflows select_Nil)

definition owned_workflow :: workflow where
  "owned_workflow = new_workflow 50 1 Current 1 (lit ''w'' @ lit '' '' @ em_dash @ lit '' Current State'')
     (lit ''Represent the verified '' @ lit ''w'' @ lit '' workflow without redesigning it.'') None [uuid_str 3] 9"

definition owned_step :: workflow_step where
  "owned_step = step_row 51 1 50 1 (step_of owning_assertion ''ownership-'' ''Verified process ownership.'' HumanTask AHuman
        ''Verified ownership is currently exercised by a human accountable owner.''
        (lit ''Oversee '' @ lit ''b'') (lit ''a'') None (lit ''Named owner remains accountable''))"

lemma owned_draft: "draft_current sample_engagement 9 (\<lambda>n. word_of_nat (50 + n)) 0 owned
    = bindE (add_workflow owned_workflow [owned_step] owned) (\<lambda>k2.
        Inr (owned_workflow, events (record_workflow_event owned_workflow 9 (lit ''workflow.current_drafted'') []) k2))"
proof -
  have v: "map (\<lambda>a. uuid_str (as_id a)) (verified_assertions 1 (kb_store owned)) = [uuid_str 3]"
    by (simp add: owned_def empty_knowledge_def empty_store_def verified_assertions_def select_sorted_single owning_assertion_def)
  have e: "eg_id sample_engagement = 1" "eg_workflow_name sample_engagement = lit ''w''" by (simp_all add: sample_engagement_def)
  show ?thesis
    by (simp add: draft_current_def e Let_def owned_projection require_def owned_staled v next_workflow_version_def owned_newest lower_w
      owned_workflow_def owned_step_def)
qed

lemma owned_drafted: "\<exists>k0. generate_current_workflow 1 9 (\<lambda>n. word_of_nat (50 + n)) 0 owned = Inr (owned_workflow, k0)
    \<and> (\<exists>k'. workflow_flush k0 = Inr k' \<and> current (steps (kb_store k')) = [owned_step])"
  apply (simp add: generate_current_workflow_def owned_engagement owned_newest owned_draft del: of_nat_add)
  apply (simp add: add_workflow_def workflow_flush_def owned_def run_simps events_def workflow_keys_def owning_entity_def entity_types_def require_def
    current_add current_flush current_of_row record_workflow_event_def Let_def publish_domain_event_def record_audit_def owned_workflow_def owned_step_def
    new_workflow_def step_row_def workflow_identity_def owning_assertion_def)
  done

theorem workflows_stay_governed_witness:
  "\<exists>k'. drawing_step\<^sup>*\<^sup>* owned k' \<and> current (steps (kb_store k')) = [owned_step]
     \<and> (\<forall>st \<in> set (current (steps (kb_store k'))). \<exists>w \<in> set (current (workflows (kb_store k'))). ws_workflow_id st = wf_id w)"
proof -
  obtain k0 k' where g: "generate_current_workflow 1 9 (\<lambda>n. word_of_nat (50 + n)) 0 owned = Inr (owned_workflow, k0)"
    and f: "workflow_flush k0 = Inr k'" and s: "current (steps (kb_store k')) = [owned_step]"
    using owned_drafted by (elim exE conjE) (rule that)
  have r: "drawing_step\<^sup>*\<^sup>* owned k'" by (rule r_into_rtranclp) (rule drawing_step.Drafted [OF g f])
  have "\<forall>st \<in> set (current (steps (kb_store k'))). \<exists>w \<in> set (current (workflows (kb_store k'))). ws_workflow_id st = wf_id w"
    using workflows_stay_governed [OF r no_workflows] unfolding Let_def by blast
  with r s show ?thesis by (intro exI [of _ k'] conjI)
qed

text \<open>An approved current workflow, and the draft of its target with one step.\<close>

definition agreed_current :: workflow where
  "agreed_current = (new_workflow 60 1 Current 1 [] [] None [] 9)\<lparr>wf_status := Approved\<rparr>"

definition open_target :: workflow where
  "open_target = new_workflow 61 1 Target 1 [] [] (Some 60) [] 9"

definition design_store :: store where
  "design_store = empty_store\<lparr>engagements := from_rows [sample_engagement],
     workflows := from_rows [agreed_current, open_target],
     steps := from_rows [owned_step\<lparr>ws_id := 70, ws_workflow_id := 60\<rparr>, owned_step\<lparr>ws_id := 71, ws_workflow_id := 61\<rparr>]\<rparr>"

definition designed :: knowledge where
  "designed = empty_knowledge design_store"

definition grant_ai :: step_update where
  "grant_ai = \<lparr>su_name = None, su_description = None, su_actor_label = None, su_allocation = Some (lit ''ai''),
     su_rationale = None, su_controls = Some []\<rparr>"

lemmas design_simps = designed_def empty_knowledge_def design_store_def empty_store_def lookup_simps agreed_current_def open_target_def
  new_workflow_def owned_step_def step_row_def

lemma designed_drawn: "drawn designed"
  by (simp add: drawn_def drawing_ok_def one_live_def targets_drawn_def approved_controlled_def steps_placed_def clean_from_rows
    current_from_rows design_simps draws_on_def ai_step_def step_of_def)

lemma ai_allocation: "allocation_of (lit ''ai'') = Some AAi"
  by code_simp

lemma designed_checked: "check_step_update 1 61 71 grant_ai designed = Inr (open_target, owned_step\<lparr>ws_id := 71, ws_workflow_id := 61\<rparr>, Some AAi)"
  by (simp add: check_step_update_def get_workflow_def design_simps grant_ai_def new_allocation_def ai_allocation the_or_def require_def)

lemma designed_approved: "\<exists>w k'. approve_workflow 1 61 9 None 0 0 designed = Inr (w, k')"
proof -
  have g: "get_workflow 1 61 (kb_store designed) = Inr open_target"
    by (simp add: get_workflow_def design_simps the_or_def)
  have l: "list_workflow_steps 61 (kb_store designed) = [owned_step\<lparr>ws_id := 71, ws_workflow_id := 61\<rparr>]"
    by (simp add: list_workflow_steps_def select_sorted_def from_rows_def stored_def design_simps)
  have c: "check_target_approval open_target designed = Inr ()"
  proof -
    have "wf_id open_target = 61" by (simp add: open_target_def new_workflow_def)
    moreover have "\<not> ai_step (owned_step\<lparr>ws_id := 71, ws_workflow_id := 61\<rparr>)"
      by (simp add: ai_step_def owned_step_def step_row_def step_of_def)
    moreover have "(case Option.bind (wf_source_workflow_id open_target) (\<lambda>i. session_get wf_id i (workflows (kb_store designed))) of
         None \<Rightarrow> False | Some source \<Rightarrow> wf_status source = Approved)"
      by (simp add: design_simps session_get_def)
    ultimately show ?thesis by (simp add: check_target_approval_def l require_def)
  qed
  have s: "on_store (stale_after_target_workflow_change 1 (Some 9) 0) designed = Inr designed"
    by (simp add: designed_def empty_knowledge_def design_store_def empty_store_def on_store_def stale_after_target_workflow_change_def
      stale_economics_and_artifacts_def stale_after_economic_change_def stale_all_after_economic_change_def
      stale_all_after_target_workflow_change_def lock_active_engagement_def stale_cases_def stale_artifacts_def
      bulk_update_def lookup_simps sample_engagement_def select_Nil)
  have a: "approve_kind open_target (review_reason None) 9 0 designed = Inr designed"
    using c s by (simp add: approve_kind_def open_target_def new_workflow_def)
  show ?thesis
    apply (simp add: approve_workflow_def g l a Let_def require_def)
    apply (simp add: design_simps workflow_flush_def workflow_keys_def run_simps events_def require_def current_modify workflow_identity_def
      record_workflow_event_def Let_def publish_domain_event_def record_audit_def approved_workflow_row_def)
    done
qed

theorem edit_races_approval_witness:
  "\<exists>w k1. approve_workflow 1 61 9 None 0 0 designed = Inr (w, k1)
     \<and> (\<exists>x \<in> set (current (steps (kb_store (events (write_step_update 1 9 open_target 71 grant_ai (Some AAi)) k1)))).
         ws_workflow_id x = 61 \<and> ai_step x \<and> \<not> controlled x)"
proof -
  obtain w k1 where a: "approve_workflow 1 61 9 None 0 0 designed = Inr (w, k1)" using designed_approved by (elim exE) (rule that)
  have c: "su_controls grant_ai = Some []" by (simp add: grant_ai_def)
  have m: "AAi \<in> {AAi, AAiHuman}" by simp
  from edit_races_approval [OF designed_checked m c designed_drawn a, of 9] a show ?thesis
    unfolding Let_def by (intro exI [of _ w] exI [of _ k1]) blast
qed

end
